(* ===== verification/Prelude.thy ===== *)
theory Prelude
  imports Main "HOL-Library.Char_ord" "HOL-Library.List_Lexorder"
begin

text \<open>
  Shared vocabulary of the development.

  \<^item> The exceptions of the program, grouped by the base class that the \<open>except\<close> clauses of
    the source name (so that catching a base class is matching one constructor).
  \<^item> \<open>'a res\<close>: the outcome of pure fallible code (\<open>Inl\<close> a raised exception, \<open>Inr\<close> a value).
  \<^item> \<open>('w, 'a) prog\<close>: code that reads and writes a world \<open>'w\<close> and may raise. The world of the
    raising branch is kept: effects made before an exception stay made, as in Python.
  \<^item> \<open>triple\<close>: the Hoare triple of such code, with one postcondition per way of leaving it.
  \<^item> The Python string predicates the validators use. A Python \<open>str\<close> is a \<open>string\<close> whose
    characters are read as the code points below 256.
  \<^item> The \<open>named_theorems\<close> collections \<open>prog_simps\<close>, \<open>triple_rules\<close> and \<open>wf_defs\<close>.
\<close>

named_theorems prog_simps "evaluation of programs"
named_theorems triple_rules "structural Hoare rules"
named_theorems wf_defs "well-formedness predicates"

section \<open>Exceptions\<close>

text \<open>\<open>runtime/position_management_execution/errors.py\<close>: the subclasses of
  \<open>PositionManagementExecutionError\<close>.\<close>

datatype pm_execution_error =
    PositionManagementExecutionUnavailable
  | PositionManagementExecutionTimeout
  | PositionManagementExecutionNetworkFailure
  | PositionManagementExecutionProtocolError
  | PositionManagementExecutionPublicError int string
  | PositionManagementExecutionNotReady

text \<open>\<open>runtime/open_position/errors.py\<close>: the subclasses of \<open>OpenPositionResolutionError\<close>.\<close>

datatype open_position_error =
    OpenPositionLookupUnavailable
  | OpenPositionLookupTimeout
  | OpenPositionLookupNetworkFailure
  | OpenPositionLookupProtocolError
  | OpenPositionLookupPublicError int string
  | OpenPositionLookupExecutionNotReady

text \<open>\<open>runtime/abi/entry_package_errors.py\<close>.\<close>

datatype entry_package_error =
    AbiEntryPackageTimeout
  | AbiEntryPackageNetworkFailure
  | AbiEntryPackageProtocolError

text \<open>\<open>runtime/abi/entry_cycle_recovery_errors.py\<close>.\<close>

datatype recovery_error =
    AbiEntryCycleRecoveryTimeout
  | AbiEntryCycleRecoveryNetworkFailure
  | AbiEntryCycleRecoveryProtocolError
  | AbiEntryCycleRecoveryUnavailable
  | AbiEntryCycleRecoveryUnknownTradeCycleBinding
  | AbiEntryCycleRecoveryExecutionNotReady

text \<open>\<open>runtime/state/errors.py\<close>.\<close>

datatype state_error =
    StrategyInstanceIdentityConflict string
  | StrategyInstanceRegistrationConflict string
  | StrategyInstanceStateNotFound string

text \<open>\<open>runtime/routing/errors.py\<close> and \<open>runtime/engine/errors.py\<close>: what routing one bar may raise.\<close>

datatype projection_error =
    StrategyInstanceBindingError string
  | OpenTradeContextUnavailable string
  | StrategyEngineProjectionPublicError int string string
  | StrategyEngineProjectionTimeout
  | StrategyEngineProjectionNetworkFailure
  | StrategyEngineProjectionProtocolError

text \<open>\<open>runtime/enabled_control/errors.py\<close>, \<open>runtime/operator_commands/errors.py\<close>,
  \<open>runtime/strategy_delete/errors.py\<close> and \<open>runtime/chart_layers/errors.py\<close>: the subclasses of
  \<open>EnabledControlRefused\<close>; the last carries the engine's code and message.\<close>

datatype refusal =
    StrategyInstanceNotFound
  | InstanceBusy
  | RecoveryPending
  | PositionOpen
  | CycleNotSettled
  | CancelNotConfirmed
  | AbiUnavailable
  | FileChanged
  | IdentityChanged
  | WriteFailed
  | CatalogUnavailable
  | NoPosition
  | StillEnabled
  | TrashNameTaken
  | MoveFailed
  | EngineUnavailable
  | EngineRejected string string

text \<open>\<open>utility/deployment_catalog/enabled_writer.py\<close> and \<open>trash_mover.py\<close>: the subclasses of
  \<open>EnabledFileChangeError\<close>.\<close>

datatype file_change_error =
    DeploymentNotInCatalog
  | DeploymentFileChanged
  | DeploymentIdentityWouldChange
  | DeploymentFileWriteFailed
  | DeploymentTrashNameTaken
  | DeploymentTrashMoveFailed

text \<open>\<open>utility/committed_bar/errors.py\<close>.\<close>

datatype upstream_stage = DEPLOYMENT_CATALOG | DEPLOYMENT_SELECTION

text \<open>\<open>runtime/trading_state/errors.py\<close>.\<close>

datatype trading_state_error = TradingStateCatalogUnavailable | StateUnavailable

datatype exn =
    ValueError string
  | TypeError string
  | KeyError string
  | AttributeError string
  | JSONDecodeError
  | UnicodeDecodeError
  | StateRecordDecodeError
  | AssertionError
  | RuntimeError string
  | OSError string
  | FirstFillInvariantError string
  | EntryReconciliationInvariantError string
  | EntryExecutionNotReady string
  | EntryReconciliationExecutionError string
  | PositionManagementDecisionInvariantError string
  | PositionManagementExecutionInvariantError string
  | PositionManagementExecutionError pm_execution_error
  | OpenPositionResolutionError open_position_error
  | AbiEntryPackageClientError entry_package_error
  | AbiEntryCycleRecoveryClientError recovery_error
  | StrategyInstanceStateError state_error
  | StrategyInstanceStateReplayError nat
  | StrategyInstanceStateStorePoisoned
  | StrategyProjectionError projection_error
  | UnknownStrategyProjectionError
  | EnabledControlRefused refusal
  | EnabledFileChangeError file_change_error
  | DeploymentCatalogUnavailableError
  | StrategyInstanceBusy string
  | CommittedBarPreparationError upstream_stage
  | IntakeNotAccepting
  | QueueFull
  | QueueEmpty
  | TradingStateError trading_state_error

section \<open>Pure outcomes\<close>

type_synonym 'a res = "exn + 'a"

definition res_bind :: "'a res \<Rightarrow> ('a \<Rightarrow> 'b res) \<Rightarrow> 'b res" where
  "res_bind r f = (case r of Inl e \<Rightarrow> Inl e | Inr x \<Rightarrow> f x)"

lemma res_bind_simps [simp]:
  "res_bind (Inl e) f = Inl e"
  "res_bind (Inr x) f = f x"
  by (simp_all add: res_bind_def)

lemma res_bind_eq_Inr:
  "res_bind r f = Inr y \<longleftrightarrow> (\<exists>x. r = Inr x \<and> f x = Inr y)"
  by (cases r) auto

lemma res_bind_eq_Inl:
  "res_bind r f = Inl e \<longleftrightarrow> r = Inl e \<or> (\<exists>x. r = Inr x \<and> f x = Inl e)"
  by (cases r) auto

lemma res_bind_assoc: "res_bind (res_bind r f) g = res_bind r (\<lambda>x. res_bind (f x) g)"
  by (cases r) auto

text \<open>Collect the values of a list of fallible computations, stopping at the first failure.\<close>

fun res_map :: "('a \<Rightarrow> 'b res) \<Rightarrow> 'a list \<Rightarrow> 'b list res" where
  "res_map f [] = Inr []"
| "res_map f (x # xs) = res_bind (f x) (\<lambda>y. res_bind (res_map f xs) (\<lambda>ys. Inr (y # ys)))"

lemma res_map_length: "res_map f xs = Inr ys \<Longrightarrow> length ys = length xs"
  by (induction xs arbitrary: ys) (auto simp: res_bind_eq_Inr)

lemma res_map_all: "(\<And>x. x \<in> set xs \<Longrightarrow> f x = Inr (g x)) \<Longrightarrow> res_map f xs = Inr (map g xs)"
  by (induction xs) auto

lemma res_map_members: "res_map f xs = Inr ys \<Longrightarrow> (\<exists>x \<in> set xs. f x = Inr y) \<longleftrightarrow> y \<in> set ys"
  by (induction xs arbitrary: ys) (auto simp: res_bind_eq_Inr)

lemma res_map_returns: "(\<exists>ys. res_map f xs = Inr ys) \<longleftrightarrow> (\<forall>x \<in> set xs. \<exists>y. f x = Inr y)"
  by (induction xs) (auto simp: res_bind_eq_Inr)

section \<open>Programs over a world\<close>

type_synonym ('w, 'a) prog = "'w \<Rightarrow> 'a res \<times> 'w"

definition ret :: "'a \<Rightarrow> ('w, 'a) prog" where
  "ret x = (\<lambda>w. (Inr x, w))"

definition raise :: "exn \<Rightarrow> ('w, 'a) prog" where
  "raise e = (\<lambda>w. (Inl e, w))"

definition lift_res :: "'a res \<Rightarrow> ('w, 'a) prog" where
  "lift_res r = (\<lambda>w. (r, w))"

definition bindp :: "('w, 'a) prog \<Rightarrow> ('a \<Rightarrow> ('w, 'b) prog) \<Rightarrow> ('w, 'b) prog" where
  "bindp m f = (\<lambda>w. case m w of (Inl e, w') \<Rightarrow> (Inl e, w') | (Inr x, w') \<Rightarrow> f x w')"

text \<open>\<open>try: m except Exception as e: h e\<close>.\<close>

definition catchp :: "('w, 'a) prog \<Rightarrow> (exn \<Rightarrow> ('w, 'a) prog) \<Rightarrow> ('w, 'a) prog" where
  "catchp m h = (\<lambda>w. case m w of (Inl e, w') \<Rightarrow> h e w' | (Inr x, w') \<Rightarrow> (Inr x, w'))"

text \<open>\<open>try: m except ... : h else: k\<close>, where only \<open>m\<close> is inside the \<open>try\<close>.\<close>

definition tryp ::
    "('w, 'a) prog \<Rightarrow> (exn \<Rightarrow> ('w, 'b) prog) \<Rightarrow> ('a \<Rightarrow> ('w, 'b) prog) \<Rightarrow> ('w, 'b) prog" where
  "tryp m h k = (\<lambda>w. case m w of (Inl e, w') \<Rightarrow> h e w' | (Inr x, w') \<Rightarrow> k x w')"

text \<open>\<open>try: m finally: c\<close>.\<close>

definition finallyp :: "('w, 'a) prog \<Rightarrow> ('w, unit) prog \<Rightarrow> ('w, 'a) prog" where
  "finallyp m c = (\<lambda>w. case m w of (r, w') \<Rightarrow> (case c w' of (Inl e, w'') \<Rightarrow> (Inl e, w'') | (Inr _, w'') \<Rightarrow> (r, w'')))"

lemma ret_apply [simp, prog_simps]: "ret x w = (Inr x, w)"
  by (simp add: ret_def)

lemma raise_apply [simp, prog_simps]: "raise e w = (Inl e, w)"
  by (simp add: raise_def)

lemma lift_res_apply [simp, prog_simps]: "lift_res r w = (r, w)"
  by (simp add: lift_res_def)

lemma bindp_apply [prog_simps]:
  "bindp m f w = (case m w of (Inl e, w') \<Rightarrow> (Inl e, w') | (Inr x, w') \<Rightarrow> f x w')"
  by (simp add: bindp_def)

lemma catchp_apply [prog_simps]:
  "catchp m h w = (case m w of (Inl e, w') \<Rightarrow> h e w' | (Inr x, w') \<Rightarrow> (Inr x, w'))"
  by (simp add: catchp_def)

lemma tryp_apply [prog_simps]:
  "tryp m h k w = (case m w of (Inl e, w') \<Rightarrow> h e w' | (Inr x, w') \<Rightarrow> k x w')"
  by (simp add: tryp_def)

lemma bindp_ret [simp]: "bindp (ret x) f = f x"
  by (rule ext) (simp add: bindp_def)

lemma bindp_ret_right: "bindp m ret = m"
  by (rule ext) (simp add: bindp_def ret_def split: prod.splits sum.splits)

lemma bindp_raise [simp]: "bindp (raise e) f = raise e"
  by (rule ext) (simp add: bindp_def)

section \<open>Hoare triples\<close>

definition triple ::
    "('w \<Rightarrow> bool) \<Rightarrow> ('w, 'a) prog \<Rightarrow> ('a \<Rightarrow> 'w \<Rightarrow> bool) \<Rightarrow> (exn \<Rightarrow> 'w \<Rightarrow> bool) \<Rightarrow> bool" where
  "triple P m Q E \<longleftrightarrow>
     (\<forall>w. P w \<longrightarrow> (case m w of (Inr x, w') \<Rightarrow> Q x w' | (Inl e, w') \<Rightarrow> E e w'))"

lemma tripleI:
  assumes "\<And>w x w'. P w \<Longrightarrow> m w = (Inr x, w') \<Longrightarrow> Q x w'"
    and "\<And>w e w'. P w \<Longrightarrow> m w = (Inl e, w') \<Longrightarrow> E e w'"
  shows "triple P m Q E"
  using assms by (auto simp: triple_def split: prod.splits sum.splits)

lemma tripleD_Inr: "triple P m Q E \<Longrightarrow> P w \<Longrightarrow> m w = (Inr x, w') \<Longrightarrow> Q x w'"
  by (auto simp: triple_def split: prod.splits sum.splits)

lemma tripleD_Inl: "triple P m Q E \<Longrightarrow> P w \<Longrightarrow> m w = (Inl e, w') \<Longrightarrow> E e w'"
  by (auto simp: triple_def split: prod.splits sum.splits)

lemma triple_pre: "triple P' m Q E \<Longrightarrow> (\<And>w. P w \<Longrightarrow> P' w) \<Longrightarrow> triple P m Q E"
  by (auto simp: triple_def)

lemma triple_post:
  assumes "triple P m Q' E'"
    and "\<And>x w. Q' x w \<Longrightarrow> Q x w" and "\<And>e w. E' e w \<Longrightarrow> E e w"
  shows "triple P m Q E"
  using assms by (fastforce simp: triple_def split: prod.splits sum.splits)

lemma triple_ret [triple_rules]: "(\<And>w. P w \<Longrightarrow> Q x w) \<Longrightarrow> triple P (ret x) Q E"
  by (simp add: triple_def)

lemma triple_raise [triple_rules]: "(\<And>w. P w \<Longrightarrow> E e w) \<Longrightarrow> triple P (raise e) Q E"
  by (simp add: triple_def)

lemma triple_lift_res [triple_rules]:
  "(\<And>x w. r = Inr x \<Longrightarrow> P w \<Longrightarrow> Q x w) \<Longrightarrow> (\<And>e w. r = Inl e \<Longrightarrow> P w \<Longrightarrow> E e w)
    \<Longrightarrow> triple P (lift_res r) Q E"
  by (cases r) (simp_all add: triple_def)

lemma triple_bind [triple_rules]:
  assumes "triple P m R E" and "\<And>x. triple (R x) (f x) Q E"
  shows "triple P (bindp m f) Q E"
  using assms by (fastforce simp: triple_def bindp_def split: prod.splits sum.splits)

lemma triple_catch:
  assumes "triple P m Q F" and "\<And>e. triple (F e) (h e) Q E"
  shows "triple P (catchp m h) Q E"
  using assms by (fastforce simp: triple_def catchp_def split: prod.splits sum.splits)

lemma triple_try:
  assumes "triple P m R F" and "\<And>e. triple (F e) (h e) Q E" and "\<And>x. triple (R x) (k x) Q E"
  shows "triple P (tryp m h k) Q E"
  using assms by (fastforce simp: triple_def tryp_def split: prod.splits sum.splits)

lemma triple_if:
  assumes "b \<Longrightarrow> triple P m Q E" and "\<not> b \<Longrightarrow> triple P m' Q E"
  shows "triple P (if b then m else m') Q E"
  using assms by simp

lemma triple_case_option:
  assumes "z = None \<Longrightarrow> triple P m Q E" and "\<And>a. z = Some a \<Longrightarrow> triple P (f a) Q E"
  shows "triple P (case z of None \<Rightarrow> m | Some a \<Rightarrow> f a) Q E"
  using assms by (cases z) auto

lemma triple_pure: "(F \<Longrightarrow> triple P m Q E) \<Longrightarrow> triple (\<lambda>w. F \<and> P w) m Q E"
  by (auto simp: triple_def)

lemma triple_ex: "(\<And>a. triple (P a) m Q E) \<Longrightarrow> triple (\<lambda>w. \<exists>a. P a w) m Q E"
  by (rule tripleI) (auto dest: tripleD_Inr tripleD_Inl)

lemma triple_ex_pure:
  "(\<And>a. F a \<Longrightarrow> triple (P a) m Q E) \<Longrightarrow> triple (\<lambda>w. \<exists>a. F a \<and> P a w) m Q E"
  by (rule triple_ex) (rule triple_pure)

text \<open>Sequencing rules for the usual shape of a handler: a pure step keeps the world, and a step
  returns a fact about its value besides the new state of the world.\<close>

lemma triple_bind_lift:
  assumes "\<And>x. r = Inr x \<Longrightarrow> triple P (f x) Q E" and "\<And>e w. r = Inl e \<Longrightarrow> P w \<Longrightarrow> E e w"
  shows "triple P (bindp (lift_res r) f) Q E"
  using assms by (cases r) (auto simp: triple_def bindp_def)

lemma triple_seq:
  assumes "triple P m (\<lambda>x w. F x \<and> R x w) E" and "\<And>x. F x \<Longrightarrow> triple (R x) (f x) Q E"
  shows "triple P (bindp m f) Q E"
  by (rule triple_bind [OF assms(1)]) (auto intro: triple_pure assms(2))

lemma triple_try_seq:
  assumes "triple P m (\<lambda>x w. F x \<and> R x w) G" and "\<And>e. triple (G e) (h e) Q E"
    and "\<And>x. F x \<Longrightarrow> triple (R x) (k x) Q E"
  shows "triple P (tryp m h k) Q E"
  by (rule triple_try [OF assms(1,2)]) (auto intro: triple_pure assms(3))

lemma triple_consequence:
  assumes "triple P' m Q' E'" and "\<And>w. P w \<Longrightarrow> P' w"
    and "\<And>x w. Q' x w \<Longrightarrow> Q x w" and "\<And>e w. E' e w \<Longrightarrow> E e w"
  shows "triple P m Q E"
  using assms by (fastforce simp: triple_def split: prod.splits sum.splits)

section \<open>Python strings\<close>

text \<open>\<open>str.isspace\<close> on the code points below 256.\<close>

definition py_isspace :: "char \<Rightarrow> bool" where
  "py_isspace c \<longleftrightarrow> (let n = (of_char c :: nat) in (9 \<le> n \<and> n \<le> 13) \<or> (28 \<le> n \<and> n \<le> 32) \<or> n = 133 \<or> n = 160)"

definition py_lstrip :: "string \<Rightarrow> string" where
  "py_lstrip s = dropWhile py_isspace s"

definition py_rstrip :: "string \<Rightarrow> string" where
  "py_rstrip s = rev (dropWhile py_isspace (rev s))"

definition py_strip :: "string \<Rightarrow> string" where
  "py_strip s = py_rstrip (py_lstrip s)"

text \<open>The truth value of \<open>s.strip()\<close>: some character is not white space.\<close>

definition nonblank :: "string \<Rightarrow> bool" where
  "nonblank s \<longleftrightarrow> py_strip s \<noteq> []"

text \<open>\<open>str.split(sep)\<close> for a separator of one character.\<close>

fun split_on :: "char \<Rightarrow> string \<Rightarrow> string list" where
  "split_on sep [] = [[]]"
| "split_on sep (c # cs) =
     (if c = sep then [] # split_on sep cs
      else case split_on sep cs of [] \<Rightarrow> [[c]] | p # ps \<Rightarrow> (c # p) # ps)"

lemma nonblank_iff: "nonblank s \<longleftrightarrow> (\<exists>c \<in> set s. \<not> py_isspace c)"
proof -
  have "py_strip s = [] \<longleftrightarrow> (\<forall>c \<in> set s. py_isspace c)"
  proof -
    have "py_strip s = [] \<longleftrightarrow> (\<forall>c \<in> set (dropWhile py_isspace s). py_isspace c)"
      by (simp add: py_strip_def py_rstrip_def py_lstrip_def)
    also have "\<dots> \<longleftrightarrow> (\<forall>c \<in> set s. py_isspace c)"
      by (induction s) auto
    finally show ?thesis .
  qed
  then show ?thesis by (auto simp: nonblank_def)
qed

lemma nonblank_nonempty: "nonblank s \<Longrightarrow> s \<noteq> []"
  by (auto simp: nonblank_iff)

lemma py_strip_id:
  assumes "s \<noteq> []" and "\<not> py_isspace (hd s)" and "\<not> py_isspace (last s)"
  shows "py_strip s = s"
proof -
  from assms(1,2) have l: "py_lstrip s = s"
    by (cases s) (simp_all add: py_lstrip_def)
  from assms(1,3) have "dropWhile py_isspace (rev s) = rev s"
    by (cases s rule: rev_cases) simp_all
  with l show ?thesis by (simp add: py_strip_def py_rstrip_def)
qed

end
