(* ===== verification/Decimal_Text.thy ===== *)
theory Decimal_Text
  imports Prelude Complex_Main
begin

text \<open>
  \<open>shared/decimal_text.py\<close>: the exact-decimal grammar of the runtime and the canonical decimal
  text every price is stored as.

  The part of Python's \<open>decimal\<close> module the code uses is modelled here: the constructor
  \<open>Decimal(text)\<close> (white space stripped, underscores dropped, sign, digits, fraction, exponent,
  the special values, and the exponent range of the C implementation, outside of which it raises
  \<open>InvalidOperation\<close>), \<open>is_finite\<close>, and \<open>format(number, "f")\<close>.

  Proved: a text accepted by the grammar is a decimal numeral, its positivity flag is the sign of
  its value, the normalised text is a fixed point of normalisation, and two texts have equal
  normal forms exactly when they have equal values.
\<close>

section \<open>Digits\<close>

definition is_digit :: "char \<Rightarrow> bool" where
  "is_digit c \<longleftrightarrow> CHR ''0'' \<le> c \<and> c \<le> CHR ''9''"

definition digit_char :: "nat \<Rightarrow> char" where
  "digit_char n = ''0123456789'' ! (n mod 10)"

definition digit_val :: "char \<Rightarrow> nat" where
  "digit_val c = of_char c - 48"

fun digits_val_from :: "nat \<Rightarrow> string \<Rightarrow> nat" where
  "digits_val_from n [] = n"
| "digits_val_from n (c # cs) = digits_val_from (10 * n + digit_val c) cs"

definition digits_val :: "string \<Rightarrow> nat" where
  "digits_val s = digits_val_from 0 s"

fun digits_of :: "nat \<Rightarrow> string" where
  "digits_of n = (if n < 10 then [digit_char n] else digits_of (n div 10) @ [digit_char n])"

declare digits_of.simps [simp del]

section \<open>The exact-decimal grammar\<close>

text \<open>One digit loop of the scanner: the count of digits read so far, whether one of them was not
  \<open>0\<close>, and the text that is left.\<close>

fun scan_digits :: "nat \<Rightarrow> bool \<Rightarrow> string \<Rightarrow> nat \<times> bool \<times> string" where
  "scan_digits n nz [] = (n, nz, [])"
| "scan_digits n nz (c # cs) =
     (if is_digit c then scan_digits (Suc n) (nz \<or> c \<noteq> CHR ''0'') cs else (n, nz, c # cs))"

text \<open>The exponent part: \<open>None\<close> when \<open>e\<close> is not followed by a digit.\<close>

definition scan_exponent :: "string \<Rightarrow> string option" where
  "scan_exponent s =
     (case s of
        [] \<Rightarrow> Some []
      | c # cs \<Rightarrow>
          if c = CHR ''e'' \<or> c = CHR ''E''
          then (let t = (case cs of [] \<Rightarrow> [] | d # ds \<Rightarrow>
                           if d = CHR ''+'' \<or> d = CHR ''-'' then ds else cs);
                    (n, _, u) = scan_digits 0 False t
                in if n = 0 then None else Some u)
          else Some s)"

definition scan_sign :: "string \<Rightarrow> bool \<times> string" where
  "scan_sign s =
     (case s of [] \<Rightarrow> (False, [])
      | c # cs \<Rightarrow> if c = CHR ''+'' \<or> c = CHR ''-'' then (c = CHR ''-'', cs) else (False, s))"

definition analyze_exact_decimal_text :: "string \<Rightarrow> bool \<times> bool" where
  "analyze_exact_decimal_text value =
     (if value = [] then (False, False)
      else
        (let (negative, s1) = scan_sign value;
             (n1, nz1, s2) = scan_digits 0 False s1;
             (n, nz, s3) =
               (case s2 of [] \<Rightarrow> (n1, nz1, s2)
                | c # cs \<Rightarrow> if c = CHR ''.'' then scan_digits n1 nz1 cs else (n1, nz1, s2))
         in if n = 0 then (False, False)
            else case scan_exponent s3 of
                   None \<Rightarrow> (False, False)
                 | Some s4 \<Rightarrow> if s4 \<noteq> [] then (False, False) else (True, \<not> negative \<and> nz)))"

definition is_exact_decimal_text :: "string \<Rightarrow> bool" where
  "is_exact_decimal_text value = fst (analyze_exact_decimal_text value)"

definition is_positive_exact_decimal_text :: "string \<Rightarrow> bool" where
  "is_positive_exact_decimal_text value =
     (let (valid, positive) = analyze_exact_decimal_text value in valid \<and> positive)"

section \<open>Python's \<open>Decimal\<close>\<close>

text \<open>A finite decimal is a sign, a coefficient and an exponent.\<close>

datatype decimal = Finite bool nat int | NonFinite

definition MAX_EMAX :: int where "MAX_EMAX = 999999999999999999"

definition MIN_ETINY :: int where "MIN_ETINY = - 1999999999999999997"

definition decimal_in_range :: "nat \<Rightarrow> int \<Rightarrow> bool" where
  "decimal_in_range c e \<longleftrightarrow>
     MIN_ETINY \<le> e \<and> e + int (length (digits_of c)) - 1 \<le> MAX_EMAX"

definition lower_char :: "char \<Rightarrow> char" where
  "lower_char c = (if CHR ''A'' \<le> c \<and> c \<le> CHR ''Z'' then char_of (of_char c + 32 :: nat) else c)"

definition is_special_text :: "string \<Rightarrow> bool" where
  "is_special_text s =
     (let t = map lower_char s in
        t = ''inf'' \<or> t = ''infinity'' \<or>
        (take 3 t = ''nan'' \<and> list_all is_digit (drop 3 t)) \<or>
        (take 4 t = ''snan'' \<and> list_all is_digit (drop 4 t)))"

text \<open>The exponent of a numeral: nothing (0), or \<open>e\<close> with an optional sign and digits up to the
  end of the text.\<close>

definition parse_exponent :: "string \<Rightarrow> int option" where
  "parse_exponent s =
     (case s of
        [] \<Rightarrow> Some 0
      | c # cs \<Rightarrow>
          if c = CHR ''e'' \<or> c = CHR ''E''
          then (let (neg, ds) = scan_sign cs in
                if ds \<noteq> [] \<and> list_all is_digit ds
                then Some (if neg then - int (digits_val ds) else int (digits_val ds))
                else None)
          else None)"

definition parse_unsigned :: "bool \<Rightarrow> string \<Rightarrow> decimal option" where
  "parse_unsigned neg s =
     (let ip = takeWhile is_digit s; r = dropWhile is_digit s;
          (fp, r') = (case r of [] \<Rightarrow> ([], [])
                      | c # cs \<Rightarrow> if c = CHR ''.'' then (takeWhile is_digit cs, dropWhile is_digit cs)
                                  else ([], r))
      in if ip @ fp = [] then None
         else case parse_exponent r' of
                None \<Rightarrow> None
              | Some x \<Rightarrow>
                  (let c = digits_val (ip @ fp); e = x - int (length fp) in
                   if decimal_in_range c e then Some (Finite neg c e) else None))"

definition py_Decimal :: "string \<Rightarrow> decimal option" where
  "py_Decimal value =
     (let (neg, s) = scan_sign (filter (\<lambda>c. c \<noteq> CHR ''_'') (py_strip value))
      in if is_special_text s then Some NonFinite else parse_unsigned neg s)"

text \<open>\<open>format(number, "f")\<close>.\<close>

definition format_f :: "bool \<Rightarrow> nat \<Rightarrow> int \<Rightarrow> string" where
  "format_f neg c e =
     (if neg then ''-'' else []) @
     (if 0 \<le> e
      then (if c = 0 then ''0'' else digits_of c @ replicate (nat e) (CHR ''0''))
      else (let k = nat (- e); ds = digits_of c;
                padded = replicate (Suc k - length ds) (CHR ''0'') @ ds;
                m = length padded - k
            in take m padded @ ''.'' @ drop m padded))"

definition rstrip_char :: "char \<Rightarrow> string \<Rightarrow> string" where
  "rstrip_char c s = rev (dropWhile (\<lambda>d. d = c) (rev s))"

text \<open>The text of a finite number: trailing zeros of the fraction and a bare point go, and so does
  the sign of zero.\<close>

definition finite_text :: "bool \<Rightarrow> nat \<Rightarrow> int \<Rightarrow> string" where
  "finite_text neg c e =
     (let normalized = format_f neg c e;
          normalized = (if CHR ''.'' \<in> set normalized
                        then rstrip_char (CHR ''.'') (rstrip_char (CHR ''0'') normalized)
                        else normalized)
      in if normalized = ''-0'' \<or> normalized = [] then ''0'' else normalized)"

definition normalize_decimal_text :: "string \<Rightarrow> string res" where
  "normalize_decimal_text value =
     (if \<not> nonblank value then Inl (ValueError ''decimal text must be a non-empty string'')
      else case py_Decimal value of
             None \<Rightarrow> Inl (ValueError ''invalid decimal text'')
           | Some NonFinite \<Rightarrow> Inl (ValueError ''decimal text must be finite'')
           | Some (Finite neg c e) \<Rightarrow> Inr (finite_text neg c e))"

text \<open>\<open>Decimal(text) <= 0\<close> for a text that was just normalised.\<close>

definition decimal_text_le_zero :: "string \<Rightarrow> bool" where
  "decimal_text_le_zero value =
     (case py_Decimal value of Some (Finite neg c e) \<Rightarrow> neg \<or> c = 0 | _ \<Rightarrow> False)"

text \<open>The number a text denotes.\<close>

definition decimal_value :: "bool \<Rightarrow> nat \<Rightarrow> int \<Rightarrow> rat" where
  "decimal_value neg c e = (if neg then -1 else 1) * of_nat c * 10 powi e"

definition text_value :: "string \<Rightarrow> rat option" where
  "text_value value =
     (case py_Decimal value of Some (Finite neg c e) \<Rightarrow> Some (decimal_value neg c e) | _ \<Rightarrow> None)"


section \<open>Digit strings\<close>

lemma mod10_cases: "n mod 10 \<in> {0, 1, 2, 3, 4, 5, 6, 7, 8, 9 :: nat}"
  by (simp, presburger)

lemma is_digit_digit_char [simp]: "is_digit (digit_char n)"
  using mod10_cases [of n] by (auto simp: is_digit_def digit_char_def)

lemma digit_val_digit_char [simp]: "digit_val (digit_char n) = n mod 10"
  using mod10_cases [of n] by (auto simp: digit_val_def digit_char_def)

lemma digit_char_eq_0_iff: "digit_char n = CHR ''0'' \<longleftrightarrow> n mod 10 = 0"
  using mod10_cases [of n] by (auto simp: digit_char_def)

lemma not_is_digit_simps [simp]:
  "\<not> is_digit (CHR ''.'')" "\<not> is_digit (CHR ''-'')" "\<not> is_digit (CHR ''+'')"
  "\<not> is_digit (CHR ''e'')" "\<not> is_digit (CHR ''E'')" "\<not> is_digit (CHR ''_'')"
  by (simp_all add: is_digit_def)

lemma is_digit_not_space: "is_digit c \<Longrightarrow> \<not> py_isspace c"
  by (auto simp: is_digit_def py_isspace_def Let_def less_eq_char_def)

lemma digits_val_from_append:
  "digits_val_from n (xs @ ys) = digits_val_from (digits_val_from n xs) ys"
  by (induction xs arbitrary: n) auto

lemma digits_val_from_shift:
  "digits_val_from n xs = n * 10 ^ length xs + digits_val xs"
proof (induction xs arbitrary: n)
  case Nil
  then show ?case by (simp add: digits_val_def)
next
  case (Cons c cs)
  have "digits_val (c # cs) = digit_val c * 10 ^ length cs + digits_val cs"
    using Cons [of "digit_val c"] by (simp add: digits_val_def)
  with Cons [of "10 * n + digit_val c"] show ?case
    by (simp add: algebra_simps)
qed

lemma digits_val_append: "digits_val (xs @ ys) = digits_val xs * 10 ^ length ys + digits_val ys"
  using digits_val_from_shift [of "digits_val_from 0 xs" ys]
  by (simp add: digits_val_def digits_val_from_append)

lemma digits_val_single [simp]: "digits_val [digit_char n] = n mod 10"
  by (simp add: digits_val_def)

lemma digits_val_Nil [simp]: "digits_val [] = 0"
  by (simp add: digits_val_def)

lemma digits_val_digits_of [simp]: "digits_val (digits_of n) = n"
proof (induction n rule: digits_of.induct)
  case (1 n)
  then show ?case by (subst digits_of.simps) (auto simp: digits_val_append)
qed

lemma digits_of_digits: "list_all is_digit (digits_of n)"
proof (induction n rule: digits_of.induct)
  case (1 n)
  then show ?case by (subst digits_of.simps) auto
qed

lemma digits_of_nonempty [simp]: "digits_of n \<noteq> []"
  by (subst digits_of.simps) simp

lemma digits_of_inject: "digits_of m = digits_of n \<Longrightarrow> m = n"
  by (metis digits_val_digits_of)

lemma digits_of_times_power:
  "0 < c \<Longrightarrow> digits_of (c * 10 ^ k) = digits_of c @ replicate k (CHR ''0'')"
proof (induction k)
  case 0
  then show ?case by simp
next
  case (Suc k)
  then have "10 \<le> c * 10 ^ Suc k" by (simp add: Suc_leI)
  then have "digits_of (c * 10 ^ Suc k) = digits_of (c * 10 ^ k) @ [digit_char 0]"
    by (subst digits_of.simps) (auto simp: digit_char_def)
  with Suc show ?case
    by (simp add: digit_char_def replicate_append_same)
qed

text \<open>The last \<open>k\<close> digits of a number, with leading zeros.\<close>

fun last_digits :: "nat \<Rightarrow> nat \<Rightarrow> string" where
  "last_digits 0 c = []"
| "last_digits (Suc k) c = last_digits k (c div 10) @ [digit_char c]"

lemma length_last_digits [simp]: "length (last_digits k c) = k"
  by (induction k arbitrary: c) auto

lemma last_digits_digits: "list_all is_digit (last_digits k c)"
  by (induction k arbitrary: c) auto

lemma padded_digits:
  "replicate (Suc k - length (digits_of c)) (CHR ''0'') @ digits_of c
     = digits_of (c div 10 ^ k) @ last_digits k c"
proof (induction k arbitrary: c)
  case 0
  have "Suc 0 - length (digits_of c) = 0"
    using digits_of_nonempty [of c] by (cases "digits_of c") auto
  then show ?case by simp
next
  case (Suc k)
  show ?case
  proof (cases "c < 10")
    case True
    then have "digits_of c = [digit_char c]" "c div 10 = 0"
      by (simp_all add: digits_of.simps)
    moreover have "digits_of 0 = [CHR ''0'']"
      by (simp add: digits_of.simps digit_char_def)
    ultimately show ?thesis
      using Suc [of "c div 10"] by (simp add: div_mult2_eq replicate_append_same)
  next
    case False
    then have "digits_of c = digits_of (c div 10) @ [digit_char c]"
      by (subst digits_of.simps) simp
    with Suc [of "c div 10"] show ?thesis by (simp add: div_mult2_eq)
  qed
qed

lemma digits_val_int_frac:
  "digits_val (digits_of (c div 10 ^ k) @ last_digits k c) = c"
proof -
  have rep: "digits_val (replicate n (CHR ''0'') @ xs) = digits_val xs" for n xs
    by (induction n) (simp_all add: digits_val_def digit_val_def)
  show ?thesis using rep [of "Suc k - length (digits_of c)" "digits_of c"]
    by (simp add: padded_digits)
qed

section \<open>Canonical numerals\<close>

text \<open>Drop trailing zeros of the fraction: \<open>(c, k)\<close> stands for \<open>c / 10 ^ k\<close>.\<close>

fun reduce :: "nat \<Rightarrow> nat \<Rightarrow> nat \<times> nat" where
  "reduce c 0 = (c, 0)"
| "reduce c (Suc k) = (if c mod 10 = 0 then reduce (c div 10) k else (c, Suc k))"

definition canonical :: "nat \<Rightarrow> nat \<Rightarrow> bool" where
  "canonical c k \<longleftrightarrow> k = 0 \<or> c mod 10 \<noteq> 0"

definition canonical_text :: "bool \<Rightarrow> nat \<Rightarrow> nat \<Rightarrow> string" where
  "canonical_text neg c k =
     (if neg then ''-'' else []) @ digits_of (c div 10 ^ k) @
     (if k = 0 then [] else ''.'' @ last_digits k c)"

lemma reduce_canonical: "reduce c k = (c', k') \<Longrightarrow> canonical c' k' \<and> k' \<le> k"
  by (induction c k rule: reduce.induct) (auto simp: canonical_def split: if_splits)

lemma reduce_value: "reduce c k = (c', k') \<Longrightarrow> c * 10 ^ k' = c' * 10 ^ k"
proof (induction c k rule: reduce.induct)
  case (1 c)
  then show ?case by simp
next
  case (2 c k)
  show ?case
  proof (cases "c mod 10 = 0")
    case True
    with 2 have "c div 10 * 10 ^ k' = c' * 10 ^ k" by simp
    moreover have "c = 10 * (c div 10)" using True by arith
    ultimately show ?thesis by (metis mult.assoc mult.left_commute power_Suc)
  next
    case False
    with 2 show ?thesis by simp
  qed
qed

section \<open>Stripping the fraction\<close>


lemma rstrip_char_snoc_same [simp]: "rstrip_char c (xs @ [c]) = rstrip_char c xs"
  by (simp add: rstrip_char_def)

lemma rstrip_char_snoc_other [simp]: "d \<noteq> c \<Longrightarrow> rstrip_char c (xs @ [d]) = xs @ [d]"
  by (simp add: rstrip_char_def)

lemma digit_char_not_dot [simp]: "digit_char n \<noteq> CHR ''.''"
  using is_digit_digit_char [of n] by (metis not_is_digit_simps(1))

lemma rstrip_digits_of: "rstrip_char (CHR ''.'') (pre @ digits_of n) = pre @ digits_of n"
proof -
  have "\<exists>ys. digits_of n = ys @ [digit_char n]"
    by (subst digits_of.simps) auto
  then obtain ys where "digits_of n = ys @ [digit_char n]" ..
  then have eq: "pre @ digits_of n = (pre @ ys) @ [digit_char n]" by simp
  show ?thesis unfolding eq by (rule rstrip_char_snoc_other) simp
qed

lemma rstrip_fraction:
  "rstrip_char (CHR ''.'') (rstrip_char (CHR ''0'')
      (pre @ digits_of (c div 10 ^ k) @ ''.'' @ last_digits k c))
   = (let (c', k') = reduce c k in
      pre @ digits_of (c' div 10 ^ k') @ (if k' = 0 then [] else ''.'' @ last_digits k' c'))"
proof (induction c k rule: reduce.induct)
  case (1 c)
  have "rstrip_char (CHR ''0'') ((pre @ digits_of c) @ ''.'') = (pre @ digits_of c) @ ''.''"
    by (rule rstrip_char_snoc_other) simp
  moreover have "rstrip_char (CHR ''.'') ((pre @ digits_of c) @ ''.'') = pre @ digits_of c"
    by (simp only: rstrip_char_snoc_same rstrip_digits_of)
  ultimately show ?case by simp
next
  case (2 c k)
  let ?t = "pre @ digits_of (c div 10 ^ Suc k) @ ''.'' @ last_digits k (c div 10)"
  have t: "pre @ digits_of (c div 10 ^ Suc k) @ ''.'' @ last_digits (Suc k) c = ?t @ [digit_char c]"
    by simp
  show ?case
  proof (cases "c mod 10 = 0")
    case True
    then have "digit_char c = CHR ''0''" by (simp add: digit_char_eq_0_iff)
    then have "rstrip_char (CHR ''0'') (?t @ [digit_char c]) = rstrip_char (CHR ''0'') ?t"
      by (simp only: rstrip_char_snoc_same)
    then have "rstrip_char (CHR ''.'') (rstrip_char (CHR ''0'') (?t @ [digit_char c]))
        = rstrip_char (CHR ''.'') (rstrip_char (CHR ''0'') ?t)" by (rule arg_cong)
    also have "\<dots> = (let (c', k') = reduce (c div 10) k in
      pre @ digits_of (c' div 10 ^ k') @ (if k' = 0 then [] else ''.'' @ last_digits k' c'))"
      using 2 [OF True] by (simp add: div_mult2_eq)
    finally show ?thesis using True unfolding t by simp
  next
    case False
    then have "digit_char c \<noteq> CHR ''0''" by (simp add: digit_char_eq_0_iff)
    then have "rstrip_char (CHR ''.'') (rstrip_char (CHR ''0'') (?t @ [digit_char c])) = ?t @ [digit_char c]"
      by (simp del: append_assoc)
    with False show ?thesis unfolding t by simp
  qed
qed

lemma dot_notin_digits [simp]: "CHR ''.'' \<notin> set (digits_of n)"
  using digits_of_digits [of n] by (auto simp: list_all_iff)

lemma reduce_zero [simp]: "reduce 0 k = (0, 0)"
  by (induction k) auto

lemma reduce_fst_zero_iff: "reduce c k = (c', k') \<Longrightarrow> c' = 0 \<longleftrightarrow> c = 0"
  using reduce_value [of c k c' k'] by (cases "c = 0") (auto intro: gr0I)

text \<open>The number of a finite decimal as \<open>coefficient / 10 ^ places\<close>.\<close>

definition scaled :: "nat \<Rightarrow> int \<Rightarrow> nat \<times> nat" where
  "scaled c e = (if 0 \<le> e then (c * 10 ^ nat e, 0) else (c, nat (- e)))"

lemma digits_of_0: "digits_of 0 = ''0''"
  by (simp add: digits_of.simps digit_char_def)

lemma digits_of_eq_0_iff: "digits_of n = ''0'' \<longleftrightarrow> n = 0"
  using digits_of_inject [of n 0] by (auto simp: digits_of_0)

lemma normalized_format:
  assumes "scaled c e = (d, k)" and "reduce d k = (c', k')"
  shows "finite_text neg c e = canonical_text (neg \<and> c \<noteq> 0) c' k'"
proof -
  let ?pre = "if neg then ''-'' else []"
  have pre: "CHR ''.'' \<notin> set ?pre" by simp
  have body: "(if CHR ''.'' \<in> set (format_f neg c e)
               then rstrip_char (CHR ''.'') (rstrip_char (CHR ''0'') (format_f neg c e))
               else format_f neg c e)
      = ?pre @ digits_of (c' div 10 ^ k') @ (if k' = 0 then [] else ''.'' @ last_digits k' c')"
  proof (cases "0 \<le> e")
    case True
    with assms have "c' = c * 10 ^ nat e" "k' = 0" by (auto simp: scaled_def)
    moreover have "format_f neg c e = ?pre @ digits_of (c * 10 ^ nat e)"
      using True by (cases "c = 0") (simp_all add: format_f_def digits_of_0 digits_of_times_power)
    ultimately show ?thesis using pre by simp
  next
    case False
    with assms have k: "d = c" "k = nat (- e)" by (auto simp: scaled_def)
    have "format_f neg c e = ?pre @ digits_of (c div 10 ^ k) @ ''.'' @ last_digits k c"
      using False unfolding format_f_def Let_def k(2) [symmetric] padded_digits by simp
    moreover have "CHR ''.'' \<in> set (?pre @ digits_of (c div 10 ^ k) @ ''.'' @ last_digits k c)"
      by simp
    ultimately show ?thesis
      using rstrip_fraction [of ?pre c k] assms(2) k(1) by simp
  qed
  have z: "c' = 0 \<longleftrightarrow> c = 0"
    using reduce_fst_zero_iff [OF assms(2)] assms(1) by (auto simp: scaled_def split: if_splits)
  have "canonical c' k'" using reduce_canonical [OF assms(2)] by simp
  show ?thesis
  proof (cases "c = 0")
    case True
    with z \<open>canonical c' k'\<close> have "c' = 0" "k' = 0" by (auto simp: canonical_def)
    then have "?pre @ digits_of (c' div 10 ^ k') @ (if k' = 0 then [] else ''.'' @ last_digits k' c')
        = ?pre @ ''0''" by (simp add: digits_of_0)
    with True \<open>c' = 0\<close> \<open>k' = 0\<close> show ?thesis
      unfolding finite_text_def Let_def body by (simp add: canonical_text_def digits_of_0)
  next
    case False
    with z have "c' \<noteq> 0" by simp
    then have "k' = 0 \<Longrightarrow> digits_of (c' div 10 ^ k') \<noteq> ''0''" by (simp add: digits_of_eq_0_iff)
    moreover have "digits_of n \<noteq> ''-0''" for n
      using digits_of_digits [of n] by auto
    ultimately have "?pre @ digits_of (c' div 10 ^ k') @ (if k' = 0 then [] else ''.'' @ last_digits k' c') \<noteq> ''-0''"
      by (auto simp: append_eq_Cons_conv split: if_splits)
    with False show ?thesis
      by (simp only: finite_text_def Let_def body) (auto simp: canonical_text_def)
  qed
qed


section \<open>Reading a canonical text back\<close>

lemma takeWhile_digits [simp]: "list_all is_digit ds \<Longrightarrow> takeWhile is_digit (ds @ xs) = ds @ takeWhile is_digit xs"
  by (induction ds) auto

lemma dropWhile_digits [simp]: "list_all is_digit ds \<Longrightarrow> dropWhile is_digit (ds @ xs) = dropWhile is_digit xs"
  by (induction ds) auto

lemma is_digit_lower: "is_digit c \<Longrightarrow> lower_char c = c"
  by (auto simp: is_digit_def lower_char_def less_eq_char_def)

lemma not_special_digit: "is_digit c \<Longrightarrow> \<not> is_special_text (c # cs)"
  by (auto simp: is_special_text_def Let_def is_digit_lower is_digit_def)

lemma canonical_text_chars:
  "c \<in> set (canonical_text neg d k) \<Longrightarrow> is_digit c \<or> c = CHR ''.'' \<or> c = CHR ''-''"
  using digits_of_digits last_digits_digits by (auto simp: canonical_text_def list_all_iff split: if_splits)

lemma canonical_text_ends:
  shows canonical_text_nonempty: "canonical_text neg d k \<noteq> []"
    and canonical_text_hd: "\<not> py_isspace (hd (canonical_text neg d k))"
    and canonical_text_last: "\<not> py_isspace (last (canonical_text neg d k))"
proof -
  have chars: "\<not> py_isspace c" if "c \<in> set (canonical_text neg d k)" for c
    using canonical_text_chars [OF that] is_digit_not_space
    by (elim disjE) (simp_all add: py_isspace_def)
  show ne: "canonical_text neg d k \<noteq> []" by (simp add: canonical_text_def)
  from ne show "\<not> py_isspace (hd (canonical_text neg d k))" "\<not> py_isspace (last (canonical_text neg d k))"
    using chars [OF hd_in_set] chars [OF last_in_set] by blast+
qed

lemma parse_unsigned_canonical:
  assumes "decimal_in_range c (- int k)"
  shows "parse_unsigned neg (digits_of (c div 10 ^ k) @ (if k = 0 then [] else ''.'' @ last_digits k c))
         = Some (Finite neg c (- int k))"
proof (cases "k = 0")
  case True
  have ds: "takeWhile is_digit (digits_of c) = digits_of c" "dropWhile is_digit (digits_of c) = []"
    using takeWhile_digits [of "digits_of c" "[]"] dropWhile_digits [of "digits_of c" "[]"]
      digits_of_digits [of c] by simp_all
  with True assms show ?thesis
    unfolding parse_unsigned_def Let_def by (simp add: parse_exponent_def ds del: takeWhile_eq_all_conv dropWhile_eq_Nil_conv)
next
  case False
  let ?i = "digits_of (c div 10 ^ k)" and ?f = "last_digits k c"
  have ds: "takeWhile is_digit ?f = ?f" "dropWhile is_digit ?f = []"
    using takeWhile_digits [of ?f "[]"] dropWhile_digits [of ?f "[]"] last_digits_digits [of k c]
    by simp_all
  have "digits_val (?i @ ?f) = c" by (rule digits_val_int_frac)
  then show ?thesis
    using False assms digits_of_digits [of "c div 10 ^ k"]
    by (simp add: parse_unsigned_def parse_exponent_def ds del: takeWhile_eq_all_conv dropWhile_eq_Nil_conv)
qed

lemma py_Decimal_canonical:
  assumes "decimal_in_range c (- int k)"
  shows "py_Decimal (canonical_text neg c k) = Some (Finite neg c (- int k))"
proof -
  let ?u = "digits_of (c div 10 ^ k) @ (if k = 0 then [] else ''.'' @ last_digits k c)"
  have strip: "py_strip (canonical_text neg c k) = canonical_text neg c k"
    using canonical_text_ends by (intro py_strip_id)
  have under: "filter (\<lambda>c. c \<noteq> CHR ''_'') (canonical_text neg c k) = canonical_text neg c k"
    using canonical_text_chars by (force simp: filter_id_conv)
  obtain d ds where u: "?u = d # ds" and d: "is_digit d"
    using digits_of_digits [of "c div 10 ^ k"] digits_of_nonempty [of "c div 10 ^ k"]
    by (cases "digits_of (c div 10 ^ k)") auto
  have ct: "canonical_text neg c k = (if neg then ''-'' else []) @ ?u"
    by (simp add: canonical_text_def)
  have "scan_sign (canonical_text neg c k) = (neg, ?u)"
    unfolding ct u using d by (auto simp: scan_sign_def)
  moreover have "\<not> is_special_text ?u"
    unfolding u by (rule not_special_digit [OF d])
  ultimately show ?thesis
    using parse_unsigned_canonical [OF assms, of neg]
    by (simp add: py_Decimal_def strip under)
qed

section \<open>Values\<close>

lemma length_digits_of_times_power:
  "0 < c \<Longrightarrow> length (digits_of (c * 10 ^ k)) = length (digits_of c) + k"
  by (simp add: digits_of_times_power)

lemma reduce_in_range:
  assumes "decimal_in_range c e" and "scaled c e = (d, k)" and "reduce d k = (c', k')"
  shows "decimal_in_range c' (- int k')"
proof (cases "c = 0")
  case True
  with assms(2,3) have "c' = 0" "k' = 0" by (auto simp: scaled_def split: if_splits)
  then show ?thesis by (simp add: decimal_in_range_def digits_of_0 MIN_ETINY_def MAX_EMAX_def)
next
  case False
  then have "0 < d" using assms(2) by (auto simp: scaled_def split: if_splits)
  have "k' \<le> k" and val: "d * 10 ^ k' = c' * 10 ^ k"
    using reduce_canonical reduce_value assms(3) by blast+
  from \<open>k' \<le> k\<close> obtain j where j: "k = k' + j" using le_Suc_ex by blast
  with val have "d = c' * 10 ^ j" by (simp add: power_add)
  with \<open>0 < d\<close> have len: "length (digits_of d) = length (digits_of c') + j"
    by (auto intro: length_digits_of_times_power)
  show ?thesis
  proof (cases "0 \<le> e")
    case True
    with assms(2) have d: "d = c * 10 ^ nat e" "k = 0" by (auto simp: scaled_def)
    with False have "length (digits_of d) = length (digits_of c) + nat e"
      by (simp add: length_digits_of_times_power)
    with d(2) j len True assms(1) show ?thesis
      by (auto simp: decimal_in_range_def MIN_ETINY_def)
  next
    case neg: False
    with assms(2) have "d = c" "e = - int k" by (auto simp: scaled_def)
    with j len assms(1) show ?thesis by (auto simp: decimal_in_range_def)
  qed
qed

lemma canonical_unique:
  assumes "canonical c k" and "canonical c' k'" and "c * 10 ^ k' = c' * 10 ^ k"
  shows "c = c' \<and> k = k'"
proof -
  have aux: "k \<ge> k'" if "canonical c' k'" "c * 10 ^ k' = c' * 10 ^ k" for c k c' k' :: nat
  proof (rule ccontr)
    assume "\<not> k \<ge> k'"
    then obtain j where j: "k' = k + Suc j"
      by (metis add_Suc_right less_imp_Suc_add not_le)
    with that(2) have "c * 10 ^ Suc j * 10 ^ k = c' * 10 ^ k"
      by (simp add: power_add algebra_simps)
    then have "c * 10 ^ Suc j = c'"
      by (subst (asm) mult_cancel2) simp
    then have "c' mod 10 = 0" by auto
    with that(1) j show False by (simp add: canonical_def)
  qed
  from aux [OF assms(2,3)] aux [OF assms(1) assms(3) [symmetric]] have "k = k'" by simp
  with assms(3) show ?thesis by simp
qed

definition scaled_value :: "bool \<Rightarrow> nat \<Rightarrow> nat \<Rightarrow> rat" where
  "scaled_value neg c k = (if neg then -1 else 1) * of_nat c / 10 ^ k"

lemma decimal_value_scaled:
  "scaled c e = (d, k) \<Longrightarrow> decimal_value neg c e = scaled_value neg d k"
  by (auto simp: decimal_value_def scaled_value_def scaled_def power_int_def field_simps split: if_splits)

lemma scaled_value_cong:
  assumes "c * 10 ^ k' = c' * 10 ^ k"
  shows "scaled_value neg c k = scaled_value neg c' k'"
proof -
  have "(of_nat c :: rat) * 10 ^ k' = of_nat c' * 10 ^ k"
    using arg_cong [OF assms, of "of_nat :: nat \<Rightarrow> rat"] by simp
  then show ?thesis by (simp add: scaled_value_def field_simps)
qed

lemma scaled_value_inject:
  assumes "scaled_value neg c k = scaled_value neg' c' k'"
    and "canonical c k" "canonical c' k'" "neg \<Longrightarrow> c \<noteq> 0" "neg' \<Longrightarrow> c' \<noteq> 0"
  shows "neg = neg' \<and> c = c' \<and> k = k'"
proof -
  have sgn: "scaled_value b d j < 0 \<longleftrightarrow> b" if "b \<Longrightarrow> d \<noteq> 0" for b d j
    using that by (auto simp: scaled_value_def divide_less_0_iff)
  have n: "neg = neg'" using sgn [of neg c k] sgn [of neg' c' k'] assms(1,4,5) by simp
  with assms(1) have "(of_nat c :: rat) * 10 ^ k' = of_nat c' * 10 ^ k"
    by (auto simp: scaled_value_def field_simps split: if_splits)
  then have "of_nat (c * 10 ^ k') = (of_nat (c' * 10 ^ k) :: rat)" by simp
  then have "c * 10 ^ k' = c' * 10 ^ k" by (simp only: of_nat_eq_iff)
  with canonical_unique assms(2,3) n show ?thesis by blast
qed

section \<open>The normal form\<close>

lemma normalize_decimal_text_spec:
  "normalize_decimal_text value = Inr t \<longleftrightarrow>
     nonblank value \<and> (\<exists>neg c e d k c' k'. py_Decimal value = Some (Finite neg c e) \<and>
        scaled c e = (d, k) \<and> reduce d k = (c', k') \<and> t = canonical_text (neg \<and> c \<noteq> 0) c' k')"
proof -
  have fin: "(s = finite_text neg c e)
      \<longleftrightarrow> (\<exists>d k c' k'. scaled c e = (d, k) \<and> reduce d k = (c', k') \<and>
            s = canonical_text (neg \<and> c \<noteq> 0) c' k')" for s neg c e
  proof -
    obtain d k where s: "scaled c e = (d, k)" by fastforce
    obtain c' k' where r: "reduce d k = (c', k')" by fastforce
    show ?thesis unfolding normalized_format [OF s r] using s r by auto
  qed
  have "normalize_decimal_text value = Inr t \<longleftrightarrow>
      nonblank value \<and> (\<exists>neg c e. py_Decimal value = Some (Finite neg c e) \<and> t = finite_text neg c e)"
    by (auto simp: normalize_decimal_text_def split: option.splits decimal.splits)
  then show ?thesis by (simp only: fin ex_simps)
qed

lemma py_Decimal_in_range: "py_Decimal value = Some (Finite neg c e) \<Longrightarrow> decimal_in_range c e"
  by (auto simp: py_Decimal_def parse_unsigned_def Let_def split: prod.splits if_splits option.splits)

lemma nonblank_canonical_text: "nonblank (canonical_text neg c k)"
  using canonical_text_nonempty canonical_text_hd by (metis hd_in_set nonblank_iff)

text \<open>What a normal form is, in terms of the number.\<close>

lemma normalize_decimal_text_canonical:
  assumes "normalize_decimal_text value = Inr t"
  obtains neg c k where "t = canonical_text neg c k" "canonical c k" "neg \<Longrightarrow> c \<noteq> 0"
    "decimal_in_range c (- int k)" "text_value value = Some (scaled_value neg c k)"
proof -
  from assms obtain neg c e d k c' k' where p: "py_Decimal value = Some (Finite neg c e)"
    and s: "scaled c e = (d, k)" and r: "reduce d k = (c', k')"
    and t: "t = canonical_text (neg \<and> c \<noteq> 0) c' k'"
    unfolding normalize_decimal_text_spec by blast
  have z: "c' = 0 \<longleftrightarrow> c = 0"
    using reduce_fst_zero_iff [OF r] s by (auto simp: scaled_def split: if_splits)
  have "scaled_value neg d k = scaled_value neg c' k'"
    by (rule scaled_value_cong [OF reduce_value [OF r]])
  moreover have "scaled_value neg c' k' = scaled_value (neg \<and> c \<noteq> 0) c' k'"
    using z by (cases "c = 0") (simp_all add: scaled_value_def)
  ultimately have "text_value value = Some (scaled_value (neg \<and> c \<noteq> 0) c' k')"
    using decimal_value_scaled [OF s] by (simp add: text_value_def p)
  with t z reduce_canonical [OF r] reduce_in_range [OF py_Decimal_in_range [OF p] s r] that
  show ?thesis by blast
qed

lemma scaled_minus: "scaled c (- int k) = (c, k)"
  by (auto simp: scaled_def)

lemma reduce_canonical_id: "canonical c k \<Longrightarrow> reduce c k = (c, k)"
  by (cases k) (auto simp: canonical_def)

lemma normalize_canonical_text:
  assumes "canonical c k" and "neg \<Longrightarrow> c \<noteq> 0" and "decimal_in_range c (- int k)"
  shows "normalize_decimal_text (canonical_text neg c k) = Inr (canonical_text neg c k)"
proof -
  have "neg = (neg \<and> c \<noteq> 0)" using assms(2) by blast
  then have "canonical_text neg c k = canonical_text (neg \<and> c \<noteq> 0) c k" by simp
  then show ?thesis
    unfolding normalize_decimal_text_spec
    using py_Decimal_canonical [OF assms(3)] nonblank_canonical_text
      reduce_canonical_id [OF assms(1)] scaled_minus by blast
qed

lemma text_value_canonical:
  assumes "decimal_in_range c (- int k)"
  shows "text_value (canonical_text neg c k) = Some (scaled_value neg c k)"
  using decimal_value_scaled [OF scaled_minus]
  by (simp add: text_value_def py_Decimal_canonical [OF assms])

lemma decimal_text_le_zero_value:
  "text_value s = Some q \<Longrightarrow> decimal_text_le_zero s \<longleftrightarrow> q \<le> 0"
proof -
  have pos: "(0 :: rat) < 10 powi e" for e by (rule zero_less_power_int) simp
  then show "text_value s = Some q \<Longrightarrow> ?thesis"
    by (auto simp: text_value_def decimal_text_le_zero_def decimal_value_def mult_le_0_iff
        zero_le_mult_iff not_le [symmetric] split: option.splits decimal.splits if_splits)
qed

text \<open>A positive integer in decimal digits is its own normal form: the evaluation rule of concrete
  examples.\<close>

lemma normalize_digits_of:
  assumes "length (digits_of n) \<le> 20"
  shows "normalize_decimal_text (digits_of n) = Inr (digits_of n)"
proof -
  have "canonical_text False n 0 = digits_of n" by (simp add: canonical_text_def)
  moreover have "decimal_in_range n (- int 0)"
    using assms by (simp add: decimal_in_range_def MIN_ETINY_def MAX_EMAX_def)
  ultimately show ?thesis
    using normalize_canonical_text [of n 0 False] by (simp add: canonical_def)
qed


section \<open>The grammar and the numeral parser agree\<close>

lemma scan_digits_eq:
  "scan_digits n nz s =
     (n + length (takeWhile is_digit s), nz \<or> (\<exists>c \<in> set (takeWhile is_digit s). c \<noteq> CHR ''0''),
      dropWhile is_digit s)"
  by (induction n nz s rule: scan_digits.induct) auto

lemma dropWhile_Nil_all: "dropWhile p s = [] \<longleftrightarrow> list_all p s"
  by (simp add: list_all_iff)

lemma scan_exponent_iff: "scan_exponent s = Some [] \<longleftrightarrow> parse_exponent s \<noteq> None"
proof (cases s)
  case Nil
  then show ?thesis by (simp add: scan_exponent_def parse_exponent_def)
next
  case (Cons c cs)
  have pos: "0 < length (takeWhile is_digit ds) \<longleftrightarrow> ds \<noteq> []" if "list_all is_digit ds" for ds
    using that by (cases ds) auto
  show ?thesis
    using Cons pos
    by (cases cs) (auto simp: scan_exponent_def parse_exponent_def scan_sign_def scan_digits_eq Let_def list_all_iff)
qed

definition numeral_char :: "char \<Rightarrow> bool" where
  "numeral_char c \<longleftrightarrow> is_digit c \<or> c \<in> set ''+-.eE''"

lemma numeral_char_plain: "numeral_char c \<Longrightarrow> \<not> py_isspace c \<and> c \<noteq> CHR ''_''"
  using is_digit_not_space [of c] by (auto simp: numeral_char_def py_isspace_def)

lemma parse_exponent_chars: "parse_exponent s = Some x \<Longrightarrow> c \<in> set s \<Longrightarrow> numeral_char c"
  by (auto simp: parse_exponent_def scan_sign_def numeral_char_def list_all_iff
      split: list.splits if_splits prod.splits)

lemma digits_val_eq_0_iff:
  "list_all is_digit ds \<Longrightarrow> digits_val ds = 0 \<longleftrightarrow> (\<forall>c \<in> set ds. c = CHR ''0'')"
proof (induction ds)
  case (Cons c cs)
  have "digit_val c = 0 \<longleftrightarrow> c = CHR ''0''" if "is_digit c"
  proof
    assume "digit_val c = 0"
    with that have "(of_char c :: nat) = of_char (CHR ''0'')"
      by (simp add: digit_val_def is_digit_def less_eq_char_def)
    then show "c = CHR ''0''" by (simp only: of_char_eq_iff)
  qed (simp add: digit_val_def)
  moreover have "digits_val (c # cs) = digit_val c * 10 ^ length cs + digits_val cs"
    using digits_val_from_shift [of "digit_val c" cs] by (simp add: digits_val_def)
  ultimately show ?case using Cons by auto
qed simp

text \<open>The integer and fraction digits of an unsigned numeral, and what follows them.\<close>

definition split_numeral :: "string \<Rightarrow> string \<times> string \<times> string" where
  "split_numeral s =
     (let ip = takeWhile is_digit s; r = dropWhile is_digit s
      in case r of [] \<Rightarrow> (ip, [], [])
         | c # cs \<Rightarrow> if c = CHR ''.'' then (ip, takeWhile is_digit cs, dropWhile is_digit cs)
                     else (ip, [], r))"

lemma parse_unsigned_split:
  "parse_unsigned neg s =
     (case split_numeral s of (ip, fp, r) \<Rightarrow>
        if ip @ fp = [] then None
        else case parse_exponent r of
               None \<Rightarrow> None
             | Some x \<Rightarrow>
                 (let c = digits_val (ip @ fp); e = x - int (length fp) in
                  if decimal_in_range c e then Some (Finite neg c e) else None))"
proof (cases "dropWhile is_digit s")
  case Nil
  then show ?thesis unfolding parse_unsigned_def split_numeral_def Let_def Nil by simp
next
  case (Cons d ds)
  then show ?thesis
    by (cases "d = CHR ''.''") (simp_all add: parse_unsigned_def split_numeral_def Let_def)
qed

lemma split_numeral_digits:
  "split_numeral s = (ip, fp, r) \<Longrightarrow> list_all is_digit (ip @ fp)"
  by (auto simp: split_numeral_def Let_def list_all_iff dest: set_takeWhileD split: list.splits if_splits)

lemma set_take_drop: "set s = set (takeWhile p s) \<union> set (dropWhile p s)"
  by (metis set_append takeWhile_dropWhile_id)

lemma split_numeral_chars:
  assumes "split_numeral s = (ip, fp, r)" and "c \<in> set s"
  shows "is_digit c \<or> c = CHR ''.'' \<or> c \<in> set r"
proof -
  have c: "is_digit c \<or> c \<in> set (dropWhile is_digit s)"
    using assms(2) set_takeWhileD [of c is_digit s] by (auto simp: set_take_drop [of s is_digit])
  show ?thesis
  proof (cases "dropWhile is_digit s")
    case Nil
    with c show ?thesis by simp
  next
    case (Cons d ds)
    have "x \<in> set ds \<Longrightarrow> is_digit x \<or> x \<in> set (dropWhile is_digit ds)" for x
      using set_takeWhileD [of x is_digit ds] by (auto simp: set_take_drop [of ds is_digit])
    moreover have "r = (if d = CHR ''.'' then dropWhile is_digit ds else d # ds)"
      using assms(1) by (auto simp: split_numeral_def Let_def Cons split: if_splits)
    ultimately show ?thesis using c by (auto simp: Cons split: if_splits)
  qed
qed

lemma analyze_split:
  "analyze_exact_decimal_text v =
     (case scan_sign v of (neg, s) \<Rightarrow> case split_numeral s of (ip, fp, r) \<Rightarrow>
        if ip @ fp = [] \<or> parse_exponent r = None then (False, False)
        else (True, \<not> neg \<and> (\<exists>c \<in> set (ip @ fp). c \<noteq> CHR ''0'')))"
proof (cases "v = []")
  case True
  then show ?thesis by (simp add: analyze_exact_decimal_text_def scan_sign_def split_numeral_def)
next
  case False
  obtain neg s where s: "scan_sign v = (neg, s)" by fastforce
  have ex: "(case scan_exponent r of None \<Rightarrow> (False, False)
      | Some s4 \<Rightarrow> if s4 \<noteq> [] then (False, False) else (True, b))
      = (if parse_exponent r = None then (False, False) else (True, b))" for r b
    using scan_exponent_iff [of r] by (auto split: option.splits)
  show ?thesis
  proof (cases "dropWhile is_digit s")
    case Nil
    then show ?thesis
      using False s unfolding analyze_exact_decimal_text_def Let_def split_numeral_def
      by (auto simp: scan_digits_eq ex Nil simp del: dropWhile_eq_Nil_conv)
  next
    case (Cons d ds)
    then show ?thesis
      using False s unfolding analyze_exact_decimal_text_def Let_def split_numeral_def
      by (cases "d = CHR ''.''") (auto simp: scan_digits_eq ex)
  qed
qed

lemma exact_decimal_text_parse:
  assumes "is_exact_decimal_text v" and "py_Decimal v = Some d"
  shows "\<exists>neg c e. d = Finite neg c e \<and> (is_positive_exact_decimal_text v \<longleftrightarrow> \<not> neg \<and> c \<noteq> 0)"
proof -
  obtain neg s where s: "scan_sign v = (neg, s)" by fastforce
  obtain ip fp r where sp: "split_numeral s = (ip, fp, r)" by (metis prod_cases3)
  from assms(1) s sp obtain x where ne: "ip @ fp \<noteq> []" and x: "parse_exponent r = Some x"
    by (auto simp: is_exact_decimal_text_def analyze_split split: if_splits)
  have chars: "numeral_char c" if "c \<in> set v" for c
  proof -
    from that s have "c \<in> set ''+-'' \<or> c \<in> set s"
      by (auto simp: scan_sign_def split: list.splits if_splits)
    with split_numeral_chars [OF sp] parse_exponent_chars [OF x] show ?thesis
      by (auto simp: numeral_char_def)
  qed
  have "v \<noteq> []" using s sp ne by (auto simp: scan_sign_def split_numeral_def)
  then have strip: "py_strip v = v"
    using chars numeral_char_plain by (intro py_strip_id) auto
  have under: "filter (\<lambda>c. c \<noteq> CHR ''_'') v = v"
    using chars numeral_char_plain by (auto simp: filter_id_conv)
  have "\<not> is_special_text s"
  proof -
    obtain c cs where "s = c # cs" "is_digit c \<or> c = CHR ''.''"
      using sp ne by (cases s) (auto simp: split_numeral_def split: if_splits)
    moreover have "lower_char (CHR ''.'') = CHR ''.''"
      by (simp add: lower_char_def less_eq_char_def)
    ultimately show ?thesis
      using not_special_digit by (elim disjE) (simp_all add: is_special_text_def)
  qed
  with assms(2) s have "parse_unsigned neg s = Some d"
    by (simp add: py_Decimal_def strip under)
  then have "d = Finite neg (digits_val (ip @ fp)) (x - int (length fp))"
    using sp ne x by (simp add: parse_unsigned_split Let_def split: if_splits)
  moreover have "is_positive_exact_decimal_text v \<longleftrightarrow> \<not> neg \<and> digits_val (ip @ fp) \<noteq> 0"
    using s sp ne x digits_val_eq_0_iff [OF split_numeral_digits [OF sp]]
    by (auto simp: is_positive_exact_decimal_text_def analyze_split)
  ultimately show ?thesis by blast
qed


section \<open>Properties\<close>

text \<open>The canonical decimal text is a normal form. Normalising twice changes nothing,
  and two accepted texts have the same normal form exactly when they denote the same number.\<close>

theorem normalize_decimal_text_normal_form:
  assumes "normalize_decimal_text v = Inr t" and "normalize_decimal_text v' = Inr t'"
  shows "normalize_decimal_text t = Inr t \<and> text_value t = text_value v \<and>
         (t = t' \<longleftrightarrow> text_value v = text_value v')"
proof -
  obtain n c k where 1: "t = canonical_text n c k" "canonical c k" "n \<Longrightarrow> c \<noteq> 0"
      "decimal_in_range c (- int k)" "text_value v = Some (scaled_value n c k)"
    using normalize_decimal_text_canonical [OF assms(1)] by blast
  obtain n' c' k' where 2: "t' = canonical_text n' c' k'" "canonical c' k'" "n' \<Longrightarrow> c' \<noteq> 0"
      "decimal_in_range c' (- int k')" "text_value v' = Some (scaled_value n' c' k')"
    using normalize_decimal_text_canonical [OF assms(2)] by blast
  have "t = t' \<longleftrightarrow> text_value v = text_value v'"
  proof
    assume "t = t'"
    then show "text_value v = text_value v'"
      using text_value_canonical [OF 1(4)] text_value_canonical [OF 2(4)] 1(1,5) 2(1,5) by metis
  next
    assume "text_value v = text_value v'"
    then have "n = n' \<and> c = c' \<and> k = k'"
      using 1 2 by (intro scaled_value_inject) simp_all
    then show "t = t'" by (simp add: 1(1) 2(1))
  qed
  then show ?thesis
    using 1 normalize_canonical_text text_value_canonical by simp
qed

text \<open>A text of the exact-decimal grammar that Python's \<open>Decimal\<close> accepts is finite,
  and the scanner's positivity flag is the sign of the number it denotes.\<close>

theorem is_positive_exact_decimal_text_sign:
  assumes "is_exact_decimal_text v" and "py_Decimal v \<noteq> None"
  shows "\<exists>q. text_value v = Some q \<and> (is_positive_exact_decimal_text v \<longleftrightarrow> 0 < q)"
proof -
  have pos: "(0 :: rat) < 10 powi e" for e by (rule zero_less_power_int) simp
  from assms(2) obtain d where d: "py_Decimal v = Some d" by blast
  with exact_decimal_text_parse [OF assms(1)] obtain neg c e where
    "d = Finite neg c e" "is_positive_exact_decimal_text v \<longleftrightarrow> \<not> neg \<and> c \<noteq> 0" by blast
  moreover have "0 < decimal_value neg c e \<longleftrightarrow> \<not> neg \<and> c \<noteq> 0"
    using pos [of e] mult_pos_pos [OF _ pos [of e], of "of_nat c"]
    by (cases neg) (auto simp: decimal_value_def not_less zero_less_mult_iff)
  ultimately show ?thesis using d by (simp add: text_value_def)
qed

text \<open>Normalisation keeps a text of the exact grammar in the grammar.\<close>

lemma canonical_text_exact: "is_exact_decimal_text (canonical_text False c k)"
proof -
  let ?ip = "digits_of (c div 10 ^ k)" and ?t = "canonical_text False c k"
  have ip: "list_all is_digit ?ip" "?ip \<noteq> []" by (simp_all add: digits_of_digits)
  obtain d ds where d: "?ip = d # ds" by (cases ?ip) (use ip in auto)
  with ip have "is_digit d" by simp
  then have "d \<noteq> CHR ''+''" "d \<noteq> CHR ''-''" by (auto simp: is_digit_def)
  with d have sign: "scan_sign ?t = (False, ?t)" by (simp add: canonical_text_def scan_sign_def)
  have "split_numeral ?t = (?ip, if k = 0 then [] else last_digits k c, [])"
    using ip(1) last_digits_digits [of k c] takeWhile_digits [of "last_digits k c" "[]"] dropWhile_digits [of "last_digits k c" "[]"]
      takeWhile_digits [of ?ip "[]"] dropWhile_digits [of ?ip "[]"]
    by (simp add: canonical_text_def split_numeral_def Let_def not_is_digit_simps)
  with sign ip(2) show ?thesis by (simp add: is_exact_decimal_text_def analyze_split parse_exponent_def)
qed

lemma normalize_positive:
  assumes "is_positive_exact_decimal_text v" and "normalize_decimal_text v = Inr t"
  shows "is_positive_exact_decimal_text t \<and> normalize_decimal_text t = Inr t"
proof -
  have exact: "is_exact_decimal_text v"
    using assms(1) by (simp add: is_positive_exact_decimal_text_def is_exact_decimal_text_def Let_def case_prod_unfold)
  from assms(2) obtain neg c e d k c' k' where p: "py_Decimal v = Some (Finite neg c e)" and s: "scaled c e = (d, k)"
    and r: "reduce d k = (c', k')" and t: "t = canonical_text (neg \<and> c \<noteq> 0) c' k'"
    by (auto simp: normalize_decimal_text_spec)
  with exact_decimal_text_parse [OF exact p] assms(1) have pos: "\<not> neg" "c \<noteq> 0" by auto
  from t pos have t': "t = canonical_text False c' k'" by simp
  have can: "canonical c' k'" using reduce_canonical [OF r] by blast
  have range: "decimal_in_range c' (- int k')" by (rule reduce_in_range [OF py_Decimal_in_range [OF p] s r])
  have nz: "c' \<noteq> 0" using reduce_fst_zero_iff [OF r] s pos(2) by (auto simp: scaled_def split: if_splits)
  have "is_exact_decimal_text t" using canonical_text_exact t' by simp
  from exact_decimal_text_parse [OF this, of "Finite False c' (- int k')"] py_Decimal_canonical [OF range] nz t'
  have "is_positive_exact_decimal_text t" by auto
  moreover have "normalize_decimal_text t = Inr t" using normalize_canonical_text [OF can _ range] t' by simp
  ultimately show ?thesis by blast
qed

end
