(* ===== verification/Timeframe.thy ===== *)
theory Timeframe
  imports Prelude
begin

text \<open>
  Candle arithmetic: \<open>runtime/timeframe.py\<close>, \<open>runtime/entry_order_lifetime.py\<close> and
  \<open>runtime/first_fill/alignment.py\<close>. Times are Python integers (milliseconds), so \<open>int\<close>;
  Python's \<open>%\<close> on a positive divisor is HOL's \<open>mod\<close>.
\<close>

section \<open>Supported timeframes\<close>

definition SUPPORTED_TIMEFRAME_DURATIONS_MS :: "(string \<times> int) list" where
  "SUPPORTED_TIMEFRAME_DURATIONS_MS =
     [(''1m'', 60000), (''5m'', 5 * 60000), (''15m'', 15 * 60000), (''1h'', 60 * 60000),
      (''4h'', 4 * 60 * 60000), (''1d'', 24 * 60 * 60000)]"

definition timeframe_duration_ms :: "string \<Rightarrow> int res" where
  "timeframe_duration_ms base_timeframe =
     (case map_of SUPPORTED_TIMEFRAME_DURATIONS_MS base_timeframe of
        None \<Rightarrow> Inl (ValueError (''unsupported base_timeframe: '' @ base_timeframe))
      | Some duration_ms \<Rightarrow> Inr duration_ms)"

lemma timeframe_duration_pos: "timeframe_duration_ms tf = Inr d \<Longrightarrow> 0 < d"
  by (auto simp: timeframe_duration_ms_def SUPPORTED_TIMEFRAME_DURATIONS_MS_def
      split: option.splits if_splits)

section \<open>Lifetime of a touch-trigger entry order\<close>

definition entry_order_expiration_ms :: "int \<Rightarrow> int \<Rightarrow> int \<Rightarrow> int res" where
  "entry_order_expiration_ms source_plan_bar_open_time_ms timeframe_ms order_lifetime_bars =
     (if source_plan_bar_open_time_ms < 0
      then Inl (ValueError ''source_plan_bar_open_time_ms must be a non-negative integer'')
      else if timeframe_ms \<le> 0 then Inl (ValueError ''timeframe_ms must be a positive integer'')
      else if order_lifetime_bars < 0
      then Inl (ValueError ''order_lifetime_bars must be an integer >= 0'')
      else Inr (source_plan_bar_open_time_ms + (order_lifetime_bars + 2) * timeframe_ms))"

definition is_entry_order_expired :: "int \<Rightarrow> int \<Rightarrow> int \<Rightarrow> bool" where
  "is_entry_order_expired current_bar_open_time_ms timeframe_ms expiration_ms \<longleftrightarrow>
     current_bar_open_time_ms + timeframe_ms \<ge> expiration_ms"

lemma entry_order_expiration_pos:
  "entry_order_expiration_ms src tf n = Inr x \<Longrightarrow> 0 < x"
  by (auto simp: entry_order_expiration_ms_def intro!: add_nonneg_pos mult_pos_pos split: if_splits)

lemma entry_order_expired_mono:
  "is_entry_order_expired t tf x \<Longrightarrow> t \<le> t' \<Longrightarrow> is_entry_order_expired t' tf x"
  by (simp add: is_entry_order_expired_def)

text \<open>Counted in bars: the order placed for the signal bar \<open>src\<close> is expired on the \<open>k\<close>-th bar
  after it exactly when \<open>k\<close> exceeds the configured lifetime.\<close>

lemma expired_on_bar_iff:
  assumes "entry_order_expiration_ms src tf n = Inr x"
  shows "is_entry_order_expired (src + k * tf) tf x \<longleftrightarrow> n + 1 \<le> k"
proof -
  from assms have tf: "0 < tf" and x: "x = src + (n + 2) * tf"
    by (auto simp: entry_order_expiration_ms_def split: if_splits)
  have "is_entry_order_expired (src + k * tf) tf x \<longleftrightarrow> (n + 2) * tf \<le> (k + 1) * tf"
    by (simp add: is_entry_order_expired_def x algebra_simps)
  also have "\<dots> \<longleftrightarrow> n + 1 \<le> k"
    using tf by auto
  finally show ?thesis .
qed

section \<open>Alignment of a fill to its bar\<close>

definition align_first_fill_to_entry_bar :: "int \<Rightarrow> string \<Rightarrow> int res" where
  "align_first_fill_to_entry_bar first_fill_at_ms base_timeframe =
     (if first_fill_at_ms \<le> 0
      then Inl (ValueError ''first_fill_at_ms must be a strictly positive integer'')
      else res_bind (timeframe_duration_ms base_timeframe)
        (\<lambda>duration_ms. Inr (first_fill_at_ms - (first_fill_at_ms mod duration_ms))))"

lemma align_first_fill_props:
  assumes "align_first_fill_to_entry_bar t tf = Inr b"
  obtains d where "timeframe_duration_ms tf = Inr d" and "0 < d"
    and "0 \<le> b" and "b \<le> t" and "t < b + d" and "d dvd b" and "0 < t"
proof -
  from assms obtain d where d: "timeframe_duration_ms tf = Inr d"
    and t: "0 < t" and b: "b = t - t mod d"
    by (auto simp: align_first_fill_to_entry_bar_def res_bind_eq_Inr split: if_splits)
  from d have "0 < d" by (rule timeframe_duration_pos)
  then have m: "0 \<le> t mod d" "t mod d < d" by simp_all
  have "t mod d \<le> t" using t \<open>0 < d\<close> by (simp add: zmod_le_nonneg_dividend)
  show thesis
  proof (rule that [OF d \<open>0 < d\<close>])
    show "0 \<le> b" "b \<le> t" "t < b + d" "0 < t"
      using b m t \<open>t mod d \<le> t\<close> by auto
    show "d dvd b" by (simp add: b dvd_minus_mod)
  qed
qed

text \<open>The aligned bar is the only grid point whose candle contains the fill.\<close>

lemma align_first_fill_unique:
  assumes "align_first_fill_to_entry_bar t tf = Inr b"
    and "timeframe_duration_ms tf = Inr d" and "d dvd b'" and "b' \<le> t" and "t < b' + d"
  shows "b' = b"
proof -
  from assms(2) have "0 < d" by (rule timeframe_duration_pos)
  from assms(1,2) have b: "b = t - t mod d"
    by (auto simp: align_first_fill_to_entry_bar_def split: if_splits)
  from assms(3) obtain q where q: "b' = d * q" ..
  from assms(4,5) q have "t div d = q"
    using \<open>0 < d\<close> by (intro int_div_pos_eq [where r = "t - b'"]) auto
  then show ?thesis by (simp add: b q minus_mod_eq_mult_div)
qed

end
