(* ===== verification/Json_Values.thy ===== *)
theory Json_Values
  imports Prelude "HOL-Library.Multiset"
begin

text \<open>
  JSON values as the runtime holds them (\<open>FrozenJsonValue\<close> of
  \<open>utility/deployment_catalog/models.py\<close>): what \<open>json.loads\<close> returns, and what \<open>freeze_json\<close> makes
  immutable. An object is an association list in insertion order with distinct keys, as a Python
  \<open>dict\<close>. A float is the text \<open>repr\<close> gives it, which is what \<open>json.dumps\<close> writes.

  Equality of two Python mappings ignores the order of their keys: \<open>json_eq\<close>. The numeric
  coincidences of Python across types (\<open>1 == 1.0 == True\<close>) are not modelled.
\<close>

datatype json =
    JNull
  | JBool bool
  | JInt int
  | JFloat string
  | JStr string
  | JArr "json list"
  | JObj "(string \<times> json) list"

type_synonym json_object = "(string \<times> json) list"

fun freeze_json :: "json \<Rightarrow> json" where
  "freeze_json (JObj kvs) = JObj (map (\<lambda>(k, v). (k, freeze_json v)) kvs)"
| "freeze_json (JArr vs) = JArr (map freeze_json vs)"
| "freeze_json v = v"

text \<open>The objects of a value have distinct keys.\<close>

fun wf_json :: "json \<Rightarrow> bool" where
  "wf_json (JObj kvs) = (distinct (map fst kvs) \<and> (\<forall>(k, v) \<in> set kvs. wf_json v))"
| "wf_json (JArr vs) = (\<forall>v \<in> set vs. wf_json v)"
| "wf_json v = True"

text \<open>Keys sorted at every level.\<close>

fun json_norm :: "json \<Rightarrow> json" where
  "json_norm (JObj kvs) = JObj (sort_key fst (map (\<lambda>(k, v). (k, json_norm v)) kvs))"
| "json_norm (JArr vs) = JArr (map json_norm vs)"
| "json_norm v = v"

definition json_eq :: "json \<Rightarrow> json \<Rightarrow> bool" where
  "json_eq a b \<longleftrightarrow> json_norm a = json_norm b"

definition freeze_object :: "json_object \<Rightarrow> json_object" where
  "freeze_object kvs = map (\<lambda>(k, v). (k, freeze_json v)) kvs"

lemma freeze_json_id [simp]: "freeze_json v = v"
proof (induction v rule: freeze_json.induct)
  case (1 kvs)
  then have "map (\<lambda>(k, v). (k, freeze_json v)) kvs = kvs"
    by (intro map_idI) auto
  then show ?case by simp
next
  case (2 vs)
  then show ?case by (simp add: map_idI)
qed simp_all

lemma freeze_object_id [simp]: "freeze_object kvs = kvs"
  by (simp add: freeze_object_def map_idI)

lemma json_eq_refl [simp]: "json_eq v v"
  by (simp add: json_eq_def)

lemma json_eq_sym: "json_eq a b \<Longrightarrow> json_eq b a"
  by (simp add: json_eq_def)

lemma json_eq_trans: "json_eq a b \<Longrightarrow> json_eq b c \<Longrightarrow> json_eq a c"
  by (simp add: json_eq_def)

text \<open>Two objects that list the same bindings in another order are equal.\<close>

lemma json_eq_permuted:
  assumes "distinct (map fst kvs)" and "mset kvs = mset kvs'"
  shows "json_eq (JObj kvs) (JObj kvs')"
proof -
  let ?f = "\<lambda>(k, v). (k, json_norm v)"
  have "mset (map ?f kvs) = mset (map ?f kvs')" using assms(2) by (simp only: mset_map)
  moreover have "inj_on fst (set (map ?f kvs))"
    using assms(1) by (fastforce simp: distinct_map inj_on_def)
  ultimately have "sort_key fst (map ?f kvs) = sort_key fst (map ?f kvs')"
    by (intro sort_key_inj_key_eq) simp_all
  then show ?thesis by (simp add: json_eq_def)
qed

end
