(* ===== verification/State_Models.thy ===== *)
theory State_Models
  imports Decimal_Text Timeframe Json_Values
begin

text \<open>
  The recipes of the strategy engine (\<open>runtime/recipes\<close>), the strategy-instance aggregate
  (\<open>runtime/state/models.py\<close>) and the closure fact (\<open>runtime/trade_cycle_closure/models.py\<close>).

  A frozen dataclass is a record; its \<open>__post_init__\<close> is \<open>new_X :: X \<Rightarrow> X res\<close>, the checks in the
  order of the source, with the fields it normalises. \<open>dataclasses.replace\<close> runs \<open>__post_init__\<close>
  again, so it is \<open>new_X\<close> on the updated record. The \<open>type(x) is not T\<close> checks hold by typing and
  are not written. Values that a message interpolates are left out of the message.

  Proved: the constructors accept exactly the well-formed records (\<open>wf_X\<close>), and a constructed
  record is well formed and is accepted unchanged again.
\<close>

section \<open>Recipes\<close>

record DesiredEntry =
  de_side :: string
  de_source_plan_bar_open_time_ms :: int
  de_planned_entry_price :: string
  de_initial_stop_price :: string
  de_initial_take_price :: string
  de_locked_exit_profile :: string

definition new_DesiredEntry :: "DesiredEntry \<Rightarrow> DesiredEntry res" where
  "new_DesiredEntry d =
     (if de_side d \<notin> {''long'', ''short''} then Inl (ValueError ''side must be long or short'')
      else if de_source_plan_bar_open_time_ms d < 0
      then Inl (ValueError ''source_plan_bar_open_time_ms must be non-negative'')
      else res_bind (normalize_decimal_text (de_planned_entry_price d)) (\<lambda>planned.
           res_bind (normalize_decimal_text (de_initial_stop_price d)) (\<lambda>stop.
           res_bind (normalize_decimal_text (de_initial_take_price d)) (\<lambda>take_price.
             if decimal_text_le_zero take_price then Inl (ValueError ''initial_take_price must be positive'')
             else if \<not> nonblank (de_locked_exit_profile d)
             then Inl (ValueError ''locked_exit_profile must be non-empty'')
             else Inr (d\<lparr>de_planned_entry_price := planned, de_initial_stop_price := stop,
                          de_initial_take_price := take_price\<rparr>)))))"

record DesiredProtection =
  dp_stop_price :: string
  dp_take_price :: "string option"

definition new_DesiredProtection :: "DesiredProtection \<Rightarrow> DesiredProtection res" where
  "new_DesiredProtection p =
     res_bind (normalize_decimal_text (dp_stop_price p)) (\<lambda>stop.
       case dp_take_price p of
         None \<Rightarrow> Inr (p\<lparr>dp_stop_price := stop\<rparr>)
       | Some take_price \<Rightarrow>
           res_bind (normalize_decimal_text take_price) (\<lambda>take_price.
             Inr (p\<lparr>dp_stop_price := stop, dp_take_price := Some take_price\<rparr>)))"

record EngineDesiredProtectionText =
  edpt_stop_price :: string
  edpt_take_price :: "string option"

record CloseSignal =
  cs_active :: bool
  cs_reason :: "string option"
  cs_component_id :: "string option"
  cs_layer :: "string option"

record PositionManagementRecipe =
  pmr_desired_protection :: DesiredProtection
  pmr_close_signal :: CloseSignal
  pmr_diagnostics :: json_object
  pmr_engine_desired_protection_text :: EngineDesiredProtectionText

definition new_PositionManagementRecipe :: "PositionManagementRecipe \<Rightarrow> PositionManagementRecipe res" where
  "new_PositionManagementRecipe r = Inr (r\<lparr>pmr_diagnostics := freeze_object (pmr_diagnostics r)\<rparr>)"

section \<open>The strategy-instance aggregate\<close>

record RegisteredSpecSnapshot =
  rss_instrument :: string
  rss_base_timeframe :: string
  rss_raw_spec :: json_object
  rss_source_path :: string

definition new_RegisteredSpecSnapshot :: "RegisteredSpecSnapshot \<Rightarrow> RegisteredSpecSnapshot res" where
  "new_RegisteredSpecSnapshot s =
     (if \<not> nonblank (rss_instrument s) then Inl (ValueError ''instrument must be non-empty'')
      else if \<not> nonblank (rss_base_timeframe s) then Inl (ValueError ''base_timeframe must be non-empty'')
      else if \<not> nonblank (rss_source_path s) then Inl (ValueError ''source_path must be non-empty'')
      else Inr (s\<lparr>rss_raw_spec := freeze_object (rss_raw_spec s)\<rparr>))"

text \<open>\<open>==\<close> of two snapshots: the fields, the specification as a mapping.\<close>

definition snapshot_eq :: "RegisteredSpecSnapshot \<Rightarrow> RegisteredSpecSnapshot \<Rightarrow> bool" where
  "snapshot_eq a b \<longleftrightarrow>
     rss_instrument a = rss_instrument b \<and> rss_base_timeframe a = rss_base_timeframe b \<and>
     json_eq (JObj (rss_raw_spec a)) (JObj (rss_raw_spec b)) \<and> rss_source_path a = rss_source_path b"

record AppliedEntryPackage =
  aep_applied_desired_entry :: DesiredEntry
  aep_calculated_quantity :: string

definition new_AppliedEntryPackage :: "AppliedEntryPackage \<Rightarrow> AppliedEntryPackage res" where
  "new_AppliedEntryPackage p =
     (if \<not> is_exact_decimal_text (aep_calculated_quantity p)
      then Inl (ValueError ''calculated_quantity must be exact-decimal text'')
      else Inr p)"

record FrozenExecutedEntryContext =
  fec_desired_entry :: DesiredEntry
  fec_first_fill_at_ms :: int
  fec_entry_bar_open_time_ms :: int
  fec_entry_order_expires_at_bar :: "int option"

definition new_FrozenExecutedEntryContext ::
    "FrozenExecutedEntryContext \<Rightarrow> FrozenExecutedEntryContext res" where
  "new_FrozenExecutedEntryContext c =
     (if fec_first_fill_at_ms c \<le> 0
      then Inl (ValueError ''first_fill_at_ms must be a strictly positive integer'')
      else if fec_entry_bar_open_time_ms c < 0
      then Inl (ValueError ''entry_bar_open_time_ms must be a non-negative integer'')
      else if fec_first_fill_at_ms c < fec_entry_bar_open_time_ms c
      then Inl (ValueError ''entry_bar_open_time_ms must not be after first_fill_at_ms'')
      else if (case fec_entry_order_expires_at_bar c of None \<Rightarrow> False | Some t \<Rightarrow> t \<le> 0)
      then Inl (ValueError ''entry_order_expires_at_bar must be a strictly positive integer or None'')
      else Inr c)"

record CurrentTradeCycle =
  ctc_trade_cycle_id :: string
  ctc_applied_entry_package :: AppliedEntryPackage
  ctc_frozen_entry_context :: "FrozenExecutedEntryContext option"
  ctc_latest_confirmed_management_protection :: "DesiredProtection option"
  ctc_entry_remainder_cancelled :: bool

definition new_CurrentTradeCycle :: "CurrentTradeCycle \<Rightarrow> CurrentTradeCycle res" where
  "new_CurrentTradeCycle c =
     (if ctc_trade_cycle_id c = [] then Inl (ValueError ''trade_cycle_id must be a non-empty string'')
      else Inr c)"

text \<open>The property \<open>CurrentTradeCycle.desired_entry\<close>.\<close>

definition cycle_desired_entry :: "CurrentTradeCycle \<Rightarrow> DesiredEntry" where
  "cycle_desired_entry c = aep_applied_desired_entry (ctc_applied_entry_package c)"

record PendingEntryRecovery =
  per_trade_cycle_id :: string

definition new_PendingEntryRecovery :: "PendingEntryRecovery \<Rightarrow> PendingEntryRecovery res" where
  "new_PendingEntryRecovery p =
     (if per_trade_cycle_id p = [] then Inl (ValueError ''trade_cycle_id must be a non-empty string'')
      else Inr p)"

record PendingCloseRecovery =
  pcr_trade_cycle_id :: string

definition new_PendingCloseRecovery :: "PendingCloseRecovery \<Rightarrow> PendingCloseRecovery res" where
  "new_PendingCloseRecovery p =
     (if pcr_trade_cycle_id p = [] then Inl (ValueError ''trade_cycle_id must be a non-empty string'')
      else Inr p)"

record StrategyInstanceRuntimeState =
  sirs_strategy_instance_id :: string
  sirs_strategy_id :: string
  sirs_registered_spec_snapshot :: RegisteredSpecSnapshot
  sirs_risk_multiplier :: string
  sirs_current_trade_cycle :: "CurrentTradeCycle option"
  sirs_pending_entry_recovery :: "PendingEntryRecovery option"
  sirs_pending_close_recovery :: "PendingCloseRecovery option"

definition new_StrategyInstanceRuntimeState ::
    "StrategyInstanceRuntimeState \<Rightarrow> StrategyInstanceRuntimeState res" where
  "new_StrategyInstanceRuntimeState s =
     (let entry = sirs_pending_entry_recovery s; close = sirs_pending_close_recovery s;
          cycle = sirs_current_trade_cycle s
      in if \<not> nonblank (sirs_strategy_instance_id s) \<or> \<not> nonblank (sirs_strategy_id s)
         then Inl (ValueError ''strategy identity fields must be non-empty'')
         else if \<not> is_positive_exact_decimal_text (sirs_risk_multiplier s)
         then Inl (ValueError ''risk_multiplier must be positive exact-decimal text'')
         else if (case (entry, cycle) of
                    (Some e, Some c) \<Rightarrow> per_trade_cycle_id e \<noteq> ctc_trade_cycle_id c | _ \<Rightarrow> False)
         then Inl (ValueError ''pending_entry_recovery.trade_cycle_id must match current_trade_cycle.trade_cycle_id'')
         else if close \<noteq> None \<and> cycle = None
         then Inl (ValueError ''pending_close_recovery requires a non-null current_trade_cycle'')
         else if (case (close, cycle) of
                    (Some p, Some c) \<Rightarrow> pcr_trade_cycle_id p \<noteq> ctc_trade_cycle_id c | _ \<Rightarrow> False)
         then Inl (ValueError ''pending_close_recovery.trade_cycle_id must match current_trade_cycle.trade_cycle_id'')
         else if entry \<noteq> None \<and> close \<noteq> None
         then Inl (ValueError ''pending_entry_recovery and pending_close_recovery must not both be set'')
         else Inr s)"

type_synonym state = StrategyInstanceRuntimeState

record GetOrCreateRequest =
  gcr_strategy_instance_id :: string
  gcr_strategy_id :: string
  gcr_instrument :: string
  gcr_base_timeframe :: string
  gcr_raw_spec :: json_object
  gcr_source_path :: string

section \<open>The closure fact\<close>

definition TRADE_CYCLE_CLOSURE_REASONS :: "string set" where
  "TRADE_CYCLE_CLOSURE_REASONS = {''stop_loss'', ''take_profit'', ''runtime_signal''}"

record TradeCycleClosure =
  tcc_strategy_instance_id :: string
  tcc_trade_cycle_id :: string
  tcc_reason :: string
  tcc_order_id :: string
  tcc_order_link_id :: "string option"
  tcc_parent_order_link_id :: "string option"

text \<open>\<open>_require_non_empty_string\<close> on a value that may be \<open>None\<close>.\<close>

definition present :: "string option \<Rightarrow> bool" where
  "present v \<longleftrightarrow> v \<noteq> None \<and> v \<noteq> Some []"

definition new_TradeCycleClosure :: "TradeCycleClosure \<Rightarrow> TradeCycleClosure res" where
  "new_TradeCycleClosure c =
     (if tcc_strategy_instance_id c = [] then Inl (ValueError ''strategy_instance_id must be a non-empty string'')
      else if tcc_trade_cycle_id c = [] then Inl (ValueError ''trade_cycle_id must be a non-empty string'')
      else if tcc_order_id c = [] then Inl (ValueError ''order_id must be a non-empty string'')
      else if tcc_reason c \<notin> TRADE_CYCLE_CLOSURE_REASONS then Inl (ValueError ''unsupported closure reason'')
      else if tcc_reason c = ''runtime_signal''
      then (if \<not> present (tcc_order_link_id c)
            then Inl (ValueError ''order_link_id must be a non-empty string'')
            else if tcc_parent_order_link_id c \<noteq> None
            then Inl (ValueError ''runtime_signal closure must not carry parent_order_link_id'')
            else Inr c)
      else (if \<not> present (tcc_parent_order_link_id c)
            then Inl (ValueError ''parent_order_link_id must be a non-empty string'')
            else if tcc_order_link_id c \<noteq> None
            then Inl (ValueError ''protection closure must not carry order_link_id'')
            else Inr c))"

section \<open>Well-formed values\<close>

text \<open>A stored price: canonical decimal text.\<close>

definition price_text :: "string \<Rightarrow> bool" where
  "price_text t \<longleftrightarrow> normalize_decimal_text t = Inr t"

definition wf_desired_entry :: "DesiredEntry \<Rightarrow> bool" where [wf_defs]:
  "wf_desired_entry d \<longleftrightarrow>
     de_side d \<in> {''long'', ''short''} \<and> 0 \<le> de_source_plan_bar_open_time_ms d \<and>
     price_text (de_planned_entry_price d) \<and> price_text (de_initial_stop_price d) \<and>
     price_text (de_initial_take_price d) \<and> \<not> decimal_text_le_zero (de_initial_take_price d) \<and>
     nonblank (de_locked_exit_profile d)"

definition wf_protection :: "DesiredProtection \<Rightarrow> bool" where [wf_defs]:
  "wf_protection p \<longleftrightarrow>
     price_text (dp_stop_price p) \<and>
     (case dp_take_price p of None \<Rightarrow> True | Some t \<Rightarrow> price_text t)"

definition wf_package :: "AppliedEntryPackage \<Rightarrow> bool" where [wf_defs]:
  "wf_package p \<longleftrightarrow>
     wf_desired_entry (aep_applied_desired_entry p) \<and> is_exact_decimal_text (aep_calculated_quantity p)"

definition wf_frozen :: "FrozenExecutedEntryContext \<Rightarrow> bool" where [wf_defs]:
  "wf_frozen c \<longleftrightarrow>
     wf_desired_entry (fec_desired_entry c) \<and> 0 < fec_first_fill_at_ms c \<and>
     0 \<le> fec_entry_bar_open_time_ms c \<and> fec_entry_bar_open_time_ms c \<le> fec_first_fill_at_ms c \<and>
     (case fec_entry_order_expires_at_bar c of None \<Rightarrow> True | Some t \<Rightarrow> 0 < t)"

definition wf_cycle :: "CurrentTradeCycle \<Rightarrow> bool" where [wf_defs]:
  "wf_cycle c \<longleftrightarrow>
     ctc_trade_cycle_id c \<noteq> [] \<and> wf_package (ctc_applied_entry_package c) \<and>
     (case ctc_frozen_entry_context c of None \<Rightarrow> True | Some f \<Rightarrow> wf_frozen f) \<and>
     (case ctc_latest_confirmed_management_protection c of None \<Rightarrow> True | Some p \<Rightarrow> wf_protection p)"

definition wf_snapshot :: "RegisteredSpecSnapshot \<Rightarrow> bool" where [wf_defs]:
  "wf_snapshot s \<longleftrightarrow>
     nonblank (rss_instrument s) \<and> nonblank (rss_base_timeframe s) \<and> nonblank (rss_source_path s)"

definition wf_state :: "state \<Rightarrow> bool" where [wf_defs]:
  "wf_state s \<longleftrightarrow>
     nonblank (sirs_strategy_instance_id s) \<and> nonblank (sirs_strategy_id s) \<and>
     wf_snapshot (sirs_registered_spec_snapshot s) \<and>
     is_positive_exact_decimal_text (sirs_risk_multiplier s) \<and>
     (case sirs_current_trade_cycle s of None \<Rightarrow> True | Some c \<Rightarrow> wf_cycle c) \<and>
     (case sirs_pending_entry_recovery s of None \<Rightarrow> True
      | Some e \<Rightarrow> per_trade_cycle_id e \<noteq> [] \<and> sirs_pending_close_recovery s = None \<and>
          (case sirs_current_trade_cycle s of None \<Rightarrow> True
           | Some c \<Rightarrow> per_trade_cycle_id e = ctc_trade_cycle_id c)) \<and>
     (case sirs_pending_close_recovery s of None \<Rightarrow> True
      | Some p \<Rightarrow> (case sirs_current_trade_cycle s of None \<Rightarrow> False
           | Some c \<Rightarrow> pcr_trade_cycle_id p = ctc_trade_cycle_id c))"

lemma normalize_price_text: "normalize_decimal_text v = Inr t \<Longrightarrow> price_text t"
  by (elim normalize_decimal_text_canonical) (auto simp: price_text_def intro: normalize_canonical_text)

lemma new_DesiredEntry_wf: "new_DesiredEntry d = Inr d' \<Longrightarrow> wf_desired_entry d'"
  by (auto simp: new_DesiredEntry_def wf_desired_entry_def res_bind_eq_Inr normalize_price_text
      split: if_splits)

lemma new_DesiredEntry_id: "wf_desired_entry d \<Longrightarrow> new_DesiredEntry d = Inr d"
  by (auto simp: new_DesiredEntry_def wf_desired_entry_def price_text_def)

lemma new_DesiredProtection_wf: "new_DesiredProtection p = Inr p' \<Longrightarrow> wf_protection p'"
  by (cases "dp_take_price p")
    (auto simp: new_DesiredProtection_def wf_protection_def res_bind_eq_Inr normalize_price_text)

lemma new_DesiredProtection_id: "wf_protection p \<Longrightarrow> new_DesiredProtection p = Inr p"
  by (cases p) (auto simp: new_DesiredProtection_def wf_protection_def price_text_def split: option.splits)

lemma new_AppliedEntryPackage_iff:
  "new_AppliedEntryPackage p = Inr p' \<longleftrightarrow> p' = p \<and> is_exact_decimal_text (aep_calculated_quantity p)"
  by (auto simp: new_AppliedEntryPackage_def)

lemma new_FrozenExecutedEntryContext_iff:
  "wf_desired_entry (fec_desired_entry c) \<Longrightarrow>
     new_FrozenExecutedEntryContext c = Inr c' \<longleftrightarrow> c' = c \<and> wf_frozen c"
  by (auto simp: new_FrozenExecutedEntryContext_def wf_frozen_def split: option.splits)

lemma new_CurrentTradeCycle_iff:
  "new_CurrentTradeCycle c = Inr c' \<longleftrightarrow> c' = c \<and> ctc_trade_cycle_id c \<noteq> []"
  by (auto simp: new_CurrentTradeCycle_def)

lemma new_PendingEntryRecovery_iff:
  "new_PendingEntryRecovery p = Inr p' \<longleftrightarrow> p' = p \<and> per_trade_cycle_id p \<noteq> []"
  by (auto simp: new_PendingEntryRecovery_def)

lemma new_PendingCloseRecovery_iff:
  "new_PendingCloseRecovery p = Inr p' \<longleftrightarrow> p' = p \<and> pcr_trade_cycle_id p \<noteq> []"
  by (auto simp: new_PendingCloseRecovery_def)

text \<open>The checks of the aggregate's own \<open>__post_init__\<close>, without those of the nested records.\<close>

definition markers_ok :: "state \<Rightarrow> bool" where
  "markers_ok s \<longleftrightarrow>
     (case sirs_pending_entry_recovery s of None \<Rightarrow> True
      | Some e \<Rightarrow> sirs_pending_close_recovery s = None \<and>
          (case sirs_current_trade_cycle s of None \<Rightarrow> True
           | Some c \<Rightarrow> per_trade_cycle_id e = ctc_trade_cycle_id c)) \<and>
     (case sirs_pending_close_recovery s of None \<Rightarrow> True
      | Some p \<Rightarrow> (case sirs_current_trade_cycle s of None \<Rightarrow> False
           | Some c \<Rightarrow> pcr_trade_cycle_id p = ctc_trade_cycle_id c))"

lemma new_StrategyInstanceRuntimeState_iff:
  "new_StrategyInstanceRuntimeState s = Inr s' \<longleftrightarrow>
     s' = s \<and> nonblank (sirs_strategy_instance_id s) \<and> nonblank (sirs_strategy_id s) \<and>
     is_positive_exact_decimal_text (sirs_risk_multiplier s) \<and> markers_ok s"
  by (auto simp: new_StrategyInstanceRuntimeState_def markers_ok_def Let_def
      split: option.splits if_splits)

lemmas new_record_iff = new_AppliedEntryPackage_iff new_FrozenExecutedEntryContext_iff
  new_CurrentTradeCycle_iff new_PendingEntryRecovery_iff new_PendingCloseRecovery_iff
  new_StrategyInstanceRuntimeState_iff

lemma wf_state_markers_ok: "wf_state s \<Longrightarrow> markers_ok s"
  by (auto simp: wf_state_def markers_ok_def split: option.splits)

lemma new_state_id: "wf_state s \<Longrightarrow> new_StrategyInstanceRuntimeState s = Inr s"
  using wf_state_markers_ok by (auto simp: new_StrategyInstanceRuntimeState_iff wf_state_def)

lemma snapshot_eq_refl [simp]: "snapshot_eq a a"
  by (simp add: snapshot_eq_def)

end
