(* ===== verification/State_Repository.thy ===== *)
theory State_Repository
  imports State_Models "HOL-Library.AList"
begin

text \<open>
  \<open>runtime/state/repository.py\<close>: the repository port every orchestrator depends on, and its
  in-memory implementation.

  The port is the record \<open>repo_ops\<close> of its operations on a representation \<open>'r\<close>. What the clients
  rely on is the locale \<open>state_repository\<close>: which abstract map \<open>states\<close> a representation holds, and
  how each operation reads and changes it. The in-memory repository interprets it here; the durable
  one in \<open>Jsonl_Repository\<close>.
\<close>

section \<open>The port\<close>

record 'r repo_ops =
  ro_get_or_create :: "GetOrCreateRequest \<Rightarrow> 'r \<Rightarrow> state res \<times> 'r"
  ro_get :: "string \<Rightarrow> 'r \<Rightarrow> state option res \<times> 'r"
  ro_save :: "state \<Rightarrow> 'r \<Rightarrow> state res \<times> 'r"
  ro_list_ids_with_pending_entry_recovery :: "'r \<Rightarrow> string list res"
  ro_list_ids_with_pending_close_recovery :: "'r \<Rightarrow> string list res"

definition CANONICAL_INITIAL_RISK_MULTIPLIER :: string where
  "CANONICAL_INITIAL_RISK_MULTIPLIER = ''1''"

text \<open>The aggregate a first request creates.\<close>

definition initial_state :: "GetOrCreateRequest \<Rightarrow> state res" where
  "initial_state request =
     res_bind (new_RegisteredSpecSnapshot
                 \<lparr>rss_instrument = gcr_instrument request,
                  rss_base_timeframe = gcr_base_timeframe request,
                  rss_raw_spec = gcr_raw_spec request,
                  rss_source_path = gcr_source_path request\<rparr>) (\<lambda>snapshot.
     new_StrategyInstanceRuntimeState
       \<lparr>sirs_strategy_instance_id = gcr_strategy_instance_id request,
        sirs_strategy_id = gcr_strategy_id request,
        sirs_registered_spec_snapshot = snapshot,
        sirs_risk_multiplier = CANONICAL_INITIAL_RISK_MULTIPLIER,
        sirs_current_trade_cycle = None, sirs_pending_entry_recovery = None,
        sirs_pending_close_recovery = None\<rparr>)"

definition require_strategy_instance_id :: "string \<Rightarrow> unit res" where
  "require_strategy_instance_id i =
     (if i = [] then Inl (ValueError ''strategy_instance_id must be a non-empty string'') else Inr ())"

text \<open>What \<open>save\<close> demands of the stored aggregate it replaces.\<close>

definition save_check :: "state option \<Rightarrow> state \<Rightarrow> unit res" where
  "save_check existing s =
     (case existing of
        None \<Rightarrow> Inl (StrategyInstanceStateError (StrategyInstanceStateNotFound (sirs_strategy_instance_id s)))
      | Some old \<Rightarrow>
          if sirs_strategy_id old \<noteq> sirs_strategy_id s
          then Inl (StrategyInstanceStateError (StrategyInstanceIdentityConflict (sirs_strategy_instance_id s)))
          else if \<not> snapshot_eq (sirs_registered_spec_snapshot old) (sirs_registered_spec_snapshot s)
          then Inl (StrategyInstanceStateError (StrategyInstanceRegistrationConflict (sirs_strategy_instance_id s)))
          else Inr ())"

section \<open>The contract\<close>

locale state_repository =
  fixes ops :: "'r repo_ops"
    and states :: "'r \<Rightarrow> string \<Rightarrow> state option"
    and inv :: "'r \<Rightarrow> bool"
  assumes keys: "inv r \<Longrightarrow> states r i = Some s \<Longrightarrow> sirs_strategy_instance_id s = i"
    and get_law: "inv r \<Longrightarrow> ro_get ops i r = (y, r') \<Longrightarrow>
      r' = r \<and> (case y of Inr found \<Rightarrow> i \<noteq> [] \<and> found = states r i | Inl e \<Rightarrow> True)"
    and save_law: "inv r \<Longrightarrow> ro_save ops s r = (x, r') \<Longrightarrow>
      inv r' \<and>
      (case x of
         Inr s' \<Rightarrow> s' = s \<and> save_check (states r (sirs_strategy_instance_id s)) s = Inr () \<and>
                   states r' = (states r)(sirs_strategy_instance_id s \<mapsto> s)
       | Inl e \<Rightarrow> states r' = states r)"
    and get_or_create_law: "inv r \<Longrightarrow> ro_get_or_create ops q r = (x, r') \<Longrightarrow>
      inv r' \<and>
      (case x of
         Inr s \<Rightarrow>
           (gcr_strategy_instance_id q \<noteq> [] \<longrightarrow>
              ro_get ops (gcr_strategy_instance_id q) r = (Inr (states r (gcr_strategy_instance_id q)), r)) \<and>
           (case states r (gcr_strategy_instance_id q) of
              Some old \<Rightarrow> s = old \<and> sirs_strategy_id old = gcr_strategy_id q \<and> states r' = states r
            | None \<Rightarrow> initial_state q = Inr s \<and>
                      states r' = (states r)(gcr_strategy_instance_id q \<mapsto> s))
       | Inl e \<Rightarrow> states r' = states r)"
    and list_entry_law: "inv r \<Longrightarrow> ro_list_ids_with_pending_entry_recovery ops r = Inr ids \<Longrightarrow>
      set ids = {i. \<exists>s. states r i = Some s \<and> sirs_pending_entry_recovery s \<noteq> None}"
    and list_close_law: "inv r \<Longrightarrow> ro_list_ids_with_pending_close_recovery ops r = Inr ids \<Longrightarrow>
      set ids = {i. \<exists>s. states r i = Some s \<and> sirs_pending_close_recovery s \<noteq> None}"

text \<open>A repository that never refuses a read. A durable one stops answering after a failed physical
  write; the in-memory one always answers.\<close>

locale available_repository = state_repository +
  assumes get_total: "inv r \<Longrightarrow> i \<noteq> [] \<Longrightarrow> ro_get ops i r = (Inr (states r i), r)"
    and list_entry_total: "inv r \<Longrightarrow> \<exists>ids. ro_list_ids_with_pending_entry_recovery ops r = Inr ids"
    and list_close_total: "inv r \<Longrightarrow> \<exists>ids. ro_list_ids_with_pending_close_recovery ops r = Inr ids"

section \<open>The in-memory repository\<close>

text \<open>\<open>_states\<close> is a dictionary: an association list in insertion order. Every operation runs under
  the repository's lock, so it is one step.\<close>

type_synonym memory_repo = "(string \<times> state) list"

definition memory_get_or_create :: "GetOrCreateRequest \<Rightarrow> memory_repo \<Rightarrow> state res \<times> memory_repo" where
  "memory_get_or_create request r =
     (case map_of r (gcr_strategy_instance_id request) of
        Some existing \<Rightarrow>
          (if sirs_strategy_id existing \<noteq> gcr_strategy_id request
           then (Inl (StrategyInstanceStateError
                   (StrategyInstanceIdentityConflict (gcr_strategy_instance_id request))), r)
           else (Inr existing, r))
      | None \<Rightarrow>
          (case initial_state request of
             Inl e \<Rightarrow> (Inl e, r)
           | Inr s \<Rightarrow> (Inr s, AList.update (gcr_strategy_instance_id request) s r)))"

definition memory_get :: "string \<Rightarrow> memory_repo \<Rightarrow> state option res \<times> memory_repo" where
  "memory_get i r = (res_bind (require_strategy_instance_id i) (\<lambda>_. Inr (map_of r i)), r)"

definition memory_save :: "state \<Rightarrow> memory_repo \<Rightarrow> state res \<times> memory_repo" where
  "memory_save s r =
     (case save_check (map_of r (sirs_strategy_instance_id s)) s of
        Inl e \<Rightarrow> (Inl e, r)
      | Inr _ \<Rightarrow> (Inr s, AList.update (sirs_strategy_instance_id s) s r))"

definition memory_list_ids_with_pending_entry_recovery :: "memory_repo \<Rightarrow> string list res" where
  "memory_list_ids_with_pending_entry_recovery r =
     Inr (map fst (filter (\<lambda>(i, s). sirs_pending_entry_recovery s \<noteq> None) r))"

definition memory_list_ids_with_pending_close_recovery :: "memory_repo \<Rightarrow> string list res" where
  "memory_list_ids_with_pending_close_recovery r =
     Inr (map fst (filter (\<lambda>(i, s). sirs_pending_close_recovery s \<noteq> None) r))"

definition memory_ops :: "memory_repo repo_ops" where
  "memory_ops =
     \<lparr>ro_get_or_create = memory_get_or_create, ro_get = memory_get, ro_save = memory_save,
      ro_list_ids_with_pending_entry_recovery = memory_list_ids_with_pending_entry_recovery,
      ro_list_ids_with_pending_close_recovery = memory_list_ids_with_pending_close_recovery\<rparr>"

text \<open>A dictionary has one entry per key, stored under the aggregate's own identity.\<close>

definition memory_inv :: "memory_repo \<Rightarrow> bool" where
  "memory_inv r \<longleftrightarrow> distinct (map fst r) \<and> (\<forall>(i, s) \<in> set r. sirs_strategy_instance_id s = i)"

lemma initial_state_id: "initial_state q = Inr s \<Longrightarrow> sirs_strategy_instance_id s = gcr_strategy_instance_id q"
  by (auto simp: initial_state_def res_bind_eq_Inr new_StrategyInstanceRuntimeState_iff)

lemma initial_state_wf: "initial_state q = Inr s \<Longrightarrow> wf_state s"
  by (auto simp: initial_state_def res_bind_eq_Inr new_StrategyInstanceRuntimeState_iff
      new_RegisteredSpecSnapshot_def wf_state_def wf_snapshot_def split: if_splits)

lemma initial_state_empty:
  "initial_state q = Inr s \<Longrightarrow>
     sirs_current_trade_cycle s = None \<and> sirs_pending_entry_recovery s = None \<and> sirs_pending_close_recovery s = None"
  by (auto simp: initial_state_def res_bind_eq_Inr new_StrategyInstanceRuntimeState_iff)

lemma memory_inv_update:
  assumes "memory_inv r" and "sirs_strategy_instance_id s = i"
  shows "memory_inv (AList.update i s r)"
proof -
  have "sirs_strategy_instance_id t = j" if "(j, t) \<in> set (AList.update i s r)" for j t
  proof -
    have "distinct (map fst (AList.update i s r))"
      using assms(1) by (simp add: memory_inv_def distinct_update)
    with that have "map_of (AList.update i s r) j = Some t" by simp
    then have "(if j = i then Some s else map_of r j) = Some t" by (simp add: update_conv')
    with assms show ?thesis
      by (auto simp: memory_inv_def split: if_splits dest!: map_of_SomeD)
  qed
  with assms(1) show ?thesis by (auto simp: memory_inv_def distinct_update)
qed

lemma memory_listed:
  assumes "memory_inv r"
  shows "set (map fst (filter (\<lambda>(i, s). p s) r)) = {i. \<exists>s. map_of r i = Some s \<and> p s}"
  using assms by (force simp: memory_inv_def map_of_eq_Some_iff)

interpretation memory: state_repository memory_ops map_of memory_inv
proof
  fix r i s
  assume "memory_inv r" "map_of r i = Some s"
  then show "sirs_strategy_instance_id s = i"
    by (auto simp: memory_inv_def dest: map_of_SomeD)
next
  fix r r' i x
  assume "ro_get memory_ops i r = (x, r')"
  then show "r' = r \<and> (case x of Inr found \<Rightarrow> i \<noteq> [] \<and> found = map_of r i | Inl e \<Rightarrow> True)"
    by (auto simp: memory_ops_def memory_get_def require_strategy_instance_id_def split: if_splits)
next
  fix r s x r'
  assume "memory_inv r" "ro_save memory_ops s r = (x, r')"
  then show "memory_inv r' \<and> (case x of
      Inr s' \<Rightarrow> s' = s \<and> save_check (map_of r (sirs_strategy_instance_id s)) s = Inr () \<and>
        map_of r' = (map_of r)(sirs_strategy_instance_id s \<mapsto> s)
    | Inl e \<Rightarrow> map_of r' = map_of r)"
    by (auto simp: memory_ops_def memory_save_def update_conv' intro: memory_inv_update split: sum.splits)
next
  fix r q x r'
  assume "memory_inv r" "ro_get_or_create memory_ops q r = (x, r')"
  then show "memory_inv r' \<and> (case x of
      Inr s \<Rightarrow> (gcr_strategy_instance_id q \<noteq> [] \<longrightarrow> ro_get memory_ops (gcr_strategy_instance_id q) r
                   = (Inr (map_of r (gcr_strategy_instance_id q)), r)) \<and>
        (case map_of r (gcr_strategy_instance_id q) of
          Some old \<Rightarrow> s = old \<and> sirs_strategy_id old = gcr_strategy_id q \<and> map_of r' = map_of r
        | None \<Rightarrow> initial_state q = Inr s \<and> map_of r' = (map_of r)(gcr_strategy_instance_id q \<mapsto> s))
    | Inl e \<Rightarrow> map_of r' = map_of r)"
    by (auto simp: memory_ops_def memory_get_def require_strategy_instance_id_def memory_get_or_create_def update_conv' intro!: memory_inv_update initial_state_id
        split: sum.splits option.splits if_splits)
next
  fix r :: memory_repo and ids
  assume "memory_inv r" "ro_list_ids_with_pending_entry_recovery memory_ops r = Inr ids"
  then show "set ids = {i. \<exists>s. map_of r i = Some s \<and> sirs_pending_entry_recovery s \<noteq> None}"
    using memory_listed [of r "\<lambda>s. sirs_pending_entry_recovery s \<noteq> None"]
    by (simp add: memory_ops_def memory_list_ids_with_pending_entry_recovery_def)
next
  fix r :: memory_repo and ids
  assume "memory_inv r" "ro_list_ids_with_pending_close_recovery memory_ops r = Inr ids"
  then show "set ids = {i. \<exists>s. map_of r i = Some s \<and> sirs_pending_close_recovery s \<noteq> None}"
    using memory_listed [of r "\<lambda>s. sirs_pending_close_recovery s \<noteq> None"]
    by (simp add: memory_ops_def memory_list_ids_with_pending_close_recovery_def)
qed

interpretation memory: available_repository memory_ops map_of memory_inv
  by unfold_locales
    (simp_all add: memory_ops_def memory_get_def require_strategy_instance_id_def
      memory_list_ids_with_pending_entry_recovery_def memory_list_ids_with_pending_close_recovery_def)

end
