(* ===== verification/First_Fill.thy ===== *)
theory First_Fill
  imports State_Models
begin

text \<open>
  \<open>runtime/first_fill\<close>: freezing the executed entry context of a trade cycle when the exchange
  reports its first fill, and the policy object that adds the lifetime boundary of a
  \<open>touch_trigger\<close> entry order.

  Proved: what a successful freeze changes (only the frozen context of the current cycle, once),
  that repeating it is the identity and a different fill time is refused, that it keeps the
  aggregate well formed, and that it establishes the coherence of the frozen context.
\<close>

section \<open>Operations\<close>

definition apply_first_fill :: "state \<Rightarrow> string \<Rightarrow> int \<Rightarrow> int option \<Rightarrow> state res" where
  "apply_first_fill s trade_cycle_id first_fill_at_ms order_lifetime_bars =
     (if trade_cycle_id = []
      then Inl (FirstFillInvariantError ''apply_first_fill requires a non-empty trade_cycle_id'')
      else case sirs_current_trade_cycle s of
        None \<Rightarrow> Inl (FirstFillInvariantError ''apply_first_fill requires an existing current trade cycle'')
      | Some current_cycle \<Rightarrow>
          if ctc_trade_cycle_id current_cycle \<noteq> trade_cycle_id
          then Inl (FirstFillInvariantError ''trade_cycle_id does not match the current trade cycle'')
          else if first_fill_at_ms \<le> 0
          then Inl (ValueError ''first_fill_at_ms must be a strictly positive integer'')
          else if (case order_lifetime_bars of None \<Rightarrow> False | Some n \<Rightarrow> n < 0)
          then Inl (ValueError ''order_lifetime_bars must be an integer >= 0 or None'')
          else case ctc_frozen_entry_context current_cycle of
            Some frozen \<Rightarrow>
              if fec_first_fill_at_ms frozen = first_fill_at_ms then Inr s
              else Inl (FirstFillInvariantError ''trade cycle is already frozen with a different first_fill_at_ms'')
          | None \<Rightarrow>
              res_bind (align_first_fill_to_entry_bar first_fill_at_ms
                          (rss_base_timeframe (sirs_registered_spec_snapshot s))) (\<lambda>entry_bar.
              let desired_entry = aep_applied_desired_entry (ctc_applied_entry_package current_cycle) in
              if entry_bar < de_source_plan_bar_open_time_ms desired_entry
              then Inl (FirstFillInvariantError ''entry_bar_open_time_ms precedes the desired entry source plan bar'')
              else
                res_bind (case order_lifetime_bars of
                            None \<Rightarrow> Inr None
                          | Some n \<Rightarrow>
                              res_bind (timeframe_duration_ms
                                          (rss_base_timeframe (sirs_registered_spec_snapshot s))) (\<lambda>d.
                              res_bind (entry_order_expiration_ms
                                          (de_source_plan_bar_open_time_ms desired_entry) d n) (\<lambda>t.
                              Inr (Some t)))) (\<lambda>expires.
                res_bind (new_FrozenExecutedEntryContext
                            \<lparr>fec_desired_entry = desired_entry,
                             fec_first_fill_at_ms = first_fill_at_ms,
                             fec_entry_bar_open_time_ms = entry_bar,
                             fec_entry_order_expires_at_bar = expires\<rparr>) (\<lambda>frozen_context.
                res_bind (new_CurrentTradeCycle
                            (current_cycle\<lparr>ctc_frozen_entry_context := Some frozen_context\<rparr>)) (\<lambda>cycle.
                new_StrategyInstanceRuntimeState (s\<lparr>sirs_current_trade_cycle := Some cycle\<rparr>))))))"

text \<open>\<open>FirstFillFreezer\<close>: its only attribute is the order lifetime, present in \<open>touch_trigger\<close> mode.\<close>

datatype live_entry_mode = ema_anchor | touch_trigger

record FirstFillFreezer =
  fff_order_lifetime_bars :: "int option"

definition new_FirstFillFreezer :: "live_entry_mode \<Rightarrow> int option \<Rightarrow> FirstFillFreezer res" where
  "new_FirstFillFreezer mode order_lifetime_bars =
     (if mode = touch_trigger \<and> (case order_lifetime_bars of None \<Rightarrow> True | Some n \<Rightarrow> n < 0)
      then Inl (ValueError ''touch_trigger requires order_lifetime_bars as an integer >= 0'')
      else Inr \<lparr>fff_order_lifetime_bars =
                  (if mode = touch_trigger then order_lifetime_bars else None)\<rparr>)"

definition freeze :: "FirstFillFreezer \<Rightarrow> state \<Rightarrow> string \<Rightarrow> int \<Rightarrow> state res" where
  "freeze self s trade_cycle_id first_fill_at_ms =
     apply_first_fill s trade_cycle_id first_fill_at_ms (fff_order_lifetime_bars self)"

section \<open>Coherence of the frozen context\<close>

text \<open>The frozen entry is the applied entry of the cycle, and the entry bar is the candle of the
  first fill, not before the bar of the plan. A confirmed management protection and a cancelled
  remainder exist only on a frozen cycle.\<close>

definition coherent_frozen :: "string \<Rightarrow> CurrentTradeCycle \<Rightarrow> FrozenExecutedEntryContext \<Rightarrow> bool" where
  "coherent_frozen tf c f \<longleftrightarrow>
     fec_desired_entry f = cycle_desired_entry c \<and>
     align_first_fill_to_entry_bar (fec_first_fill_at_ms f) tf = Inr (fec_entry_bar_open_time_ms f) \<and>
     de_source_plan_bar_open_time_ms (cycle_desired_entry c) \<le> fec_entry_bar_open_time_ms f"

definition coherent :: "state \<Rightarrow> bool" where
  "coherent s \<longleftrightarrow>
     (case sirs_current_trade_cycle s of None \<Rightarrow> True
      | Some c \<Rightarrow> (case ctc_frozen_entry_context c of
            None \<Rightarrow> ctc_latest_confirmed_management_protection c = None \<and>
                    \<not> ctc_entry_remainder_cancelled c \<and> sirs_pending_close_recovery s = None
          | Some f \<Rightarrow> coherent_frozen (rss_base_timeframe (sirs_registered_spec_snapshot s)) c f))"

section \<open>What a freeze does\<close>

definition frozen_with :: "state \<Rightarrow> CurrentTradeCycle \<Rightarrow> FrozenExecutedEntryContext \<Rightarrow> state" where
  "frozen_with s c f = s\<lparr>sirs_current_trade_cycle := Some (c\<lparr>ctc_frozen_entry_context := Some f\<rparr>)\<rparr>"

lemma apply_first_fill_cases:
  assumes "apply_first_fill s cid t n = Inr s'"
  obtains (again) c f where "s' = s" "sirs_current_trade_cycle s = Some c" "ctc_trade_cycle_id c = cid"
      "ctc_frozen_entry_context c = Some f" "fec_first_fill_at_ms f = t"
    | (first) c f where "sirs_current_trade_cycle s = Some c" "ctc_trade_cycle_id c = cid" "cid \<noteq> []"
      "ctc_frozen_entry_context c = None" "s' = frozen_with s c f" "fec_first_fill_at_ms f = t"
      "coherent_frozen (rss_base_timeframe (sirs_registered_spec_snapshot s)) c f"
      "new_FrozenExecutedEntryContext f = Inr f"
      "new_StrategyInstanceRuntimeState s' = Inr s'"
      "case n of None \<Rightarrow> fec_entry_order_expires_at_bar f = None
       | Some k \<Rightarrow> 0 \<le> k \<and> (\<exists>d x. timeframe_duration_ms (rss_base_timeframe (sirs_registered_spec_snapshot s)) = Inr d \<and>
           entry_order_expiration_ms (de_source_plan_bar_open_time_ms (cycle_desired_entry c)) d k = Inr x \<and>
           fec_entry_order_expires_at_bar f = Some x)"
proof -
  from assms obtain c where c: "cid \<noteq> []" "sirs_current_trade_cycle s = Some c" "ctc_trade_cycle_id c = cid"
    by (auto simp: apply_first_fill_def split: if_splits option.splits)
  show ?thesis
  proof (cases "ctc_frozen_entry_context c")
    case (Some f)
    with assms c again show ?thesis
      by (auto simp: apply_first_fill_def split: if_splits option.splits)
  next
    case None
    from assms c None show ?thesis
      by (cases n)
        (auto simp: apply_first_fill_def res_bind_eq_Inr Let_def new_CurrentTradeCycle_iff
          new_StrategyInstanceRuntimeState_iff coherent_frozen_def cycle_desired_entry_def frozen_with_def
          new_FrozenExecutedEntryContext_def split: if_splits option.splits intro!: first)
  qed
qed

lemma apply_first_fill_wf:
  assumes "apply_first_fill s cid t n = Inr s'" and "wf_state s"
  shows "wf_state s'"
  using assms(1)
proof (cases rule: apply_first_fill_cases)
  case again
  with assms(2) show ?thesis by simp
next
  case (first c f)
  with assms(2) have "wf_desired_entry (fec_desired_entry f)"
    by (simp add: coherent_frozen_def cycle_desired_entry_def wf_defs)
  with first have "wf_frozen f" by (simp add: new_FrozenExecutedEntryContext_iff)
  with first assms(2) show ?thesis
    by (simp add: wf_state_def wf_cycle_def frozen_with_def split: option.splits)
qed

lemma apply_first_fill_coherent:
  assumes "apply_first_fill s cid t n = Inr s'" and "coherent s"
  shows "coherent s'"
  using assms(1)
proof (cases rule: apply_first_fill_cases)
  case again
  with assms(2) show ?thesis by simp
next
  case (first c f)
  then show ?thesis by (simp add: coherent_def frozen_with_def coherent_frozen_def cycle_desired_entry_def)
qed

end
