(* ===== verification/Entry_Reconciliation.thy ===== *)
theory Entry_Reconciliation
  imports First_Fill
begin

text \<open>
  \<open>runtime/entry_reconciliation\<close>: the pure decision of what to do about the desired entry of one
  bar, the command built for a decision, and the application of the exchange's confirmation to the
  aggregate.

  The decision tables, the command builder's fail-closed cases and the effect of a confirmation
  are characterised below. A confirmation is the only way these operations install or remove a
  cycle.
\<close>

section \<open>Values\<close>

datatype EntryReconciliationDecision =
    NoOp
  | Apply DesiredEntry
  | Cancel string
  | Replace string DesiredEntry

record EntryReconciliationCommand =
  erc_strategy_instance_id :: string
  erc_trade_cycle_id :: string
  erc_ticker :: string
  erc_desired_entry :: "DesiredEntry option"

definition new_EntryReconciliationCommand :: "EntryReconciliationCommand \<Rightarrow> EntryReconciliationCommand res" where
  "new_EntryReconciliationCommand c =
     (if erc_strategy_instance_id c = [] then Inl (ValueError ''strategy_instance_id must be a non-empty string'')
      else if erc_trade_cycle_id c = [] then Inl (ValueError ''trade_cycle_id must be a non-empty string'')
      else if erc_ticker c = [] then Inl (ValueError ''ticker must be a non-empty string'')
      else Inr c)"

record EntryAppliedConfirmation =
  eac_strategy_instance_id :: string
  eac_trade_cycle_id :: string
  eac_applied_desired_entry :: DesiredEntry
  eac_calculated_quantity :: string
  eac_trigger_price :: "string option"
  eac_stop_loss :: "string option"
  eac_take_profit :: "string option"
  eac_quantity :: "string option"
  eac_order_link_id :: "string option"
  eac_order_id :: "string option"

definition new_EntryAppliedConfirmation :: "EntryAppliedConfirmation \<Rightarrow> EntryAppliedConfirmation res" where
  "new_EntryAppliedConfirmation c =
     (if eac_strategy_instance_id c = [] then Inl (ValueError ''strategy_instance_id must be a non-empty string'')
      else if eac_trade_cycle_id c = [] then Inl (ValueError ''trade_cycle_id must be a non-empty string'')
      else if \<not> is_exact_decimal_text (eac_calculated_quantity c)
      then Inl (ValueError ''calculated_quantity must be exact-decimal text'')
      else if \<not> pred_option is_exact_decimal_text (eac_trigger_price c)
      then Inl (ValueError ''trigger_price must be exact-decimal text'')
      else if \<not> pred_option is_exact_decimal_text (eac_stop_loss c)
      then Inl (ValueError ''stop_loss must be exact-decimal text'')
      else if \<not> pred_option is_exact_decimal_text (eac_take_profit c)
      then Inl (ValueError ''take_profit must be exact-decimal text'')
      else if \<not> pred_option is_exact_decimal_text (eac_quantity c)
      then Inl (ValueError ''quantity must be exact-decimal text'')
      else if eac_order_link_id c = Some [] then Inl (ValueError ''order_link_id must be a non-empty string'')
      else if eac_order_id c = Some [] then Inl (ValueError ''order_id must be a non-empty string'')
      else Inr c)"

record EntryAbsentConfirmation =
  ebc_strategy_instance_id :: string
  ebc_trade_cycle_id :: string

definition new_EntryAbsentConfirmation :: "EntryAbsentConfirmation \<Rightarrow> EntryAbsentConfirmation res" where
  "new_EntryAbsentConfirmation c =
     (if ebc_strategy_instance_id c = [] then Inl (ValueError ''strategy_instance_id must be a non-empty string'')
      else if ebc_trade_cycle_id c = [] then Inl (ValueError ''trade_cycle_id must be a non-empty string'')
      else Inr c)"

record EntryDeclinedOutcome =
  edo_strategy_instance_id :: string
  edo_trade_cycle_id :: string
  edo_decline_reason :: string
  edo_decline_message :: string

definition new_EntryDeclinedOutcome :: "EntryDeclinedOutcome \<Rightarrow> EntryDeclinedOutcome res" where
  "new_EntryDeclinedOutcome c =
     (if edo_strategy_instance_id c = [] then Inl (ValueError ''strategy_instance_id must be a non-empty string'')
      else if edo_trade_cycle_id c = [] then Inl (ValueError ''trade_cycle_id must be a non-empty string'')
      else if edo_decline_reason c = [] then Inl (ValueError ''decline_reason must be a non-empty string'')
      else if edo_decline_message c = [] then Inl (ValueError ''decline_message must be a non-empty string'')
      else Inr c)"

datatype EntryExecutionOutcome =
    Applied EntryAppliedConfirmation
  | Absent EntryAbsentConfirmation
  | Declined EntryDeclinedOutcome

section \<open>The decision\<close>

definition get_acknowledged_desired_entry :: "CurrentTradeCycle option \<Rightarrow> DesiredEntry option" where
  "get_acknowledged_desired_entry current_trade_cycle =
     (case current_trade_cycle of None \<Rightarrow> None
      | Some c \<Rightarrow> Some (aep_applied_desired_entry (ctc_applied_entry_package c)))"

definition desired_entries_equivalent :: "DesiredEntry \<Rightarrow> DesiredEntry \<Rightarrow> bool" where
  "desired_entries_equivalent left right \<longleftrightarrow> left = right"

definition entry_is_frozen :: "CurrentTradeCycle option \<Rightarrow> bool" where
  "entry_is_frozen current_trade_cycle =
     (case current_trade_cycle of None \<Rightarrow> False | Some c \<Rightarrow> ctc_frozen_entry_context c \<noteq> None)"

definition frozen_entry_error :: exn where
  "frozen_entry_error = EntryReconciliationInvariantError
     ''entry reconciliation is fail-closed once the trade cycle entry is frozen''"

text \<open>The constructors \<open>Cancel\<close> and \<open>Replace\<close> require a non-empty identity.\<close>

definition new_Cancel :: "string \<Rightarrow> EntryReconciliationDecision res" where
  "new_Cancel cid = (if cid = [] then Inl (ValueError ''trade_cycle_id must be a non-empty string'')
                     else Inr (Cancel cid))"

definition new_Replace :: "string \<Rightarrow> DesiredEntry \<Rightarrow> EntryReconciliationDecision res" where
  "new_Replace cid d = (if cid = [] then Inl (ValueError ''trade_cycle_id must be a non-empty string'')
                        else Inr (Replace cid d))"

definition decide_entry_reconciliation ::
    "DesiredEntry option \<Rightarrow> CurrentTradeCycle option \<Rightarrow> EntryReconciliationDecision res" where
  "decide_entry_reconciliation new_desired_entry current_trade_cycle =
     (if entry_is_frozen current_trade_cycle then Inl frozen_entry_error
      else case get_acknowledged_desired_entry current_trade_cycle of
        None \<Rightarrow> (case new_desired_entry of None \<Rightarrow> Inr NoOp | Some d \<Rightarrow> Inr (Apply d))
      | Some acknowledged \<Rightarrow>
          (case current_trade_cycle of
             None \<Rightarrow> Inl AssertionError
           | Some c \<Rightarrow>
               (case new_desired_entry of
                  None \<Rightarrow> new_Cancel (ctc_trade_cycle_id c)
                | Some d \<Rightarrow>
                    if desired_entries_equivalent d acknowledged then Inr NoOp
                    else new_Replace (ctc_trade_cycle_id c) d)))"

definition touch_trigger_entry_reconciliation ::
    "DesiredEntry option \<Rightarrow> CurrentTradeCycle option \<Rightarrow> int \<Rightarrow> int \<Rightarrow> int
       \<Rightarrow> EntryReconciliationDecision res" where
  "touch_trigger_entry_reconciliation new_desired_entry current_trade_cycle
       current_bar_open_time_ms timeframe_ms order_lifetime_bars =
     (if current_bar_open_time_ms < 0
      then Inl (ValueError ''current_bar_open_time_ms must be a non-negative integer'')
      else if timeframe_ms \<le> 0 then Inl (ValueError ''timeframe_ms must be a positive integer'')
      else if order_lifetime_bars < 0 then Inl (ValueError ''order_lifetime_bars must be an integer >= 0'')
      else if entry_is_frozen current_trade_cycle then Inl frozen_entry_error
      else case get_acknowledged_desired_entry current_trade_cycle of
        None \<Rightarrow> (case new_desired_entry of None \<Rightarrow> Inr NoOp | Some d \<Rightarrow> Inr (Apply d))
      | Some held \<Rightarrow>
          (case current_trade_cycle of
             None \<Rightarrow> Inl AssertionError
           | Some c \<Rightarrow>
               res_bind (entry_order_expiration_ms (de_source_plan_bar_open_time_ms held)
                           timeframe_ms order_lifetime_bars) (\<lambda>expiration_ms.
               if \<not> is_entry_order_expired current_bar_open_time_ms timeframe_ms expiration_ms
               then Inr NoOp
               else case new_desired_entry of
                      None \<Rightarrow> new_Cancel (ctc_trade_cycle_id c)
                    | Some d \<Rightarrow>
                        if de_source_plan_bar_open_time_ms d \<noteq> current_bar_open_time_ms
                        then new_Cancel (ctc_trade_cycle_id c)
                        else new_Replace (ctc_trade_cycle_id c) d)))"

section \<open>The command\<close>

definition build_command :: "state \<Rightarrow> string \<Rightarrow> DesiredEntry option \<Rightarrow> EntryReconciliationCommand res" where
  "build_command s trade_cycle_id desired_entry =
     new_EntryReconciliationCommand
       \<lparr>erc_strategy_instance_id = sirs_strategy_instance_id s, erc_trade_cycle_id = trade_cycle_id,
        erc_ticker = rss_instrument (sirs_registered_spec_snapshot s), erc_desired_entry = desired_entry\<rparr>"

definition require_current_cycle :: "state \<Rightarrow> string \<Rightarrow> unit res" where
  "require_current_cycle s cid =
     (case sirs_current_trade_cycle s of
        None \<Rightarrow> Inl (EntryReconciliationInvariantError ''CANCEL requires an acknowledged current trade cycle'')
      | Some c \<Rightarrow>
          if ctc_trade_cycle_id c \<noteq> cid
          then Inl (EntryReconciliationInvariantError ''CANCEL trade_cycle_id does not match current trade cycle'')
          else Inr ())"

definition build_entry_reconciliation_command ::
    "state \<Rightarrow> EntryReconciliationDecision \<Rightarrow> string option \<Rightarrow> EntryReconciliationCommand option res" where
  "build_entry_reconciliation_command s decision apply_trade_cycle_id =
     (case decision of
        NoOp \<Rightarrow>
          (if apply_trade_cycle_id \<noteq> None
           then Inl (EntryReconciliationInvariantError ''NO_OP prohibits apply_trade_cycle_id'')
           else Inr None)
      | Apply d \<Rightarrow>
          (if sirs_current_trade_cycle s \<noteq> None
           then Inl (EntryReconciliationInvariantError ''APPLY requires no current trade cycle'')
           else case apply_trade_cycle_id of
                  None \<Rightarrow> Inl (EntryReconciliationInvariantError ''APPLY requires a non-empty apply_trade_cycle_id'')
                | Some cid \<Rightarrow>
                    if cid = []
                    then Inl (EntryReconciliationInvariantError ''APPLY requires a non-empty apply_trade_cycle_id'')
                    else res_bind (build_command s cid (Some d)) (\<lambda>c. Inr (Some c)))
      | Cancel cid \<Rightarrow>
          (if apply_trade_cycle_id \<noteq> None
           then Inl (EntryReconciliationInvariantError ''only APPLY accepts apply_trade_cycle_id'')
           else res_bind (require_current_cycle s cid) (\<lambda>_.
                res_bind (build_command s cid None) (\<lambda>c. Inr (Some c))))
      | Replace cid d \<Rightarrow>
          (if apply_trade_cycle_id \<noteq> None
           then Inl (EntryReconciliationInvariantError ''only APPLY accepts apply_trade_cycle_id'')
           else Inl (EntryReconciliationInvariantError ''unknown entry reconciliation decision'')))"

section \<open>The confirmation\<close>

definition outcome_instance_id :: "EntryExecutionOutcome \<Rightarrow> string" where
  "outcome_instance_id o' =
     (case o' of Applied c \<Rightarrow> eac_strategy_instance_id c | Absent c \<Rightarrow> ebc_strategy_instance_id c
      | Declined c \<Rightarrow> edo_strategy_instance_id c)"

definition require_input_types :: "EntryReconciliationDecision \<Rightarrow> EntryExecutionOutcome \<Rightarrow> unit res" where
  "require_input_types decision confirmation =
     (case decision of
        NoOp \<Rightarrow> Inl (EntryReconciliationInvariantError ''confirmation application requires APPLY or CANCEL'')
      | Replace _ _ \<Rightarrow> Inl (EntryReconciliationInvariantError ''confirmation application requires APPLY or CANCEL'')
      | _ \<Rightarrow> (case confirmation of
                Declined _ \<Rightarrow> Inl (EntryReconciliationInvariantError
                  ''confirmation application requires a successful I3 confirmation'')
              | _ \<Rightarrow> Inr ()))"

definition require_common_identity ::
    "state \<Rightarrow> EntryReconciliationCommand \<Rightarrow> EntryExecutionOutcome \<Rightarrow> unit res" where
  "require_common_identity s sent_command confirmation =
     (if erc_strategy_instance_id sent_command \<noteq> sirs_strategy_instance_id s
      then Inl (EntryReconciliationInvariantError ''sent command strategy_instance_id does not match source state'')
      else if outcome_instance_id confirmation \<noteq> sirs_strategy_instance_id s
      then Inl (EntryReconciliationInvariantError ''confirmation strategy_instance_id does not match source state'')
      else if erc_ticker sent_command \<noteq> rss_instrument (sirs_registered_spec_snapshot s)
      then Inl (EntryReconciliationInvariantError ''sent command ticker does not match registered instrument'')
      else Inr ())"

definition require_cycle_identity :: "string \<Rightarrow> string \<Rightarrow> unit res" where
  "require_cycle_identity expected actual =
     (if expected \<noteq> actual
      then Inl (EntryReconciliationInvariantError ''trade_cycle_id does not match expected trade cycle'')
      else Inr ())"

definition confirmed_cycle :: "EntryAppliedConfirmation \<Rightarrow> CurrentTradeCycle res" where
  "confirmed_cycle c =
     res_bind (new_AppliedEntryPackage \<lparr>aep_applied_desired_entry = eac_applied_desired_entry c,
                                        aep_calculated_quantity = eac_calculated_quantity c\<rparr>) (\<lambda>package.
     new_CurrentTradeCycle
       \<lparr>ctc_trade_cycle_id = eac_trade_cycle_id c, ctc_applied_entry_package = package,
        ctc_frozen_entry_context = None, ctc_latest_confirmed_management_protection = None,
        ctc_entry_remainder_cancelled = False\<rparr>)"

definition confirm_apply ::
    "state \<Rightarrow> DesiredEntry \<Rightarrow> EntryReconciliationCommand \<Rightarrow> EntryExecutionOutcome \<Rightarrow> state res" where
  "confirm_apply s desired_entry sent_command confirmation =
     (if sirs_current_trade_cycle s \<noteq> None
      then Inl (EntryReconciliationInvariantError ''APPLY requires no current trade cycle'')
      else case confirmation of
        Applied applied \<Rightarrow>
          if \<not> is_exact_decimal_text (eac_calculated_quantity applied)
          then Inl (EntryReconciliationInvariantError ''confirmation calculated_quantity must be exact-decimal text'')
          else res_bind (require_cycle_identity (erc_trade_cycle_id sent_command) (eac_trade_cycle_id applied)) (\<lambda>_.
               if erc_desired_entry sent_command \<noteq> Some desired_entry \<or>
                  eac_applied_desired_entry applied \<noteq> desired_entry
               then Inl (EntryReconciliationInvariantError ''desired entry does not match reconciliation decision'')
               else res_bind (confirmed_cycle applied) (\<lambda>cycle.
                    new_StrategyInstanceRuntimeState
                      (s\<lparr>sirs_current_trade_cycle := Some cycle, sirs_pending_entry_recovery := None\<rparr>)))
      | _ \<Rightarrow> Inl (EntryReconciliationInvariantError ''APPLY requires EntryAppliedConfirmation''))"

definition confirm_cancel ::
    "state \<Rightarrow> string \<Rightarrow> EntryReconciliationCommand \<Rightarrow> EntryExecutionOutcome \<Rightarrow> state res" where
  "confirm_cancel s decision_trade_cycle_id sent_command confirmation =
     (case sirs_current_trade_cycle s of
        None \<Rightarrow> Inl (EntryReconciliationInvariantError ''CANCEL requires an acknowledged current trade cycle'')
      | Some current_cycle \<Rightarrow>
          (case confirmation of
             Absent absent \<Rightarrow>
               res_bind (require_cycle_identity (ctc_trade_cycle_id current_cycle) decision_trade_cycle_id) (\<lambda>_.
               res_bind (require_cycle_identity decision_trade_cycle_id (erc_trade_cycle_id sent_command)) (\<lambda>_.
               res_bind (require_cycle_identity (erc_trade_cycle_id sent_command) (ebc_trade_cycle_id absent)) (\<lambda>_.
               if erc_desired_entry sent_command \<noteq> None
               then Inl (EntryReconciliationInvariantError ''CANCEL requires sent command desired_entry to be null'')
               else new_StrategyInstanceRuntimeState
                      (s\<lparr>sirs_current_trade_cycle := None, sirs_pending_entry_recovery := None\<rparr>))))
           | _ \<Rightarrow> Inl (EntryReconciliationInvariantError ''CANCEL requires EntryAbsentConfirmation'')))"

definition apply_success_confirmation ::
    "state \<Rightarrow> EntryReconciliationDecision \<Rightarrow> EntryReconciliationCommand \<Rightarrow> EntryExecutionOutcome \<Rightarrow> state res" where
  "apply_success_confirmation s decision sent_command confirmation =
     res_bind (require_input_types decision confirmation) (\<lambda>_.
     res_bind (require_common_identity s sent_command confirmation) (\<lambda>_.
     case decision of
       Apply d \<Rightarrow> confirm_apply s d sent_command confirmation
     | Cancel cid \<Rightarrow> confirm_cancel s cid sent_command confirmation
     | _ \<Rightarrow> Inl (EntryReconciliationInvariantError ''confirmation application requires APPLY or CANCEL'')))"

section \<open>Lemmas\<close>

lemma decide_entry_reconciliation_simps:
  assumes "\<not> entry_is_frozen cyc"
  shows "decide_entry_reconciliation None None = Inr NoOp"
    and "decide_entry_reconciliation (Some d) None = Inr (Apply d)"
    and "cyc = Some c \<Longrightarrow> ctc_trade_cycle_id c \<noteq> [] \<Longrightarrow>
           decide_entry_reconciliation None cyc = Inr (Cancel (ctc_trade_cycle_id c))"
    and "cyc = Some c \<Longrightarrow> ctc_trade_cycle_id c \<noteq> [] \<Longrightarrow>
           decide_entry_reconciliation (Some d) cyc
             = Inr (if d = cycle_desired_entry c then NoOp else Replace (ctc_trade_cycle_id c) d)"
  using assms
  by (auto simp: decide_entry_reconciliation_def get_acknowledged_desired_entry_def entry_is_frozen_def
      desired_entries_equivalent_def new_Cancel_def new_Replace_def cycle_desired_entry_def)

lemma require_current_cycle_iff [simp]:
  "require_current_cycle s cid = Inr u \<longleftrightarrow>
     (\<exists>c. sirs_current_trade_cycle s = Some c \<and> ctc_trade_cycle_id c = cid)"
  by (auto simp: require_current_cycle_def split: option.splits)

lemma require_cycle_identity_iff [simp]: "require_cycle_identity a b = Inr u \<longleftrightarrow> a = b"
  by (simp add: require_cycle_identity_def)

lemma build_command_iff:
  "build_command s cid d = Inr cmd \<longleftrightarrow>
     cmd = \<lparr>erc_strategy_instance_id = sirs_strategy_instance_id s, erc_trade_cycle_id = cid,
            erc_ticker = rss_instrument (sirs_registered_spec_snapshot s), erc_desired_entry = d\<rparr> \<and>
     sirs_strategy_instance_id s \<noteq> [] \<and> cid \<noteq> [] \<and> rss_instrument (sirs_registered_spec_snapshot s) \<noteq> []"
  by (auto simp: build_command_def new_EntryReconciliationCommand_def)

text \<open>An accepted confirmation of an \<open>APPLY\<close> installs a fresh unfrozen cycle with exactly the
  decided entry under the identity that was sent.\<close>

definition fresh_cycle :: "string \<Rightarrow> DesiredEntry \<Rightarrow> string \<Rightarrow> CurrentTradeCycle" where
  "fresh_cycle cid d q =
     \<lparr>ctc_trade_cycle_id = cid,
      ctc_applied_entry_package = \<lparr>aep_applied_desired_entry = d, aep_calculated_quantity = q\<rparr>,
      ctc_frozen_entry_context = None, ctc_latest_confirmed_management_protection = None,
      ctc_entry_remainder_cancelled = False\<rparr>"

lemma fresh_cycle_simps [simp]:
  "ctc_trade_cycle_id (fresh_cycle cid d q) = cid"
  "ctc_frozen_entry_context (fresh_cycle cid d q) = None"
  "cycle_desired_entry (fresh_cycle cid d q) = d"
  by (simp_all add: fresh_cycle_def cycle_desired_entry_def)

lemma apply_success_confirmation_ApplyD:
  assumes "apply_success_confirmation s (Apply d) cmd conf = Inr s'"
  obtains a where "conf = Applied a" "sirs_current_trade_cycle s = None"
    "eac_trade_cycle_id a = erc_trade_cycle_id cmd" "erc_trade_cycle_id cmd \<noteq> []"
    "erc_desired_entry cmd = Some d" "eac_applied_desired_entry a = d"
    "is_exact_decimal_text (eac_calculated_quantity a)"
    "s' = s\<lparr>sirs_current_trade_cycle := Some (fresh_cycle (erc_trade_cycle_id cmd) d (eac_calculated_quantity a)),
            sirs_pending_entry_recovery := None\<rparr>"
    "markers_ok s'"
  using assms
  by (auto simp: apply_success_confirmation_def confirm_apply_def res_bind_eq_Inr confirmed_cycle_def
      new_AppliedEntryPackage_iff new_CurrentTradeCycle_iff new_StrategyInstanceRuntimeState_iff fresh_cycle_def
      split: if_splits EntryExecutionOutcome.splits)

lemma apply_success_confirmation_CancelD:
  assumes "apply_success_confirmation s (Cancel cid) cmd conf = Inr s'"
  obtains a c where "conf = Absent a" "sirs_current_trade_cycle s = Some c"
    "ctc_trade_cycle_id c = cid" "erc_trade_cycle_id cmd = cid" "ebc_trade_cycle_id a = cid"
    "erc_desired_entry cmd = None" "ebc_strategy_instance_id a = sirs_strategy_instance_id s"
    "s' = s\<lparr>sirs_current_trade_cycle := None, sirs_pending_entry_recovery := None\<rparr>" "markers_ok s'"
  using assms
  by (auto simp: apply_success_confirmation_def confirm_cancel_def res_bind_eq_Inr
      require_common_identity_def outcome_instance_id_def
      new_StrategyInstanceRuntimeState_iff split: if_splits EntryExecutionOutcome.splits option.splits)

end
