(* ===== verification/Abi_Models.thy ===== *)
theory Abi_Models
  imports Entry_Reconciliation
begin

text \<open>
  The transport-free requests and answers at the boundary to the execution service (ABI):
  \<open>runtime/abi/entry_package_models.py\<close>, \<open>runtime/abi/entry_cycle_recovery_models.py\<close>,
  \<open>runtime/open_position/models.py\<close> and \<open>runtime/position_management_execution/models.py\<close>.
  Every class has its \<open>__post_init__\<close> as \<open>new_X\<close>.
\<close>

section \<open>Entry packages\<close>

definition require_non_empty :: "string \<Rightarrow> string \<Rightarrow> unit res" where
  "require_non_empty v name =
     (if v = [] then Inl (ValueError (name @ '' must be a non-empty string'')) else Inr ())"

definition require_exact_decimal :: "string \<Rightarrow> string \<Rightarrow> unit res" where
  "require_exact_decimal v name =
     (if is_exact_decimal_text v then Inr () else Inl (ValueError (name @ '' must be exact-decimal text'')))"

definition require_positive_decimal :: "string \<Rightarrow> string \<Rightarrow> unit res" where
  "require_positive_decimal v name =
     (if is_positive_exact_decimal_text v then Inr ()
      else Inl (ValueError (name @ '' must be positive exact-decimal text'')))"

definition optionally :: "('a \<Rightarrow> unit res) \<Rightarrow> 'a option \<Rightarrow> unit res" where
  "optionally f v = (case v of None \<Rightarrow> Inr () | Some x \<Rightarrow> f x)"

text \<open>Run checks in order, then return the value.\<close>

fun checked :: "unit res list \<Rightarrow> 'a \<Rightarrow> 'a res" where
  "checked [] x = Inr x"
| "checked (c # cs) x = res_bind c (\<lambda>_. checked cs x)"

lemma checked_iff: "checked cs x = Inr y \<longleftrightarrow> y = x \<and> (\<forall>c \<in> set cs. \<exists>u. c = Inr u)"
  by (induction cs) (auto simp: res_bind_eq_Inr)

declare checked.simps [simp del]

lemma require_iff [simp]:
  "require_non_empty v n = Inr u \<longleftrightarrow> v \<noteq> []"
  "require_exact_decimal v n = Inr u \<longleftrightarrow> is_exact_decimal_text v"
  "require_positive_decimal v n = Inr u \<longleftrightarrow> is_positive_exact_decimal_text v"
  by (simp_all add: require_non_empty_def require_exact_decimal_def require_positive_decimal_def)

record EntryPackageWireDesiredEntry =
  wde_side :: string
  wde_source_plan_bar_open_time_ms :: int
  wde_planned_entry_price :: string
  wde_initial_stop_price :: string
  wde_initial_take_price :: string
  wde_locked_exit_profile :: string

definition new_EntryPackageWireDesiredEntry ::
    "EntryPackageWireDesiredEntry \<Rightarrow> EntryPackageWireDesiredEntry res" where
  "new_EntryPackageWireDesiredEntry d =
     (if wde_side d \<notin> {''long'', ''short''} then Inl (ValueError ''side must be long or short'')
      else checked [require_exact_decimal (wde_planned_entry_price d) ''planned_entry_price'',
                    require_exact_decimal (wde_initial_stop_price d) ''initial_stop_price'',
                    require_positive_decimal (wde_initial_take_price d) ''initial_take_price''] d)"

record EntryPackageRequest =
  epr_strategy_instance_id :: string
  epr_trade_cycle_id :: string
  epr_ticker :: string
  epr_desired_entry :: "EntryPackageWireDesiredEntry option"
  epr_risk_multiplier :: string

definition new_EntryPackageRequest :: "EntryPackageRequest \<Rightarrow> EntryPackageRequest res" where
  "new_EntryPackageRequest r =
     checked [require_non_empty (epr_strategy_instance_id r) ''strategy_instance_id'',
              require_non_empty (epr_trade_cycle_id r) ''trade_cycle_id'',
              require_non_empty (epr_ticker r) ''ticker'',
              require_positive_decimal (epr_risk_multiplier r) ''risk_multiplier''] r"

record EntryPackageApplied =
  epa_strategy_instance_id :: string
  epa_trade_cycle_id :: string
  epa_applied_desired_entry :: EntryPackageWireDesiredEntry
  epa_calculated_quantity :: string
  epa_trigger_price :: "string option"
  epa_stop_loss :: "string option"
  epa_take_profit :: "string option"
  epa_quantity :: "string option"
  epa_order_link_id :: "string option"
  epa_order_id :: "string option"

definition new_EntryPackageApplied :: "EntryPackageApplied \<Rightarrow> EntryPackageApplied res" where
  "new_EntryPackageApplied p =
     checked [require_non_empty (epa_strategy_instance_id p) ''strategy_instance_id'',
              require_non_empty (epa_trade_cycle_id p) ''trade_cycle_id'',
              require_exact_decimal (epa_calculated_quantity p) ''calculated_quantity'',
              optionally (\<lambda>v. require_exact_decimal v ''trigger_price'') (epa_trigger_price p),
              optionally (\<lambda>v. require_exact_decimal v ''stop_loss'') (epa_stop_loss p),
              optionally (\<lambda>v. require_exact_decimal v ''take_profit'') (epa_take_profit p),
              optionally (\<lambda>v. require_exact_decimal v ''quantity'') (epa_quantity p),
              optionally (\<lambda>v. require_non_empty v ''order_link_id'') (epa_order_link_id p),
              optionally (\<lambda>v. require_non_empty v ''order_id'') (epa_order_id p)] p"

record EntryPackageAbsent =
  epb_strategy_instance_id :: string
  epb_trade_cycle_id :: string

definition new_EntryPackageAbsent :: "EntryPackageAbsent \<Rightarrow> EntryPackageAbsent res" where
  "new_EntryPackageAbsent p =
     checked [require_non_empty (epb_strategy_instance_id p) ''strategy_instance_id'',
              require_non_empty (epb_trade_cycle_id p) ''trade_cycle_id''] p"

record EntryPackageDeclined =
  epd_strategy_instance_id :: string
  epd_trade_cycle_id :: string
  epd_decline_reason :: string
  epd_decline_message :: string

text \<open>\<open>_DECLINE_REASON.fullmatch\<close>: \<open>[a-z][a-z0-9_]{0,63}\<close>.\<close>

definition decline_reason_match :: "string \<Rightarrow> bool" where
  "decline_reason_match s \<longleftrightarrow>
     (case s of [] \<Rightarrow> False
      | c # cs \<Rightarrow> CHR ''a'' \<le> c \<and> c \<le> CHR ''z'' \<and> length cs \<le> 63 \<and>
          list_all (\<lambda>d. (CHR ''a'' \<le> d \<and> d \<le> CHR ''z'') \<or> is_digit d \<or> d = CHR ''_'') cs)"

definition new_EntryPackageDeclined :: "EntryPackageDeclined \<Rightarrow> EntryPackageDeclined res" where
  "new_EntryPackageDeclined p =
     checked [require_non_empty (epd_strategy_instance_id p) ''strategy_instance_id'',
              require_non_empty (epd_trade_cycle_id p) ''trade_cycle_id'',
              (if decline_reason_match (epd_decline_reason p) then Inr ()
               else Inl (ValueError ''decline_reason must be a snake_case code of at most 64 characters'')),
              require_non_empty (epd_decline_message p) ''decline_message''] p"

text \<open>The public error answers; the details of a validation failure are \<open>(path, message)\<close>.\<close>

datatype EntryPackagePublicError =
    EntryPackageMalformedJson string
  | EntryPackageUnsupportedMediaType string
  | EntryPackageValidationFailed string "(string \<times> string) list"
  | EntryPackageInternalError string
  | EntryPackageExecutionNotReady string

definition new_EntryPackagePublicError :: "EntryPackagePublicError \<Rightarrow> EntryPackagePublicError res" where
  "new_EntryPackagePublicError e =
     (case e of
        EntryPackageMalformedJson m \<Rightarrow> checked [require_non_empty m ''message''] e
      | EntryPackageUnsupportedMediaType m \<Rightarrow> checked [require_non_empty m ''message''] e
      | EntryPackageValidationFailed m details \<Rightarrow>
          checked [require_non_empty m ''message'',
                   (if details = [] then Inl (ValueError ''validation details must be a non-empty tuple'')
                    else Inr ())] e
      | EntryPackageInternalError m \<Rightarrow> checked [require_non_empty m ''message''] e
      | EntryPackageExecutionNotReady m \<Rightarrow> checked [require_non_empty m ''message''] e)"

datatype EntryPackageResult =
    PackageApplied EntryPackageApplied
  | PackageAbsent EntryPackageAbsent
  | PackageDeclined EntryPackageDeclined
  | PackagePublicError EntryPackagePublicError

definition new_EntryPackageResult :: "EntryPackageResult \<Rightarrow> EntryPackageResult res" where
  "new_EntryPackageResult r =
     (case r of
        PackageApplied p \<Rightarrow> res_bind (new_EntryPackageWireDesiredEntry (epa_applied_desired_entry p)) (\<lambda>_.
                             res_bind (new_EntryPackageApplied p) (\<lambda>p. Inr (PackageApplied p)))
      | PackageAbsent p \<Rightarrow> res_bind (new_EntryPackageAbsent p) (\<lambda>p. Inr (PackageAbsent p))
      | PackageDeclined p \<Rightarrow> res_bind (new_EntryPackageDeclined p) (\<lambda>p. Inr (PackageDeclined p))
      | PackagePublicError e \<Rightarrow> res_bind (new_EntryPackagePublicError e) (\<lambda>e. Inr (PackagePublicError e)))"

section \<open>Recovery state\<close>

record RecoveryStateAppliedEntryPackage =
  rap_applied_desired_entry :: EntryPackageWireDesiredEntry
  rap_calculated_quantity :: string

definition new_RecoveryStateAppliedEntryPackage ::
    "RecoveryStateAppliedEntryPackage \<Rightarrow> RecoveryStateAppliedEntryPackage res" where
  "new_RecoveryStateAppliedEntryPackage p =
     checked [require_exact_decimal (rap_calculated_quantity p) ''calculated_quantity''] p"

record PositionOpenRecoveryState =
  por_applied_entry_package :: RecoveryStateAppliedEntryPackage
  por_first_fill_at_ms :: int
  por_average_entry_price :: string
  por_entry_order_link_id :: string
  por_entry_order_id :: "string option"

definition new_PositionOpenRecoveryState :: "PositionOpenRecoveryState \<Rightarrow> PositionOpenRecoveryState res" where
  "new_PositionOpenRecoveryState p =
     checked [(if por_first_fill_at_ms p \<le> 0
               then Inl (ValueError ''first_fill_at_ms must be a strictly positive integer'') else Inr ()),
              require_positive_decimal (por_average_entry_price p) ''average_entry_price'',
              require_non_empty (por_entry_order_link_id p) ''entry_order_link_id'',
              optionally (\<lambda>v. require_non_empty v ''entry_order_id'') (por_entry_order_id p)] p"

datatype RecoveryStateResponse =
    EntryOrderLiveRecoveryState RecoveryStateAppliedEntryPackage
  | EntryOrderNotFoundRecoveryState
  | PositionOpenRecovery PositionOpenRecoveryState
  | TerminalWithoutFillRecoveryState
  | TerminalAfterFillRecoveryState

definition new_RecoveryStateResponse :: "RecoveryStateResponse \<Rightarrow> RecoveryStateResponse res" where
  "new_RecoveryStateResponse r =
     (case r of
        EntryOrderLiveRecoveryState p \<Rightarrow>
          res_bind (new_EntryPackageWireDesiredEntry (rap_applied_desired_entry p)) (\<lambda>_.
          res_bind (new_RecoveryStateAppliedEntryPackage p) (\<lambda>p. Inr (EntryOrderLiveRecoveryState p)))
      | PositionOpenRecovery p \<Rightarrow>
          res_bind (new_EntryPackageWireDesiredEntry
                      (rap_applied_desired_entry (por_applied_entry_package p))) (\<lambda>_.
          res_bind (new_RecoveryStateAppliedEntryPackage (por_applied_entry_package p)) (\<lambda>_.
          res_bind (new_PositionOpenRecoveryState p) (\<lambda>p. Inr (PositionOpenRecovery p))))
      | _ \<Rightarrow> Inr r)"

section \<open>Open-position lookup\<close>

record OpenPositionLookupRequest =
  oplr_strategy_instance_id :: string
  oplr_trade_cycle_id :: string

definition new_OpenPositionLookupRequest :: "OpenPositionLookupRequest \<Rightarrow> OpenPositionLookupRequest res" where
  "new_OpenPositionLookupRequest r =
     (if \<not> nonblank (oplr_strategy_instance_id r) then Inl (ValueError ''strategy_instance_id must be non-empty'')
      else if \<not> nonblank (oplr_trade_cycle_id r) then Inl (ValueError ''trade_cycle_id must be non-empty'')
      else Inr r)"

record OpenPositionLookupResponse =
  opl_position_open :: bool
  opl_first_fill_at_ms :: "int option"
  opl_average_entry_price :: "string option"
  opl_closure :: "TradeCycleClosure option"
  opl_entry_order_link_id :: "string option"
  opl_entry_order_id :: "string option"

definition new_OpenPositionLookupResponse :: "OpenPositionLookupResponse \<Rightarrow> OpenPositionLookupResponse res" where
  "new_OpenPositionLookupResponse r =
     (if opl_position_open r
      then (if opl_closure r \<noteq> None then Inl (ValueError ''open position cannot carry a closure'')
            else case (opl_first_fill_at_ms r, opl_average_entry_price r) of
                   (Some fill, Some price) \<Rightarrow>
                     if fill \<le> 0 then Inl (ValueError ''first_fill_at_ms must be strictly positive'')
                     else if \<not> is_positive_exact_decimal_text price
                     then Inl (ValueError ''average_entry_price must be positive exact-decimal text'')
                     else if \<not> present (opl_entry_order_link_id r)
                     then Inl (ValueError ''open position requires a non-empty entry_order_link_id'')
                     else if opl_entry_order_id r = Some []
                     then Inl (ValueError ''entry_order_id must be a non-empty string or null'')
                     else res_bind (normalize_decimal_text price) (\<lambda>price.
                          Inr (r\<lparr>opl_average_entry_price := Some price\<rparr>))
                 | _ \<Rightarrow> Inl (ValueError ''open position requires first fill time and average entry price''))
      else if opl_first_fill_at_ms r \<noteq> None \<or> opl_average_entry_price r \<noteq> None
      then Inl (ValueError ''closed position cannot contain fill facts'')
      else if opl_entry_order_link_id r \<noteq> None \<or> opl_entry_order_id r \<noteq> None
      then Inl (ValueError ''closed position cannot identify an entry order'')
      else Inr r)"

record PositionResolvedState =
  prs_runtime_state :: state
  prs_position_open :: bool
  prs_first_fill_at_ms :: "int option"
  prs_average_entry_price :: "string option"
  prs_closure :: "TradeCycleClosure option"
  prs_entry_order_link_id :: "string option"
  prs_entry_order_id :: "string option"

section \<open>Position-management execution\<close>

record ApplyProtectionCommand =
  apc_strategy_instance_id :: string
  apc_trade_cycle_id :: string
  apc_desired_protection :: DesiredProtection

definition new_ApplyProtectionCommand :: "ApplyProtectionCommand \<Rightarrow> ApplyProtectionCommand res" where
  "new_ApplyProtectionCommand c =
     checked [require_non_empty (apc_strategy_instance_id c) ''strategy_instance_id'',
              require_non_empty (apc_trade_cycle_id c) ''trade_cycle_id''] c"

definition CANONICAL_CLOSE_EXPOSURE_FRACTION :: string where
  "CANONICAL_CLOSE_EXPOSURE_FRACTION = ''1''"

record ClosePositionCommand =
  cpc_strategy_instance_id :: string
  cpc_trade_cycle_id :: string
  cpc_exposure_fraction :: string

definition new_ClosePositionCommand :: "ClosePositionCommand \<Rightarrow> ClosePositionCommand res" where
  "new_ClosePositionCommand c =
     checked [require_non_empty (cpc_strategy_instance_id c) ''strategy_instance_id'',
              require_non_empty (cpc_trade_cycle_id c) ''trade_cycle_id'',
              (if cpc_exposure_fraction c \<noteq> CANONICAL_CLOSE_EXPOSURE_FRACTION
               then Inl (ValueError ''exposure_fraction must be the canonical value'') else Inr ())] c"

record ProtectionOrder =
  po_order_id :: string
  po_trigger_price :: string

definition new_ProtectionOrder :: "ProtectionOrder \<Rightarrow> ProtectionOrder res" where
  "new_ProtectionOrder p =
     checked [require_non_empty (po_order_id p) ''order_id'',
              require_positive_decimal (po_trigger_price p) ''trigger_price''] p"

record ProtectionOrders =
  pos_quantity :: string
  pos_stop :: ProtectionOrder
  pos_take :: ProtectionOrder

definition new_ProtectionOrders :: "ProtectionOrders \<Rightarrow> ProtectionOrders res" where
  "new_ProtectionOrders p = checked [require_positive_decimal (pos_quantity p) ''quantity''] p"

record ProtectionAppliedConfirmation =
  pac_strategy_instance_id :: string
  pac_trade_cycle_id :: string
  pac_confirmed_protection :: DesiredProtection
  pac_protection_orders :: ProtectionOrders

definition new_ProtectionAppliedConfirmation ::
    "ProtectionAppliedConfirmation \<Rightarrow> ProtectionAppliedConfirmation res" where
  "new_ProtectionAppliedConfirmation c =
     checked [require_non_empty (pac_strategy_instance_id c) ''strategy_instance_id'',
              require_non_empty (pac_trade_cycle_id c) ''trade_cycle_id''] c"

record PositionClosedConfirmation =
  pcc_strategy_instance_id :: string
  pcc_trade_cycle_id :: string
  pcc_closure :: "TradeCycleClosure option"

definition new_PositionClosedConfirmation ::
    "PositionClosedConfirmation \<Rightarrow> PositionClosedConfirmation res" where
  "new_PositionClosedConfirmation c =
     checked [require_non_empty (pcc_strategy_instance_id c) ''strategy_instance_id'',
              require_non_empty (pcc_trade_cycle_id c) ''trade_cycle_id'',
              (case pcc_closure c of None \<Rightarrow> Inr ()
               | Some closure \<Rightarrow>
                   if tcc_strategy_instance_id closure \<noteq> pcc_strategy_instance_id c \<or>
                      tcc_trade_cycle_id closure \<noteq> pcc_trade_cycle_id c
                   then Inl (ValueError ''closure identity does not match the confirmation'')
                   else Inr ())] c"

definition ENTRY_REMAINDER_CANCEL_STATUSES :: "string set" where
  "ENTRY_REMAINDER_CANCEL_STATUSES = {''entry_remainder_cancelled'', ''entry_order_already_terminal''}"

record EntryRemainderCancelConfirmation =
  ercc_strategy_instance_id :: string
  ercc_trade_cycle_id :: string
  ercc_status :: string
  ercc_executed_quantity :: "string option"

definition new_EntryRemainderCancelConfirmation ::
    "EntryRemainderCancelConfirmation \<Rightarrow> EntryRemainderCancelConfirmation res" where
  "new_EntryRemainderCancelConfirmation c =
     checked [require_non_empty (ercc_strategy_instance_id c) ''strategy_instance_id'',
              require_non_empty (ercc_trade_cycle_id c) ''trade_cycle_id'',
              (if ercc_status c \<notin> ENTRY_REMAINDER_CANCEL_STATUSES
               then Inl (ValueError ''status must be an entry-remainder cancel status'') else Inr ()),
              optionally (\<lambda>v. require_positive_decimal v ''executed_quantity'') (ercc_executed_quantity c)] c"

section \<open>Engine requests and answers\<close>

text \<open>\<open>runtime/engine/live_entry.py\<close> and \<open>runtime/engine/open_trade.py\<close>.\<close>

record LiveEntryProjectionRequest =
  lpr_strategy_id :: string
  lpr_raw_spec :: json_object
  lpr_ticker :: string
  lpr_base_timeframe :: string
  lpr_target_bar_open_time_ms :: int

record OpenTradeProjectionRequest =
  opr_strategy_id :: string
  opr_raw_spec :: json_object
  opr_ticker :: string
  opr_base_timeframe :: string
  opr_target_bar_open_time_ms :: int
  opr_desired_entry :: DesiredEntry
  opr_entry_bar_open_time_ms :: int

record OpenTradeProjectionResponse =
  ops_desired_protection :: DesiredProtection
  ops_close_signal :: CloseSignal
  ops_diagnostics :: json_object
  ops_engine_desired_protection_text :: EngineDesiredProtectionText

end
