(* ===== verification/Position_Management.thy ===== *)
theory Position_Management
  imports Abi_Models
begin

text \<open>
  The pure half of managing an open position: \<open>runtime/position_management_decision\<close> (what to do
  about the recipe of one bar) and \<open>runtime/position_management_execution\<close> (the command for a
  decision and the application of the exchange's confirmation, or of a closure that the exchange
  reports on its own).
\<close>

section \<open>The decision\<close>

datatype PositionManagementDecision =
    PMNoOp
  | ApplyProtection string DesiredProtection
  | ClosePosition string CloseSignal

definition new_ApplyProtection :: "string \<Rightarrow> DesiredProtection \<Rightarrow> PositionManagementDecision res" where
  "new_ApplyProtection cid p =
     res_bind (require_non_empty cid ''trade_cycle_id'') (\<lambda>_. Inr (ApplyProtection cid p))"

definition new_ClosePosition :: "string \<Rightarrow> CloseSignal \<Rightarrow> PositionManagementDecision res" where
  "new_ClosePosition cid signal =
     res_bind (require_non_empty cid ''trade_cycle_id'') (\<lambda>_. Inr (ClosePosition cid signal))"

definition resolve_effective_acknowledged_protection :: "CurrentTradeCycle \<Rightarrow> DesiredProtection res" where
  "resolve_effective_acknowledged_protection current_trade_cycle =
     (case ctc_frozen_entry_context current_trade_cycle of
        None \<Rightarrow> Inl (PositionManagementDecisionInvariantError
                  ''resolving acknowledged protection requires a frozen entry context'')
      | Some frozen \<Rightarrow>
          (case ctc_latest_confirmed_management_protection current_trade_cycle of
             Some p \<Rightarrow> Inr p
           | None \<Rightarrow>
               new_DesiredProtection
                 \<lparr>dp_stop_price = de_initial_stop_price (fec_desired_entry frozen),
                  dp_take_price = Some (de_initial_take_price (fec_desired_entry frozen))\<rparr>))"

definition decide_position_management ::
    "PositionManagementRecipe \<Rightarrow> CurrentTradeCycle option \<Rightarrow> PositionManagementDecision res" where
  "decide_position_management recipe current_trade_cycle =
     (case current_trade_cycle of
        None \<Rightarrow> Inl (PositionManagementDecisionInvariantError
                  ''position-management decision requires an existing current trade cycle'')
      | Some cycle \<Rightarrow>
          if ctc_frozen_entry_context cycle = None
          then Inl (PositionManagementDecisionInvariantError
                  ''position-management decision requires a frozen entry context'')
          else if cs_active (pmr_close_signal recipe)
          then new_ClosePosition (ctc_trade_cycle_id cycle) (pmr_close_signal recipe)
          else res_bind (resolve_effective_acknowledged_protection cycle) (\<lambda>effective.
               if pmr_desired_protection recipe = effective then Inr PMNoOp
               else new_ApplyProtection (ctc_trade_cycle_id cycle) (pmr_desired_protection recipe)))"

section \<open>The command\<close>

datatype PositionManagementCommand =
    ProtectionCommand ApplyProtectionCommand
  | CloseCommand ClosePositionCommand

definition pm_command_require_current_cycle :: "state \<Rightarrow> string \<Rightarrow> string \<Rightarrow> unit res" where
  "pm_command_require_current_cycle s decision_trade_cycle_id action =
     (case sirs_current_trade_cycle s of
        None \<Rightarrow> Inl (PositionManagementExecutionInvariantError
                  (action @ '' requires an acknowledged current trade cycle''))
      | Some cycle \<Rightarrow>
          if ctc_trade_cycle_id cycle \<noteq> decision_trade_cycle_id
          then Inl (PositionManagementExecutionInvariantError
                  (action @ '' trade_cycle_id does not match current trade cycle''))
          else Inr ())"

definition build_position_management_command ::
    "state \<Rightarrow> PositionManagementDecision \<Rightarrow> PositionManagementCommand option res" where
  "build_position_management_command s decision =
     (case decision of
        PMNoOp \<Rightarrow> Inr None
      | ApplyProtection cid protection \<Rightarrow>
          res_bind (pm_command_require_current_cycle s cid ''APPLY_PROTECTION'') (\<lambda>_.
          res_bind (new_ApplyProtectionCommand
                      \<lparr>apc_strategy_instance_id = sirs_strategy_instance_id s,
                       apc_trade_cycle_id = cid, apc_desired_protection = protection\<rparr>) (\<lambda>c.
          Inr (Some (ProtectionCommand c))))
      | ClosePosition cid signal \<Rightarrow>
          res_bind (pm_command_require_current_cycle s cid ''CLOSE_POSITION'') (\<lambda>_.
          res_bind (new_ClosePositionCommand
                      \<lparr>cpc_strategy_instance_id = sirs_strategy_instance_id s,
                       cpc_trade_cycle_id = cid,
                       cpc_exposure_fraction = CANONICAL_CLOSE_EXPOSURE_FRACTION\<rparr>) (\<lambda>c.
          Inr (Some (CloseCommand c)))))"

section \<open>The confirmation\<close>

datatype PositionManagementConfirmation =
    ProtectionConfirmed ProtectionAppliedConfirmation
  | CloseConfirmed PositionClosedConfirmation

definition command_instance_id :: "PositionManagementCommand \<Rightarrow> string" where
  "command_instance_id c =
     (case c of ProtectionCommand p \<Rightarrow> apc_strategy_instance_id p | CloseCommand p \<Rightarrow> cpc_strategy_instance_id p)"

definition confirmation_instance_id :: "PositionManagementConfirmation \<Rightarrow> string" where
  "confirmation_instance_id c =
     (case c of ProtectionConfirmed p \<Rightarrow> pac_strategy_instance_id p
      | CloseConfirmed p \<Rightarrow> pcc_strategy_instance_id p)"

definition pm_require_common_identity ::
    "state \<Rightarrow> PositionManagementCommand \<Rightarrow> PositionManagementConfirmation \<Rightarrow> unit res" where
  "pm_require_common_identity s sent_command confirmation =
     (if command_instance_id sent_command \<noteq> sirs_strategy_instance_id s
      then Inl (PositionManagementExecutionInvariantError
             ''sent command strategy_instance_id does not match source state'')
      else if confirmation_instance_id confirmation \<noteq> sirs_strategy_instance_id s
      then Inl (PositionManagementExecutionInvariantError
             ''confirmation strategy_instance_id does not match source state'')
      else Inr ())"

definition pm_require_current_cycle :: "state \<Rightarrow> string \<Rightarrow> CurrentTradeCycle res" where
  "pm_require_current_cycle s action =
     (case sirs_current_trade_cycle s of
        None \<Rightarrow> Inl (PositionManagementExecutionInvariantError
                  (action @ '' requires an acknowledged current trade cycle''))
      | Some cycle \<Rightarrow> Inr cycle)"

definition pm_require_cycle_identity :: "string \<Rightarrow> string \<Rightarrow> unit res" where
  "pm_require_cycle_identity expected actual =
     (if expected \<noteq> actual
      then Inl (PositionManagementExecutionInvariantError ''trade_cycle_id does not match expected trade cycle'')
      else Inr ())"

definition pm_apply_protection ::
    "state \<Rightarrow> string \<Rightarrow> DesiredProtection \<Rightarrow> PositionManagementCommand \<Rightarrow> PositionManagementConfirmation
       \<Rightarrow> state res" where
  "pm_apply_protection s cid desired_protection sent_command confirmation =
     res_bind (pm_require_current_cycle s ''APPLY_PROTECTION'') (\<lambda>current_cycle.
     case sent_command of
       CloseCommand _ \<Rightarrow> Inl (PositionManagementExecutionInvariantError
                               ''APPLY_PROTECTION requires ApplyProtectionCommand'')
     | ProtectionCommand sent \<Rightarrow>
         (case confirmation of
            CloseConfirmed _ \<Rightarrow> Inl (PositionManagementExecutionInvariantError
                                      ''APPLY_PROTECTION requires ProtectionAppliedConfirmation'')
          | ProtectionConfirmed confirmed \<Rightarrow>
              res_bind (pm_require_cycle_identity (ctc_trade_cycle_id current_cycle) cid) (\<lambda>_.
              res_bind (pm_require_cycle_identity cid (apc_trade_cycle_id sent)) (\<lambda>_.
              res_bind (pm_require_cycle_identity (apc_trade_cycle_id sent) (pac_trade_cycle_id confirmed)) (\<lambda>_.
              if apc_desired_protection sent \<noteq> desired_protection \<or>
                 pac_confirmed_protection confirmed \<noteq> desired_protection
              then Inl (PositionManagementExecutionInvariantError
                     ''confirmed protection does not match the position-management decision'')
              else res_bind (new_CurrentTradeCycle
                               (current_cycle\<lparr>ctc_latest_confirmed_management_protection :=
                                                Some (pac_confirmed_protection confirmed)\<rparr>)) (\<lambda>cycle.
                   new_StrategyInstanceRuntimeState (s\<lparr>sirs_current_trade_cycle := Some cycle\<rparr>)))))))"

definition pm_close_position ::
    "state \<Rightarrow> string \<Rightarrow> PositionManagementCommand \<Rightarrow> PositionManagementConfirmation \<Rightarrow> state res" where
  "pm_close_position s cid sent_command confirmation =
     res_bind (pm_require_current_cycle s ''CLOSE_POSITION'') (\<lambda>current_cycle.
     case sent_command of
       ProtectionCommand _ \<Rightarrow> Inl (PositionManagementExecutionInvariantError
                                    ''CLOSE_POSITION requires ClosePositionCommand'')
     | CloseCommand sent \<Rightarrow>
         (case confirmation of
            ProtectionConfirmed _ \<Rightarrow> Inl (PositionManagementExecutionInvariantError
                                           ''CLOSE_POSITION requires PositionClosedConfirmation'')
          | CloseConfirmed confirmed \<Rightarrow>
              res_bind (pm_require_cycle_identity (ctc_trade_cycle_id current_cycle) cid) (\<lambda>_.
              res_bind (pm_require_cycle_identity cid (cpc_trade_cycle_id sent)) (\<lambda>_.
              res_bind (pm_require_cycle_identity (cpc_trade_cycle_id sent) (pcc_trade_cycle_id confirmed)) (\<lambda>_.
              new_StrategyInstanceRuntimeState
                (s\<lparr>sirs_current_trade_cycle := None, sirs_pending_close_recovery := None\<rparr>))))))"

definition apply_position_management_confirmation ::
    "state \<Rightarrow> PositionManagementDecision \<Rightarrow> PositionManagementCommand \<Rightarrow> PositionManagementConfirmation
       \<Rightarrow> state res" where
  "apply_position_management_confirmation s decision sent_command confirmation =
     (case decision of
        PMNoOp \<Rightarrow> Inl (PositionManagementExecutionInvariantError
                    ''confirmation application requires APPLY_PROTECTION or CLOSE_POSITION'')
      | ApplyProtection cid p \<Rightarrow>
          res_bind (pm_require_common_identity s sent_command confirmation) (\<lambda>_.
          pm_apply_protection s cid p sent_command confirmation)
      | ClosePosition cid signal \<Rightarrow>
          res_bind (pm_require_common_identity s sent_command confirmation) (\<lambda>_.
          pm_close_position s cid sent_command confirmation))"

definition apply_detected_trade_cycle_closure :: "state \<Rightarrow> TradeCycleClosure \<Rightarrow> state res" where
  "apply_detected_trade_cycle_closure s closure =
     res_bind (pm_require_current_cycle s ''TRADE_CYCLE_CLOSURE'') (\<lambda>current_cycle.
     if tcc_strategy_instance_id closure \<noteq> sirs_strategy_instance_id s
     then Inl (PositionManagementExecutionInvariantError
            ''closure strategy_instance_id does not match source state'')
     else res_bind (pm_require_cycle_identity (ctc_trade_cycle_id current_cycle) (tcc_trade_cycle_id closure)) (\<lambda>_.
          new_StrategyInstanceRuntimeState
            (s\<lparr>sirs_current_trade_cycle := None, sirs_pending_close_recovery := None\<rparr>)))"

section \<open>Lemmas\<close>

lemma pm_require_simps [simp]:
  "pm_require_current_cycle s a = Inr c \<longleftrightarrow> sirs_current_trade_cycle s = Some c"
  "pm_require_cycle_identity x y = Inr u \<longleftrightarrow> x = y"
  "pm_command_require_current_cycle s cid a = Inr u \<longleftrightarrow>
     (\<exists>c. sirs_current_trade_cycle s = Some c \<and> ctc_trade_cycle_id c = cid)"
  by (auto simp: pm_require_current_cycle_def pm_require_cycle_identity_def
      pm_command_require_current_cycle_def split: option.splits)

lemma new_decision_iff [simp]:
  "new_ApplyProtection cid p = Inr d \<longleftrightarrow> d = ApplyProtection cid p \<and> cid \<noteq> []"
  "new_ClosePosition cid g = Inr d \<longleftrightarrow> d = ClosePosition cid g \<and> cid \<noteq> []"
  by (auto simp: new_ApplyProtection_def new_ClosePosition_def res_bind_eq_Inr)

text \<open>The protection in force of a frozen cycle: the latest confirmed one, else the entry's.\<close>

definition protection_in_force :: "CurrentTradeCycle \<Rightarrow> FrozenExecutedEntryContext \<Rightarrow> DesiredProtection" where
  "protection_in_force c f =
     (case ctc_latest_confirmed_management_protection c of
        Some p \<Rightarrow> p
      | None \<Rightarrow> \<lparr>dp_stop_price = de_initial_stop_price (fec_desired_entry f),
                 dp_take_price = Some (de_initial_take_price (fec_desired_entry f))\<rparr>)"

lemma resolve_effective_acknowledged_protection_frozen:
  assumes "ctc_frozen_entry_context c = Some f" and "wf_frozen f"
  shows "resolve_effective_acknowledged_protection c = Inr (protection_in_force c f)"
  using assms
  by (auto simp: resolve_effective_acknowledged_protection_def protection_in_force_def wf_frozen_def
      wf_desired_entry_def wf_protection_def intro!: new_DesiredProtection_id split: option.splits)

lemma apply_protection_confirmationD:
  assumes "apply_position_management_confirmation s (ApplyProtection cid p) cmd conf = Inr s'"
  shows "\<exists>c k. sirs_current_trade_cycle s = Some c \<and> ctc_trade_cycle_id c = cid \<and>
    conf = ProtectionConfirmed k \<and> pac_trade_cycle_id k = cid \<and> pac_confirmed_protection k = p \<and>
    s' = s\<lparr>sirs_current_trade_cycle := Some (c\<lparr>ctc_latest_confirmed_management_protection := Some p\<rparr>)\<rparr>"
  using assms
  unfolding apply_position_management_confirmation_def pm_apply_protection_def
  by (cases cmd; cases conf; simp add: res_bind_eq_Inr new_CurrentTradeCycle_iff
      new_StrategyInstanceRuntimeState_iff split: if_split_asm; blast)

lemma pm_require_common_identity_iff:
  "pm_require_common_identity s cmd conf = Inr u \<longleftrightarrow>
     command_instance_id cmd = sirs_strategy_instance_id s \<and>
     confirmation_instance_id conf = sirs_strategy_instance_id s"
  by (auto simp: pm_require_common_identity_def)

lemma close_confirmationD:
  assumes "apply_position_management_confirmation s (ClosePosition cid g) cmd conf = Inr s'"
  shows "\<exists>c k. sirs_current_trade_cycle s = Some c \<and> ctc_trade_cycle_id c = cid \<and>
    conf = CloseConfirmed k \<and> pcc_trade_cycle_id k = cid \<and>
    pcc_strategy_instance_id k = sirs_strategy_instance_id s \<and>
    s' = s\<lparr>sirs_current_trade_cycle := None, sirs_pending_close_recovery := None\<rparr>"
proof -
  from assms have id: "confirmation_instance_id conf = sirs_strategy_instance_id s"
    and close: "pm_close_position s cid cmd conf = Inr s'"
    by (auto simp: apply_position_management_confirmation_def res_bind_eq_Inr pm_require_common_identity_iff)
  from close obtain k where k: "conf = CloseConfirmed k"
    by (cases cmd; cases conf) (auto simp: pm_close_position_def res_bind_eq_Inr)
  from close show ?thesis using id
    by (cases cmd) (auto simp: pm_close_position_def res_bind_eq_Inr k
        new_StrategyInstanceRuntimeState_iff confirmation_instance_id_def)
qed

lemma detected_closureD:
  assumes "apply_detected_trade_cycle_closure s closure = Inr s'"
  obtains c where "sirs_current_trade_cycle s = Some c" "ctc_trade_cycle_id c = tcc_trade_cycle_id closure"
    "tcc_strategy_instance_id closure = sirs_strategy_instance_id s"
    "s' = s\<lparr>sirs_current_trade_cycle := None, sirs_pending_close_recovery := None\<rparr>"
  using assms
  by (auto simp: apply_detected_trade_cycle_closure_def res_bind_eq_Inr new_StrategyInstanceRuntimeState_iff
      split: if_splits)

lemma build_pm_command_protection:
  "build_position_management_command s (ApplyProtection cid p) = Inr cmd \<longleftrightarrow>
     cmd = Some (ProtectionCommand \<lparr>apc_strategy_instance_id = sirs_strategy_instance_id s,
                    apc_trade_cycle_id = cid, apc_desired_protection = p\<rparr>) \<and>
     sirs_strategy_instance_id s \<noteq> [] \<and> cid \<noteq> [] \<and>
     (\<exists>c. sirs_current_trade_cycle s = Some c \<and> ctc_trade_cycle_id c = cid)"
  by (auto simp: build_position_management_command_def res_bind_eq_Inr new_ApplyProtectionCommand_def checked_iff)

lemma build_pm_command_close:
  "build_position_management_command s (ClosePosition cid g) = Inr cmd \<longleftrightarrow>
     cmd = Some (CloseCommand \<lparr>cpc_strategy_instance_id = sirs_strategy_instance_id s,
                    cpc_trade_cycle_id = cid,
                    cpc_exposure_fraction = CANONICAL_CLOSE_EXPOSURE_FRACTION\<rparr>) \<and>
     sirs_strategy_instance_id s \<noteq> [] \<and> cid \<noteq> [] \<and>
     (\<exists>c. sirs_current_trade_cycle s = Some c \<and> ctc_trade_cycle_id c = cid)"
  by (auto simp: build_position_management_command_def res_bind_eq_Inr new_ClosePositionCommand_def checked_iff)

end
