(* ===== verification/Deployments.thy ===== *)
theory Deployments
  imports State_Models
begin

text \<open>
  The accepted deployments of a catalog scan (\<open>utility/deployment_catalog/models.py\<close>), the
  committed-bar models (\<open>utility/committed_bar/models.py\<close>) and the selection of the deployments
  one bar concerns (\<open>utility/deployment_selection/selector.py\<close>).

  Proved: the catalog index finds exactly the accepted deployment of an identity, and the selector
  returns exactly the enabled deployments of the bar's instrument and timeframe, in catalog order,
  each once.
\<close>

section \<open>Catalog models\<close>

record DeploymentSpecification =
  ds_strategy_instance_id :: string
  ds_enabled :: bool
  ds_instrument :: string
  ds_base_timeframe :: string
  ds_strategy_id :: string
  ds_raw_spec :: json_object
  ds_source_path :: string

definition new_DeploymentSpecification :: "DeploymentSpecification \<Rightarrow> DeploymentSpecification res" where
  "new_DeploymentSpecification d =
     (if \<not> nonblank (ds_strategy_instance_id d)
      then Inl (ValueError ''strategy_instance_id must be a non-empty string'')
      else if \<not> nonblank (ds_instrument d) then Inl (ValueError ''instrument must be a non-empty string'')
      else if \<not> nonblank (ds_base_timeframe d) then Inl (ValueError ''base_timeframe must be a non-empty string'')
      else if \<not> nonblank (ds_strategy_id d) then Inl (ValueError ''strategy_id must be a non-empty string'')
      else if \<not> nonblank (ds_source_path d) then Inl (ValueError ''source_path must be a non-empty string'')
      else Inr (d\<lparr>ds_raw_spec := freeze_object (ds_raw_spec d)\<rparr>))"

record InvalidDeploymentFile =
  idf_source_path :: string
  idf_error_code :: string
  idf_error_message :: "string option"

record DuplicateDeploymentIdentity =
  ddi_strategy_instance_id :: string
  ddi_source_paths :: "string list"

record DeploymentCatalogSnapshot =
  dcs_scanned_file_count :: int
  dcs_accepted_deployments :: "DeploymentSpecification list"
  dcs_invalid_files :: "InvalidDeploymentFile list"
  dcs_duplicate_identities :: "DuplicateDeploymentIdentity list"

definition new_DeploymentCatalogSnapshot :: "DeploymentCatalogSnapshot \<Rightarrow> DeploymentCatalogSnapshot res" where
  "new_DeploymentCatalogSnapshot s =
     (if dcs_scanned_file_count s < 0 then Inl (ValueError ''scanned_file_count must be non-negative'')
      else if \<not> distinct (map ds_strategy_instance_id (dcs_accepted_deployments s))
      then Inl (ValueError ''accepted deployments must have unique stable identities'')
      else Inr s)"

text \<open>The index is rebuilt here from the accepted deployments: the dictionary comprehension keeps
  the last deployment of an identity, and identities are unique.\<close>

definition get_by_strategy_instance_id ::
    "DeploymentCatalogSnapshot \<Rightarrow> string \<Rightarrow> DeploymentSpecification option" where
  "get_by_strategy_instance_id s strategy_instance_id =
     map_of (rev (map (\<lambda>d. (ds_strategy_instance_id d, d)) (dcs_accepted_deployments s))) strategy_instance_id"

section \<open>Committed-bar models\<close>

record CommittedBarEvent =
  cbe_instrument :: string
  cbe_timeframe :: string
  cbe_open_time_ms :: int

definition new_CommittedBarEvent :: "CommittedBarEvent \<Rightarrow> CommittedBarEvent res" where
  "new_CommittedBarEvent e =
     (if \<not> nonblank (cbe_instrument e) then Inl (ValueError ''instrument must be a non-empty string'')
      else if \<not> nonblank (cbe_timeframe e) then Inl (ValueError ''timeframe must be a non-empty string'')
      else if cbe_open_time_ms e < 0 then Inl (ValueError ''open_time_ms must be non-negative'')
      else Inr e)"

record SelectedDeployment =
  sd_strategy_instance_id :: string
  sd_deployment :: DeploymentSpecification

definition new_SelectedDeployment :: "SelectedDeployment \<Rightarrow> SelectedDeployment res" where
  "new_SelectedDeployment d =
     (if \<not> nonblank (sd_strategy_instance_id d)
      then Inl (ValueError ''strategy_instance_id must be a non-empty string'') else Inr d)"

record StrategyBarProcessingUnit =
  unit_strategy_instance_id :: string
  unit_deployment :: DeploymentSpecification
  unit_committed_bar :: CommittedBarEvent

datatype StrategyCycleDispatchStatus = SUCCEEDED | FAILED

record StrategyCycleDispatchOutcome =
  out_strategy_instance_id :: string
  out_status :: StrategyCycleDispatchStatus
  out_error_code :: "string option"
  out_error_message :: "string option"

definition new_StrategyCycleDispatchOutcome ::
    "StrategyCycleDispatchOutcome \<Rightarrow> StrategyCycleDispatchOutcome res" where
  "new_StrategyCycleDispatchOutcome x =
     (if \<not> nonblank (out_strategy_instance_id x)
      then Inl (ValueError ''strategy_instance_id must be a non-empty string'')
      else if out_status x = SUCCEEDED
      then (if out_error_code x \<noteq> None \<or> out_error_message x \<noteq> None
            then Inl (ValueError ''successful outcome cannot contain error details'') else Inr x)
      else if out_error_code x = None then Inl (ValueError ''failed outcome requires error_code'')
      else Inr x)"

definition outcome_succeeded :: "string \<Rightarrow> StrategyCycleDispatchOutcome res" where
  "outcome_succeeded i =
     new_StrategyCycleDispatchOutcome
       \<lparr>out_strategy_instance_id = i, out_status = SUCCEEDED, out_error_code = None, out_error_message = None\<rparr>"

definition outcome_failed :: "string \<Rightarrow> string \<Rightarrow> string option \<Rightarrow> StrategyCycleDispatchOutcome res" where
  "outcome_failed i error_code error_message =
     new_StrategyCycleDispatchOutcome
       \<lparr>out_strategy_instance_id = i, out_status = FAILED, out_error_code = Some error_code,
        out_error_message = error_message\<rparr>"

record CommittedBarOrchestrationResult =
  cbr_selected_count :: int
  cbr_attempted_count :: int
  cbr_succeeded_count :: int
  cbr_failed_count :: int
  cbr_outcomes :: "StrategyCycleDispatchOutcome list"

definition new_CommittedBarOrchestrationResult ::
    "CommittedBarOrchestrationResult \<Rightarrow> CommittedBarOrchestrationResult res" where
  "new_CommittedBarOrchestrationResult r =
     (if cbr_selected_count r < 0 \<or> cbr_attempted_count r < 0 \<or> cbr_succeeded_count r < 0 \<or> cbr_failed_count r < 0
      then Inl (ValueError ''orchestration counts must be non-negative'')
      else if cbr_attempted_count r \<noteq> int (length (cbr_outcomes r))
      then Inl (ValueError ''attempted_count must equal the number of outcomes'')
      else if cbr_succeeded_count r + cbr_failed_count r \<noteq> cbr_attempted_count r
      then Inl (ValueError ''success and failure counts must equal attempted_count'')
      else if cbr_attempted_count r \<noteq> cbr_selected_count r
      then Inl (ValueError ''every selected deployment must be attempted exactly once'')
      else Inr r)"

section \<open>Selection\<close>

definition bar_matches :: "CommittedBarEvent \<Rightarrow> DeploymentSpecification \<Rightarrow> bool" where
  "bar_matches event d \<longleftrightarrow>
     ds_enabled d \<and> ds_instrument d = cbe_instrument event \<and> ds_base_timeframe d = cbe_timeframe event"

definition select :: "CommittedBarEvent \<Rightarrow> DeploymentCatalogSnapshot \<Rightarrow> SelectedDeployment list res" where
  "select event snapshot =
     res_map (\<lambda>d. new_SelectedDeployment
                    \<lparr>sd_strategy_instance_id = ds_strategy_instance_id d, sd_deployment = d\<rparr>)
       (filter (bar_matches event) (dcs_accepted_deployments snapshot))"

section \<open>Lemmas\<close>

definition wf_deployment :: "DeploymentSpecification \<Rightarrow> bool" where
  "wf_deployment d \<longleftrightarrow>
     nonblank (ds_strategy_instance_id d) \<and> nonblank (ds_instrument d) \<and> nonblank (ds_base_timeframe d) \<and>
     nonblank (ds_strategy_id d) \<and> nonblank (ds_source_path d)"

definition wf_catalog :: "DeploymentCatalogSnapshot \<Rightarrow> bool" where
  "wf_catalog s \<longleftrightarrow>
     0 \<le> dcs_scanned_file_count s \<and> (\<forall>d \<in> set (dcs_accepted_deployments s). wf_deployment d) \<and>
     distinct (map ds_strategy_instance_id (dcs_accepted_deployments s))"

lemma new_DeploymentSpecification_iff:
  "new_DeploymentSpecification d = Inr d' \<longleftrightarrow> d' = d \<and> wf_deployment d"
  by (auto simp: new_DeploymentSpecification_def wf_deployment_def)

lemma select_spec:
  assumes "\<forall>d \<in> set (dcs_accepted_deployments s). wf_deployment d"
  shows "select event s =
    Inr (map (\<lambda>d. \<lparr>sd_strategy_instance_id = ds_strategy_instance_id d, sd_deployment = d\<rparr>)
           (filter (bar_matches event) (dcs_accepted_deployments s)))"
  unfolding select_def using assms
  by (intro res_map_all) (auto simp: new_SelectedDeployment_def wf_deployment_def)

lemma get_by_strategy_instance_id_iff:
  assumes "wf_catalog s"
  shows "get_by_strategy_instance_id s i = Some d \<longleftrightarrow>
     d \<in> set (dcs_accepted_deployments s) \<and> ds_strategy_instance_id d = i"
proof -
  have "distinct (map fst (rev (map (\<lambda>d. (ds_strategy_instance_id d, d)) (dcs_accepted_deployments s))))"
    using assms by (simp add: wf_catalog_def rev_map [symmetric] comp_def)
  then show ?thesis
    unfolding get_by_strategy_instance_id_def by (subst map_of_eq_Some_iff) auto
qed

end
