(* ===== verification/World.thy ===== *)
theory World
  imports Lifecycle Deployments
begin

text \<open>
  The world the orchestrators run in, and the permitted traces of what they do to it.

  A world is a state repository, an environment that answers every port call, and the log of
  effects in program order. The ports are the program's Protocol classes: the adapters behind them
  are arbitrary functions of the environment here, so a theorem about a handler holds for every
  answer and every failure of the services. An answer of a port is a value of a dataclass, and a
  dataclass value exists only if its \<open>__post_init__\<close> accepted it; the adapters turn a refusal into
  their protocol error. \<open>typed\<close> says so for each call.
\<close>

section \<open>Journal records and effects\<close>

datatype journal_record =
    JTradeCycleOpened string string "int option" int string string "string option"
  | JTradeCycleClosed TradeCycleClosure "int option"
  | JEntryCycleEnded string string "int option" string
  | JEntryPackageApplied EntryAppliedConfirmation int
  | JEntryPackageDeclined EntryDeclinedOutcome int string
  | JProtectionApplied ApplyProtectionCommand ProtectionAppliedConfirmation int
  | JLiveEntryEvaluated string string string int "DesiredEntry option"
  | JOpenTradeEvaluated string string string int string string EngineDesiredProtectionText CloseSignal
  | JEntryRemainderCancelled string string int string "string option"
  | JEntryRemainderCancelFailed string string int exn
  | JOrchestrationStarted CommittedBarEvent
  | JStrategyCycleOutcome CommittedBarEvent StrategyCycleDispatchOutcome
  | JOrchestrationCompleted CommittedBarEvent CommittedBarOrchestrationResult
  | JOrchestrationFailed CommittedBarEvent upstream_stage exn

datatype effect =
    Saved state
  | EntryPackagePut EntryPackageRequest
  | PositionLookup OpenPositionLookupRequest
  | RecoveryQuery string string
  | ProtectionPut ApplyProtectionCommand
  | ClosePut ClosePositionCommand
  | RemainderCancelPut string string
  | LiveEntryProjected LiveEntryProjectionRequest
  | OpenTradeProjected OpenTradeProjectionRequest
  | EnabledWrite string bool
  | TrashMove string
  | Journal journal_record

section \<open>Permitted traces\<close>

definition no_recovery :: "state \<Rightarrow> bool" where
  "no_recovery s \<longleftrightarrow> sirs_pending_entry_recovery s = None \<and> sirs_pending_close_recovery s = None"

definition has_cycle :: "state \<Rightarrow> string \<Rightarrow> bool" where
  "has_cycle s cid \<longleftrightarrow>
     (case sirs_current_trade_cycle s of None \<Rightarrow> False | Some c \<Rightarrow> ctc_trade_cycle_id c = cid)"

definition frozen_cycle :: "state \<Rightarrow> string \<Rightarrow> bool" where
  "frozen_cycle s cid \<longleftrightarrow>
     (case sirs_current_trade_cycle s of None \<Rightarrow> False
      | Some c \<Rightarrow> ctc_trade_cycle_id c = cid \<and> ctc_frozen_entry_context c \<noteq> None)"

definition filled_at :: "state \<Rightarrow> string \<Rightarrow> int \<Rightarrow> bool" where
  "filled_at s cid t \<longleftrightarrow>
     (case sirs_current_trade_cycle s of None \<Rightarrow> False
      | Some c \<Rightarrow> ctc_trade_cycle_id c = cid \<and>
          (case ctc_frozen_entry_context c of None \<Rightarrow> False | Some f \<Rightarrow> fec_first_fill_at_ms f = t))"

definition entry_marked :: "state \<Rightarrow> string \<Rightarrow> bool" where
  "entry_marked s cid \<longleftrightarrow> sirs_pending_entry_recovery s = Some \<lparr>per_trade_cycle_id = cid\<rparr>"

definition close_marked :: "state \<Rightarrow> string \<Rightarrow> bool" where
  "close_marked s cid \<longleftrightarrow> sirs_pending_close_recovery s = Some \<lparr>pcr_trade_cycle_id = cid\<rparr>"

definition ENTRY_CYCLE_END_REASONS :: "string set" where
  "ENTRY_CYCLE_END_REASONS = {''cancelled'', ''disabled'', ''terminal_without_fill'', ''exact_absent''}"

text \<open>Whether an effect is allowed for the durable aggregate of its own instance.\<close>

fun allowed :: "state \<Rightarrow> effect \<Rightarrow> bool" where
  "allowed s (EntryPackagePut r) =
     (epr_ticker r = rss_instrument (sirs_registered_spec_snapshot s) \<and>
      epr_risk_multiplier r = sirs_risk_multiplier s \<and>
      (if epr_desired_entry r \<noteq> None
       then entry_marked s (epr_trade_cycle_id r) \<and> sirs_current_trade_cycle s = None
       else entry_marked s (epr_trade_cycle_id r) \<or> (no_recovery s \<and> has_cycle s (epr_trade_cycle_id r))))"
| "allowed s (PositionLookup r) = (no_recovery s \<and> has_cycle s (oplr_trade_cycle_id r))"
| "allowed s (RecoveryQuery i cid) = entry_marked s cid"
| "allowed s (ProtectionPut c) = (no_recovery s \<and> frozen_cycle s (apc_trade_cycle_id c))"
| "allowed s (ClosePut c) = (close_marked s (cpc_trade_cycle_id c) \<and> frozen_cycle s (cpc_trade_cycle_id c))"
| "allowed s (RemainderCancelPut i cid) = (no_recovery s \<and> frozen_cycle s cid)"
| "allowed s (TrashMove i) = (no_recovery s \<and> sirs_current_trade_cycle s = None)"
| "allowed s (Journal (JTradeCycleOpened i cid bar t price link oid)) = filled_at s cid t"
| "allowed s (Journal (JTradeCycleClosed closure bar)) = (\<not> has_cycle s (tcc_trade_cycle_id closure))"
| "allowed s (Journal (JEntryCycleEnded i cid bar reason)) =
     (\<not> has_cycle s cid \<and> reason \<in> ENTRY_CYCLE_END_REASONS)"
| "allowed s x = True"

text \<open>The instance an effect is about, when it needs a stored aggregate.\<close>

fun about :: "effect \<Rightarrow> string option" where
  "about (EntryPackagePut r) = Some (epr_strategy_instance_id r)"
| "about (PositionLookup r) = Some (oplr_strategy_instance_id r)"
| "about (RecoveryQuery i cid) = Some i"
| "about (ProtectionPut c) = Some (apc_strategy_instance_id c)"
| "about (ClosePut c) = Some (cpc_strategy_instance_id c)"
| "about (RemainderCancelPut i cid) = Some i"
| "about (Journal (JTradeCycleOpened i cid bar t price link oid)) = Some i"
| "about (Journal (JTradeCycleClosed closure bar)) = Some (tcc_strategy_instance_id closure)"
| "about (Journal (JEntryCycleEnded i cid bar reason)) = Some i"
| "about x = None"

definition permitted :: "(string \<Rightarrow> state option) \<Rightarrow> effect \<Rightarrow> bool" where
  "permitted m x \<longleftrightarrow>
     (case x of
        Saved s \<Rightarrow> False
      | TrashMove i \<Rightarrow> (case m i of None \<Rightarrow> True | Some s \<Rightarrow> allowed s x)
      | _ \<Rightarrow> (case about x of None \<Rightarrow> True
              | Some i \<Rightarrow> (case m i of None \<Rightarrow> False | Some s \<Rightarrow> allowed s x)))"

inductive spec_step :: "(string \<Rightarrow> state option) \<Rightarrow> effect \<Rightarrow> (string \<Rightarrow> state option) \<Rightarrow> bool" where
  create: "m i = None \<Longrightarrow> sirs_strategy_instance_id s = i \<Longrightarrow> wf_state s \<Longrightarrow>
     sirs_current_trade_cycle s = None \<Longrightarrow> no_recovery s \<Longrightarrow> spec_step m (Saved s) (m(i \<mapsto> s))"
| save: "m (sirs_strategy_instance_id s') = Some s \<Longrightarrow> lifecycle_step s s' \<Longrightarrow>
     spec_step m (Saved s') (m(sirs_strategy_instance_id s' \<mapsto> s'))"
| other: "permitted m x \<Longrightarrow> spec_step m x m"

inductive_cases spec_step_SavedE: "spec_step m (Saved s) m'"

inductive spec_trace :: "(string \<Rightarrow> state option) \<Rightarrow> effect list \<Rightarrow> (string \<Rightarrow> state option) \<Rightarrow> bool" where
  nil: "spec_trace m [] m"
| snoc: "spec_trace m l m' \<Longrightarrow> spec_step m' x m'' \<Longrightarrow> spec_trace m (l @ [x]) m''"

text \<open>Every stored aggregate is well formed, coherent and stored under its own identity.\<close>

definition good :: "(string \<Rightarrow> state option) \<Rightarrow> bool" where
  "good m \<longleftrightarrow> (\<forall>i s. m i = Some s \<longrightarrow> sirs_strategy_instance_id s = i \<and> wf_state s \<and> coherent s)"

lemma goodD: "good m \<Longrightarrow> m i = Some s \<Longrightarrow> sirs_strategy_instance_id s = i \<and> wf_state s \<and> coherent s"
  by (simp add: good_def)

lemma spec_step_good: "spec_step m x m' \<Longrightarrow> good m \<Longrightarrow> good m'"
proof (induction rule: spec_step.induct)
  case (create m i s)
  then show ?case by (auto simp: good_def coherent_def)
next
  case (save m s' s)
  then have "wf_state s'" "coherent s'" "sirs_strategy_instance_id s' = sirs_strategy_instance_id s'"
    using lifecycle_step_wf lifecycle_step_coherent goodD [OF save.prems save.hyps(1)] by blast+
  with save.prems show ?case by (auto simp: good_def)
next
  case (other m x)
  then show ?case by simp
qed

lemma spec_trace_good: "spec_trace m l m' \<Longrightarrow> good m \<Longrightarrow> good m'"
  by (induction rule: spec_trace.induct) (auto intro: spec_step_good)

lemma spec_trace_append: "spec_trace m l m' \<Longrightarrow> spec_trace m' l' m'' \<Longrightarrow> spec_trace m (l @ l') m''"
proof (induction l' arbitrary: m'' rule: rev_induct)
  case Nil
  then show ?case by (auto elim: spec_trace.cases)
next
  case (snoc x xs)
  from snoc.prems(2) obtain n where "spec_trace m' xs n" "spec_step n x m''"
    by (cases rule: spec_trace.cases) auto
  with snoc show ?case by (metis append_assoc spec_trace.snoc)
qed

section \<open>Ports and world\<close>

record 'e ports =
  p_new_trade_cycle_id :: "'e \<Rightarrow> string \<times> 'e"
  p_send :: "EntryPackageRequest \<Rightarrow> 'e \<Rightarrow> EntryPackageResult res \<times> 'e"
  p_query :: "string \<Rightarrow> string \<Rightarrow> 'e \<Rightarrow> RecoveryStateResponse res \<times> 'e"
  p_lookup :: "OpenPositionLookupRequest \<Rightarrow> 'e \<Rightarrow> OpenPositionLookupResponse res \<times> 'e"
  p_apply_protection :: "ApplyProtectionCommand \<Rightarrow> 'e \<Rightarrow> ProtectionAppliedConfirmation res \<times> 'e"
  p_close_position :: "ClosePositionCommand \<Rightarrow> 'e \<Rightarrow> PositionClosedConfirmation res \<times> 'e"
  p_cancel_entry_remainder :: "string \<Rightarrow> string \<Rightarrow> 'e \<Rightarrow> EntryRemainderCancelConfirmation res \<times> 'e"
  p_project_live_entry :: "LiveEntryProjectionRequest \<Rightarrow> 'e \<Rightarrow> DesiredEntry option res \<times> 'e"
  p_project_open_trade :: "OpenTradeProjectionRequest \<Rightarrow> 'e \<Rightarrow> OpenTradeProjectionResponse res \<times> 'e"
  p_load_snapshot :: "'e \<Rightarrow> DeploymentCatalogSnapshot res \<times> 'e"
  p_set_enabled :: "string \<Rightarrow> bool \<Rightarrow> 'e \<Rightarrow> bool res \<times> 'e"
  p_read_original :: "string \<Rightarrow> 'e \<Rightarrow> string res \<times> 'e"
  p_move_to_trash :: "string \<Rightarrow> string \<Rightarrow> 'e \<Rightarrow> string res \<times> 'e"
  p_acquire :: "string \<Rightarrow> 'e \<Rightarrow> bool \<times> 'e"
  p_worker_running :: "'e \<Rightarrow> bool \<times> 'e"

record ('r, 'e) world =
  w_repo :: 'r
  w_env :: 'e
  w_log :: "effect list"

text \<open>The optional collaborators of the constructors: which journals are wired, the freezer, the
  live-entry mode and whether the remainder-cancel port is present.\<close>

datatype journal_kind =
    trade_cycle_opened_journal | trade_cycle_closed_journal | entry_cycle_ended_journal
  | entry_applied_journal | entry_declined_journal | protection_applied_journal
  | live_entry_journal | open_trade_journal | entry_remainder_cancel_journal

record config =
  cfg_journal :: "journal_kind \<Rightarrow> bool"
  cfg_live_entry_mode :: live_entry_mode
  cfg_order_lifetime_bars :: "int option"
  cfg_first_fill_freezer :: FirstFillFreezer
  cfg_entry_remainder_cancel_port :: bool

section \<open>Primitive programs\<close>

definition call :: "effect \<Rightarrow> ('e \<Rightarrow> 'a res \<times> 'e) \<Rightarrow> (('r, 'e) world, 'a) prog" where
  "call x f = (\<lambda>w. case f (w_env w) of (r, e) \<Rightarrow> (r, w\<lparr>w_env := e, w_log := w_log w @ [x]\<rparr>))"

definition ask :: "('e \<Rightarrow> 'a \<times> 'e) \<Rightarrow> (('r, 'e) world, 'a) prog" where
  "ask f = (\<lambda>w. case f (w_env w) of (x, e) \<Rightarrow> (Inr x, w\<lparr>w_env := e\<rparr>))"

definition journal :: "config \<Rightarrow> journal_kind \<Rightarrow> journal_record \<Rightarrow> (('r, 'e) world, unit) prog" where
  "journal cfg kind rec =
     (if cfg_journal cfg kind then (\<lambda>w. (Inr (), w\<lparr>w_log := w_log w @ [Journal rec]\<rparr>)) else ret ())"

definition repo_get :: "'r repo_ops \<Rightarrow> string \<Rightarrow> (('r, 'e) world, state option) prog" where
  "repo_get ops i = (\<lambda>w. case ro_get ops i (w_repo w) of (x, r) \<Rightarrow> (x, w\<lparr>w_repo := r\<rparr>))"

definition repo_save :: "'r repo_ops \<Rightarrow> state \<Rightarrow> (('r, 'e) world, state) prog" where
  "repo_save ops s =
     (\<lambda>w. case ro_save ops s (w_repo w) of
            (Inr s', r) \<Rightarrow> (Inr s', w\<lparr>w_repo := r, w_log := w_log w @ [Saved s']\<rparr>)
          | (Inl e, r) \<Rightarrow> (Inl e, w\<lparr>w_repo := r\<rparr>))"

text \<open>The log notes a creation: the aggregate was not there before.\<close>

definition repo_get_or_create :: "'r repo_ops \<Rightarrow> GetOrCreateRequest \<Rightarrow> (('r, 'e) world, state) prog" where
  "repo_get_or_create ops q =
     (\<lambda>w. case ro_get_or_create ops q (w_repo w) of
            (Inr s, r) \<Rightarrow>
              (Inr s, w\<lparr>w_repo := r,
                        w_log := w_log w @ (if fst (ro_get ops (gcr_strategy_instance_id q) (w_repo w)) = Inr None
                                            then [Saved s] else [])\<rparr>)
          | (Inl e, r) \<Rightarrow> (Inl e, w\<lparr>w_repo := r\<rparr>))"

text \<open>An answer of an adapter: a constructed value, or the adapter's protocol error.\<close>

definition typed :: "('a \<Rightarrow> 'a res) \<Rightarrow> exn \<Rightarrow> 'a res \<times> 'e \<Rightarrow> 'a res \<times> 'e" where
  "typed new err = (\<lambda>(r, e).
     ((case r of Inl x \<Rightarrow> Inl x
       | Inr v \<Rightarrow> (case new v of Inl _ \<Rightarrow> Inl err | Inr v' \<Rightarrow> Inr v')), e))"

text \<open>\<open>StrategyInstanceKeyedMutexRegistry.hold\<close> around a body, with and without a timeout. The body
  of a held section is one uninterrupted program; \<open>Keyed_Mutex\<close> shows why.\<close>

definition hold :: "string \<Rightarrow> ('w, 'a) prog \<Rightarrow> ('w, 'a) prog" where
  "hold i body = bindp (lift_res (require_strategy_instance_id i)) (\<lambda>_. body)"

definition hold_timeout ::
    "'e ports \<Rightarrow> string \<Rightarrow> (('r, 'e) world, 'a) prog \<Rightarrow> (('r, 'e) world, 'a) prog" where
  "hold_timeout P i body =
     bindp (lift_res (require_strategy_instance_id i)) (\<lambda>_.
     bindp (ask (p_acquire P i)) (\<lambda>acquired.
     if acquired then body else raise (StrategyInstanceBusy i)))"

lemma typed_Inr: "typed new err x = (Inr v, e) \<Longrightarrow> \<exists>u. new u = Inr v"
  by (cases x) (auto simp: typed_def split: sum.splits)

end
