(* ===== verification/World_Rules.thy ===== *)
theory World_Rules
  imports World
begin

text \<open>
  The proof rules of the primitive programs over any repository that keeps the contract.

  \<open>consistent m0 w\<close>: the log of \<open>w\<close> is a permitted trace from the aggregates \<open>m0\<close> to the ones the
  repository holds now. \<open>holding\<close> adds what the handler of instance \<open>i\<close> knows: its stored aggregate, and
  that the aggregates of all other instances are still \<open>rest\<close>. Each rule is a Hoare triple with one
  postcondition for the return and one for the exception.
\<close>

lemma triple_error:
  "triple P m Q E' \<Longrightarrow> (\<And>e w. E' e w \<Longrightarrow> E e w) \<Longrightarrow> triple P m Q E"
  by (erule triple_consequence)

lemma repo_saveD:
  "repo_save ops s w = (Inr x, w') \<Longrightarrow>
     \<exists>r. ro_save ops s (w_repo w) = (Inr x, r) \<and> w' = w\<lparr>w_repo := r, w_log := w_log w @ [Saved x]\<rparr>"
  "repo_save ops s w = (Inl e, w') \<Longrightarrow>
     \<exists>r. ro_save ops s (w_repo w) = (Inl e, r) \<and> w' = w\<lparr>w_repo := r\<rparr>"
  by (cases "ro_save ops s (w_repo w)"; cases "fst (ro_save ops s (w_repo w))"; simp add: repo_save_def)+

lemma repo_get_or_createD:
  "repo_get_or_create ops q w = (Inr s, w') \<Longrightarrow>
     \<exists>r. ro_get_or_create ops q (w_repo w) = (Inr s, r) \<and>
         w' = w\<lparr>w_repo := r,
                w_log := w_log w @ (if fst (ro_get ops (gcr_strategy_instance_id q) (w_repo w)) = Inr None
                                    then [Saved s] else [])\<rparr>"
  "repo_get_or_create ops q w = (Inl e, w') \<Longrightarrow>
     \<exists>r. ro_get_or_create ops q (w_repo w) = (Inl e, r) \<and> w' = w\<lparr>w_repo := r\<rparr>"
  by (cases "ro_get_or_create ops q (w_repo w)"; cases "fst (ro_get_or_create ops q (w_repo w))";
      simp add: repo_get_or_create_def)+

context state_repository
begin

definition consistent :: "(string \<Rightarrow> state option) \<Rightarrow> ('r, 'e) world \<Rightarrow> bool" where
  "consistent m0 w \<longleftrightarrow> good m0 \<and> inv (w_repo w) \<and> spec_trace m0 (w_log w) (states (w_repo w))"

definition elsewhere :: "(string \<Rightarrow> state option) \<Rightarrow> string \<Rightarrow> (string \<Rightarrow> state option) \<Rightarrow> ('r, 'e) world \<Rightarrow> bool" where
  "elsewhere m0 i rest w \<longleftrightarrow> consistent m0 w \<and> (\<forall>j. j \<noteq> i \<longrightarrow> states (w_repo w) j = rest j)"

definition holding :: "(string \<Rightarrow> state option) \<Rightarrow> string \<Rightarrow> (string \<Rightarrow> state option) \<Rightarrow> state \<Rightarrow> ('r, 'e) world \<Rightarrow> bool" where
  "holding m0 i rest s w \<longleftrightarrow> elsewhere m0 i rest w \<and> states (w_repo w) i = Some s"

lemma holding_elsewhere: "holding m0 i rest s w \<Longrightarrow> elsewhere m0 i rest w"
  by (simp add: holding_def)

lemma holding_good:
  assumes "holding m0 i rest s w"
  shows "sirs_strategy_instance_id s = i" "wf_state s" "coherent s"
  using assms spec_trace_good goodD unfolding holding_def elsewhere_def consistent_def by blast+

lemma triple_holding:
  assumes "sirs_strategy_instance_id s = i \<Longrightarrow> wf_state s \<Longrightarrow> coherent s \<Longrightarrow>
             triple (holding m0 i rest s) m Q E"
  shows "triple (holding m0 i rest s) m Q E"
proof (rule tripleI)
  fix w x w' assume w: "holding m0 i rest s w" and m: "m w = (Inr x, w')"
  from tripleD_Inr [OF assms w m] show "Q x w'" using holding_good [OF w] by blast
next
  fix w e w' assume w: "holding m0 i rest s w" and m: "m w = (Inl e, w')"
  from tripleD_Inl [OF assms w m] show "E e w'" using holding_good [OF w] by blast
qed

lemma consistent_step:
  assumes "consistent m0 w" and "inv (w_repo w')" and "w_log w' = w_log w @ [x]"
    and "spec_step (states (w_repo w)) x (states (w_repo w'))"
  shows "consistent m0 w'"
  using assms spec_trace.snoc unfolding consistent_def by metis

lemma triple_save:
  assumes "lifecycle_step s s'"
  shows "triple (holding m0 i rest s) (repo_save ops s')
           (\<lambda>x w. x = s' \<and> holding m0 i rest s' w) (\<lambda>e. holding m0 i rest s)"
proof (rule tripleI)
  fix w x w' assume w: "holding m0 i rest s w" and run: "repo_save ops s' w = (Inr x, w')"
  from repo_saveD(1) [OF run] obtain r where r: "ro_save ops s' (w_repo w) = (Inr x, r)"
    and w': "w' = w\<lparr>w_repo := r, w_log := w_log w @ [Saved x]\<rparr>" by blast
  have inv: "inv (w_repo w)" using w by (simp add: holding_def elsewhere_def consistent_def)
  have id: "sirs_strategy_instance_id s' = i"
    using lifecycle_step_identity(1) [OF assms] holding_good(1) [OF w] by simp
  have x: "x = s'" "inv r" "states r = (states (w_repo w))(i \<mapsto> s')"
    using save_law [OF inv r] by (simp_all add: id)
  have "states (w_repo w) (sirs_strategy_instance_id s') = Some s" using w by (simp add: holding_def id)
  from spec_step.save [where m = "states (w_repo w)", OF this assms] have "spec_step (states (w_repo w)) (Saved s') (states r)"
    by (simp add: x(3) id)
  then have "consistent m0 w'"
    using w x consistent_step [of m0 w w' "Saved s'"] by (simp add: w' holding_def elsewhere_def)
  with w x show "x = s' \<and> holding m0 i rest s' w'"
    by (simp add: holding_def elsewhere_def w')
next
  fix w e w' assume w: "holding m0 i rest s w" and run: "repo_save ops s' w = (Inl e, w')"
  from repo_saveD(2) [OF run] obtain r where r: "ro_save ops s' (w_repo w) = (Inl e, r)"
    and w': "w' = w\<lparr>w_repo := r\<rparr>" by blast
  have "inv (w_repo w)" using w by (simp add: holding_def elsewhere_def consistent_def)
  from save_law [OF this r] w show "holding m0 i rest s w'"
    by (simp add: holding_def elsewhere_def consistent_def w')
qed

lemma get_InrD: "inv r \<Longrightarrow> ro_get ops i r = (Inr found, r') \<Longrightarrow> found = states r i \<and> r' = r"
  using get_law by fastforce

lemma repo_get_InrD:
  assumes "repo_get ops i w = (Inr found, w')" and "inv (w_repo w)"
  shows "found = states (w_repo w) i \<and> w' = w"
proof -
  from assms(1) obtain r where "ro_get ops i (w_repo w) = (Inr found, r)" "w' = w\<lparr>w_repo := r\<rparr>"
    by (auto simp: repo_get_def split: prod.splits)
  with get_InrD [OF assms(2)] show ?thesis by (cases w) auto
qed

lemma repo_get_InlD:
  assumes "repo_get ops i w = (Inl e, w')" and "inv (w_repo w)"
  shows "w' = w"
proof -
  from assms(1) obtain r where "ro_get ops i (w_repo w) = (Inl e, r)" "w' = w\<lparr>w_repo := r\<rparr>"
    by (auto simp: repo_get_def split: prod.splits)
  with get_law [OF assms(2)] show ?thesis by (cases w) auto
qed

lemma triple_get:
  "triple (holding m0 i rest s) (repo_get ops i) (\<lambda>x w. x = Some s \<and> holding m0 i rest s w) (\<lambda>e. holding m0 i rest s)"
  by (rule tripleI)
    (auto simp: holding_def elsewhere_def consistent_def dest!: repo_get_InrD repo_get_InlD)

lemma triple_get_any:
  "triple (elsewhere m0 i rest) (repo_get ops i)
     (\<lambda>x w. case x of None \<Rightarrow> elsewhere m0 i rest w \<and> states (w_repo w) i = None | Some s \<Rightarrow> holding m0 i rest s w)
     (\<lambda>e. elsewhere m0 i rest)"
  by (rule tripleI)
    (auto simp: holding_def elsewhere_def consistent_def split: option.splits dest!: repo_get_InrD repo_get_InlD)

lemma triple_get_or_create:
  assumes i: "gcr_strategy_instance_id q = i"
  shows "triple (elsewhere m0 i rest) (repo_get_or_create ops q)
           (\<lambda>s. holding m0 i rest s) (\<lambda>e. elsewhere m0 i rest)"
proof (rule tripleI)
  fix w s w' assume w: "elsewhere m0 i rest w" and run: "repo_get_or_create ops q w = (Inr s, w')"
  let ?new = "fst (ro_get ops i (w_repo w)) = Inr None"
  from repo_get_or_createD(1) [OF run] obtain r where r: "ro_get_or_create ops q (w_repo w) = (Inr s, r)"
    and w': "w' = w\<lparr>w_repo := r, w_log := w_log w @ (if ?new then [Saved s] else [])\<rparr>"
    unfolding i by blast
  have inv: "inv (w_repo w)" using w by (simp add: elsewhere_def consistent_def)
  note law = get_or_create_law [OF inv r]
  show "holding m0 i rest s w'"
  proof (cases "states (w_repo w) i")
    case (Some old)
    then have "\<not> ?new" using get_InrD [OF inv] by (metis option.distinct(1) prod.collapse)
    with Some law i w show ?thesis
      by (simp add: holding_def elsewhere_def consistent_def w')
  next
    case None
    with law i have s: "initial_state q = Inr s" "states r = (states (w_repo w))(i \<mapsto> s)" "inv r"
      by simp_all
    have id: "sirs_strategy_instance_id s = i" using initial_state_id [OF s(1)] i by simp
    have "wf_state s" by (rule initial_state_wf [OF s(1)])
    then have "nonblank i" using id by (simp add: wf_state_def)
    then have "i \<noteq> []" by (rule nonblank_nonempty)
    then have new: "?new" using None law i by simp
    have "spec_step (states (w_repo w)) (Saved s) (states r)"
      unfolding s(2) using spec_step.create [where m = "states (w_repo w)", OF None id \<open>wf_state s\<close>]
        initial_state_empty [OF s(1)] by (simp add: no_recovery_def)
    then have "consistent m0 w'"
      using w s new consistent_step [of m0 w w' "Saved s"] by (simp add: w' elsewhere_def)
    with w s show ?thesis by (simp add: holding_def elsewhere_def w')
  qed
next
  fix w e w' assume w: "elsewhere m0 i rest w" and run: "repo_get_or_create ops q w = (Inl e, w')"
  from repo_get_or_createD(2) [OF run] obtain r where r: "ro_get_or_create ops q (w_repo w) = (Inl e, r)"
    and w': "w' = w\<lparr>w_repo := r\<rparr>" by blast
  have "inv (w_repo w)" using w by (simp add: elsewhere_def consistent_def)
  from get_or_create_law [OF this r] w show "elsewhere m0 i rest w'"
    by (simp add: elsewhere_def consistent_def w')
qed

lemma consistent_log:
  "consistent m0 w \<Longrightarrow> permitted (states (w_repo w)) x \<Longrightarrow>
     consistent m0 (w\<lparr>w_env := e, w_log := w_log w @ [x]\<rparr>)"
  by (rule consistent_step [where x = x]) (auto intro: spec_step.other simp: consistent_def)

lemma triple_call:
  fixes f :: "'e \<Rightarrow> 'a res \<times> 'e"
  assumes "about x = Some i" and "allowed s x"
  shows "triple (holding m0 i rest s) (call x f)
           (\<lambda>v w. (\<exists>e e'. f e = (Inr v, e')) \<and> holding m0 i rest s w) (\<lambda>e. holding m0 i rest s)"
proof -
  have "permitted m x" if "m i = Some s" for m
    using that assms by (cases x) (auto simp: permitted_def)
  then have "holding m0 i rest s w \<Longrightarrow> holding m0 i rest s (w\<lparr>w_env := e, w_log := w_log w @ [x]\<rparr>)"
    for w :: "('r, 'e) world" and e
    by (auto simp: holding_def elsewhere_def intro: consistent_log)
  then show ?thesis by (intro tripleI; auto simp: call_def split: prod.splits; blast)
qed

lemma triple_call_free:
  fixes f :: "'e \<Rightarrow> 'a res \<times> 'e"
  assumes "about x = None" and "\<And>t. x \<noteq> Saved t" and "\<And>j. x \<noteq> TrashMove j"
  shows "triple (elsewhere m0 i rest) (call x f)
           (\<lambda>v w. (\<exists>e e'. f e = (Inr v, e')) \<and> elsewhere m0 i rest w) (\<lambda>e. elsewhere m0 i rest)"
    and "triple (holding m0 i rest s) (call x f)
           (\<lambda>v w. (\<exists>e e'. f e = (Inr v, e')) \<and> holding m0 i rest s w) (\<lambda>e. holding m0 i rest s)"
proof -
  have "permitted m x" for m using assms by (cases x) (auto simp: permitted_def)
  then have *: "consistent m0 w \<Longrightarrow> consistent m0 (w\<lparr>w_env := e, w_log := w_log w @ [x]\<rparr>)"
    for w :: "('r, 'e) world" and e by (auto intro: consistent_log)
  show "triple (elsewhere m0 i rest) (call x f)
      (\<lambda>v w. (\<exists>e e'. f e = (Inr v, e')) \<and> elsewhere m0 i rest w) (\<lambda>e. elsewhere m0 i rest)"
    using * by (intro tripleI; auto simp: call_def elsewhere_def split: prod.splits; blast)
  show "triple (holding m0 i rest s) (call x f)
      (\<lambda>v w. (\<exists>e e'. f e = (Inr v, e')) \<and> holding m0 i rest s w) (\<lambda>e. holding m0 i rest s)"
    using * by (intro tripleI; auto simp: call_def holding_def elsewhere_def split: prod.splits; blast)
qed

lemma triple_ask:
  "triple (holding m0 i rest s) (ask f) (\<lambda>x. holding m0 i rest s) (\<lambda>e. holding m0 i rest s)"
  "triple (elsewhere m0 i rest) (ask f) (\<lambda>x. elsewhere m0 i rest) (\<lambda>e. elsewhere m0 i rest)"
  by (auto intro!: tripleI simp: ask_def holding_def elsewhere_def consistent_def split: prod.splits)

lemma triple_journal:
  assumes "about (Journal rec) = Some i \<or> about (Journal rec) = None" and "allowed s (Journal rec)"
  shows "triple (holding m0 i rest s) (journal cfg kind rec) (\<lambda>u. holding m0 i rest s) E"
proof -
  have "permitted m (Journal rec)" if "m i = Some s" for m
    using that assms by (auto simp: permitted_def)
  then have "holding m0 i rest s w \<Longrightarrow> holding m0 i rest s (w\<lparr>w_log := w_log w @ [Journal rec]\<rparr>)"
    for w :: "('r, 'b) world"
    using consistent_log [of m0 w "Journal rec" "w_env w"] by (auto simp: holding_def elsewhere_def)
  then show ?thesis by (auto intro!: tripleI simp: journal_def split: if_splits)
qed

text \<open>The same rules in sequencing form. What is left of a handler after applying them is the pure
  reasoning: which lifecycle step a save is, and why a call is allowed.\<close>

lemma triple_save_bind:
  assumes "lifecycle_step s s'" and "triple (holding m0 i rest s') (f s') Q E"
    and "\<And>e w. holding m0 i rest s w \<Longrightarrow> E e w"
  shows "triple (holding m0 i rest s) (bindp (repo_save ops s') f) Q E"
proof (rule triple_seq [where F = "\<lambda>x. x = s'" and R = "\<lambda>x. holding m0 i rest s'"])
  show "triple (holding m0 i rest s) (repo_save ops s') (\<lambda>x w. x = s' \<and> holding m0 i rest s' w) E"
    by (rule triple_consequence [OF triple_save [OF assms(1)]]) (use assms(3) in auto)
qed (use assms(2) in simp)

lemma triple_get_bind:
  assumes "triple (holding m0 i rest s) (f (Some s)) Q E" and "\<And>e w. holding m0 i rest s w \<Longrightarrow> E e w"
  shows "triple (holding m0 i rest s) (bindp (repo_get ops i) f) Q E"
proof (rule triple_seq [where F = "\<lambda>x. x = Some s" and R = "\<lambda>x. holding m0 i rest s"])
  show "triple (holding m0 i rest s) (repo_get ops i) (\<lambda>x w. x = Some s \<and> holding m0 i rest s w) E"
    by (rule triple_consequence [OF triple_get]) (use assms(2) in auto)
qed (use assms(1) in simp)

lemma triple_get_any_bind:
  assumes "triple (\<lambda>w. elsewhere m0 i rest w \<and> states (w_repo w) i = None) (f None) Q E"
    and "\<And>s. triple (holding m0 i rest s) (f (Some s)) Q E"
    and "\<And>e w. elsewhere m0 i rest w \<Longrightarrow> E e w"
  shows "triple (elsewhere m0 i rest) (bindp (repo_get ops i) f) Q E"
proof (rule triple_bind [OF triple_error [OF triple_get_any]])
  fix x
  show "triple (\<lambda>w. case x of None \<Rightarrow> elsewhere m0 i rest w \<and> states (w_repo w) i = None
      | Some s \<Rightarrow> holding m0 i rest s w) (f x) Q E"
    using assms(1,2) by (cases x) simp_all
qed (use assms(3) in simp)

lemma triple_get_or_create_bind:
  assumes "gcr_strategy_instance_id q = i" and "\<And>s. triple (holding m0 i rest s) (f s) Q E"
    and "\<And>e w. elsewhere m0 i rest w \<Longrightarrow> E e w"
  shows "triple (elsewhere m0 i rest) (bindp (repo_get_or_create ops q) f) Q E"
  by (rule triple_bind [OF triple_error [OF triple_get_or_create [OF assms(1)]]]) (use assms in auto)

lemma triple_call_bind:
  assumes "about x = Some i" and "allowed s x"
    and "\<And>v e e'. g e = (Inr v, e') \<Longrightarrow> triple (holding m0 i rest s) (f v) Q E"
    and "\<And>e w. holding m0 i rest s w \<Longrightarrow> E e w"
  shows "triple (holding m0 i rest s) (bindp (call x g) f) Q E"
  by (rule triple_seq [OF triple_error [OF triple_call [OF assms(1,2)]]]) (use assms in auto)

lemma triple_call_free_bind:
  assumes "about x = None" and "\<And>t. x \<noteq> Saved t" and "\<And>j. x \<noteq> TrashMove j"
    and "\<And>v e e'. g e = (Inr v, e') \<Longrightarrow> triple (holding m0 i rest s) (f v) Q E"
    and "\<And>e w. holding m0 i rest s w \<Longrightarrow> E e w"
  shows "triple (holding m0 i rest s) (bindp (call x g) f) Q E"
  by (rule triple_seq [OF triple_error [OF triple_call_free(2) [OF assms(1-3)]]]) (use assms in auto)

lemma triple_call_try:
  assumes "about x = Some i" and "allowed s x"
    and "\<And>v e e'. g e = (Inr v, e') \<Longrightarrow> triple (holding m0 i rest s) (k v) Q E"
    and "\<And>e. triple (holding m0 i rest s) (h e) Q E"
  shows "triple (holding m0 i rest s) (tryp (call x g) h k) Q E"
  by (rule triple_try_seq [OF triple_call [OF assms(1,2)]]) (use assms in auto)

lemma triple_ask_bind:
  assumes "\<And>v. triple (holding m0 i rest s) (f v) Q E"
  shows "triple (holding m0 i rest s) (bindp (ask g) f) Q E"
  by (rule triple_bind [where R = "\<lambda>x. holding m0 i rest s"])
    (use assms in \<open>auto intro!: tripleI simp: ask_def holding_def elsewhere_def consistent_def split: prod.splits\<close>)

lemma triple_journal_bind:
  assumes "about (Journal rec) = Some i \<or> about (Journal rec) = None" and "allowed s (Journal rec)"
    and "triple (holding m0 i rest s) (f ()) Q E"
  shows "triple (holding m0 i rest s) (bindp (journal cfg kind rec) f) Q E"
  by (rule triple_bind [OF triple_journal [OF assms(1,2)]]) (use assms in auto)

lemma triple_raise_elsewhere: "triple (holding m0 i rest s) (raise err) Q (\<lambda>e. elsewhere m0 i rest)"
  by (rule triple_raise) (rule holding_elsewhere)

text \<open>The handlers as steps on consistent worlds, for all instances at once.\<close>

lemma triple_any_instance:
  assumes "\<And>rest. triple (elsewhere m0 i rest) m (\<lambda>x. elsewhere m0 i rest) (\<lambda>e. elsewhere m0 i rest)"
  shows "triple (consistent m0) m (\<lambda>x. consistent m0) (\<lambda>e. consistent m0)"
proof -
  have "elsewhere m0 i (states (w_repo w)) w" if "consistent m0 w" for w
    using that by (simp add: elsewhere_def)
  with assms show ?thesis
    unfolding triple_def by (fastforce simp: elsewhere_def split: prod.splits sum.splits)
qed

end

end
