(* ===== verification/Entry_Orchestrator.thy ===== *)
theory Entry_Orchestrator
  imports World_Rules
begin

text \<open>
  \<open>runtime/entry_reconciliation_bridge/bridge.py\<close> and
  \<open>runtime/entry_reconciliation_orchestrator/orchestrator.py\<close>: one desired-entry reconciliation from
  the decision to the acknowledged aggregate, and the routing models of
  \<open>runtime/routing/models.py\<close> it is given.

  Proved over every repository and every answer of the ports: the orchestrator only makes permitted
  effects. Its marker is durable before the entry package is sent, and what it returns is one
  lifecycle step away from what is stored.
\<close>

section \<open>Routing models\<close>

record PositionResolvedStrategyInstance =
  prsi_processing_unit :: StrategyBarProcessingUnit
  prsi_resolved_state :: PositionResolvedState

record LiveEntryProjectedStrategyInstance =
  lep_source :: PositionResolvedStrategyInstance
  lep_desired_entry :: "DesiredEntry option"

record OpenTradeProjectedStrategyInstance =
  otp_source :: PositionResolvedStrategyInstance
  otp_position_management_recipe :: PositionManagementRecipe

section \<open>The bridge to the entry-package port\<close>

definition encode_desired_entry :: "DesiredEntry option \<Rightarrow> EntryPackageWireDesiredEntry option res" where
  "encode_desired_entry v =
     (case v of
        None \<Rightarrow> Inr None
      | Some d \<Rightarrow>
          res_bind (new_EntryPackageWireDesiredEntry
                      \<lparr>wde_side = de_side d,
                       wde_source_plan_bar_open_time_ms = de_source_plan_bar_open_time_ms d,
                       wde_planned_entry_price = de_planned_entry_price d,
                       wde_initial_stop_price = de_initial_stop_price d,
                       wde_initial_take_price = de_initial_take_price d,
                       wde_locked_exit_profile = de_locked_exit_profile d\<rparr>) (\<lambda>x. Inr (Some x)))"

definition decode_desired_entry :: "EntryPackageWireDesiredEntry \<Rightarrow> DesiredEntry res" where
  "decode_desired_entry v =
     new_DesiredEntry
       \<lparr>de_side = wde_side v,
        de_source_plan_bar_open_time_ms = wde_source_plan_bar_open_time_ms v,
        de_planned_entry_price = wde_planned_entry_price v,
        de_initial_stop_price = wde_initial_stop_price v,
        de_initial_take_price = wde_initial_take_price v,
        de_locked_exit_profile = wde_locked_exit_profile v\<rparr>"

text \<open>One call of \<open>AbiEntryPackagePort.send\<close>.\<close>

definition abi_send :: "'e ports \<Rightarrow> EntryPackageRequest \<Rightarrow> (('r, 'e) world, EntryPackageResult) prog" where
  "abi_send P request =
     call (EntryPackagePut request)
       (\<lambda>e. typed new_EntryPackageResult (AbiEntryPackageClientError AbiEntryPackageProtocolError)
              (p_send P request e))"

definition bridge_outcome :: "EntryPackageResult \<Rightarrow> EntryExecutionOutcome res" where
  "bridge_outcome result =
     (case result of
        PackageApplied p \<Rightarrow>
          res_bind (decode_desired_entry (epa_applied_desired_entry p)) (\<lambda>d.
          res_bind (new_EntryAppliedConfirmation
                      \<lparr>eac_strategy_instance_id = epa_strategy_instance_id p,
                       eac_trade_cycle_id = epa_trade_cycle_id p, eac_applied_desired_entry = d,
                       eac_calculated_quantity = epa_calculated_quantity p,
                       eac_trigger_price = epa_trigger_price p, eac_stop_loss = epa_stop_loss p,
                       eac_take_profit = epa_take_profit p, eac_quantity = epa_quantity p,
                       eac_order_link_id = epa_order_link_id p, eac_order_id = epa_order_id p\<rparr>) (\<lambda>c.
          Inr (Applied c)))
      | PackageAbsent p \<Rightarrow>
          res_bind (new_EntryAbsentConfirmation
                      \<lparr>ebc_strategy_instance_id = epb_strategy_instance_id p,
                       ebc_trade_cycle_id = epb_trade_cycle_id p\<rparr>) (\<lambda>c. Inr (Absent c))
      | PackageDeclined p \<Rightarrow>
          res_bind (new_EntryDeclinedOutcome
                      \<lparr>edo_strategy_instance_id = epd_strategy_instance_id p,
                       edo_trade_cycle_id = epd_trade_cycle_id p,
                       edo_decline_reason = epd_decline_reason p,
                       edo_decline_message = epd_decline_message p\<rparr>) (\<lambda>c. Inr (Declined c))
      | PackagePublicError e \<Rightarrow>
          (case e of
             EntryPackageExecutionNotReady m \<Rightarrow> Inl (EntryExecutionNotReady m)
           | _ \<Rightarrow> Inl (EntryReconciliationExecutionError ''ABI entry-package public error'')))"

definition bridge_execute ::
    "'e ports \<Rightarrow> EntryReconciliationCommand \<Rightarrow> state \<Rightarrow> (('r, 'e) world, EntryExecutionOutcome) prog" where
  "bridge_execute P command source_state =
     bindp (lift_res (encode_desired_entry (erc_desired_entry command))) (\<lambda>desired_entry.
     bindp (lift_res (new_EntryPackageRequest
              \<lparr>epr_strategy_instance_id = erc_strategy_instance_id command,
               epr_trade_cycle_id = erc_trade_cycle_id command, epr_ticker = erc_ticker command,
               epr_desired_entry = desired_entry,
               epr_risk_multiplier = sirs_risk_multiplier source_state\<rparr>)) (\<lambda>request.
     tryp (abi_send P request)
       (\<lambda>exc. case exc of
           AbiEntryPackageClientError AbiEntryPackageTimeout \<Rightarrow>
             raise (EntryReconciliationExecutionError ''ABI entry-package request timed out'')
         | AbiEntryPackageClientError AbiEntryPackageNetworkFailure \<Rightarrow>
             raise (EntryReconciliationExecutionError ''ABI entry-package network transport failed'')
         | AbiEntryPackageClientError AbiEntryPackageProtocolError \<Rightarrow>
             raise (EntryReconciliationExecutionError ''ABI entry-package response was invalid'')
         | _ \<Rightarrow> raise exc)
       (\<lambda>result. lift_res (bridge_outcome result))))"

section \<open>The orchestrator\<close>

definition new_EntryReconciliationOrchestrator :: "live_entry_mode \<Rightarrow> int option \<Rightarrow> unit res" where
  "new_EntryReconciliationOrchestrator mode order_lifetime_bars =
     (if mode = touch_trigger \<and> (case order_lifetime_bars of None \<Rightarrow> True | Some n \<Rightarrow> n < 0)
      then Inl (ValueError ''touch_trigger requires order_lifetime_bars as an integer >= 0'')
      else Inr ())"

definition bar_of :: "PositionResolvedStrategyInstance \<Rightarrow> int" where
  "bar_of source = cbe_open_time_ms (unit_committed_bar (prsi_processing_unit source))"

definition entry_decide ::
    "config \<Rightarrow> LiveEntryProjectedStrategyInstance \<Rightarrow> state \<Rightarrow> EntryReconciliationDecision res" where
  "entry_decide cfg projection source_state =
     (if cfg_live_entry_mode cfg \<noteq> touch_trigger
      then decide_entry_reconciliation (lep_desired_entry projection) (sirs_current_trade_cycle source_state)
      else case cfg_order_lifetime_bars cfg of
             None \<Rightarrow> Inl AssertionError
           | Some order_lifetime_bars \<Rightarrow>
               res_bind (timeframe_duration_ms
                           (ds_base_timeframe (unit_deployment (prsi_processing_unit (lep_source projection))))) (\<lambda>tf.
               touch_trigger_entry_reconciliation (lep_desired_entry projection)
                 (sirs_current_trade_cycle source_state) (bar_of (lep_source projection)) tf order_lifetime_bars))"

definition journal_entry_applied ::
    "config \<Rightarrow> EntryAppliedConfirmation \<Rightarrow> int \<Rightarrow> (('r, 'e) world, unit) prog" where
  "journal_entry_applied cfg confirmation bar_open_time_ms =
     (if eac_trigger_price confirmation = None \<and> eac_stop_loss confirmation = None \<and>
         eac_take_profit confirmation = None \<and> eac_quantity confirmation = None \<and>
         eac_order_link_id confirmation = None \<and> eac_order_id confirmation = None
      then ret ()
      else journal cfg entry_applied_journal (JEntryPackageApplied confirmation bar_open_time_ms))"

definition end_declined_apply ::
    "config \<Rightarrow> 'r repo_ops \<Rightarrow> LiveEntryProjectedStrategyInstance \<Rightarrow> state \<Rightarrow> EntryReconciliationDecision
       \<Rightarrow> EntryReconciliationCommand \<Rightarrow> EntryDeclinedOutcome \<Rightarrow> (('r, 'e) world, state) prog" where
  "end_declined_apply cfg ops projection pending_state decision command declined =
     (case decision of
        Apply _ \<Rightarrow>
          if edo_strategy_instance_id declined \<noteq> erc_strategy_instance_id command \<or>
             edo_trade_cycle_id declined \<noteq> erc_trade_cycle_id command
          then raise (EntryReconciliationInvariantError ''declined outcome does not match the sent command'')
          else
            bindp (lift_res (new_StrategyInstanceRuntimeState
                     (pending_state\<lparr>sirs_pending_entry_recovery := None\<rparr>))) (\<lambda>cleared.
            bindp (repo_save ops cleared) (\<lambda>saved_state.
            bindp (journal cfg entry_declined_journal
                     (JEntryPackageDeclined declined (bar_of (lep_source projection))
                        (sirs_risk_multiplier pending_state))) (\<lambda>_.
            ret saved_state)))
      | _ \<Rightarrow> raise (EntryReconciliationInvariantError ''only APPLY may be declined''))"

text \<open>The \<open>except EntryExecutionNotReady\<close> branch: clear the marker, then raise again.\<close>

definition abort_not_ready ::
    "'r repo_ops \<Rightarrow> EntryReconciliationCommand \<Rightarrow> state \<Rightarrow> exn \<Rightarrow> (('r, 'e) world, 'a) prog" where
  "abort_not_ready ops command pending_state error =
     bindp (repo_get ops (erc_strategy_instance_id command)) (\<lambda>current.
     if current \<noteq> Some pending_state
     then raise (EntryReconciliationInvariantError ''cannot clear a recovery marker after its state changed'')
     else
       bindp (lift_res (new_StrategyInstanceRuntimeState
                (pending_state\<lparr>sirs_pending_entry_recovery := None\<rparr>))) (\<lambda>cleared.
       bindp (repo_save ops cleared) (\<lambda>_. raise error)))"

text \<open>\<open>_execute_one\<close>, from the send of the command of the marked aggregate to its outcome.\<close>

definition send_marked ::
    "config \<Rightarrow> 'e ports \<Rightarrow> 'r repo_ops \<Rightarrow> LiveEntryProjectedStrategyInstance \<Rightarrow> state
       \<Rightarrow> EntryReconciliationDecision \<Rightarrow> EntryReconciliationCommand \<Rightarrow> state \<Rightarrow> (('r, 'e) world, state) prog" where
  "send_marked cfg P ops projection s decision command pending_state =
     tryp (bridge_execute P command s)
       (\<lambda>error. case error of
           EntryExecutionNotReady m \<Rightarrow> abort_not_ready ops command pending_state error
         | _ \<Rightarrow> raise error)
       (\<lambda>confirmation. case confirmation of
           Declined declined \<Rightarrow>
             end_declined_apply cfg ops projection pending_state decision command declined
         | Applied applied \<Rightarrow>
             bindp (journal_entry_applied cfg applied (bar_of (lep_source projection))) (\<lambda>_.
             lift_res (apply_success_confirmation pending_state decision command confirmation))
         | Absent absent \<Rightarrow>
             lift_res (apply_success_confirmation pending_state decision command confirmation))"

definition execute_one ::
    "config \<Rightarrow> 'e ports \<Rightarrow> 'r repo_ops \<Rightarrow> LiveEntryProjectedStrategyInstance \<Rightarrow> state
       \<Rightarrow> EntryReconciliationDecision \<Rightarrow> string option \<Rightarrow> (('r, 'e) world, state) prog" where
  "execute_one cfg P ops projection s decision apply_trade_cycle_id =
     bindp (lift_res (build_entry_reconciliation_command s decision apply_trade_cycle_id)) (\<lambda>built.
     case built of
       None \<Rightarrow> raise (EntryReconciliationInvariantError
                  ''command-bearing reconciliation decision must produce a command'')
     | Some command \<Rightarrow>
         if sirs_pending_entry_recovery s \<noteq> None
         then raise (EntryReconciliationInvariantError ''cannot overwrite an existing recovery marker'')
         else
           bindp (lift_res (new_PendingEntryRecovery \<lparr>per_trade_cycle_id = erc_trade_cycle_id command\<rparr>)) (\<lambda>marker.
           bindp (lift_res (new_StrategyInstanceRuntimeState
                    (s\<lparr>sirs_pending_entry_recovery := Some marker\<rparr>))) (\<lambda>marked.
           bindp (repo_save ops marked) (\<lambda>pending_state.
           send_marked cfg P ops projection s decision command pending_state))))"

definition entry_execute ::
    "config \<Rightarrow> 'e ports \<Rightarrow> 'r repo_ops \<Rightarrow> LiveEntryProjectedStrategyInstance \<Rightarrow> (('r, 'e) world, state) prog" where
  "entry_execute cfg P ops projection =
     (let source_state = prs_runtime_state (prsi_resolved_state (lep_source projection)) in
      bindp (lift_res (entry_decide cfg projection source_state)) (\<lambda>decision.
      case decision of
        NoOp \<Rightarrow> ret source_state
      | Replace cid desired_entry \<Rightarrow>
          bindp (lift_res (new_Cancel cid)) (\<lambda>cancel.
          bindp (execute_one cfg P ops projection source_state cancel None) (\<lambda>absent_state.
          bindp (ask (p_new_trade_cycle_id P)) (\<lambda>new_id.
          execute_one cfg P ops projection absent_state (Apply desired_entry) (Some new_id))))
      | Apply desired_entry \<Rightarrow>
          bindp (ask (p_new_trade_cycle_id P)) (\<lambda>new_id.
          execute_one cfg P ops projection source_state decision (Some new_id))
      | Cancel cid \<Rightarrow> execute_one cfg P ops projection source_state decision None))"

section \<open>Decoded entries\<close>

lemma decode_desired_entry_wf: "decode_desired_entry v = Inr d \<Longrightarrow> wf_desired_entry d"
  by (simp add: decode_desired_entry_def new_DesiredEntry_wf)

lemma bridge_outcome_applied:
  "bridge_outcome r = Inr (Applied a) \<Longrightarrow>
     wf_desired_entry (eac_applied_desired_entry a) \<and> is_exact_decimal_text (eac_calculated_quantity a)"
  by (auto simp: bridge_outcome_def res_bind_eq_Inr new_EntryAppliedConfirmation_def
      new_EntryAbsentConfirmation_def new_EntryDeclinedOutcome_def
      dest: decode_desired_entry_wf
      split: EntryPackageResult.splits EntryPackagePublicError.splits if_splits)

lemma encode_desired_entry_None: "encode_desired_entry d = Inr x \<Longrightarrow> x = None \<longleftrightarrow> d = None"
  by (auto simp: encode_desired_entry_def res_bind_eq_Inr split: option.splits)

lemma bridge_outcome_not_ready_only:
  "bridge_outcome r = Inl (EntryExecutionNotReady m) \<Longrightarrow> r = PackagePublicError (EntryPackageExecutionNotReady m)"
  by (auto simp: bridge_outcome_def res_bind_eq_Inl new_EntryAppliedConfirmation_def decode_desired_entry_def
      new_DesiredEntry_def normalize_decimal_text_def
      new_EntryAbsentConfirmation_def new_EntryDeclinedOutcome_def
      split: EntryPackageResult.splits EntryPackagePublicError.splits if_splits option.splits decimal.splits)


section \<open>Permitted effects\<close>

text \<open>The aggregate with the marker of a command.\<close>

definition marked_with :: "state \<Rightarrow> EntryReconciliationCommand \<Rightarrow> state" where
  "marked_with s cmd =
     s\<lparr>sirs_pending_entry_recovery := Some \<lparr>per_trade_cycle_id = erc_trade_cycle_id cmd\<rparr>\<rparr>"


context state_repository
begin

lemma triple_bridge:
  assumes "erc_strategy_instance_id cmd = i"
    and "erc_ticker cmd = rss_instrument (sirs_registered_spec_snapshot s)"
    and "sirs_risk_multiplier src = sirs_risk_multiplier s"
    and "entry_marked s (erc_trade_cycle_id cmd)"
    and "erc_desired_entry cmd \<noteq> None \<Longrightarrow> sirs_current_trade_cycle s = None"
  shows "triple (holding m0 i rest s) (bridge_execute P cmd src)
     (\<lambda>out w. (\<forall>a. out = Applied a \<longrightarrow> wf_desired_entry (eac_applied_desired_entry a)) \<and> holding m0 i rest s w)
     (\<lambda>e. holding m0 i rest s)"
  unfolding bridge_execute_def abi_send_def
proof (intro triple_bind_lift triple_call_try)
  fix desired_entry request
  assume d: "encode_desired_entry (erc_desired_entry cmd) = Inr desired_entry"
    and "new_EntryPackageRequest
           \<lparr>epr_strategy_instance_id = erc_strategy_instance_id cmd,
            epr_trade_cycle_id = erc_trade_cycle_id cmd, epr_ticker = erc_ticker cmd,
            epr_desired_entry = desired_entry, epr_risk_multiplier = sirs_risk_multiplier src\<rparr> = Inr request"
  then have r: "epr_strategy_instance_id request = i" "epr_trade_cycle_id request = erc_trade_cycle_id cmd"
    "epr_ticker request = erc_ticker cmd" "epr_desired_entry request = desired_entry"
    "epr_risk_multiplier request = sirs_risk_multiplier src"
    using assms(1) by (simp_all add: new_EntryPackageRequest_def checked_iff)
  show "about (EntryPackagePut request) = Some i" by (simp add: r)
  show "allowed s (EntryPackagePut request)"
    using assms encode_desired_entry_None [OF d] by (auto simp: r)
next
  fix result
  show "triple (holding m0 i rest s) (lift_res (bridge_outcome result))
     (\<lambda>out w. (\<forall>a. out = Applied a \<longrightarrow> wf_desired_entry (eac_applied_desired_entry a)) \<and> holding m0 i rest s w)
     (\<lambda>e. holding m0 i rest s)"
    by (rule triple_lift_res) (auto dest: bridge_outcome_applied)
qed (auto intro!: triple_raise split: exn.splits entry_package_error.splits)

text \<open>Clearing the marker that is stored.\<close>

lemma clear_marker_step:
  assumes "new_StrategyInstanceRuntimeState (s\<lparr>sirs_pending_entry_recovery := None\<rparr>) = Inr s'"
    and "sirs_pending_entry_recovery s = Some e"
  shows "lifecycle_step s s'"
  using assms by (auto simp: new_StrategyInstanceRuntimeState_iff intro: lifecycle_step.clear_marker)

lemma triple_end_declined:
  assumes "sirs_pending_entry_recovery ps = Some e"
  shows "triple (holding m0 i rest ps) (end_declined_apply cfg ops proj ps decision cmd declined)
     (\<lambda>x w. \<exists>qs. lifecycle_step qs x \<and> holding m0 i rest qs w) (\<lambda>e. elsewhere m0 i rest)"
proof (cases decision)
  case (Apply d)
  show ?thesis
    unfolding end_declined_apply_def Apply EntryReconciliationDecision.case
    by (intro triple_if triple_bind_lift triple_save_bind triple_journal_bind triple_raise_elsewhere triple_ret)
      (auto intro: clear_marker_step [OF _ assms] holding_elsewhere lifecycle_step.unchanged)
qed (auto simp: end_declined_apply_def intro!: triple_raise_elsewhere)

lemma triple_abort_not_ready:
  assumes "sirs_pending_entry_recovery ps = Some e" and "erc_strategy_instance_id cmd = i"
  shows "triple (holding m0 i rest ps) (abort_not_ready ops cmd ps err) Q (\<lambda>e. elsewhere m0 i rest)"
  unfolding abort_not_ready_def assms(2)
  by (intro triple_get_bind triple_if triple_bind_lift triple_save_bind triple_raise_elsewhere)
    (auto intro: clear_marker_step [OF _ assms(1)] holding_elsewhere)

lemma triple_journal_entry_applied:
  "triple (holding m0 i rest s) (journal_entry_applied cfg a bar) (\<lambda>u. holding m0 i rest s) E"
  unfolding journal_entry_applied_def by (intro triple_if triple_ret triple_journal) simp_all

text \<open>One command: its marker is stored before it is sent, and what comes back is related by \<open>R\<close> to
  what is stored then.\<close>

lemma triple_send_marked:
  fixes P :: "'e ports"
  assumes cmd: "erc_strategy_instance_id cmd = i" "sirs_strategy_instance_id s = i"
      "erc_ticker cmd = rss_instrument (sirs_registered_spec_snapshot s)"
      "erc_desired_entry cmd \<noteq> None \<Longrightarrow> sirs_current_trade_cycle s = None"
    and confirmed: "\<And>conf x. (\<And>a. conf = Applied a \<Longrightarrow> wf_desired_entry (eac_applied_desired_entry a)) \<Longrightarrow>
      apply_success_confirmation (marked_with s cmd) decision cmd conf = Inr x \<Longrightarrow> R (marked_with s cmd) x"
    and declined: "\<And>d. triple (holding m0 i rest (marked_with s cmd))
      (end_declined_apply cfg ops proj (marked_with s cmd) decision cmd d :: (('r, 'e) world, state) prog)
        (\<lambda>x w. \<exists>ps. R ps x \<and> holding m0 i rest ps w) (\<lambda>e. elsewhere m0 i rest)"
  shows "triple (holding m0 i rest (marked_with s cmd))
     (send_marked cfg P ops proj s decision cmd (marked_with s cmd))
     (\<lambda>x w. \<exists>ps. R ps x \<and> holding m0 i rest ps w) (\<lambda>e. elsewhere m0 i rest)"
  unfolding send_marked_def
proof (rule triple_try_seq [OF triple_bridge])
  let ?ps = "marked_with s cmd" and ?E = "\<lambda>e. elsewhere m0 i rest"
    and ?P = "holding m0 i rest (marked_with s cmd) :: ('r, 'e) world \<Rightarrow> bool"
    and ?Q = "\<lambda>x w. \<exists>ps. R ps x \<and> holding m0 i rest ps w"
  have mark: "sirs_pending_entry_recovery ?ps = Some \<lparr>per_trade_cycle_id = erc_trade_cycle_id cmd\<rparr>"
    by (simp add: marked_with_def)
  show "triple ?P
      (case error of EntryExecutionNotReady m \<Rightarrow> abort_not_ready ops cmd ?ps error | _ \<Rightarrow> raise error) ?Q ?E" for error
    using triple_abort_not_ready [OF mark cmd(1)] by (cases error) (auto intro: triple_raise_elsewhere)
  fix conf assume wf: "\<forall>a. conf = Applied a \<longrightarrow> wf_desired_entry (eac_applied_desired_entry a)"
  have final: "triple ?P (lift_res (apply_success_confirmation ?ps decision cmd conf)) ?Q ?E"
    by (rule triple_lift_res) (use confirmed wf holding_elsewhere in blast)+
  show "triple ?P
     (case conf of
         Declined declined \<Rightarrow> end_declined_apply cfg ops proj ?ps decision cmd declined
       | Applied applied \<Rightarrow>
           bindp (journal_entry_applied cfg applied (bar_of (lep_source proj))) (\<lambda>_.
           lift_res (apply_success_confirmation ?ps decision cmd conf))
       | Absent absent \<Rightarrow> lift_res (apply_success_confirmation ?ps decision cmd conf)) ?Q ?E"
    using final declined triple_bind [OF triple_journal_entry_applied final]
    by (cases conf) simp_all
qed (use cmd in \<open>auto simp: entry_marked_def marked_with_def\<close>)

lemma triple_execute_one:
  assumes built: "\<And>cmd. build_entry_reconciliation_command s decision nid = Inr (Some cmd) \<Longrightarrow>
      lifecycle_step s0 (marked_with s cmd) \<and>
      (sirs_strategy_instance_id s = i \<longrightarrow>
       triple (holding m0 i rest (marked_with s cmd)) (send_marked cfg P ops proj s decision cmd (marked_with s cmd))
         Q (\<lambda>e. elsewhere m0 i rest))"
  shows "triple (holding m0 i rest s0) (execute_one cfg P ops proj s decision nid)
     Q (\<lambda>e. elsewhere m0 i rest)"
  unfolding execute_one_def
proof (intro triple_bind_lift triple_case_option)
  fix built_cmd cmd
  assume "build_entry_reconciliation_command s decision nid = Inr built_cmd" "built_cmd = Some cmd"
  then have step: "lifecycle_step s0 (marked_with s cmd)" and send: "sirs_strategy_instance_id s = i \<Longrightarrow>
      triple (holding m0 i rest (marked_with s cmd)) (send_marked cfg P ops proj s decision cmd (marked_with s cmd))
         Q (\<lambda>e. elsewhere m0 i rest)"
    using built by auto
  show "triple (holding m0 i rest s0)
     (if sirs_pending_entry_recovery s \<noteq> None
      then raise (EntryReconciliationInvariantError ''cannot overwrite an existing recovery marker'')
      else bindp (lift_res (new_PendingEntryRecovery \<lparr>per_trade_cycle_id = erc_trade_cycle_id cmd\<rparr>)) (\<lambda>marker.
           bindp (lift_res (new_StrategyInstanceRuntimeState
                    (s\<lparr>sirs_pending_entry_recovery := Some marker\<rparr>))) (\<lambda>marked.
           bindp (repo_save ops marked) (\<lambda>pending_state.
           send_marked cfg P ops proj s decision cmd pending_state)))) Q (\<lambda>e. elsewhere m0 i rest)"
  proof (rule triple_holding, intro triple_if triple_bind_lift)
    fix marker marked
    assume id0: "sirs_strategy_instance_id s0 = i"
      and "new_PendingEntryRecovery \<lparr>per_trade_cycle_id = erc_trade_cycle_id cmd\<rparr> = Inr marker"
      and "new_StrategyInstanceRuntimeState (s\<lparr>sirs_pending_entry_recovery := Some marker\<rparr>) = Inr marked"
    then have m: "marked = marked_with s cmd" by (auto simp: new_record_iff marked_with_def)
    have "sirs_strategy_instance_id s = i"
      using lifecycle_step_identity(1) [OF step] id0 by (simp add: marked_with_def)
    then show "triple (holding m0 i rest s0) (bindp (repo_save ops marked) (\<lambda>pending_state.
        send_marked cfg P ops proj s decision cmd pending_state)) Q (\<lambda>e. elsewhere m0 i rest)"
      unfolding m by (intro triple_save_bind step send holding_elsewhere)
  qed (auto intro: holding_elsewhere triple_raise_elsewhere)
qed (auto intro: holding_elsewhere triple_raise_elsewhere)

lemma triple_execute_apply:
  assumes step: "\<And>cid. cid \<noteq> [] \<Longrightarrow>
      lifecycle_step s0 (s\<lparr>sirs_pending_entry_recovery := Some \<lparr>per_trade_cycle_id = cid\<rparr>\<rparr>)"
  shows "triple (holding m0 i rest s0) (execute_one cfg P ops proj s (Apply d) nid)
     (\<lambda>x w. \<exists>ps. lifecycle_step ps x \<and> holding m0 i rest ps w) (\<lambda>e. elsewhere m0 i rest)"
proof (rule triple_execute_one)
  fix cmd assume "build_entry_reconciliation_command s (Apply d) nid = Inr (Some cmd)"
  then have cmd: "erc_strategy_instance_id cmd = sirs_strategy_instance_id s" "erc_trade_cycle_id cmd \<noteq> []"
      "erc_ticker cmd = rss_instrument (sirs_registered_spec_snapshot s)" "sirs_current_trade_cycle s = None"
    by (auto simp: build_entry_reconciliation_command_def res_bind_eq_Inr build_command_iff
        split: option.splits if_splits)
  let ?ps = "marked_with s cmd"
  have "lifecycle_step s0 ?ps" using step [OF cmd(2)] by (simp add: marked_with_def)
  moreover have "lifecycle_step ?ps x"
    if wf: "\<And>a. conf = Applied a \<Longrightarrow> wf_desired_entry (eac_applied_desired_entry a)"
      and ok: "apply_success_confirmation ?ps (Apply d) cmd conf = Inr x" for conf x
    using ok
  proof (rule apply_success_confirmation_ApplyD)
    fix a
    assume a: "conf = Applied a" "sirs_current_trade_cycle ?ps = None" "eac_applied_desired_entry a = d"
        "is_exact_decimal_text (eac_calculated_quantity a)"
        "x = ?ps\<lparr>sirs_current_trade_cycle := Some (fresh_cycle (erc_trade_cycle_id cmd) d (eac_calculated_quantity a)),
                 sirs_pending_entry_recovery := None\<rparr>"
    with wf have "wf_desired_entry d" by blast
    from lifecycle_step.applied [OF a(2) _ this a(4)] a(5) show ?thesis by (simp add: marked_with_def)
  qed
  ultimately show "lifecycle_step s0 ?ps \<and> (sirs_strategy_instance_id s = i \<longrightarrow>
      triple (holding m0 i rest ?ps) (send_marked cfg P ops proj s (Apply d) cmd ?ps)
        (\<lambda>x w. \<exists>ps. lifecycle_step ps x \<and> holding m0 i rest ps w) (\<lambda>e. elsewhere m0 i rest))"
    using cmd by (intro conjI impI triple_send_marked triple_end_declined) (auto simp: marked_with_def)
qed

lemma triple_execute_cancel:
  assumes "sirs_current_trade_cycle s = Some c" and "ctc_frozen_entry_context c = None"
    and "no_recovery s"
  shows "triple (holding m0 i rest s) (execute_one cfg P ops proj s (Cancel cid) None)
     (\<lambda>x w. x = s\<lparr>sirs_current_trade_cycle := None\<rparr> \<and>
            holding m0 i rest (s\<lparr>sirs_pending_entry_recovery := Some \<lparr>per_trade_cycle_id = cid\<rparr>\<rparr>) w)
     (\<lambda>e. elsewhere m0 i rest)"
proof (rule triple_post [OF triple_execute_one])
  let ?R = "\<lambda>ps x. x = s\<lparr>sirs_current_trade_cycle := None\<rparr> \<and>
      ps = s\<lparr>sirs_pending_entry_recovery := Some \<lparr>per_trade_cycle_id = cid\<rparr>\<rparr>"
  fix cmd assume "build_entry_reconciliation_command s (Cancel cid) None = Inr (Some cmd)"
  then have cmd: "erc_strategy_instance_id cmd = sirs_strategy_instance_id s" "erc_trade_cycle_id cmd = cid"
      "erc_ticker cmd = rss_instrument (sirs_registered_spec_snapshot s)" "erc_desired_entry cmd = None"
      "ctc_trade_cycle_id c = cid"
    using assms(1) by (auto simp: build_entry_reconciliation_command_def res_bind_eq_Inr build_command_iff)
  let ?ps = "marked_with s cmd"
  have ps: "?ps = s\<lparr>sirs_pending_entry_recovery := Some \<lparr>per_trade_cycle_id = cid\<rparr>\<rparr>"
    by (simp add: marked_with_def cmd)
  have "lifecycle_step s ?ps"
    unfolding ps using lifecycle_step.mark_removal [OF assms(1,2)] assms(3) cmd(5) by (simp add: no_recovery_def)
  moreover have "?R ?ps x"
    if ok: "apply_success_confirmation ?ps (Cancel cid) cmd conf = Inr x" for conf x
    using ok assms(3)
    by (elim apply_success_confirmation_CancelD) (cases s, simp add: marked_with_def cmd no_recovery_def)
  ultimately show "lifecycle_step s ?ps \<and> (sirs_strategy_instance_id s = i \<longrightarrow>
      triple (holding m0 i rest ?ps) (send_marked cfg P ops proj s (Cancel cid) cmd ?ps)
        (\<lambda>x w. \<exists>ps. ?R ps x \<and> holding m0 i rest ps w) (\<lambda>e. elsewhere m0 i rest))"
    using cmd by (intro conjI impI triple_send_marked)
      (auto simp: end_declined_apply_def intro: triple_raise_elsewhere)
qed auto

text \<open>The orchestrator as a whole.\<close>

lemma triple_entry_execute:
  assumes src: "prs_runtime_state (prsi_resolved_state (lep_source proj)) = s" and "no_recovery s"
  shows "triple (holding m0 i rest s) (entry_execute cfg P ops proj)
     (\<lambda>x w. \<exists>ps. lifecycle_step ps x \<and> holding m0 i rest ps w) (\<lambda>e. elsewhere m0 i rest)"
  unfolding entry_execute_def src Let_def
proof (rule triple_bind_lift)
  fix decision assume dec: "entry_decide cfg proj s = Inr decision"
  have nf: "\<not> entry_is_frozen (sirs_current_trade_cycle s)"
    using dec by (auto simp: entry_decide_def decide_entry_reconciliation_def res_bind_eq_Inr
        touch_trigger_entry_reconciliation_def split: if_splits option.splits)
  have fresh: "sirs_current_trade_cycle s = None" if "decision = Apply d" for d
    using dec that by (auto simp: entry_decide_def decide_entry_reconciliation_def res_bind_eq_Inr
        touch_trigger_entry_reconciliation_def get_acknowledged_desired_entry_def new_Cancel_def new_Replace_def
        split: if_splits option.splits)
  have held: "\<exists>c. sirs_current_trade_cycle s = Some c \<and> ctc_frozen_entry_context c = None"
    if "decision = Cancel cid \<or> decision = Replace cid d" for cid d
    using dec that nf by (auto simp: entry_decide_def decide_entry_reconciliation_def res_bind_eq_Inr
        touch_trigger_entry_reconciliation_def get_acknowledged_desired_entry_def new_Cancel_def new_Replace_def
        entry_is_frozen_def split: if_splits option.splits)
  show "triple (holding m0 i rest s)
     (case decision of
        NoOp \<Rightarrow> ret s
      | Replace cid desired_entry \<Rightarrow>
          bindp (lift_res (new_Cancel cid)) (\<lambda>cancel.
          bindp (execute_one cfg P ops proj s cancel None) (\<lambda>absent_state.
          bindp (ask (p_new_trade_cycle_id P)) (\<lambda>new_id.
          execute_one cfg P ops proj absent_state (Apply desired_entry) (Some new_id))))
      | Apply desired_entry \<Rightarrow>
          bindp (ask (p_new_trade_cycle_id P)) (\<lambda>new_id.
          execute_one cfg P ops proj s decision (Some new_id))
      | Cancel cid \<Rightarrow> execute_one cfg P ops proj s decision None)
     (\<lambda>x w. \<exists>ps. lifecycle_step ps x \<and> holding m0 i rest ps w) (\<lambda>e. elsewhere m0 i rest)"
  proof (cases decision)
    case NoOp
    then show ?thesis by (auto intro!: triple_ret lifecycle_step.unchanged)
  next
    case (Apply d)
    then show ?thesis
      using fresh assms(2)
      by (auto intro!: triple_ask_bind triple_execute_apply lifecycle_step.mark_apply simp: no_recovery_def)
  next
    case (Cancel cid)
    then obtain c where c: "sirs_current_trade_cycle s = Some c" "ctc_frozen_entry_context c = None"
      using held by blast
    let ?ps = "s\<lparr>sirs_pending_entry_recovery := Some \<lparr>per_trade_cycle_id = cid\<rparr>\<rparr>"
    have "lifecycle_step ?ps (s\<lparr>sirs_current_trade_cycle := None\<rparr>)"
      using lifecycle_step.removed [of ?ps c] c(1) assms(2) by (cases s) (simp add: no_recovery_def)
    then show ?thesis
      unfolding Cancel EntryReconciliationDecision.case
      by (intro triple_post [OF triple_execute_cancel [OF c assms(2)]]) auto
  next
    case (Replace cid d)
    then obtain c where c: "sirs_current_trade_cycle s = Some c" "ctc_frozen_entry_context c = None"
      using held by blast
    let ?ps = "s\<lparr>sirs_pending_entry_recovery := Some \<lparr>per_trade_cycle_id = cid\<rparr>\<rparr>"
    have step: "lifecycle_step ?ps (s\<lparr>sirs_current_trade_cycle := None,
        sirs_pending_entry_recovery := Some \<lparr>per_trade_cycle_id = cid'\<rparr>\<rparr>)" if "cid' \<noteq> []" for cid'
      using lifecycle_step.replaced [of ?ps c _ cid'] c that by simp
    show ?thesis
      unfolding Replace EntryReconciliationDecision.case
      using step
      by (intro triple_bind_lift triple_seq [OF triple_execute_cancel [OF c assms(2)]] triple_ask_bind)
        (auto simp: new_Cancel_def intro!: triple_seq [OF triple_execute_cancel [OF c assms(2)]] triple_ask_bind
          triple_execute_apply holding_elsewhere split: if_splits)
  qed
qed (rule holding_elsewhere)

end

end
