(* ===== verification/Runtime_Orchestrator.thy ===== *)
theory Runtime_Orchestrator
  imports Entry_Orchestrator
begin

text \<open>
  The processing of one committed bar for one strategy instance:
  \<open>runtime/orchestrator/orchestrator.py\<close> with the collaborators it calls, the open-position resolver
  (\<open>runtime/open_position/resolver.py\<close>), the use-case router (\<open>runtime/routing/router.py\<close>), the
  position-management orchestrator (\<open>runtime/position_management_orchestrator/orchestrator.py\<close>), the
  expired-remainder step (\<open>runtime/entry_remainder_cancel/step.py\<close>) and the journal helpers.

  Proved: whatever the exchange, the engine and the disk answer, \<open>process\<close> makes only permitted
  effects, and touches no other instance.
\<close>

section \<open>Journal helpers\<close>

definition journal_trade_cycle_closed ::
    "config \<Rightarrow> TradeCycleClosure \<Rightarrow> int option \<Rightarrow> (('r, 'e) world, unit) prog" where
  "journal_trade_cycle_closed cfg closure bar_open_time_ms =
     journal cfg trade_cycle_closed_journal (JTradeCycleClosed closure bar_open_time_ms)"

definition journal_trade_cycle_opened ::
    "config \<Rightarrow> string \<Rightarrow> string \<Rightarrow> int option \<Rightarrow> int \<Rightarrow> string \<Rightarrow> string \<Rightarrow> string option
       \<Rightarrow> (('r, 'e) world, unit) prog" where
  "journal_trade_cycle_opened cfg i cid bar_open_time_ms first_fill_at_ms average_entry_price
       entry_order_link_id entry_order_id =
     journal cfg trade_cycle_opened_journal
       (JTradeCycleOpened i cid bar_open_time_ms first_fill_at_ms average_entry_price
          entry_order_link_id entry_order_id)"

definition journal_entry_cycle_ended ::
    "config \<Rightarrow> string \<Rightarrow> string \<Rightarrow> int option \<Rightarrow> string \<Rightarrow> (('r, 'e) world, unit) prog" where
  "journal_entry_cycle_ended cfg i cid bar_open_time_ms reason =
     (if \<not> cfg_journal cfg entry_cycle_ended_journal then ret ()
      else if reason \<notin> ENTRY_CYCLE_END_REASONS
      then raise (ValueError ''unsupported entry cycle end reason'')
      else journal cfg entry_cycle_ended_journal (JEntryCycleEnded i cid bar_open_time_ms reason))"

section \<open>Open-position resolution\<close>

definition abi_lookup :: "'e ports \<Rightarrow> OpenPositionLookupRequest \<Rightarrow> (('r, 'e) world, OpenPositionLookupResponse) prog" where
  "abi_lookup P request =
     call (PositionLookup request)
       (\<lambda>e. typed new_OpenPositionLookupResponse (OpenPositionResolutionError OpenPositionLookupProtocolError)
              (p_lookup P request e))"

definition resolve :: "'e ports \<Rightarrow> state \<Rightarrow> (('r, 'e) world, PositionResolvedState) prog" where
  "resolve P s =
     (case sirs_current_trade_cycle s of
        None \<Rightarrow> ret \<lparr>prs_runtime_state = s, prs_position_open = False, prs_first_fill_at_ms = None,
                     prs_average_entry_price = None, prs_closure = None,
                     prs_entry_order_link_id = None, prs_entry_order_id = None\<rparr>
      | Some current_trade_cycle \<Rightarrow>
          bindp (lift_res (new_OpenPositionLookupRequest
                   \<lparr>oplr_strategy_instance_id = sirs_strategy_instance_id s,
                    oplr_trade_cycle_id = ctc_trade_cycle_id current_trade_cycle\<rparr>)) (\<lambda>request.
          bindp (abi_lookup P request) (\<lambda>response.
          ret \<lparr>prs_runtime_state = s, prs_position_open = opl_position_open response,
               prs_first_fill_at_ms = opl_first_fill_at_ms response,
               prs_average_entry_price = opl_average_entry_price response,
               prs_closure = opl_closure response,
               prs_entry_order_link_id = opl_entry_order_link_id response,
               prs_entry_order_id = opl_entry_order_id response\<rparr>)))"

section \<open>Use-case routing\<close>

datatype StrategyUseCaseProjectedInstance =
    LiveEntryProjection LiveEntryProjectedStrategyInstance
  | OpenTradeProjection OpenTradeProjectedStrategyInstance

definition new_desired_entry_answer :: "DesiredEntry option \<Rightarrow> DesiredEntry option res" where
  "new_desired_entry_answer v =
     (case v of None \<Rightarrow> Inr None | Some d \<Rightarrow> res_bind (new_DesiredEntry d) (\<lambda>d. Inr (Some d)))"

definition new_open_trade_answer :: "OpenTradeProjectionResponse \<Rightarrow> OpenTradeProjectionResponse res" where
  "new_open_trade_answer r =
     res_bind (new_DesiredProtection (ops_desired_protection r)) (\<lambda>p. Inr (r\<lparr>ops_desired_protection := p\<rparr>))"

definition project_live_entry :: "'e ports \<Rightarrow> LiveEntryProjectionRequest \<Rightarrow> (('r, 'e) world, DesiredEntry option) prog" where
  "project_live_entry P request =
     call (LiveEntryProjected request)
       (\<lambda>e. typed new_desired_entry_answer (StrategyProjectionError StrategyEngineProjectionProtocolError)
              (p_project_live_entry P request e))"

definition project_open_trade ::
    "'e ports \<Rightarrow> OpenTradeProjectionRequest \<Rightarrow> (('r, 'e) world, OpenTradeProjectionResponse) prog" where
  "project_open_trade P request =
     call (OpenTradeProjected request)
       (\<lambda>e. typed new_open_trade_answer (StrategyProjectionError StrategyEngineProjectionProtocolError)
              (p_project_open_trade P request e))"

definition validate_instance_binding :: "PositionResolvedStrategyInstance \<Rightarrow> unit res" where
  "validate_instance_binding item =
     (let unit_id = unit_strategy_instance_id (prsi_processing_unit item);
          deployment_id = ds_strategy_instance_id (unit_deployment (prsi_processing_unit item));
          state_id = sirs_strategy_instance_id (prs_runtime_state (prsi_resolved_state item))
      in if unit_id \<noteq> deployment_id
         then Inl (StrategyProjectionError (StrategyInstanceBindingError
                ''processing unit and deployment strategy_instance_id mismatch''))
         else if unit_id \<noteq> state_id
         then Inl (StrategyProjectionError (StrategyInstanceBindingError
                ''processing unit and runtime state strategy_instance_id mismatch''))
         else Inr ())"

definition route_open_trade ::
    "'e ports \<Rightarrow> PositionResolvedStrategyInstance \<Rightarrow> (('r, 'e) world, StrategyUseCaseProjectedInstance) prog" where
  "route_open_trade P item =
     (let unit = prsi_processing_unit item;
          runtime_state = prs_runtime_state (prsi_resolved_state item);
          frozen_context = (case sirs_current_trade_cycle runtime_state of None \<Rightarrow> None
                            | Some cycle \<Rightarrow> ctc_frozen_entry_context cycle);
          snapshot = sirs_registered_spec_snapshot runtime_state
      in case frozen_context of
           None \<Rightarrow> raise (StrategyProjectionError (OpenTradeContextUnavailable (unit_strategy_instance_id unit)))
         | Some frozen \<Rightarrow>
             bindp (project_open_trade P
                      \<lparr>opr_strategy_id = sirs_strategy_id runtime_state, opr_raw_spec = rss_raw_spec snapshot,
                       opr_ticker = rss_instrument snapshot, opr_base_timeframe = rss_base_timeframe snapshot,
                       opr_target_bar_open_time_ms = cbe_open_time_ms (unit_committed_bar unit),
                       opr_desired_entry = fec_desired_entry frozen,
                       opr_entry_bar_open_time_ms = fec_entry_bar_open_time_ms frozen\<rparr>) (\<lambda>open_response.
             bindp (lift_res (new_PositionManagementRecipe
                      \<lparr>pmr_desired_protection = ops_desired_protection open_response,
                       pmr_close_signal = ops_close_signal open_response,
                       pmr_diagnostics = ops_diagnostics open_response,
                       pmr_engine_desired_protection_text =
                         ops_engine_desired_protection_text open_response\<rparr>)) (\<lambda>recipe.
             ret (OpenTradeProjection \<lparr>otp_source = item, otp_position_management_recipe = recipe\<rparr>))))"

definition route ::
    "'e ports \<Rightarrow> PositionResolvedStrategyInstance \<Rightarrow> (('r, 'e) world, StrategyUseCaseProjectedInstance) prog" where
  "route P item =
     (let unit = prsi_processing_unit item; deployment = unit_deployment unit in
      bindp (lift_res (validate_instance_binding item)) (\<lambda>_.
      if prs_position_open (prsi_resolved_state item) then route_open_trade P item
      else
        bindp (project_live_entry P
                 \<lparr>lpr_strategy_id = ds_strategy_id deployment, lpr_raw_spec = ds_raw_spec deployment,
                  lpr_ticker = ds_instrument deployment, lpr_base_timeframe = ds_base_timeframe deployment,
                  lpr_target_bar_open_time_ms = cbe_open_time_ms (unit_committed_bar unit)\<rparr>) (\<lambda>desired_entry.
        ret (LiveEntryProjection \<lparr>lep_source = item, lep_desired_entry = desired_entry\<rparr>))))"

section \<open>Position management\<close>

definition new_protection_answer :: "ProtectionAppliedConfirmation \<Rightarrow> ProtectionAppliedConfirmation res" where
  "new_protection_answer c =
     res_bind (new_DesiredProtection (pac_confirmed_protection c)) (\<lambda>p.
     res_bind (new_ProtectionOrder (pos_stop (pac_protection_orders c))) (\<lambda>_.
     res_bind (new_ProtectionOrder (pos_take (pac_protection_orders c))) (\<lambda>_.
     res_bind (new_ProtectionOrders (pac_protection_orders c)) (\<lambda>_.
     new_ProtectionAppliedConfirmation (c\<lparr>pac_confirmed_protection := p\<rparr>)))))"

definition new_closed_answer :: "PositionClosedConfirmation \<Rightarrow> PositionClosedConfirmation res" where
  "new_closed_answer c =
     res_bind (case pcc_closure c of None \<Rightarrow> Inr () | Some x \<Rightarrow> res_bind (new_TradeCycleClosure x) (\<lambda>_. Inr ())) (\<lambda>_.
     new_PositionClosedConfirmation c)"

definition abi_apply_protection ::
    "'e ports \<Rightarrow> ApplyProtectionCommand \<Rightarrow> (('r, 'e) world, ProtectionAppliedConfirmation) prog" where
  "abi_apply_protection P command =
     call (ProtectionPut command)
       (\<lambda>e. typed new_protection_answer
              (PositionManagementExecutionError PositionManagementExecutionProtocolError)
              (p_apply_protection P command e))"

definition abi_close_position ::
    "'e ports \<Rightarrow> ClosePositionCommand \<Rightarrow> (('r, 'e) world, PositionClosedConfirmation) prog" where
  "abi_close_position P command =
     call (ClosePut command)
       (\<lambda>e. typed new_closed_answer
              (PositionManagementExecutionError PositionManagementExecutionProtocolError)
              (p_close_position P command e))"

definition journal_protection_applied ::
    "config \<Rightarrow> ApplyProtectionCommand \<Rightarrow> ProtectionAppliedConfirmation \<Rightarrow> int \<Rightarrow> (('r, 'e) world, unit) prog" where
  "journal_protection_applied cfg command confirmation bar_open_time_ms =
     journal cfg protection_applied_journal (JProtectionApplied command confirmation bar_open_time_ms)"

definition pm_execute_with_closure ::
    "config \<Rightarrow> 'e ports \<Rightarrow> 'r repo_ops \<Rightarrow> OpenTradeProjectedStrategyInstance
       \<Rightarrow> (('r, 'e) world, state \<times> TradeCycleClosure option) prog" where
  "pm_execute_with_closure cfg P ops projection =
     (let source_state = prs_runtime_state (prsi_resolved_state (otp_source projection)) in
      bindp (lift_res (decide_position_management (otp_position_management_recipe projection)
                         (sirs_current_trade_cycle source_state))) (\<lambda>decision.
      if decision = PMNoOp then ret (source_state, None)
      else bindp (lift_res (build_position_management_command source_state decision)) (\<lambda>command.
      case decision of
        ApplyProtection cid protection \<Rightarrow>
          (case command of
             Some (ProtectionCommand apply) \<Rightarrow>
               bindp (abi_apply_protection P apply) (\<lambda>confirmation.
               bindp (journal_protection_applied cfg apply confirmation (bar_of (otp_source projection))) (\<lambda>_.
               bindp (lift_res (apply_position_management_confirmation source_state decision
                        (ProtectionCommand apply) (ProtectionConfirmed confirmation))) (\<lambda>x. ret (x, None))))
           | _ \<Rightarrow> raise (PositionManagementExecutionInvariantError
                     ''APPLY_PROTECTION must produce an ApplyProtectionCommand''))
      | ClosePosition cid signal \<Rightarrow>
          (case command of
             Some (CloseCommand close) \<Rightarrow>
               bindp (lift_res (new_PendingCloseRecovery \<lparr>pcr_trade_cycle_id = cpc_trade_cycle_id close\<rparr>)) (\<lambda>marker.
               bindp (lift_res (new_StrategyInstanceRuntimeState
                        (source_state\<lparr>sirs_pending_close_recovery := Some marker\<rparr>))) (\<lambda>marked.
               bindp (repo_save ops marked) (\<lambda>pending_state.
               bindp (abi_close_position P close) (\<lambda>confirmation.
               bindp (lift_res (apply_position_management_confirmation pending_state decision
                        (CloseCommand close) (CloseConfirmed confirmation))) (\<lambda>x.
               ret (x, pcc_closure confirmation))))))
           | _ \<Rightarrow> raise (PositionManagementExecutionInvariantError
                     ''CLOSE_POSITION must produce a ClosePositionCommand''))
      | PMNoOp \<Rightarrow> raise (PositionManagementExecutionInvariantError
                     ''unknown command-bearing position-management decision''))))"

definition pm_execute ::
    "config \<Rightarrow> 'e ports \<Rightarrow> 'r repo_ops \<Rightarrow> OpenTradeProjectedStrategyInstance \<Rightarrow> (('r, 'e) world, state) prog" where
  "pm_execute cfg P ops projection =
     bindp (pm_execute_with_closure cfg P ops projection) (\<lambda>r. ret (fst r))"

section \<open>The remainder of an expired entry order\<close>

definition abi_cancel_entry_remainder ::
    "'e ports \<Rightarrow> string \<Rightarrow> string \<Rightarrow> (('r, 'e) world, EntryRemainderCancelConfirmation) prog" where
  "abi_cancel_entry_remainder P i cid =
     call (RemainderCancelPut i cid)
       (\<lambda>e. typed new_EntryRemainderCancelConfirmation
              (PositionManagementExecutionError PositionManagementExecutionProtocolError)
              (p_cancel_entry_remainder P i cid e))"

definition cancel_remainder_and_mark ::
    "'e ports \<Rightarrow> 'r repo_ops \<Rightarrow> state \<Rightarrow> CurrentTradeCycle
       \<Rightarrow> (('r, 'e) world, EntryRemainderCancelConfirmation \<times> state) prog" where
  "cancel_remainder_and_mark P ops s cycle =
     bindp (abi_cancel_entry_remainder P (sirs_strategy_instance_id s) (ctc_trade_cycle_id cycle)) (\<lambda>confirmation.
     bindp (lift_res (new_CurrentTradeCycle (cycle\<lparr>ctc_entry_remainder_cancelled := True\<rparr>))) (\<lambda>marked_cycle.
     bindp (lift_res (new_StrategyInstanceRuntimeState
              (s\<lparr>sirs_current_trade_cycle := Some marked_cycle\<rparr>))) (\<lambda>marked.
     bindp (repo_save ops marked) (\<lambda>saved_state.
     ret (confirmation, saved_state)))))"

definition cancel_expired_entry_remainder ::
    "config \<Rightarrow> 'e ports \<Rightarrow> 'r repo_ops \<Rightarrow> state \<Rightarrow> int \<Rightarrow> (('r, 'e) world, state) prog" where
  "cancel_expired_entry_remainder cfg P ops s bar_open_time_ms =
     (case sirs_current_trade_cycle s of
        None \<Rightarrow> ret s
      | Some cycle \<Rightarrow>
          if ctc_entry_remainder_cancelled cycle then ret s
          else case ctc_frozen_entry_context cycle of
            None \<Rightarrow> ret s
          | Some frozen_context \<Rightarrow>
              (case fec_entry_order_expires_at_bar frozen_context of
                 None \<Rightarrow> ret s
               | Some expires \<Rightarrow>
                   bindp (lift_res (timeframe_duration_ms
                            (rss_base_timeframe (sirs_registered_spec_snapshot s)))) (\<lambda>timeframe_ms.
                   if \<not> is_entry_order_expired bar_open_time_ms timeframe_ms expires then ret s
                   else
                     tryp (cancel_remainder_and_mark P ops s cycle)
                       (\<lambda>exc. bindp (journal cfg entry_remainder_cancel_journal
                                  (JEntryRemainderCancelFailed (sirs_strategy_instance_id s)
                                     (ctc_trade_cycle_id cycle) bar_open_time_ms exc)) (\<lambda>_. ret s))
                       (\<lambda>(confirmation, saved_state).
                          bindp (journal cfg entry_remainder_cancel_journal
                                  (JEntryRemainderCancelled (sirs_strategy_instance_id s)
                                     (ctc_trade_cycle_id cycle) bar_open_time_ms
                                     (ercc_status confirmation) (ercc_executed_quantity confirmation))) (\<lambda>_.
                          ret saved_state)))))"

section \<open>One bar of one instance\<close>

definition ensure_first_fill_frozen ::
    "config \<Rightarrow> 'r repo_ops \<Rightarrow> PositionResolvedState \<Rightarrow> int \<Rightarrow> (('r, 'e) world, PositionResolvedState) prog" where
  "ensure_first_fill_frozen cfg ops resolved bar_open_time_ms =
     (let s = prs_runtime_state resolved in
      case sirs_current_trade_cycle s of
        None \<Rightarrow> raise (FirstFillInvariantError ''apply_first_fill requires an existing current trade cycle'')
      | Some current_cycle \<Rightarrow>
          (case prs_first_fill_at_ms resolved of
             None \<Rightarrow> raise AssertionError
           | Some first_fill_at_ms \<Rightarrow>
               bindp (lift_res (freeze (cfg_first_fill_freezer cfg) s (ctc_trade_cycle_id current_cycle)
                                  first_fill_at_ms)) (\<lambda>resulting_state.
               if resulting_state = s then ret resolved
               else
                 bindp (repo_save ops resulting_state) (\<lambda>saved_state.
                 case (prs_average_entry_price resolved, prs_entry_order_link_id resolved) of
                   (Some price, Some link) \<Rightarrow>
                     bindp (journal_trade_cycle_opened cfg (sirs_strategy_instance_id s)
                              (ctc_trade_cycle_id current_cycle) (Some bar_open_time_ms) first_fill_at_ms
                              price link (prs_entry_order_id resolved)) (\<lambda>_.
                     ret (resolved\<lparr>prs_runtime_state := saved_state\<rparr>))
                 | _ \<Rightarrow> raise AssertionError))))"

definition journal_live_entry ::
    "config \<Rightarrow> StrategyBarProcessingUnit \<Rightarrow> LiveEntryProjectedStrategyInstance \<Rightarrow> (('r, 'e) world, unit) prog" where
  "journal_live_entry cfg unit projection =
     journal cfg live_entry_journal
       (JLiveEntryEvaluated (unit_strategy_instance_id unit) (ds_instrument (unit_deployment unit))
          (ds_base_timeframe (unit_deployment unit)) (cbe_open_time_ms (unit_committed_bar unit))
          (lep_desired_entry projection))"

definition journal_open_trade ::
    "config \<Rightarrow> StrategyBarProcessingUnit \<Rightarrow> OpenTradeProjectedStrategyInstance \<Rightarrow> (('r, 'e) world, unit) prog" where
  "journal_open_trade cfg unit projection =
     (if \<not> cfg_journal cfg open_trade_journal then ret ()
      else case sirs_current_trade_cycle (prs_runtime_state (prsi_resolved_state (otp_source projection))) of
        None \<Rightarrow> raise AssertionError
      | Some current_cycle \<Rightarrow>
          (case ctc_frozen_entry_context current_cycle of
             None \<Rightarrow> raise AssertionError
           | Some frozen_context \<Rightarrow>
               journal cfg open_trade_journal
                 (JOpenTradeEvaluated (unit_strategy_instance_id unit) (ds_instrument (unit_deployment unit))
                    (ds_base_timeframe (unit_deployment unit)) (cbe_open_time_ms (unit_committed_bar unit))
                    (ctc_trade_cycle_id current_cycle) (de_side (fec_desired_entry frozen_context))
                    (pmr_engine_desired_protection_text (otp_position_management_recipe projection))
                    (pmr_close_signal (otp_position_management_recipe projection)))))"

definition journal_cycle_ended_on_bar ::
    "config \<Rightarrow> state \<Rightarrow> state \<Rightarrow> StrategyBarProcessingUnit \<Rightarrow> (('r, 'e) world, unit) prog" where
  "journal_cycle_ended_on_bar cfg source_state saved_state unit =
     (case sirs_current_trade_cycle source_state of
        None \<Rightarrow> ret ()
      | Some source_cycle \<Rightarrow>
          if ctc_frozen_entry_context source_cycle \<noteq> None then ret ()
          else if has_cycle saved_state (ctc_trade_cycle_id source_cycle) then ret ()
          else journal_entry_cycle_ended cfg (unit_strategy_instance_id unit)
                 (ctc_trade_cycle_id source_cycle) (Some (cbe_open_time_ms (unit_committed_bar unit)))
                 ''cancelled'')"

text \<open>The second half of \<open>process\<close>: route the bar, run the use case, save what it returns.\<close>

definition run_use_case ::
    "config \<Rightarrow> 'e ports \<Rightarrow> 'r repo_ops \<Rightarrow> StrategyBarProcessingUnit \<Rightarrow> StrategyUseCaseProjectedInstance
       \<Rightarrow> (('r, 'e) world, state \<times> state \<times> TradeCycleClosure option) prog" where
  "run_use_case cfg P ops unit projection =
     (case projection of
        LiveEntryProjection live \<Rightarrow>
          bindp (journal_live_entry cfg unit live) (\<lambda>_.
          bindp (entry_execute cfg P ops live) (\<lambda>resulting_state.
          ret (prs_runtime_state (prsi_resolved_state (lep_source live)), resulting_state, None)))
      | OpenTradeProjection open_trade \<Rightarrow>
          bindp (journal_open_trade cfg unit open_trade) (\<lambda>_.
          bindp (pm_execute_with_closure cfg P ops open_trade) (\<lambda>(resulting_state, closure).
          ret (prs_runtime_state (prsi_resolved_state (otp_source open_trade)), resulting_state, closure))))"

definition route_and_apply ::
    "config \<Rightarrow> 'e ports \<Rightarrow> 'r repo_ops \<Rightarrow> StrategyBarProcessingUnit \<Rightarrow> PositionResolvedState
       \<Rightarrow> (('r, 'e) world, state) prog" where
  "route_and_apply cfg P ops unit resolved =
     bindp (route P \<lparr>prsi_processing_unit = unit, prsi_resolved_state = resolved\<rparr>) (\<lambda>projection.
     bindp (run_use_case cfg P ops unit projection) (\<lambda>(source_state, resulting_state, closure).
     if resulting_state = source_state then ret resulting_state
     else
       bindp (repo_save ops resulting_state) (\<lambda>saved_state.
       bindp (case closure of None \<Rightarrow> ret ()
              | Some c \<Rightarrow> journal_trade_cycle_closed cfg c (Some (cbe_open_time_ms (unit_committed_bar unit)))) (\<lambda>_.
       bindp (journal_cycle_ended_on_bar cfg source_state saved_state unit) (\<lambda>_.
       ret saved_state)))))"

text \<open>The open-position branch: freeze the fill, wait for the entry bar, cancel an expired remainder.
  \<open>Inl\<close> is the early return of \<open>process\<close>.\<close>

definition prepare_open_position ::
    "config \<Rightarrow> 'e ports \<Rightarrow> 'r repo_ops \<Rightarrow> int \<Rightarrow> PositionResolvedState
       \<Rightarrow> (('r, 'e) world, state + PositionResolvedState) prog" where
  "prepare_open_position cfg P ops bar resolved =
     bindp (ensure_first_fill_frozen cfg ops resolved bar) (\<lambda>resolved.
     case sirs_current_trade_cycle (prs_runtime_state resolved) of
       None \<Rightarrow> raise AssertionError
     | Some current_cycle \<Rightarrow>
         (case ctc_frozen_entry_context current_cycle of
            None \<Rightarrow> raise AssertionError
          | Some frozen_context \<Rightarrow>
              if bar < fec_entry_bar_open_time_ms frozen_context
              then ret (Inl (prs_runtime_state resolved))
              else if cfg_entry_remainder_cancel_port cfg
              then bindp (cancel_expired_entry_remainder cfg P ops (prs_runtime_state resolved) bar) (\<lambda>s.
                   ret (Inr (resolved\<lparr>prs_runtime_state := s\<rparr>)))
              else ret (Inr resolved)))"

definition create_request :: "StrategyBarProcessingUnit \<Rightarrow> GetOrCreateRequest" where
  "create_request unit =
     \<lparr>gcr_strategy_instance_id = unit_strategy_instance_id unit,
      gcr_strategy_id = ds_strategy_id (unit_deployment unit),
      gcr_instrument = ds_instrument (unit_deployment unit),
      gcr_base_timeframe = ds_base_timeframe (unit_deployment unit),
      gcr_raw_spec = ds_raw_spec (unit_deployment unit),
      gcr_source_path = ds_source_path (unit_deployment unit)\<rparr>"

definition process_locked ::
    "config \<Rightarrow> 'e ports \<Rightarrow> 'r repo_ops \<Rightarrow> StrategyBarProcessingUnit \<Rightarrow> (('r, 'e) world, state) prog" where
  "process_locked cfg P ops unit =
     (let bar = cbe_open_time_ms (unit_committed_bar unit) in
      bindp (repo_get_or_create ops (create_request unit)) (\<lambda>s.
      if sirs_pending_entry_recovery s \<noteq> None \<or> sirs_pending_close_recovery s \<noteq> None then ret s
      else
        bindp (resolve P s) (\<lambda>resolved.
        case prs_closure resolved of
          Some closure \<Rightarrow>
            bindp (lift_res (apply_detected_trade_cycle_closure s closure)) (\<lambda>closed.
            bindp (repo_save ops closed) (\<lambda>saved_state.
            bindp (journal_trade_cycle_closed cfg closure (Some bar)) (\<lambda>_.
            ret saved_state)))
        | None \<Rightarrow>
            if prs_position_open resolved
            then bindp (prepare_open_position cfg P ops bar resolved) (\<lambda>prepared.
                 case prepared of
                   Inl s \<Rightarrow> ret s
                 | Inr resolved \<Rightarrow> route_and_apply cfg P ops unit resolved)
            else route_and_apply cfg P ops unit resolved)))"

definition process ::
    "config \<Rightarrow> 'e ports \<Rightarrow> 'r repo_ops \<Rightarrow> StrategyBarProcessingUnit \<Rightarrow> (('r, 'e) world, state) prog" where
  "process cfg P ops unit = hold (unit_strategy_instance_id unit) (process_locked cfg P ops unit)"

definition dispatch ::
    "config \<Rightarrow> 'e ports \<Rightarrow> 'r repo_ops \<Rightarrow> StrategyBarProcessingUnit
       \<Rightarrow> (('r, 'e) world, StrategyCycleDispatchOutcome) prog" where
  "dispatch cfg P ops unit =
     bindp (process cfg P ops unit) (\<lambda>_. lift_res (outcome_succeeded (unit_strategy_instance_id unit)))"


section \<open>Permitted effects\<close>

definition routed :: "PositionResolvedStrategyInstance \<Rightarrow> StrategyUseCaseProjectedInstance \<Rightarrow> bool" where
  "routed item projection \<longleftrightarrow>
     (case projection of
        LiveEntryProjection live \<Rightarrow> lep_source live = item
      | OpenTradeProjection open_trade \<Rightarrow> otp_source open_trade = item \<and>
          wf_protection (pmr_desired_protection (otp_position_management_recipe open_trade)))"

context state_repository
begin

lemma triple_entry_cycle_ended:
  assumes "\<not> has_cycle s cid"
  shows "triple (holding m0 i rest s) (journal_entry_cycle_ended cfg i cid bar reason)
           (\<lambda>u. holding m0 i rest s) (\<lambda>e. elsewhere m0 i rest)"
  unfolding journal_entry_cycle_ended_def
  by (intro triple_if triple_ret triple_raise_elsewhere triple_journal) (use assms in auto)

lemma triple_resolve_bind:
  assumes "no_recovery s" and "\<And>r. prs_runtime_state r = s \<Longrightarrow> triple (holding m0 i rest s) (f r) Q E"
    and "\<And>e w. holding m0 i rest s w \<Longrightarrow> E e w"
  shows "triple (holding m0 i rest s) (bindp (resolve P s) f) Q E"
proof (rule triple_seq [where F = "\<lambda>r. prs_runtime_state r = s" and R = "\<lambda>r. holding m0 i rest s"])
  show "triple (holding m0 i rest s) (resolve P s) (\<lambda>r w. prs_runtime_state r = s \<and> holding m0 i rest s w) E"
    unfolding resolve_def abi_lookup_def
    by (rule triple_holding, intro triple_case_option triple_ret triple_bind_lift triple_call_bind)
      (use assms(1,3) in \<open>auto simp: new_OpenPositionLookupRequest_def has_cycle_def split: if_splits\<close>)
qed (rule assms(2))

text \<open>Position management.\<close>

lemma decide_position_management_frozen:
  assumes "decide_position_management recipe (sirs_current_trade_cycle s) = Inr decision"
    and "decision = ApplyProtection cid p \<or> decision = ClosePosition cid g"
  shows "frozen_cycle s cid \<and> (decision = ApplyProtection cid p \<longrightarrow> p = pmr_desired_protection recipe)"
  using assms
  by (auto simp: decide_position_management_def frozen_cycle_def res_bind_eq_Inr split: option.splits if_splits)

lemma frozen_cycleE:
  assumes "frozen_cycle s cid"
  obtains c f where "sirs_current_trade_cycle s = Some c" "ctc_trade_cycle_id c = cid"
    "ctc_frozen_entry_context c = Some f"
  using assms by (auto simp: frozen_cycle_def split: option.splits)

lemma abi_close_answer:
  assumes "typed new_closed_answer err x = (Inr k, e)"
  shows "pred_option (\<lambda>closure. tcc_strategy_instance_id closure = pcc_strategy_instance_id k \<and>
           tcc_trade_cycle_id closure = pcc_trade_cycle_id k) (pcc_closure k)"
  using typed_Inr [OF assms]
  by (auto simp: new_closed_answer_def new_PositionClosedConfirmation_def checked_iff res_bind_eq_Inr
      split: option.splits if_splits)

lemma triple_pm_protect:
  assumes "no_recovery s" and "frozen_cycle s cid" and "wf_protection p"
    and "build_position_management_command s (ApplyProtection cid p) = Inr (Some (ProtectionCommand apply))"
  shows "triple (holding m0 i rest s)
     (bindp (abi_apply_protection P apply) (\<lambda>confirmation.
      bindp (journal_protection_applied cfg apply confirmation bar) (\<lambda>_.
      bindp (lift_res (apply_position_management_confirmation s (ApplyProtection cid p)
               (ProtectionCommand apply) (ProtectionConfirmed confirmation))) (\<lambda>x. ret (x, None)))))
     (\<lambda>(x, closure) w. closure = None \<and> lifecycle_step s x \<and> holding m0 i rest s w)
     (\<lambda>e. elsewhere m0 i rest)"
proof -
  from assms(2) obtain c f where c: "sirs_current_trade_cycle s = Some c" "ctc_frozen_entry_context c = Some f"
    by (rule frozen_cycleE)
  have step: "lifecycle_step s x"
    if "apply_position_management_confirmation s (ApplyProtection cid p) cmd conf = Inr x" for cmd conf x
    using apply_protection_confirmationD [OF that] lifecycle_step.protected [OF c _ _ assms(3)] assms(1) c
    by (auto simp: no_recovery_def)
  show ?thesis
    unfolding abi_apply_protection_def journal_protection_applied_def
    by (rule triple_holding, intro triple_call_bind triple_journal_bind triple_bind_lift triple_ret)
      (use assms(1,2,4) step in \<open>auto simp: build_pm_command_protection intro: holding_elsewhere\<close>)
qed

lemma triple_pm_close:
  assumes "no_recovery s" and "frozen_cycle s cid"
    and "build_position_management_command s (ClosePosition cid g) = Inr (Some (CloseCommand close))"
  shows "triple (holding m0 i rest s)
     (bindp (lift_res (new_PendingCloseRecovery \<lparr>pcr_trade_cycle_id = cpc_trade_cycle_id close\<rparr>)) (\<lambda>marker.
      bindp (lift_res (new_StrategyInstanceRuntimeState
               (s\<lparr>sirs_pending_close_recovery := Some marker\<rparr>))) (\<lambda>marked.
      bindp (repo_save ops marked) (\<lambda>pending_state.
      bindp (abi_close_position P close) (\<lambda>confirmation.
      bindp (lift_res (apply_position_management_confirmation pending_state (ClosePosition cid g)
               (CloseCommand close) (CloseConfirmed confirmation))) (\<lambda>x.
      ret (x, pcc_closure confirmation)))))))
     (\<lambda>(x, closure) w. \<exists>ps. lifecycle_step ps x \<and> holding m0 i rest ps w \<and>
        pred_option (\<lambda>k. tcc_strategy_instance_id k = i \<and> \<not> has_cycle x (tcc_trade_cycle_id k)) closure)
     (\<lambda>e. elsewhere m0 i rest)"
proof (rule triple_holding)
  assume id: "sirs_strategy_instance_id s = i"
  from assms(2) obtain c f where c: "sirs_current_trade_cycle s = Some c" "ctc_trade_cycle_id c = cid"
      "ctc_frozen_entry_context c = Some f"
    by (rule frozen_cycleE)
  let ?ps = "s\<lparr>sirs_pending_close_recovery := Some \<lparr>pcr_trade_cycle_id = cid\<rparr>\<rparr>"
  have close: "cpc_strategy_instance_id close = i" "cpc_trade_cycle_id close = cid"
    using assms(3) id by (auto simp: build_pm_command_close)
  have mark: "lifecycle_step s ?ps"
    using lifecycle_step.mark_close [OF c(1,3)] assms(1) c(2) by (simp add: no_recovery_def)
  have fin: "lifecycle_step ?ps x \<and> pred_option (\<lambda>k. tcc_strategy_instance_id k = i \<and>
        \<not> has_cycle x (tcc_trade_cycle_id k)) (pcc_closure conf)"
    if "apply_position_management_confirmation ?ps (ClosePosition cid g) cmd (CloseConfirmed conf) = Inr x"
      and "pred_option (\<lambda>closure. tcc_strategy_instance_id closure = pcc_strategy_instance_id conf \<and>
           tcc_trade_cycle_id closure = pcc_trade_cycle_id conf) (pcc_closure conf)" for cmd conf x
    using close_confirmationD [OF that(1)] that(2) id assms(1)
      lifecycle_step.ended [of ?ps] by (auto simp: no_recovery_def has_cycle_def option.pred_set)
  show ?thesis
    unfolding abi_close_position_def close
    by (intro triple_bind_lift triple_save_bind triple_call_bind triple_ret)
      (use mark assms(2) in \<open>auto simp: close new_record_iff close_marked_def frozen_cycle_def
          intro: holding_elsewhere dest: fin [OF _ abi_close_answer]\<close>)
qed

lemma triple_pm_execute:
  assumes src: "prs_runtime_state (prsi_resolved_state (otp_source proj)) = s" and "no_recovery s"
    and "wf_protection (pmr_desired_protection (otp_position_management_recipe proj))"
  shows "triple (holding m0 i rest s) (pm_execute_with_closure cfg P ops proj)
     (\<lambda>(x, closure) w. \<exists>ps. lifecycle_step ps x \<and> holding m0 i rest ps w \<and>
        pred_option (\<lambda>k. tcc_strategy_instance_id k = i \<and> \<not> has_cycle x (tcc_trade_cycle_id k)) closure)
     (\<lambda>e. elsewhere m0 i rest)"
  unfolding pm_execute_with_closure_def src Let_def
proof (intro triple_bind_lift triple_if)
  fix decision command
  assume dec: "decide_position_management (otp_position_management_recipe proj) (sirs_current_trade_cycle s)
      = Inr decision" and cmd: "build_position_management_command s decision = Inr command"
    and "decision \<noteq> PMNoOp"
  note frozen = decide_position_management_frozen [OF dec]
  let ?T = "\<lambda>m. triple (holding m0 i rest s) m
     (\<lambda>(x, closure) w. \<exists>ps. lifecycle_step ps x \<and> holding m0 i rest ps w \<and>
        pred_option (\<lambda>k. tcc_strategy_instance_id k = i \<and> \<not> has_cycle x (tcc_trade_cycle_id k)) closure)
     (\<lambda>e. elsewhere m0 i rest)"
  show "?T (case decision of
        ApplyProtection cid protection \<Rightarrow>
          (case command of
             Some (ProtectionCommand apply) \<Rightarrow>
               bindp (abi_apply_protection P apply) (\<lambda>confirmation.
               bindp (journal_protection_applied cfg apply confirmation (bar_of (otp_source proj))) (\<lambda>_.
               bindp (lift_res (apply_position_management_confirmation s decision
                        (ProtectionCommand apply) (ProtectionConfirmed confirmation))) (\<lambda>x. ret (x, None))))
           | _ \<Rightarrow> raise (PositionManagementExecutionInvariantError
                     ''APPLY_PROTECTION must produce an ApplyProtectionCommand''))
      | ClosePosition cid signal \<Rightarrow>
          (case command of
             Some (CloseCommand close) \<Rightarrow>
               bindp (lift_res (new_PendingCloseRecovery \<lparr>pcr_trade_cycle_id = cpc_trade_cycle_id close\<rparr>)) (\<lambda>marker.
               bindp (lift_res (new_StrategyInstanceRuntimeState
                        (s\<lparr>sirs_pending_close_recovery := Some marker\<rparr>))) (\<lambda>marked.
               bindp (repo_save ops marked) (\<lambda>pending_state.
               bindp (abi_close_position P close) (\<lambda>confirmation.
               bindp (lift_res (apply_position_management_confirmation pending_state decision
                        (CloseCommand close) (CloseConfirmed confirmation))) (\<lambda>x.
               ret (x, pcc_closure confirmation))))))
           | _ \<Rightarrow> raise (PositionManagementExecutionInvariantError
                     ''CLOSE_POSITION must produce a ClosePositionCommand''))
      | PMNoOp \<Rightarrow> raise (PositionManagementExecutionInvariantError
                     ''unknown command-bearing position-management decision''))"
  proof (cases decision)
    case (ApplyProtection cid p)
    then obtain put where "command = Some (ProtectionCommand put)"
      using cmd by (auto simp: build_pm_command_protection)
    with ApplyProtection cmd frozen assms(2,3) show ?thesis
      by (auto intro!: triple_post [OF triple_pm_protect] split: prod.splits)
  next
    case (ClosePosition cid g)
    then obtain close where "command = Some (CloseCommand close)"
      using cmd by (auto simp: build_pm_command_close)
    with ClosePosition cmd frozen assms(2) show ?thesis
      by (auto intro!: triple_pm_close)
  qed (simp add: triple_raise_elsewhere)
qed (auto intro!: triple_ret lifecycle_step.unchanged holding_elsewhere)

text \<open>The expired remainder, the first fill.\<close>

lemma triple_cancel_remainder_and_mark:
  assumes "no_recovery s" and "sirs_current_trade_cycle s = Some c" and "ctc_frozen_entry_context c = Some f"
  shows "triple (holding m0 i rest s) (cancel_remainder_and_mark P ops s c)
     (\<lambda>r w. no_recovery (snd r) \<and> holding m0 i rest (snd r) w) (\<lambda>e. holding m0 i rest s)"
  unfolding cancel_remainder_and_mark_def abi_cancel_entry_remainder_def
proof (rule triple_holding, intro triple_call_bind triple_bind_lift triple_save_bind triple_ret)
  fix cycle marked
  assume "new_CurrentTradeCycle (c\<lparr>ctc_entry_remainder_cancelled := True\<rparr>) = Inr cycle"
    and "new_StrategyInstanceRuntimeState (s\<lparr>sirs_current_trade_cycle := Some cycle\<rparr>) = Inr marked"
  then have m: "marked = s\<lparr>sirs_current_trade_cycle := Some (c\<lparr>ctc_entry_remainder_cancelled := True\<rparr>)\<rparr>"
    by (auto simp: new_record_iff)
  show "lifecycle_step s marked"
    unfolding m using lifecycle_step.remainder_cancelled [OF assms(2,3)] assms(1) by (simp add: no_recovery_def)
  fix conf w assume "holding m0 i rest marked w"
  then show "no_recovery (snd (conf, marked)) \<and> holding m0 i rest (snd (conf, marked)) w"
    using assms(1) by (simp add: m no_recovery_def)
qed (use assms in \<open>auto simp: frozen_cycle_def\<close>)

lemma triple_cancel_expired_entry_remainder:
  assumes "no_recovery s"
  shows "triple (holding m0 i rest s) (cancel_expired_entry_remainder cfg P ops s bar)
     (\<lambda>x w. no_recovery x \<and> holding m0 i rest x w) (\<lambda>e. elsewhere m0 i rest)"
  unfolding cancel_expired_entry_remainder_def
  by (intro triple_case_option triple_if triple_ret triple_bind_lift
      triple_try [OF triple_cancel_remainder_and_mark [OF assms]])
    (auto intro!: triple_journal_bind triple_ret triple_pure simp: assms intro: holding_elsewhere split: prod.splits)

lemma freeze_step:
  assumes "freeze fr s cid t = Inr s'" and "wf_state s" and "s' \<noteq> s"
  shows "lifecycle_step s s' \<and> filled_at s' cid t"
  using assms(1) unfolding freeze_def
proof (cases rule: apply_first_fill_cases)
  case again
  with assms(3) show ?thesis by simp
next
  case (first c f)
  with assms(2) have "wf_desired_entry (fec_desired_entry f)"
    by (simp add: coherent_frozen_def cycle_desired_entry_def wf_defs)
  with first have "wf_frozen f" by (simp add: new_FrozenExecutedEntryContext_iff)
  with first have "lifecycle_step s s'" by (auto intro: lifecycle_step.first_fill)
  with first show ?thesis by (simp add: filled_at_def frozen_with_def)
qed

lemma freeze_no_recovery: "freeze fr s cid t = Inr s' \<Longrightarrow> no_recovery s' = no_recovery s"
  unfolding freeze_def by (elim apply_first_fill_cases) (auto simp: no_recovery_def frozen_with_def)

lemma triple_ensure_first_fill_frozen:
  assumes s: "prs_runtime_state resolved = s" and "no_recovery s"
  shows "triple (holding m0 i rest s) (ensure_first_fill_frozen cfg ops resolved bar)
     (\<lambda>r w. no_recovery (prs_runtime_state r) \<and> holding m0 i rest (prs_runtime_state r) w)
     (\<lambda>e. elsewhere m0 i rest)"
  unfolding ensure_first_fill_frozen_def s Let_def journal_trade_cycle_opened_def
proof (rule triple_holding, intro triple_case_option triple_bind_lift triple_if triple_save_bind)
  fix c t s' assume id: "sirs_strategy_instance_id s = i" and wf: "wf_state s"
    and fr: "freeze (cfg_first_fill_freezer cfg) s (ctc_trade_cycle_id c) t = Inr s'" and "s' \<noteq> s"
  note step = freeze_step [OF fr wf \<open>s' \<noteq> s\<close>]
  then show "lifecycle_step s s'" by simp
  show "triple (holding m0 i rest s')
      (case (prs_average_entry_price resolved, prs_entry_order_link_id resolved) of
         (Some price, Some link) \<Rightarrow>
           bindp (journal cfg trade_cycle_opened_journal
                    (JTradeCycleOpened (sirs_strategy_instance_id s) (ctc_trade_cycle_id c) (Some bar) t
                       price link (prs_entry_order_id resolved))) (\<lambda>_.
           ret (resolved\<lparr>prs_runtime_state := s'\<rparr>))
       | _ \<Rightarrow> raise AssertionError)
      (\<lambda>r w. no_recovery (prs_runtime_state r) \<and> holding m0 i rest (prs_runtime_state r) w)
      (\<lambda>e. elsewhere m0 i rest)"
    using step id freeze_no_recovery [OF fr] assms(2)
    by (auto intro!: triple_journal_bind triple_ret triple_raise_elsewhere split: option.splits)
qed (use assms in \<open>auto intro!: triple_ret triple_raise_elsewhere intro: holding_elsewhere\<close>)

text \<open>Routing and the whole of one bar.\<close>

lemma open_trade_answer_wf:
  "typed new_open_trade_answer err x = (Inr r, e) \<Longrightarrow> wf_protection (ops_desired_protection r)"
  by (auto simp: new_open_trade_answer_def res_bind_eq_Inr new_DesiredProtection_wf dest!: typed_Inr)

lemma triple_route:
  "triple (holding m0 i rest s) (route P item)
     (\<lambda>p w. routed item p \<and> holding m0 i rest s w) (\<lambda>e. elsewhere m0 i rest)"
  unfolding route_def route_open_trade_def project_live_entry_def project_open_trade_def Let_def
  by (intro triple_bind_lift triple_if triple_case_option triple_raise_elsewhere triple_call_free_bind triple_ret)
    (auto simp: routed_def new_PositionManagementRecipe_def intro: holding_elsewhere open_trade_answer_wf)

lemma triple_run_use_case:
  assumes item: "routed item p" and s: "prs_runtime_state (prsi_resolved_state item) = s" and "no_recovery s"
  shows "triple (holding m0 i rest s) (run_use_case cfg P ops unit p)
     (\<lambda>r w. (fst r = s \<and> pred_option (\<lambda>k. tcc_strategy_instance_id k = i \<and>
               \<not> has_cycle (fst (snd r)) (tcc_trade_cycle_id k)) (snd (snd r))) \<and>
            (\<exists>ps. lifecycle_step ps (fst (snd r)) \<and> holding m0 i rest ps w))
     (\<lambda>e. elsewhere m0 i rest)"
proof (cases p)
  case (LiveEntryProjection live)
  with item s have src: "prs_runtime_state (prsi_resolved_state (lep_source live)) = s"
    by (simp add: routed_def)
  show ?thesis
    unfolding run_use_case_def LiveEntryProjection StrategyUseCaseProjectedInstance.case journal_live_entry_def src
    by (intro triple_journal_bind triple_bind [OF triple_entry_execute [OF src assms(3)]] triple_ret) auto
next
  case (OpenTradeProjection open_trade)
  with item s have src: "prs_runtime_state (prsi_resolved_state (otp_source open_trade)) = s"
      and wf: "wf_protection (pmr_desired_protection (otp_position_management_recipe open_trade))"
    by (simp_all add: routed_def)
  have j: "triple (holding m0 i rest s) (journal_open_trade cfg unit open_trade)
      (\<lambda>u. holding m0 i rest s) (\<lambda>e. elsewhere m0 i rest)"
    unfolding journal_open_trade_def
    by (intro triple_if triple_case_option triple_ret triple_raise_elsewhere triple_journal) auto
  show ?thesis
    unfolding run_use_case_def OpenTradeProjection StrategyUseCaseProjectedInstance.case src
    by (intro triple_bind [OF j] triple_bind [OF triple_pm_execute [OF src assms(3) wf]])
      (auto intro!: triple_ret split: prod.splits)
qed

lemma triple_route_and_apply:
  assumes s: "prs_runtime_state resolved = s" and "no_recovery s" and "unit_strategy_instance_id unit = i"
  shows "triple (holding m0 i rest s) (route_and_apply cfg P ops unit resolved)
     (\<lambda>x. elsewhere m0 i rest) (\<lambda>e. elsewhere m0 i rest)"
proof -
  let ?item = "\<lparr>prsi_processing_unit = unit, prsi_resolved_state = resolved\<rparr>"
  have ended: "triple (holding m0 i rest x) (bindp (journal_cycle_ended_on_bar cfg s x unit) (\<lambda>_. ret x))
      (\<lambda>x. elsewhere m0 i rest) (\<lambda>e. elsewhere m0 i rest)" for x
    unfolding journal_cycle_ended_on_bar_def assms(3)
    by (rule triple_bind [where R = "\<lambda>u. holding m0 i rest x"],
        intro triple_case_option triple_if triple_ret triple_entry_cycle_ended)
      (auto intro!: triple_ret intro: holding_elsewhere)
  have finish: "triple (holding m0 i rest ps)
      (bindp (repo_save ops x) (\<lambda>saved_state.
       bindp (case closure of None \<Rightarrow> ret ()
              | Some c \<Rightarrow> journal_trade_cycle_closed cfg c (Some (cbe_open_time_ms (unit_committed_bar unit)))) (\<lambda>_.
       bindp (journal_cycle_ended_on_bar cfg s saved_state unit) (\<lambda>_.
       ret saved_state))))
      (\<lambda>x. elsewhere m0 i rest) (\<lambda>e. elsewhere m0 i rest)"
    if "lifecycle_step ps x"
      and "pred_option (\<lambda>k. tcc_strategy_instance_id k = i \<and> \<not> has_cycle x (tcc_trade_cycle_id k)) closure"
    for ps x closure
    unfolding journal_trade_cycle_closed_def
    by (intro triple_save_bind that(1) holding_elsewhere triple_bind [where R = "\<lambda>u. holding m0 i rest x"] ended
        triple_case_option triple_ret triple_journal) (use that(2) in auto)
  show ?thesis
    unfolding route_and_apply_def
  proof (rule triple_seq [OF triple_route], rule triple_seq [OF triple_run_use_case [where item = ?item, OF _ _ assms(2)]])
    fix p and r :: "state \<times> state \<times> TradeCycleClosure option" assume "fst r = s \<and> pred_option (\<lambda>k. tcc_strategy_instance_id k = i \<and>
               \<not> has_cycle (fst (snd r)) (tcc_trade_cycle_id k)) (snd (snd r))"
    then obtain x closure where "r = (s, x, closure)" "pred_option (\<lambda>k. tcc_strategy_instance_id k = i \<and>
               \<not> has_cycle x (tcc_trade_cycle_id k)) closure" by (cases r) auto
    then show "triple (\<lambda>w. \<exists>ps. lifecycle_step ps (fst (snd r)) \<and> holding m0 i rest ps w)
       (case r of (source_state, resulting_state, closure) \<Rightarrow>
          if resulting_state = source_state then ret resulting_state
          else
            bindp (repo_save ops resulting_state) (\<lambda>saved_state.
            bindp (case closure of None \<Rightarrow> ret ()
              | Some c \<Rightarrow> journal_trade_cycle_closed cfg c (Some (cbe_open_time_ms (unit_committed_bar unit)))) (\<lambda>_.
            bindp (journal_cycle_ended_on_bar cfg source_state saved_state unit) (\<lambda>_.
            ret saved_state))))
       (\<lambda>x. elsewhere m0 i rest) (\<lambda>e. elsewhere m0 i rest)"
      by (auto intro!: triple_ex_pure triple_if finish triple_ret dest: holding_elsewhere)
  qed (simp_all add: s)
qed

lemma triple_prepare_open_position:
  assumes "prs_runtime_state resolved = s" and "no_recovery s"
  shows "triple (holding m0 i rest s) (prepare_open_position cfg P ops bar resolved)
     (\<lambda>r w. case r of Inl s \<Rightarrow> holding m0 i rest s w
        | Inr r \<Rightarrow> no_recovery (prs_runtime_state r) \<and> holding m0 i rest (prs_runtime_state r) w)
     (\<lambda>e. elsewhere m0 i rest)"
  unfolding prepare_open_position_def
  by (intro triple_seq [OF triple_ensure_first_fill_frozen [OF assms]] triple_case_option triple_if
      triple_raise_elsewhere triple_ret triple_bind [OF triple_cancel_expired_entry_remainder])
    (auto intro!: triple_ret)

theorem triple_process_locked:
  assumes "unit_strategy_instance_id unit = i"
  shows "triple (elsewhere m0 i rest) (process_locked cfg P ops unit)
     (\<lambda>x. elsewhere m0 i rest) (\<lambda>e. elsewhere m0 i rest)"
  unfolding process_locked_def Let_def
proof (rule triple_get_or_create_bind)
  fix s
  let ?T = "\<lambda>s m. triple (holding m0 i rest s) m (\<lambda>x. elsewhere m0 i rest) (\<lambda>e. elsewhere m0 i rest)"
  let ?bar = "cbe_open_time_ms (unit_committed_bar unit)"
  have closed: "?T s (bindp (lift_res (apply_detected_trade_cycle_closure s closure)) (\<lambda>closed.
            bindp (repo_save ops closed) (\<lambda>saved_state.
            bindp (journal_trade_cycle_closed cfg closure (Some ?bar)) (\<lambda>_.
            ret saved_state))))" if "no_recovery s" for closure
    unfolding journal_trade_cycle_closed_def
  proof (rule triple_holding, intro triple_bind_lift triple_save_bind triple_journal_bind triple_ret holding_elsewhere)
    fix x assume "apply_detected_trade_cycle_closure s closure = Inr x" and id: "sirs_strategy_instance_id s = i"
    then show "lifecycle_step s x" "allowed x (Journal (JTradeCycleClosed closure (Some ?bar)))"
        "about (Journal (JTradeCycleClosed closure (Some ?bar))) = Some i \<or>
         about (Journal (JTradeCycleClosed closure (Some ?bar))) = None"
      using that lifecycle_step.ended [of s]
      by (auto elim!: detected_closureD simp: no_recovery_def has_cycle_def)
  qed
  have run: "?T (prs_runtime_state r) (route_and_apply cfg P ops unit r)"
    if "no_recovery (prs_runtime_state r)" for r
    using triple_route_and_apply [OF refl that assms] .
  have opened: "triple (\<lambda>w. case p of Inl s \<Rightarrow> holding m0 i rest s w
        | Inr r \<Rightarrow> no_recovery (prs_runtime_state r) \<and> holding m0 i rest (prs_runtime_state r) w)
      (case p of Inl s \<Rightarrow> ret s | Inr r \<Rightarrow> route_and_apply cfg P ops unit r)
      (\<lambda>x. elsewhere m0 i rest) (\<lambda>e. elsewhere m0 i rest)" for p
    using run by (cases p) (auto intro!: triple_ret triple_pure holding_elsewhere)
  show "?T s (if sirs_pending_entry_recovery s \<noteq> None \<or> sirs_pending_close_recovery s \<noteq> None then ret s
      else
        bindp (resolve P s) (\<lambda>resolved.
        case prs_closure resolved of
          Some closure \<Rightarrow>
            bindp (lift_res (apply_detected_trade_cycle_closure s closure)) (\<lambda>closed.
            bindp (repo_save ops closed) (\<lambda>saved_state.
            bindp (journal_trade_cycle_closed cfg closure (Some ?bar)) (\<lambda>_.
            ret saved_state)))
        | None \<Rightarrow>
            if prs_position_open resolved
            then bindp (prepare_open_position cfg P ops ?bar resolved) (\<lambda>prepared.
                 case prepared of
                   Inl s \<Rightarrow> ret s
                 | Inr resolved \<Rightarrow> route_and_apply cfg P ops unit resolved)
            else route_and_apply cfg P ops unit resolved))"
  proof (intro triple_if)
    assume "\<not> (sirs_pending_entry_recovery s \<noteq> None \<or> sirs_pending_close_recovery s \<noteq> None)"
    then have nr: "no_recovery s" by (simp add: no_recovery_def)
    then show "?T s (bindp (resolve P s) (\<lambda>resolved.
        case prs_closure resolved of
          Some closure \<Rightarrow>
            bindp (lift_res (apply_detected_trade_cycle_closure s closure)) (\<lambda>closed.
            bindp (repo_save ops closed) (\<lambda>saved_state.
            bindp (journal_trade_cycle_closed cfg closure (Some ?bar)) (\<lambda>_.
            ret saved_state)))
        | None \<Rightarrow>
            if prs_position_open resolved
            then bindp (prepare_open_position cfg P ops ?bar resolved) (\<lambda>prepared.
                 case prepared of
                   Inl s \<Rightarrow> ret s
                 | Inr resolved \<Rightarrow> route_and_apply cfg P ops unit resolved)
            else route_and_apply cfg P ops unit resolved))"
      by (intro triple_resolve_bind triple_case_option closed triple_if
          triple_bind [OF triple_prepare_open_position opened])
        (use run in \<open>auto intro: holding_elsewhere\<close>)
  qed (auto intro!: triple_ret holding_elsewhere)
qed (use assms in \<open>simp_all add: create_request_def\<close>)

theorem triple_process:
  assumes "unit_strategy_instance_id unit = i"
  shows "triple (elsewhere m0 i rest) (process cfg P ops unit)
     (\<lambda>x. elsewhere m0 i rest) (\<lambda>e. elsewhere m0 i rest)"
  unfolding process_def hold_def
  by (intro triple_bind_lift triple_process_locked assms) simp

end

end
