(* ===== verification/Uncertain_Resolver.thy ===== *)
theory Uncertain_Resolver
  imports Runtime_Orchestrator
begin

text \<open>
  \<open>runtime/uncertain_exchange_state_resolver\<close>: one bounded attempt to resolve a durable recovery
  marker against the execution service, and the worker tick that attempts every marked instance;
  \<open>runtime/abi_execution_event\<close>: the first fill the service reports on its own.

  Proved: every attempt makes only permitted effects; an attempt on an instance without a marker
  does nothing; what an attempt stores is decided by the answer alone.
\<close>

section \<open>Recovery port\<close>

definition abi_query :: "'e ports \<Rightarrow> string \<Rightarrow> string \<Rightarrow> (('r, 'e) world, RecoveryStateResponse) prog" where
  "abi_query P i cid =
     call (RecoveryQuery i cid)
       (\<lambda>e. typed new_RecoveryStateResponse
              (AbiEntryCycleRecoveryClientError AbiEntryCycleRecoveryProtocolError) (p_query P i cid e))"

text \<open>\<open>HttpxAbiEntryCycleRecoveryAdapter.cancel\<close>: an entry package without a desired entry, through
  the ordinary entry-package port.\<close>

definition abi_cancel ::
    "'e ports \<Rightarrow> string \<Rightarrow> string \<Rightarrow> string \<Rightarrow> string \<Rightarrow> (('r, 'e) world, EntryPackageResult) prog" where
  "abi_cancel P strategy_instance_id trade_cycle_id ticker risk_multiplier =
     bindp (lift_res (new_EntryPackageRequest
              \<lparr>epr_strategy_instance_id = strategy_instance_id, epr_trade_cycle_id = trade_cycle_id,
               epr_ticker = ticker, epr_desired_entry = None, epr_risk_multiplier = risk_multiplier\<rparr>)) (\<lambda>request.
     abi_send P request)"

section \<open>The resolver\<close>

definition build_cycle :: "string \<Rightarrow> RecoveryStateAppliedEntryPackage \<Rightarrow> CurrentTradeCycle res" where
  "build_cycle trade_cycle_id applied =
     res_bind (decode_desired_entry (rap_applied_desired_entry applied)) (\<lambda>d.
     res_bind (new_AppliedEntryPackage
                 \<lparr>aep_applied_desired_entry = d, aep_calculated_quantity = rap_calculated_quantity applied\<rparr>) (\<lambda>package.
     new_CurrentTradeCycle
       \<lparr>ctc_trade_cycle_id = trade_cycle_id, ctc_applied_entry_package = package,
        ctc_frozen_entry_context = None, ctc_latest_confirmed_management_protection = None,
        ctc_entry_remainder_cancelled = False\<rparr>))"

definition clear_cycle_and_marker :: "state \<Rightarrow> state res" where
  "clear_cycle_and_marker s =
     new_StrategyInstanceRuntimeState
       (s\<lparr>sirs_current_trade_cycle := None, sirs_pending_entry_recovery := None\<rparr>)"

definition resolve_pending_close ::
    "config \<Rightarrow> 'e ports \<Rightarrow> 'r repo_ops \<Rightarrow> state \<Rightarrow> (('r, 'e) world, unit) prog" where
  "resolve_pending_close cfg P ops s =
     (case sirs_pending_close_recovery s of
        None \<Rightarrow> raise AssertionError
      | Some pending_close_recovery \<Rightarrow>
          (let trade_cycle_id = pcr_trade_cycle_id pending_close_recovery in
           bindp (lift_res (new_ClosePositionCommand
                    \<lparr>cpc_strategy_instance_id = sirs_strategy_instance_id s,
                     cpc_trade_cycle_id = trade_cycle_id,
                     cpc_exposure_fraction = CANONICAL_CLOSE_EXPOSURE_FRACTION\<rparr>)) (\<lambda>command.
           tryp (abi_close_position P command)
             (\<lambda>exc. case exc of PositionManagementExecutionError _ \<Rightarrow> ret () | _ \<Rightarrow> raise exc)
             (\<lambda>confirmation.
                bindp (lift_res (new_ClosePosition trade_cycle_id
                         \<lparr>cs_active = True, cs_reason = None, cs_component_id = None, cs_layer = None\<rparr>)) (\<lambda>decision.
                case apply_position_management_confirmation s decision (CloseCommand command)
                       (CloseConfirmed confirmation) of
                  Inl (PositionManagementExecutionInvariantError _) \<Rightarrow> ret ()
                | Inl exc \<Rightarrow> raise exc
                | Inr resulting_state \<Rightarrow>
                    bindp (repo_save ops resulting_state) (\<lambda>_.
                    case pcc_closure confirmation of
                      None \<Rightarrow> ret ()
                    | Some closure \<Rightarrow> journal_trade_cycle_closed cfg closure None))))))"

definition journal_terminal_without_fill ::
    "config \<Rightarrow> state \<Rightarrow> string \<Rightarrow> RecoveryStateResponse \<Rightarrow> (('r, 'e) world, unit) prog" where
  "journal_terminal_without_fill cfg s trade_cycle_id response =
     (if response \<noteq> TerminalWithoutFillRecoveryState then ret ()
      else journal_entry_cycle_ended cfg (sirs_strategy_instance_id s) trade_cycle_id None
             ''terminal_without_fill'')"

definition cancel_and_clear_only_if_exact_absent ::
    "config \<Rightarrow> 'e ports \<Rightarrow> 'r repo_ops \<Rightarrow> state \<Rightarrow> string \<Rightarrow> (('r, 'e) world, unit) prog" where
  "cancel_and_clear_only_if_exact_absent cfg P ops s trade_cycle_id =
     tryp (abi_cancel P (sirs_strategy_instance_id s) trade_cycle_id
             (rss_instrument (sirs_registered_spec_snapshot s)) (sirs_risk_multiplier s))
       (\<lambda>exc. case exc of AbiEntryPackageClientError _ \<Rightarrow> ret () | _ \<Rightarrow> raise exc)
       (\<lambda>cancel_result. case cancel_result of
           PackageAbsent absent \<Rightarrow>
             if epb_strategy_instance_id absent = sirs_strategy_instance_id s \<and>
                epb_trade_cycle_id absent = trade_cycle_id
             then bindp (lift_res (clear_cycle_and_marker s)) (\<lambda>cleared.
                  bindp (repo_save ops cleared) (\<lambda>_.
                  journal_entry_cycle_ended cfg (sirs_strategy_instance_id s) trade_cycle_id None
                    ''exact_absent''))
             else ret ()
         | _ \<Rightarrow> ret ())"

definition resolve_uncertain_apply ::
    "config \<Rightarrow> 'e ports \<Rightarrow> 'r repo_ops \<Rightarrow> state \<Rightarrow> string \<Rightarrow> RecoveryStateResponse
       \<Rightarrow> (('r, 'e) world, unit) prog" where
  "resolve_uncertain_apply cfg P ops s trade_cycle_id response =
     (case response of
        EntryOrderLiveRecoveryState applied \<Rightarrow>
          bindp (lift_res (build_cycle trade_cycle_id applied)) (\<lambda>cycle.
          bindp (lift_res (new_StrategyInstanceRuntimeState
                   (s\<lparr>sirs_current_trade_cycle := Some cycle, sirs_pending_entry_recovery := None\<rparr>))) (\<lambda>reconstructed.
          bindp (repo_save ops reconstructed) (\<lambda>_. ret ())))
      | PositionOpenRecovery position \<Rightarrow>
          bindp (lift_res (build_cycle trade_cycle_id (por_applied_entry_package position))) (\<lambda>cycle.
          bindp (lift_res (new_StrategyInstanceRuntimeState
                   (s\<lparr>sirs_current_trade_cycle := Some cycle, sirs_pending_entry_recovery := None\<rparr>))) (\<lambda>reconstructed.
          bindp (lift_res (freeze (cfg_first_fill_freezer cfg) reconstructed trade_cycle_id
                             (por_first_fill_at_ms position))) (\<lambda>frozen.
          bindp (repo_save ops frozen) (\<lambda>_.
          journal_trade_cycle_opened cfg (sirs_strategy_instance_id s) trade_cycle_id None
            (por_first_fill_at_ms position) (por_average_entry_price position)
            (por_entry_order_link_id position) (por_entry_order_id position)))))
      | EntryOrderNotFoundRecoveryState \<Rightarrow> cancel_and_clear_only_if_exact_absent cfg P ops s trade_cycle_id
      | _ \<Rightarrow>
          bindp (lift_res (clear_cycle_and_marker s)) (\<lambda>cleared.
          bindp (repo_save ops cleared) (\<lambda>_.
          journal_terminal_without_fill cfg s trade_cycle_id response)))"

definition resolve_uncertain_removal ::
    "config \<Rightarrow> 'e ports \<Rightarrow> 'r repo_ops \<Rightarrow> state \<Rightarrow> CurrentTradeCycle \<Rightarrow> RecoveryStateResponse
       \<Rightarrow> (('r, 'e) world, unit) prog" where
  "resolve_uncertain_removal cfg P ops s current_cycle response =
     (case response of
        PositionOpenRecovery position \<Rightarrow>
          bindp (lift_res (new_StrategyInstanceRuntimeState (s\<lparr>sirs_pending_entry_recovery := None\<rparr>))) (\<lambda>cleared.
          bindp (repo_save ops cleared) (\<lambda>_. ret ()))
      | EntryOrderLiveRecoveryState applied \<Rightarrow>
          cancel_and_clear_only_if_exact_absent cfg P ops s (ctc_trade_cycle_id current_cycle)
      | EntryOrderNotFoundRecoveryState \<Rightarrow> ret ()
      | _ \<Rightarrow>
          bindp (lift_res (clear_cycle_and_marker s)) (\<lambda>cleared.
          bindp (repo_save ops cleared) (\<lambda>_.
          journal_terminal_without_fill cfg s (ctc_trade_cycle_id current_cycle) response)))"

definition attempt_locked ::
    "config \<Rightarrow> 'e ports \<Rightarrow> 'r repo_ops \<Rightarrow> string \<Rightarrow> (('r, 'e) world, unit) prog" where
  "attempt_locked cfg P ops strategy_instance_id =
     bindp (repo_get ops strategy_instance_id) (\<lambda>found.
     case found of
       None \<Rightarrow> ret ()
     | Some s \<Rightarrow>
         if sirs_pending_close_recovery s \<noteq> None then resolve_pending_close cfg P ops s
         else case sirs_pending_entry_recovery s of
           None \<Rightarrow> ret ()
         | Some marker \<Rightarrow>
             tryp (abi_query P strategy_instance_id (per_trade_cycle_id marker))
               (\<lambda>exc. case exc of AbiEntryCycleRecoveryClientError _ \<Rightarrow> ret () | _ \<Rightarrow> raise exc)
               (\<lambda>response.
                  case sirs_current_trade_cycle s of
                    None \<Rightarrow> resolve_uncertain_apply cfg P ops s (per_trade_cycle_id marker) response
                  | Some current_cycle \<Rightarrow> resolve_uncertain_removal cfg P ops s current_cycle response))"

definition attempt :: "config \<Rightarrow> 'e ports \<Rightarrow> 'r repo_ops \<Rightarrow> string \<Rightarrow> (('r, 'e) world, unit) prog" where
  "attempt cfg P ops strategy_instance_id =
     hold strategy_instance_id (attempt_locked cfg P ops strategy_instance_id)"

section \<open>The worker tick\<close>

text \<open>\<open>dict.fromkeys\<close>: duplicates dropped, first occurrence kept.\<close>

definition dict_fromkeys :: "'a list \<Rightarrow> 'a list" where
  "dict_fromkeys xs = rev (remdups (rev xs))"

fun attempt_each :: "config \<Rightarrow> 'e ports \<Rightarrow> 'r repo_ops \<Rightarrow> string list \<Rightarrow> (('r, 'e) world, unit) prog" where
  "attempt_each cfg P ops [] = ret ()"
| "attempt_each cfg P ops (i # is) =
     bindp (ask (p_worker_running P)) (\<lambda>running.
     if \<not> running then ret ()
     else bindp (catchp (attempt cfg P ops i) (\<lambda>e. ret ())) (\<lambda>_. attempt_each cfg P ops is))"

definition tick :: "config \<Rightarrow> 'e ports \<Rightarrow> 'r repo_ops \<Rightarrow> (('r, 'e) world, unit) prog" where
  "tick cfg P ops =
     bindp (\<lambda>w. (ro_list_ids_with_pending_entry_recovery ops (w_repo w), w)) (\<lambda>entry_ids.
     bindp (\<lambda>w. (ro_list_ids_with_pending_close_recovery ops (w_repo w), w)) (\<lambda>close_ids.
     attempt_each cfg P ops (dict_fromkeys (entry_ids @ close_ids))))"

section \<open>First-fill events of the execution service\<close>

record AbiFirstFillExecutionEvent =
  ffe_strategy_instance_id :: string
  ffe_trade_cycle_id :: string
  ffe_first_fill_at_ms :: int

definition new_AbiFirstFillExecutionEvent :: "AbiFirstFillExecutionEvent \<Rightarrow> AbiFirstFillExecutionEvent res" where
  "new_AbiFirstFillExecutionEvent e =
     checked [require_non_empty (ffe_strategy_instance_id e) ''strategy_instance_id'',
              require_non_empty (ffe_trade_cycle_id e) ''trade_cycle_id'',
              (if ffe_first_fill_at_ms e \<le> 0
               then Inl (ValueError ''first_fill_at_ms must be a strictly positive integer'') else Inr ())] e"

definition process_first_fill ::
    "config \<Rightarrow> 'r repo_ops \<Rightarrow> AbiFirstFillExecutionEvent \<Rightarrow> (('r, 'e) world, state) prog" where
  "process_first_fill cfg ops event =
     hold (ffe_strategy_instance_id event)
       (bindp (repo_get ops (ffe_strategy_instance_id event)) (\<lambda>found.
        case found of
          None \<Rightarrow> raise (StrategyInstanceStateError
                     (StrategyInstanceStateNotFound (ffe_strategy_instance_id event)))
        | Some s \<Rightarrow>
            bindp (lift_res (freeze (cfg_first_fill_freezer cfg) s (ffe_trade_cycle_id event)
                               (ffe_first_fill_at_ms event))) (\<lambda>resulting_state.
            if resulting_state = s then ret s else repo_save ops resulting_state)))"


section \<open>Permitted effects\<close>

context state_repository
begin

lemma triple_abi_cancel_try:
  assumes "sirs_strategy_instance_id s = i"
    and "entry_marked s cid \<or> (no_recovery s \<and> has_cycle s cid)"
    and "\<And>v. triple (holding m0 i rest s) (k v) Q E"
    and "\<And>e. triple (holding m0 i rest s) (h e) Q E"
  shows "triple (holding m0 i rest s)
     (tryp (abi_cancel P i cid (rss_instrument (sirs_registered_spec_snapshot s)) (sirs_risk_multiplier s)) h k) Q E"
proof (rule triple_try [where R = "\<lambda>v. holding m0 i rest s" and F = "\<lambda>e. holding m0 i rest s"])
  show "triple (holding m0 i rest s)
     (abi_cancel P i cid (rss_instrument (sirs_registered_spec_snapshot s)) (sirs_risk_multiplier s))
     (\<lambda>v. holding m0 i rest s) (\<lambda>e. holding m0 i rest s)"
    unfolding abi_cancel_def abi_send_def
    by (intro triple_bind_lift triple_post [OF triple_call])
      (use assms(2) in \<open>auto simp: new_EntryPackageRequest_def checked_iff\<close>)
qed (use assms(3,4) in auto)

lemma clear_cycle_step:
  assumes "clear_cycle_and_marker s = Inr s'" and "sirs_pending_entry_recovery s = Some e"
  shows "lifecycle_step s s'" and "\<not> has_cycle s' cid"
proof -
  have s': "s' = s\<lparr>sirs_current_trade_cycle := None, sirs_pending_entry_recovery := None\<rparr>"
    using assms(1) by (simp add: clear_cycle_and_marker_def new_StrategyInstanceRuntimeState_iff)
  show "lifecycle_step s s'"
  proof (cases "sirs_current_trade_cycle s")
    case None
    then have "s' = s\<lparr>sirs_pending_entry_recovery := None\<rparr>" unfolding s' by (cases s) simp
    then show ?thesis using lifecycle_step.clear_marker [OF assms(2)] by simp
  next
    case (Some c)
    then show ?thesis unfolding s' by (rule lifecycle_step.removed) (rule assms(2))
  qed
  show "\<not> has_cycle s' cid" by (simp add: s' has_cycle_def)
qed

lemma triple_clear_and_end:
  assumes "sirs_pending_entry_recovery s = Some e"
  shows "triple (holding m0 i rest s)
      (bindp (lift_res (clear_cycle_and_marker s)) (\<lambda>cleared.
       bindp (repo_save ops cleared) (\<lambda>_. journal_entry_cycle_ended cfg i cid bar reason)))
      (\<lambda>u. elsewhere m0 i rest) (\<lambda>e. elsewhere m0 i rest)"
  by (intro triple_bind_lift triple_save_bind triple_post [OF triple_entry_cycle_ended])
    (auto intro: clear_cycle_step [OF _ assms] holding_elsewhere dest: clear_cycle_step(2) [OF _ assms])

lemma triple_cancel_and_clear:
  assumes m: "sirs_pending_entry_recovery s = Some \<lparr>per_trade_cycle_id = cid\<rparr>"
  shows "triple (holding m0 i rest s) (cancel_and_clear_only_if_exact_absent cfg P ops s cid)
     (\<lambda>u. elsewhere m0 i rest) (\<lambda>e. elsewhere m0 i rest)"
proof (rule triple_holding)
  assume id: "sirs_strategy_instance_id s = i"
  show ?thesis
    unfolding cancel_and_clear_only_if_exact_absent_def id
    by (intro triple_abi_cancel_try id)
      (auto simp: entry_marked_def m intro!: triple_clear_and_end [OF m] triple_ret triple_raise_elsewhere
        intro: holding_elsewhere split: EntryPackageResult.splits exn.splits)
qed

lemma triple_terminal:
  assumes m: "sirs_pending_entry_recovery s = Some e"
  shows "triple (holding m0 i rest s)
     (bindp (lift_res (clear_cycle_and_marker s)) (\<lambda>cleared.
      bindp (repo_save ops cleared) (\<lambda>_. journal_terminal_without_fill cfg s cid response)))
     (\<lambda>u. elsewhere m0 i rest) (\<lambda>e. elsewhere m0 i rest)"
proof (rule triple_holding)
  assume id: "sirs_strategy_instance_id s = i"
  show ?thesis
    unfolding journal_terminal_without_fill_def id
    by (intro triple_bind_lift triple_save_bind triple_if triple_ret triple_post [OF triple_entry_cycle_ended])
      (auto intro: clear_cycle_step [OF _ m] holding_elsewhere dest: clear_cycle_step(2) [OF _ m])
qed

lemma build_cycle_fresh:
  assumes "build_cycle cid applied = Inr c"
  shows "\<exists>d. c = fresh_cycle cid d (rap_calculated_quantity applied) \<and> wf_desired_entry d \<and>
    is_exact_decimal_text (rap_calculated_quantity applied)"
  using assms
  by (auto simp: build_cycle_def res_bind_eq_Inr new_record_iff fresh_cycle_def dest: decode_desired_entry_wf)

lemma triple_resolve_uncertain_apply:
  assumes cyc: "sirs_current_trade_cycle s = None"
    and m: "sirs_pending_entry_recovery s = Some \<lparr>per_trade_cycle_id = cid\<rparr>"
  shows "triple (holding m0 i rest s) (resolve_uncertain_apply cfg P ops s cid response)
     (\<lambda>u. elsewhere m0 i rest) (\<lambda>e. elsewhere m0 i rest)"
proof (cases response)
  case (EntryOrderLiveRecoveryState applied)
  show ?thesis
    unfolding resolve_uncertain_apply_def EntryOrderLiveRecoveryState RecoveryStateResponse.case
    by (intro triple_bind_lift triple_save_bind triple_ret)
      (use lifecycle_step.applied [OF cyc m] in \<open>auto simp: new_record_iff dest!: build_cycle_fresh intro: holding_elsewhere\<close>)
next
  case (PositionOpenRecovery position)
  have step: "lifecycle_step s frozen \<and> filled_at frozen cid t"
    if b: "build_cycle cid applied = Inr c"
      and n: "new_StrategyInstanceRuntimeState
        (s\<lparr>sirs_current_trade_cycle := Some c, sirs_pending_entry_recovery := None\<rparr>) = Inr s1"
      and fr: "freeze fr s1 cid t = Inr frozen" and wf: "wf_state s" for applied c s1 frozen fr t
  proof -
    from build_cycle_fresh [OF b] obtain d where c: "c = fresh_cycle cid d (rap_calculated_quantity applied)"
      "wf_desired_entry d" "is_exact_decimal_text (rap_calculated_quantity applied)" by blast
    have s1: "s1 = s\<lparr>sirs_current_trade_cycle := Some c, sirs_pending_entry_recovery := None\<rparr>"
      using n by (simp add: new_StrategyInstanceRuntimeState_iff)
    have "lifecycle_step s s1" unfolding s1 using lifecycle_step.applied [OF cyc m c(2,3)] c(1) by simp
    then have wf1: "wf_state s1" using wf by (rule lifecycle_step_wf)
    from fr show ?thesis unfolding freeze_def
    proof (cases rule: apply_first_fill_cases)
      case again
      then show ?thesis by (auto simp: s1 c(1) fresh_cycle_def)
    next
      case (first c' f)
      then have c': "c' = fresh_cycle cid d (rap_calculated_quantity applied)" by (simp add: s1 c(1))
      have "wf_desired_entry (fec_desired_entry f)"
        using first(7) c' c(2) by (simp add: coherent_frozen_def)
      with first have f: "wf_frozen f" by (simp add: new_FrozenExecutedEntryContext_iff)
      have "frozen = frozen_with (s\<lparr>sirs_pending_entry_recovery := None\<rparr>) c' f"
        using first(5) by (simp add: s1 frozen_with_def)
      with lifecycle_step.applied_and_filled [OF cyc m c(2,3) f] first(7) c' have "lifecycle_step s frozen"
        by (simp add: s1)
      with first show ?thesis by (simp add: filled_at_def frozen_with_def)
    qed
  qed
  show ?thesis
    unfolding resolve_uncertain_apply_def PositionOpenRecovery RecoveryStateResponse.case journal_trade_cycle_opened_def
    by (rule triple_holding, intro triple_bind_lift triple_save_bind triple_post [OF triple_journal])
      (auto dest: step intro: holding_elsewhere)
qed (use triple_cancel_and_clear [OF m] triple_terminal [OF m] in \<open>simp_all add: resolve_uncertain_apply_def\<close>)

lemma triple_resolve_uncertain_removal:
  assumes cyc: "sirs_current_trade_cycle s = Some c"
    and m: "sirs_pending_entry_recovery s = Some \<lparr>per_trade_cycle_id = ctc_trade_cycle_id c\<rparr>"
  shows "triple (holding m0 i rest s) (resolve_uncertain_removal cfg P ops s c response)
     (\<lambda>u. elsewhere m0 i rest) (\<lambda>e. elsewhere m0 i rest)"
proof (cases response)
  case (PositionOpenRecovery position)
  show ?thesis
    unfolding resolve_uncertain_removal_def PositionOpenRecovery RecoveryStateResponse.case
    by (intro triple_bind_lift triple_save_bind triple_ret)
      (auto intro: clear_marker_step [OF _ m] holding_elsewhere)
qed (use triple_cancel_and_clear [OF m] triple_terminal [OF m] in
      \<open>auto simp: resolve_uncertain_removal_def intro!: triple_ret intro: holding_elsewhere\<close>)

lemma triple_resolve_pending_close:
  assumes m: "sirs_pending_close_recovery s \<noteq> None"
  shows "triple (holding m0 i rest s) (resolve_pending_close cfg P ops s)
     (\<lambda>u. elsewhere m0 i rest) (\<lambda>e. elsewhere m0 i rest)"
proof (rule triple_holding)
  assume id: "sirs_strategy_instance_id s = i" and wf: "wf_state s" and co: "coherent s"
  from m obtain p where p: "sirs_pending_close_recovery s = Some p" by blast
  let ?cid = "pcr_trade_cycle_id p"
  from wf co p have marked: "close_marked s ?cid" "frozen_cycle s ?cid" "sirs_pending_entry_recovery s = None"
    by (auto simp: wf_state_def coherent_def close_marked_def frozen_cycle_def split: option.splits)
  have fin: "lifecycle_step s x \<and> pred_option (\<lambda>k. tcc_strategy_instance_id k = i \<and>
        \<not> has_cycle x (tcc_trade_cycle_id k)) (pcc_closure conf)"
    if "apply_position_management_confirmation s (ClosePosition ?cid g) cmd (CloseConfirmed conf) = Inr x"
      and "pred_option (\<lambda>closure. tcc_strategy_instance_id closure = pcc_strategy_instance_id conf \<and>
           tcc_trade_cycle_id closure = pcc_trade_cycle_id conf) (pcc_closure conf)" for cmd conf x g
    using close_confirmationD [OF that(1)] that(2) id marked(3)
      lifecycle_step.ended [of s] by (auto simp: has_cycle_def option.pred_set)
  have apply_conf: "triple (holding m0 i rest s)
      (case apply_position_management_confirmation s decision (CloseCommand command) (CloseConfirmed conf) of
         Inl (PositionManagementExecutionInvariantError _) \<Rightarrow> ret ()
       | Inl exc \<Rightarrow> raise exc
       | Inr resulting_state \<Rightarrow>
           bindp (repo_save ops resulting_state) (\<lambda>_.
           case pcc_closure conf of
             None \<Rightarrow> ret ()
           | Some closure \<Rightarrow> journal_trade_cycle_closed cfg closure None))
      (\<lambda>u. elsewhere m0 i rest) (\<lambda>e. elsewhere m0 i rest)"
    if "new_ClosePosition ?cid g = Inr decision"
      and k: "typed new_closed_answer err y = (Inr conf, e)" for decision command conf g err y e
  proof (cases "apply_position_management_confirmation s decision (CloseCommand command) (CloseConfirmed conf)")
    case (Inl exc)
    then show ?thesis by (cases exc) (auto intro!: triple_ret triple_raise_elsewhere intro: holding_elsewhere)
  next
    case (Inr x)
    with that(1) have x: "lifecycle_step s x" "pred_option (\<lambda>k. tcc_strategy_instance_id k = i \<and>
        \<not> has_cycle x (tcc_trade_cycle_id k)) (pcc_closure conf)"
      using fin [OF _ abi_close_answer [OF k]] by auto
    show ?thesis
      unfolding Inr sum.case journal_trade_cycle_closed_def
      by (intro triple_save_bind x(1) holding_elsewhere triple_case_option triple_ret
          triple_post [OF triple_journal]) (use x(2) in \<open>auto intro: holding_elsewhere\<close>)
  qed
  show ?thesis
    unfolding resolve_pending_close_def p option.case Let_def abi_close_position_def
    by (intro triple_bind_lift triple_call_try apply_conf)
      (use marked in \<open>auto simp: id new_ClosePositionCommand_def checked_iff
         intro!: triple_ret triple_raise_elsewhere intro: holding_elsewhere split: exn.splits\<close>)
qed

theorem triple_attempt:
  "triple (elsewhere m0 i rest) (attempt cfg P ops i) (\<lambda>u. elsewhere m0 i rest) (\<lambda>e. elsewhere m0 i rest)"
  unfolding attempt_def attempt_locked_def hold_def
proof (intro triple_bind_lift triple_get_any_bind)
  fix s
  have entry: "triple (holding m0 i rest s)
      (tryp (abi_query P i (per_trade_cycle_id marker))
         (\<lambda>exc. case exc of AbiEntryCycleRecoveryClientError _ \<Rightarrow> ret () | _ \<Rightarrow> raise exc)
         (\<lambda>response.
            case sirs_current_trade_cycle s of
              None \<Rightarrow> resolve_uncertain_apply cfg P ops s (per_trade_cycle_id marker) response
            | Some current_cycle \<Rightarrow> resolve_uncertain_removal cfg P ops s current_cycle response))
      (\<lambda>u. elsewhere m0 i rest) (\<lambda>e. elsewhere m0 i rest)"
    if m: "sirs_pending_entry_recovery s = Some marker" for marker
  proof (rule triple_holding)
    assume "wf_state s"
    with m have c: "sirs_pending_entry_recovery s = Some \<lparr>per_trade_cycle_id = ctc_trade_cycle_id c\<rparr>"
      if "sirs_current_trade_cycle s = Some c" for c
      using that by (cases marker) (auto simp: wf_state_def)
    have m': "sirs_pending_entry_recovery s = Some \<lparr>per_trade_cycle_id = per_trade_cycle_id marker\<rparr>"
      using m by simp
    show ?thesis
      unfolding abi_query_def
      by (intro triple_call_try triple_case_option)
        (use m' in \<open>auto simp: entry_marked_def intro!: triple_ret triple_raise_elsewhere
           triple_resolve_uncertain_apply triple_resolve_uncertain_removal c intro: holding_elsewhere split: exn.splits\<close>)
  qed
  show "triple (holding m0 i rest s)
      (case Some s of None \<Rightarrow> ret ()
       | Some s \<Rightarrow>
         if sirs_pending_close_recovery s \<noteq> None then resolve_pending_close cfg P ops s
         else case sirs_pending_entry_recovery s of
           None \<Rightarrow> ret ()
         | Some marker \<Rightarrow>
             tryp (abi_query P i (per_trade_cycle_id marker))
               (\<lambda>exc. case exc of AbiEntryCycleRecoveryClientError _ \<Rightarrow> ret () | _ \<Rightarrow> raise exc)
               (\<lambda>response.
                  case sirs_current_trade_cycle s of
                    None \<Rightarrow> resolve_uncertain_apply cfg P ops s (per_trade_cycle_id marker) response
                  | Some current_cycle \<Rightarrow> resolve_uncertain_removal cfg P ops s current_cycle response))
      (\<lambda>u. elsewhere m0 i rest) (\<lambda>e. elsewhere m0 i rest)"
    unfolding option.case
    by (intro triple_if triple_resolve_pending_close triple_case_option entry)
      (auto intro!: triple_ret intro: holding_elsewhere)
qed (auto intro!: triple_ret)

theorem triple_process_first_fill:
  assumes "ffe_strategy_instance_id event = i"
  shows "triple (elsewhere m0 i rest) (process_first_fill cfg ops event)
     (\<lambda>x. elsewhere m0 i rest) (\<lambda>e. elsewhere m0 i rest)"
  unfolding process_first_fill_def assms hold_def
proof (intro triple_bind_lift triple_get_any_bind)
  fix s
  show "triple (holding m0 i rest s)
      (case Some s of
         None \<Rightarrow> raise (StrategyInstanceStateError (StrategyInstanceStateNotFound i))
       | Some s \<Rightarrow>
           bindp (lift_res (freeze (cfg_first_fill_freezer cfg) s (ffe_trade_cycle_id event)
                              (ffe_first_fill_at_ms event))) (\<lambda>resulting_state.
           if resulting_state = s then ret s else repo_save ops resulting_state))
      (\<lambda>x. elsewhere m0 i rest) (\<lambda>e. elsewhere m0 i rest)"
    unfolding option.case
    by (rule triple_holding, intro triple_bind_lift triple_if triple_ret triple_post [OF triple_save])
      (auto dest: freeze_step intro: holding_elsewhere)
qed (auto intro!: triple_raise)

lemma triple_attempt_each:
  "triple (consistent m0) (attempt_each cfg P ops is) (\<lambda>u. consistent m0) (\<lambda>e. consistent m0)"
proof (induction "is")
  case Nil
  show ?case unfolding attempt_each.simps by (rule triple_ret)
next
  case (Cons i "is")
  have ask: "triple (consistent m0) (ask f) (\<lambda>x. consistent m0) (\<lambda>e. consistent m0)" for f
    by (rule tripleI) (auto simp: ask_def consistent_def split: prod.splits)
  have isolated: "triple (consistent m0) (catchp (attempt cfg P ops i) (\<lambda>e. ret ()))
      (\<lambda>u. consistent m0) (\<lambda>e. consistent m0)"
    by (rule triple_catch [OF triple_any_instance [OF triple_attempt]]) (rule triple_ret)
  show ?case
    unfolding attempt_each.simps
    by (rule triple_bind [OF ask], intro triple_if triple_bind [OF isolated Cons.IH] triple_ret)
qed

theorem triple_tick:
  fixes P :: "'e ports"
  shows "triple (consistent m0) (tick cfg P ops) (\<lambda>u. consistent m0) (\<lambda>e. consistent m0)"
proof -
  have "triple (consistent m0 :: ('r, 'e) world \<Rightarrow> bool) (\<lambda>w. (f (w_repo w), w)) (\<lambda>x. consistent m0) (\<lambda>e. consistent m0)" 
    for f :: "'r \<Rightarrow> string list res"
    by (rule tripleI) auto
  then show ?thesis unfolding tick_def by (intro triple_bind [OF _ triple_bind [OF _ triple_attempt_each]])
qed

end

end
