(* ===== verification/Operator_Control.thy ===== *)
theory Operator_Control
  imports Uncertain_Resolver
begin

text \<open>
  The operator's commands over one instance: the shared cancel step
  (\<open>runtime/enabled_control/cancel_step.py\<close>), enable and disable
  (\<open>runtime/enabled_control/service.py\<close>), close position and cancel entry orders
  (\<open>runtime/operator_commands/service.py\<close>), and delete (\<open>runtime/strategy_delete/service.py\<close>).

  The deployment files are behind two ports: the enabled writer and the trash mover.
\<close>

section \<open>The cancel step\<close>

definition raise_on_lookup_failure :: "exn \<Rightarrow> ('w, 'a) prog" where
  "raise_on_lookup_failure exc =
     (case exc of OpenPositionResolutionError _ \<Rightarrow> raise (EnabledControlRefused AbiUnavailable) | _ \<Rightarrow> raise exc)"

definition cancel_step_run :: "config \<Rightarrow> 'e ports \<Rightarrow> 'r repo_ops \<Rightarrow> string \<Rightarrow> (('r, 'e) world, bool) prog" where
  "cancel_step_run cfg P ops strategy_instance_id =
     bindp (repo_get ops strategy_instance_id) (\<lambda>found.
     case found of
       None \<Rightarrow> ret False
     | Some s \<Rightarrow>
         if sirs_pending_entry_recovery s \<noteq> None \<or> sirs_pending_close_recovery s \<noteq> None
         then raise (EnabledControlRefused RecoveryPending)
         else case sirs_current_trade_cycle s of
           None \<Rightarrow> ret False
         | Some cycle \<Rightarrow>
             bindp (catchp (resolve P s) raise_on_lookup_failure) (\<lambda>resolved.
             if prs_position_open resolved then raise (EnabledControlRefused PositionOpen)
             else if prs_closure resolved \<noteq> None then raise (EnabledControlRefused CycleNotSettled)
             else
               tryp (abi_cancel P strategy_instance_id (ctc_trade_cycle_id cycle)
                       (rss_instrument (sirs_registered_spec_snapshot s)) (sirs_risk_multiplier s))
                 (\<lambda>exc. case exc of AbiEntryPackageClientError _ \<Rightarrow> raise (EnabledControlRefused AbiUnavailable)
                        | _ \<Rightarrow> raise exc)
                 (\<lambda>cancel_result. case cancel_result of
                     PackageAbsent absent \<Rightarrow>
                       if epb_strategy_instance_id absent = strategy_instance_id \<and>
                          epb_trade_cycle_id absent = ctc_trade_cycle_id cycle
                       then bindp (lift_res (new_StrategyInstanceRuntimeState
                                     (s\<lparr>sirs_current_trade_cycle := None\<rparr>))) (\<lambda>cleared.
                            bindp (repo_save ops cleared) (\<lambda>_.
                            bindp (journal_entry_cycle_ended cfg strategy_instance_id
                                     (ctc_trade_cycle_id cycle) None ''disabled'') (\<lambda>_.
                            ret True)))
                       else raise (EnabledControlRefused CancelNotConfirmed)
                   | _ \<Rightarrow> raise (EnabledControlRefused CancelNotConfirmed))))"

section \<open>Shared parts of the services\<close>

text \<open>A snapshot is constructed from constructed deployments.\<close>

definition new_catalog_answer :: "DeploymentCatalogSnapshot \<Rightarrow> DeploymentCatalogSnapshot res" where
  "new_catalog_answer snapshot =
     res_bind (res_map new_DeploymentSpecification (dcs_accepted_deployments snapshot)) (\<lambda>_.
     new_DeploymentCatalogSnapshot snapshot)"

definition load_snapshot :: "'e ports \<Rightarrow> (('r, 'e) world, DeploymentCatalogSnapshot) prog" where
  "load_snapshot P =
     (\<lambda>w. case typed new_catalog_answer (ValueError ''deployment catalog'') (p_load_snapshot P (w_env w)) of
            (x, e) \<Rightarrow> (x, w\<lparr>w_env := e\<rparr>))"

definition deployment_in_catalog :: "'e ports \<Rightarrow> string \<Rightarrow> (('r, 'e) world, DeploymentSpecification) prog" where
  "deployment_in_catalog P strategy_instance_id =
     tryp (load_snapshot P)
       (\<lambda>exc. case exc of DeploymentCatalogUnavailableError \<Rightarrow> raise (EnabledControlRefused CatalogUnavailable)
              | _ \<Rightarrow> raise exc)
       (\<lambda>snapshot. case get_by_strategy_instance_id snapshot strategy_instance_id of
           None \<Rightarrow> raise (EnabledControlRefused StrategyInstanceNotFound)
         | Some deployment \<Rightarrow> ret deployment)"

definition current_enabled :: "'e ports \<Rightarrow> string \<Rightarrow> (('r, 'e) world, bool) prog" where
  "current_enabled P strategy_instance_id =
     bindp (deployment_in_catalog P strategy_instance_id) (\<lambda>d. ret (ds_enabled d))"

definition locked_or_busy ::
    "'e ports \<Rightarrow> string \<Rightarrow> (('r, 'e) world, 'a) prog \<Rightarrow> (('r, 'e) world, 'a) prog" where
  "locked_or_busy P i body =
     catchp (hold_timeout P i body)
       (\<lambda>exc. case exc of StrategyInstanceBusy _ \<Rightarrow> raise (EnabledControlRefused InstanceBusy) | _ \<Rightarrow> raise exc)"

definition write_enabled :: "'e ports \<Rightarrow> string \<Rightarrow> bool \<Rightarrow> (('r, 'e) world, unit) prog" where
  "write_enabled P strategy_instance_id enabled =
     tryp (call (EnabledWrite strategy_instance_id enabled) (p_set_enabled P strategy_instance_id enabled))
       (\<lambda>exc. case exc of
           EnabledFileChangeError DeploymentNotInCatalog \<Rightarrow> raise (EnabledControlRefused StrategyInstanceNotFound)
         | EnabledFileChangeError DeploymentFileChanged \<Rightarrow> raise (EnabledControlRefused FileChanged)
         | EnabledFileChangeError DeploymentIdentityWouldChange \<Rightarrow> raise (EnabledControlRefused IdentityChanged)
         | EnabledFileChangeError _ \<Rightarrow> raise (EnabledControlRefused WriteFailed)
         | _ \<Rightarrow> raise exc)
       (\<lambda>_. ret ())"

section \<open>Enable and disable\<close>

record EnabledChangeResult =
  ecr_strategy_instance_id :: string
  ecr_enabled :: bool
  ecr_cancelled_entry_order :: bool

definition set_enabled_locked ::
    "config \<Rightarrow> 'e ports \<Rightarrow> 'r repo_ops \<Rightarrow> string \<Rightarrow> bool \<Rightarrow> (('r, 'e) world, EnabledChangeResult) prog" where
  "set_enabled_locked cfg P ops strategy_instance_id enabled =
     bindp (current_enabled P strategy_instance_id) (\<lambda>current.
     if current = enabled
     then ret \<lparr>ecr_strategy_instance_id = strategy_instance_id, ecr_enabled = enabled,
               ecr_cancelled_entry_order = False\<rparr>
     else
       bindp (if enabled then ret False else cancel_step_run cfg P ops strategy_instance_id) (\<lambda>cancelled.
       bindp (write_enabled P strategy_instance_id enabled) (\<lambda>_.
       ret \<lparr>ecr_strategy_instance_id = strategy_instance_id, ecr_enabled = enabled,
            ecr_cancelled_entry_order = cancelled\<rparr>)))"

definition set_enabled ::
    "config \<Rightarrow> 'e ports \<Rightarrow> 'r repo_ops \<Rightarrow> string \<Rightarrow> bool \<Rightarrow> (('r, 'e) world, EnabledChangeResult) prog" where
  "set_enabled cfg P ops strategy_instance_id enabled =
     bindp (current_enabled P strategy_instance_id) (\<lambda>_.
     locked_or_busy P strategy_instance_id (set_enabled_locked cfg P ops strategy_instance_id enabled))"

section \<open>Close position, cancel entry orders\<close>

record ClosePositionResult =
  cpr_strategy_instance_id :: string
  cpr_trade_cycle_id :: string
  cpr_enabled :: bool
  cpr_closure_reason :: "string option"

record CancelEntryOrdersResult =
  ceo_strategy_instance_id :: string
  ceo_enabled :: bool
  ceo_cancelled_entry_order :: bool

definition freeze_for_close ::
    "config \<Rightarrow> 'r repo_ops \<Rightarrow> string \<Rightarrow> PositionResolvedState \<Rightarrow> CurrentTradeCycle \<Rightarrow> (('r, 'e) world, state) prog" where
  "freeze_for_close cfg ops strategy_instance_id resolved cycle =
     (if ctc_frozen_entry_context cycle \<noteq> None then ret (prs_runtime_state resolved)
      else case prs_first_fill_at_ms resolved of
        None \<Rightarrow> raise AssertionError
      | Some first_fill_at_ms \<Rightarrow>
          bindp (lift_res (freeze (cfg_first_fill_freezer cfg) (prs_runtime_state resolved)
                             (ctc_trade_cycle_id cycle) first_fill_at_ms)) (\<lambda>frozen.
          bindp (repo_save ops frozen) (\<lambda>s.
          case (prs_average_entry_price resolved, prs_entry_order_link_id resolved) of
            (Some price, Some link) \<Rightarrow>
              bindp (journal_trade_cycle_opened cfg strategy_instance_id (ctc_trade_cycle_id cycle) None
                       first_fill_at_ms price link (prs_entry_order_id resolved)) (\<lambda>_. ret s)
          | _ \<Rightarrow> ret s)))"

definition close_marked_position ::
    "config \<Rightarrow> 'e ports \<Rightarrow> 'r repo_ops \<Rightarrow> string \<Rightarrow> CurrentTradeCycle \<Rightarrow> state
       \<Rightarrow> (('r, 'e) world, ClosePositionResult) prog" where
  "close_marked_position cfg P ops strategy_instance_id cycle s =
     bindp (lift_res (new_ClosePositionCommand
              \<lparr>cpc_strategy_instance_id = strategy_instance_id, cpc_trade_cycle_id = ctc_trade_cycle_id cycle,
               cpc_exposure_fraction = CANONICAL_CLOSE_EXPOSURE_FRACTION\<rparr>)) (\<lambda>command.
     bindp (lift_res (new_PendingCloseRecovery \<lparr>pcr_trade_cycle_id = ctc_trade_cycle_id cycle\<rparr>)) (\<lambda>marker.
     bindp (lift_res (new_StrategyInstanceRuntimeState (s\<lparr>sirs_pending_close_recovery := Some marker\<rparr>))) (\<lambda>marked.
     bindp (repo_save ops marked) (\<lambda>pending.
     tryp (abi_close_position P command)
       (\<lambda>exc. case exc of PositionManagementExecutionError _ \<Rightarrow> raise (EnabledControlRefused AbiUnavailable)
              | _ \<Rightarrow> raise exc)
       (\<lambda>confirmation.
          if pcc_strategy_instance_id confirmation \<noteq> strategy_instance_id \<or>
             pcc_trade_cycle_id confirmation \<noteq> ctc_trade_cycle_id cycle
          then raise (EnabledControlRefused AbiUnavailable)
          else
            bindp (lift_res (new_StrategyInstanceRuntimeState
                     (pending\<lparr>sirs_current_trade_cycle := None, sirs_pending_close_recovery := None\<rparr>))) (\<lambda>closed.
            bindp (repo_save ops closed) (\<lambda>_.
            bindp (case pcc_closure confirmation of None \<Rightarrow> ret ()
                   | Some closure \<Rightarrow> journal_trade_cycle_closed cfg closure None) (\<lambda>_.
            ret \<lparr>cpr_strategy_instance_id = strategy_instance_id,
                 cpr_trade_cycle_id = ctc_trade_cycle_id cycle, cpr_enabled = False,
                 cpr_closure_reason = map_option tcc_reason (pcc_closure confirmation)\<rparr>)))))))) "

definition close_locked ::
    "config \<Rightarrow> 'e ports \<Rightarrow> 'r repo_ops \<Rightarrow> string \<Rightarrow> (('r, 'e) world, ClosePositionResult) prog" where
  "close_locked cfg P ops strategy_instance_id =
     bindp (repo_get ops strategy_instance_id) (\<lambda>found.
     case found of
       None \<Rightarrow> raise (EnabledControlRefused NoPosition)
     | Some s \<Rightarrow>
         if sirs_pending_entry_recovery s \<noteq> None \<or> sirs_pending_close_recovery s \<noteq> None
         then raise (EnabledControlRefused RecoveryPending)
         else if sirs_current_trade_cycle s = None then raise (EnabledControlRefused NoPosition)
         else
           bindp (catchp (resolve P s) raise_on_lookup_failure) (\<lambda>resolved.
           if prs_closure resolved \<noteq> None then raise (EnabledControlRefused CycleNotSettled)
           else if \<not> prs_position_open resolved then raise (EnabledControlRefused NoPosition)
           else case sirs_current_trade_cycle (prs_runtime_state resolved) of
             None \<Rightarrow> raise AssertionError
           | Some cycle \<Rightarrow>
               bindp (freeze_for_close cfg ops strategy_instance_id resolved cycle) (\<lambda>s.
               bindp (write_enabled P strategy_instance_id False) (\<lambda>_.
               close_marked_position cfg P ops strategy_instance_id cycle s))))"

definition close_position ::
    "config \<Rightarrow> 'e ports \<Rightarrow> 'r repo_ops \<Rightarrow> string \<Rightarrow> (('r, 'e) world, ClosePositionResult) prog" where
  "close_position cfg P ops strategy_instance_id =
     bindp (deployment_in_catalog P strategy_instance_id) (\<lambda>_.
     locked_or_busy P strategy_instance_id (close_locked cfg P ops strategy_instance_id))"

definition cancel_entry_orders ::
    "config \<Rightarrow> 'e ports \<Rightarrow> 'r repo_ops \<Rightarrow> string \<Rightarrow> (('r, 'e) world, CancelEntryOrdersResult) prog" where
  "cancel_entry_orders cfg P ops strategy_instance_id =
     bindp (deployment_in_catalog P strategy_instance_id) (\<lambda>_.
     locked_or_busy P strategy_instance_id
       (bindp (cancel_step_run cfg P ops strategy_instance_id) (\<lambda>cancelled.
        bindp (write_enabled P strategy_instance_id False) (\<lambda>_.
        ret \<lparr>ceo_strategy_instance_id = strategy_instance_id, ceo_enabled = False,
             ceo_cancelled_entry_order = cancelled\<rparr>))))"

section \<open>Delete\<close>

record DeleteResult =
  dr_strategy_instance_id :: string
  dr_cancelled_entry_order :: bool
  dr_trash_file :: string

definition delete_guard :: "exn \<Rightarrow> ('w, 'a) prog" where
  "delete_guard exc =
     (case exc of
        EnabledFileChangeError DeploymentNotInCatalog \<Rightarrow> raise (EnabledControlRefused StrategyInstanceNotFound)
      | EnabledFileChangeError DeploymentFileChanged \<Rightarrow> raise (EnabledControlRefused FileChanged)
      | EnabledFileChangeError DeploymentTrashNameTaken \<Rightarrow> raise (EnabledControlRefused TrashNameTaken)
      | EnabledFileChangeError _ \<Rightarrow> raise (EnabledControlRefused MoveFailed)
      | _ \<Rightarrow> raise exc)"

definition read_original :: "'e ports \<Rightarrow> string \<Rightarrow> (('r, 'e) world, string) prog" where
  "read_original P i = (\<lambda>w. case p_read_original P i (w_env w) of (x, e) \<Rightarrow> (x, w\<lparr>w_env := e\<rparr>))"

definition delete_locked ::
    "config \<Rightarrow> 'e ports \<Rightarrow> 'r repo_ops \<Rightarrow> string \<Rightarrow> (('r, 'e) world, DeleteResult) prog" where
  "delete_locked cfg P ops strategy_instance_id =
     bindp (deployment_in_catalog P strategy_instance_id) (\<lambda>deployment.
     if ds_enabled deployment then raise (EnabledControlRefused StillEnabled)
     else
       bindp (catchp (read_original P strategy_instance_id) delete_guard) (\<lambda>original.
       bindp (cancel_step_run cfg P ops strategy_instance_id) (\<lambda>cancelled.
       bindp (catchp (call (TrashMove strategy_instance_id) (p_move_to_trash P strategy_instance_id original))
                delete_guard) (\<lambda>trash_file.
       ret \<lparr>dr_strategy_instance_id = strategy_instance_id, dr_cancelled_entry_order = cancelled,
            dr_trash_file = trash_file\<rparr>))))"

definition delete :: "config \<Rightarrow> 'e ports \<Rightarrow> 'r repo_ops \<Rightarrow> string \<Rightarrow> (('r, 'e) world, DeleteResult) prog" where
  "delete cfg P ops strategy_instance_id =
     bindp (deployment_in_catalog P strategy_instance_id) (\<lambda>_.
     locked_or_busy P strategy_instance_id (delete_locked cfg P ops strategy_instance_id))"


section \<open>Snapshots\<close>

lemma new_catalog_answer_wf:
  assumes "new_catalog_answer s = Inr s'"
  shows "s' = s \<and> wf_catalog s"
proof -
  have "wf_deployment d" if "res_map new_DeploymentSpecification ds = Inr ds'" "d \<in> set ds" for d ds ds'
    using that by (induction ds arbitrary: ds') (auto simp: res_bind_eq_Inr new_DeploymentSpecification_iff)
  with assms show ?thesis
    by (auto simp: new_catalog_answer_def new_DeploymentCatalogSnapshot_def wf_catalog_def res_bind_eq_Inr
        split: if_splits)
qed

lemma load_snapshot_wf: "load_snapshot P w = (Inr s, w') \<Longrightarrow> wf_catalog s"
  by (auto simp: load_snapshot_def split: prod.splits dest!: typed_Inr new_catalog_answer_wf)

section \<open>Permitted effects\<close>

context state_repository
begin

definition settled :: "string \<Rightarrow> ('r, 'e) world \<Rightarrow> bool" where
  "settled i w \<longleftrightarrow> pred_option (\<lambda>s. no_recovery s \<and> sirs_current_trade_cycle s = None) (states (w_repo w) i)"

abbreviation settles :: "(string \<Rightarrow> state option) \<Rightarrow> string \<Rightarrow> (string \<Rightarrow> state option) \<Rightarrow> ('r, 'e) world \<Rightarrow> bool" where
  "settles m0 i rest w \<equiv> elsewhere m0 i rest w \<and> settled i w"

lemma triple_resolve_or_refuse_bind:
  assumes "no_recovery s" and "\<And>r. prs_runtime_state r = s \<Longrightarrow> triple (holding m0 i rest s) (f r) Q E"
    and "\<And>e w. holding m0 i rest s w \<Longrightarrow> E e w"
  shows "triple (holding m0 i rest s) (bindp (catchp (resolve P s) raise_on_lookup_failure) f) Q E"
proof (rule triple_seq [where F = "\<lambda>r. prs_runtime_state r = s" and R = "\<lambda>r. holding m0 i rest s"])
  have "triple (holding m0 i rest s) (bindp (resolve P s) ret)
      (\<lambda>r w. prs_runtime_state r = s \<and> holding m0 i rest s w) (\<lambda>e. holding m0 i rest s)"
    by (rule triple_resolve_bind [OF assms(1)]) (auto intro: triple_ret)
  then show "triple (holding m0 i rest s) (catchp (resolve P s) raise_on_lookup_failure)
      (\<lambda>r w. prs_runtime_state r = s \<and> holding m0 i rest s w) E"
    unfolding bindp_ret_right
    by (rule triple_catch) (auto simp: raise_on_lookup_failure_def intro!: triple_raise assms(3) split: exn.splits)
qed (rule assms(2))

lemma triple_cancel_step_run:
  "triple (elsewhere m0 i rest) (cancel_step_run cfg P ops i)
     (\<lambda>b w. elsewhere m0 i rest w \<and> settled i w) (\<lambda>e. elsewhere m0 i rest)"
  unfolding cancel_step_run_def
proof (rule triple_get_any_bind)
  fix s
  let ?T = "\<lambda>m. triple (holding m0 i rest s) m
     (\<lambda>b w. elsewhere m0 i rest w \<and> settled i w) (\<lambda>e. elsewhere m0 i rest)"
  have fin: "?T (bindp (lift_res (new_StrategyInstanceRuntimeState (s\<lparr>sirs_current_trade_cycle := None\<rparr>))) (\<lambda>cleared.
      bindp (repo_save ops cleared) (\<lambda>_.
      bindp (journal_entry_cycle_ended cfg i cid None ''disabled'') (\<lambda>_. ret True))))"
    if nr: "no_recovery s" and cyc: "sirs_current_trade_cycle s = Some c" for cid c
  proof -
    let ?s = "s\<lparr>sirs_current_trade_cycle := None\<rparr>"
    have same: "sirs_pending_close_recovery s = None" using nr by (simp add: no_recovery_def)
    have "?s\<lparr>sirs_pending_close_recovery := None\<rparr> = ?s" by (cases s) (use same in simp)
    then have step: "lifecycle_step s ?s"
      using lifecycle_step.ended [OF cyc] nr by (auto simp: no_recovery_def)
    show ?thesis
      by (intro triple_bind_lift triple_save_bind triple_bind [OF triple_entry_cycle_ended] triple_ret)
        (use step nr in \<open>auto simp: new_record_iff has_cycle_def settled_def holding_def no_recovery_def\<close>)
  qed
  show "?T (case Some s of
       None \<Rightarrow> ret False
     | Some s \<Rightarrow>
         if sirs_pending_entry_recovery s \<noteq> None \<or> sirs_pending_close_recovery s \<noteq> None
         then raise (EnabledControlRefused RecoveryPending)
         else case sirs_current_trade_cycle s of
           None \<Rightarrow> ret False
         | Some cycle \<Rightarrow>
             bindp (catchp (resolve P s) raise_on_lookup_failure) (\<lambda>resolved.
             if prs_position_open resolved then raise (EnabledControlRefused PositionOpen)
             else if prs_closure resolved \<noteq> None then raise (EnabledControlRefused CycleNotSettled)
             else
               tryp (abi_cancel P i (ctc_trade_cycle_id cycle)
                       (rss_instrument (sirs_registered_spec_snapshot s)) (sirs_risk_multiplier s))
                 (\<lambda>exc. case exc of AbiEntryPackageClientError _ \<Rightarrow> raise (EnabledControlRefused AbiUnavailable)
                        | _ \<Rightarrow> raise exc)
                 (\<lambda>cancel_result. case cancel_result of
                     PackageAbsent absent \<Rightarrow>
                       if epb_strategy_instance_id absent = i \<and>
                          epb_trade_cycle_id absent = ctc_trade_cycle_id cycle
                       then bindp (lift_res (new_StrategyInstanceRuntimeState
                                     (s\<lparr>sirs_current_trade_cycle := None\<rparr>))) (\<lambda>cleared.
                            bindp (repo_save ops cleared) (\<lambda>_.
                            bindp (journal_entry_cycle_ended cfg i
                                     (ctc_trade_cycle_id cycle) None ''disabled'') (\<lambda>_.
                            ret True)))
                       else raise (EnabledControlRefused CancelNotConfirmed)
                   | _ \<Rightarrow> raise (EnabledControlRefused CancelNotConfirmed))))"
    unfolding option.case
  proof (rule triple_holding, intro triple_if triple_raise_elsewhere triple_case_option
      triple_resolve_or_refuse_bind triple_abi_cancel_try)
    fix e :: exn
    show "?T (case e of AbiEntryPackageClientError _ \<Rightarrow> raise (EnabledControlRefused AbiUnavailable) | _ \<Rightarrow> raise e)"
      by (cases e) (auto intro: triple_raise_elsewhere)
  next
    fix v :: EntryPackageResult and c
    assume "\<not> (sirs_pending_entry_recovery s \<noteq> None \<or> sirs_pending_close_recovery s \<noteq> None)"
      and "sirs_current_trade_cycle s = Some c"
    then show "?T (case v of
         PackageAbsent absent \<Rightarrow>
           if epb_strategy_instance_id absent = i \<and> epb_trade_cycle_id absent = ctc_trade_cycle_id c
           then bindp (lift_res (new_StrategyInstanceRuntimeState (s\<lparr>sirs_current_trade_cycle := None\<rparr>))) (\<lambda>cleared.
                bindp (repo_save ops cleared) (\<lambda>_.
                bindp (journal_entry_cycle_ended cfg i (ctc_trade_cycle_id c) None ''disabled'') (\<lambda>_. ret True)))
           else raise (EnabledControlRefused CancelNotConfirmed)
       | _ \<Rightarrow> raise (EnabledControlRefused CancelNotConfirmed))"
      using fin by (cases v) (auto simp: no_recovery_def intro!: triple_raise_elsewhere)
  qed (auto simp: no_recovery_def has_cycle_def settled_def holding_def intro!: triple_ret holding_elsewhere)
qed (auto intro!: triple_ret simp: settled_def)

lemma triple_load_snapshot:
  "triple (elsewhere m0 i rest) (load_snapshot P) (\<lambda>x. elsewhere m0 i rest) (\<lambda>e. elsewhere m0 i rest)"
  "triple (elsewhere m0 i rest) (read_original P j) (\<lambda>x. elsewhere m0 i rest) (\<lambda>e. elsewhere m0 i rest)"
  by (auto intro!: tripleI simp: load_snapshot_def read_original_def elsewhere_def consistent_def split: prod.splits)

lemma triple_deployment_in_catalog:
  "triple (elsewhere m0 i rest) (deployment_in_catalog P j) (\<lambda>d. elsewhere m0 i rest) (\<lambda>e. elsewhere m0 i rest)"
  unfolding deployment_in_catalog_def
  by (rule triple_try [OF triple_load_snapshot(1)])
    (auto intro!: triple_raise triple_ret split: exn.splits option.splits)

lemma triple_current_enabled:
  "triple (elsewhere m0 i rest) (current_enabled P j) (\<lambda>d. elsewhere m0 i rest) (\<lambda>e. elsewhere m0 i rest)"
  unfolding current_enabled_def
  by (rule triple_bind [OF triple_deployment_in_catalog]) (rule triple_ret)

lemma triple_locked_or_busy:
  assumes "triple (elsewhere m0 i rest) body Q (\<lambda>e. elsewhere m0 i rest)"
  shows "triple (elsewhere m0 i rest) (locked_or_busy P j body) Q (\<lambda>e. elsewhere m0 i rest)"
proof -
  have "triple (elsewhere m0 i rest) (hold_timeout P j body) Q (\<lambda>e. elsewhere m0 i rest)"
    unfolding hold_timeout_def
    by (intro triple_bind_lift triple_bind [OF triple_ask(2)] triple_if assms triple_raise)
  then show ?thesis
    unfolding locked_or_busy_def by (rule triple_catch) (auto intro!: triple_raise split: exn.splits)
qed

lemma write_enabled_refusals:
  assumes "\<And>e w. H w \<Longrightarrow> E e w" and "\<And>w. H w \<Longrightarrow> Q () w"
    and "triple H (call (EnabledWrite j b) (p_set_enabled P j b)) (\<lambda>v. H) (\<lambda>e. H)"
  shows "triple H (write_enabled P j b) Q E"
  unfolding write_enabled_def
  by (rule triple_try [OF assms(3)])
    (auto intro!: triple_raise triple_ret assms(1,2) split: exn.splits file_change_error.splits)

lemma triple_write_enabled:
  "triple (elsewhere m0 i rest) (write_enabled P j b) (\<lambda>u. elsewhere m0 i rest) (\<lambda>e. elsewhere m0 i rest)"
  "triple (holding m0 i rest s) (write_enabled P j b) (\<lambda>u. holding m0 i rest s) (\<lambda>e. elsewhere m0 i rest)"
  by (rule write_enabled_refusals, auto intro: holding_elsewhere triple_post [OF triple_call_free(1)]
      triple_post [OF triple_call_free(2)])+

lemma triple_write_enabled_settled:
  "triple (settles m0 i rest) (write_enabled P j b) (\<lambda>u. settles m0 i rest) (\<lambda>e. elsewhere m0 i rest)"
proof (rule write_enabled_refusals)
  have "triple (elsewhere m0 i rest) (call (EnabledWrite j b) (p_set_enabled P j b)) (\<lambda>v. elsewhere m0 i rest) (\<lambda>e. elsewhere m0 i rest)"
    by (auto intro: triple_post [OF triple_call_free(1)])
  then show "triple (settles m0 i rest) (call (EnabledWrite j b) (p_set_enabled P j b)) (\<lambda>v. settles m0 i rest) (\<lambda>e. settles m0 i rest)"
    by (auto simp: triple_def call_def settled_def split: prod.splits)
qed auto

theorem triple_set_enabled:
  "triple (elsewhere m0 i rest) (set_enabled cfg P ops i b) (\<lambda>x. elsewhere m0 i rest) (\<lambda>e. elsewhere m0 i rest)"
  unfolding set_enabled_def set_enabled_locked_def
  by (rule triple_bind [OF triple_current_enabled], rule triple_locked_or_busy,
      rule triple_bind [OF triple_current_enabled], intro triple_if triple_ret triple_bind [OF _ triple_bind [OF triple_write_enabled(1)]])
    (auto intro!: triple_ret intro: triple_post [OF triple_cancel_step_run])

lemma frozen_with_changes:
  assumes "sirs_current_trade_cycle s = Some c" and "ctc_frozen_entry_context c = None"
  shows "frozen_with s c f \<noteq> s"
proof
  assume "frozen_with s c f = s"
  then have "sirs_current_trade_cycle (frozen_with s c f) = Some c" using assms(1) by simp
  then have "ctc_frozen_entry_context (c\<lparr>ctc_frozen_entry_context := Some f\<rparr>) = ctc_frozen_entry_context c"
    by (simp add: frozen_with_def)
  with assms(2) show False by simp
qed

lemma triple_freeze_for_close:
  assumes s: "prs_runtime_state resolved = s" and nr: "no_recovery s" and c: "sirs_current_trade_cycle s = Some c"
  shows "triple (holding m0 i rest s) (freeze_for_close cfg ops i resolved c)
     (\<lambda>x w. (no_recovery x \<and> frozen_cycle x (ctc_trade_cycle_id c)) \<and> holding m0 i rest x w)
     (\<lambda>e. elsewhere m0 i rest)"
  unfolding freeze_for_close_def s journal_trade_cycle_opened_def
proof (rule triple_holding, intro triple_if triple_case_option triple_bind_lift triple_save_bind)
  fix t s' assume wf: "wf_state s" and unfrozen: "\<not> ctc_frozen_entry_context c \<noteq> None"
    and fr: "freeze (cfg_first_fill_freezer cfg) s (ctc_trade_cycle_id c) t = Inr s'"
  from fr have "s' \<noteq> s" unfolding freeze_def
    by (cases rule: apply_first_fill_cases) (use c unfrozen frozen_with_changes [OF c] in auto)
  note step = freeze_step [OF fr wf this]
  then show "lifecycle_step s s'" by simp
  have "no_recovery s' \<and> frozen_cycle s' (ctc_trade_cycle_id c)"
    using step freeze_no_recovery [OF fr] nr by (auto simp: filled_at_def frozen_cycle_def split: option.splits)
  with step show "triple (holding m0 i rest s')
      (case (prs_average_entry_price resolved, prs_entry_order_link_id resolved) of
         (Some price, Some link) \<Rightarrow>
           bindp (journal cfg trade_cycle_opened_journal
             (JTradeCycleOpened i (ctc_trade_cycle_id c) None t price link (prs_entry_order_id resolved))) (\<lambda>_. ret s')
       | _ \<Rightarrow> ret s')
     (\<lambda>x w. (no_recovery x \<and> frozen_cycle x (ctc_trade_cycle_id c)) \<and> holding m0 i rest x w)
     (\<lambda>e. elsewhere m0 i rest)"
    by (auto intro!: triple_journal_bind triple_ret split: option.splits)
qed (use nr c in \<open>auto simp: frozen_cycle_def intro!: triple_ret triple_raise_elsewhere intro: holding_elsewhere\<close>)

lemma triple_close_marked_position:
  assumes nr: "no_recovery s" and fr: "frozen_cycle s (ctc_trade_cycle_id cycle)"
  shows "triple (holding m0 i rest s) (close_marked_position cfg P ops i cycle s)
     (\<lambda>x. settles m0 i rest) (\<lambda>e. elsewhere m0 i rest)"
proof (rule triple_holding)
  assume id: "sirs_strategy_instance_id s = i"
  let ?cid = "ctc_trade_cycle_id cycle"
  let ?ps = "s\<lparr>sirs_pending_close_recovery := Some \<lparr>pcr_trade_cycle_id = ?cid\<rparr>\<rparr>"
  let ?ended = "?ps\<lparr>sirs_current_trade_cycle := None, sirs_pending_close_recovery := None\<rparr>"
  from fr obtain c f where c: "sirs_current_trade_cycle s = Some c" "ctc_trade_cycle_id c = ?cid"
      "ctc_frozen_entry_context c = Some f"
    by (rule frozen_cycleE)
  have mark: "lifecycle_step s ?ps"
    using lifecycle_step.mark_close [OF c(1,3)] nr c(2) by (simp add: no_recovery_def)
  have fin: "lifecycle_step ?ps ?ended"
    using lifecycle_step.ended [of ?ps c] nr c(1) by (simp add: no_recovery_def)
  have over: "settles m0 i rest w" if "holding m0 i rest ?ended w" for w :: "('r, 'e) world"
    using that nr by (auto simp: settled_def holding_def no_recovery_def)
  have answered: "triple (holding m0 i rest ?ps)
      (if pcc_strategy_instance_id k \<noteq> i \<or> pcc_trade_cycle_id k \<noteq> ?cid
       then raise (EnabledControlRefused AbiUnavailable)
       else
         bindp (lift_res (new_StrategyInstanceRuntimeState ?ended)) (\<lambda>closed.
         bindp (repo_save ops closed) (\<lambda>_.
         bindp (case pcc_closure k of None \<Rightarrow> ret () | Some closure \<Rightarrow> journal_trade_cycle_closed cfg closure None) (\<lambda>_.
         ret \<lparr>cpr_strategy_instance_id = i, cpr_trade_cycle_id = ?cid, cpr_enabled = False,
              cpr_closure_reason = map_option tcc_reason (pcc_closure k)\<rparr>))))
      (\<lambda>x. settles m0 i rest) (\<lambda>e. elsewhere m0 i rest)"
    if "typed new_closed_answer err y = (Inr k, e')" for err y k e'
    unfolding journal_trade_cycle_closed_def
    by (intro triple_if triple_raise_elsewhere triple_bind_lift triple_save_bind triple_ret over
        triple_bind [where R = "\<lambda>u. holding m0 i rest ?ended"] triple_case_option triple_journal)
      (use fin abi_close_answer [OF that] in \<open>auto simp: new_record_iff has_cycle_def intro: holding_elsewhere
          intro!: triple_case_option triple_ret triple_journal\<close>)
  have ps: "frozen_cycle ?ps ?cid" "close_marked ?ps ?cid"
    using fr by (simp_all add: frozen_cycle_def close_marked_def)
  show ?thesis
    unfolding close_marked_position_def abi_close_position_def
  proof (intro triple_bind_lift)
    fix command marker marked
    assume "new_ClosePositionCommand \<lparr>cpc_strategy_instance_id = i, cpc_trade_cycle_id = ?cid,
        cpc_exposure_fraction = CANONICAL_CLOSE_EXPOSURE_FRACTION\<rparr> = Inr command"
      and "new_PendingCloseRecovery \<lparr>pcr_trade_cycle_id = ?cid\<rparr> = Inr marker"
      and "new_StrategyInstanceRuntimeState (s\<lparr>sirs_pending_close_recovery := Some marker\<rparr>) = Inr marked"
    then have v: "cpc_strategy_instance_id command = i" "cpc_trade_cycle_id command = ?cid" "marked = ?ps"
      by (auto simp: new_record_iff new_ClosePositionCommand_def checked_iff)
    have call: "about (ClosePut command) = Some i" "allowed ?ps (ClosePut command)" using v ps by simp_all
    have refused: "triple (holding m0 i rest ?ps)
       (case exc of PositionManagementExecutionError _ \<Rightarrow> raise (EnabledControlRefused AbiUnavailable) | _ \<Rightarrow> raise exc)
       (\<lambda>x. settles m0 i rest) (\<lambda>e. elsewhere m0 i rest)" for exc
      by (cases exc) (simp_all add: triple_raise_elsewhere)
    show "triple (holding m0 i rest s)
       (bindp (repo_save ops marked) (\<lambda>pending.
        tryp (call (ClosePut command)
                (\<lambda>e. typed new_closed_answer (PositionManagementExecutionError PositionManagementExecutionProtocolError)
                       (p_close_position P command e)))
          (\<lambda>exc. case exc of PositionManagementExecutionError _ \<Rightarrow> raise (EnabledControlRefused AbiUnavailable)
                 | _ \<Rightarrow> raise exc)
          (\<lambda>k. if pcc_strategy_instance_id k \<noteq> i \<or> pcc_trade_cycle_id k \<noteq> ?cid
               then raise (EnabledControlRefused AbiUnavailable)
               else
                 bindp (lift_res (new_StrategyInstanceRuntimeState
                          (pending\<lparr>sirs_current_trade_cycle := None, sirs_pending_close_recovery := None\<rparr>))) (\<lambda>closed.
                 bindp (repo_save ops closed) (\<lambda>_.
                 bindp (case pcc_closure k of None \<Rightarrow> ret ()
                        | Some closure \<Rightarrow> journal_trade_cycle_closed cfg closure None) (\<lambda>_.
                 ret \<lparr>cpr_strategy_instance_id = i, cpr_trade_cycle_id = ?cid, cpr_enabled = False,
                      cpr_closure_reason = map_option tcc_reason (pcc_closure k)\<rparr>))))))
       (\<lambda>x. settles m0 i rest) (\<lambda>e. elsewhere m0 i rest)"
      unfolding v(3)
      by (intro triple_save_bind mark triple_call_try call answered refused holding_elsewhere)
  qed (auto intro: holding_elsewhere)
qed

theorem close_position_settles:
  "triple (elsewhere m0 i rest) (close_position cfg P ops i) (\<lambda>x. settles m0 i rest) (\<lambda>e. elsewhere m0 i rest)"
  unfolding close_position_def close_locked_def
proof (rule triple_bind [OF triple_deployment_in_catalog], rule triple_locked_or_busy, rule triple_get_any_bind)
  fix s
  let ?T = "\<lambda>m. triple (holding m0 i rest s) m (\<lambda>x. settles m0 i rest) (\<lambda>e. elsewhere m0 i rest)"
  have body: "?T (bindp (freeze_for_close cfg ops i resolved c) (\<lambda>s.
       bindp (write_enabled P i False) (\<lambda>_. close_marked_position cfg P ops i c s)))"
    if "prs_runtime_state resolved = s" "no_recovery s" "sirs_current_trade_cycle s = Some c" for resolved c
    by (rule triple_seq [OF triple_freeze_for_close [OF that]], rule triple_bind [OF triple_write_enabled(2)])
      (blast intro: triple_close_marked_position)
  show "?T (case Some s of
       None \<Rightarrow> raise (EnabledControlRefused NoPosition)
     | Some s \<Rightarrow>
         if sirs_pending_entry_recovery s \<noteq> None \<or> sirs_pending_close_recovery s \<noteq> None
         then raise (EnabledControlRefused RecoveryPending)
         else if sirs_current_trade_cycle s = None then raise (EnabledControlRefused NoPosition)
         else
           bindp (catchp (resolve P s) raise_on_lookup_failure) (\<lambda>resolved.
           if prs_closure resolved \<noteq> None then raise (EnabledControlRefused CycleNotSettled)
           else if \<not> prs_position_open resolved then raise (EnabledControlRefused NoPosition)
           else case sirs_current_trade_cycle (prs_runtime_state resolved) of
             None \<Rightarrow> raise AssertionError
           | Some cycle \<Rightarrow>
               bindp (freeze_for_close cfg ops i resolved cycle) (\<lambda>s.
               bindp (write_enabled P i False) (\<lambda>_.
               close_marked_position cfg P ops i cycle s))))"
    unfolding option.case
    by (intro triple_if triple_raise_elsewhere triple_resolve_or_refuse_bind triple_case_option body)
      (auto simp: no_recovery_def intro: holding_elsewhere)
qed (auto intro!: triple_raise)

theorem cancel_entry_orders_settles:
  "triple (elsewhere m0 i rest) (cancel_entry_orders cfg P ops i)
     (\<lambda>x. settles m0 i rest) (\<lambda>e. elsewhere m0 i rest)"
  unfolding cancel_entry_orders_def
  by (rule triple_bind [OF triple_deployment_in_catalog], rule triple_locked_or_busy,
      rule triple_bind [OF triple_cancel_step_run])
    (auto intro!: triple_bind [OF triple_write_enabled_settled] triple_ret)

lemma triple_trash_move:
  fixes f :: "'e \<Rightarrow> 'a res \<times> 'e"
  shows "triple (settles m0 i rest) (call (TrashMove i) f)
     (\<lambda>x. settles m0 i rest) (\<lambda>e. elsewhere m0 i rest)"
proof -
  have "settles m0 i rest (w\<lparr>w_env := e, w_log := w_log w @ [TrashMove i]\<rparr>)"
    if "elsewhere m0 i rest w" "settled i w" for w :: "('r, 'e) world" and e
    using that consistent_log [of m0 w "TrashMove i" e]
    by (cases "states (w_repo w) i") (auto simp: elsewhere_def settled_def permitted_def)
  then show ?thesis
    by (intro tripleI; auto simp: call_def split: prod.splits)
qed

theorem delete_settles:
  "triple (elsewhere m0 i rest) (delete cfg P ops i) (\<lambda>x. settles m0 i rest) (\<lambda>e. elsewhere m0 i rest)"
proof -
  have guard: "triple (elsewhere m0 i rest) (delete_guard e) Q (\<lambda>e. elsewhere m0 i rest)" for e and Q :: "'z \<Rightarrow> ('r, 'b) world \<Rightarrow> bool"
    by (auto simp: delete_guard_def intro!: triple_raise split: exn.splits file_change_error.splits)
  show ?thesis
    unfolding delete_def delete_locked_def
    by (rule triple_bind [OF triple_deployment_in_catalog], rule triple_locked_or_busy,
        rule triple_bind [OF triple_deployment_in_catalog], intro triple_if triple_raise
        triple_bind [OF triple_catch [OF triple_load_snapshot(2)]] guard
        triple_bind [OF triple_cancel_step_run] triple_bind [OF triple_catch [OF triple_trash_move]] triple_ret)
qed

text \<open>The weaker contracts, for the traces.\<close>

lemma triple_close_position:
  "triple (elsewhere m0 i rest) (close_position cfg P ops i) (\<lambda>x. elsewhere m0 i rest) (\<lambda>e. elsewhere m0 i rest)"
  by (rule triple_post [OF close_position_settles]) auto

lemma triple_cancel_entry_orders:
  "triple (elsewhere m0 i rest) (cancel_entry_orders cfg P ops i) (\<lambda>x. elsewhere m0 i rest) (\<lambda>e. elsewhere m0 i rest)"
  by (rule triple_post [OF cancel_entry_orders_settles]) auto

lemma triple_delete:
  "triple (elsewhere m0 i rest) (delete cfg P ops i) (\<lambda>x. elsewhere m0 i rest) (\<lambda>e. elsewhere m0 i rest)"
  by (rule triple_post [OF delete_settles]) auto

end

end
