(* ===== verification/Committed_Bar.thy ===== *)
theory Committed_Bar
  imports Operator_Control "HOL-Library.Char_ord" "HOL-Library.List_Lexorder"
begin

text \<open>
  \<open>utility/committed_bar/orchestrator.py\<close>: one committed bar fanned out to the selected deployments.

  The class is generic in its dispatcher. The dispatcher is an argument here too, with its contract
  as the locale \<open>cycle_dispatcher\<close>; the strategy runtime orchestrator interprets it. \<open>error_text\<close>
  stands for \<open>str(error) or error.__class__.__name__\<close>. Strings are compared by code point, as
  Python does.
\<close>

section \<open>The orchestrator\<close>

type_synonym ('r, 'e) dispatcher =
  "StrategyBarProcessingUnit \<Rightarrow> (('r, 'e) world, StrategyCycleDispatchOutcome) prog"

definition record_bar :: "journal_record \<Rightarrow> (('r, 'e) world, unit) prog" where
  "record_bar rec = (\<lambda>w. (Inr (), w\<lparr>w_log := w_log w @ [Journal rec]\<rparr>))"

definition prepare ::
    "upstream_stage \<Rightarrow> CommittedBarEvent \<Rightarrow> (('r, 'e) world, 'a) prog \<Rightarrow> (('r, 'e) world, 'a) prog" where
  "prepare stage committed_bar operation =
     catchp operation (\<lambda>error.
       bindp (record_bar (JOrchestrationFailed committed_bar stage error)) (\<lambda>_.
       raise (CommittedBarPreparationError stage)))"

definition dispatch_one ::
    "(exn \<Rightarrow> string) \<Rightarrow> ('r, 'e) dispatcher \<Rightarrow> CommittedBarEvent \<Rightarrow> SelectedDeployment
       \<Rightarrow> (('r, 'e) world, StrategyCycleDispatchOutcome) prog" where
  "dispatch_one error_text dispatcher committed_bar selected =
     tryp (dispatcher \<lparr>unit_strategy_instance_id = sd_strategy_instance_id selected,
                       unit_deployment = sd_deployment selected, unit_committed_bar = committed_bar\<rparr>)
       (\<lambda>error. lift_res (outcome_failed (sd_strategy_instance_id selected)
                            ''strategy_cycle_dispatch_failed'' (Some (error_text error))))
       (\<lambda>outcome.
          if out_strategy_instance_id outcome \<noteq> sd_strategy_instance_id selected
          then lift_res (outcome_failed (sd_strategy_instance_id selected)
                 ''strategy_cycle_outcome_identity_mismatch''
                 (Some ''dispatcher returned an outcome for a different deployment identity''))
          else ret outcome)"

fun dispatch_all ::
    "(exn \<Rightarrow> string) \<Rightarrow> ('r, 'e) dispatcher \<Rightarrow> CommittedBarEvent \<Rightarrow> SelectedDeployment list
       \<Rightarrow> (('r, 'e) world, StrategyCycleDispatchOutcome list) prog" where
  "dispatch_all error_text dispatcher committed_bar [] = ret []"
| "dispatch_all error_text dispatcher committed_bar (selected # rest) =
     bindp (dispatch_one error_text dispatcher committed_bar selected) (\<lambda>outcome.
     bindp (record_bar (JStrategyCycleOutcome committed_bar outcome)) (\<lambda>_.
     bindp (dispatch_all error_text dispatcher committed_bar rest) (\<lambda>outcomes.
     ret (outcome # outcomes))))"

definition build_result :: "StrategyCycleDispatchOutcome list \<Rightarrow> CommittedBarOrchestrationResult res" where
  "build_result outcomes =
     (let succeeded_count = int (length (filter (\<lambda>x. out_status x = SUCCEEDED) outcomes)) in
      new_CommittedBarOrchestrationResult
        \<lparr>cbr_selected_count = int (length outcomes), cbr_attempted_count = int (length outcomes),
         cbr_succeeded_count = succeeded_count, cbr_failed_count = int (length outcomes) - succeeded_count,
         cbr_outcomes = outcomes\<rparr>)"

definition process_bar ::
    "(exn \<Rightarrow> string) \<Rightarrow> 'e ports \<Rightarrow> ('r, 'e) dispatcher \<Rightarrow> CommittedBarEvent
       \<Rightarrow> (('r, 'e) world, CommittedBarOrchestrationResult) prog" where
  "process_bar error_text P dispatcher committed_bar =
     bindp (record_bar (JOrchestrationStarted committed_bar)) (\<lambda>_.
     bindp (prepare DEPLOYMENT_CATALOG committed_bar (load_snapshot P)) (\<lambda>snapshot.
     bindp (prepare DEPLOYMENT_SELECTION committed_bar (lift_res (select committed_bar snapshot))) (\<lambda>selected.
     bindp (dispatch_all error_text dispatcher committed_bar (sort_key sd_strategy_instance_id selected)) (\<lambda>outcomes.
     bindp (lift_res (build_result outcomes)) (\<lambda>result.
     bindp (record_bar (JOrchestrationCompleted committed_bar result)) (\<lambda>_.
     ret result))))))"


section \<open>Every selected deployment is attempted once, in order\<close>

lemma outcome_failed_ok:
  assumes "nonblank i"
  shows "\<exists>x. outcome_failed i code msg = Inr x \<and> out_strategy_instance_id x = i \<and> out_status x = FAILED"
  using assms by (simp add: outcome_failed_def new_StrategyCycleDispatchOutcome_def)

lemma dispatch_one_total:
  assumes "nonblank (sd_strategy_instance_id selected)"
  shows "\<exists>x w'. dispatch_one error_text disp bar selected w = (Inr x, w') \<and>
     out_strategy_instance_id x = sd_strategy_instance_id selected"
proof -
  let ?u = "\<lparr>unit_strategy_instance_id = sd_strategy_instance_id selected,
             unit_deployment = sd_deployment selected, unit_committed_bar = bar\<rparr>"
  have failed: "\<exists>x. outcome_failed (sd_strategy_instance_id selected) code msg = Inr x \<and>
      out_strategy_instance_id x = sd_strategy_instance_id selected" for code msg
    using outcome_failed_ok [OF assms] by blast
  obtain r w' where run: "disp ?u w = (r, w')" by (cases "disp ?u w")
  show ?thesis
  proof (cases r)
    case (Inl e)
    with run failed [of "''strategy_cycle_dispatch_failed''" "Some (error_text e)"] show ?thesis
      by (auto simp: dispatch_one_def tryp_def lift_res_def)
  next
    case (Inr x)
    with run failed [of "''strategy_cycle_outcome_identity_mismatch''"
        "Some ''dispatcher returned an outcome for a different deployment identity''"] show ?thesis
      by (cases "out_strategy_instance_id x = sd_strategy_instance_id selected")
        (auto simp: dispatch_one_def tryp_def lift_res_def ret_def)
  qed
qed

lemma dispatch_all_total:
  assumes "\<forall>d \<in> set selected. nonblank (sd_strategy_instance_id d)"
  shows "\<exists>xs w'. dispatch_all error_text disp bar selected w = (Inr xs, w') \<and>
     map out_strategy_instance_id xs = map sd_strategy_instance_id selected"
  using assms
proof (induction selected arbitrary: w)
  case Nil
  then show ?case by (simp add: ret_def)
next
  case (Cons d ds)
  from dispatch_one_total [of d error_text disp bar w] Cons.prems obtain x w1 where
    1: "dispatch_one error_text disp bar d w = (Inr x, w1)" "out_strategy_instance_id x = sd_strategy_instance_id d"
    by auto
  let ?w2 = "w1\<lparr>w_log := w_log w1 @ [Journal (JStrategyCycleOutcome bar x)]\<rparr>"
  from Cons.IH [of ?w2] Cons.prems obtain xs w3 where
    "dispatch_all error_text disp bar ds ?w2 = (Inr xs, w3)"
    "map out_strategy_instance_id xs = map sd_strategy_instance_id ds" by auto
  with 1 show ?case by (simp add: bindp_def record_bar_def ret_def)
qed

lemma build_result_ok:
  "\<exists>r. build_result xs = Inr r \<and> cbr_outcomes r = xs \<and>
     cbr_selected_count r = int (length xs) \<and> cbr_attempted_count r = int (length xs) \<and>
     cbr_succeeded_count r = int (length (filter (\<lambda>x. out_status x = SUCCEEDED) xs)) \<and>
     cbr_failed_count r = int (length (filter (\<lambda>x. out_status x = FAILED) xs))"
proof -
  have "length (filter (\<lambda>x. out_status x = SUCCEEDED) xs) + length (filter (\<lambda>x. out_status x = FAILED) xs) = length xs"
  proof (induction xs)
    case (Cons x xs)
    then show ?case by (cases "out_status x") simp_all
  qed simp
  then have "int (length xs) = int (length (filter (\<lambda>x. out_status x = SUCCEEDED) xs)) +
      int (length (filter (\<lambda>x. out_status x = FAILED) xs))" by simp
  then show ?thesis by (simp add: build_result_def new_CommittedBarOrchestrationResult_def Let_def)
qed

lemma sort_key_map: "map f (sort_key f xs) = sort (map f xs)"
  by (rule sym, rule properties_for_sort) simp_all

lemma process_bar_loaded:
  assumes "load_snapshot P (w\<lparr>w_log := w_log w @ [Journal (JOrchestrationStarted bar)]\<rparr>) = (Inr snapshot, w1)"
  shows "\<exists>result w'. process_bar error_text P disp bar w = (Inr result, w') \<and>
     map out_strategy_instance_id (cbr_outcomes result) =
       sort (map ds_strategy_instance_id (filter (bar_matches bar) (dcs_accepted_deployments snapshot))) \<and>
     cbr_selected_count result = int (length (cbr_outcomes result)) \<and>
     cbr_attempted_count result = int (length (cbr_outcomes result)) \<and>
     cbr_succeeded_count result = int (length (filter (\<lambda>x. out_status x = SUCCEEDED) (cbr_outcomes result))) \<and>
     cbr_failed_count result = int (length (filter (\<lambda>x. out_status x = FAILED) (cbr_outcomes result)))"
proof -
  let ?ds = "filter (bar_matches bar) (dcs_accepted_deployments snapshot)"
  let ?sel = "map (\<lambda>d. \<lparr>sd_strategy_instance_id = ds_strategy_instance_id d, sd_deployment = d\<rparr>) ?ds"
  have wf: "\<forall>d \<in> set (dcs_accepted_deployments snapshot). wf_deployment d"
    using load_snapshot_wf [OF assms] by (simp add: wf_catalog_def)
  have sel: "select bar snapshot = Inr ?sel" by (rule select_spec [OF wf])
  have "\<forall>d \<in> set (sort_key sd_strategy_instance_id ?sel). nonblank (sd_strategy_instance_id d)"
    using wf by (auto simp: wf_deployment_def)
  from dispatch_all_total [OF this, of error_text disp bar w1] obtain xs w2 where
    run: "dispatch_all error_text disp bar (sort_key sd_strategy_instance_id ?sel) w1 = (Inr xs, w2)"
    and ids: "map out_strategy_instance_id xs = map sd_strategy_instance_id (sort_key sd_strategy_instance_id ?sel)"
    by blast
  from build_result_ok [of xs] obtain r where r: "build_result xs = Inr r" "cbr_outcomes r = xs"
      "cbr_selected_count r = int (length xs)" "cbr_attempted_count r = int (length xs)"
      "cbr_succeeded_count r = int (length (filter (\<lambda>x. out_status x = SUCCEEDED) xs))"
      "cbr_failed_count r = int (length (filter (\<lambda>x. out_status x = FAILED) xs))" by blast
  have "map out_strategy_instance_id xs = sort (map ds_strategy_instance_id ?ds)"
    by (simp add: ids sort_key_map comp_def)
  with assms sel run r show ?thesis
    by (simp add: process_bar_def bindp_def record_bar_def prepare_def catchp_def lift_res_def ret_def)
qed

section \<open>The dispatcher's contract\<close>

fun bar_record :: "journal_record \<Rightarrow> bool" where
  "bar_record (JOrchestrationStarted bar) = True"
| "bar_record (JStrategyCycleOutcome bar outcome) = True"
| "bar_record (JOrchestrationCompleted bar result) = True"
| "bar_record (JOrchestrationFailed bar stage e) = True"
| "bar_record x = False"

text \<open>What the fan-out relies on: a dispatched cycle keeps the property \<open>I\<close> of the world whether it
  returns or raises, and \<open>I\<close> depends neither on the catalog's answers nor on the bar's own records.\<close>

locale cycle_dispatcher =
  fixes dispatcher :: "('r, 'e) dispatcher" and I :: "('r, 'e) world \<Rightarrow> bool"
  assumes dispatch_keeps: "triple I (dispatcher unit) (\<lambda>x. I) (\<lambda>e. I)"
    and record_keeps: "I w \<Longrightarrow> bar_record rec \<Longrightarrow> I (w\<lparr>w_log := w_log w @ [Journal rec]\<rparr>)"
    and environment_keeps: "I w \<Longrightarrow> I (w\<lparr>w_env := e\<rparr>)"
begin

lemma triple_record_bar: "bar_record rec \<Longrightarrow> triple I (record_bar rec) (\<lambda>u. I) (\<lambda>e. I)"
  by (rule tripleI) (auto simp: record_bar_def intro: record_keeps)

lemma triple_prepare:
  assumes "triple I m (\<lambda>x. I) (\<lambda>e. I)"
  shows "triple I (prepare stage bar m) (\<lambda>x. I) (\<lambda>e. I)"
  unfolding prepare_def
  by (rule triple_catch [OF assms], rule triple_bind [OF triple_record_bar]) (auto intro: triple_raise)

lemma triple_dispatch_one: "triple I (dispatch_one error_text dispatcher bar d) (\<lambda>x. I) (\<lambda>e. I)"
  unfolding dispatch_one_def
  by (rule triple_try [OF dispatch_keeps], rule triple_lift_res) (auto intro: triple_lift_res triple_ret)

lemma triple_dispatch_all: "triple I (dispatch_all error_text dispatcher bar ds) (\<lambda>xs. I) (\<lambda>e. I)"
proof (induction ds)
  case Nil
  show ?case unfolding dispatch_all.simps by (rule triple_ret)
next
  case (Cons d ds)
  show ?case
    unfolding dispatch_all.simps
    by (intro triple_bind [OF triple_dispatch_one] triple_bind [OF triple_record_bar]
        triple_bind [OF Cons.IH] triple_ret) simp_all
qed

lemma triple_process_bar: "triple I (process_bar error_text P dispatcher bar) (\<lambda>x. I) (\<lambda>e. I)"
proof -
  have load: "triple I (load_snapshot P) (\<lambda>x. I) (\<lambda>e. I)"
    by (rule tripleI) (auto simp: load_snapshot_def intro: environment_keeps split: prod.splits)
  show ?thesis
    unfolding process_bar_def
    by (intro triple_bind [OF triple_record_bar] triple_bind [OF triple_prepare [OF load]]
        triple_bind [OF triple_prepare [OF triple_lift_res]] triple_bind [OF triple_dispatch_all]
        triple_bind_lift triple_ret) simp_all
qed

end

text \<open>The strategy runtime orchestrator over any repository keeps the invariant of the world.\<close>

sublocale state_repository \<subseteq> dispatching: cycle_dispatcher "dispatch cfg P ops" "consistent m0" for cfg P m0
proof
  show "triple (consistent m0) (dispatch cfg P ops unit) (\<lambda>x. consistent m0) (\<lambda>e. consistent m0)" for unit
    unfolding dispatch_def
    by (rule triple_bind [OF triple_any_instance [OF triple_process [OF refl]] triple_lift_res])
next
  fix w :: "('r, 'b) world" and rec
  assume "consistent m0 w" "bar_record rec"
  moreover from this have "permitted m (Journal rec)" for m by (cases rec) (auto simp: permitted_def)
  ultimately show "consistent m0 (w\<lparr>w_log := w_log w @ [Journal rec]\<rparr>)"
    using consistent_log [of m0 w "Journal rec" "w_env w"] by simp
qed (auto simp: consistent_def)

end
