(* ===== verification/Trading_State.thy ===== *)
theory Trading_State
  imports Operator_Control
begin

text \<open>
  \<open>runtime/trading_state/service.py\<close>: the read-only view of the stored trade state of every accepted
  deployment.
\<close>

section \<open>The view\<close>

datatype TradeState = FLAT | ENTRY_PENDING | IN_POSITION

datatype RecoveryPendingKind = EntryRecovery | CloseRecovery

record StrategyInstanceTradingState =
  ts_strategy_instance_id :: string
  ts_trade_state :: TradeState
  ts_trade_cycle_id :: "string option"
  ts_side :: "string option"
  ts_first_fill_at_ms :: "int option"
  ts_recovery_pending :: "RecoveryPendingKind option"

definition describe :: "string \<Rightarrow> state option \<Rightarrow> StrategyInstanceTradingState" where
  "describe strategy_instance_id found =
     (case found of
        None \<Rightarrow> \<lparr>ts_strategy_instance_id = strategy_instance_id, ts_trade_state = FLAT,
                 ts_trade_cycle_id = None, ts_side = None, ts_first_fill_at_ms = None,
                 ts_recovery_pending = None\<rparr>
      | Some s \<Rightarrow>
          let recovery = (if sirs_pending_entry_recovery s \<noteq> None then Some EntryRecovery
                          else if sirs_pending_close_recovery s \<noteq> None then Some CloseRecovery else None) in
          (case sirs_current_trade_cycle s of
             None \<Rightarrow> \<lparr>ts_strategy_instance_id = strategy_instance_id, ts_trade_state = FLAT,
                      ts_trade_cycle_id = None, ts_side = None, ts_first_fill_at_ms = None,
                      ts_recovery_pending = recovery\<rparr>
           | Some cycle \<Rightarrow>
               \<lparr>ts_strategy_instance_id = strategy_instance_id,
                ts_trade_state = (if ctc_frozen_entry_context cycle = None then ENTRY_PENDING else IN_POSITION),
                ts_trade_cycle_id = Some (ctc_trade_cycle_id cycle),
                ts_side = Some (de_side (cycle_desired_entry cycle)),
                ts_first_fill_at_ms = map_option fec_first_fill_at_ms (ctc_frozen_entry_context cycle),
                ts_recovery_pending = recovery\<rparr>))"

text \<open>The repository read, and the errors the service turns into its own.\<close>

definition state_read_error :: "exn \<Rightarrow> exn" where
  "state_read_error exc =
     (case exc of
        StrategyInstanceStateError _ \<Rightarrow> TradingStateError StateUnavailable
      | OSError _ \<Rightarrow> TradingStateError StateUnavailable
      | ValueError _ \<Rightarrow> TradingStateError StateUnavailable
      | _ \<Rightarrow> exc)"

fun describe_each :: "'r repo_ops \<Rightarrow> DeploymentSpecification list
    \<Rightarrow> (('r, 'e) world, StrategyInstanceTradingState list) prog" where
  "describe_each ops [] = ret []"
| "describe_each ops (deployment # rest) =
     bindp (catchp (repo_get ops (ds_strategy_instance_id deployment)) (\<lambda>exc. raise (state_read_error exc))) (\<lambda>found.
     bindp (describe_each ops rest) (\<lambda>items.
     ret (describe (ds_strategy_instance_id deployment) found # items)))"

definition list_trading_states ::
    "'e ports \<Rightarrow> 'r repo_ops \<Rightarrow> (('r, 'e) world, StrategyInstanceTradingState list) prog" where
  "list_trading_states P ops =
     tryp (load_snapshot P)
       (\<lambda>exc. case exc of
           DeploymentCatalogUnavailableError \<Rightarrow> raise (TradingStateError TradingStateCatalogUnavailable)
         | _ \<Rightarrow> raise exc)
       (\<lambda>snapshot. describe_each ops (dcs_accepted_deployments snapshot))"

section \<open>The view reads and does not write\<close>

context state_repository
begin

lemma describe_each_reads:
  assumes "inv (w_repo w)" and "describe_each ops ds w = (x, w')"
  shows "w' = w \<and> (\<forall>items. x = Inr items \<longrightarrow>
     items = map (\<lambda>d. describe (ds_strategy_instance_id d) (states (w_repo w) (ds_strategy_instance_id d))) ds)"
  using assms(2)
proof (induction ds arbitrary: x w')
  case Nil
  then show ?case by (auto simp: ret_def)
next
  case (Cons d ds)
  obtain y w1 where get: "repo_get ops (ds_strategy_instance_id d) w = (y, w1)"
    by (cases "repo_get ops (ds_strategy_instance_id d) w")
  obtain z w2 where rest: "describe_each ops ds w = (z, w2)" by (cases "describe_each ops ds w")
  from Cons.IH [OF rest] have "w2 = w" by simp
  show ?case
  proof (cases y)
    case (Inl e)
    with get repo_get_InlD [of "ds_strategy_instance_id d" w e w1] assms(1) Cons.prems show ?thesis
      by (auto simp: bindp_def catchp_def raise_def)
  next
    case (Inr found)
    with get repo_get_InrD [of "ds_strategy_instance_id d" w found w1] assms(1)
    have "found = states (w_repo w) (ds_strategy_instance_id d)" "w1 = w" by auto
    with Cons.IH [OF rest] rest Cons.prems get Inr show ?thesis
      by (cases z) (auto simp: bindp_def catchp_def ret_def)
  qed
qed

lemma list_trading_states_reads:
  assumes "inv (w_repo w)" and "list_trading_states P ops w = (x, w')"
  shows "w_repo w' = w_repo w \<and> w_log w' = w_log w \<and>
    (\<forall>items. x = Inr items \<longrightarrow> (\<exists>snapshot w1. load_snapshot P w = (Inr snapshot, w1) \<and>
       items = map (\<lambda>d. describe (ds_strategy_instance_id d) (states (w_repo w) (ds_strategy_instance_id d)))
                 (dcs_accepted_deployments snapshot)))"
proof -
  obtain y w1 where load: "load_snapshot P w = (y, w1)" by (cases "load_snapshot P w")
  then have w1: "w_repo w1 = w_repo w" "w_log w1 = w_log w"
    by (auto simp: load_snapshot_def split: prod.splits)
  show ?thesis
  proof (cases y)
    case (Inl e)
    with load assms(2) w1 show ?thesis
      by (auto simp: list_trading_states_def tryp_def raise_def split: exn.splits)
  next
    case (Inr snapshot)
    with load assms(2) have "describe_each ops (dcs_accepted_deployments snapshot) w1 = (x, w')"
      by (simp add: list_trading_states_def tryp_def)
    from describe_each_reads [OF _ this] w1 assms(1) load Inr show ?thesis by auto
  qed
qed

end

end
