(* ===== verification/Committed_Bar_Intake.thy ===== *)
theory Committed_Bar_Intake
  imports Deployments
begin

text \<open>
  \<open>runtime/committed_bar_intake\<close>: the bounded FIFO boundary between the HTTP handler and the single
  consumer thread, and the life cycle of that worker. The resolver's worker
  (\<open>runtime/uncertain_exchange_state_resolver/worker.py\<close>) has the same start and stop protocol.

  The boundary's methods are functions on a record of its fields; each runs under a lock, so it is
  one step. The threads are interleaved by the step relation \<open>intake_step\<close>: the HTTP handlers put
  events, the consumer thread gets, checks and processes, and another thread starts and stops it.
\<close>

section \<open>The boundary\<close>

text \<open>\<open>queue.Queue\<close>: its items, its bound, and its count of unfinished tasks.\<close>

record boundary =
  bq_maxsize :: int
  bq_items :: "CommittedBarEvent list"
  bq_unfinished_tasks :: int
  bq_accepting :: bool

definition new_boundary :: "int \<Rightarrow> boundary res" where
  "new_boundary capacity =
     (if capacity \<le> 0 then Inl (ValueError ''CommittedBarIntakeBoundary capacity must be a positive int'')
      else Inr \<lparr>bq_maxsize = capacity, bq_items = [], bq_unfinished_tasks = 0, bq_accepting = True\<rparr>)"

definition put_nowait :: "CommittedBarEvent \<Rightarrow> boundary \<Rightarrow> unit res \<times> boundary" where
  "put_nowait event b =
     (if \<not> bq_accepting b then (Inl IntakeNotAccepting, b)
      else if 0 < bq_maxsize b \<and> bq_maxsize b \<le> int (length (bq_items b)) then (Inl QueueFull, b)
      else (Inr (), b\<lparr>bq_items := bq_items b @ [event], bq_unfinished_tasks := bq_unfinished_tasks b + 1\<rparr>))"

definition stop_accepting :: "boundary \<Rightarrow> boundary" where
  "stop_accepting b = b\<lparr>bq_accepting := False\<rparr>"

text \<open>A \<open>get\<close> whose timeout passed on an empty queue raises \<open>queue.Empty\<close>.\<close>

definition get_event :: "boundary \<Rightarrow> CommittedBarEvent res \<times> boundary" where
  "get_event b =
     (case bq_items b of
        [] \<Rightarrow> (Inl QueueEmpty, b)
      | event # rest \<Rightarrow> (Inr event, b\<lparr>bq_items := rest\<rparr>))"

definition task_done :: "boundary \<Rightarrow> unit res \<times> boundary" where
  "task_done b =
     (if bq_unfinished_tasks b \<le> 0 then (Inl (ValueError ''task_done() called too many times''), b)
      else (Inr (), b\<lparr>bq_unfinished_tasks := bq_unfinished_tasks b - 1\<rparr>))"

section \<open>The worker's life cycle\<close>

datatype worker_state = NOT_STARTED | RUNNING | STOPPING | STOPPED

text \<open>\<open>start\<close>: \<open>starts\<close> says whether the operating system could start the thread.\<close>

definition worker_start :: "bool \<Rightarrow> worker_state \<Rightarrow> unit res \<times> worker_state" where
  "worker_start starts st =
     (if st \<noteq> NOT_STARTED then (Inl (RuntimeError ''start() called more than once''), st)
      else if starts then (Inr (), RUNNING)
      else (Inl (RuntimeError ''can't start new thread''), STOPPED))"

text \<open>The part of \<open>stop_once\<close> before the join: whether a join is owed, and the new state.\<close>

definition stop_begin :: "worker_state \<Rightarrow> bool \<times> worker_state" where
  "stop_begin st =
     (case st of
        NOT_STARTED \<Rightarrow> (False, STOPPED)
      | STOPPED \<Rightarrow> (False, STOPPED)
      | _ \<Rightarrow> (True, STOPPING))"

section \<open>The threads\<close>

text \<open>Where the consumer thread is: not there, about to get, holding an event it has not yet
  checked the state for, processing an event, returned.\<close>

datatype consumer = NoThread | Polling | Taken CommittedBarEvent | Processing CommittedBarEvent | Returned

record intake =
  in_boundary :: boundary
  in_state :: worker_state
  in_consumer :: consumer
  in_joining :: bool
  in_accepted :: "CommittedBarEvent list"
  in_processed :: "CommittedBarEvent list"

text \<open>\<open>in_accepted\<close> and \<open>in_processed\<close> are histories: the events whose \<open>put_nowait\<close> returned, and those
  handed to the orchestrator.\<close>

inductive intake_step :: "intake \<Rightarrow> intake \<Rightarrow> bool" where
  put: "put_nowait event (in_boundary t) = (Inr (), b) \<Longrightarrow>
     intake_step t (t\<lparr>in_boundary := b, in_accepted := in_accepted t @ [event]\<rparr>)"
| close_intake: "intake_step t (t\<lparr>in_boundary := stop_accepting (in_boundary t)\<rparr>)"
| start: "worker_start starts (in_state t) = (r, st) \<Longrightarrow>
     intake_step t (t\<lparr>in_state := st, in_consumer := (if r = Inr () then Polling else in_consumer t)\<rparr>)"
| stop: "\<not> in_joining t \<Longrightarrow> stop_begin (in_state t) = (join, st) \<Longrightarrow>
     intake_step t (t\<lparr>in_state := st, in_joining := join\<rparr>)"
| joined: "in_joining t \<Longrightarrow> in_consumer t = Returned \<Longrightarrow>
     intake_step t (t\<lparr>in_state := STOPPED, in_joining := False\<rparr>)"
| poll_empty: "in_consumer t = Polling \<Longrightarrow> get_event (in_boundary t) = (Inl e, b) \<Longrightarrow>
     intake_step t (t\<lparr>in_consumer := (if in_state t \<noteq> RUNNING then Returned else Polling)\<rparr>)"
| poll: "in_consumer t = Polling \<Longrightarrow> get_event (in_boundary t) = (Inr event, b) \<Longrightarrow>
     intake_step t (t\<lparr>in_boundary := b, in_consumer := Taken event\<rparr>)"
| abandon: "in_consumer t = Taken event \<Longrightarrow> in_state t \<noteq> RUNNING \<Longrightarrow> task_done (in_boundary t) = (r, b) \<Longrightarrow>
     intake_step t (t\<lparr>in_boundary := b, in_consumer := Returned\<rparr>)"
| begin_process: "in_consumer t = Taken event \<Longrightarrow> in_state t = RUNNING \<Longrightarrow>
     intake_step t (t\<lparr>in_consumer := Processing event, in_processed := in_processed t @ [event]\<rparr>)"
| end_process: "in_consumer t = Processing event \<Longrightarrow> task_done (in_boundary t) = (r, b) \<Longrightarrow>
     intake_step t (t\<lparr>in_boundary := b, in_consumer := Polling\<rparr>)"

definition initial_intake :: "boundary \<Rightarrow> intake" where
  "initial_intake b = \<lparr>in_boundary = b, in_state = NOT_STARTED, in_consumer = NoThread, in_joining = False,
     in_accepted = [], in_processed = []\<rparr>"

inductive intake_reachable :: "int \<Rightarrow> intake \<Rightarrow> bool" where
  init: "new_boundary capacity = Inr b \<Longrightarrow> intake_reachable capacity (initial_intake b)"
| step: "intake_reachable capacity t \<Longrightarrow> intake_step t t' \<Longrightarrow> intake_reachable capacity t'"

section \<open>The queue's contract\<close>

text \<open>The boundary as an abstract bounded queue: what the producers and the consumer rely on.\<close>

locale bounded_queue =
  fixes put :: "'a \<Rightarrow> 'q \<Rightarrow> unit res \<times> 'q" and get :: "'q \<Rightarrow> 'a res \<times> 'q"
    and items :: "'q \<Rightarrow> 'a list" and room :: "'q \<Rightarrow> bool" and limit :: "'q \<Rightarrow> int" and inv :: "'q \<Rightarrow> bool"
  assumes put_law: "inv q \<Longrightarrow> put x q = (r, q') \<Longrightarrow>
      inv q' \<and> limit q' = limit q \<and>
      (if room q then r = Inr () \<and> items q' = items q @ [x] else (\<exists>e. r = Inl e) \<and> q' = q)"
    and get_law: "inv q \<Longrightarrow> get q = (v, q') \<Longrightarrow>
      inv q' \<and> limit q' = limit q \<and>
      (case items q of [] \<Rightarrow> (\<exists>e. v = Inl e) \<and> q' = q | y # ys \<Rightarrow> v = Inr y \<and> items q' = ys)"
    and limit_law: "inv q \<Longrightarrow> int (length (items q)) \<le> limit q"
begin

fun put_all :: "'a list \<Rightarrow> 'q \<Rightarrow> 'a list \<times> 'q" where
  "put_all [] q = ([], q)"
| "put_all (x # xs) q =
     (case put x q of
        (Inr _, q') \<Rightarrow> (case put_all xs q' of (ys, q'') \<Rightarrow> (x # ys, q''))
      | (Inl _, q') \<Rightarrow> put_all xs q')"

text \<open>A burst of puts appends the accepted ones in order and keeps the bound.\<close>

lemma put_all_fifo:
  assumes "inv q" and "put_all xs q = (ys, q')"
  shows "inv q' \<and> items q' = items q @ ys \<and> int (length (items q')) \<le> limit q"
proof -
  have "inv q' \<and> items q' = items q @ ys \<and> limit q' = limit q"
    using assms
  proof (induction xs arbitrary: q ys q')
    case (Cons x xs)
    obtain r q1 where p: "put x q = (r, q1)" by (cases "put x q")
    obtain zs q2 where rest: "put_all xs q1 = (zs, q2)" by (cases "put_all xs q1")
    note law = put_law [OF Cons.prems(1) p]
    with Cons.IH [OF _ rest] Cons.prems(2) p rest show ?case
      by (cases r) (auto split: if_splits)
  qed simp
  with limit_law show ?thesis by metis
qed

end

definition boundary_inv :: "boundary \<Rightarrow> bool" where
  "boundary_inv b \<longleftrightarrow> 0 < bq_maxsize b \<and> int (length (bq_items b)) \<le> bq_maxsize b \<and>
     int (length (bq_items b)) \<le> bq_unfinished_tasks b"

definition boundary_room :: "boundary \<Rightarrow> bool" where
  "boundary_room b \<longleftrightarrow> bq_accepting b \<and> int (length (bq_items b)) < bq_maxsize b"

interpretation intake_queue: bounded_queue put_nowait get_event bq_items boundary_room bq_maxsize boundary_inv
proof
  fix b x r b'
  assume "boundary_inv b" "put_nowait x b = (r, b')"
  then show "boundary_inv b' \<and> bq_maxsize b' = bq_maxsize b \<and>
      (if boundary_room b then r = Inr () \<and> bq_items b' = bq_items b @ [x] else (\<exists>e. r = Inl e) \<and> b' = b)"
    by (auto simp: put_nowait_def boundary_inv_def boundary_room_def split: if_splits)
next
  fix b v b'
  assume "boundary_inv b" "get_event b = (v, b')"
  then show "boundary_inv b' \<and> bq_maxsize b' = bq_maxsize b \<and>
      (case bq_items b of [] \<Rightarrow> (\<exists>e. v = Inl e) \<and> b' = b | y # ys \<Rightarrow> v = Inr y \<and> bq_items b' = ys)"
    by (auto simp: get_event_def boundary_inv_def split: list.splits)
qed (simp add: boundary_inv_def)

section \<open>Invariant\<close>

fun in_hand :: "consumer \<Rightarrow> CommittedBarEvent list" where
  "in_hand (Taken event) = [event]"
| "in_hand (Processing event) = [event]"
| "in_hand x = []"

text \<open>Every accepted event is processed, in hand, waiting, or the one abandoned by the stopped
  consumer; the thread exists exactly from a successful start on; \<open>STOPPED\<close> is final.\<close>

definition intake_inv :: "int \<Rightarrow> intake \<Rightarrow> bool" where
  "intake_inv capacity t \<longleftrightarrow>
     bq_maxsize (in_boundary t) = capacity \<and> 0 < capacity \<and>
     int (length (bq_items (in_boundary t))) \<le> capacity \<and>
     bq_unfinished_tasks (in_boundary t) = int (length (bq_items (in_boundary t)) + length (in_hand (in_consumer t))) \<and>
     (\<exists>lost. length lost \<le> 1 \<and> (lost \<noteq> [] \<longrightarrow> in_consumer t = Returned) \<and>
        in_accepted t = in_processed t @ lost @
          (case in_consumer t of Taken event \<Rightarrow> [event] | _ \<Rightarrow> []) @ bq_items (in_boundary t)) \<and>
     (in_state t = NOT_STARTED \<longrightarrow> in_consumer t = NoThread) \<and>
     (in_state t = RUNNING \<longrightarrow> in_consumer t \<noteq> NoThread \<and> in_consumer t \<noteq> Returned) \<and>
     (in_state t = STOPPED \<longrightarrow> in_consumer t \<in> {NoThread, Returned}) \<and>
     (in_state t = STOPPING \<longrightarrow> in_consumer t \<noteq> NoThread) \<and>
     (in_joining t \<longrightarrow> in_state t = STOPPING) \<and> (in_state t = STOPPING \<longrightarrow> in_joining t)"

lemma intake_inv_init: "new_boundary capacity = Inr b \<Longrightarrow> intake_inv capacity (initial_intake b)"
  by (auto simp: new_boundary_def initial_intake_def intake_inv_def split: if_splits)

lemma intake_inv_step: "intake_step t t' \<Longrightarrow> intake_inv capacity t \<Longrightarrow> intake_inv capacity t'"
proof (induction rule: intake_step.induct)
  case (put event t b)
  then show ?case
    by (auto simp: intake_inv_def put_nowait_def split: if_splits consumer.splits)
next
  case (start starts t r st)
  then show ?case
    by (auto simp: intake_inv_def worker_start_def split: if_splits)
next
  case (stop t join st)
  then show ?case
    by (cases "in_state t") (auto simp: intake_inv_def stop_begin_def)
next
  case (abandon t event r b)
  then show ?case
    by (auto simp: intake_inv_def task_done_def split: if_splits intro!: exI [of _ "[event]"])
next
  case (end_process t event r b)
  then show ?case
    by (auto simp: intake_inv_def task_done_def split: if_splits)
qed (auto simp: intake_inv_def stop_accepting_def get_event_def split: list.splits)

lemma intake_reachable_inv: "intake_reachable capacity t \<Longrightarrow> intake_inv capacity t"
  by (induction rule: intake_reachable.induct) (auto intro: intake_inv_init intake_inv_step)

end
