(* ===== verification/Keyed_Mutex.thy ===== *)
theory Keyed_Mutex
  imports State_Repository
begin

text \<open>
  \<open>runtime/coordination/keyed_mutex.py\<close>: one non-reentrant lock per exact strategy-instance key.

  The registry maps a key to its lock, and a lock to the thread that holds it. A thread that entered
  \<open>hold\<close> is waiting for the lock of its key until it acquires it or, with a timeout, gives up. The
  step relation interleaves the threads; a blocked thread has no step.
\<close>

section \<open>The registry\<close>

type_synonym thread = nat

text \<open>A key that is absent from the dictionary has no lock yet; \<open>Some None\<close> is a free lock.\<close>

type_synonym registry = "string \<Rightarrow> thread option option"

definition setdefault :: "string \<Rightarrow> registry \<Rightarrow> registry" where
  "setdefault k reg = (case reg k of None \<Rightarrow> reg(k \<mapsto> None) | Some _ \<Rightarrow> reg)"

text \<open>\<open>Lock.acquire\<close> when it can return \<open>True\<close>, and \<open>Lock.release\<close>.\<close>

definition lock_acquire :: "thread \<Rightarrow> string \<Rightarrow> registry \<Rightarrow> registry option" where
  "lock_acquire t k reg = (if reg k = Some None then Some (reg(k \<mapsto> Some t)) else None)"

definition lock_release :: "string \<Rightarrow> registry \<Rightarrow> registry res" where
  "lock_release k reg =
     (case reg k of Some (Some _) \<Rightarrow> Inr (reg(k \<mapsto> None)) | _ \<Rightarrow> Inl (RuntimeError ''release unlocked lock''))"

datatype hold_pc = Outside | Waiting string "bool" | Inside string

record mutex_system =
  ms_locks :: registry
  ms_pc :: "thread \<Rightarrow> hold_pc"

text \<open>What an observer sees of the steps of \<open>hold\<close>.\<close>

datatype hold_event = Entered thread string | Left thread string | Busy thread string | Silent

inductive hold_step :: "mutex_system \<Rightarrow> hold_event \<Rightarrow> mutex_system \<Rightarrow> bool" where
  request: "ms_pc m t = Outside \<Longrightarrow> require_strategy_instance_id k = Inr () \<Longrightarrow>
     hold_step m Silent (m\<lparr>ms_locks := setdefault k (ms_locks m), ms_pc := (ms_pc m)(t := Waiting k timed)\<rparr>)"
| acquire: "ms_pc m t = Waiting k timed \<Longrightarrow> lock_acquire t k (ms_locks m) = Some reg \<Longrightarrow>
     hold_step m (Entered t k) (m\<lparr>ms_locks := reg, ms_pc := (ms_pc m)(t := Inside k)\<rparr>)"
| busy: "ms_pc m t = Waiting k True \<Longrightarrow>
     hold_step m (Busy t k) (m\<lparr>ms_pc := (ms_pc m)(t := Outside)\<rparr>)"
| release: "ms_pc m t = Inside k \<Longrightarrow> lock_release k (ms_locks m) = Inr reg \<Longrightarrow>
     hold_step m (Left t k) (m\<lparr>ms_locks := reg, ms_pc := (ms_pc m)(t := Outside)\<rparr>)"

inductive hold_trace :: "hold_event list \<Rightarrow> mutex_system \<Rightarrow> bool" where
  init: "hold_trace [] \<lparr>ms_locks = (\<lambda>k. None), ms_pc = (\<lambda>t. Outside)\<rparr>"
| step: "hold_trace l m \<Longrightarrow> hold_step m x m' \<Longrightarrow> hold_trace (l @ [x]) m'"

text \<open>Who is inside the section of a key, read off the events.\<close>

definition occupant :: "hold_event list \<Rightarrow> string \<Rightarrow> thread option" where
  "occupant l k =
     foldl (\<lambda>who x. case x of
        Entered t k' \<Rightarrow> if k' = k then Some t else who
      | Left t k' \<Rightarrow> if k' = k then None else who
      | _ \<Rightarrow> who) None l"

section \<open>Mutual exclusion\<close>

definition mutex_inv :: "mutex_system \<Rightarrow> bool" where
  "mutex_inv m \<longleftrightarrow>
     (\<forall>t k. ms_locks m k = Some (Some t) \<longleftrightarrow> ms_pc m t = Inside k) \<and>
     (\<forall>t k b. ms_pc m t = Waiting k b \<longrightarrow> ms_locks m k \<noteq> None)"

lemma mutex_invD:
  assumes "mutex_inv m" and "ms_pc m t = Inside k"
  shows "ms_locks m k = Some (Some t)" and "ms_pc m u = Inside k \<Longrightarrow> u = t"
proof -
  show 1: "ms_locks m k = Some (Some t)" using assms by (simp add: mutex_inv_def)
  assume "ms_pc m u = Inside k"
  then have "ms_locks m k = Some (Some u)" using assms(1) by (simp add: mutex_inv_def)
  with 1 show "u = t" by simp
qed

lemma mutex_inv_step: "hold_step m x m' \<Longrightarrow> mutex_inv m \<Longrightarrow> mutex_inv m'"
proof (induction rule: hold_step.induct)
  case (request m t k timed)
  then have "ms_locks m k = None \<Longrightarrow> ms_pc m u \<noteq> Inside k" for u using mutex_invD(1) by fastforce
  with request show ?case
    unfolding mutex_inv_def setdefault_def by (cases "ms_locks m k") auto
next
  case (acquire m t k timed reg)
  then have reg: "ms_locks m k = Some None" "reg = (ms_locks m)(k \<mapsto> Some t)"
    by (auto simp: lock_acquire_def split: if_splits)
  then have "ms_pc m u \<noteq> Inside k" for u using acquire.prems mutex_invD(1) by fastforce
  with acquire reg show ?case by (auto simp: mutex_inv_def)
next
  case (busy m t k)
  then show ?case by (auto simp: mutex_inv_def)
next
  case (release m t k reg)
  then have "ms_locks m k = Some (Some t)" by (simp add: mutex_inv_def)
  with release have reg: "reg = (ms_locks m)(k \<mapsto> None)" by (simp add: lock_release_def)
  have "u \<noteq> t \<Longrightarrow> ms_pc m u \<noteq> Inside k" for u using release mutex_invD(2) by blast
  with release reg show ?case by (auto simp: mutex_inv_def)
qed

lemma occupant_snoc:
  "occupant (l @ [x]) k =
     (case x of Entered t k' \<Rightarrow> if k' = k then Some t else occupant l k
      | Left t k' \<Rightarrow> if k' = k then None else occupant l k | _ \<Rightarrow> occupant l k)"
  by (cases x) (simp_all add: occupant_def)

lemma occupant_step:
  assumes "hold_step m x m'" and "mutex_inv m" and "\<forall>k t. occupant l k = Some t \<longleftrightarrow> ms_pc m t = Inside k"
  shows "occupant (l @ [x]) k = Some t \<longleftrightarrow> ms_pc m' t = Inside k"
  using assms
proof (induction rule: hold_step.induct)
  case (request m u j timed)
  then show ?case by (simp add: occupant_snoc)
next
  case (acquire m u j timed reg)
  then have "ms_locks m j = Some None" by (auto simp: lock_acquire_def split: if_splits)
  with acquire.prems(1) have "ms_pc m t \<noteq> Inside j" using mutex_invD(1) by fastforce
  with acquire show ?case by (cases "k = j") (simp_all add: occupant_snoc)
next
  case (busy m u j)
  then show ?case by (simp add: occupant_snoc)
next
  case (release m u j reg)
  then have "ms_pc m t = Inside j \<longleftrightarrow> t = u" using mutex_invD(2) by blast
  with release show ?case by (cases "k = j") (simp_all add: occupant_snoc)
qed

lemma hold_trace_inv: "hold_trace l m \<Longrightarrow> mutex_inv m \<and> (\<forall>k t. occupant l k = Some t \<longleftrightarrow> ms_pc m t = Inside k)"
proof (induction rule: hold_trace.induct)
  case init
  then show ?case by (simp add: mutex_inv_def occupant_def)
next
  case (step l m x m')
  then show ?case using mutex_inv_step occupant_step by blast
qed

end
