(* ===== verification/System.thy ===== *)
theory System
  imports Committed_Bar Trading_State Committed_Bar_Intake Keyed_Mutex
begin

text \<open>
  The running program: the entry points of the process as events, executed one after the other in
  any order, while the exchange and the operator's files change between them. The handlers of one
  instance exclude each other (\<open>Keyed_Mutex\<close>), and the repository takes each call under its lock.

  The log of effects determines the stored aggregates (\<open>replay\<close>), so the conditions under which an
  effect is permitted can be read off the log alone.
\<close>

section \<open>Events\<close>

datatype system_event =
    BarCommitted CommittedBarEvent
  | FirstFillReported AbiFirstFillExecutionEvent
  | ResolverTick
  | EnableRequested string bool
  | CloseRequested string
  | CancelRequested string
  | DeleteRequested string
  | StatesListed

text \<open>The composition root gives the delete's cancel step no journal
  (\<open>bootstrap/application.py\<close>): a delete leaves the journal as it is.\<close>

definition delete_config :: "config \<Rightarrow> config" where
  "delete_config cfg = cfg\<lparr>cfg_journal := (cfg_journal cfg)(entry_cycle_ended_journal := False)\<rparr>"

definition handle ::
    "(exn \<Rightarrow> string) \<Rightarrow> config \<Rightarrow> 'e ports \<Rightarrow> 'r repo_ops \<Rightarrow> system_event \<Rightarrow> ('r, 'e) world \<Rightarrow> ('r, 'e) world" where
  "handle error_text cfg P ops event w =
     (case event of
        BarCommitted bar \<Rightarrow> snd (process_bar error_text P (dispatch cfg P ops) bar w)
      | FirstFillReported fill \<Rightarrow> snd (process_first_fill cfg ops fill w)
      | ResolverTick \<Rightarrow> snd (tick cfg P ops w)
      | EnableRequested i b \<Rightarrow> snd (set_enabled cfg P ops i b w)
      | CloseRequested i \<Rightarrow> snd (close_position cfg P ops i w)
      | CancelRequested i \<Rightarrow> snd (cancel_entry_orders cfg P ops i w)
      | DeleteRequested i \<Rightarrow> snd (delete (delete_config cfg) P ops i w)
      | StatesListed \<Rightarrow> snd (list_trading_states P ops w))"

inductive runs ::
    "(exn \<Rightarrow> string) \<Rightarrow> config \<Rightarrow> 'e ports \<Rightarrow> 'r repo_ops \<Rightarrow> ('r, 'e) world \<Rightarrow> ('r, 'e) world \<Rightarrow> bool"
  for error_text :: "exn \<Rightarrow> string" and cfg :: config and P :: "'e ports" and ops :: "'r repo_ops"
    and w0 :: "('r, 'e) world" where
  start: "runs error_text cfg P ops w0 w0"
| event: "runs error_text cfg P ops w0 w \<Longrightarrow> runs error_text cfg P ops w0 (handle error_text cfg P ops event w)"
| environment: "runs error_text cfg P ops w0 w \<Longrightarrow> runs error_text cfg P ops w0 (w\<lparr>w_env := e\<rparr>)"

text \<open>The instance an operator command or an execution event is about.\<close>

fun addressee :: "system_event \<Rightarrow> string option" where
  "addressee (FirstFillReported fill) = Some (ffe_strategy_instance_id fill)"
| "addressee (EnableRequested i b) = Some i"
| "addressee (CloseRequested i) = Some i"
| "addressee (CancelRequested i) = Some i"
| "addressee (DeleteRequested i) = Some i"
| "addressee x = None"

section \<open>The log determines the store\<close>

fun replay :: "(string \<Rightarrow> state option) \<Rightarrow> effect list \<Rightarrow> string \<Rightarrow> state option" where
  "replay m [] = m"
| "replay m (Saved s # l) = replay (m(sirs_strategy_instance_id s \<mapsto> s)) l"
| "replay m (x # l) = replay m l"

lemma replay_append: "replay m (l @ l') = replay (replay m l) l'"
proof (induction l arbitrary: m)
  case (Cons x l)
  then show ?case by (cases x) (simp_all add: fun_upd_def)
qed simp

lemma replay_permitted: "permitted m x \<Longrightarrow> replay m' [x] = m'"
  by (cases x) (auto simp: permitted_def)

lemma spec_step_replay: "spec_step m x m' \<Longrightarrow> replay m [x] = m'"
  by (induction rule: spec_step.induct) (simp_all add: replay_permitted)

lemma spec_trace_replay: "spec_trace m l m' \<Longrightarrow> replay m l = m'"
  by (induction rule: spec_trace.induct) (simp_all add: replay_append spec_step_replay)

lemma spec_trace_split:
  assumes "spec_trace m (l @ x # l') m'"
  shows "spec_trace m l (replay m l) \<and> spec_step (replay m l) x (replay m (l @ [x]))"
  using assms
proof (induction l' arbitrary: m' rule: rev_induct)
  case Nil
  then obtain n where "spec_trace m l n" "spec_step n x m'"
    by (cases rule: spec_trace.cases) auto
  then show ?case using spec_trace_replay [OF spec_trace.snoc] by (auto dest: spec_trace_replay)
next
  case (snoc y l')
  then have "spec_trace m ((l @ x # l') @ [y]) m'" by simp
  then obtain n where "spec_trace m (l @ x # l') n" by (cases rule: spec_trace.cases) auto
  then show ?case by (rule snoc.IH)
qed

text \<open>A permitted effect other than a save.\<close>

lemma spec_step_permitted:
  assumes "spec_step m x m'" and "\<And>s. x \<noteq> Saved s"
  shows "permitted m x"
  using assms by (cases rule: spec_step.cases) auto

section \<open>Every run is a permitted trace\<close>

lemma triple_run: "triple A m (\<lambda>x. A) (\<lambda>e. A) \<Longrightarrow> A w \<Longrightarrow> A (snd (m w))"
  by (auto simp: triple_def split: prod.splits sum.splits) (metis obj_sumE snd_conv surj_pair)

context state_repository
begin

lemma list_consistent: "consistent m0 w \<Longrightarrow> consistent m0 (snd (list_trading_states P ops w))"
  using list_trading_states_reads [of w P] by (cases "list_trading_states P ops w") (auto simp: consistent_def)

lemma handle_consistent: "consistent m0 w \<Longrightarrow> consistent m0 (handle error_text cfg P ops event w)"
  by (cases event)
    (auto simp: handle_def intro: triple_run [OF dispatching.triple_process_bar]
      triple_run [OF triple_any_instance [OF triple_process_first_fill [OF refl]]] triple_run [OF triple_tick]
      triple_run [OF triple_any_instance [OF triple_set_enabled]]
      triple_run [OF triple_any_instance [OF triple_close_position]]
      triple_run [OF triple_any_instance [OF triple_cancel_entry_orders]]
      triple_run [OF triple_any_instance [OF triple_delete]] list_consistent)

lemma runs_consistent: "runs error_text cfg P ops w0 w \<Longrightarrow> consistent m0 w0 \<Longrightarrow> consistent m0 w"
proof (induction rule: runs.induct)
  case (event w event)
  then show ?case by (simp add: handle_consistent)
qed (auto simp: consistent_def)

lemma consistent_start: "inv (w_repo w) \<Longrightarrow> good (states (w_repo w)) \<Longrightarrow> w_log w = [] \<Longrightarrow> consistent (states (w_repo w)) w"
  by (simp add: consistent_def spec_trace.nil)

theorem runs_permitted:
  assumes "runs error_text cfg P ops w0 w" and "inv (w_repo w0)" and "good (states (w_repo w0))" and "w_log w0 = []"
  shows "inv (w_repo w) \<and> good (states (w_repo w)) \<and> spec_trace (states (w_repo w0)) (w_log w) (states (w_repo w))"
  using runs_consistent [OF assms(1) consistent_start [OF assms(2-4)]] spec_trace_good
  unfolding consistent_def by blast

lemma runs_effect:
  assumes "runs error_text cfg P ops w0 w" and "inv (w_repo w0)" and "good (states (w_repo w0))" and "w_log w0 = []"
    and "w_log w = l @ x # l'"
  shows "good (replay (states (w_repo w0)) l)"
    and "spec_step (replay (states (w_repo w0)) l) x (replay (states (w_repo w0)) (l @ [x]))"
proof -
  from runs_permitted [OF assms(1-4)] assms(5) spec_trace_split
  have *: "spec_trace (states (w_repo w0)) l (replay (states (w_repo w0)) l) \<and>
      spec_step (replay (states (w_repo w0)) l) x (replay (states (w_repo w0)) (l @ [x]))" by metis
  then show "good (replay (states (w_repo w0)) l)" using spec_trace_good assms(3) by blast
  from * show "spec_step (replay (states (w_repo w0)) l) x (replay (states (w_repo w0)) (l @ [x]))" ..
qed

lemma runs_effect_about:
  assumes "runs error_text cfg P ops w0 w" and "inv (w_repo w0)" and "good (states (w_repo w0))" and "w_log w0 = []"
    and "w_log w = l @ x # l'" and "about x = Some i"
  shows "\<exists>s. replay (states (w_repo w0)) l i = Some s \<and> allowed s x \<and> wf_state s \<and> coherent s"
proof -
  have "\<And>s. x \<noteq> Saved s" "\<And>j. x \<noteq> TrashMove j" using assms(6) by auto
  with spec_step_permitted [OF runs_effect(2) [OF assms(1-5)]] assms(6)
  have "\<exists>s. replay (states (w_repo w0)) l i = Some s \<and> allowed s x"
    by (cases x) (auto simp: permitted_def split: option.splits)
  with goodD [OF runs_effect(1) [OF assms(1-5)]] show ?thesis by blast
qed

text \<open>An event about one instance changes no other: each handler keeps the aggregates of the others.\<close>

lemma triple_isolated:
  assumes "triple (elsewhere m0 i (states (w_repo w))) m (\<lambda>x. elsewhere m0 i (states (w_repo w)))
      (\<lambda>e. elsewhere m0 i (states (w_repo w)))" and "consistent m0 w" and "j \<noteq> i"
  shows "states (w_repo (snd (m w))) j = states (w_repo w) j"
proof -
  have "elsewhere m0 i (states (w_repo w)) w" using assms(2) by (simp add: elsewhere_def)
  from triple_run [OF assms(1) this] assms(3) show ?thesis by (simp add: elsewhere_def)
qed

lemma handle_isolated:
  assumes "consistent m0 w" and "addressee event = Some i" and "j \<noteq> i"
  shows "states (w_repo (handle error_text cfg P ops event w)) j = states (w_repo w) j"
  using assms(2,3)
  by (cases event)
    (auto simp: handle_def triple_isolated [OF triple_process_first_fill [OF refl] assms(1)]
      triple_isolated [OF triple_set_enabled assms(1)] triple_isolated [OF triple_close_position assms(1)]
      triple_isolated [OF triple_cancel_entry_orders assms(1)] triple_isolated [OF triple_delete assms(1)])

lemma dispatch_isolated:
  assumes "consistent m0 w" and "j \<noteq> unit_strategy_instance_id unit"
  shows "states (w_repo (snd (process cfg P ops unit w))) j = states (w_repo w) j"
  by (rule triple_isolated [OF triple_process [OF refl] assms])

text \<open>A bar of an instance with a recovery marker ends before the first call outside.\<close>

lemma process_recovering:
  assumes "inv (w_repo w)" and "states (w_repo w) (unit_strategy_instance_id unit) = Some s" and "\<not> no_recovery s"
    and "process cfg P ops unit w = (x, w')"
  shows "w_log w' = w_log w \<and> w_env w' = w_env w \<and> states (w_repo w') = states (w_repo w) \<and> (\<forall>y. x = Inr y \<longrightarrow> y = s)"
proof -
  let ?i = "unit_strategy_instance_id unit"
  show ?thesis
  proof (cases "?i = []")
    case True
    with assms(4) show ?thesis
      by (auto simp: process_def hold_def bindp_def lift_res_def require_strategy_instance_id_def)
  next
    case ne: False
    have True: "require_strategy_instance_id ?i = Inr ()" using ne by (simp add: require_strategy_instance_id_def)
    obtain y w1 where create: "repo_get_or_create ops (create_request unit) w = (y, w1)"
      by (cases "repo_get_or_create ops (create_request unit) w")
    show ?thesis
    proof (cases y)
      case (Inl e)
      with repo_get_or_createD(2) [of ops "create_request unit" w e w1] create obtain r where
        r: "ro_get_or_create ops (create_request unit) (w_repo w) = (Inl e, r)" "w1 = w\<lparr>w_repo := r\<rparr>" by blast
      with get_or_create_law [OF assms(1) r(1)] assms(4) create Inl True show ?thesis
        by (auto simp: process_def process_locked_def hold_def bindp_def lift_res_def Let_def split: sum.splits)
    next
      case (Inr t)
      with repo_get_or_createD(1) [of ops "create_request unit" w t w1] create obtain r where
        r: "ro_get_or_create ops (create_request unit) (w_repo w) = (Inr t, r)"
        and w1: "w1 = w\<lparr>w_repo := r, w_log := w_log w @
           (if fst (ro_get ops ?i (w_repo w)) = Inr None then [Saved t] else [])\<rparr>"
        by (auto simp: create_request_def)
      from get_or_create_law [OF assms(1) r] assms(2) ne
      have "ro_get ops ?i (w_repo w) = (Inr (Some s), w_repo w)" "t = s" "states r = states (w_repo w)"
        by (auto simp: create_request_def)
      with w1 assms(3,4) create Inr True show ?thesis
        by (auto simp: process_def process_locked_def hold_def bindp_def lift_res_def ret_def Let_def no_recovery_def
            split: sum.splits)
    qed
  qed
qed

end

context available_repository
begin

text \<open>The worker's tick never raises: a failing attempt is swallowed and the next one runs.\<close>

lemma attempt_each_returns: "\<exists>w'. attempt_each cfg P ops is w = (Inr (), w')"
proof (induction "is" arbitrary: w)
  case Nil
  then show ?case by (simp add: ret_def)
next
  case (Cons i "is")
  obtain b w1 where "ask (p_worker_running P) w = (Inr b, w1)" by (cases "p_worker_running P (w_env w)") (simp add: ask_def)
  moreover obtain w2 where "catchp (attempt cfg P ops i) (\<lambda>e. ret ()) w1 = (Inr (), w2)"
    by (cases "attempt cfg P ops i w1"; cases "fst (attempt cfg P ops i w1)") (auto simp: catchp_def ret_def)
  ultimately show ?case using Cons.IH [of w2] by (cases b) (simp_all add: bindp_def ret_def)
qed

lemma tick_returns:
  assumes "inv (w_repo w)"
  shows "\<exists>w'. tick cfg P ops w = (Inr (), w')"
  using list_entry_total [OF assms] list_close_total [OF assms] attempt_each_returns
  by (auto simp: tick_def bindp_def)

end

end
