(* ===== verification/Footprints.thy ===== *)
theory Footprints
  imports System
begin

text \<open>
  Which kinds of effects a handler can make at all. \<open>emits X m\<close>: every run of \<open>m\<close>, whatever the
  answers, only appends effects of \<open>X\<close> to the log. The rules follow the structure of programs, so a
  footprint is derived by unfolding the handler.
\<close>

named_theorems emits_rules "footprints of programs"

definition emits :: "effect set \<Rightarrow> (('r, 'e) world, 'a) prog \<Rightarrow> bool" where
  "emits X m \<longleftrightarrow> (\<forall>w. \<exists>l. w_log (snd (m w)) = w_log w @ l \<and> set l \<subseteq> X)"

lemma emitsE:
  assumes "emits X m"
  obtains l where "w_log (snd (m w)) = w_log w @ l" and "set l \<subseteq> X"
  using assms unfolding emits_def by blast

lemma emitsD: "emits X m \<Longrightarrow> \<exists>l. w_log (snd (m w)) = w_log w @ l \<and> set l \<subseteq> X"
  by (simp add: emits_def)

lemma emits_mono: "emits X m \<Longrightarrow> X \<subseteq> Y \<Longrightarrow> emits Y m"
  unfolding emits_def by (meson order_trans)

lemma emits_silent:
  assumes "\<And>w. w_log (snd (m w)) = w_log w"
  shows "emits X m"
  using assms by (simp add: emits_def)

lemma emits_one:
  assumes "\<And>w. w_log (snd (m w)) = w_log w \<or> (\<exists>x \<in> X. w_log (snd (m w)) = w_log w @ [x])"
  shows "emits X m"
  unfolding emits_def
proof
  fix w
  from assms [of w] show "\<exists>l. w_log (snd (m w)) = w_log w @ l \<and> set l \<subseteq> X"
    by (metis append_Nil2 empty_set empty_subsetI insert_subset list.simps(15))
qed

lemma emits_Pair [emits_rules]: "emits X (Pair r)"
  by (rule emits_silent) simp

lemma emits_ret [emits_rules]: "emits X (ret v)"
  by (rule emits_silent) simp

lemma emits_raise [emits_rules]: "emits X (raise e)"
  by (rule emits_silent) simp

lemma emits_lift_res [emits_rules]: "emits X (lift_res r)"
  by (rule emits_silent) simp

lemma emits_ask [emits_rules]: "emits X (ask f)"
  by (rule emits_silent) (simp add: ask_def split: prod.splits)

lemma emits_repo_get [emits_rules]: "emits X (repo_get ops i)"
  by (rule emits_silent) (simp add: repo_get_def split: prod.splits)

lemma emits_repo_save [emits_rules]: "range Saved \<subseteq> X \<Longrightarrow> emits X (repo_save ops s)"
  by (rule emits_one) (auto simp: repo_save_def split: prod.splits sum.splits)

lemma emits_get_or_create [emits_rules]: "range Saved \<subseteq> X \<Longrightarrow> emits X (repo_get_or_create ops q)"
  by (rule emits_one) (auto simp: repo_get_or_create_def split: prod.splits sum.splits)

lemma emits_call [emits_rules]: "x \<in> X \<Longrightarrow> emits X (call x f)"
  by (rule emits_one) (auto simp: call_def split: prod.splits)

lemma emits_journal [emits_rules]: "Journal rec \<in> X \<Longrightarrow> emits X (journal cfg k rec)"
  by (rule emits_one) (auto simp: journal_def)

lemma emits_bind [emits_rules]:
  assumes "emits X m" and "\<And>v. emits X (f v)"
  shows "emits X (bindp m f)"
  unfolding emits_def
proof
  fix w
  obtain r w1 where m: "m w = (r, w1)" by (cases "m w")
  from emitsE [OF assms(1), of w] m obtain l where l: "w_log w1 = w_log w @ l" "set l \<subseteq> X" by auto
  show "\<exists>l. w_log (snd (bindp m f w)) = w_log w @ l \<and> set l \<subseteq> X"
  proof (cases r)
    case (Inl e)
    with m l show ?thesis by (simp add: bindp_def)
  next
    case (Inr v)
    from emitsE [OF assms(2) [of v], of w1] obtain l' where "w_log (snd (f v w1)) = w_log w1 @ l'" "set l' \<subseteq> X" .
    with m l Inr show ?thesis by (intro exI [of _ "l @ l'"]) (simp add: bindp_def)
  qed
qed

lemma emits_bind_lift: "(\<And>v. r = Inr v \<Longrightarrow> emits X (f v)) \<Longrightarrow> emits X (bindp (lift_res r) f)"
  by (cases r) (auto simp: emits_def bindp_def intro: exI [of _ "[]"])

lemma emits_try [emits_rules]:
  assumes "emits X m" and "\<And>e. emits X (h e)" and "\<And>v. emits X (k v)"
  shows "emits X (tryp m h k)"
proof -
  have "emits X (\<lambda>w. case m w of (Inl e, w1) \<Rightarrow> h e w1 | (Inr v, w1) \<Rightarrow> k v w1)"
    unfolding emits_def
  proof
    fix w
    obtain r w1 where m: "m w = (r, w1)" by (cases "m w")
    from emitsE [OF assms(1), of w] m obtain l where l: "w_log w1 = w_log w @ l" "set l \<subseteq> X" by auto
    let ?n = "case r of Inl e \<Rightarrow> h e | Inr v \<Rightarrow> k v"
    have "emits X ?n" using assms(2,3) by (cases r) simp_all
    then obtain l' where "w_log (snd (?n w1)) = w_log w1 @ l'" "set l' \<subseteq> X" by (rule emitsE)
    with m l show "\<exists>l. w_log (snd (case m w of (Inl e, w1) \<Rightarrow> h e w1 | (Inr v, w1) \<Rightarrow> k v w1)) = w_log w @ l \<and> set l \<subseteq> X"
      by (intro exI [of _ "l @ l'"]) (cases r; simp)
  qed
  then show ?thesis by (simp add: tryp_def [abs_def])
qed

lemma emits_catch [emits_rules]:
  assumes "emits X m" and "\<And>e. emits X (h e)"
  shows "emits X (catchp m h)"
proof -
  have "catchp m h = tryp m h ret"
    by (rule ext) (simp add: catchp_def tryp_def split: prod.splits sum.splits)
  with assms show ?thesis by (simp add: emits_try emits_ret)
qed

lemma emits_hold [emits_rules]: "emits X m \<Longrightarrow> emits X (hold i m)"
  unfolding hold_def by (intro emits_rules)

lemma emits_hold_timeout [emits_rules]: "emits X m \<Longrightarrow> emits X (hold_timeout P i m)"
  unfolding hold_timeout_def by (auto intro!: emits_rules)


section \<open>The footprint of each entry point\<close>

fun footprint :: "system_event \<Rightarrow> effect \<Rightarrow> bool" where
  "footprint event (Saved s) = (event \<noteq> StatesListed)"
| "footprint event (Journal rec) =
     (case event of FirstFillReported _ \<Rightarrow> False | DeleteRequested _ \<Rightarrow> False | StatesListed \<Rightarrow> False | _ \<Rightarrow> True)"
| "footprint event (EntryPackagePut r) =
     (case event of BarCommitted _ \<Rightarrow> True
      | FirstFillReported _ \<Rightarrow> False | CloseRequested _ \<Rightarrow> False | StatesListed \<Rightarrow> False
      | _ \<Rightarrow> epr_desired_entry r = None)"
| "footprint event (PositionLookup q) =
     (case event of FirstFillReported _ \<Rightarrow> False | ResolverTick \<Rightarrow> False | StatesListed \<Rightarrow> False | _ \<Rightarrow> True)"
| "footprint event (RecoveryQuery i cid) = (event = ResolverTick)"
| "footprint event (ProtectionPut c) = (case event of BarCommitted _ \<Rightarrow> True | _ \<Rightarrow> False)"
| "footprint event (ClosePut c) =
     (case event of BarCommitted _ \<Rightarrow> True | ResolverTick \<Rightarrow> True | CloseRequested _ \<Rightarrow> True | _ \<Rightarrow> False)"
| "footprint event (RemainderCancelPut i cid) = (case event of BarCommitted _ \<Rightarrow> True | _ \<Rightarrow> False)"
| "footprint event (LiveEntryProjected q) = (case event of BarCommitted _ \<Rightarrow> True | _ \<Rightarrow> False)"
| "footprint event (OpenTradeProjected q) = (case event of BarCommitted _ \<Rightarrow> True | _ \<Rightarrow> False)"
| "footprint event (EnabledWrite i b) =
     (case event of EnableRequested j b' \<Rightarrow> i = j \<and> b = b' | CloseRequested j \<Rightarrow> i = j \<and> \<not> b
      | CancelRequested j \<Rightarrow> i = j \<and> \<not> b | _ \<Rightarrow> False)"
| "footprint event (TrashMove i) = (event = DeleteRequested i)"

definition prints :: "system_event \<Rightarrow> effect set" where
  "prints event = {x. footprint event x}"

lemma prints_saved [simp]: "event \<noteq> StatesListed \<Longrightarrow> range Saved \<subseteq> prints event"
  by (auto simp: prints_def)

lemma in_prints [simp]: "x \<in> prints event \<longleftrightarrow> footprint event x"
  by (simp add: prints_def)

lemma first_fill_prints: "emits (prints (FirstFillReported fill)) (process_first_fill cfg ops fill)"
  unfolding process_first_fill_def
  by (auto intro!: emits_rules split: option.splits)

lemma journal_prints [emits_rules]:
  assumes "\<And>rec. Journal rec \<in> X"
  shows "emits X (journal_trade_cycle_closed cfg closure bar)"
    and "emits X (journal_trade_cycle_opened cfg i cid bar t price link oid)"
    and "emits X (journal_entry_applied cfg c t)"
    and "emits X (journal_cycle_ended_on_bar cfg s s' unit)"
    and "emits X (journal_terminal_without_fill cfg s cid response)"
    and "emits X (journal_live_entry cfg unit live)"
    and "emits X (journal_open_trade cfg unit trade)"
    and "emits X (journal_protection_applied cfg command confirmation t)"
  using assms
  by (auto simp: journal_entry_cycle_ended_def journal_trade_cycle_closed_def journal_trade_cycle_opened_def
      journal_entry_applied_def journal_cycle_ended_on_bar_def journal_terminal_without_fill_def journal_live_entry_def
      journal_open_trade_def journal_protection_applied_def intro!: emits_rules split: option.splits)

lemma abi_cancel_prints [emits_rules]:
  assumes "\<And>r. epr_desired_entry r = None \<Longrightarrow> EntryPackagePut r \<in> X"
  shows "emits X (abi_cancel P i cid ticker risk)"
  unfolding abi_cancel_def
  by (rule emits_bind_lift) (auto simp: new_EntryPackageRequest_def checked_iff abi_send_def intro!: emits_call assms)

lemma resolve_prints [emits_rules]: "(\<And>q. PositionLookup q \<in> X) \<Longrightarrow> emits X (resolve P s)"
  unfolding resolve_def abi_lookup_def by (auto intro!: emits_rules split: option.splits)

lemma raise_on_lookup_failure_prints [emits_rules]: "emits X (raise_on_lookup_failure e)"
  by (auto simp: raise_on_lookup_failure_def intro!: emits_rules split: exn.splits)

lemma cycle_ended_prints [emits_rules]:
  "(\<And>rec. cfg_journal cfg entry_cycle_ended_journal \<Longrightarrow> Journal rec \<in> X) \<Longrightarrow>
     emits X (journal_entry_cycle_ended cfg i cid bar reason)"
  by (auto simp: journal_entry_cycle_ended_def intro!: emits_rules)

lemma cancel_step_prints [emits_rules]:
  assumes "range Saved \<subseteq> X" "\<And>rec. cfg_journal cfg entry_cycle_ended_journal \<Longrightarrow> Journal rec \<in> X" "\<And>q. PositionLookup q \<in> X"
    "\<And>r. epr_desired_entry r = None \<Longrightarrow> EntryPackagePut r \<in> X"
  shows "emits X (cancel_step_run cfg P ops i)"
  unfolding cancel_step_run_def
  using assms by (auto intro!: emits_rules split: option.splits exn.splits EntryPackageResult.splits)

lemma catalog_prints [emits_rules]:
  "emits X (load_snapshot P)" "emits X (read_original P i)" "emits X (deployment_in_catalog P i)"
  "emits X (current_enabled P i)"
proof -
  show 1: "emits X (load_snapshot P)" "emits X (read_original P i)" for X :: "effect set"
    by (rule emits_silent, simp add: load_snapshot_def read_original_def split: prod.splits)+
  then show 2: "emits X (deployment_in_catalog P i)"
    unfolding deployment_in_catalog_def by (auto intro!: emits_rules split: exn.splits option.splits)
  then show "emits X (current_enabled P i)" unfolding current_enabled_def by (intro emits_rules)
qed

lemma write_enabled_prints [emits_rules]: "EnabledWrite i b \<in> X \<Longrightarrow> emits X (write_enabled P i b)"
  unfolding write_enabled_def by (auto intro!: emits_rules split: exn.splits file_change_error.splits)

lemma locked_or_busy_prints [emits_rules]: "emits X m \<Longrightarrow> emits X (locked_or_busy P i m)"
  unfolding locked_or_busy_def by (auto intro!: emits_rules split: exn.splits)

lemma set_enabled_prints: "emits (prints (EnableRequested i b)) (set_enabled cfg P ops i b)"
  unfolding set_enabled_def set_enabled_locked_def by (auto intro!: emits_rules)

lemma cancel_entry_orders_prints: "emits (prints (CancelRequested i)) (cancel_entry_orders cfg P ops i)"
  unfolding cancel_entry_orders_def by (auto intro!: emits_rules)

lemma delete_prints: "emits (prints (DeleteRequested i)) (delete (delete_config cfg) P ops i)"
  unfolding delete_def delete_locked_def delete_guard_def
  by (auto simp: delete_config_def intro!: emits_rules split: exn.splits file_change_error.splits)

lemma close_marked_prints [emits_rules]:
  assumes "range Saved \<subseteq> X" "\<And>rec. Journal rec \<in> X" "\<And>k. ClosePut k \<in> X"
  shows "emits X (close_marked_position cfg P ops i cycle s)"
  unfolding close_marked_position_def abi_close_position_def
  using assms by (auto intro!: emits_rules split: exn.splits option.splits)

lemma freeze_for_close_prints [emits_rules]:
  assumes "range Saved \<subseteq> X" "\<And>rec. Journal rec \<in> X"
  shows "emits X (freeze_for_close cfg ops i resolved cycle)"
  unfolding freeze_for_close_def
  using assms by (auto intro!: emits_rules split: option.splits)

lemma close_position_prints: "emits (prints (CloseRequested i)) (close_position cfg P ops i)"
  unfolding close_position_def close_locked_def by (auto intro!: emits_rules split: option.splits)

lemma cancel_and_clear_prints [emits_rules]:
  assumes "range Saved \<subseteq> X" "\<And>rec. Journal rec \<in> X"
    "\<And>r. epr_desired_entry r = None \<Longrightarrow> EntryPackagePut r \<in> X"
  shows "emits X (cancel_and_clear_only_if_exact_absent cfg P ops s cid)"
  unfolding cancel_and_clear_only_if_exact_absent_def
  using assms by (auto intro!: emits_rules split: exn.splits EntryPackageResult.splits)

lemma resolve_uncertain_prints [emits_rules]:
  assumes "range Saved \<subseteq> X" "\<And>rec. Journal rec \<in> X"
    "\<And>r. epr_desired_entry r = None \<Longrightarrow> EntryPackagePut r \<in> X"
  shows "emits X (resolve_uncertain_apply cfg P ops s cid response)"
    and "emits X (resolve_uncertain_removal cfg P ops s cycle response)"
  unfolding resolve_uncertain_apply_def resolve_uncertain_removal_def
  using assms by (auto intro!: emits_rules split: RecoveryStateResponse.splits)

lemma resolve_pending_close_prints [emits_rules]:
  assumes "range Saved \<subseteq> X" "\<And>rec. Journal rec \<in> X" "\<And>k. ClosePut k \<in> X"
  shows "emits X (resolve_pending_close cfg P ops s)"
  unfolding resolve_pending_close_def abi_close_position_def Let_def
  using assms by (auto intro!: emits_rules split: option.splits exn.splits sum.splits)

lemma attempt_prints [emits_rules]: "emits (prints ResolverTick) (attempt cfg P ops i)"
  unfolding attempt_def attempt_locked_def abi_query_def
  by (auto intro!: emits_rules split: option.splits exn.splits)

lemma attempt_each_prints: "emits (prints ResolverTick) (attempt_each cfg P ops is)"
  by (induction "is") (auto intro!: emits_rules)

lemma tick_prints: "emits (prints ResolverTick) (tick cfg P ops)"
proof -
  have "emits X (\<lambda>w. (f (w_repo w), w))" for X and f :: "'r \<Rightarrow> string list res"
    by (rule emits_silent) simp
  then show ?thesis unfolding tick_def by (intro emits_bind attempt_each_prints)
qed

lemma describe_each_prints: "emits X (describe_each ops ds)"
  by (induction ds) (auto intro!: emits_rules)

lemma list_prints: "emits (prints StatesListed) (list_trading_states P ops)"
  unfolding list_trading_states_def by (auto intro!: emits_rules describe_each_prints split: exn.splits)

text \<open>The bar.\<close>

definition bar_prints :: "effect set" where
  "bar_prints = {x. \<forall>bar. footprint (BarCommitted bar) x}"

lemma bar_prints_iff [simp]:
  "Saved s \<in> bar_prints" "range Saved \<subseteq> bar_prints" "Journal rec \<in> bar_prints" "EntryPackagePut r \<in> bar_prints"
  "PositionLookup q \<in> bar_prints" "ProtectionPut pc \<in> bar_prints" "ClosePut cc \<in> bar_prints"
  "RemainderCancelPut i cid \<in> bar_prints" "LiveEntryProjected lq \<in> bar_prints" "OpenTradeProjected oq \<in> bar_prints"
  by (auto simp: bar_prints_def)

lemma abort_not_ready_prints [emits_rules]: "range Saved \<subseteq> X \<Longrightarrow> emits X (abort_not_ready ops command s e)"
  unfolding abort_not_ready_def by (auto intro!: emits_rules)

lemma end_declined_prints [emits_rules]:
  "range Saved \<subseteq> X \<Longrightarrow> (\<And>rec. Journal rec \<in> X) \<Longrightarrow> emits X (end_declined_apply cfg ops live s decision command declined)"
  unfolding end_declined_apply_def by (auto intro!: emits_rules split: EntryReconciliationDecision.splits)

lemma bridge_execute_prints [emits_rules]: "emits bar_prints (bridge_execute P command s)"
  unfolding bridge_execute_def abi_send_def
  by (auto intro!: emits_rules split: exn.splits entry_package_error.splits)

lemma send_marked_prints [emits_rules]: "emits bar_prints (send_marked cfg P ops live s decision command s')"
  unfolding send_marked_def by (auto intro!: emits_rules split: exn.splits EntryExecutionOutcome.splits)

lemma execute_one_prints [emits_rules]: "emits bar_prints (execute_one cfg P ops live s decision cid)"
  unfolding execute_one_def by (auto intro!: emits_rules split: option.splits)

lemma entry_execute_prints [emits_rules]: "emits bar_prints (entry_execute cfg P ops live)"
  unfolding entry_execute_def Let_def by (auto intro!: emits_rules split: EntryReconciliationDecision.splits)

lemma pm_execute_prints [emits_rules]: "emits bar_prints (pm_execute_with_closure cfg P ops trade)"
  unfolding pm_execute_with_closure_def Let_def abi_apply_protection_def abi_close_position_def
  by (auto intro!: emits_rules split: PositionManagementDecision.splits PositionManagementCommand.splits option.splits)

lemma route_prints [emits_rules]: "emits bar_prints (route P item)"
  unfolding route_def route_open_trade_def project_live_entry_def project_open_trade_def Let_def
  by (auto intro!: emits_rules split: option.splits)

lemma run_use_case_prints [emits_rules]: "emits bar_prints (run_use_case cfg P ops unit p)"
  unfolding run_use_case_def by (auto intro!: emits_rules split: StrategyUseCaseProjectedInstance.splits)

lemma route_and_apply_prints [emits_rules]: "emits bar_prints (route_and_apply cfg P ops unit resolved)"
  unfolding route_and_apply_def by (auto intro!: emits_rules split: option.splits)

lemma remainder_prints [emits_rules]: "emits bar_prints (cancel_expired_entry_remainder cfg P ops s bar)"
  unfolding cancel_expired_entry_remainder_def cancel_remainder_and_mark_def abi_cancel_entry_remainder_def
  by (auto intro!: emits_rules split: option.splits)

lemma ensure_frozen_prints [emits_rules]: "emits bar_prints (ensure_first_fill_frozen cfg ops resolved bar)"
  unfolding ensure_first_fill_frozen_def Let_def by (auto intro!: emits_rules split: option.splits)

lemma prepare_open_prints [emits_rules]: "emits bar_prints (prepare_open_position cfg P ops bar resolved)"
  unfolding prepare_open_position_def by (auto intro!: emits_rules split: option.splits)

lemma process_prints [emits_rules]: "emits bar_prints (process cfg P ops unit)"
  unfolding process_def process_locked_def Let_def by (auto intro!: emits_rules split: option.splits sum.splits)

lemma record_bar_prints [emits_rules]: "emits bar_prints (record_bar rec)"
  by (rule emits_one) (auto simp: record_bar_def)

lemma dispatch_all_prints [emits_rules]:
  "emits bar_prints (dispatch_all error_text (dispatch cfg P ops) bar ds)"
  by (induction ds) (auto simp: dispatch_one_def dispatch_def intro!: emits_rules)

lemma process_bar_prints: "emits bar_prints (process_bar error_text P (dispatch cfg P ops) bar)"
  unfolding process_bar_def prepare_def by (auto intro!: emits_rules)

lemma handle_footprint:
  "\<exists>l. w_log (handle error_text cfg P ops event w) = w_log w @ l \<and> (\<forall>x \<in> set l. footprint event x)"
proof -
  have bar: "emits (prints (BarCommitted bar)) (process_bar error_text P (dispatch cfg P ops) bar)" for bar
    by (rule emits_mono [OF process_bar_prints]) (auto simp: bar_prints_def)
  have "\<exists>l. w_log (handle error_text cfg P ops event w) = w_log w @ l \<and> set l \<subseteq> prints event"
    by (cases event)
      (simp_all add: handle_def emitsD [OF bar] emitsD [OF first_fill_prints] emitsD [OF tick_prints]
        emitsD [OF set_enabled_prints] emitsD [OF close_position_prints] emitsD [OF cancel_entry_orders_prints]
        emitsD [OF delete_prints] emitsD [OF list_prints])
  then show ?thesis by (auto simp: prints_def)
qed


section \<open>The operator's close disables the instance first\<close>

definition disabled_first :: "string \<Rightarrow> effect list \<Rightarrow> bool" where
  "disabled_first i l \<longleftrightarrow> (\<forall>l1 k l2. l = l1 @ ClosePut k # l2 \<longrightarrow> EnabledWrite i False \<in> set l1)"

definition disables_first :: "string \<Rightarrow> (('r, 'e) world, 'a) prog \<Rightarrow> bool" where
  "disables_first i m \<longleftrightarrow> (\<forall>w. \<exists>l. w_log (snd (m w)) = w_log w @ l \<and> disabled_first i l)"

definition no_close :: "effect set" where
  "no_close = {x. \<forall>k. x \<noteq> ClosePut k}"

lemma no_close_in [simp]:
  "x \<in> no_close \<longleftrightarrow> (\<forall>k. x \<noteq> ClosePut k)" "range Saved \<subseteq> no_close"
  by (auto simp: no_close_def)

lemma disabled_first_quiet: "set l \<subseteq> no_close \<Longrightarrow> disabled_first i l"
  by (auto simp: disabled_first_def)

lemma disabled_first_append:
  assumes "set l \<subseteq> no_close" and "disabled_first i l'"
  shows "disabled_first i (l @ l')"
  unfolding disabled_first_def
proof (intro allI impI)
  fix l1 k l2 assume eq: "l @ l' = l1 @ ClosePut k # l2"
  with assms(1) obtain m where "l1 = l @ m" "l' = m @ ClosePut k # l2"
    by (auto simp: append_eq_append_conv2 append_eq_Cons_conv)
  with assms(2) show "EnabledWrite i False \<in> set l1" by (auto simp: disabled_first_def)
qed

lemma disables_first_emits: "emits no_close m \<Longrightarrow> disables_first i m"
  unfolding disables_first_def using disabled_first_quiet emitsD by metis

lemma disables_first_bind:
  assumes "emits no_close m" and "\<And>v. disables_first i (f v)"
  shows "disables_first i (bindp m f)"
  unfolding disables_first_def
proof
  fix w
  obtain r w1 where m: "m w = (r, w1)" by (cases "m w")
  from emitsE [OF assms(1), of w] m obtain l where l: "w_log w1 = w_log w @ l" "set l \<subseteq> no_close" by auto
  show "\<exists>l. w_log (snd (bindp m f w)) = w_log w @ l \<and> disabled_first i l"
  proof (cases r)
    case (Inl e)
    with m l show ?thesis by (auto simp: bindp_def intro: disabled_first_quiet)
  next
    case (Inr v)
    from assms(2) [of v] obtain l' where "w_log (snd (f v w1)) = w_log w1 @ l'" "disabled_first i l'"
      unfolding disables_first_def by blast
    with m l Inr show ?thesis
      by (intro exI [of _ "l @ l'"]) (simp add: bindp_def disabled_first_append)
  qed
qed

lemma disables_first_write:
  fixes f :: "unit \<Rightarrow> (('r, 'e) world, 'a) prog"
  assumes "\<And>v. emits UNIV (f v)"
  shows "disables_first i (bindp (write_enabled P i False) f)"
  unfolding disables_first_def
proof
  fix w :: "('r, 'e) world"
  obtain r w1 where m: "write_enabled P i False w = (r, w1)" by (cases "write_enabled P i False w")
  then have l: "w_log w1 = w_log w @ [EnabledWrite i False]"
    by (auto simp: write_enabled_def tryp_def call_def raise_def ret_def
        split: prod.splits sum.splits exn.splits file_change_error.splits)
  have first: "disabled_first i (EnabledWrite i False # l')" for l'
    by (auto simp: disabled_first_def Cons_eq_append_conv)
  show "\<exists>l. w_log (snd (bindp (write_enabled P i False) f w)) = w_log w @ l \<and> disabled_first i l"
  proof (cases r)
    case (Inl e)
    with m l first [of "[]"] show ?thesis by (simp add: bindp_def)
  next
    case (Inr v)
    from emitsD [OF assms [of v], of w1] obtain l' where "w_log (snd (f v w1)) = w_log w1 @ l'" by blast
    with m l Inr first [of l'] show ?thesis by (simp add: bindp_def)
  qed
qed

lemma disables_first_locked_or_busy:
  fixes m :: "(('r, 'e) world, 'a) prog"
  assumes "disables_first i m"
  shows "disables_first i (locked_or_busy P j m)"
proof -
  let ?h = "\<lambda>exc. case exc of StrategyInstanceBusy _ \<Rightarrow> raise (EnabledControlRefused InstanceBusy) | _ \<Rightarrow> raise exc"
  have "disables_first i (hold_timeout P j m)"
    unfolding hold_timeout_def
    by (intro disables_first_bind emits_rules) (auto intro: assms disables_first_emits emits_rules)
  moreover have "w_log (snd (catchp n ?h w)) = w_log (snd (n w))" for n :: "(('r, 'e) world, 'a) prog" and w
    by (auto simp: catchp_def raise_def split: prod.splits sum.splits exn.splits)
  ultimately show ?thesis unfolding disables_first_def locked_or_busy_def by simp
qed

lemma close_position_disables_first: "disables_first i (close_position cfg P ops i)"
proof -
  have tail: "disables_first i (bindp (freeze_for_close cfg ops i resolved cycle) (\<lambda>s.
      bindp (write_enabled P i False) (\<lambda>_. close_marked_position cfg P ops i cycle s)))" for resolved cycle
    by (intro disables_first_bind disables_first_write emits_rules) auto
  have "disables_first i (close_locked cfg P ops i)"
    unfolding close_locked_def
  proof (rule disables_first_bind [OF emits_repo_get])
    have refuse: "disables_first i (raise e)" for e by (rule disables_first_emits [OF emits_raise])
    have looked: "emits no_close (catchp (resolve P s) raise_on_lookup_failure)" for s by (auto intro!: emits_rules)
    fix found
    show "disables_first i (case found of
       None \<Rightarrow> raise (EnabledControlRefused NoPosition)
     | Some s \<Rightarrow>
         if sirs_pending_entry_recovery s \<noteq> None \<or> sirs_pending_close_recovery s \<noteq> None
         then raise (EnabledControlRefused RecoveryPending)
         else if sirs_current_trade_cycle s = None then raise (EnabledControlRefused NoPosition)
         else
           bindp (catchp (resolve P s) raise_on_lookup_failure) (\<lambda>resolved.
           if prs_closure resolved \<noteq> None then raise (EnabledControlRefused CycleNotSettled)
           else if \<not> prs_position_open resolved then raise (EnabledControlRefused NoPosition)
           else case sirs_current_trade_cycle (prs_runtime_state resolved) of
             None \<Rightarrow> raise AssertionError
           | Some cycle \<Rightarrow>
               bindp (freeze_for_close cfg ops i resolved cycle) (\<lambda>s.
               bindp (write_enabled P i False) (\<lambda>_.
               close_marked_position cfg P ops i cycle s))))"
      by (auto intro!: refuse disables_first_bind [OF looked] tail split: option.splits)
  qed
  then show ?thesis
    unfolding close_position_def
    by (intro disables_first_bind disables_first_locked_or_busy) (auto intro: emits_rules)
qed

end
