(* ===== verification/Examples.thy ===== *)
theory Examples
  imports System
begin

text \<open>
  Concrete deployments, ports and worlds: the inputs at which the properties of the root theory are
  applied. \<open>exchange\<close> is an execution service that confirms whatever it is asked, with an open
  position or without; the engine desires one fixed entry and then a fixed protection.
\<close>

section \<open>Data\<close>

definition ex_entry :: DesiredEntry where
  "ex_entry = \<lparr>de_side = ''long'', de_source_plan_bar_open_time_ms = 60000, de_planned_entry_price = ''100'',
     de_initial_stop_price = ''90'', de_initial_take_price = ''120'', de_locked_exit_profile = ''p''\<rparr>"

definition ex_wire :: EntryPackageWireDesiredEntry where
  "ex_wire = \<lparr>wde_side = ''long'', wde_source_plan_bar_open_time_ms = 60000, wde_planned_entry_price = ''100'',
     wde_initial_stop_price = ''90'', wde_initial_take_price = ''120'', wde_locked_exit_profile = ''p''\<rparr>"

definition ex_deployment :: DeploymentSpecification where
  "ex_deployment = \<lparr>ds_strategy_instance_id = ''i'', ds_enabled = True, ds_instrument = ''BTC'',
     ds_base_timeframe = ''1m'', ds_strategy_id = ''s'', ds_raw_spec = [], ds_source_path = ''i.json''\<rparr>"

definition ex_bar :: CommittedBarEvent where
  "ex_bar = \<lparr>cbe_instrument = ''BTC'', cbe_timeframe = ''1m'', cbe_open_time_ms = 120000\<rparr>"

definition ex_unit :: StrategyBarProcessingUnit where
  "ex_unit = \<lparr>unit_strategy_instance_id = ''i'', unit_deployment = ex_deployment, unit_committed_bar = ex_bar\<rparr>"

definition ex_catalog :: "bool \<Rightarrow> DeploymentCatalogSnapshot" where
  "ex_catalog enabled =
     \<lparr>dcs_scanned_file_count = 1, dcs_accepted_deployments = [ex_deployment\<lparr>ds_enabled := enabled\<rparr>],
     dcs_invalid_files = [], dcs_duplicate_identities = []\<rparr>"

definition ex_config :: config where
  "ex_config = \<lparr>cfg_journal = (\<lambda>k. True), cfg_live_entry_mode = ema_anchor, cfg_order_lifetime_bars = None,
     cfg_first_fill_freezer = \<lparr>fff_order_lifetime_bars = None\<rparr>, cfg_entry_remainder_cancel_port = False\<rparr>"

section \<open>States of the instance\<close>

definition ex_flat :: state where
  "ex_flat = \<lparr>sirs_strategy_instance_id = ''i'', sirs_strategy_id = ''s'',
     sirs_registered_spec_snapshot = \<lparr>rss_instrument = ''BTC'', rss_base_timeframe = ''1m'', rss_raw_spec = [],
       rss_source_path = ''i.json''\<rparr>,
     sirs_risk_multiplier = ''1'', sirs_current_trade_cycle = None, sirs_pending_entry_recovery = None,
     sirs_pending_close_recovery = None\<rparr>"

definition ex_marked :: state where
  "ex_marked = ex_flat\<lparr>sirs_pending_entry_recovery := Some \<lparr>per_trade_cycle_id = ''c''\<rparr>\<rparr>"

definition ex_pending :: state where
  "ex_pending = ex_flat\<lparr>sirs_current_trade_cycle := Some (fresh_cycle ''c'' ex_entry ''1'')\<rparr>"

definition ex_frozen :: FrozenExecutedEntryContext where
  "ex_frozen = \<lparr>fec_desired_entry = ex_entry, fec_first_fill_at_ms = 61000, fec_entry_bar_open_time_ms = 60000,
     fec_entry_order_expires_at_bar = None\<rparr>"

definition ex_filled :: state where
  "ex_filled = frozen_with ex_pending (fresh_cycle ''c'' ex_entry ''1'') ex_frozen"

section \<open>Requests\<close>

definition ex_request :: EntryPackageRequest where
  "ex_request = \<lparr>epr_strategy_instance_id = ''i'', epr_trade_cycle_id = ''c'', epr_ticker = ''BTC'',
     epr_desired_entry = Some ex_wire, epr_risk_multiplier = ''1''\<rparr>"

definition ex_closing :: state where
  "ex_closing = ex_filled\<lparr>sirs_pending_close_recovery := Some \<lparr>pcr_trade_cycle_id = ''c''\<rparr>\<rparr>"

definition ex_cancel :: EntryPackageRequest where
  "ex_cancel = ex_request\<lparr>epr_desired_entry := None\<rparr>"

definition ex_protect :: ApplyProtectionCommand where
  "ex_protect = \<lparr>apc_strategy_instance_id = ''i'', apc_trade_cycle_id = ''c'',
     apc_desired_protection = \<lparr>dp_stop_price = ''95'', dp_take_price = Some ''130''\<rparr>\<rparr>"

section \<open>Ports\<close>

text \<open>The environment is whether the position of cycle \<open>c\<close> is open on the exchange; the deployment
  file says whether the instance is enabled.\<close>

definition exchange :: "bool \<Rightarrow> bool ports" where
  "exchange enabled =
     \<lparr>p_new_trade_cycle_id = (\<lambda>e. (''c'', e)),
      p_send = (\<lambda>r e.
        (Inr (if epr_desired_entry r = None
              then PackageAbsent \<lparr>epb_strategy_instance_id = epr_strategy_instance_id r,
                                  epb_trade_cycle_id = epr_trade_cycle_id r\<rparr>
              else PackageApplied \<lparr>epa_strategy_instance_id = epr_strategy_instance_id r,
                     epa_trade_cycle_id = epr_trade_cycle_id r, epa_applied_desired_entry = ex_wire,
                     epa_calculated_quantity = ''1'', epa_trigger_price = None, epa_stop_loss = None,
                     epa_take_profit = None, epa_quantity = None, epa_order_link_id = None, epa_order_id = None\<rparr>), e)),
      p_query = (\<lambda>i cid e. (Inr EntryOrderNotFoundRecoveryState, e)),
      p_lookup = (\<lambda>r e.
        (Inr (if e then \<lparr>opl_position_open = True, opl_first_fill_at_ms = Some 61000,
                         opl_average_entry_price = Some ''100'', opl_closure = None,
                         opl_entry_order_link_id = Some ''link'', opl_entry_order_id = None\<rparr>
              else \<lparr>opl_position_open = False, opl_first_fill_at_ms = None, opl_average_entry_price = None,
                    opl_closure = None, opl_entry_order_link_id = None, opl_entry_order_id = None\<rparr>), e)),
      p_apply_protection = (\<lambda>c e.
        (Inr \<lparr>pac_strategy_instance_id = apc_strategy_instance_id c, pac_trade_cycle_id = apc_trade_cycle_id c,
              pac_confirmed_protection = apc_desired_protection c,
              pac_protection_orders = \<lparr>pos_quantity = ''1'',
                pos_stop = \<lparr>po_order_id = ''o1'', po_trigger_price = ''95''\<rparr>,
                pos_take = \<lparr>po_order_id = ''o2'', po_trigger_price = ''130''\<rparr>\<rparr>\<rparr>, e)),
      p_close_position = (\<lambda>c e.
        (Inr \<lparr>pcc_strategy_instance_id = cpc_strategy_instance_id c, pcc_trade_cycle_id = cpc_trade_cycle_id c,
              pcc_closure = None\<rparr>, False)),
      p_cancel_entry_remainder = (\<lambda>i cid e.
        (Inr \<lparr>ercc_strategy_instance_id = i, ercc_trade_cycle_id = cid,
              ercc_status = ''entry_remainder_cancelled'', ercc_executed_quantity = None\<rparr>, e)),
      p_project_live_entry = (\<lambda>r e. (Inr (Some ex_entry), e)),
      p_project_open_trade = (\<lambda>r e.
        (Inr \<lparr>ops_desired_protection = \<lparr>dp_stop_price = ''95'', dp_take_price = Some ''130''\<rparr>,
              ops_close_signal = \<lparr>cs_active = False, cs_reason = None, cs_component_id = None, cs_layer = None\<rparr>,
              ops_diagnostics = [],
              ops_engine_desired_protection_text = \<lparr>edpt_stop_price = ''95'', edpt_take_price = Some ''130''\<rparr>\<rparr>, e)),
      p_load_snapshot = (\<lambda>e. (Inr (ex_catalog enabled), e)),
      p_set_enabled = (\<lambda>i b e. (Inr True, e)),
      p_read_original = (\<lambda>i e. (Inr ''{}'', e)),
      p_move_to_trash = (\<lambda>i t e. (Inr ''trash/i.json'', e)),
      p_acquire = (\<lambda>i e. (True, e)),
      p_worker_running = (\<lambda>e. (True, e))\<rparr>"

definition ex_world :: "memory_repo \<Rightarrow> bool \<Rightarrow> (memory_repo, bool) world" where
  "ex_world repo opened = \<lparr>w_repo = repo, w_env = opened, w_log = []\<rparr>"

section \<open>Evaluation\<close>

lemmas scanning = nonblank_def py_strip_def py_lstrip_def py_rstrip_def py_isspace_def
  is_positive_exact_decimal_text_def is_exact_decimal_text_def analyze_exact_decimal_text_def scan_sign_def
  scan_exponent_def is_digit_def

lemma ex_texts [simp]:
  "nonblank ''i''" "nonblank ''s''" "nonblank ''BTC''" "nonblank ''1m''" "nonblank ''i.json''" "nonblank ''p''"
  "nonblank ''c''"
  "is_positive_exact_decimal_text ''1''" "is_positive_exact_decimal_text ''120''"
  "is_positive_exact_decimal_text ''100''" "is_positive_exact_decimal_text ''95''"
  "is_positive_exact_decimal_text ''130''"
  "is_exact_decimal_text ''1''" "is_exact_decimal_text ''100''" "is_exact_decimal_text ''90''"
  by (simp_all add: scanning)

lemmas normalising = normalize_decimal_text_def py_Decimal_def parse_unsigned_def parse_exponent_def
  decimal_in_range_def MAX_EMAX_def MIN_ETINY_def is_special_text_def lower_char_def digits_val_def digit_val_def
  finite_text_def format_f_def digits_of.simps digit_char_def rstrip_char_def decimal_text_le_zero_def scanning

lemma ex_normal [simp]:
  "normalize_decimal_text ''100'' = Inr ''100''" "normalize_decimal_text ''90'' = Inr ''90''"
  "normalize_decimal_text ''120'' = Inr ''120''" "normalize_decimal_text ''95'' = Inr ''95''"
  "normalize_decimal_text ''130'' = Inr ''130''" "\<not> decimal_text_le_zero ''120''"
  by (simp_all add: normalising)

lemma ex_entry_constructed [simp]: "new_DesiredEntry ex_entry = Inr ex_entry"
  by (simp add: new_DesiredEntry_def ex_entry_def)

lemma exchange_answers [simp]:
  "p_new_trade_cycle_id (exchange b) = (\<lambda>e. (''c'', e))"
  "p_send (exchange b) r e =
     (Inr (if epr_desired_entry r = None
           then PackageAbsent \<lparr>epb_strategy_instance_id = epr_strategy_instance_id r,
                               epb_trade_cycle_id = epr_trade_cycle_id r\<rparr>
           else PackageApplied \<lparr>epa_strategy_instance_id = epr_strategy_instance_id r,
                  epa_trade_cycle_id = epr_trade_cycle_id r, epa_applied_desired_entry = ex_wire,
                  epa_calculated_quantity = ''1'', epa_trigger_price = None, epa_stop_loss = None,
                  epa_take_profit = None, epa_quantity = None, epa_order_link_id = None, epa_order_id = None\<rparr>), e)"
  "p_query (exchange b) i cid e = (Inr EntryOrderNotFoundRecoveryState, e)"
  "p_load_snapshot (exchange b) e = (Inr (ex_catalog b), e)"
  "p_set_enabled (exchange b) i x e = (Inr True, e)"
  "p_read_original (exchange b) i e = (Inr ''{}'', e)"
  "p_move_to_trash (exchange b) i t e = (Inr ''trash/i.json'', e)"
  "p_acquire (exchange b) i e = (True, e)"
  "p_worker_running (exchange b) e = (True, e)"
  "p_project_live_entry (exchange b) q e = (Inr (Some ex_entry), e)"
  "p_close_position (exchange b) k e =
     (Inr \<lparr>pcc_strategy_instance_id = cpc_strategy_instance_id k, pcc_trade_cycle_id = cpc_trade_cycle_id k,
           pcc_closure = None\<rparr>, False)"
  "p_lookup (exchange b) l True =
     (Inr \<lparr>opl_position_open = True, opl_first_fill_at_ms = Some 61000, opl_average_entry_price = Some ''100'',
           opl_closure = None, opl_entry_order_link_id = Some ''link'', opl_entry_order_id = None\<rparr>, True)"
  "p_lookup (exchange b) l False =
     (Inr \<lparr>opl_position_open = False, opl_first_fill_at_ms = None, opl_average_entry_price = None,
           opl_closure = None, opl_entry_order_link_id = None, opl_entry_order_id = None\<rparr>, False)"
  by (simp_all add: exchange_def)

lemmas stored_ops = memory_ops_def memory_get_def memory_save_def memory_get_or_create_def repo_get_def repo_save_def
  repo_get_or_create_def initial_state_def require_strategy_instance_id_def save_check_def snapshot_eq_def json_eq_def
  CANONICAL_INITIAL_RISK_MULTIPLIER_def freeze_object_def

lemmas constructors = new_DesiredEntry_def new_RegisteredSpecSnapshot_def new_StrategyInstanceRuntimeState_def new_CurrentTradeCycle_def
  new_AppliedEntryPackage_def new_PendingEntryRecovery_def new_PendingCloseRecovery_def new_EntryPackageRequest_def
  new_EntryPackageWireDesiredEntry_def new_EntryPackageResult_def new_EntryPackageApplied_def new_EntryPackageAbsent_def
  new_EntryReconciliationCommand_def new_EntryAppliedConfirmation_def new_EntryAbsentConfirmation_def
  new_DeploymentSpecification_def new_DeploymentCatalogSnapshot_def new_SelectedDeployment_def
  new_StrategyCycleDispatchOutcome_def new_CommittedBarOrchestrationResult_def
  new_OpenPositionLookupRequest_def new_OpenPositionLookupResponse_def checked.simps optionally_def
  require_non_empty_def require_exact_decimal_def require_positive_decimal_def 

lemmas flow = bindp_def tryp_def catchp_def hold_def call_def ask_def typed_def journal_def Let_def

lemmas bar_flow = process_bar_def record_bar_def prepare_def load_snapshot_def new_catalog_answer_def ex_catalog_def
  select_def bar_matches_def dispatch_one_def dispatch_def process_def process_locked_def create_request_def
  outcome_succeeded_def build_result_def resolve_def route_and_apply_def route_def validate_instance_binding_def
  project_live_entry_def new_desired_entry_answer_def run_use_case_def journal_live_entry_def

lemmas entry_flow = entry_execute_def entry_decide_def decide_entry_reconciliation_def get_acknowledged_desired_entry_def
  desired_entries_equivalent_def entry_is_frozen_def execute_one_def build_entry_reconciliation_command_def build_command_def
  require_current_cycle_def send_marked_def bridge_execute_def encode_desired_entry_def abi_send_def bridge_outcome_def
  decode_desired_entry_def journal_entry_applied_def apply_success_confirmation_def require_input_types_def
  require_common_identity_def outcome_instance_id_def require_cycle_identity_def confirm_apply_def confirmed_cycle_def journal_cycle_ended_on_bar_def

lemma ex_config_fields [simp]:
  "cfg_journal ex_config k" "cfg_live_entry_mode ex_config = ema_anchor"
  "cfg_first_fill_freezer ex_config = \<lparr>fff_order_lifetime_bars = None\<rparr>"
  "\<not> cfg_entry_remainder_cancel_port ex_config"
  by (simp_all add: ex_config_def)

lemma ex_bar_run:
  "handle error_text ex_config (exchange True) memory_ops (BarCommitted ex_bar) (ex_world [] False) =
      \<lparr>w_repo = [(''i'', ex_pending)], w_env = False,
      w_log = [Journal (JOrchestrationStarted ex_bar), Saved ex_flat,
        LiveEntryProjected \<lparr>lpr_strategy_id = ''s'', lpr_raw_spec = [], lpr_ticker = ''BTC'',
          lpr_base_timeframe = ''1m'', lpr_target_bar_open_time_ms = 120000\<rparr>,
        Journal (JLiveEntryEvaluated ''i'' ''BTC'' ''1m'' 120000 (Some ex_entry)),
        Saved ex_marked, EntryPackagePut ex_request, Saved ex_pending] @
        (let x = \<lparr>out_strategy_instance_id = ''i'', out_status = SUCCEEDED, out_error_code = None, out_error_message = None\<rparr>
         in [Journal (JStrategyCycleOutcome ex_bar x), Journal (JOrchestrationCompleted ex_bar
          \<lparr>cbr_selected_count = 1, cbr_attempted_count = 1, cbr_succeeded_count = 1, cbr_failed_count = 0,
           cbr_outcomes = [x]\<rparr>)])\<rparr>"
  unfolding ex_world_def ex_unit_def ex_bar_def ex_deployment_def ex_pending_def ex_marked_def ex_flat_def ex_request_def fresh_cycle_def
  by (simp add: handle_def bar_flow entry_flow flow stored_ops constructors ex_wire_def ex_entry_def ex_deployment_def)

lemmas operator_flow = close_position_def close_locked_def deployment_in_catalog_def get_by_strategy_instance_id_def
  locked_or_busy_def hold_timeout_def raise_on_lookup_failure_def freeze_for_close_def write_enabled_def
  close_marked_position_def new_ClosePositionCommand_def CANONICAL_CLOSE_EXPOSURE_FRACTION_def
  abi_close_position_def new_closed_answer_def new_PositionClosedConfirmation_def abi_lookup_def present_def
  delete_def delete_locked_def read_original_def cancel_step_run_def

lemma ex_close_run:
  "handle error_text ex_config (exchange True) memory_ops (CloseRequested ''i'') (ex_world [(''i'', ex_filled)] True) =
     \<lparr>w_repo = [(''i'', ex_flat)], w_env = False,
      w_log = [PositionLookup \<lparr>oplr_strategy_instance_id = ''i'', oplr_trade_cycle_id = ''c''\<rparr>,
        EnabledWrite ''i'' False, Saved ex_closing,
        ClosePut \<lparr>cpc_strategy_instance_id = ''i'', cpc_trade_cycle_id = ''c'', cpc_exposure_fraction = ''1''\<rparr>,
        Saved ex_flat]\<rparr>"
  unfolding ex_world_def ex_closing_def ex_filled_def ex_pending_def ex_flat_def fresh_cycle_def frozen_with_def ex_frozen_def
  by (simp add: handle_def operator_flow resolve_def load_snapshot_def new_catalog_answer_def ex_catalog_def ex_deployment_def
    flow stored_ops constructors ex_entry_def)

lemma ex_delete_run:
  "handle error_text ex_config (exchange False) memory_ops (DeleteRequested ''i'') (ex_world [(''i'', ex_flat)] False) =
     \<lparr>w_repo = [(''i'', ex_flat)], w_env = False, w_log = [TrashMove ''i'']\<rparr>"
  unfolding ex_world_def ex_flat_def
  by (simp add: handle_def operator_flow resolve_def load_snapshot_def new_catalog_answer_def ex_catalog_def ex_deployment_def
    flow stored_ops constructors)

lemmas resolver_flow = tick_def dict_fromkeys_def memory_list_ids_with_pending_entry_recovery_def
  memory_list_ids_with_pending_close_recovery_def attempt_def attempt_locked_def abi_query_def new_RecoveryStateResponse_def
  resolve_uncertain_apply_def cancel_and_clear_only_if_exact_absent_def abi_cancel_def clear_cycle_and_marker_def
  journal_entry_cycle_ended_def ENTRY_CYCLE_END_REASONS_def

lemma ex_tick_run:
  "handle error_text ex_config (exchange True) memory_ops ResolverTick (ex_world [(''i'', ex_marked)] False) =
     \<lparr>w_repo = [(''i'', ex_flat)], w_env = False,
      w_log = [RecoveryQuery ''i'' ''c'', EntryPackagePut ex_cancel, Saved ex_flat,
        Journal (JEntryCycleEnded ''i'' ''c'' None ''exact_absent'')]\<rparr>"
  unfolding ex_world_def ex_flat_def ex_marked_def ex_cancel_def ex_request_def
  by (simp add: handle_def resolver_flow flow abi_send_def stored_ops constructors)

lemma ex_fill_run:
  "handle error_text ex_config (exchange True) memory_ops
     (FirstFillReported \<lparr>ffe_strategy_instance_id = ''i'', ffe_trade_cycle_id = ''c'', ffe_first_fill_at_ms = 61000\<rparr>)
     (ex_world [(''i'', ex_pending)] True) =
     \<lparr>w_repo = [(''i'', ex_filled)], w_env = True, w_log = [Saved ex_filled]\<rparr>"
  unfolding ex_world_def ex_filled_def ex_pending_def ex_flat_def fresh_cycle_def frozen_with_def ex_frozen_def
  by (simp add: handle_def process_first_fill_def freeze_def apply_first_fill_def align_first_fill_to_entry_bar_def
    timeframe_duration_ms_def SUPPORTED_TIMEFRAME_DURATIONS_MS_def new_FrozenExecutedEntryContext_def
    flow stored_ops constructors ex_entry_def)

lemmas trade_flow = abi_lookup_def present_def prepare_open_position_def ensure_first_fill_frozen_def freeze_def
  apply_first_fill_def route_open_trade_def project_open_trade_def new_open_trade_answer_def new_DesiredProtection_def
  new_PositionManagementRecipe_def journal_open_trade_def pm_execute_with_closure_def decide_position_management_def
  resolve_effective_acknowledged_protection_def new_ApplyProtection_def build_position_management_command_def
  pm_command_require_current_cycle_def new_ApplyProtectionCommand_def abi_apply_protection_def new_protection_answer_def
  new_ProtectionOrder_def new_ProtectionOrders_def new_ProtectionAppliedConfirmation_def journal_protection_applied_def
  apply_position_management_confirmation_def pm_require_common_identity_def command_instance_id_def confirmation_instance_id_def
  pm_require_current_cycle_def pm_require_cycle_identity_def pm_apply_protection_def journal_cycle_ended_on_bar_def bar_of_def

lemma exchange_protection [simp]:
  "p_project_open_trade (exchange b) q e =
     (Inr \<lparr>ops_desired_protection = \<lparr>dp_stop_price = ''95'', dp_take_price = Some ''130''\<rparr>,
           ops_close_signal = \<lparr>cs_active = False, cs_reason = None, cs_component_id = None, cs_layer = None\<rparr>,
           ops_diagnostics = [],
           ops_engine_desired_protection_text = \<lparr>edpt_stop_price = ''95'', edpt_take_price = Some ''130''\<rparr>\<rparr>, e)"
  "p_apply_protection (exchange b) k e =
     (Inr \<lparr>pac_strategy_instance_id = apc_strategy_instance_id k, pac_trade_cycle_id = apc_trade_cycle_id k,
           pac_confirmed_protection = apc_desired_protection k,
           pac_protection_orders = \<lparr>pos_quantity = ''1'',
             pos_stop = \<lparr>po_order_id = ''o1'', po_trigger_price = ''95''\<rparr>,
             pos_take = \<lparr>po_order_id = ''o2'', po_trigger_price = ''130''\<rparr>\<rparr>\<rparr>, e)"
  by (simp_all add: exchange_def)

lemma ex_trade_run:
  "\<exists>l'. w_log (handle error_text ex_config (exchange True) memory_ops (BarCommitted ex_bar) (ex_world [(''i'', ex_filled)] True)) =
      [Journal (JOrchestrationStarted ex_bar),
        PositionLookup \<lparr>oplr_strategy_instance_id = ''i'', oplr_trade_cycle_id = ''c''\<rparr>,
        OpenTradeProjected \<lparr>opr_strategy_id = ''s'', opr_raw_spec = [], opr_ticker = ''BTC'', opr_base_timeframe = ''1m'',
          opr_target_bar_open_time_ms = 120000, opr_desired_entry = ex_entry, opr_entry_bar_open_time_ms = 60000\<rparr>,
        Journal (JOpenTradeEvaluated ''i'' ''BTC'' ''1m'' 120000 ''c'' ''long''
          \<lparr>edpt_stop_price = ''95'', edpt_take_price = Some ''130''\<rparr>
          \<lparr>cs_active = False, cs_reason = None, cs_component_id = None, cs_layer = None\<rparr>),
        ProtectionPut ex_protect] @ l'"
  unfolding ex_world_def ex_bar_def ex_filled_def ex_pending_def ex_flat_def fresh_cycle_def frozen_with_def ex_frozen_def ex_protect_def
  by (simp add: handle_def bar_flow trade_flow flow stored_ops constructors ex_entry_def ex_deployment_def cycle_desired_entry_def)

lemma ex_good:
  "good (map_of [])" "good (map_of [(''i'', ex_flat)])" "good (map_of [(''i'', ex_marked)])"
  "good (map_of [(''i'', ex_pending)])" "good (map_of [(''i'', ex_filled)])"
proof -
  have entry: "wf_desired_entry ex_entry" by (simp add: wf_desired_entry_def ex_entry_def price_text_def)
  have wf: "wf_state ex_flat" "wf_state ex_marked" "wf_state ex_pending" "wf_state ex_filled"
    using entry by (simp_all add: wf_defs(2-) ex_flat_def ex_marked_def ex_pending_def ex_filled_def fresh_cycle_def
        frozen_with_def ex_frozen_def)
  have "coherent ex_flat" "coherent ex_marked" "coherent ex_pending" "coherent ex_filled"
    by (simp_all add: coherent_def coherent_frozen_def cycle_desired_entry_def ex_flat_def ex_marked_def ex_pending_def
        ex_filled_def fresh_cycle_def frozen_with_def ex_frozen_def ex_entry_def align_first_fill_to_entry_bar_def
        timeframe_duration_ms_def SUPPORTED_TIMEFRAME_DURATIONS_MS_def)
  moreover have "sirs_strategy_instance_id ex_flat = ''i''" "sirs_strategy_instance_id ex_marked = ''i''"
      "sirs_strategy_instance_id ex_pending = ''i''" "sirs_strategy_instance_id ex_filled = ''i''"
    by (simp_all add: ex_flat_def ex_marked_def ex_pending_def ex_filled_def frozen_with_def)
  ultimately show "good (map_of [])" "good (map_of [(''i'', ex_flat)])" "good (map_of [(''i'', ex_marked)])"
      "good (map_of [(''i'', ex_pending)])" "good (map_of [(''i'', ex_filled)])"
    using wf by (simp_all add: good_def)
qed

lemma ex_memory_inv: 
  "memory_inv []" "memory_inv [(''i'', ex_flat)]" "memory_inv [(''i'', ex_marked)]" "memory_inv [(''i'', ex_pending)]"
  "memory_inv [(''i'', ex_filled)]"
  by (simp_all add: memory_inv_def ex_flat_def ex_marked_def ex_pending_def ex_filled_def frozen_with_def)

end
