(* ===== verification/Json_Text.thy ===== *)
theory Json_Text
  imports Decimal_Text Json_Values "HOL-Library.AList"
begin

text \<open>
  JSON as text: what the program uses of Python's \<open>json\<close> module.

  \<open>json_dumps\<close> is \<open>json.dumps(v, ensure_ascii=False, separators=(",", ":"), sort_keys=True)\<close>, and
  \<open>json_loads\<close> is \<open>json.loads\<close>: the scanner of \<open>json/scanner.py\<close> and \<open>json/decoder.py\<close>, \<open>None\<close> being
  \<open>JSONDecodeError\<close>. A float is held as the text the encoder writes for it; \<open>ft\<close> stands for the
  interpreter's conversion, the text written for the float a numeral denotes. The fuel of the parser
  is twice the length of its input, and \<open>parse_fuel\<close> shows that more changes nothing.

  Strings hold the code points below 256: an escape \<open>\u\<close> that denotes a larger one is refused here.
  The interpreter's limits on recursion and on the digits of an integer are not modelled.

  Proved: what is written reads back (\<open>json_loads_dumps\<close>); a proper prefix of a written object is
  never a JSON text (\<open>json_loads_torn\<close>), nor are two written values in a row (\<open>json_loads_joined\<close>).
\<close>

section \<open>Writing\<close>

abbreviation dquote :: char where "dquote \<equiv> CHR 0x22"
abbreviation bslash :: char where "bslash \<equiv> CHR 0x5C"

definition hex_char :: "nat \<Rightarrow> char" where
  "hex_char n = ''0123456789abcdef'' ! (n mod 16)"

definition json_escape :: "char \<Rightarrow> string" where
  "json_escape c =
     (if c = dquote then [bslash, dquote]
      else if c = bslash then [bslash, bslash]
      else if c = CHR 0x0A then [bslash, CHR ''n'']
      else if c = CHR 0x0D then [bslash, CHR ''r'']
      else if c = CHR 0x09 then [bslash, CHR ''t'']
      else if c = CHR 0x0C then [bslash, CHR ''f'']
      else if c = CHR 0x08 then [bslash, CHR ''b'']
      else if of_char c < (32 :: nat)
      then [bslash, CHR ''u'', CHR ''0'', CHR ''0'', hex_char (of_char c div 16), hex_char (of_char c)]
      else [c])"

definition json_string :: "string \<Rightarrow> string" where
  "json_string s = dquote # concat (map json_escape s) @ [dquote]"

definition int_text :: "int \<Rightarrow> string" where
  "int_text n = (if n < 0 then CHR ''-'' # digits_of (nat (- n)) else digits_of (nat n))"

fun commas :: "string list \<Rightarrow> string" where
  "commas [] = []"
| "commas [x] = x"
| "commas (x # y # ys) = x @ CHR '','' # commas (y # ys)"

fun json_text :: "json \<Rightarrow> string" where
  "json_text JNull = ''null''"
| "json_text (JBool b) = (if b then ''true'' else ''false'')"
| "json_text (JInt n) = int_text n"
| "json_text (JFloat t) = t"
| "json_text (JStr s) = json_string s"
| "json_text (JArr vs) = CHR ''['' # commas (map json_text vs) @ '']''"
| "json_text (JObj kvs) = CHR ''{'' # commas (map (\<lambda>(k, v). json_string k @ CHR '':'' # json_text v) kvs) @ ''}''"

definition json_dumps :: "json \<Rightarrow> string" where
  "json_dumps v = json_text (json_norm v)"

section \<open>Reading\<close>

definition json_space :: "char \<Rightarrow> bool" where
  "json_space c \<longleftrightarrow> c = CHR '' '' \<or> c = CHR 0x09 \<or> c = CHR 0x0A \<or> c = CHR 0x0D"

definition skip_ws :: "string \<Rightarrow> string" where
  "skip_ws s = dropWhile json_space s"

fun strip_prefix :: "string \<Rightarrow> string \<Rightarrow> string option" where
  "strip_prefix [] s = Some s"
| "strip_prefix (p # ps) [] = None"
| "strip_prefix (p # ps) (c # s) = (if p = c then strip_prefix ps s else None)"

text \<open>One hexadecimal digit, and four of them.\<close>

definition hex_digit :: "char \<Rightarrow> nat option" where
  "hex_digit c =
     (if is_digit c then Some (of_char c - 48)
      else if CHR ''a'' \<le> c \<and> c \<le> CHR ''f'' then Some (of_char c - 87)
      else if CHR ''A'' \<le> c \<and> c \<le> CHR ''F'' then Some (of_char c - 55)
      else None)"

fun hex4 :: "string \<Rightarrow> (nat \<times> string) option" where
  "hex4 (a # b # c # d # r) =
     (case (hex_digit a, hex_digit b, hex_digit c, hex_digit d) of
        (Some i, Some j, Some k, Some l) \<Rightarrow> Some (((i * 16 + j) * 16 + k) * 16 + l, r)
      | _ \<Rightarrow> None)"
| "hex4 s = None"

definition simple_escape :: "char \<Rightarrow> char option" where
  "simple_escape e =
     (if e = dquote \<or> e = bslash \<or> e = CHR ''/'' then Some e
      else if e = CHR ''n'' then Some (CHR 0x0A)
      else if e = CHR ''r'' then Some (CHR 0x0D)
      else if e = CHR ''t'' then Some (CHR 0x09)
      else if e = CHR ''f'' then Some (CHR 0x0C)
      else if e = CHR ''b'' then Some (CHR 0x08)
      else None)"

text \<open>One character or escape of a string: what it denotes and the rest.\<close>

definition scan_char :: "string \<Rightarrow> (char \<times> string) option" where
  "scan_char s =
     (case s of
        [] \<Rightarrow> None
      | c # r \<Rightarrow>
          if c \<noteq> bslash then (if of_char c < (32 :: nat) then None else Some (c, r))
          else case r of
            [] \<Rightarrow> None
          | e # r' \<Rightarrow>
              if e = CHR ''u''
              then (case hex4 r' of
                      None \<Rightarrow> None
                    | Some (n, r'') \<Rightarrow> if n < 256 then Some (char_of n, r'') else None)
              else (case simple_escape e of None \<Rightarrow> None | Some x \<Rightarrow> Some (x, r')))"

lemma hex4_shorter: "hex4 s = Some (n, r) \<Longrightarrow> length r < length s"
  by (induction s rule: hex4.induct) (auto split: option.splits)

lemma scan_char_shorter: "scan_char s = Some (c, r) \<Longrightarrow> length r < length s"
  by (fastforce simp: scan_char_def split: list.splits if_splits option.splits dest: hex4_shorter)

text \<open>The rest of a string, after its opening quote.\<close>

function scan_string :: "string \<Rightarrow> (string \<times> string) option" where
  "scan_string s =
     (if s \<noteq> [] \<and> hd s = dquote then Some ([], tl s)
      else case scan_char s of
        None \<Rightarrow> None
      | Some (c, r) \<Rightarrow>
          (case scan_string r of None \<Rightarrow> None | Some (t, r') \<Rightarrow> Some (c # t, r')))"
  by pat_completeness auto
termination
  by (relation "measure length") (auto dest: scan_char_shorter)

declare scan_string.simps [simp del]

text \<open>A numeral: its text, whether it has a fraction or an exponent, and the rest.\<close>

definition scan_frac :: "string \<Rightarrow> string \<times> string" where
  "scan_frac s =
     (case s of
        c # r \<Rightarrow> if c = CHR ''.'' \<and> takeWhile is_digit r \<noteq> []
                 then (c # takeWhile is_digit r, dropWhile is_digit r) else ([], s)
      | [] \<Rightarrow> ([], s))"

definition scan_exp :: "string \<Rightarrow> string \<times> string" where
  "scan_exp s =
     (case s of
        c # r \<Rightarrow>
          if c = CHR ''e'' \<or> c = CHR ''E''
          then (case r of
                  d # r' \<Rightarrow>
                    if d = CHR ''+'' \<or> d = CHR ''-''
                    then (if takeWhile is_digit r' \<noteq> [] then (c # d # takeWhile is_digit r', dropWhile is_digit r')
                          else ([], s))
                    else if is_digit d then (c # takeWhile is_digit r, dropWhile is_digit r)
                    else ([], s)
                | [] \<Rightarrow> ([], s))
          else ([], s)
      | [] \<Rightarrow> ([], s))"

definition scan_int :: "string \<Rightarrow> (string \<times> string) option" where
  "scan_int s =
     (let (sign, r) = (case s of c # cs \<Rightarrow> if c = CHR ''-'' then ([c], cs) else ([], s) | [] \<Rightarrow> ([], s)) in
      case r of
        [] \<Rightarrow> None
      | d # ds \<Rightarrow>
          if d = CHR ''0'' then Some (sign @ [d], ds)
          else if is_digit d then Some (sign @ takeWhile is_digit r, dropWhile is_digit r)
          else None)"

definition scan_number :: "string \<Rightarrow> (string \<times> bool \<times> string) option" where
  "scan_number s =
     (case scan_int s of
        None \<Rightarrow> None
      | Some (i, r) \<Rightarrow>
          (case scan_frac r of (f, r') \<Rightarrow>
           case scan_exp r' of (e, r'') \<Rightarrow>
             Some (i @ f @ e, f \<noteq> [] \<or> e \<noteq> [], r'')))"

definition int_of_text :: "string \<Rightarrow> int" where
  "int_of_text t =
     (case t of c # cs \<Rightarrow> if c = CHR ''-'' then - int (digits_val cs) else int (digits_val t) | [] \<Rightarrow> 0)"

text \<open>The hooks \<open>json.loads\<close> takes: \<open>object_pairs_hook\<close> and \<open>parse_constant\<close>, \<open>None\<close> being a raised
  \<open>ValueError\<close>, and the conversion of floats.\<close>

record json_hooks =
  jh_float :: "string \<Rightarrow> string"
  jh_pairs :: "(string \<times> json) list \<Rightarrow> json_object option"
  jh_constant :: "string \<Rightarrow> json option"

definition number_value :: "json_hooks \<Rightarrow> string \<Rightarrow> bool \<Rightarrow> json" where
  "number_value h t is_float = (if is_float then JFloat (jh_float h t) else JInt (int_of_text t))"

definition constant_value :: "json_hooks \<Rightarrow> string \<Rightarrow> string \<Rightarrow> (json \<times> string) option" where
  "constant_value h t r = map_option (\<lambda>v. (v, r)) (jh_constant h t)"

text \<open>Constants and numerals.\<close>

definition scan_literal :: "json_hooks \<Rightarrow> string \<Rightarrow> (json \<times> string) option" where
  "scan_literal h s =
     (case strip_prefix ''null'' s of Some r \<Rightarrow> Some (JNull, r) | None \<Rightarrow>
      case strip_prefix ''true'' s of Some r \<Rightarrow> Some (JBool True, r) | None \<Rightarrow>
      case strip_prefix ''false'' s of Some r \<Rightarrow> Some (JBool False, r) | None \<Rightarrow>
      case scan_number s of Some (t, is_float, r) \<Rightarrow> Some (number_value h t is_float, r) | None \<Rightarrow>
      case strip_prefix ''NaN'' s of Some r \<Rightarrow> constant_value h ''NaN'' r | None \<Rightarrow>
      case strip_prefix ''Infinity'' s of Some r \<Rightarrow> constant_value h ''Infinity'' r | None \<Rightarrow>
      case strip_prefix ''-Infinity'' s of Some r \<Rightarrow> constant_value h ''-Infinity'' r | None \<Rightarrow> None)"

text \<open>\<open>dict(pairs)\<close>: the last value of a key wins and keeps the first one's place.\<close>

definition dict_of_pairs :: "(string \<times> 'a) list \<Rightarrow> (string \<times> 'a) list" where
  "dict_of_pairs kvs = foldl (\<lambda>d (k, v). AList.update k v d) [] kvs"

text \<open>Plain \<open>json.loads(text)\<close>.\<close>

definition plain :: "(string \<Rightarrow> string) \<Rightarrow> json_hooks" where
  "plain ft = \<lparr>jh_float = ft, jh_pairs = (\<lambda>kvs. Some (dict_of_pairs kvs)), jh_constant = (\<lambda>t. Some (JFloat t))\<rparr>"

text \<open>\<open>parse_members\<close> starts after the opening quote of a key, \<open>parse_elements\<close> at an element.\<close>

fun parse_value :: "json_hooks \<Rightarrow> nat \<Rightarrow> string \<Rightarrow> (json \<times> string) option"
and parse_members :: "json_hooks \<Rightarrow> nat \<Rightarrow> string \<Rightarrow> ((string \<times> json) list \<times> string) option"
and parse_elements :: "json_hooks \<Rightarrow> nat \<Rightarrow> string \<Rightarrow> (json list \<times> string) option" where
  "parse_value h 0 s = None"
| "parse_value h (Suc n) s =
     (case s of
        [] \<Rightarrow> None
      | c # r \<Rightarrow>
          if c = dquote
          then (case scan_string r of None \<Rightarrow> None | Some (t, r') \<Rightarrow> Some (JStr t, r'))
          else if c = CHR ''{''
          then (case skip_ws r of
                  [] \<Rightarrow> None
                | d # r' \<Rightarrow>
                    if d = CHR ''}'' then Some (JObj [], r')
                    else if d = dquote
                    then (case parse_members h n r' of
                            None \<Rightarrow> None
                          | Some (kvs, r'') \<Rightarrow> map_option (\<lambda>d. (JObj d, r'')) (jh_pairs h kvs))
                    else None)
          else if c = CHR ''[''
          then (case skip_ws r of
                  [] \<Rightarrow> None
                | d # r' \<Rightarrow>
                    if d = CHR '']'' then Some (JArr [], r')
                    else (case parse_elements h n (d # r') of
                            None \<Rightarrow> None
                          | Some (vs, r'') \<Rightarrow> Some (JArr vs, r'')))
          else scan_literal h s)"
| "parse_members h 0 s = None"
| "parse_members h (Suc n) s =
     (case scan_string s of
        None \<Rightarrow> None
      | Some (k, r) \<Rightarrow>
          (case strip_prefix '':'' (skip_ws r) of
             None \<Rightarrow> None
           | Some r1 \<Rightarrow>
               (case parse_value h n (skip_ws r1) of
                  None \<Rightarrow> None
                | Some (v, r2) \<Rightarrow>
                    (case skip_ws r2 of
                       [] \<Rightarrow> None
                     | d # r3 \<Rightarrow>
                         if d = CHR ''}'' then Some ([(k, v)], r3)
                         else if d = CHR '',''
                         then (case strip_prefix [dquote] (skip_ws r3) of
                                 None \<Rightarrow> None
                               | Some r4 \<Rightarrow>
                                   (case parse_members h n r4 of
                                      None \<Rightarrow> None
                                    | Some (kvs, r5) \<Rightarrow> Some ((k, v) # kvs, r5)))
                         else None))))"
| "parse_elements h 0 s = None"
| "parse_elements h (Suc n) s =
     (case parse_value h n s of
        None \<Rightarrow> None
      | Some (v, r) \<Rightarrow>
          (case skip_ws r of
             [] \<Rightarrow> None
           | d # r1 \<Rightarrow>
               if d = CHR '']'' then Some ([v], r1)
               else if d = CHR '',''
               then (case parse_elements h n (skip_ws r1) of
                       None \<Rightarrow> None
                     | Some (vs, r2) \<Rightarrow> Some (v # vs, r2))
               else None))"

definition json_loads :: "json_hooks \<Rightarrow> string \<Rightarrow> json option" where
  "json_loads h s =
     (case parse_value h (2 * length s + 1) (skip_ws s) of
        None \<Rightarrow> None
      | Some (v, r) \<Rightarrow> if skip_ws r = [] then Some v else None)"


section \<open>Scanning what was written\<close>

lemma mod16_cases: "n mod 16 \<in> {0, 1, 2, 3, 4, 5, 6, 7, 8, 9, 10, 11, 12, 13, 14, 15 :: nat}"
  by (simp, arith)

lemma hex_digit_char [simp]: "hex_digit (hex_char n) = Some (n mod 16)"
  using mod16_cases [of n] by (auto simp: hex_digit_def hex_char_def is_digit_def)

lemma hex_digit_0 [simp]: "hex_digit (CHR ''0'') = Some 0"
  by (simp add: hex_digit_def is_digit_def)

lemma hex_pair: "of_char c < (32 :: nat) \<Longrightarrow> (of_char c div 16 mod 16) * 16 + of_char c mod 16 = (of_char c :: nat)"
  by simp

lemma scan_char_escape [simp]: "scan_char (json_escape c @ r) = Some (c, r)"
  by (auto simp: scan_char_def json_escape_def simple_escape_def hex_pair)

lemma json_escape_head: "json_escape c \<noteq> [] \<and> hd (json_escape c) \<noteq> dquote"
  by (simp add: json_escape_def)

lemma scan_string_escaped [simp]: "scan_string (concat (map json_escape s) @ dquote # r) = Some (s, r)"
proof (induction s)
  case Nil
  then show ?case by (simp add: scan_string.simps)
next
  case (Cons c s)
  let ?t = "json_escape c @ concat (map json_escape s) @ dquote # r"
  have "\<not> (?t \<noteq> [] \<and> hd ?t = dquote)" using json_escape_head [of c] by (simp add: hd_append)
  then have "scan_string ?t = Some (c # s, r)" by (subst scan_string.simps) (simp add: Cons)
  then show ?case by simp
qed

text \<open>The characters that may follow a written value.\<close>

definition delimits :: "json \<Rightarrow> string \<Rightarrow> bool" where
  "delimits v r \<longleftrightarrow>
     (case v of JInt n \<Rightarrow> True | JFloat t \<Rightarrow> True | _ \<Rightarrow> False) \<longrightarrow>
     r = [] \<or> hd r \<in> {CHR '','', CHR '']'', CHR ''}''}"

lemma takeWhile_digits_app: "r = [] \<or> \<not> is_digit (hd r) \<Longrightarrow> takeWhile is_digit (ds @ r) = takeWhile is_digit ds"
  by (induction ds) (auto simp: takeWhile_eq_Nil_iff)

lemma dropWhile_digits_app: "r = [] \<or> \<not> is_digit (hd r) \<Longrightarrow> dropWhile is_digit (ds @ r) = dropWhile is_digit ds @ r"
  by (induction ds) (auto simp: dropWhile_eq_self_iff)

definition stops :: "string \<Rightarrow> bool" where
  "stops r \<longleftrightarrow> r = [] \<or> \<not> is_digit (hd r) \<and> hd r \<notin> {CHR ''.'', CHR ''e'', CHR ''E''}"

lemma stops_digit: "stops r \<Longrightarrow> r = [] \<or> \<not> is_digit (hd r)"
  by (auto simp: stops_def)

lemma scan_frac_app:
  "scan_frac s = (f, r) \<Longrightarrow> stops q \<Longrightarrow> scan_frac (s @ q) = (f, r @ q)"
  by (cases s) (auto simp: scan_frac_def stops_def takeWhile_digits_app dropWhile_digits_app split: list.splits if_splits)

lemma scan_exp_app:
  assumes "scan_exp s = (e, r)" and "stops q" and "q = [] \<or> hd q \<notin> {CHR ''+'', CHR ''-''}"
  shows "scan_exp (s @ q) = (e, r @ q)"
proof -
  note q = takeWhile_digits_app [OF stops_digit [OF assms(2)]] dropWhile_digits_app [OF stops_digit [OF assms(2)]]
  consider "s = []" | c where "s = [c]" | c d s' where "s = c # d # s'" by (metis list.exhaust)
  then show ?thesis
    using assms q by cases (auto simp: scan_exp_def stops_def split: list.splits if_splits)
qed

lemma scan_int_app:
  assumes "scan_int s = Some (i, r)" and "stops q"
  shows "scan_int (s @ q) = Some (i, r @ q)"
proof -
  note q = takeWhile_digits_app [OF stops_digit [OF assms(2)]] dropWhile_digits_app [OF stops_digit [OF assms(2)]]
  consider "s = []" | c where "s = [c]" | c d s' where "s = c # d # s'" by (metis list.exhaust)
  then show ?thesis
    using assms q by cases (auto simp: scan_int_def Let_def stops_def split: list.splits if_splits)
qed

lemma scan_number_app:
  assumes "scan_number s = Some (t, b, r)" and "stops q" and "q = [] \<or> hd q \<notin> {CHR ''+'', CHR ''-''}"
  shows "scan_number (s @ q) = Some (t, b, r @ q)"
  using assms by (auto simp: scan_number_def scan_int_app scan_frac_app scan_exp_app split: option.splits prod.splits)

lemma scan_int_digits:
  assumes "list_all is_digit ds" and "ds \<noteq> []" and "hd ds = CHR ''0'' \<Longrightarrow> tl ds = []"
  shows "scan_int ds = Some (ds, [])" "scan_int (CHR ''-'' # ds) = Some (CHR ''-'' # ds, [])"
proof -
  from assms(2) obtain d r where ds: "ds = d # r" by (cases ds) auto
  have "takeWhile is_digit ds = ds" "dropWhile is_digit ds = []" "is_digit d" "d \<noteq> CHR ''-''"
    using assms(1) ds by (auto simp: list_all_iff)
  with ds assms(3) show "scan_int ds = Some (ds, [])" "scan_int (CHR ''-'' # ds) = Some (CHR ''-'' # ds, [])"
    by (auto simp: scan_int_def Let_def)
qed

lemma digits_of_head: "hd (digits_of n) = CHR ''0'' \<Longrightarrow> tl (digits_of n) = []"
proof (induction n rule: digits_of.induct)
  case (1 n)
  show ?case
  proof (cases "n < 10")
    case True
    then show ?thesis by (subst digits_of.simps) simp
  next
    case False
    then have eq: "digits_of n = digits_of (n div 10) @ [digit_char n]" by (subst digits_of.simps) simp
    with "1.prems" have "hd (digits_of (n div 10)) = CHR ''0''" by simp
    with "1.IH" False have "digits_of (n div 10) = [CHR ''0'']" by (cases "digits_of (n div 10)") auto
    then have "digits_of (n div 10) = digits_of 0" by (simp add: digits_of.simps [of 0] digit_char_def)
    then have "n div 10 = 0" by (rule digits_of_inject)
    with False show ?thesis by simp
  qed
qed

lemma scan_number_int_text: "scan_number (int_text n) = Some (int_text n, False, [])"
  using scan_int_digits [OF digits_of_digits digits_of_nonempty digits_of_head]
  by (simp add: scan_number_def int_text_def scan_frac_def scan_exp_def)

lemma int_of_text_int_text: "int_of_text (int_text n) = n"
proof (cases "n < 0")
  case True
  then show ?thesis by (simp add: int_of_text_def int_text_def)
next
  case False
  obtain d r where ds: "digits_of (nat n) = d # r" by (cases "digits_of (nat n)") auto
  then have "d \<noteq> CHR ''-''" using digits_of_digits [of "nat n"] by auto
  with ds digits_val_digits_of [of "nat n"] False show ?thesis
    by (simp add: int_of_text_def int_text_def)
qed

section \<open>Consumption and fuel\<close>

lemma skip_ws_length: "length (skip_ws s) \<le> length s"
  by (simp add: skip_ws_def length_dropWhile_le)

lemma skip_ws_Cons: "skip_ws s = d # r \<Longrightarrow> length r < length s"
  using skip_ws_length [of s] by simp

lemma scan_string_shorter: "scan_string s = Some (t, r) \<Longrightarrow> length r < length s"
proof (induction s arbitrary: t r rule: scan_string.induct)
  case (1 s)
  show ?case
  proof (cases "s \<noteq> [] \<and> hd s = dquote")
    case True
    with "1.prems" show ?thesis by (cases s) (simp_all add: scan_string.simps [of "_ # _"])
  next
    case False
    with "1.prems" obtain c r1 t1 where "scan_char s = Some (c, r1)" "scan_string r1 = Some (t1, r)"
      by (auto simp: scan_string.simps [of s] split: option.splits)
    with "1.IH" [OF False] scan_char_shorter [of s c r1] show ?thesis by fastforce
  qed
qed

lemma strip_prefix_append: "strip_prefix p s = Some r \<longleftrightarrow> s = p @ r"
  by (induction p s rule: strip_prefix.induct) auto

lemma scan_frac_append: "scan_frac s = (f, r) \<Longrightarrow> s = f @ r"
  by (auto simp: scan_frac_def split: list.splits if_splits)

lemma scan_exp_append: "scan_exp s = (e, r) \<Longrightarrow> s = e @ r"
  by (auto simp: scan_exp_def split: list.splits if_splits)

lemma scan_int_append: "scan_int s = Some (i, r) \<Longrightarrow> s = i @ r \<and> i \<noteq> []"
  by (auto simp: scan_int_def Let_def split: list.splits if_splits prod.splits)

lemma scan_number_append: "scan_number s = Some (t, b, r) \<Longrightarrow> s = t @ r \<and> t \<noteq> []"
  by (auto simp: scan_number_def split: option.splits prod.splits
      dest!: scan_int_append scan_frac_append scan_exp_append)

lemma scan_literal_shorter: "scan_literal h s = Some (v, r) \<Longrightarrow> length r < length s"
  by (auto simp: scan_literal_def constant_value_def strip_prefix_append split: option.splits prod.splits dest!: scan_number_append)


lemma parse_valueE:
  assumes "parse_value h (Suc n) s = Some (v, r)"
  obtains (string) t s' where "s = dquote # s'" "scan_string s' = Some (t, r)" "v = JStr t"
  | (no_members) s' where "s = CHR ''{'' # s'" "skip_ws s' = CHR ''}'' # r" "v = JObj []"
  | (members) s' s'' kvs d where "s = CHR ''{'' # s'" "skip_ws s' = dquote # s''"
      "parse_members h n s'' = Some (kvs, r)" "jh_pairs h kvs = Some d" "v = JObj d"
  | (no_elements) s' where "s = CHR ''['' # s'" "skip_ws s' = CHR '']'' # r" "v = JArr []"
  | (elements) s' d s'' vs where "s = CHR ''['' # s'" "skip_ws s' = d # s''" "d \<noteq> CHR '']''"
      "parse_elements h n (d # s'') = Some (vs, r)" "v = JArr vs"
  | (literal) c s' where "s = c # s'" "c \<noteq> dquote" "c \<noteq> CHR ''{''" "c \<noteq> CHR ''[''" "scan_literal h s = Some (v, r)"
proof (cases s)
  case (Cons c s')
  consider "c = dquote" | "c = CHR ''{''" | "c = CHR ''[''" | "c \<noteq> dquote" "c \<noteq> CHR ''{''" "c \<noteq> CHR ''[''" by blast
  then show ?thesis
  proof cases
    case 1
    with assms Cons string show ?thesis by (auto split: option.splits)
  next
    case 2
    with assms Cons no_members members show ?thesis by (auto split: option.splits list.splits if_splits)
  next
    case 3
    with assms Cons no_elements elements show ?thesis by (auto split: option.splits list.splits if_splits)
  next
    case 4
    with assms Cons literal show ?thesis by simp
  qed
qed (use assms in simp)

lemma parse_membersE:
  assumes "parse_members h (Suc n) s = Some (kvs, r)"
  obtains (last) k r0 r1 v r2 where "scan_string s = Some (k, r0)" "skip_ws r0 = CHR '':'' # r1"
      "parse_value h n (skip_ws r1) = Some (v, r2)" "skip_ws r2 = CHR ''}'' # r" "kvs = [(k, v)]"
  | (more) k r0 r1 v r2 r3 r4 kvs' where "scan_string s = Some (k, r0)" "skip_ws r0 = CHR '':'' # r1"
      "parse_value h n (skip_ws r1) = Some (v, r2)" "skip_ws r2 = CHR '','' # r3" "skip_ws r3 = dquote # r4"
      "parse_members h n r4 = Some (kvs', r)" "kvs = (k, v) # kvs'"
proof -
  from assms obtain k r0 r1 v r2 d r3 where a: "scan_string s = Some (k, r0)" "skip_ws r0 = CHR '':'' # r1"
      "parse_value h n (skip_ws r1) = Some (v, r2)" "skip_ws r2 = d # r3"
    by (auto simp: strip_prefix_append split: option.splits list.splits)
  show ?thesis
  proof (cases "d = CHR ''}''")
    case True
    with assms a last show ?thesis by auto
  next
    case False
    with assms a more show ?thesis by (auto simp: strip_prefix_append split: option.splits if_splits)
  qed
qed

lemma parse_elementsE:
  assumes "parse_elements h (Suc n) s = Some (vs, r)"
  obtains (last) v r1 where "parse_value h n s = Some (v, r1)" "skip_ws r1 = CHR '']'' # r" "vs = [v]"
  | (more) v r1 r2 vs' where "parse_value h n s = Some (v, r1)" "skip_ws r1 = CHR '','' # r2"
      "parse_elements h n (skip_ws r2) = Some (vs', r)" "vs = v # vs'"
proof -
  from assms obtain v r1 d r2 where a: "parse_value h n s = Some (v, r1)" "skip_ws r1 = d # r2"
    by (auto split: option.splits list.splits)
  show ?thesis
  proof (cases "d = CHR '']''")
    case True
    with assms a last show ?thesis by auto
  next
    case False
    with assms a more show ?thesis by (auto split: option.splits if_splits)
  qed
qed

lemma parse_shorter:
  "(\<forall>s v r. parse_value h n s = Some (v, r) \<longrightarrow> length r < length s) \<and>
   (\<forall>s kvs r. parse_members h n s = Some (kvs, r) \<longrightarrow> length r < length s) \<and>
   (\<forall>s vs r. parse_elements h n s = Some (vs, r) \<longrightarrow> length r < length s)"
proof (induction n)
  case (Suc n)
  have V: "length r < length s" if "parse_value h (Suc n) s = Some (v, r)" for s v r
    using that Suc by (cases rule: parse_valueE)
      (fastforce dest: scan_string_shorter skip_ws_Cons scan_literal_shorter)+
  have M: "length r < length s" if "parse_members h (Suc n) s = Some (kvs, r)" for s kvs r
    using that
  proof (cases rule: parse_membersE)
    case (last k r0 r1 v r2)
    then have "length r2 < length (skip_ws r1)" using Suc by blast
    with last show ?thesis
      using scan_string_shorter [OF last(1)] skip_ws_Cons [OF last(2)] skip_ws_length [of r1] skip_ws_Cons [OF last(4)]
      by linarith
  next
    case (more k r0 r1 v r2 r3 r4 kvs')
    then have "length r2 < length (skip_ws r1)" "length r < length r4" using Suc by blast+
    then show ?thesis
      using scan_string_shorter [OF more(1)] skip_ws_Cons [OF more(2)] skip_ws_length [of r1] skip_ws_Cons [OF more(4)]
        skip_ws_Cons [OF more(5)] by linarith
  qed
  have E: "length r < length s" if "parse_elements h (Suc n) s = Some (vs, r)" for s vs r
    using that
  proof (cases rule: parse_elementsE)
    case (last v r1)
    then have "length r1 < length s" using Suc by blast
    with skip_ws_Cons [OF last(2)] show ?thesis by linarith
  next
    case (more v r1 r2 vs')
    then have "length r1 < length s" "length r < length (skip_ws r2)" using Suc by blast+
    with skip_ws_Cons [OF more(2)] skip_ws_length [of r2] show ?thesis by linarith
  qed
  from V M E show ?case by blast
qed simp

lemmas parse_value_shorter = parse_shorter [THEN conjunct1, rule_format]

text \<open>A property of values that literals and strings have and that arrays and objects inherit holds of
  everything that is read.\<close>

lemma parse_all:
  assumes "\<And>s v r. scan_literal h s = Some (v, r) \<Longrightarrow> Q v" and "\<And>t. Q (JStr t)" and "Q (JObj [])" and "Q (JArr [])"
    and "\<And>vs. \<forall>v \<in> set vs. Q v \<Longrightarrow> Q (JArr vs)"
    and "\<And>kvs d. \<forall>p \<in> set kvs. Q (snd p) \<Longrightarrow> jh_pairs h kvs = Some d \<Longrightarrow> Q (JObj d)"
  shows "(\<forall>s v r. parse_value h n s = Some (v, r) \<longrightarrow> Q v) \<and>
   (\<forall>s kvs r. parse_members h n s = Some (kvs, r) \<longrightarrow> (\<forall>p \<in> set kvs. Q (snd p))) \<and>
   (\<forall>s vs r. parse_elements h n s = Some (vs, r) \<longrightarrow> (\<forall>v \<in> set vs. Q v))"
proof (induction n)
  case (Suc n)
  have V: "Q v" if "parse_value h (Suc n) s = Some (v, r)" for s v r
    using that
  proof (cases rule: parse_valueE)
    case (members s' s'' kvs d)
    from Suc members(3) have "\<forall>p \<in> set kvs. Q (snd p)" by blast
    from assms(6) [OF this members(4)] members(5) show ?thesis by simp
  next
    case (elements s' d s'' vs)
    from Suc elements(4) have "\<forall>v \<in> set vs. Q v" by blast
    from assms(5) [OF this] elements(5) show ?thesis by simp
  qed (use assms(1-4) in auto)
  have M: "\<forall>p \<in> set kvs. Q (snd p)" if "parse_members h (Suc n) s = Some (kvs, r)" for s kvs r
    using that Suc by (cases rule: parse_membersE) (simp, blast, fastforce)
  have E: "\<forall>v \<in> set vs. Q v" if "parse_elements h (Suc n) s = Some (vs, r)" for s vs r
    using that Suc by (cases rule: parse_elementsE) (simp, blast, fastforce)
  from V M E show ?case by blast
qed simp

lemmas parse_value_all = parse_all [THEN conjunct1, THEN spec, THEN spec, THEN spec, THEN mp]

text \<open>Once the fuel is above twice the length, more of it changes nothing.\<close>

lemma parse_fuel:
  "(\<forall>s v r n. parse_value h m s = Some (v, r) \<longrightarrow> 2 * length s < n \<longrightarrow> parse_value h n s = Some (v, r)) \<and>
   (\<forall>s kvs r n. parse_members h m s = Some (kvs, r) \<longrightarrow> 2 * length s < n \<longrightarrow> parse_members h n s = Some (kvs, r)) \<and>
   (\<forall>s vs r n. parse_elements h m s = Some (vs, r) \<longrightarrow> 2 * length s + 1 < n \<longrightarrow> parse_elements h n s = Some (vs, r))"
proof (induction m)
  case (Suc m)
  have V: "parse_value h n s = Some (v, r)" if run: "parse_value h (Suc m) s = Some (v, r)" and n: "2 * length s < n" for s v r n
  proof -
    from n obtain n' where n': "n = Suc n'" by (cases n) auto
    show ?thesis
      using run
    proof (cases rule: parse_valueE)
      case (members s' s'' kvs d)
      have "2 * length s'' < n'" using n n' members(1) skip_ws_Cons [OF members(2)] by simp
      with Suc members(3) have "parse_members h n' s'' = Some (kvs, r)" by blast
      with members n' show ?thesis by simp
    next
      case (elements s' d s'' vs)
      have "2 * length (d # s'') + 1 < n'" using n n' elements(1) skip_ws_Cons [OF elements(2)] by simp
      with Suc elements(4) have "parse_elements h n' (d # s'') = Some (vs, r)" by blast
      with elements n' show ?thesis by simp
    qed (simp_all add: n')
  qed
  have M: "parse_members h n s = Some (kvs, r)"
    if run: "parse_members h (Suc m) s = Some (kvs, r)" and n: "2 * length s < n" for s kvs r n
  proof -
    from n obtain n' where n': "n = Suc n'" by (cases n) auto
    have val: "parse_value h n' (skip_ws r1) = Some (v, r2)"
      if "scan_string s = Some (k, r0)" "skip_ws r0 = c # r1" "parse_value h m (skip_ws r1) = Some (v, r2)" for k r0 c r1 v r2
    proof -
      have "2 * length (skip_ws r1) < n'"
        using n n' scan_string_shorter [OF that(1)] skip_ws_Cons [OF that(2)] skip_ws_length [of r1] by simp
      with Suc that(3) show ?thesis by blast
    qed
    show ?thesis
      using run
    proof (cases rule: parse_membersE)
      case (last k r0 r1 v r2)
      with val [OF last(1-3)] n' show ?thesis by simp
    next
      case (more k r0 r1 v r2 r3 r4 kvs')
      have "2 * length r4 < n'"
        using n n' scan_string_shorter [OF more(1)] skip_ws_Cons [OF more(2)] skip_ws_length [of r1]
          parse_value_shorter [OF more(3)] skip_ws_Cons [OF more(4)] skip_ws_Cons [OF more(5)] by linarith
      with Suc more(6) have "parse_members h n' r4 = Some (kvs', r)" by blast
      with val [OF more(1-3)] more n' show ?thesis by simp
    qed
  qed
  have E: "parse_elements h n s = Some (vs, r)"
    if run: "parse_elements h (Suc m) s = Some (vs, r)" and n: "2 * length s + 1 < n" for s vs r n
  proof -
    from n obtain n' where n': "n = Suc n'" "2 * length s < n'" by (cases n) auto
    show ?thesis
      using run
    proof (cases rule: parse_elementsE)
      case (last v r1)
      with Suc n' have "parse_value h n' s = Some (v, r1)" by blast
      with last n' show ?thesis by simp
    next
      case (more v r1 r2 vs')
      with Suc n' have "parse_value h n' s = Some (v, r1)" by blast
      moreover have "2 * length (skip_ws r2) + 1 < n'"
        using n' parse_value_shorter [OF more(1)] skip_ws_Cons [OF more(2)] skip_ws_length [of r2] by linarith
      with Suc more(3) have "parse_elements h n' (skip_ws r2) = Some (vs', r)" by blast
      ultimately show ?thesis using more n' by simp
    qed
  qed
  from V M E show ?case by blast
qed simp

lemmas parse_value_fuel = parse_fuel [THEN conjunct1, rule_format]

text \<open>\<open>json_loads\<close> does not depend on the fuel chosen.\<close>

lemma json_loads_iff:
  "json_loads h s = Some v \<longleftrightarrow> (\<exists>n r. parse_value h n (skip_ws s) = Some (v, r) \<and> skip_ws r = [])"
proof
  assume "json_loads h s = Some v"
  then show "\<exists>n r. parse_value h n (skip_ws s) = Some (v, r) \<and> skip_ws r = []"
    by (auto simp: json_loads_def simp del: parse_value.simps split: option.splits if_splits) blast
next
  assume "\<exists>n r. parse_value h n (skip_ws s) = Some (v, r) \<and> skip_ws r = []"
  then obtain n r where "parse_value h n (skip_ws s) = Some (v, r)" and r: "skip_ws r = []" by blast
  from parse_value_fuel [OF this(1)] skip_ws_length [of s]
  have "parse_value h (2 * length s + 1) (skip_ws s) = Some (v, r)" by (simp del: parse_value.simps)
  with r show "json_loads h s = Some v" by (simp add: json_loads_def del: parse_value.simps)
qed


section \<open>What is written reads back\<close>

text \<open>A float as the encoder writes it: a constant, or a numeral with a fraction or an exponent that
  the interpreter's conversion keeps.\<close>

definition float_ok :: "json_hooks \<Rightarrow> string \<Rightarrow> bool" where
  "float_ok h t \<longleftrightarrow>
     t \<in> {''NaN'', ''Infinity'', ''-Infinity''} \<and> jh_constant h t = Some (JFloat t) \<or>
     scan_number t = Some (t, True, []) \<and> jh_float h t = t"

fun json_ok :: "json_hooks \<Rightarrow> json \<Rightarrow> bool" where
  "json_ok h (JFloat t) = float_ok h t"
| "json_ok h (JArr vs) = list_all (json_ok h) vs"
| "json_ok h (JObj kvs) = (distinct (map fst kvs) \<and> list_all (\<lambda>(k, v). json_ok h v) kvs)"
| "json_ok h v = True"

lemma dict_of_pairs_distinct: "distinct (map fst kvs) \<Longrightarrow> dict_of_pairs kvs = kvs"
proof (induction kvs rule: rev_induct)
  case (snoc p kvs)
  have "AList.update k v d = d @ [(k, v)]" if "k \<notin> fst ` set d" for k and v :: 'a and d
    using that by (induction d) auto
  with snoc show ?case by (cases p) (auto simp: dict_of_pairs_def)
qed (simp add: dict_of_pairs_def)

lemma skip_ws_text [simp]: "\<not> json_space c \<Longrightarrow> skip_ws (c # s) = c # s"
  by (simp add: skip_ws_def)

lemma json_space_simps [simp]:
  "\<not> json_space dquote" "\<not> json_space (CHR '','')" "\<not> json_space (CHR '':'')" "\<not> json_space (CHR ''{'')"
  "\<not> json_space (CHR ''}'')" "\<not> json_space (CHR ''['')" "\<not> json_space (CHR '']'')"
  by (simp_all add: json_space_def)

lemma stops_delimiter: "r = [] \<or> hd r \<in> {CHR '','', CHR '']'', CHR ''}''} \<Longrightarrow>
    stops r \<and> (r = [] \<or> hd r \<notin> {CHR ''+'', CHR ''-''})"
  by (auto simp: stops_def is_digit_def)

lemma scan_number_first: "scan_number (c # s) = Some x \<Longrightarrow> c = CHR ''-'' \<or> is_digit c"
  by (auto simp: scan_number_def scan_int_def Let_def is_digit_def split: option.splits if_splits list.splits)

lemma scan_literal_number:
  assumes "scan_number s = Some (t, b, r)"
  shows "scan_literal h s = Some (number_value h t b, r)"
proof -
  from assms obtain c s' where s: "s = c # s'" by (cases s) (auto simp: scan_number_def scan_int_def)
  with assms scan_number_first have "c = CHR ''-'' \<or> is_digit c" by blast
  then have "CHR ''n'' \<noteq> c" "CHR ''t'' \<noteq> c" "CHR ''f'' \<noteq> c" by (auto simp: is_digit_def)
  with s assms show ?thesis by (simp add: scan_literal_def)
qed

lemma parse_literal:
  assumes "scan_number s = Some (t, b, r)"
  shows "parse_value h (Suc n) s = Some (number_value h t b, r)"
proof -
  from assms obtain c s' where s: "s = c # s'" by (cases s) (auto simp: scan_number_def scan_int_def)
  with assms scan_number_first have "c = CHR ''-'' \<or> is_digit c" by blast
  then have "c \<notin> {dquote, CHR ''{'', CHR ''[''}" by (auto simp: is_digit_def)
  with s scan_literal_number [OF assms, of h] show ?thesis by simp
qed

lemma parse_number_text:
  assumes "scan_number t = Some (t, b, [])" and "r = [] \<or> hd r \<in> {CHR '','', CHR '']'', CHR ''}''}"
  shows "parse_value h (Suc n) (t @ r) = Some (number_value h t b, r)"
  using scan_number_app [OF assms(1)] stops_delimiter [OF assms(2)] by (intro parse_literal) simp

lemma no_number: "scan_number (CHR ''N'' # s) = None" "scan_number (CHR ''I'' # s) = None"
    "scan_number (CHR ''-'' # CHR ''I'' # s) = None"
  by (simp_all add: scan_number_def scan_int_def is_digit_def)

lemma parse_float_text:
  assumes "float_ok h t" and "r = [] \<or> hd r \<in> {CHR '','', CHR '']'', CHR ''}''}"
  shows "parse_value h (Suc n) (t @ r) = Some (JFloat t, r)"
  using assms parse_number_text [OF _ assms(2), of t True h n]
  by (auto simp: float_ok_def number_value_def scan_literal_def constant_value_def no_number)

abbreviation member_text :: "string \<times> json \<Rightarrow> string" where
  "member_text p \<equiv> (case p of (k, v) \<Rightarrow> json_string k @ CHR '':'' # json_text v)"

lemma json_text_head: "json_ok h v \<Longrightarrow> \<exists>c t. json_text v = c # t \<and> \<not> json_space c \<and> c \<notin> {CHR '']'', CHR ''}''}"
proof (cases v)
  case (JInt n)
  obtain d ds where "digits_of (nat n) = d # ds" "is_digit d"
    using digits_of_digits [of "nat n"] by (cases "digits_of (nat n)") auto
  then show ?thesis by (auto simp: JInt int_text_def json_space_def is_digit_def)
next
  case (JFloat t)
  moreover assume "json_ok h v"
  ultimately consider "t \<in> {''NaN'', ''Infinity'', ''-Infinity''}" | "scan_number t = Some (t, True, [])"
    by (auto simp: float_ok_def)
  then show ?thesis
  proof cases
    case 2
    then obtain c s' where s: "t = c # s'" by (cases t) (auto simp: scan_number_def scan_int_def)
    with 2 scan_number_first have "c = CHR ''-'' \<or> is_digit c" by blast
    with s JFloat show ?thesis by (auto simp: json_space_def is_digit_def)
  qed (auto simp: JFloat json_space_def)
qed (auto simp: json_space_def json_string_def)

lemma commas_Cons: "xs \<noteq> [] \<Longrightarrow> commas (x # xs) = x @ CHR '','' # commas xs"
  by (cases xs) simp_all

lemma parse_members_text:
  assumes "\<And>k v n r. (k, v) \<in> set kvs \<Longrightarrow> 2 * length (json_text v) < n \<Longrightarrow> delimits v r \<Longrightarrow>
        parse_value h n (json_text v @ r) = Some (v, r)"
    and "\<And>k v. (k, v) \<in> set kvs \<Longrightarrow> json_ok h v"
    and "kvs \<noteq> []" and "2 * length (commas (map member_text kvs)) < n"
  shows "parse_members h n (tl (commas (map member_text kvs)) @ CHR ''}'' # r) = Some (kvs, r)"
  using assms
proof (induction kvs arbitrary: n)
  case (Cons p kvs)
  obtain k v where p: "p = (k, v)" by (cases p)
  have sub: "q \<in> set kvs \<Longrightarrow> q \<in> set (p # kvs)" for q by simp
  from Cons.prems(4) obtain n' where n': "n = Suc n'" by (cases n) auto
  from json_text_head [OF Cons.prems(2) [of k v]] p obtain c t where c: "json_text v = c # t" "\<not> json_space c" by auto
  show ?case
  proof (cases "kvs = []")
    case True
    have "parse_value h n' (json_text v @ CHR ''}'' # r) = Some (v, CHR ''}'' # r)"
      using Cons.prems(1) [of k v n' "CHR ''}'' # r"] Cons.prems(4) True n' p by (simp add: json_string_def delimits_def split: json.splits)
    with c show ?thesis by (simp add: True p n' json_string_def)
  next
    case False
    let ?m = "commas (map member_text kvs)"
    from False obtain t' where m: "?m = dquote # t'"
      by (cases kvs; cases "tl kvs") (auto simp: json_string_def split: prod.splits)
    have len: "2 * length (json_text v) < n'" "2 * length ?m < n'"
      using Cons.prems(4) False p n' by (simp_all add: commas_Cons json_string_def)
    have "parse_value h n' (json_text v @ CHR '','' # ?m @ CHR ''}'' # r) = Some (v, CHR '','' # ?m @ CHR ''}'' # r)"
      using Cons.prems(1) [of k v n'] len(1) p by (simp add: delimits_def split: json.splits)
    moreover have "parse_members h n' (tl ?m @ CHR ''}'' # r) = Some (kvs, r)"
      by (rule Cons.IH [OF Cons.prems(1) [OF sub] Cons.prems(2) [OF sub] False len(2)])
    moreover have "tl (commas (map member_text (p # kvs))) =
        concat (map json_escape k) @ dquote # CHR '':'' # json_text v @ CHR '','' # ?m"
      using False by (simp add: p commas_Cons json_string_def)
    ultimately show ?thesis using c m by (simp add: p n')
  qed
qed simp

lemma parse_elements_text:
  assumes "\<And>v n r. v \<in> set vs \<Longrightarrow> 2 * length (json_text v) < n \<Longrightarrow> delimits v r \<Longrightarrow>
        parse_value h n (json_text v @ r) = Some (v, r)"
    and "\<And>v. v \<in> set vs \<Longrightarrow> json_ok h v"
    and "vs \<noteq> []" and "2 * length (commas (map json_text vs)) + 1 < n"
  shows "parse_elements h n (commas (map json_text vs) @ CHR '']'' # r) = Some (vs, r)"
  using assms
proof (induction vs arbitrary: n)
  case (Cons v vs)
  from Cons.prems(4) obtain n' where n': "n = Suc n'" by (cases n) auto
  have delim: "delimits v (CHR '']'' # r')" "delimits v (CHR '','' # r')" for r'
    by (simp_all add: delimits_def split: json.splits)
  show ?case
  proof (cases "vs = []")
    case True
    have "parse_value h n' (json_text v @ CHR '']'' # r) = Some (v, CHR '']'' # r)"
      using Cons.prems(1) [OF _ _ delim(1)] Cons.prems(4) True n' by simp
    then show ?thesis by (simp add: True n')
  next
    case False
    let ?m = "commas (map json_text vs)"
    have len: "2 * length (json_text v) < n'" "2 * length ?m + 1 < n'"
      using Cons.prems(4) False n' by (simp_all add: commas_Cons)
    from json_text_head [OF Cons.prems(2) [of "hd vs"]] False obtain c t' where m: "?m = c # t'" "\<not> json_space c"
      by (cases vs; cases "tl vs") auto
    have "parse_value h n' (json_text v @ CHR '','' # ?m @ CHR '']'' # r) = Some (v, CHR '','' # ?m @ CHR '']'' # r)"
      using Cons.prems(1) [OF _ len(1) delim(2)] by simp
    moreover have "parse_elements h n' (?m @ CHR '']'' # r) = Some (vs, r)"
      by (rule Cons.IH [OF Cons.prems(1) Cons.prems(2) False len(2)]) simp_all
    ultimately show ?thesis using m by (simp add: n' commas_Cons [of "map json_text vs"] False)
  qed
qed simp

text \<open>Sorting the keys keeps the conditions.\<close>

lemma json_ok_norm: "json_ok h v \<Longrightarrow> json_ok h (json_norm v)"
proof (induction v rule: json_norm.induct)
  case (1 kvs)
  let ?kvs = "map (\<lambda>(k, v). (k, json_norm v)) kvs"
  have "mset (map fst (sort_key fst ?kvs)) = mset (map fst ?kvs)" by (simp only: mset_map mset_sort)
  moreover have "map fst ?kvs = map fst kvs" by (simp add: comp_def case_prod_unfold)
  ultimately have "distinct (map fst (sort_key fst ?kvs))" using "1.prems" by (metis json_ok.simps(3) mset_eq_imp_distinct_iff)
  with 1 show ?case by (auto simp: list_all_iff)
qed (auto simp: list_all_iff)

text \<open>Reading what was written needs one law of the hooks: an object with distinct keys is kept.\<close>

locale json_reader =
  fixes h :: json_hooks
  assumes pairs_kept: "distinct (map fst kvs) \<Longrightarrow> jh_pairs h kvs = Some kvs"
begin

theorem parse_json_text:
  "json_ok h v \<Longrightarrow> 2 * length (json_text v) < n \<Longrightarrow> delimits v r \<Longrightarrow> parse_value h n (json_text v @ r) = Some (v, r)"
proof (induction v arbitrary: n r)
  case (JInt i)
  then obtain n' where "n = Suc n'" by (cases n) auto
  with JInt parse_number_text [OF scan_number_int_text, of r h n' i] show ?case
    by (simp add: delimits_def number_value_def int_of_text_int_text del: parse_value.simps)
next
  case (JFloat t)
  then obtain n' where "n = Suc n'" by (cases n) auto
  with JFloat parse_float_text [of h t r n'] show ?case by (simp add: delimits_def del: parse_value.simps)
next
  case (JArr vs)
  then obtain n' where n': "n = Suc n'" by (cases n) auto
  show ?case
  proof (cases "vs = []")
    case False
    with JArr.prems json_text_head [of h "hd vs"] obtain c t where
      m: "commas (map json_text vs) = c # t" "\<not> json_space c" "c \<noteq> CHR '']''"
      by (cases vs; cases "tl vs") auto
    have "parse_elements h n' (commas (map json_text vs) @ CHR '']'' # r) = Some (vs, r)"
      by (rule parse_elements_text [OF JArr.IH]) (use JArr.prems False n' in \<open>auto simp: list_all_iff\<close>)
    with m n' show ?thesis by simp
  qed (simp add: n')
next
  case (JObj kvs)
  then obtain n' where n': "n = Suc n'" by (cases n) auto
  show ?case
  proof (cases "kvs = []")
    case False
    then obtain t where m: "commas (map member_text kvs) = dquote # t"
      by (cases kvs; cases "tl kvs") (auto simp: json_string_def split: prod.splits)
    have "parse_members h n' (tl (commas (map member_text kvs)) @ CHR ''}'' # r) = Some (kvs, r)"
      by (rule parse_members_text [OF JObj.IH]) (use JObj.prems False n' in \<open>auto simp: list_all_iff\<close>)
    with m n' JObj.prems show ?thesis by (simp add: pairs_kept)
  qed (simp add: n')
next
  case JNull
  then obtain n' where "n = Suc n'" by (cases n) auto
  then show ?case by (simp add: scan_literal_def)
next
  case (JBool b)
  then obtain n' where "n = Suc n'" by (cases n) auto
  then show ?case by (simp add: scan_literal_def)
next
  case (JStr s)
  then obtain n' where "n = Suc n'" by (cases n) auto
  then show ?case by (simp add: json_string_def)
qed

theorem json_loads_dumps:
  assumes "json_ok h v"
  shows "json_loads h (json_dumps v) = Some (json_norm v)"
proof -
  let ?v = "json_norm v"
  have ok: "json_ok h ?v" by (rule json_ok_norm [OF assms])
  from json_text_head [OF ok] have "skip_ws (json_text ?v) = json_text ?v" by auto
  with parse_json_text [OF ok, of "Suc (2 * length (json_text ?v))" "[]"] show ?thesis
    unfolding json_loads_iff json_dumps_def
    by (intro exI [of _ "Suc (2 * length (json_text ?v))"] exI [of _ "[]"])
      (auto simp: delimits_def skip_ws_def simp del: parse_value.simps)
qed

end


section \<open>Torn and joined texts\<close>

text \<open>A parsed value that is closed by its own last character, or followed by a character that ends
  it, parses the same way when more text follows.\<close>

lemma hex4_ext: "hex4 s = Some (n, r) \<Longrightarrow> hex4 (s @ q) = Some (n, r @ q)"
  by (induction s rule: hex4.induct) (auto split: option.splits)

lemma scan_char_ext: "scan_char s = Some (c, r) \<Longrightarrow> scan_char (s @ q) = Some (c, r @ q)"
  by (fastforce simp: scan_char_def hex4_ext split: list.splits if_splits option.splits)

lemma scan_string_ext: "scan_string s = Some (t, r) \<Longrightarrow> scan_string (s @ q) = Some (t, r @ q)"
proof (induction s arbitrary: t r rule: scan_string.induct)
  case (1 s)
  show ?case
  proof (cases "s \<noteq> [] \<and> hd s = dquote")
    case True
    with "1.prems" show ?thesis by (cases s) (simp_all add: scan_string.simps [of "_ # _"])
  next
    case False
    with "1.prems" obtain c r1 t1 where s: "scan_char s = Some (c, r1)" "scan_string r1 = Some (t1, r)" "t = c # t1"
      by (auto simp: scan_string.simps [of s] split: option.splits)
    with "1.IH" [OF False s(1)] have "scan_string (r1 @ q) = Some (t1, r @ q)" by auto
    moreover have "\<not> (s @ q \<noteq> [] \<and> hd (s @ q) = dquote)" using False s(1) by (cases s) (auto simp: scan_char_def)
    ultimately show ?thesis
      using scan_char_ext [OF s(1), of q] s(3) by (simp add: scan_string.simps [of "s @ q"])
  qed
qed

lemma skip_ws_ext: "skip_ws s = d # r \<Longrightarrow> skip_ws (s @ q) = d # r @ q"
  by (induction s) (auto simp: skip_ws_def split: if_splits)

definition ends_value :: "char \<Rightarrow> bool" where
  "ends_value c \<longleftrightarrow> json_space c \<or> c \<in> {CHR '','', CHR '']'', CHR ''}''}"

lemma ends_valueD: "ends_value c \<Longrightarrow> \<not> is_digit c \<and> c \<notin> {CHR ''.'', CHR ''e'', CHR ''E'', CHR ''+'', CHR ''-''}"
  by (auto simp: ends_value_def json_space_def is_digit_def)

lemma digits_ext:
  "dropWhile is_digit s \<noteq> [] \<Longrightarrow>
     takeWhile is_digit (s @ q) = takeWhile is_digit s \<and> dropWhile is_digit (s @ q) = dropWhile is_digit s @ q"
  by (induction s) auto

lemma scan_frac_ext:
  assumes "scan_frac s = (f, r)" and "r \<noteq> []" and "hd r \<noteq> CHR ''.''"
  shows "scan_frac (s @ q) = (f, r @ q)"
  using assms digits_ext [of "tl s" q]
  by (cases s) (auto simp: scan_frac_def split: if_splits)

lemma scan_exp_ext:
  assumes "scan_exp s = (e, r)" and "r \<noteq> []" and "hd r \<notin> {CHR ''e'', CHR ''E''}"
  shows "scan_exp (s @ q) = (e, r @ q)"
proof -
  consider "s = []" | c where "s = [c]" | c d s' where "s = c # d # s'" by (metis list.exhaust)
  then show ?thesis
  proof cases
    case (3 c d s')
    then show ?thesis
      using assms digits_ext [of s' q] digits_ext [of "d # s'" q]
      by (auto simp: scan_exp_def split: if_splits)
  qed (use assms in \<open>auto simp: scan_exp_def split: if_splits\<close>)
qed

lemma scan_int_ext:
  assumes "scan_int s = Some (i, r)" and "r \<noteq> []"
  shows "scan_int (s @ q) = Some (i, r @ q)"
proof -
  consider "s = []" | c where "s = [c]" | c d s' where "s = c # d # s'" by (metis list.exhaust)
  then show ?thesis
  proof cases
    case (3 c d s')
    then show ?thesis
      using assms digits_ext [of s' q] digits_ext [of "d # s'" q]
      by (auto simp: scan_int_def Let_def split: if_splits)
  qed (use assms in \<open>auto simp: scan_int_def Let_def split: if_splits\<close>)
qed

lemma scan_exp_head: "scan_exp s = (e, r) \<Longrightarrow> r \<noteq> [] \<Longrightarrow> hd r \<noteq> CHR ''.'' \<Longrightarrow> s \<noteq> [] \<and> hd s \<noteq> CHR ''.''"
  by (cases s) (auto simp: scan_exp_def split: if_splits)

lemma scan_number_ext:
  assumes "scan_number s = Some (t, b, r)" and "r \<noteq> []" and "ends_value (hd r)"
  shows "scan_number (s @ q) = Some (t, b, r @ q)"
proof -
  from assms(1) obtain i r0 f r1 e where s: "scan_int s = Some (i, r0)" "scan_frac r0 = (f, r1)" "scan_exp r1 = (e, r)"
      "t = i @ f @ e" "b \<longleftrightarrow> f \<noteq> [] \<or> e \<noteq> []"
    by (auto simp: scan_number_def split: option.splits prod.splits)
  have r1: "r1 \<noteq> [] \<and> hd r1 \<noteq> CHR ''.''"
    using scan_exp_head [OF s(3) assms(2)] ends_valueD [OF assms(3)] by auto
  moreover have "r0 \<noteq> []" using scan_frac_append [OF s(2)] r1 by auto
  ultimately show ?thesis
    using s scan_int_ext [OF s(1), of q] scan_frac_ext [OF s(2), of q] scan_exp_ext [OF s(3) assms(2), of q]
      ends_valueD [OF assms(3)]
    by (auto simp: scan_number_def)
qed

lemma scan_literal_ext:
  assumes "scan_literal h s = Some (v, r)" and "r \<noteq> []" and "ends_value (hd r)"
  shows "scan_literal h (s @ q) = Some (v, r @ q)"
proof (cases "scan_number s")
  case None
  with assms(1) show ?thesis
    by (auto simp: scan_literal_def constant_value_def strip_prefix_append no_number split: option.splits)
next
  case (Some x)
  obtain t b r' where x: "x = (t, b, r')" by (cases x)
  with Some scan_literal_number [of s t b r' h] assms(1) have "v = number_value h t b" "r' = r" by auto
  with scan_literal_number [OF scan_number_ext [of s t b r q]] Some x assms show ?thesis by simp
qed

lemma ends_value_skip: "skip_ws r = d # r' \<Longrightarrow> d \<in> {CHR '','', CHR '']'', CHR ''}''} \<Longrightarrow> r \<noteq> [] \<and> ends_value (hd r)"
  by (cases r) (auto simp: skip_ws_def ends_value_def split: if_splits)

definition closed_text :: "string \<Rightarrow> bool" where
  "closed_text s \<longleftrightarrow> s \<noteq> [] \<and> hd s \<in> {dquote, CHR ''{'', CHR ''[''}"

lemma parse_ext:
  "(\<forall>s v r. parse_value h n s = Some (v, r) \<longrightarrow> closed_text s \<or> r \<noteq> [] \<and> ends_value (hd r) \<longrightarrow>
      parse_value h n (s @ q) = Some (v, r @ q)) \<and>
   (\<forall>s kvs r. parse_members h n s = Some (kvs, r) \<longrightarrow> parse_members h n (s @ q) = Some (kvs, r @ q)) \<and>
   (\<forall>s vs r. parse_elements h n s = Some (vs, r) \<longrightarrow> parse_elements h n (s @ q) = Some (vs, r @ q))"
proof (induction n)
  case (Suc n)
  have V: "parse_value h (Suc n) (s @ q) = Some (v, r @ q)"
    if "parse_value h (Suc n) s = Some (v, r)" "closed_text s \<or> r \<noteq> [] \<and> ends_value (hd r)" for s v r
    using that(1)
  proof (cases rule: parse_valueE)
    case (members s' s'' kvs d)
    with Suc have "parse_members h n (s'' @ q) = Some (kvs, r @ q)" by blast
    with members show ?thesis by (simp add: skip_ws_ext)
  next
    case (elements s' d s'' vs)
    with Suc have "parse_elements h n ((d # s'') @ q) = Some (vs, r @ q)" by blast
    with elements show ?thesis by (simp add: skip_ws_ext)
  next
    case (literal c s')
    with that(2) scan_literal_ext [of h s v r q] show ?thesis by (simp add: closed_text_def)
  qed (simp_all add: scan_string_ext skip_ws_ext)
  have val: "parse_value h n (s @ q) = Some (v, r @ q)"
    if "parse_value h n s = Some (v, r)" "skip_ws r = d # r'" "d \<in> {CHR '','', CHR '']'', CHR ''}''}" for s v r d r'
    using Suc that(1) ends_value_skip [OF that(2,3)] by blast
  have M: "parse_members h (Suc n) (s @ q) = Some (kvs, r @ q)" if "parse_members h (Suc n) s = Some (kvs, r)" for s kvs r
    using that
  proof (cases rule: parse_membersE)
    case (last k r0 r1 v r2)
    have "skip_ws r1 \<noteq> []" using parse_value_shorter [OF last(3)] by auto
    then obtain c r1' where "skip_ws r1 = c # r1'" by (cases "skip_ws r1") auto
    with last val [OF last(3,4)] show ?thesis
      by (simp add: scan_string_ext skip_ws_ext)
  next
    case (more k r0 r1 v r2 r3 r4 kvs')
    have "skip_ws r1 \<noteq> []" using parse_value_shorter [OF more(3)] by auto
    then obtain c r1' where "skip_ws r1 = c # r1'" by (cases "skip_ws r1") auto
    moreover from Suc more have "parse_members h n (r4 @ q) = Some (kvs', r @ q)" by blast
    ultimately show ?thesis
      using more val [OF more(3,4)] by (simp add: scan_string_ext skip_ws_ext)
  qed
  have E: "parse_elements h (Suc n) (s @ q) = Some (vs, r @ q)" if "parse_elements h (Suc n) s = Some (vs, r)" for s vs r
    using that
  proof (cases rule: parse_elementsE)
    case (last v r1)
    with val [OF last(1,2)] show ?thesis by (simp add: skip_ws_ext)
  next
    case (more v r1 r2 vs')
    then have "skip_ws r2 \<noteq> []" using parse_shorter by fastforce
    then obtain c r2' where "skip_ws r2 = c # r2'" by (cases "skip_ws r2") auto
    moreover from Suc more have "parse_elements h n (skip_ws r2 @ q) = Some (vs', r @ q)" by blast
    ultimately show ?thesis using more val [OF more(1,2)] by (simp add: skip_ws_ext)
  qed
  from V M E show ?case by blast
qed simp

lemmas parse_value_ext = parse_ext [THEN conjunct1, rule_format]

lemma parse_deterministic:
  assumes "parse_value h n s = Some x" and "parse_value h m s = Some y"
  shows "x = y"
  using parse_value_fuel [of h n s "fst x" "snd x" "Suc (2 * length s)"]
    parse_value_fuel [of h m s "fst y" "snd y" "Suc (2 * length s)"] assms
  by (simp add: prod_eq_iff del: parse_value.simps)

context json_reader
begin

text \<open>A proper prefix of a written object is not a JSON text, and neither is a written object followed
  by anything but white space.\<close>

lemma parse_dumped_object:
  assumes "json_ok h (JObj kvs)"
  shows "parse_value h (Suc (2 * length (json_dumps (JObj kvs)))) (json_dumps (JObj kvs) @ q) = Some (json_norm (JObj kvs), q)"
  unfolding json_dumps_def
  by (rule parse_json_text [OF json_ok_norm [OF assms]]) (simp_all add: delimits_def)

theorem json_loads_torn:
  assumes "json_ok h (JObj kvs)" and "json_dumps (JObj kvs) = p @ q" and "q \<noteq> []"
  shows "json_loads h p = None"
proof (rule ccontr)
  let ?v = "json_norm (JObj kvs)"
  assume "json_loads h p \<noteq> None"
  then obtain v n r where p: "parse_value h n (skip_ws p) = Some (v, r)" "skip_ws r = []"
    by (auto simp: json_loads_iff)
  then have "p \<noteq> []" by (cases n) (auto simp: skip_ws_def)
  with assms(2) obtain p' where "p = CHR ''{'' # p'" by (cases p) (auto simp: json_dumps_def)
  then have "skip_ws p = p" "closed_text p" by (simp_all add: closed_text_def)
  with parse_value_ext [of h n p v r q] p have "parse_value h n (p @ q) = Some (v, r @ q)" by simp
  from parse_deterministic [OF this, of "Suc (2 * length (p @ q))"] parse_dumped_object [OF assms(1), of "[]"] assms(2,3)
  show False by (simp del: parse_value.simps json_norm.simps)
qed

theorem json_loads_joined:
  assumes "json_ok h (JObj kvs)" and "skip_ws q \<noteq> []"
  shows "json_loads h (json_dumps (JObj kvs) @ q) = None"
proof (rule ccontr)
  let ?v = "json_norm (JObj kvs)" and ?t = "json_dumps (JObj kvs)"
  assume "json_loads h (?t @ q) \<noteq> None"
  then obtain v n r where p: "parse_value h n (skip_ws (?t @ q)) = Some (v, r)" "skip_ws r = []"
    by (auto simp: json_loads_iff)
  have "skip_ws (?t @ q) = ?t @ q" by (simp add: json_dumps_def)
  with p(1) have "parse_value h n (?t @ q) = Some (v, r)" by simp
  from parse_deterministic [OF this parse_dumped_object [OF assms(1)]] p(2) assms(2) show False by simp
qed

end

interpretation plain: json_reader "plain ft" for ft
  by unfold_locales (simp add: plain_def dict_of_pairs_distinct)

end
