(* ===== verification/State_Codec.thy ===== *)
theory State_Codec
  imports State_Models Json_Text
begin

text \<open>
  \<open>infrastructure/runtime_state/codec.py\<close>: one aggregate as one line of JSON.

  The encoders build the objects of the current schema version 4; the decoders accept the versions 1
  to 4, each against its exact key set, and rebuild the aggregate through the constructors of
  \<open>State_Models\<close>. Where a constructor checks the type of a field itself, the decoder here makes that
  check at the constructor's place; where it calls \<open>strip\<close> on a field that is no text, the
  \<open>AttributeError\<close> is a branch of its own, since \<open>decode_state_line\<close> does not translate it.
  \<open>source_plan_bar_open_time_ms\<close> is the one field without a type check: a boolean there counts as the
  integer it is, a float is refused here.

  Proved: a written aggregate reads back with the keys of its specification sorted, so equal to the
  one written (\<open>decode_encode_state\<close>); what a line of an older version reads as; records with an
  unknown or a missing field are refused; and every decoded aggregate is well formed.
\<close>

section \<open>Objects\<close>

definition field :: "json_object \<Rightarrow> string \<Rightarrow> json res" where
  "field d k = (case map_of d k of None \<Rightarrow> Inl (KeyError k) | Some v \<Rightarrow> Inr v)"

definition as_dict :: "string \<Rightarrow> json \<Rightarrow> json_object res" where
  "as_dict name v = (case v of JObj d \<Rightarrow> Inr d | _ \<Rightarrow> Inl (TypeError (name @ '' must be a JSON object'')))"

definition reject_unknown_keys :: "json_object \<Rightarrow> string list \<Rightarrow> string \<Rightarrow> unit res" where
  "reject_unknown_keys data allowed name =
     (if set (map fst data) \<subseteq> set allowed then Inr () else Inl (ValueError (name @ '' has unknown field(s)'')))"

text \<open>\<open>None if data is None else decode(data)\<close>.\<close>

definition nullable :: "(json \<Rightarrow> 'a res) \<Rightarrow> json \<Rightarrow> 'a option res" where
  "nullable f v = (if v = JNull then Inr None else res_bind (f v) (\<lambda>x. Inr (Some x)))"

text \<open>A field on which the constructor calls \<open>strip\<close>.\<close>

definition stripped_text :: "json \<Rightarrow> string \<Rightarrow> string res" where
  "stripped_text v message =
     (case v of
        JStr s \<Rightarrow> if nonblank s then Inr s else Inl (ValueError message)
      | _ \<Rightarrow> Inl (AttributeError ''strip''))"

definition text_or :: "exn \<Rightarrow> json \<Rightarrow> string res" where
  "text_or e v = (case v of JStr s \<Rightarrow> Inr s | _ \<Rightarrow> Inl e)"

definition int_or :: "exn \<Rightarrow> json \<Rightarrow> int res" where
  "int_or e v = (case v of JInt n \<Rightarrow> Inr n | _ \<Rightarrow> Inl e)"

definition null_or_text :: "string option \<Rightarrow> json" where
  "null_or_text t = (case t of None \<Rightarrow> JNull | Some s \<Rightarrow> JStr s)"

definition null_or_int :: "int option \<Rightarrow> json" where
  "null_or_int t = (case t of None \<Rightarrow> JNull | Some n \<Rightarrow> JInt n)"

definition null_or :: "('a \<Rightarrow> json) \<Rightarrow> 'a option \<Rightarrow> json" where
  "null_or f t = (case t of None \<Rightarrow> JNull | Some x \<Rightarrow> f x)"

text \<open>\<open>dict(value)\<close>: a mapping, or a sequence of pairs whose first elements are texts.\<close>

fun key_value_pair :: "json \<Rightarrow> (string \<times> json) option" where
  "key_value_pair (JArr [JStr k, v]) = Some (k, v)"
| "key_value_pair (JStr [a, b]) = Some ([a], JStr [b])"
| "key_value_pair (JObj [(a, x), (b, y)]) = Some (a, JStr b)"
| "key_value_pair v = None"

definition py_dict :: "json \<Rightarrow> json_object res" where
  "py_dict v =
     (case v of
        JObj d \<Rightarrow> Inr d
      | JStr [] \<Rightarrow> Inr []
      | JArr vs \<Rightarrow>
          if list_all (\<lambda>x. key_value_pair x \<noteq> None) vs
          then Inr (dict_of_pairs (map (the \<circ> key_value_pair) vs))
          else Inl (TypeError ''cannot convert to a dictionary'')
      | _ \<Rightarrow> Inl (TypeError ''cannot convert to a dictionary''))"

section \<open>Key sets\<close>

definition SCHEMA_VERSION :: int where
  "SCHEMA_VERSION = 4"

definition ENVELOPE_KEYS_V1 :: "string list" where
  "ENVELOPE_KEYS_V1 = [''schema_version'', ''strategy_instance_id'', ''strategy_id'', ''registered_spec_snapshot'',
     ''risk_multiplier'', ''current_trade_cycle'']"

definition ENVELOPE_KEYS_V2 :: "string list" where
  "ENVELOPE_KEYS_V2 = ENVELOPE_KEYS_V1 @ [''pending_entry_recovery'']"

definition ENVELOPE_KEYS_V3 :: "string list" where
  "ENVELOPE_KEYS_V3 = ENVELOPE_KEYS_V2 @ [''pending_close_recovery'']"

definition PENDING_ENTRY_RECOVERY_KEYS :: "string list" where
  "PENDING_ENTRY_RECOVERY_KEYS = [''trade_cycle_id'']"

definition PENDING_CLOSE_RECOVERY_KEYS :: "string list" where
  "PENDING_CLOSE_RECOVERY_KEYS = [''trade_cycle_id'']"

definition SNAPSHOT_KEYS :: "string list" where
  "SNAPSHOT_KEYS = [''instrument'', ''base_timeframe'', ''raw_spec'', ''source_path'']"

definition CYCLE_KEYS_V1 :: "string list" where
  "CYCLE_KEYS_V1 = [''trade_cycle_id'', ''applied_entry_package'', ''frozen_entry_context'',
     ''latest_confirmed_management_protection'']"

definition CYCLE_KEYS_V4 :: "string list" where
  "CYCLE_KEYS_V4 = CYCLE_KEYS_V1 @ [''entry_remainder_cancelled'']"

definition APPLIED_ENTRY_PACKAGE_KEYS :: "string list" where
  "APPLIED_ENTRY_PACKAGE_KEYS = [''applied_desired_entry'', ''calculated_quantity'']"

definition DESIRED_ENTRY_KEYS :: "string list" where
  "DESIRED_ENTRY_KEYS = [''side'', ''source_plan_bar_open_time_ms'', ''planned_entry_price'', ''initial_stop_price'',
     ''initial_take_price'', ''locked_exit_profile'']"

definition FROZEN_ENTRY_CONTEXT_KEYS_V1 :: "string list" where
  "FROZEN_ENTRY_CONTEXT_KEYS_V1 = [''desired_entry'', ''first_fill_at_ms'', ''entry_bar_open_time_ms'']"

definition FROZEN_ENTRY_CONTEXT_KEYS_V4 :: "string list" where
  "FROZEN_ENTRY_CONTEXT_KEYS_V4 = FROZEN_ENTRY_CONTEXT_KEYS_V1 @ [''entry_order_expires_at_bar'']"

definition DESIRED_PROTECTION_KEYS :: "string list" where
  "DESIRED_PROTECTION_KEYS = [''stop_price'', ''take_price'']"

section \<open>Encoding\<close>

definition encode_pending_entry_recovery :: "PendingEntryRecovery \<Rightarrow> json" where
  "encode_pending_entry_recovery marker = JObj [(''trade_cycle_id'', JStr (per_trade_cycle_id marker))]"

definition encode_pending_close_recovery :: "PendingCloseRecovery \<Rightarrow> json" where
  "encode_pending_close_recovery marker = JObj [(''trade_cycle_id'', JStr (pcr_trade_cycle_id marker))]"

text \<open>\<open>_to_plain_json\<close> makes mappings and sequences plain again; as values they are what they were.\<close>

definition to_plain_json :: "json \<Rightarrow> json" where
  "to_plain_json v = v"

definition encode_snapshot :: "RegisteredSpecSnapshot \<Rightarrow> json" where
  "encode_snapshot snapshot =
     JObj [(''instrument'', JStr (rss_instrument snapshot)),
           (''base_timeframe'', JStr (rss_base_timeframe snapshot)),
           (''raw_spec'', to_plain_json (JObj (rss_raw_spec snapshot))),
           (''source_path'', JStr (rss_source_path snapshot))]"

definition encode_stored_desired_entry :: "DesiredEntry \<Rightarrow> json" where
  "encode_stored_desired_entry entry =
     JObj [(''side'', JStr (de_side entry)),
           (''source_plan_bar_open_time_ms'', JInt (de_source_plan_bar_open_time_ms entry)),
           (''planned_entry_price'', JStr (de_planned_entry_price entry)),
           (''initial_stop_price'', JStr (de_initial_stop_price entry)),
           (''initial_take_price'', JStr (de_initial_take_price entry)),
           (''locked_exit_profile'', JStr (de_locked_exit_profile entry))]"

definition encode_applied_entry_package :: "AppliedEntryPackage \<Rightarrow> json" where
  "encode_applied_entry_package package =
     JObj [(''applied_desired_entry'', encode_stored_desired_entry (aep_applied_desired_entry package)),
           (''calculated_quantity'', JStr (aep_calculated_quantity package))]"

definition encode_frozen_entry_context :: "FrozenExecutedEntryContext \<Rightarrow> json" where
  "encode_frozen_entry_context context =
     JObj [(''desired_entry'', encode_stored_desired_entry (fec_desired_entry context)),
           (''first_fill_at_ms'', JInt (fec_first_fill_at_ms context)),
           (''entry_bar_open_time_ms'', JInt (fec_entry_bar_open_time_ms context)),
           (''entry_order_expires_at_bar'', null_or_int (fec_entry_order_expires_at_bar context))]"

definition encode_desired_protection :: "DesiredProtection \<Rightarrow> json" where
  "encode_desired_protection protection =
     JObj [(''stop_price'', JStr (dp_stop_price protection)),
           (''take_price'', null_or_text (dp_take_price protection))]"

definition encode_cycle :: "CurrentTradeCycle \<Rightarrow> json" where
  "encode_cycle cycle =
     JObj [(''trade_cycle_id'', JStr (ctc_trade_cycle_id cycle)),
           (''applied_entry_package'', encode_applied_entry_package (ctc_applied_entry_package cycle)),
           (''frozen_entry_context'', null_or encode_frozen_entry_context (ctc_frozen_entry_context cycle)),
           (''latest_confirmed_management_protection'',
             null_or encode_desired_protection (ctc_latest_confirmed_management_protection cycle)),
           (''entry_remainder_cancelled'', JBool (ctc_entry_remainder_cancelled cycle))]"

definition encode_aggregate :: "state \<Rightarrow> json_object" where
  "encode_aggregate s =
     [(''strategy_instance_id'', JStr (sirs_strategy_instance_id s)),
      (''strategy_id'', JStr (sirs_strategy_id s)),
      (''registered_spec_snapshot'', encode_snapshot (sirs_registered_spec_snapshot s)),
      (''risk_multiplier'', JStr (sirs_risk_multiplier s)),
      (''current_trade_cycle'', null_or encode_cycle (sirs_current_trade_cycle s)),
      (''pending_entry_recovery'', null_or encode_pending_entry_recovery (sirs_pending_entry_recovery s)),
      (''pending_close_recovery'', null_or encode_pending_close_recovery (sirs_pending_close_recovery s))]"

definition encode_state_line :: "state \<Rightarrow> string" where
  "encode_state_line s = json_dumps (JObj ((''schema_version'', JInt SCHEMA_VERSION) # encode_aggregate s))"

section \<open>Decoding\<close>

definition decode_pending_entry_recovery :: "json \<Rightarrow> PendingEntryRecovery res" where
  "decode_pending_entry_recovery v =
     res_bind (as_dict ''pending_entry_recovery'' v) (\<lambda>data.
     res_bind (reject_unknown_keys data PENDING_ENTRY_RECOVERY_KEYS ''pending_entry_recovery'') (\<lambda>_.
     res_bind (field data ''trade_cycle_id'') (\<lambda>t.
     res_bind (text_or (ValueError ''trade_cycle_id must be a non-empty string'') t) (\<lambda>t.
     new_PendingEntryRecovery \<lparr>per_trade_cycle_id = t\<rparr>))))"

definition decode_pending_close_recovery :: "json \<Rightarrow> PendingCloseRecovery res" where
  "decode_pending_close_recovery v =
     res_bind (as_dict ''pending_close_recovery'' v) (\<lambda>data.
     res_bind (reject_unknown_keys data PENDING_CLOSE_RECOVERY_KEYS ''pending_close_recovery'') (\<lambda>_.
     res_bind (field data ''trade_cycle_id'') (\<lambda>t.
     res_bind (text_or (ValueError ''trade_cycle_id must be a non-empty string'') t) (\<lambda>t.
     new_PendingCloseRecovery \<lparr>pcr_trade_cycle_id = t\<rparr>))))"

definition decode_snapshot :: "json \<Rightarrow> RegisteredSpecSnapshot res" where
  "decode_snapshot v =
     res_bind (as_dict ''registered_spec_snapshot'' v) (\<lambda>data.
     res_bind (reject_unknown_keys data SNAPSHOT_KEYS ''registered_spec_snapshot'') (\<lambda>_.
     res_bind (field data ''instrument'') (\<lambda>instrument.
     res_bind (field data ''base_timeframe'') (\<lambda>base_timeframe.
     res_bind (field data ''raw_spec'') (\<lambda>raw_spec.
     res_bind (field data ''source_path'') (\<lambda>source_path.
     res_bind (stripped_text instrument ''instrument must be non-empty'') (\<lambda>instrument.
     res_bind (stripped_text base_timeframe ''base_timeframe must be non-empty'') (\<lambda>base_timeframe.
     res_bind (stripped_text source_path ''source_path must be non-empty'') (\<lambda>source_path.
     res_bind (py_dict raw_spec) (\<lambda>raw_spec.
     new_RegisteredSpecSnapshot
       \<lparr>rss_instrument = instrument, rss_base_timeframe = base_timeframe, rss_raw_spec = raw_spec,
        rss_source_path = source_path\<rparr>))))))))))"

text \<open>\<open>DesiredEntry\<close> calls \<open>strip\<close> on the exit profile after all its other checks.\<close>

definition plan_bar_time :: "json \<Rightarrow> int res" where
  "plan_bar_time v =
     (case v of
        JInt n \<Rightarrow> Inr n
      | JBool b \<Rightarrow> Inr (if b then 1 else 0)
      | _ \<Rightarrow> Inl (TypeError ''not supported between instances''))"

definition decode_stored_desired_entry :: "json \<Rightarrow> DesiredEntry res" where
  "decode_stored_desired_entry v =
     res_bind (as_dict ''desired_entry'' v) (\<lambda>data.
     res_bind (reject_unknown_keys data DESIRED_ENTRY_KEYS ''desired_entry'') (\<lambda>_.
     res_bind (field data ''side'') (\<lambda>side.
     res_bind (field data ''source_plan_bar_open_time_ms'') (\<lambda>bar.
     res_bind (field data ''planned_entry_price'') (\<lambda>planned.
     res_bind (field data ''initial_stop_price'') (\<lambda>stop.
     res_bind (field data ''initial_take_price'') (\<lambda>take_price.
     res_bind (field data ''locked_exit_profile'') (\<lambda>profile.
     res_bind (text_or (ValueError ''side must be long or short'') side) (\<lambda>side.
     res_bind (plan_bar_time bar) (\<lambda>bar.
     res_bind (text_or (ValueError ''decimal text must be a non-empty string'') planned) (\<lambda>planned.
     res_bind (text_or (ValueError ''decimal text must be a non-empty string'') stop) (\<lambda>stop.
     res_bind (text_or (ValueError ''decimal text must be a non-empty string'') take_price) (\<lambda>take_price.
     let entry = \<lparr>de_side = side, de_source_plan_bar_open_time_ms = bar, de_planned_entry_price = planned,
                  de_initial_stop_price = stop, de_initial_take_price = take_price, de_locked_exit_profile = ''?''\<rparr>
     in case profile of
          JStr t \<Rightarrow> new_DesiredEntry (entry\<lparr>de_locked_exit_profile := t\<rparr>)
        | _ \<Rightarrow> res_bind (new_DesiredEntry entry) (\<lambda>_. Inl (AttributeError ''strip'')))))))))))))))"

definition decode_applied_entry_package :: "json \<Rightarrow> AppliedEntryPackage res" where
  "decode_applied_entry_package v =
     res_bind (as_dict ''applied_entry_package'' v) (\<lambda>data.
     res_bind (reject_unknown_keys data APPLIED_ENTRY_PACKAGE_KEYS ''applied_entry_package'') (\<lambda>_.
     res_bind (field data ''applied_desired_entry'') (\<lambda>entry.
     res_bind (decode_stored_desired_entry entry) (\<lambda>entry.
     res_bind (field data ''calculated_quantity'') (\<lambda>quantity.
     res_bind (text_or (ValueError ''calculated_quantity must be exact-decimal text'') quantity) (\<lambda>quantity.
     new_AppliedEntryPackage \<lparr>aep_applied_desired_entry = entry, aep_calculated_quantity = quantity\<rparr>))))))"

definition decode_frozen_entry_context :: "bool \<Rightarrow> json \<Rightarrow> FrozenExecutedEntryContext res" where
  "decode_frozen_entry_context v4 v =
     res_bind (as_dict ''frozen_entry_context'' v) (\<lambda>data.
     res_bind (reject_unknown_keys data (if v4 then FROZEN_ENTRY_CONTEXT_KEYS_V4 else FROZEN_ENTRY_CONTEXT_KEYS_V1)
                 ''frozen_entry_context'') (\<lambda>_.
     res_bind (field data ''desired_entry'') (\<lambda>entry.
     res_bind (decode_stored_desired_entry entry) (\<lambda>entry.
     res_bind (field data ''first_fill_at_ms'') (\<lambda>fill.
     res_bind (field data ''entry_bar_open_time_ms'') (\<lambda>bar.
     res_bind (if v4 then field data ''entry_order_expires_at_bar'' else Inr JNull) (\<lambda>expires.
     res_bind (int_or (ValueError ''first_fill_at_ms must be a strictly positive integer'') fill) (\<lambda>fill.
     res_bind (int_or (ValueError ''entry_bar_open_time_ms must be a non-negative integer'') bar) (\<lambda>bar.
     res_bind (nullable (int_or (ValueError
                 ''entry_order_expires_at_bar must be a strictly positive integer or None'')) expires) (\<lambda>expires.
     new_FrozenExecutedEntryContext
       \<lparr>fec_desired_entry = entry, fec_first_fill_at_ms = fill, fec_entry_bar_open_time_ms = bar,
        fec_entry_order_expires_at_bar = expires\<rparr>))))))))))"

definition decode_desired_protection :: "json \<Rightarrow> DesiredProtection res" where
  "decode_desired_protection v =
     res_bind (as_dict ''latest_confirmed_management_protection'' v) (\<lambda>data.
     res_bind (reject_unknown_keys data DESIRED_PROTECTION_KEYS ''latest_confirmed_management_protection'') (\<lambda>_.
     res_bind (field data ''stop_price'') (\<lambda>stop.
     res_bind (field data ''take_price'') (\<lambda>take_price.
     res_bind (text_or (ValueError ''decimal text must be a non-empty string'') stop) (\<lambda>stop.
     res_bind (nullable (text_or (ValueError ''decimal text must be a non-empty string'')) take_price) (\<lambda>take_price.
     new_DesiredProtection \<lparr>dp_stop_price = stop, dp_take_price = take_price\<rparr>))))))"

definition decode_cycle :: "bool \<Rightarrow> json \<Rightarrow> CurrentTradeCycle res" where
  "decode_cycle v4 v =
     res_bind (as_dict ''current_trade_cycle'' v) (\<lambda>data.
     res_bind (reject_unknown_keys data (if v4 then CYCLE_KEYS_V4 else CYCLE_KEYS_V1) ''current_trade_cycle'') (\<lambda>_.
     res_bind (field data ''frozen_entry_context'') (\<lambda>frozen.
     res_bind (field data ''latest_confirmed_management_protection'') (\<lambda>protection.
     res_bind (field data ''trade_cycle_id'') (\<lambda>cid.
     res_bind (field data ''applied_entry_package'') (\<lambda>package.
     res_bind (decode_applied_entry_package package) (\<lambda>package.
     res_bind (nullable (decode_frozen_entry_context v4) frozen) (\<lambda>frozen.
     res_bind (nullable decode_desired_protection protection) (\<lambda>protection.
     res_bind (if v4 then field data ''entry_remainder_cancelled'' else Inr (JBool False)) (\<lambda>mark.
     res_bind (text_or (ValueError ''trade_cycle_id must be a non-empty string'') cid) (\<lambda>cid.
     case mark of
       JBool b \<Rightarrow>
         new_CurrentTradeCycle
           \<lparr>ctc_trade_cycle_id = cid, ctc_applied_entry_package = package, ctc_frozen_entry_context = frozen,
            ctc_latest_confirmed_management_protection = protection, ctc_entry_remainder_cancelled = b\<rparr>
     | _ \<Rightarrow> Inl (TypeError ''entry_remainder_cancelled must be bool''))))))))))))"

definition decode_aggregate ::
    "json_object \<Rightarrow> PendingEntryRecovery option \<Rightarrow> PendingCloseRecovery option \<Rightarrow> bool \<Rightarrow> state res" where
  "decode_aggregate data pending_entry_recovery pending_close_recovery v4 =
     res_bind (field data ''current_trade_cycle'') (\<lambda>cycle.
     res_bind (field data ''strategy_instance_id'') (\<lambda>i.
     res_bind (field data ''strategy_id'') (\<lambda>strategy_id.
     res_bind (field data ''registered_spec_snapshot'') (\<lambda>snapshot.
     res_bind (decode_snapshot snapshot) (\<lambda>snapshot.
     res_bind (field data ''risk_multiplier'') (\<lambda>risk_multiplier.
     res_bind (nullable (decode_cycle v4) cycle) (\<lambda>cycle.
     res_bind (stripped_text i ''strategy identity fields must be non-empty'') (\<lambda>i.
     res_bind (stripped_text strategy_id ''strategy identity fields must be non-empty'') (\<lambda>strategy_id.
     res_bind (text_or (ValueError ''risk_multiplier must be positive exact-decimal text'') risk_multiplier) (\<lambda>risk_multiplier.
     new_StrategyInstanceRuntimeState
       \<lparr>sirs_strategy_instance_id = i, sirs_strategy_id = strategy_id, sirs_registered_spec_snapshot = snapshot,
        sirs_risk_multiplier = risk_multiplier, sirs_current_trade_cycle = cycle,
        sirs_pending_entry_recovery = pending_entry_recovery,
        sirs_pending_close_recovery = pending_close_recovery\<rparr>))))))))))"

text \<open>\<open>schema_version == n\<close>: in Python a boolean is an integer, and a float may equal one.\<close>

definition version_is :: "int \<Rightarrow> json option \<Rightarrow> bool" where
  "version_is n v =
     (case v of
        Some (JInt m) \<Rightarrow> m = n
      | Some (JBool b) \<Rightarrow> n = (if b then 1 else 0)
      | Some (JFloat t) \<Rightarrow> t = int_text n @ ''.0''
      | _ \<Rightarrow> False)"

definition decode_envelope :: "json \<Rightarrow> state res" where
  "decode_envelope envelope =
     (case envelope of
        JObj d \<Rightarrow>
          (let schema_version = map_of d ''schema_version'' in
           if version_is 1 schema_version
           then res_bind (reject_unknown_keys d ENVELOPE_KEYS_V1 ''envelope'') (\<lambda>_.
                decode_aggregate d None None False)
           else if version_is 2 schema_version
           then res_bind (reject_unknown_keys d ENVELOPE_KEYS_V2 ''envelope'') (\<lambda>_.
                res_bind (field d ''pending_entry_recovery'') (\<lambda>entry.
                res_bind (nullable decode_pending_entry_recovery entry) (\<lambda>entry.
                decode_aggregate d entry None False)))
           else if version_is 3 schema_version \<or> version_is 4 schema_version
           then res_bind (reject_unknown_keys d ENVELOPE_KEYS_V3 ''envelope'') (\<lambda>_.
                res_bind (field d ''pending_entry_recovery'') (\<lambda>entry.
                res_bind (field d ''pending_close_recovery'') (\<lambda>close.
                res_bind (nullable decode_pending_entry_recovery entry) (\<lambda>entry.
                res_bind (nullable decode_pending_close_recovery close) (\<lambda>close.
                decode_aggregate d entry close (version_is 4 schema_version))))))
           else Inl (ValueError ''unsupported or missing schema_version''))
      | _ \<Rightarrow> Inl (TypeError ''record must be a JSON object''))"

definition decode_state_line :: "(string \<Rightarrow> string) \<Rightarrow> string \<Rightarrow> state res" where
  "decode_state_line ft line =
     (case json_loads (plain ft) line of
        None \<Rightarrow> Inl JSONDecodeError
      | Some envelope \<Rightarrow>
          (case decode_envelope envelope of
             Inl (TypeError m) \<Rightarrow> Inl StateRecordDecodeError
           | Inl (ValueError m) \<Rightarrow> Inl StateRecordDecodeError
           | Inl (KeyError m) \<Rightarrow> Inl StateRecordDecodeError
           | r \<Rightarrow> r))"


section \<open>What is written reads back\<close>

definition norm_object :: "json_object \<Rightarrow> json_object" where
  "norm_object kvs = sort_key fst (map (\<lambda>(k, v). (k, json_norm v)) kvs)"

lemma json_norm_object [simp]: "json_norm (JObj kvs) = JObj (norm_object kvs)"
  by (simp add: norm_object_def)

declare json_norm.simps(1) [simp del]

lemma norm_object_keys [simp]: "set (map fst (norm_object kvs)) = set (map fst kvs)"
  by (force simp: norm_object_def)

lemma map_of_norm_object:
  assumes "distinct (map fst kvs)"
  shows "map_of (norm_object kvs) k = map_option json_norm (map_of kvs k)"
proof -
  let ?kvs = "map (\<lambda>(k, v). (k, json_norm v)) kvs"
  have keys: "map fst ?kvs = map fst kvs" by (simp add: comp_def case_prod_unfold)
  have "mset (map fst (sort_key fst ?kvs)) = mset (map fst ?kvs)" by (simp only: mset_map mset_sort)
  then have "distinct (map fst (sort_key fst ?kvs))" using assms keys by (metis mset_eq_imp_distinct_iff)
  then have "map_of (sort_key fst ?kvs) = map_of ?kvs"
    using assms by (subst map_of_inject_set) (simp_all only: keys set_sort)
  then show ?thesis by (simp add: norm_object_def map_of_map)
qed

lemma field_norm_object:
  "distinct (map fst kvs) \<Longrightarrow> map_of kvs k = Some v \<Longrightarrow> field (norm_object kvs) k = Inr (json_norm v)"
  by (simp add: field_def map_of_norm_object)

lemma known_keys: "set (map fst kvs) \<subseteq> set allowed \<Longrightarrow> reject_unknown_keys (norm_object kvs) allowed name = Inr ()"
  unfolding reject_unknown_keys_def norm_object_keys by simp

lemma as_dict_object [simp]: "as_dict name (JObj d) = Inr d"
  by (simp add: as_dict_def)

lemma typed_field_simps [simp]:
  "text_or e (JStr s) = Inr s" "int_or e (JInt n) = Inr n" "plan_bar_time (JInt n) = Inr n"
  "nonblank s \<Longrightarrow> stripped_text (JStr s) m = Inr s" "py_dict (JObj d) = Inr d"
  by (simp_all add: text_or_def int_or_def plan_bar_time_def stripped_text_def py_dict_def)

lemma nullable_simps [simp]:
  "nullable f JNull = Inr None" "v \<noteq> JNull \<Longrightarrow> nullable f v = res_bind (f v) (\<lambda>x. Inr (Some x))"
  by (simp_all add: nullable_def)

lemma nullable_null_or:
  assumes "\<And>x. t = Some x \<Longrightarrow> json_norm (f x) \<noteq> JNull \<and> g (json_norm (f x)) = Inr x"
  shows "nullable g (json_norm (null_or f t)) = Inr t"
  using assms by (cases t) (simp_all add: null_or_def)

lemma null_or_text_int:
  "null_or_text t = null_or JStr t" "null_or_int n = null_or JInt n"
  by (simp_all add: null_or_text_def null_or_int_def null_or_def)

lemmas key_sets = ENVELOPE_KEYS_V1_def ENVELOPE_KEYS_V2_def ENVELOPE_KEYS_V3_def PENDING_ENTRY_RECOVERY_KEYS_def
  PENDING_CLOSE_RECOVERY_KEYS_def SNAPSHOT_KEYS_def CYCLE_KEYS_V1_def CYCLE_KEYS_V4_def APPLIED_ENTRY_PACKAGE_KEYS_def
  DESIRED_ENTRY_KEYS_def FROZEN_ENTRY_CONTEXT_KEYS_V1_def FROZEN_ENTRY_CONTEXT_KEYS_V4_def DESIRED_PROTECTION_KEYS_def

lemma decode_markers:
  "per_trade_cycle_id e \<noteq> [] \<Longrightarrow> decode_pending_entry_recovery (json_norm (encode_pending_entry_recovery e)) = Inr e"
  "pcr_trade_cycle_id p \<noteq> [] \<Longrightarrow> decode_pending_close_recovery (json_norm (encode_pending_close_recovery p)) = Inr p"
  by (simp_all add: decode_pending_entry_recovery_def encode_pending_entry_recovery_def field_norm_object known_keys
      decode_pending_close_recovery_def encode_pending_close_recovery_def key_sets new_record_iff
      new_PendingEntryRecovery_def new_PendingCloseRecovery_def)

lemma decode_desired_entry_encoded:
  "wf_desired_entry d \<Longrightarrow> decode_stored_desired_entry (json_norm (encode_stored_desired_entry d)) = Inr d"
  using new_DesiredEntry_id [of d]
  by (cases d) (simp add: decode_stored_desired_entry_def encode_stored_desired_entry_def field_norm_object known_keys key_sets)

lemma decode_package_encoded:
  "wf_package p \<Longrightarrow> decode_applied_entry_package (json_norm (encode_applied_entry_package p)) = Inr p"
  by (simp add: decode_applied_entry_package_def encode_applied_entry_package_def field_norm_object known_keys key_sets
      decode_desired_entry_encoded new_AppliedEntryPackage_def wf_package_def)

lemma decode_frozen_encoded:
  assumes "wf_frozen c"
  shows "decode_frozen_entry_context True (json_norm (encode_frozen_entry_context c)) = Inr c"
proof -
  have "new_FrozenExecutedEntryContext c = Inr c"
    using assms new_FrozenExecutedEntryContext_iff [of c c] by (simp add: wf_frozen_def)
  moreover have "nullable (int_or e) (json_norm (null_or_int (fec_entry_order_expires_at_bar c))) =
      Inr (fec_entry_order_expires_at_bar c)" for e
    unfolding null_or_text_int by (rule nullable_null_or) simp
  ultimately show ?thesis
    using assms
    by (cases c) (simp add: decode_frozen_entry_context_def encode_frozen_entry_context_def field_norm_object known_keys key_sets
        decode_desired_entry_encoded wf_frozen_def)
qed

lemma decode_protection_encoded:
  assumes "wf_protection p"
  shows "decode_desired_protection (json_norm (encode_desired_protection p)) = Inr p"
proof -
  have "nullable (text_or e) (json_norm (null_or_text (dp_take_price p))) = Inr (dp_take_price p)" for e
    unfolding null_or_text_int by (rule nullable_null_or) simp
  with new_DesiredProtection_id [OF assms] show ?thesis
    by (cases p) (simp add: decode_desired_protection_def encode_desired_protection_def field_norm_object known_keys key_sets)
qed

lemma encoded_not_null:
  "json_norm (encode_frozen_entry_context f) \<noteq> JNull" "json_norm (encode_desired_protection p) \<noteq> JNull"
  "json_norm (encode_cycle c) \<noteq> JNull" "json_norm (encode_pending_entry_recovery e) \<noteq> JNull"
  "json_norm (encode_pending_close_recovery q) \<noteq> JNull"
  by (simp_all add: encode_frozen_entry_context_def encode_desired_protection_def encode_cycle_def
      encode_pending_entry_recovery_def encode_pending_close_recovery_def)

lemma decode_cycle_encoded:
  assumes "wf_cycle c"
  shows "decode_cycle True (json_norm (encode_cycle c)) = Inr c"
proof -
  have "nullable (decode_frozen_entry_context True) (json_norm (null_or encode_frozen_entry_context (ctc_frozen_entry_context c))) =
      Inr (ctc_frozen_entry_context c)"
    using assms by (intro nullable_null_or conjI encoded_not_null decode_frozen_encoded) (simp add: wf_cycle_def)
  moreover have "nullable decode_desired_protection
      (json_norm (null_or encode_desired_protection (ctc_latest_confirmed_management_protection c))) =
      Inr (ctc_latest_confirmed_management_protection c)"
    using assms by (intro nullable_null_or conjI encoded_not_null decode_protection_encoded) (simp add: wf_cycle_def)
  ultimately show ?thesis
    using assms
    by (simp add: decode_cycle_def encode_cycle_def field_norm_object known_keys key_sets decode_package_encoded
        new_CurrentTradeCycle_def wf_cycle_def)
qed

text \<open>The aggregate with the keys of its specification sorted: equal to it as Python compares them.\<close>

definition canonical_spec :: "state \<Rightarrow> state" where
  "canonical_spec s =
     s\<lparr>sirs_registered_spec_snapshot :=
         (sirs_registered_spec_snapshot s)
           \<lparr>rss_raw_spec := norm_object (rss_raw_spec (sirs_registered_spec_snapshot s))\<rparr>\<rparr>"

lemma decode_snapshot_encoded:
  "wf_snapshot p \<Longrightarrow> decode_snapshot (json_norm (encode_snapshot p)) = Inr (p\<lparr>rss_raw_spec := norm_object (rss_raw_spec p)\<rparr>)"
  by (simp add: decode_snapshot_def encode_snapshot_def to_plain_json_def field_norm_object known_keys key_sets
      new_RegisteredSpecSnapshot_def wf_snapshot_def)

lemma decode_envelope_encoded:
  assumes "wf_state s"
  shows "decode_envelope (json_norm (JObj ((''schema_version'', JInt SCHEMA_VERSION) # encode_aggregate s))) =
    Inr (canonical_spec s)"
proof -
  let ?d = "(''schema_version'', JInt SCHEMA_VERSION) # encode_aggregate s"
  have d: "distinct (map fst ?d)" and k: "set (map fst ?d) \<subseteq> set ENVELOPE_KEYS_V3"
    by (simp_all add: encode_aggregate_def key_sets)
  have version: "map_of (norm_object ?d) ''schema_version'' = Some (JInt 4)"
    using map_of_norm_object [OF d] by (simp add: SCHEMA_VERSION_def)
  have entry: "nullable decode_pending_entry_recovery
      (json_norm (null_or encode_pending_entry_recovery (sirs_pending_entry_recovery s))) = Inr (sirs_pending_entry_recovery s)"
    using assms by (intro nullable_null_or conjI encoded_not_null decode_markers) (simp add: wf_state_def)
  have close: "nullable decode_pending_close_recovery
      (json_norm (null_or encode_pending_close_recovery (sirs_pending_close_recovery s))) = Inr (sirs_pending_close_recovery s)"
    using assms by (intro nullable_null_or conjI encoded_not_null decode_markers)
      (auto simp: wf_state_def wf_cycle_def split: option.splits)
  have cycle: "nullable (decode_cycle True) (json_norm (null_or encode_cycle (sirs_current_trade_cycle s))) =
      Inr (sirs_current_trade_cycle s)"
    using assms by (intro nullable_null_or conjI encoded_not_null decode_cycle_encoded) (simp add: wf_state_def)
  have "wf_state (canonical_spec s)"
    using assms by (simp add: wf_state_def wf_snapshot_def canonical_spec_def cong: option.case_cong)
  from new_state_id [OF this] have new: "new_StrategyInstanceRuntimeState (canonical_spec s) = Inr (canonical_spec s)" .
  have f: "field (norm_object ?d) k = (case map_of (encode_aggregate s) k of None \<Rightarrow> Inl (KeyError k) | Some v \<Rightarrow> Inr (json_norm v))"
    if "k \<noteq> ''schema_version''" for k
    using that map_of_norm_object [OF d, of k] by (simp add: field_def split: option.split)
  have fields: "field (norm_object ?d) ''strategy_instance_id'' = Inr (JStr (sirs_strategy_instance_id s))"
      "field (norm_object ?d) ''strategy_id'' = Inr (JStr (sirs_strategy_id s))"
      "field (norm_object ?d) ''registered_spec_snapshot'' = Inr (json_norm (encode_snapshot (sirs_registered_spec_snapshot s)))"
      "field (norm_object ?d) ''risk_multiplier'' = Inr (JStr (sirs_risk_multiplier s))"
      "field (norm_object ?d) ''current_trade_cycle'' = Inr (json_norm (null_or encode_cycle (sirs_current_trade_cycle s)))"
      "field (norm_object ?d) ''pending_entry_recovery'' =
        Inr (json_norm (null_or encode_pending_entry_recovery (sirs_pending_entry_recovery s)))"
      "field (norm_object ?d) ''pending_close_recovery'' =
        Inr (json_norm (null_or encode_pending_close_recovery (sirs_pending_close_recovery s)))"
    by (simp_all add: f) (simp_all add: encode_aggregate_def)
  have aggregate: "decode_aggregate (norm_object ?d) (sirs_pending_entry_recovery s) (sirs_pending_close_recovery s) True =
      Inr (canonical_spec s)"
  proof -
    let ?snap = "sirs_registered_spec_snapshot s"
    have "\<lparr>sirs_strategy_instance_id = sirs_strategy_instance_id s, sirs_strategy_id = sirs_strategy_id s,
        sirs_registered_spec_snapshot = ?snap\<lparr>rss_raw_spec := norm_object (rss_raw_spec ?snap)\<rparr>,
        sirs_risk_multiplier = sirs_risk_multiplier s, sirs_current_trade_cycle = sirs_current_trade_cycle s,
        sirs_pending_entry_recovery = sirs_pending_entry_recovery s,
        sirs_pending_close_recovery = sirs_pending_close_recovery s\<rparr> = canonical_spec s"
      by (cases s) (simp add: canonical_spec_def)
    moreover have "nonblank (sirs_strategy_instance_id s)" "nonblank (sirs_strategy_id s)" "wf_snapshot ?snap"
      using assms by (simp_all add: wf_state_def)
    ultimately show ?thesis using new by (simp add: decode_aggregate_def fields cycle decode_snapshot_encoded)
  qed
  show ?thesis
    unfolding json_norm_object decode_envelope_def json.case Let_def version
    using aggregate entry close
    by (simp add: version_is_def known_keys [OF k] fields)
qed


text \<open>The specification is a JSON value as the encoder can write it.\<close>

definition writable :: "(string \<Rightarrow> string) \<Rightarrow> state \<Rightarrow> bool" where
  "writable ft s \<longleftrightarrow> json_ok (plain ft) (JObj (rss_raw_spec (sirs_registered_spec_snapshot s)))"

lemma encoded_ok:
  "json_ok (plain ft) (null_or_text t)" "json_ok (plain ft) (null_or_int n)" "json_ok (plain ft) (encode_stored_desired_entry d)"
  "json_ok (plain ft) (encode_applied_entry_package p)" "json_ok (plain ft) (encode_frozen_entry_context f)"
  "json_ok (plain ft) (encode_desired_protection q)" "json_ok (plain ft) (encode_pending_entry_recovery e)"
  "json_ok (plain ft) (encode_pending_close_recovery c)"
  by (simp_all add: null_or_text_def null_or_int_def encode_stored_desired_entry_def encode_applied_entry_package_def
      encode_frozen_entry_context_def encode_desired_protection_def encode_pending_entry_recovery_def
      encode_pending_close_recovery_def split: option.split)

lemma null_or_ok: "(\<And>x. json_ok (plain ft) (f x)) \<Longrightarrow> json_ok (plain ft) (null_or f t)"
  by (simp add: null_or_def split: option.split)

lemma envelope_ok:
  assumes "writable ft s"
  shows "json_ok (plain ft) (JObj ((''schema_version'', JInt n) # encode_aggregate s))"
proof -
  have cycle: "json_ok (plain ft) (encode_cycle c)" for c
    by (simp add: encode_cycle_def encoded_ok null_or_ok)
  have "json_ok (plain ft) (encode_snapshot (sirs_registered_spec_snapshot s))"
    using assms by (simp add: encode_snapshot_def to_plain_json_def writable_def)
  with cycle show ?thesis by (simp add: encode_aggregate_def encoded_ok null_or_ok)
qed

lemma decode_encode_state:
  assumes "wf_state s" and "writable ft s"
  shows "decode_state_line ft (encode_state_line s) = Inr (canonical_spec s)"
  unfolding decode_state_line_def encode_state_line_def plain.json_loads_dumps [OF envelope_ok [OF assms(2)]] option.case
    decode_envelope_encoded [OF assms(1)] by simp

lemma json_norm_idem [simp]: "json_norm (json_norm v) = json_norm v"
proof (induction v)
  case (JObj kvs)
  let ?f = "\<lambda>(k, v). (k, json_norm v)"
  have "map ?f (sort_key fst (map ?f kvs)) = sort_key fst (map ?f kvs)"
    using JObj by (intro map_idI) (auto simp: snds.simps)
  then have "norm_object (norm_object kvs) = norm_object kvs"
    by (simp add: norm_object_def sort_key_id_if_sorted)
  then show ?case by simp
qed (simp_all add: map_idI)

text \<open>Reading back gives an equal aggregate, as \<open>==\<close> compares dataclasses with mappings.\<close>

definition state_eq :: "state \<Rightarrow> state \<Rightarrow> bool" where
  "state_eq a b \<longleftrightarrow>
     snapshot_eq (sirs_registered_spec_snapshot a) (sirs_registered_spec_snapshot b) \<and>
     b = a\<lparr>sirs_registered_spec_snapshot := sirs_registered_spec_snapshot b\<rparr>"

lemma norm_object_idem [simp]: "norm_object (norm_object kvs) = norm_object kvs"
  using json_norm_idem [of "JObj kvs"] unfolding json_norm_object by simp

lemma canonical_spec_eq: "state_eq s (canonical_spec s)"
  by (simp add: state_eq_def snapshot_eq_def canonical_spec_def json_eq_def)

lemma canonical_spec_fields [simp]:
  "sirs_strategy_instance_id (canonical_spec s) = sirs_strategy_instance_id s"
  "sirs_strategy_id (canonical_spec s) = sirs_strategy_id s"
  "sirs_current_trade_cycle (canonical_spec s) = sirs_current_trade_cycle s"
  "sirs_pending_entry_recovery (canonical_spec s) = sirs_pending_entry_recovery s"
  "sirs_pending_close_recovery (canonical_spec s) = sirs_pending_close_recovery s"
  "sirs_risk_multiplier (canonical_spec s) = sirs_risk_multiplier s"
  by (simp_all add: canonical_spec_def)

lemma canonical_spec_wf [simp]: "wf_state (canonical_spec s) = wf_state s"
proof -
  have "wf_snapshot (sirs_registered_spec_snapshot (canonical_spec s)) = wf_snapshot (sirs_registered_spec_snapshot s)"
    by (simp add: canonical_spec_def wf_snapshot_def)
  then show ?thesis unfolding wf_state_def canonical_spec_fields by simp
qed

section \<open>What is accepted is well formed\<close>

lemma nullable_Inr: "nullable f v = Inr x \<longleftrightarrow> (v = JNull \<and> x = None) \<or> (v \<noteq> JNull \<and> (\<exists>y. f v = Inr y \<and> x = Some y))"
  by (auto simp: nullable_def res_bind_eq_Inr)

lemma as_dict_Inr: "as_dict name v = Inr d \<longleftrightarrow> v = JObj d"
  by (cases v) (auto simp: as_dict_def)

lemma typed_case_Inr:
  "(case v of JStr t \<Rightarrow> f t | _ \<Rightarrow> res_bind r (\<lambda>_. Inl e)) = Inr x \<longleftrightarrow> (\<exists>t. v = JStr t \<and> f t = Inr x)"
  "(case v of JBool b \<Rightarrow> g b | _ \<Rightarrow> Inl e) = Inr y \<longleftrightarrow> (\<exists>b. v = JBool b \<and> g b = Inr y)"
  by (cases v; auto simp: res_bind_eq_Inr)+

lemma decode_stored_entry_wf: "decode_stored_desired_entry v = Inr d \<Longrightarrow> wf_desired_entry d"
  by (auto simp: decode_stored_desired_entry_def res_bind_eq_Inr Let_def typed_case_Inr dest: new_DesiredEntry_wf)

lemma decode_package_wf: "decode_applied_entry_package v = Inr p \<Longrightarrow> wf_package p"
  by (auto simp: decode_applied_entry_package_def res_bind_eq_Inr new_record_iff wf_package_def dest: decode_stored_entry_wf)

lemma decode_frozen_wf: "decode_frozen_entry_context v4 v = Inr c \<Longrightarrow> wf_frozen c"
  by (auto simp: decode_frozen_entry_context_def res_bind_eq_Inr dest!: decode_stored_entry_wf)
   (auto simp: new_FrozenExecutedEntryContext_iff)

lemma decode_protection_wf: "decode_desired_protection v = Inr p \<Longrightarrow> wf_protection p"
  by (auto simp: decode_desired_protection_def res_bind_eq_Inr dest: new_DesiredProtection_wf)

lemma decode_cycle_wf: "decode_cycle v4 v = Inr c \<Longrightarrow> wf_cycle c"
  by (auto simp: decode_cycle_def res_bind_eq_Inr new_record_iff wf_cycle_def nullable_Inr typed_case_Inr
      dest: decode_package_wf decode_frozen_wf decode_protection_wf)

lemma decode_snapshot_wf: "decode_snapshot v = Inr p \<Longrightarrow> wf_snapshot p"
  by (auto simp: decode_snapshot_def res_bind_eq_Inr new_RegisteredSpecSnapshot_def wf_snapshot_def split: if_splits)

lemma decode_aggregate_wf:
  assumes "decode_aggregate d e p v4 = Inr s" and "\<And>m. e = Some m \<Longrightarrow> per_trade_cycle_id m \<noteq> []"
  shows "wf_state s"
proof -
  from assms(1) have
    s: "wf_snapshot (sirs_registered_spec_snapshot s)" "\<And>c. sirs_current_trade_cycle s = Some c \<Longrightarrow> wf_cycle c"
    "sirs_pending_entry_recovery s = e" "nonblank (sirs_strategy_instance_id s)" "nonblank (sirs_strategy_id s)"
    "is_positive_exact_decimal_text (sirs_risk_multiplier s)" "markers_ok s"
    by (auto simp: decode_aggregate_def res_bind_eq_Inr new_record_iff nullable_Inr
        dest: decode_snapshot_wf decode_cycle_wf)
  with assms(2) show ?thesis by (auto simp: wf_state_def markers_ok_def split: option.splits)
qed

lemma decode_marker_wf: "decode_pending_entry_recovery v = Inr m \<Longrightarrow> per_trade_cycle_id m \<noteq> []"
  by (auto simp: decode_pending_entry_recovery_def res_bind_eq_Inr new_record_iff)

lemma decode_envelope_wf: "decode_envelope v = Inr s \<Longrightarrow> wf_state s"
  by (auto simp: decode_envelope_def Let_def res_bind_eq_Inr nullable_Inr
      intro!: decode_aggregate_wf dest: decode_marker_wf split: json.split_asm if_splits)

lemma decode_state_line_Inr: "decode_state_line ft l = Inr s \<longleftrightarrow> (\<exists>v. json_loads (plain ft) l = Some v \<and> decode_envelope v = Inr s)"
  by (auto simp: decode_state_line_def split: option.splits sum.splits exn.splits)

section \<open>Exact key sets\<close>

definition exact_keys :: "json \<Rightarrow> string list \<Rightarrow> bool" where
  "exact_keys v allowed \<longleftrightarrow> (\<exists>d. v = JObj d \<and> set (map fst d) = set allowed)"

definition has_key :: "json_object \<Rightarrow> string \<Rightarrow> bool" where
  "has_key d k \<longleftrightarrow> k \<in> fst ` set d"

definition only_keys :: "json_object \<Rightarrow> string list \<Rightarrow> bool" where
  "only_keys d allowed \<longleftrightarrow> fst ` set d \<subseteq> set allowed"

lemma field_present: "field d k = Inr v \<Longrightarrow> has_key d k"
  by (auto simp: has_key_def field_def split: option.splits dest!: map_of_SomeD intro: rev_image_eqI)

lemma known_fields: "reject_unknown_keys d allowed name = Inr u \<Longrightarrow> only_keys d allowed"
  by (auto simp: reject_unknown_keys_def only_keys_def split: if_splits)

lemma exact_keysI: "only_keys d allowed \<Longrightarrow> list_all (has_key d) allowed \<Longrightarrow> exact_keys (JObj d) allowed"
  by (auto simp: exact_keys_def list_all_iff only_keys_def has_key_def)

lemma decoded_keys:
  "decode_pending_entry_recovery v = Inr e \<Longrightarrow> exact_keys v PENDING_ENTRY_RECOVERY_KEYS"
  "decode_pending_close_recovery v = Inr p \<Longrightarrow> exact_keys v PENDING_CLOSE_RECOVERY_KEYS"
  "decode_snapshot v = Inr snap \<Longrightarrow> exact_keys v SNAPSHOT_KEYS"
  "decode_stored_desired_entry v = Inr d \<Longrightarrow> exact_keys v DESIRED_ENTRY_KEYS"
  "decode_applied_entry_package v = Inr pkg \<Longrightarrow> exact_keys v APPLIED_ENTRY_PACKAGE_KEYS"
  "decode_frozen_entry_context v4 v = Inr f \<Longrightarrow>
     exact_keys v (if v4 then FROZEN_ENTRY_CONTEXT_KEYS_V4 else FROZEN_ENTRY_CONTEXT_KEYS_V1)"
  "decode_desired_protection v = Inr q \<Longrightarrow> exact_keys v DESIRED_PROTECTION_KEYS"
  "decode_cycle v4 v = Inr c \<Longrightarrow> exact_keys v (if v4 then CYCLE_KEYS_V4 else CYCLE_KEYS_V1)"
  by (auto simp: decode_pending_entry_recovery_def decode_pending_close_recovery_def decode_snapshot_def
      decode_stored_desired_entry_def decode_applied_entry_package_def decode_frozen_entry_context_def
      decode_desired_protection_def decode_cycle_def res_bind_eq_Inr as_dict_Inr
      intro!: exact_keysI dest!: known_fields field_present split: if_splits;
      simp add: key_sets)+

lemma decode_aggregate_keys:
  "decode_aggregate d e p v4 = Inr s \<Longrightarrow> list_all (has_key d) (tl ENVELOPE_KEYS_V1)"
  by (auto simp: decode_aggregate_def res_bind_eq_Inr key_sets dest!: field_present)

lemma version_present: "version_is n (map_of d k) \<Longrightarrow> has_key d k"
  by (auto simp: version_is_def has_key_def split: option.splits dest!: map_of_SomeD intro: rev_image_eqI)

lemma decode_envelopeE:
  assumes "decode_envelope v = Inr s"
  obtains (v1) d where "v = JObj d" "version_is 1 (map_of d ''schema_version'')" "only_keys d ENVELOPE_KEYS_V1"
      "decode_aggregate d None None False = Inr s"
  | (v2) d e where "v = JObj d" "version_is 2 (map_of d ''schema_version'')" "only_keys d ENVELOPE_KEYS_V2"
      "has_key d ''pending_entry_recovery''" "decode_aggregate d e None False = Inr s"
  | (v3) d e p n where "v = JObj d" "version_is n (map_of d ''schema_version'')" "only_keys d ENVELOPE_KEYS_V3"
      "has_key d ''pending_entry_recovery''" "has_key d ''pending_close_recovery''"
      "decode_aggregate d e p (version_is 4 (map_of d ''schema_version'')) = Inr s"
proof -
  from assms obtain d where d: "v = JObj d" by (cases v) (auto simp: decode_envelope_def)
  let ?is = "\<lambda>n. version_is n (map_of d ''schema_version'')"
  consider "?is 1" | "\<not> ?is 1" "?is 2" | "\<not> ?is 1" "\<not> ?is 2" "?is 3 \<or> ?is 4" | "\<not> ?is 1" "\<not> ?is 2" "\<not> ?is 3" "\<not> ?is 4" by blast
  then show ?thesis
  proof cases
    case 1
    with assms d show ?thesis
      by (auto simp: decode_envelope_def res_bind_eq_Inr intro: v1 dest!: known_fields)
  next
    case 2
    with assms d show ?thesis
      by (auto simp: decode_envelope_def res_bind_eq_Inr intro: v2 dest!: known_fields field_present)
  next
    case 3
    with assms d show ?thesis
      by (auto simp: decode_envelope_def res_bind_eq_Inr intro: v3 dest!: known_fields field_present)
  next
    case 4
    with assms d show ?thesis by (simp add: decode_envelope_def)
  qed
qed

text \<open>Which keys a record has, and what the older versions cannot say.\<close>

lemma decode_envelope_version:
  assumes "decode_envelope v = Inr s"
  shows "(exact_keys v ENVELOPE_KEYS_V1 \<and> sirs_pending_entry_recovery s = None \<and> sirs_pending_close_recovery s = None) \<or>
    (exact_keys v ENVELOPE_KEYS_V2 \<and> sirs_pending_close_recovery s = None) \<or> exact_keys v ENVELOPE_KEYS_V3"
proof -
  have markers: "sirs_pending_entry_recovery s = e \<and> sirs_pending_close_recovery s = p"
    if "decode_aggregate d e p v4 = Inr s" for d e p v4
    using that by (auto simp: decode_aggregate_def res_bind_eq_Inr new_record_iff)
  have first: "list_all (has_key d) ENVELOPE_KEYS_V1"
    if "version_is n (map_of d ''schema_version'')" "decode_aggregate d e p v4 = Inr s" for n d e p v4
    using version_present [OF that(1)] decode_aggregate_keys [OF that(2)] by (simp add: ENVELOPE_KEYS_V1_def)
  from assms show ?thesis
  proof (cases rule: decode_envelopeE)
    case (v1 d)
    with first [OF v1(2,4)] markers [OF v1(4)] show ?thesis by (auto intro: exact_keysI)
  next
    case (v2 d e)
    with first [OF v2(2,5)] markers [OF v2(5)] show ?thesis
      by (auto simp: ENVELOPE_KEYS_V2_def intro: exact_keysI)
  next
    case (v3 d e p n)
    with first [OF v3(2,6)] show ?thesis
      by (auto simp: ENVELOPE_KEYS_V2_def ENVELOPE_KEYS_V3_def intro: exact_keysI)
  qed
qed

lemma old_cycle_unmarked:
  "decode_cycle False v = Inr c \<Longrightarrow>
     \<not> ctc_entry_remainder_cancelled c \<and>
     (\<forall>f. ctc_frozen_entry_context c = Some f \<longrightarrow> fec_entry_order_expires_at_bar f = None)"
  by (auto simp: decode_cycle_def decode_frozen_entry_context_def res_bind_eq_Inr nullable_Inr typed_case_Inr
      new_CurrentTradeCycle_iff new_FrozenExecutedEntryContext_def split: if_splits)

end
