(* ===== verification/Utf8.thy ===== *)
theory Utf8
  imports Prelude
begin

text \<open>
  UTF-8, for the code points below 256: \<open>str.encode\<close> and \<open>bytes.decode\<close> of Python. A byte string is a
  \<open>string\<close>; \<open>None\<close> is \<open>UnicodeDecodeError\<close>, also for a sequence that denotes a larger code point.

  Proved: decoding inverts encoding, also before more bytes, and a decodable prefix of an encoded
  text is the encoding of a prefix of it.
\<close>

definition utf8_char :: "char \<Rightarrow> string" where
  "utf8_char c =
     (if of_char c < (128 :: nat) then [c]
      else [char_of (192 + of_char c div 64 :: nat), char_of (128 + of_char c mod 64 :: nat)])"

definition utf8_encode :: "string \<Rightarrow> string" where
  "utf8_encode s = concat (map utf8_char s)"

fun utf8_decode :: "string \<Rightarrow> string option" where
  "utf8_decode [] = Some []"
| "utf8_decode (b # bs) =
     (if of_char b < (128 :: nat) then map_option ((#) b) (utf8_decode bs)
      else case bs of
        [] \<Rightarrow> None
      | c # cs \<Rightarrow>
          if of_char b \<in> {194, 195 :: nat} \<and> of_char c \<in> {128..<192 :: nat}
          then map_option ((#) (char_of ((of_char b - 192) * 64 + (of_char c - 128) :: nat))) (utf8_decode cs)
          else None)"

lemma utf8_lead: "128 \<le> (of_char c :: nat) \<Longrightarrow> of_char c div 64 \<in> {2, 3 :: nat}"
proof -
  have "n div 64 \<in> {2, 3 :: nat}" if "128 \<le> n" "n < 256" for n
  proof -
    have "128 div 64 \<le> n div 64" using that(1) by (rule div_le_mono)
    moreover have "n div 64 < 4" using that(2) by (simp add: less_mult_imp_div_less)
    ultimately show ?thesis by (simp, linarith)
  qed
  then show "128 \<le> (of_char c :: nat) \<Longrightarrow> of_char c div 64 \<in> {2, 3 :: nat}" using nat_of_char_less_256 [of c] by blast
qed

lemma utf8_decode_char [simp]: "utf8_decode (utf8_char c @ bs) = map_option ((#) c) (utf8_decode bs)"
proof (cases "of_char c < (128 :: nat)")
  case True
  then show ?thesis by (simp add: utf8_char_def)
next
  case False
  let ?n = "of_char c :: nat"
  have n: "?n < 256" "128 \<le> ?n" using nat_of_char_less_256 [of c] False by simp_all
  consider "?n div 64 = 2" "128 + ?n mod 64 = ?n" "?n < 192" | "?n div 64 = 3" "192 + ?n mod 64 = ?n"
  proof -
    from utf8_lead [OF n(2)] consider "?n div 64 = 2" | "?n div 64 = 3" by blast
    then show ?thesis
    proof cases
      case 1
      with mult_div_mod_eq [of 64 ?n] have "128 + ?n mod 64 = ?n" by linarith
      moreover have "?n mod 64 < 64" by simp
      ultimately have "?n < 192" by linarith
      with 1 \<open>128 + ?n mod 64 = ?n\<close> that(1) show ?thesis by blast
    next
      case 2
      with mult_div_mod_eq [of 64 ?n] have "192 + ?n mod 64 = ?n" by linarith
      with 2 that(2) show ?thesis by blast
    qed
  qed
  then show ?thesis using False n by cases (simp_all add: utf8_char_def of_char_of)
qed

lemma utf8_encode_append [simp]: "utf8_encode (s @ t) = utf8_encode s @ utf8_encode t"
  by (simp add: utf8_encode_def)

lemma utf8_decode_append: "utf8_decode (utf8_encode s @ bs) = map_option ((@) s) (utf8_decode bs)"
proof (induction s)
  case (Cons c s)
  then show ?case by (simp add: utf8_encode_def option.map_comp comp_def)
qed (simp add: utf8_encode_def option.map_id0 id_def [symmetric])

lemma utf8_decode_encode [simp]: "utf8_decode (utf8_encode s) = Some s"
  using utf8_decode_append [of s "[]"] by simp

text \<open>What a decodable prefix of an encoded text decodes to.\<close>

lemma utf8_decode_prefix:
  "utf8_decode (take n (utf8_encode s)) = Some t \<Longrightarrow> \<exists>u. s = t @ u \<and> take n (utf8_encode s) = utf8_encode t"
proof (induction s arbitrary: n t)
  case Nil
  then show ?case by (auto simp: utf8_encode_def)
next
  case (Cons c s)
  show ?case
  proof (cases "length (utf8_char c) \<le> n")
    case True
    then have take: "take n (utf8_encode (c # s)) = utf8_char c @ take (n - length (utf8_char c)) (utf8_encode s)"
      by (simp add: utf8_encode_def)
    with Cons.prems obtain t' where t: "t = c # t'" "utf8_decode (take (n - length (utf8_char c)) (utf8_encode s)) = Some t'"
      by auto
    from Cons.IH [OF t(2)] t(1) take show ?thesis by (auto simp: utf8_encode_def)
  next
    case False
    then have n: "n = 0 \<or> n = 1 \<and> \<not> of_char c < (128 :: nat)" by (auto simp: utf8_char_def split: if_splits)
    then show ?thesis
    proof
      assume "n = 0"
      with Cons.prems show ?thesis by (auto simp: utf8_encode_def)
    next
      assume n: "n = 1 \<and> \<not> of_char c < (128 :: nat)"
      have "(192 + of_char c div 64) mod 256 \<ge> (128 :: nat)"
        using utf8_lead [of c] n by auto
      with n Cons.prems show ?thesis
        by (simp add: utf8_encode_def utf8_char_def of_char_of)
    qed
  qed
qed

end
