(* ===== verification/Jsonl_Repository.thy ===== *)
theory Jsonl_Repository
  imports State_Codec State_Repository Utf8
begin

text \<open>
  \<open>infrastructure/runtime_state/jsonl_repository.py\<close>: the durable repository. Every save appends one
  encoded line to one file and returns only after \<open>fsync\<close>; opening the repository replays the file.

  The representation holds the dictionary, whether the instance is poisoned, the bytes of the file
  and the outcomes the disk has in store for the coming appends: an append succeeds, or the directory
  cannot be made (nothing was written), or the write fails after any number of its bytes reached the
  file. The file is UTF-8; the code points of a text are below 256, so they take one or two bytes.

  Proved: the repository keeps the contract of the port (\<open>jsonl\<close> interprets \<open>state_repository\<close>), also
  when it is poisoned; what was saved is what the next start reads (\<open>save_durable\<close>); and a failed
  write leaves a file that reads as the state before or after it, unless it was cut inside a
  character (\<open>torn_append\<close>). The last section shows what the next append does to such a file.
\<close>

section \<open>The file\<close>

text \<open>\<open>str.splitlines\<close>.\<close>

definition line_break :: "char \<Rightarrow> bool" where
  "line_break c \<longleftrightarrow> c \<in> {CHR 0x0A, CHR 0x0B, CHR 0x0C, CHR 0x0D, CHR 0x1C, CHR 0x1D, CHR 0x1E, CHR 0x85}"

definition after_break :: "char \<Rightarrow> string \<Rightarrow> string" where
  "after_break c r = (if c = CHR 0x0D \<and> r \<noteq> [] \<and> hd r = CHR 0x0A then tl r else r)"

function splitlines :: "string \<Rightarrow> string list" where
  "splitlines s =
     (if s = [] then []
      else takeWhile (\<lambda>c. \<not> line_break c) s #
        (case dropWhile (\<lambda>c. \<not> line_break c) s of [] \<Rightarrow> [] | c # r \<Rightarrow> splitlines (after_break c r)))"
  by pat_completeness auto
termination
proof (relation "measure length")
  fix s c r assume "dropWhile (\<lambda>c. \<not> line_break c) s = c # r"
  then have "length (c # r) \<le> length s" by (metis length_dropWhile_le)
  then show "(after_break c r, s) \<in> measure length" by (auto simp: after_break_def)
qed simp

declare splitlines.simps [simp del]

section \<open>Replay\<close>

fun replay_lines ::
    "(string \<Rightarrow> string) \<Rightarrow> nat \<Rightarrow> (string \<times> state) list \<Rightarrow> string list \<Rightarrow> (string \<times> state) list res" where
  "replay_lines ft index states [] = Inr states"
| "replay_lines ft index states (raw_line # rest) =
     (case decode_state_line ft raw_line of
        Inl JSONDecodeError \<Rightarrow> if rest = [] then Inr states else Inl (StrategyInstanceStateReplayError (index + 1))
      | Inl StateRecordDecodeError \<Rightarrow> Inl (StrategyInstanceStateReplayError (index + 1))
      | Inl e \<Rightarrow> Inl e
      | Inr s \<Rightarrow> replay_lines ft (index + 1) (AList.update (sirs_strategy_instance_id s) s states) rest)"

definition replay_file :: "(string \<Rightarrow> string) \<Rightarrow> string option \<Rightarrow> (string \<times> state) list res" where
  "replay_file ft content =
     (case content of
        None \<Rightarrow> Inr []
      | Some bytes \<Rightarrow>
          (case utf8_decode bytes of
             None \<Rightarrow> Inl UnicodeDecodeError
           | Some t \<Rightarrow> replay_lines ft 0 [] (splitlines t)))"

section \<open>The repository\<close>

datatype append_outcome = Appended | MkdirFailed | WriteFailedAfter nat

record jsonl_repo =
  jr_states :: "(string \<times> state) list"
  jr_poison :: bool
  jr_file :: "string option"
  jr_disk :: "append_outcome list"

definition jsonl_init :: "(string \<Rightarrow> string) \<Rightarrow> string option \<Rightarrow> append_outcome list \<Rightarrow> jsonl_repo res" where
  "jsonl_init ft content disk =
     res_bind (replay_file ft content) (\<lambda>states.
     Inr \<lparr>jr_states = states, jr_poison = False, jr_file = content, jr_disk = disk\<rparr>)"

definition contents :: "string option \<Rightarrow> string" where
  "contents content = (case content of None \<Rightarrow> [] | Some bytes \<Rightarrow> bytes)"

definition next_outcome :: "append_outcome list \<Rightarrow> append_outcome" where
  "next_outcome disk = (case disk of [] \<Rightarrow> Appended | x # xs \<Rightarrow> x)"

definition line_bytes :: "state \<Rightarrow> string" where
  "line_bytes s = utf8_encode (encode_state_line s @ [CHR 0x0A])"

definition jsonl_append :: "state \<Rightarrow> jsonl_repo \<Rightarrow> unit res \<times> jsonl_repo" where
  "jsonl_append s r =
     (let after = r\<lparr>jr_disk := tl (jr_disk r)\<rparr> in
      case next_outcome (jr_disk r) of
        MkdirFailed \<Rightarrow> (Inl (OSError ''mkdir''), after)
      | Appended \<Rightarrow> (Inr (), after\<lparr>jr_file := Some (contents (jr_file r) @ line_bytes s)\<rparr>)
      | WriteFailedAfter n \<Rightarrow>
          (Inl (OSError ''write''),
           after\<lparr>jr_file := (if n = 0 then jr_file r else Some (contents (jr_file r) @ take n (line_bytes s))),
                 jr_poison := True\<rparr>))"

definition check_not_poisoned :: "jsonl_repo \<Rightarrow> unit res" where
  "check_not_poisoned r = (if jr_poison r then Inl StrategyInstanceStateStorePoisoned else Inr ())"

text \<open>Append, then update the dictionary.\<close>

definition jsonl_store :: "state \<Rightarrow> jsonl_repo \<Rightarrow> state res \<times> jsonl_repo" where
  "jsonl_store s r =
     (case jsonl_append s r of
        (Inl e, r') \<Rightarrow> (Inl e, r')
      | (Inr _, r') \<Rightarrow>
          (Inr s, r'\<lparr>jr_states := AList.update (sirs_strategy_instance_id s) s (jr_states r')\<rparr>))"

definition jsonl_get_or_create :: "GetOrCreateRequest \<Rightarrow> jsonl_repo \<Rightarrow> state res \<times> jsonl_repo" where
  "jsonl_get_or_create request r =
     (case check_not_poisoned r of
        Inl e \<Rightarrow> (Inl e, r)
      | Inr _ \<Rightarrow>
          (case map_of (jr_states r) (gcr_strategy_instance_id request) of
             Some existing \<Rightarrow>
               (if sirs_strategy_id existing \<noteq> gcr_strategy_id request
                then (Inl (StrategyInstanceStateError
                        (StrategyInstanceIdentityConflict (gcr_strategy_instance_id request))), r)
                else (Inr existing, r))
           | None \<Rightarrow>
               (case initial_state request of
                  Inl e \<Rightarrow> (Inl e, r)
                | Inr s \<Rightarrow> jsonl_store s r)))"

definition jsonl_get :: "string \<Rightarrow> jsonl_repo \<Rightarrow> state option res \<times> jsonl_repo" where
  "jsonl_get i r =
     (res_bind (require_strategy_instance_id i) (\<lambda>_.
      res_bind (check_not_poisoned r) (\<lambda>_. Inr (map_of (jr_states r) i))), r)"

definition jsonl_save :: "state \<Rightarrow> jsonl_repo \<Rightarrow> state res \<times> jsonl_repo" where
  "jsonl_save s r =
     (case check_not_poisoned r of
        Inl e \<Rightarrow> (Inl e, r)
      | Inr _ \<Rightarrow>
          (case save_check (map_of (jr_states r) (sirs_strategy_instance_id s)) s of
             Inl e \<Rightarrow> (Inl e, r)
           | Inr _ \<Rightarrow> jsonl_store s r))"

definition jsonl_list_ids_with_pending_entry_recovery :: "jsonl_repo \<Rightarrow> string list res" where
  "jsonl_list_ids_with_pending_entry_recovery r =
     res_bind (check_not_poisoned r) (\<lambda>_.
     Inr (map fst (filter (\<lambda>(i, s). sirs_pending_entry_recovery s \<noteq> None) (jr_states r))))"

definition jsonl_list_ids_with_pending_close_recovery :: "jsonl_repo \<Rightarrow> string list res" where
  "jsonl_list_ids_with_pending_close_recovery r =
     res_bind (check_not_poisoned r) (\<lambda>_.
     Inr (map fst (filter (\<lambda>(i, s). sirs_pending_close_recovery s \<noteq> None) (jr_states r))))"

definition jsonl_ops :: "jsonl_repo repo_ops" where
  "jsonl_ops =
     \<lparr>ro_get_or_create = jsonl_get_or_create, ro_get = jsonl_get, ro_save = jsonl_save,
      ro_list_ids_with_pending_entry_recovery = jsonl_list_ids_with_pending_entry_recovery,
      ro_list_ids_with_pending_close_recovery = jsonl_list_ids_with_pending_close_recovery\<rparr>"

section \<open>The contract of the port\<close>

definition jsonl_states :: "jsonl_repo \<Rightarrow> string \<Rightarrow> state option" where
  "jsonl_states r = map_of (jr_states r)"

definition jsonl_inv :: "jsonl_repo \<Rightarrow> bool" where
  "jsonl_inv r \<longleftrightarrow> memory_inv (jr_states r)"

lemma jsonl_append_states: "jsonl_append s r = (x, r') \<Longrightarrow> jr_states r' = jr_states r"
  by (auto simp: jsonl_append_def Let_def split: append_outcome.splits)

lemma jsonl_store_cases:
  assumes "jsonl_store s r = (x, r')" and "jsonl_inv r"
  shows "jsonl_inv r' \<and> (case x of
      Inr s' \<Rightarrow> s' = s \<and> jsonl_states r' = (jsonl_states r)(sirs_strategy_instance_id s \<mapsto> s)
    | Inl e \<Rightarrow> jsonl_states r' = jsonl_states r)"
proof -
  obtain y r1 where a: "jsonl_append s r = (y, r1)" by (cases "jsonl_append s r")
  note same = jsonl_append_states [OF a]
  show ?thesis
  proof (cases y)
    case (Inl e)
    with a assms same show ?thesis by (auto simp: jsonl_store_def jsonl_inv_def jsonl_states_def)
  next
    case (Inr u)
    with a assms(1) have r': "x = Inr s" "r' = r1\<lparr>jr_states := AList.update (sirs_strategy_instance_id s) s (jr_states r1)\<rparr>"
      by (simp_all add: jsonl_store_def)
    have "memory_inv (AList.update (sirs_strategy_instance_id s) s (jr_states r))"
      using assms(2) by (intro memory_inv_update) (simp_all add: jsonl_inv_def)
    then show ?thesis
      unfolding r' by (simp add: same jsonl_inv_def jsonl_states_def update_conv')
  qed
qed

lemma check_not_poisoned_Inr: "check_not_poisoned r = Inr u \<longleftrightarrow> \<not> jr_poison r"
  by (simp add: check_not_poisoned_def)

lemma jsonl_get_live: "\<not> jr_poison r \<Longrightarrow> i \<noteq> [] \<Longrightarrow> jsonl_get i r = (Inr (jsonl_states r i), r)"
  by (simp add: jsonl_get_def require_strategy_instance_id_def check_not_poisoned_def jsonl_states_def)

lemma jsonl_get_or_create_cases:
  assumes "jsonl_get_or_create q r = (x, r')" and "\<not> jr_poison r"
  obtains (existing) old where "jsonl_states r (gcr_strategy_instance_id q) = Some old" "r' = r"
      "x = (if sirs_strategy_id old \<noteq> gcr_strategy_id q
            then Inl (StrategyInstanceStateError (StrategyInstanceIdentityConflict (gcr_strategy_instance_id q))) else Inr old)"
  | (invalid) e where "jsonl_states r (gcr_strategy_instance_id q) = None" "initial_state q = Inl e" "x = Inl e" "r' = r"
  | (created) s where "jsonl_states r (gcr_strategy_instance_id q) = None" "initial_state q = Inr s"
      "jsonl_store s r = (x, r')"
  using assms
  by (cases "map_of (jr_states r) (gcr_strategy_instance_id q)"; cases "initial_state q")
    (auto simp: jsonl_get_or_create_def check_not_poisoned_def jsonl_states_def split: if_splits)

interpretation jsonl: state_repository jsonl_ops jsonl_states jsonl_inv
proof
  fix r i s
  assume "jsonl_inv r" "jsonl_states r i = Some s"
  then show "sirs_strategy_instance_id s = i"
    using memory.keys [of "jr_states r"] by (simp add: jsonl_inv_def jsonl_states_def)
next
  fix r r' i x
  assume "ro_get jsonl_ops i r = (x, r')"
  then show "r' = r \<and> (case x of Inr found \<Rightarrow> i \<noteq> [] \<and> found = jsonl_states r i | Inl e \<Rightarrow> True)"
    by (auto simp: jsonl_ops_def jsonl_get_def require_strategy_instance_id_def jsonl_states_def res_bind_eq_Inr
        split: if_splits sum.splits)
next
  fix r s x r'
  assume inv: "jsonl_inv r" and "ro_save jsonl_ops s r = (x, r')"
  then show "jsonl_inv r' \<and> (case x of
      Inr s' \<Rightarrow> s' = s \<and> save_check (jsonl_states r (sirs_strategy_instance_id s)) s = Inr () \<and>
        jsonl_states r' = (jsonl_states r)(sirs_strategy_instance_id s \<mapsto> s)
    | Inl e \<Rightarrow> jsonl_states r' = jsonl_states r)"
    using jsonl_store_cases [of s r x r']
    by (auto simp: jsonl_ops_def jsonl_save_def jsonl_states_def split: sum.splits)
next
  fix r q x r'
  assume inv: "jsonl_inv r" and "ro_get_or_create jsonl_ops q r = (x, r')"
  then show "jsonl_inv r' \<and> (case x of
      Inr s \<Rightarrow> (gcr_strategy_instance_id q \<noteq> [] \<longrightarrow> ro_get jsonl_ops (gcr_strategy_instance_id q) r
                   = (Inr (jsonl_states r (gcr_strategy_instance_id q)), r)) \<and>
        (case jsonl_states r (gcr_strategy_instance_id q) of
          Some old \<Rightarrow> s = old \<and> sirs_strategy_id old = gcr_strategy_id q \<and> jsonl_states r' = jsonl_states r
        | None \<Rightarrow> initial_state q = Inr s \<and> jsonl_states r' = (jsonl_states r)(gcr_strategy_instance_id q \<mapsto> s))
    | Inl e \<Rightarrow> jsonl_states r' = jsonl_states r)"
  proof (cases "jr_poison r")
    case True
    with \<open>ro_get_or_create jsonl_ops q r = (x, r')\<close> inv show ?thesis
      by (auto simp: jsonl_ops_def jsonl_get_or_create_def check_not_poisoned_def)
  next
    case False
    from \<open>ro_get_or_create jsonl_ops q r = (x, r')\<close> have "jsonl_get_or_create q r = (x, r')" by (simp add: jsonl_ops_def)
    from this False show ?thesis
    proof (cases rule: jsonl_get_or_create_cases)
      case (created s)
      from jsonl_store_cases [OF created(3) inv] created(1,2) initial_state_id [OF created(2)] show ?thesis
        by (cases x) (auto simp: jsonl_ops_def jsonl_get_live [OF False])
    qed (use inv in \<open>auto simp: jsonl_ops_def jsonl_get_live [OF False]\<close>)
  qed
next
  fix r :: jsonl_repo and ids
  assume "jsonl_inv r" "ro_list_ids_with_pending_entry_recovery jsonl_ops r = Inr ids"
  then show "set ids = {i. \<exists>s. jsonl_states r i = Some s \<and> sirs_pending_entry_recovery s \<noteq> None}"
    using memory_listed [of "jr_states r" "\<lambda>s. sirs_pending_entry_recovery s \<noteq> None"]
    by (auto simp: jsonl_ops_def jsonl_list_ids_with_pending_entry_recovery_def jsonl_inv_def jsonl_states_def res_bind_eq_Inr)
next
  fix r :: jsonl_repo and ids
  assume "jsonl_inv r" "ro_list_ids_with_pending_close_recovery jsonl_ops r = Inr ids"
  then show "set ids = {i. \<exists>s. jsonl_states r i = Some s \<and> sirs_pending_close_recovery s \<noteq> None}"
    using memory_listed [of "jr_states r" "\<lambda>s. sirs_pending_close_recovery s \<noteq> None"]
    by (auto simp: jsonl_ops_def jsonl_list_ids_with_pending_close_recovery_def jsonl_inv_def jsonl_states_def res_bind_eq_Inr)
qed


section \<open>Bytes and lines\<close>


definition unbroken :: "string \<Rightarrow> bool" where
  "unbroken l \<longleftrightarrow> list_all (\<lambda>c. \<not> line_break c) l"

lemma splitlines_Nil [simp]: "splitlines [] = []"
  by (simp add: splitlines.simps)

lemma splitlines_last: "unbroken p \<Longrightarrow> splitlines p = (if p = [] then [] else [p])"
proof -
  assume "unbroken p"
  then have p: "takeWhile (\<lambda>c. \<not> line_break c) p = p" "dropWhile (\<lambda>c. \<not> line_break c) p = []"
    by (simp_all add: unbroken_def list_all_iff)
  show ?thesis unfolding splitlines.simps [of p] p by simp
qed

lemma splitlines_line:
  assumes "unbroken l"
  shows "splitlines (l @ CHR 0x0A # r) = l # splitlines r"
proof -
  have "takeWhile (\<lambda>c. \<not> line_break c) (l @ CHR 0x0A # r) = l" "dropWhile (\<lambda>c. \<not> line_break c) (l @ CHR 0x0A # r) = CHR 0x0A # r"
    using assms by (simp_all add: unbroken_def list_all_iff line_break_def)
  then show ?thesis by (subst splitlines.simps) (simp add: after_break_def)
qed

lemma splitlines_lines:
  "list_all unbroken ls \<Longrightarrow> splitlines (concat (map (\<lambda>l. l @ [CHR 0x0A]) ls) @ r) = ls @ splitlines r"
  by (induction ls) (simp_all add: splitlines_line)

text \<open>An encoded line has no break but a raw U+0085.\<close>

definition graphic :: "string \<Rightarrow> bool" where
  "graphic s \<longleftrightarrow> (\<forall>c \<in> set s. 32 \<le> (of_char c :: nat))"

lemma graphic_simps [simp]:
  "graphic []" "graphic (c # s) \<longleftrightarrow> 32 \<le> (of_char c :: nat) \<and> graphic s" "graphic (s @ t) \<longleftrightarrow> graphic s \<and> graphic t"
  by (auto simp: graphic_def)

lemma graphic_unbroken: "graphic s \<Longrightarrow> CHR 0x85 \<notin> set s \<Longrightarrow> unbroken s"
  by (auto simp: graphic_def unbroken_def list_all_iff line_break_def)

lemma hex_char_graphic: "32 \<le> (of_char (hex_char n) :: nat)"
  using mod16_cases [of n] by (auto simp: hex_char_def)

lemma json_escape_graphic: "graphic (json_escape c)"
  by (auto simp: json_escape_def hex_char_graphic)

lemma json_string_graphic: "graphic (json_string s)"
proof -
  have "graphic (concat (map json_escape s))" by (induction s) (simp_all add: json_escape_graphic)
  then show ?thesis by (simp add: json_string_def)
qed

lemma digits_graphic: "list_all is_digit ds \<Longrightarrow> graphic ds"
  by (auto simp: graphic_def list_all_iff is_digit_def less_eq_char_def)

lemma scan_int_graphic: "scan_int s = Some (i, r) \<Longrightarrow> graphic i"
  by (auto simp: scan_int_def Let_def is_digit_def less_eq_char_def graphic_def split: list.splits if_splits prod.splits
      dest!: set_takeWhileD)

lemma scan_part_graphic: "scan_frac s = (f, r) \<Longrightarrow> graphic f" "scan_exp s = (e, r) \<Longrightarrow> graphic e"
  by (auto simp: scan_frac_def scan_exp_def is_digit_def less_eq_char_def graphic_def split: list.splits if_splits
      dest!: set_takeWhileD)

lemma float_graphic: "float_ok ft t \<Longrightarrow> graphic t"
  by (auto simp: float_ok_def scan_number_def split: option.splits prod.splits dest!: scan_int_graphic scan_part_graphic)

lemma commas_graphic: "list_all graphic xs \<Longrightarrow> graphic (commas xs)"
  by (induction xs rule: commas.induct) simp_all

lemma json_text_graphic: "json_ok (plain ft) v \<Longrightarrow> graphic (json_text v)"
proof (induction v)
  case (JInt n)
  then show ?case by (simp add: int_text_def digits_graphic digits_of_digits)
next
  case (JArr vs)
  then show ?case by (auto simp: list_all_iff intro!: commas_graphic)
next
  case (JObj kvs)
  then have "graphic (json_text v)" if "(k, v) \<in> set kvs" for k v
    using that by (fastforce simp: list_all_iff)
  then show ?case by (auto simp: list_all_iff json_string_graphic intro!: commas_graphic)
qed (auto simp: float_graphic json_string_graphic)


section \<open>What was saved is read back\<close>

text \<open>An aggregate that can be stored: constructed, its specification a JSON value, and no raw U+0085 in
  its line, at which \<open>splitlines\<close> would break it.\<close>

definition storable :: "(string \<Rightarrow> string) \<Rightarrow> state \<Rightarrow> bool" where
  "storable ft s \<longleftrightarrow> wf_state s \<and> writable ft s \<and> CHR 0x85 \<notin> set (encode_state_line s)"

definition file_of :: "state list \<Rightarrow> string" where
  "file_of ss = utf8_encode (concat (map (\<lambda>l. l @ [CHR 0x0A]) (map encode_state_line ss)))"

definition store_all :: "(string \<times> state) list \<Rightarrow> state list \<Rightarrow> (string \<times> state) list" where
  "store_all st ss = foldl (\<lambda>st s. AList.update (sirs_strategy_instance_id s) s st) st ss"

lemma store_all_snoc: "store_all st (ss @ [s]) = AList.update (sirs_strategy_instance_id s) s (store_all st ss)"
  by (simp add: store_all_def)

lemma encode_state_line_graphic: "writable ft s \<Longrightarrow> graphic (encode_state_line s)"
  unfolding encode_state_line_def json_dumps_def by (rule json_text_graphic [OF json_ok_norm [OF envelope_ok]])

lemma storable_unbroken: "storable ft s \<Longrightarrow> unbroken (encode_state_line s)"
  by (auto simp: storable_def intro: graphic_unbroken encode_state_line_graphic)

lemma storable_decode: "storable ft s \<Longrightarrow> decode_state_line ft (encode_state_line s) = Inr (canonical_spec s)"
  by (simp add: storable_def decode_encode_state)

lemma replay_lines_stored:
  "list_all (storable ft) ss \<Longrightarrow>
     replay_lines ft i st (map encode_state_line ss @ tail) =
     replay_lines ft (i + length ss) (store_all st (map canonical_spec ss)) tail"
  by (induction ss arbitrary: i st) (simp_all add: storable_decode store_all_def)

lemma replay_file_stored:
  assumes "list_all (storable ft) ss"
  shows "replay_file ft (Some (file_of ss @ utf8_encode p)) =
    replay_lines ft (length ss) (store_all [] (map canonical_spec ss)) (splitlines p)"
proof -
  have "list_all unbroken (map encode_state_line ss)"
    using assms by (auto simp: list_all_iff storable_unbroken)
  then show ?thesis
    unfolding replay_file_def file_of_def utf8_encode_append [symmetric] option.case utf8_decode_encode
    by (simp add: splitlines_lines replay_lines_stored [OF assms] del: map_map)
qed

lemma replay_file_contents: "replay_file ft content = replay_file ft (Some (contents content))"
  by (cases content) (simp_all add: contents_def replay_file_def)

text \<open>The file holds one line per aggregate of \<open>ss\<close>, and the dictionary the last ones of each instance.\<close>

definition clean :: "(string \<Rightarrow> string) \<Rightarrow> state list \<Rightarrow> jsonl_repo \<Rightarrow> bool" where
  "clean ft ss r \<longleftrightarrow>
     contents (jr_file r) = file_of ss \<and> list_all (storable ft) ss \<and>
     (\<forall>i. map_of (store_all [] (map canonical_spec ss)) i = map_option canonical_spec (jsonl_states r i))"

lemma clean_replay:
  assumes "clean ft ss r"
  shows "replay_file ft (jr_file r) = Inr (store_all [] (map canonical_spec ss))"
  using assms replay_file_stored [of ft ss "[]"] replay_file_contents [of ft "jr_file r"]
  by (simp add: clean_def utf8_encode_def)

lemma canonical_spec_idem [simp]: "canonical_spec (canonical_spec s) = canonical_spec s"
  by (simp add: canonical_spec_def)

lemma store_all_canonical: "map_of (store_all [] (map canonical_spec ss)) i = Some s \<Longrightarrow> canonical_spec s = s"
proof (induction ss rule: rev_induct)
  case (snoc x ss)
  then show ?case by (auto simp: store_all_snoc update_conv' split: if_splits)
qed (simp add: store_all_def)

text \<open>A repository opened on such a file is in such a state again.\<close>

lemma clean_init:
  assumes "content = None \<and> ss = [] \<or> content = Some (file_of ss)" and "list_all (storable ft) ss"
  shows "\<exists>r. jsonl_init ft content disk = Inr r \<and> clean ft ss r \<and> jr_states r = store_all [] (map canonical_spec ss) \<and>
    \<not> jr_poison r \<and> jr_file r = content"
proof -
  have c: "contents content = file_of ss" using assms(1) by (auto simp: contents_def file_of_def utf8_encode_def)
  have "replay_file ft content = Inr (store_all [] (map canonical_spec ss))"
    using replay_file_stored [OF assms(2), of "[]"] replay_file_contents [of ft content] c by (simp add: utf8_encode_def)
  moreover have "map_of (store_all [] (map canonical_spec ss)) i = map_option canonical_spec (map_of (store_all [] (map canonical_spec ss)) i)" for i
    using store_all_canonical by (cases "map_of (store_all [] (map canonical_spec ss)) i") auto
  ultimately show ?thesis using c assms(2) by (simp add: jsonl_init_def clean_def jsonl_states_def)
qed

lemma clean_extended:
  assumes "clean ft ss r" and "storable ft s"
    and "contents (jr_file r') = file_of ss @ line_bytes s"
    and "jsonl_states r' = (jsonl_states r)(sirs_strategy_instance_id s \<mapsto> s)"
  shows "clean ft (ss @ [s]) r'"
proof -
  have "file_of (ss @ [s]) = file_of ss @ line_bytes s" by (simp add: file_of_def line_bytes_def)
  with assms show ?thesis by (simp add: clean_def store_all_snoc update_conv')
qed

lemma store_clean:
  assumes "clean ft ss r" and "storable ft s" and "jsonl_store s r = (x, r')"
  shows "(\<forall>y. x = Inr y \<longrightarrow> clean ft (ss @ [s]) r' \<and> jr_poison r' = jr_poison r) \<and>
    (\<forall>e. x = Inl e \<longrightarrow> \<not> jr_poison r' \<longrightarrow> clean ft ss r')"
proof (cases "next_outcome (jr_disk r)")
  case Appended
  with assms(3) have x: "x = Inr s" and f: "jr_file r' = Some (contents (jr_file r) @ line_bytes s)"
      "jsonl_states r' = (jsonl_states r)(sirs_strategy_instance_id s \<mapsto> s)" "jr_poison r' = jr_poison r"
    by (auto simp: jsonl_store_def jsonl_append_def Let_def jsonl_states_def update_conv')
  have "contents (jr_file r') = file_of ss @ line_bytes s" using f(1) assms(1) by (simp add: contents_def [of "Some _"] clean_def)
  with clean_extended [OF assms(1,2) _ f(2)] x f(3) show ?thesis by simp
next
  case MkdirFailed
  with assms show ?thesis by (auto simp: jsonl_store_def jsonl_append_def Let_def clean_def jsonl_states_def)
next
  case (WriteFailedAfter n)
  with assms show ?thesis by (auto simp: jsonl_store_def jsonl_append_def Let_def)
qed

lemma save_durable:
  assumes "clean ft ss r" and "storable ft s" and "ro_save jsonl_ops s r = (Inr s', r')"
  shows "clean ft (ss @ [s]) r' \<and>
    (\<exists>st. replay_file ft (jr_file r') = Inr st \<and> map_of st (sirs_strategy_instance_id s) = Some (canonical_spec s) \<and>
      (\<forall>i. map_of st i = map_option canonical_spec (jsonl_states r' i)))"
proof -
  from assms(3) have "jsonl_store s r = (Inr s', r')"
    by (auto simp: jsonl_ops_def jsonl_save_def split: sum.splits)
  with store_clean [OF assms(1,2)] have c: "clean ft (ss @ [s]) r'" by blast
  moreover have "map_of (store_all [] (map canonical_spec (ss @ [s]))) (sirs_strategy_instance_id s) = Some (canonical_spec s)"
    by (simp add: store_all_snoc update_conv')
  ultimately show ?thesis using clean_replay [OF c] by (simp add: clean_def)
qed

lemma create_durable:
  assumes "clean ft ss r" and "\<not> jr_poison r" and "ro_get_or_create jsonl_ops q r = (Inr s, r')"
    and "jsonl_states r (gcr_strategy_instance_id q) = None \<Longrightarrow> storable ft s"
  shows "\<exists>ss'. clean ft ss' r' \<and> (ss' = ss \<or> ss' = ss @ [s])"
proof -
  from assms(3) have "jsonl_get_or_create q r = (Inr s, r')" by (simp add: jsonl_ops_def)
  from this assms(2) show ?thesis
  proof (cases rule: jsonl_get_or_create_cases)
    case (existing old)
    with assms(1) show ?thesis by auto
  next
    case (created s1)
    then have "s1 = s" by (auto simp: jsonl_store_def split: prod.splits sum.splits)
    with created store_clean [OF assms(1) assms(4) [OF created(1)], of "Inr s" r'] show ?thesis by blast
  qed simp
qed

section \<open>A failed write\<close>

text \<open>A decodable torn line is either a whole line or no JSON text.\<close>

lemma torn_line_decode:
  assumes "storable ft s" and "encode_state_line s = p @ u" and "u \<noteq> []"
  shows "decode_state_line ft p = Inl JSONDecodeError"
  using plain.json_loads_torn [OF envelope_ok, of ft s SCHEMA_VERSION p u] assms
  by (simp add: decode_state_line_def storable_def encode_state_line_def)

lemma torn_replay:
  assumes "list_all (storable ft) ss" and "storable ft s" and "utf8_decode (take n (line_bytes s)) \<noteq> None"
  shows "replay_file ft (Some (file_of ss @ take n (line_bytes s))) \<in>
    {Inr (store_all [] (map canonical_spec ss)), Inr (store_all [] (map canonical_spec (ss @ [s])))}"
proof -
  let ?l = "encode_state_line s"
  from assms(3) obtain p where "utf8_decode (take n (utf8_encode (?l @ [CHR 0x0A]))) = Some p"
    by (auto simp: line_bytes_def simp del: utf8_encode_append)
  from utf8_decode_prefix [OF this] obtain u where u: "?l @ [CHR 0x0A] = p @ u" "take n (line_bytes s) = utf8_encode p"
    by (auto simp: line_bytes_def simp del: utf8_encode_append)
  have whole: "replay_lines ft i st [?l] = Inr (store_all st [canonical_spec s])" for i st
    using storable_decode [OF assms(2)] by (simp add: store_all_def)
  have "splitlines p = [] \<or> splitlines p = [?l] \<or> (\<exists>q v. splitlines p = [q] \<and> ?l = q @ v \<and> v \<noteq> [])"
  proof (cases "u = []")
    case True
    with u(1) have "p = ?l @ CHR 0x0A # []" by simp
    then show ?thesis using splitlines_line [OF storable_unbroken [OF assms(2)], of "[]"] by simp
  next
    case False
    with u(1) obtain v where v: "?l = p @ v" by (metis append_butlast_last_id butlast_append butlast_snoc)
    then have "unbroken p" using storable_unbroken [OF assms(2)] by (simp add: unbroken_def)
    with splitlines_last [of p] v show ?thesis by (cases "v = []"; cases "p = []") auto
  qed
  then show ?thesis
    unfolding u(2) replay_file_stored [OF assms(1)]
    using whole torn_line_decode [OF assms(2)] by (auto simp: store_all_def)
qed

theorem torn_append:
  assumes "clean ft ss r" and "storable ft s" and "jsonl_store s r = (Inl e, r')"
    and "utf8_decode (contents (jr_file r')) \<noteq> None"
  shows "\<exists>st. replay_file ft (jr_file r') = Inr st \<and>
    ((\<forall>i. map_of st i = map_option canonical_spec (jsonl_states r i)) \<or>
     (\<forall>i. map_of st i = map_option canonical_spec (((jsonl_states r)(sirs_strategy_instance_id s \<mapsto> s)) i)))"
proof -
  have old: "map_of (store_all [] (map canonical_spec ss)) i = map_option canonical_spec (jsonl_states r i)" for i
    using assms(1) by (simp add: clean_def)
  have new: "map_of (store_all [] (map canonical_spec (ss @ [s]))) i =
      map_option canonical_spec (((jsonl_states r)(sirs_strategy_instance_id s \<mapsto> s)) i)" for i
    using old by (simp add: store_all_snoc update_conv')
  show ?thesis
  proof (cases "next_outcome (jr_disk r)")
    case Appended
    with assms(3) show ?thesis by (auto simp: jsonl_store_def jsonl_append_def Let_def)
  next
    case MkdirFailed
    with assms(3) have "jr_file r' = jr_file r" by (auto simp: jsonl_store_def jsonl_append_def Let_def)
    with clean_replay [OF assms(1)] old show ?thesis by auto
  next
    case (WriteFailedAfter n)
    with assms(1,3) have c: "contents (jr_file r') = file_of ss @ take n (line_bytes s)"
      by (auto simp: jsonl_store_def jsonl_append_def Let_def clean_def contents_def)
    with assms(4) have "utf8_decode (take n (line_bytes s)) \<noteq> None"
      unfolding file_of_def by (auto simp: utf8_decode_append)
    from torn_replay [OF _ assms(2) this, of ss] assms(1) c replay_file_contents [of ft "jr_file r'"] old new
    show ?thesis by (auto simp: clean_def)
  qed
qed


section \<open>The append after a torn line\<close>

text \<open>A write that failed between a line and its line feed leaves a file the next start accepts, with
  the new aggregate. The repository appends to it as it is, so the next line is joined to that one:
  the following start drops both, and once a further line is appended it refuses the file.\<close>

lemma encode_state_line_open: "\<exists>t. encode_state_line s = CHR ''{'' # t"
  by (simp add: encode_state_line_def json_dumps_def)

lemma joined_lines_decode:
  assumes "storable ft s"
  shows "decode_state_line ft (encode_state_line s @ encode_state_line s') = Inl JSONDecodeError"
proof -
  have "skip_ws (encode_state_line s') \<noteq> []" using encode_state_line_open [of s'] by auto
  with plain.json_loads_joined [OF envelope_ok, of ft s "encode_state_line s'" SCHEMA_VERSION] assms show ?thesis
    by (simp add: decode_state_line_def storable_def encode_state_line_def)
qed

lemma torn_line_feed_loses_saves:
  assumes "list_all (storable ft) ss" and "storable ft s" and "storable ft s'" and "storable ft s''"
  shows "\<exists>r. jsonl_init ft (Some (file_of ss @ utf8_encode (encode_state_line s))) disk = Inr r \<and>
      jsonl_states r (sirs_strategy_instance_id s) = Some (canonical_spec s) \<and>
      (\<forall>r'. jsonl_append s' r = (Inr (), r') \<longrightarrow>
         replay_file ft (jr_file r') = Inr (store_all [] (map canonical_spec ss)) \<and>
         (\<forall>r''. jsonl_append s'' r' = (Inr (), r'') \<longrightarrow>
            replay_file ft (jr_file r'') = Inl (StrategyInstanceStateReplayError (length ss + 1))))"
proof -
  let ?l = "encode_state_line s" and ?l' = "encode_state_line s'" and ?l'' = "encode_state_line s''"
  let ?f = "file_of ss @ utf8_encode ?l"
  note unb = storable_unbroken [OF assms(2)] storable_unbroken [OF assms(3)] storable_unbroken [OF assms(4)]
  have "splitlines ?l = [?l]" using splitlines_last [OF unb(1)] encode_state_line_open [of s] by auto
  then have r: "jsonl_init ft (Some ?f) disk =
      Inr \<lparr>jr_states = store_all [] (map canonical_spec (ss @ [s])), jr_poison = False, jr_file = Some ?f, jr_disk = disk\<rparr>"
    using storable_decode [OF assms(2)] unfolding jsonl_init_def replay_file_stored [OF assms(1)] by (simp add: store_all_def)
  have joined: "unbroken (?l @ ?l')" using unb by (simp add: unbroken_def)
  have file': "jr_file r' = Some (file_of ss @ utf8_encode ((?l @ ?l') @ CHR 0x0A # []))"
    if "jr_file r = Some ?f" "jsonl_append s' r = (Inr (), r')" for r r'
    using that by (auto simp: jsonl_append_def Let_def contents_def line_bytes_def split: append_outcome.splits)
  have lost: "replay_file ft (Some (file_of ss @ utf8_encode ((?l @ ?l') @ CHR 0x0A # []))) = Inr (store_all [] (map canonical_spec ss))"
    unfolding replay_file_stored [OF assms(1)] splitlines_line [OF joined] by (simp add: joined_lines_decode [OF assms(2)])
  have file'': "jr_file r'' = Some (file_of ss @ utf8_encode ((?l @ ?l') @ CHR 0x0A # (?l'' @ CHR 0x0A # [])))"
    if "jr_file r' = Some (file_of ss @ utf8_encode ((?l @ ?l') @ CHR 0x0A # []))" "jsonl_append s'' r' = (Inr (), r'')" for r' r''
    using that by (auto simp: jsonl_append_def Let_def contents_def line_bytes_def utf8_encode_def split: append_outcome.splits)
  have refused: "replay_file ft (Some (file_of ss @ utf8_encode ((?l @ ?l') @ CHR 0x0A # (?l'' @ CHR 0x0A # [])))) =
      Inl (StrategyInstanceStateReplayError (length ss + 1))"
    unfolding replay_file_stored [OF assms(1)] splitlines_line [OF joined] splitlines_line [OF unb(3)]
    by (simp add: joined_lines_decode [OF assms(2)])
  let ?r = "\<lparr>jr_states = store_all [] (map canonical_spec (ss @ [s])), jr_poison = False, jr_file = Some ?f, jr_disk = disk\<rparr>"
  have "jsonl_states ?r (sirs_strategy_instance_id s) = Some (canonical_spec s)"
    by (simp add: jsonl_states_def store_all_snoc update_conv')
  moreover have "replay_file ft (jr_file r') = Inr (store_all [] (map canonical_spec ss)) \<and>
      (\<forall>r''. jsonl_append s'' r' = (Inr (), r'') \<longrightarrow>
         replay_file ft (jr_file r'') = Inl (StrategyInstanceStateReplayError (length ss + 1)))"
    if "jsonl_append s' ?r = (Inr (), r')" for r'
  proof -
    have f: "jr_file r' = Some (file_of ss @ utf8_encode ((?l @ ?l') @ CHR 0x0A # []))" by (rule file' [OF _ that]) simp
    show ?thesis using lost refused file'' [OF f] unfolding f by metis
  qed
  ultimately show ?thesis using r by blast
qed

text \<open>A line with a raw U+0085 is written and confirmed like any other, and no later start can read the file.\<close>

lemma line_separator_breaks_the_file:
  assumes "list_all (storable ft) ss" and "wf_state s" and "writable ft s" and "CHR 0x85 \<in> set (encode_state_line s)"
    and "contents (jr_file r) = file_of ss" and "jsonl_append s r = (Inr (), r')"
  shows "replay_file ft (jr_file r') = Inl (StrategyInstanceStateReplayError (length ss + 1))"
proof -
  let ?l = "encode_state_line s" and ?P = "\<lambda>c. \<not> line_break c"
  have written: "jr_file r' = Some (file_of ss @ utf8_encode (?l @ [CHR 0x0A]))"
    using assms(5,6) by (auto simp: jsonl_append_def Let_def line_bytes_def split: append_outcome.splits)
  have "line_break (CHR 0x85)" by (simp add: line_break_def)
  with assms(4) obtain p c u where l: "?l = p @ c # u" "line_break c" "\<forall>x \<in> set p. \<not> line_break x"
    using split_list_first_prop [of ?l line_break] by blast
  then have "takeWhile ?P (?l @ [CHR 0x0A]) = p" "dropWhile ?P (?l @ [CHR 0x0A]) = c # u @ [CHR 0x0A]" by auto
  moreover have "c \<noteq> CHR 0x0D"
    using encode_state_line_graphic [OF assms(3)] l(1) by (auto simp: graphic_def)
  ultimately have lines: "splitlines (?l @ [CHR 0x0A]) = p # splitlines (u @ [CHR 0x0A])"
    by (subst splitlines.simps) (simp add: after_break_def)
  have "splitlines (u @ [CHR 0x0A]) \<noteq> []" by (subst splitlines.simps) simp
  moreover have "decode_state_line ft p = Inl JSONDecodeError"
    using plain.json_loads_torn [OF envelope_ok [OF assms(3)], of SCHEMA_VERSION p "c # u"] l(1)
    by (simp add: decode_state_line_def encode_state_line_def)
  ultimately show ?thesis
    unfolding written replay_file_stored [OF assms(1)] lines by simp
qed

section \<open>The contract with the file in the invariant\<close>

text \<open>As long as no write has failed, the file is the lines of the saved aggregates, and if they are
  storable the dictionary is what a restart would read.\<close>

definition durable :: "(string \<Rightarrow> string) \<Rightarrow> jsonl_repo \<Rightarrow> bool" where
  "durable ft r \<longleftrightarrow> jsonl_inv r \<and>
     (\<not> jr_poison r \<longrightarrow> (\<exists>ss. contents (jr_file r) = file_of ss \<and> (list_all (storable ft) ss \<longrightarrow> clean ft ss r)))"

lemma durable_store:
  assumes "durable ft r" and "jsonl_store s r = (x, r')"
  shows "durable ft r'"
proof -
  have inv: "jsonl_inv r'" using jsonl_store_cases [OF assms(2)] assms(1) by (simp add: durable_def)
  show ?thesis
  proof (cases "jr_poison r'")
    case False
    then have "\<not> jr_poison r"
      using assms(2) by (auto simp: jsonl_store_def jsonl_append_def Let_def split: append_outcome.splits)
    with assms(1) obtain ss where ss: "contents (jr_file r) = file_of ss" "list_all (storable ft) ss \<Longrightarrow> clean ft ss r"
      by (auto simp: durable_def)
    have "contents (jr_file r') = file_of (case x of Inr y \<Rightarrow> ss @ [s] | Inl e \<Rightarrow> ss)"
      using assms(2) False ss(1)
      by (auto simp: jsonl_store_def jsonl_append_def Let_def contents_def file_of_def line_bytes_def
          split: append_outcome.splits)
    moreover have "clean ft (case x of Inr y \<Rightarrow> ss @ [s] | Inl e \<Rightarrow> ss) r'"
      if "list_all (storable ft) (case x of Inr y \<Rightarrow> ss @ [s] | Inl e \<Rightarrow> ss)"
    proof (cases x)
      case (Inr y)
      with that store_clean [OF ss(2) _ assms(2)] show ?thesis by simp
    next
      case (Inl e)
      with assms(2) False have "jr_file r' = jr_file r" "jr_states r' = jr_states r"
        by (auto simp: jsonl_store_def jsonl_append_def Let_def split: append_outcome.splits)
      with that Inl ss(2) show ?thesis by (simp add: clean_def jsonl_states_def)
    qed
    ultimately show ?thesis using inv unfolding durable_def by blast
  qed (simp add: durable_def inv)
qed

lemma durable_save: "durable ft r \<Longrightarrow> ro_save jsonl_ops s r = (x, r') \<Longrightarrow> durable ft r'"
  by (auto simp: jsonl_ops_def jsonl_save_def split: sum.splits intro: durable_store)

lemma durable_get_or_create: "durable ft r \<Longrightarrow> ro_get_or_create jsonl_ops q r = (x, r') \<Longrightarrow> durable ft r'"
  by (auto simp: jsonl_ops_def jsonl_get_or_create_def split: sum.splits option.splits if_splits intro: durable_store)

interpretation durable: state_repository jsonl_ops jsonl_states "durable ft" for ft
proof
  fix r assume d: "durable ft r"
  then have inv: "jsonl_inv r" by (simp add: durable_def)
  show "sirs_strategy_instance_id s = i" if "jsonl_states r i = Some s" for i s
    by (rule jsonl.keys [OF inv that])
  show "r' = r \<and> (case x of Inr found \<Rightarrow> i \<noteq> [] \<and> found = jsonl_states r i | Inl e \<Rightarrow> True)"
    if "ro_get jsonl_ops i r = (x, r')" for i x r'
    by (rule jsonl.get_law [OF inv that])
  show "durable ft r' \<and> (case x of
      Inr s' \<Rightarrow> s' = s \<and> save_check (jsonl_states r (sirs_strategy_instance_id s)) s = Inr () \<and>
        jsonl_states r' = (jsonl_states r)(sirs_strategy_instance_id s \<mapsto> s)
    | Inl e \<Rightarrow> jsonl_states r' = jsonl_states r)" if "ro_save jsonl_ops s r = (x, r')" for s x r'
    using jsonl.save_law [OF inv that] durable_save [OF d that] by blast
  show "durable ft r' \<and> (case x of
      Inr s \<Rightarrow> (gcr_strategy_instance_id q \<noteq> [] \<longrightarrow> ro_get jsonl_ops (gcr_strategy_instance_id q) r
                   = (Inr (jsonl_states r (gcr_strategy_instance_id q)), r)) \<and>
        (case jsonl_states r (gcr_strategy_instance_id q) of
          Some old \<Rightarrow> s = old \<and> sirs_strategy_id old = gcr_strategy_id q \<and> jsonl_states r' = jsonl_states r
        | None \<Rightarrow> initial_state q = Inr s \<and> jsonl_states r' = (jsonl_states r)(gcr_strategy_instance_id q \<mapsto> s))
    | Inl e \<Rightarrow> jsonl_states r' = jsonl_states r)" if "ro_get_or_create jsonl_ops q r = (x, r')" for q x r'
    using jsonl.get_or_create_law [OF inv that] durable_get_or_create [OF d that] by blast
  show "set ids = {i. \<exists>s. jsonl_states r i = Some s \<and> sirs_pending_entry_recovery s \<noteq> None}"
    if "ro_list_ids_with_pending_entry_recovery jsonl_ops r = Inr ids" for ids
    by (rule jsonl.list_entry_law [OF inv that])
  show "set ids = {i. \<exists>s. jsonl_states r i = Some s \<and> sirs_pending_close_recovery s \<noteq> None}"
    if "ro_list_ids_with_pending_close_recovery jsonl_ops r = Inr ids" for ids
    by (rule jsonl.list_close_law [OF inv that])
qed

end
