(* ===== verification/Store_Properties.thy ===== *)
theory Store_Properties
  imports Examples Jsonl_Repository
begin

text \<open>
  The properties of the durable store: of its line codec (\<open>State_Codec\<close>), of the repository on the
  file (\<open>Jsonl_Repository\<close>), and of the whole program running over it.
\<close>

section \<open>Concrete aggregates\<close>

lemma ex_wf: "wf_state ex_flat" "wf_state ex_marked" "wf_state ex_pending" "wf_state ex_filled"
  using goodD [OF ex_good(2), of "''i''" ex_flat] goodD [OF ex_good(3), of "''i''" ex_marked]
    goodD [OF ex_good(4), of "''i''" ex_pending] goodD [OF ex_good(5), of "''i''" ex_filled]
  by simp_all

text \<open>A value whose texts have no U+0085 is written without one.\<close>

fun unbroken_json :: "json \<Rightarrow> bool" where
  "unbroken_json (JStr s) = (CHR 0x85 \<notin> set s)"
| "unbroken_json (JFloat t) = (CHR 0x85 \<notin> set t)"
| "unbroken_json (JArr vs) = list_all unbroken_json vs"
| "unbroken_json (JObj kvs) = list_all (\<lambda>(k, v). CHR 0x85 \<notin> set k \<and> unbroken_json v) kvs"
| "unbroken_json v = True"

lemma digits_plain: "CHR 0x85 \<notin> set (digits_of n)"
  using digits_of_digits [of n] by (auto simp: list_all_iff is_digit_def less_eq_char_def)

lemma hex_char_plain: "CHR 0x85 \<noteq> hex_char n"
  using mod16_cases [of n] by (auto simp: hex_char_def)

lemma json_string_plain: "CHR 0x85 \<notin> set s \<Longrightarrow> CHR 0x85 \<notin> set (json_string s)"
proof -
  assume s: "CHR 0x85 \<notin> set s"
  have "CHR 0x85 \<notin> set (json_escape c)" if "c \<in> set s" for c
  proof -
    have "c \<noteq> CHR 0x85" using s that by blast
    then show ?thesis unfolding json_escape_def using hex_char_plain by (auto split: if_splits)
  qed
  then have "CHR 0x85 \<notin> set (concat (map json_escape s))" by (simp add: list_all_iff)
  then show ?thesis by (simp add: json_string_def)
qed

lemma commas_plain: "list_all (\<lambda>x. CHR 0x85 \<notin> set x) xs \<Longrightarrow> CHR 0x85 \<notin> set (commas xs)"
  by (induction xs rule: commas.induct) simp_all

lemma json_text_plain: "unbroken_json v \<Longrightarrow> CHR 0x85 \<notin> set (json_text v)"
proof (induction v)
  case (JInt n)
  then show ?case by (simp add: int_text_def digits_plain)
next
  case (JArr vs)
  then show ?case using commas_plain [of "map json_text vs"] by (auto simp: list_all_iff)
next
  case (JObj kvs)
  have "CHR 0x85 \<notin> set (json_string k @ CHR '':'' # json_text v)" if "(k, v) \<in> set kvs" for k v
    using JObj that json_string_plain [of k] by (fastforce simp: list_all_iff)
  then show ?case using commas_plain [of "map member_text kvs"] by (auto simp: list_all_iff)
qed (simp_all add: json_string_plain)

lemma json_norm_plain: "unbroken_json v \<Longrightarrow> unbroken_json (json_norm v)"
proof (induction v)
  case (JObj kvs)
  then show ?case by (fastforce simp: list_all_iff norm_object_def)
qed (auto simp: list_all_iff)

lemma encode_state_line_plain:
  "unbroken_json (JObj ((''schema_version'', JInt SCHEMA_VERSION) # encode_aggregate s)) \<Longrightarrow> CHR 0x85 \<notin> set (encode_state_line s)"
  unfolding encode_state_line_def json_dumps_def by (rule json_text_plain [OF json_norm_plain])

lemma ex_storable: "storable (\<lambda>t. t) ex_flat" "storable (\<lambda>t. t) ex_marked" "storable (\<lambda>t. t) ex_filled"
proof -
  have "unbroken_json (JObj ((''schema_version'', JInt SCHEMA_VERSION) # encode_aggregate ex_flat))"
      "unbroken_json (JObj ((''schema_version'', JInt SCHEMA_VERSION) # encode_aggregate ex_marked))"
      "unbroken_json (JObj ((''schema_version'', JInt SCHEMA_VERSION) # encode_aggregate ex_filled))"
    by (simp_all add: encode_aggregate_def ex_flat_def ex_marked_def ex_pending_def ex_filled_def frozen_with_def fresh_cycle_def
        ex_frozen_def ex_entry_def encode_snapshot_def to_plain_json_def null_or_def encode_cycle_def
        encode_applied_entry_package_def encode_stored_desired_entry_def encode_frozen_entry_context_def null_or_int_def
        encode_pending_entry_recovery_def)
  then have "CHR 0x85 \<notin> set (encode_state_line ex_flat)" "CHR 0x85 \<notin> set (encode_state_line ex_marked)"
      "CHR 0x85 \<notin> set (encode_state_line ex_filled)"
    using encode_state_line_plain by blast+
  moreover have "writable (\<lambda>t. t) ex_flat" "writable (\<lambda>t. t) ex_marked" "writable (\<lambda>t. t) ex_filled"
    by (simp_all add: writable_def ex_filled_def ex_marked_def ex_pending_def ex_flat_def frozen_with_def)
  ultimately show "storable (\<lambda>t. t) ex_flat" "storable (\<lambda>t. t) ex_marked" "storable (\<lambda>t. t) ex_filled"
    using ex_wf by (simp_all add: storable_def)
qed

text \<open>An opened store without a file, and what the disk has in store for it.\<close>

definition ex_store :: "append_outcome list \<Rightarrow> jsonl_repo" where
  "ex_store disk = \<lparr>jr_states = [], jr_poison = False, jr_file = None, jr_disk = disk\<rparr>"

lemma ex_store_clean: "clean ft [] (ex_store disk)"
  by (simp add: clean_def ex_store_def contents_def file_of_def utf8_encode_def store_all_def jsonl_states_def)

lemma ex_store_durable: "durable ft (ex_store disk)"
  using ex_store_clean [of ft disk]
  by (auto simp: durable_def clean_def jsonl_inv_def memory_inv_def ex_store_def)

section \<open>The line codec\<close>

text \<open>
  Property C14: a line reads back as the aggregate it was written from: every field is the same, and
  the specification is equal as a mapping, its keys in sorted order. \<open>ft\<close>, the interpreter's text of a
  float, need only keep the texts of the floats in the specification.
\<close>

theorem state_line_round_trip:
  assumes "wf_state s" and "writable ft s"
  shows "\<exists>s'. decode_state_line ft (encode_state_line s) = Inr s' \<and> state_eq s s'"
  using decode_encode_state [OF assms] canonical_spec_eq by blast

theorem state_line_round_trip_witness:
  "\<exists>s'. decode_state_line (\<lambda>t. t) (encode_state_line ex_filled) = Inr s' \<and> state_eq ex_filled s'"
  using state_line_round_trip [OF ex_wf(4), of "\<lambda>t. t"] ex_storable(3) by (simp add: storable_def)



section \<open>The repository on the file\<close>




lemma ex_torn:
  "jsonl_store ex_flat (ex_store [WriteFailedAfter 1]) =
    (Inl (OSError ''write''), \<lparr>jr_states = [], jr_poison = True, jr_file = Some ''{'', jr_disk = []\<rparr>)"
  using encode_state_line_open [of ex_flat]
  by (auto simp: jsonl_store_def jsonl_append_def ex_store_def next_outcome_def contents_def line_bytes_def utf8_encode_def
      utf8_char_def Let_def)

lemma ex_flat_id: "sirs_strategy_instance_id ex_flat = ''i''"
  by (simp add: ex_flat_def)


text \<open>
  After a failed write the repository refuses every operation and changes nothing: a
  poisoned instance serves no aggregate whose durability is in doubt.
\<close>

theorem poisoned_store_refuses:
  assumes "jr_poison r"
  shows "ro_get_or_create jsonl_ops q r = (Inl StrategyInstanceStateStorePoisoned, r) \<and>
    ro_save jsonl_ops s r = (Inl StrategyInstanceStateStorePoisoned, r) \<and>
    (i \<noteq> [] \<longrightarrow> ro_get jsonl_ops i r = (Inl StrategyInstanceStateStorePoisoned, r)) \<and>
    ro_list_ids_with_pending_entry_recovery jsonl_ops r = Inl StrategyInstanceStateStorePoisoned \<and>
    ro_list_ids_with_pending_close_recovery jsonl_ops r = Inl StrategyInstanceStateStorePoisoned"
  using assms
  by (simp add: jsonl_ops_def jsonl_get_or_create_def jsonl_save_def jsonl_get_def check_not_poisoned_def
      jsonl_list_ids_with_pending_entry_recovery_def jsonl_list_ids_with_pending_close_recovery_def
      require_strategy_instance_id_def)

text \<open>
  Property C16: a line torn from its line feed costs the saves that follow. The next start accepts the
  file and holds the torn aggregate; the save after it is written and confirmed, yet a further start
  reads neither of the two; and after one more save the file is refused altogether.
\<close>

theorem torn_line_feed_costs_later_saves:
  assumes "list_all (storable ft) ss" and "storable ft s" and "storable ft s'" and "storable ft s''"
  shows "\<exists>r. jsonl_init ft (Some (file_of ss @ utf8_encode (encode_state_line s))) disk = Inr r \<and>
      jsonl_states r (sirs_strategy_instance_id s) = Some (canonical_spec s) \<and>
      (\<forall>r'. jsonl_append s' r = (Inr (), r') \<longrightarrow>
         replay_file ft (jr_file r') = Inr (store_all [] (map canonical_spec ss)) \<and>
         (\<forall>r''. jsonl_append s'' r' = (Inr (), r'') \<longrightarrow>
            replay_file ft (jr_file r'') = Inl (StrategyInstanceStateReplayError (length ss + 1))))"
  by (rule torn_line_feed_loses_saves [OF assms])

theorem torn_line_feed_costs_later_saves_witness:
  "\<exists>r. jsonl_init (\<lambda>t. t) (Some (file_of [ex_flat] @ utf8_encode (encode_state_line ex_marked))) [] = Inr r \<and>
     (\<forall>r'. jsonl_append ex_filled r = (Inr (), r') \<longrightarrow>
        replay_file (\<lambda>t. t) (jr_file r') = Inr (store_all [] [canonical_spec ex_flat]))"
  using torn_line_feed_costs_later_saves [of "\<lambda>t. t" "[ex_flat]" ex_marked ex_filled ex_flat "[]"] ex_storable by fastforce

end
