(* ===== verification/Component_Properties.thy ===== *)
theory Component_Properties
  imports Examples
begin

text \<open>
  The properties of single components: the decisions about entries and positions, the freezing of a
  fill, the lifetime of an entry order, the catalog's lookup, the intake queue and the keyed mutex.
\<close>

section \<open>Bars\<close>

text \<open>
  A fill is attributed to the one bar that contains it. For a supported timeframe and a
  positive instant, the aligned bar is the only multiple of the timeframe's duration whose half-open
  candle holds the instant.
\<close>

theorem fill_alignment_exact:
  assumes "timeframe_duration_ms tf = Inr d" and "0 < t"
  shows "align_first_fill_to_entry_bar t tf = Inr b \<longleftrightarrow> d dvd b \<and> b \<le> t \<and> t < b + d"
proof -
  obtain b' where b': "align_first_fill_to_entry_bar t tf = Inr b'"
    using assms by (simp add: align_first_fill_to_entry_bar_def)
  from align_first_fill_props [OF b'] assms(1) have "d dvd b' \<and> b' \<le> t \<and> t < b' + d" by auto
  with align_first_fill_unique [OF b' assms(1)] b' show ?thesis by auto
qed

text \<open>
  Property C17: in touch-trigger mode an unfilled order rests for its lifetime. Planned on a bar, it is
  left alone on that bar and the \<open>n\<close> bars after it; on every later bar it is replaced by an entry
  planned on that very bar, and cancelled otherwise.
\<close>

theorem touch_trigger_rests_for_its_lifetime:
  assumes "ctc_frozen_entry_context c = None" and "ctc_trade_cycle_id c \<noteq> []" and "0 < tf" and "0 \<le> n"
    and "src = de_source_plan_bar_open_time_ms (cycle_desired_entry c)" and "0 \<le> src" and "0 \<le> k"
  shows "touch_trigger_entry_reconciliation new (Some c) (src + k * tf) tf n =
    (if k \<le> n then Inr NoOp
     else case new of
       Some d \<Rightarrow> if de_source_plan_bar_open_time_ms d = src + k * tf then Inr (Replace (ctc_trade_cycle_id c) d)
                 else Inr (Cancel (ctc_trade_cycle_id c))
     | None \<Rightarrow> Inr (Cancel (ctc_trade_cycle_id c)))"
proof -
  have bar: "0 \<le> src + k * tf" using assms by simp
  obtain x where x: "entry_order_expiration_ms src tf n = Inr x"
    using assms by (simp add: entry_order_expiration_ms_def)
  have src: "de_source_plan_bar_open_time_ms (aep_applied_desired_entry (ctc_applied_entry_package c)) = src"
    using assms(5) by (simp add: cycle_desired_entry_def)
  show ?thesis
    using assms(1-4) leD [OF bar] x expired_on_bar_iff [OF x, of k]
    by (auto simp: touch_trigger_entry_reconciliation_def entry_is_frozen_def get_acknowledged_desired_entry_def src
        new_Cancel_def new_Replace_def split: option.split)
qed

theorem touch_trigger_rests_for_its_lifetime_witness:
  "touch_trigger_entry_reconciliation None (Some (fresh_cycle ''c'' ex_entry ''1'')) (60000 + 2 * 60000) 60000 2 = Inr NoOp \<and>
   touch_trigger_entry_reconciliation None (Some (fresh_cycle ''c'' ex_entry ''1'')) (60000 + 3 * 60000) 60000 2 = Inr (Cancel ''c'')"
proof -
  have src: "60000 = de_source_plan_bar_open_time_ms (cycle_desired_entry (fresh_cycle ''c'' ex_entry ''1''))"
    by (simp add: ex_entry_def)
  show ?thesis
    using touch_trigger_rests_for_its_lifetime [of "fresh_cycle ''c'' ex_entry ''1''" 60000 2 60000 2 None]
      touch_trigger_rests_for_its_lifetime [of "fresh_cycle ''c'' ex_entry ''1''" 60000 2 60000 3 None] src by simp
qed

section \<open>Entries\<close>

text \<open>
  The reconciliation of the anchored mode acts exactly on a difference. For a cycle whose
  entry is not frozen it does nothing if and only if the desired entry is the acknowledged one; it
  applies when nothing is acknowledged, cancels when nothing is desired, replaces otherwise; and once
  the entry is frozen it refuses.
\<close>

theorem reconciliation_acts_on_differences:
  assumes "\<And>c. cyc = Some c \<Longrightarrow> ctc_trade_cycle_id c \<noteq> []"
  shows "(entry_is_frozen cyc \<longrightarrow> decide_entry_reconciliation new cyc = Inl frozen_entry_error) \<and>
    (\<not> entry_is_frozen cyc \<longrightarrow>
      (decide_entry_reconciliation new cyc = Inr NoOp \<longleftrightarrow> new = get_acknowledged_desired_entry cyc) \<and>
      (\<forall>d. decide_entry_reconciliation new cyc = Inr (Apply d) \<longleftrightarrow> new = Some d \<and> cyc = None) \<and>
      (\<forall>cid. decide_entry_reconciliation new cyc = Inr (Cancel cid) \<longleftrightarrow>
         new = None \<and> (\<exists>c. cyc = Some c \<and> ctc_trade_cycle_id c = cid)) \<and>
      (\<forall>cid d. decide_entry_reconciliation new cyc = Inr (Replace cid d) \<longleftrightarrow>
         new = Some d \<and> (\<exists>c. cyc = Some c \<and> ctc_trade_cycle_id c = cid \<and> d \<noteq> cycle_desired_entry c)))"
  using assms
  by (cases cyc; cases new)
    (auto simp: decide_entry_reconciliation_def get_acknowledged_desired_entry_def entry_is_frozen_def
      desired_entries_equivalent_def new_Cancel_def new_Replace_def cycle_desired_entry_def)

text \<open>
  An accepted confirmation makes the aggregate acknowledge exactly what was sent. The
  acknowledged entry is then the command's desired entry, no entry marker is left, no entry is frozen,
  and nothing else of the aggregate has changed.
\<close>

theorem confirmation_acknowledges_the_command:
  assumes "apply_success_confirmation s decision cmd conf = Inr s'"
  shows "get_acknowledged_desired_entry (sirs_current_trade_cycle s') = erc_desired_entry cmd \<and>
    sirs_pending_entry_recovery s' = None \<and> \<not> entry_is_frozen (sirs_current_trade_cycle s') \<and>
    (\<forall>c. sirs_current_trade_cycle s' = Some c \<longrightarrow> ctc_trade_cycle_id c = erc_trade_cycle_id cmd) \<and>
    s' = s\<lparr>sirs_current_trade_cycle := sirs_current_trade_cycle s', sirs_pending_entry_recovery := None\<rparr>"
proof (cases decision)
  case (Apply d)
  with assms show ?thesis
    by (auto elim!: apply_success_confirmation_ApplyD simp: get_acknowledged_desired_entry_def entry_is_frozen_def fresh_cycle_def)
next
  case (Cancel cid)
  with assms show ?thesis
    by (auto elim!: apply_success_confirmation_CancelD simp: get_acknowledged_desired_entry_def entry_is_frozen_def)
qed (use assms in \<open>simp_all add: apply_success_confirmation_def require_input_types_def\<close>)

section \<open>The first fill\<close>

text \<open>
  Property C18: a cycle is frozen once. A successful freeze keeps the aggregate well formed and coherent;
  repeating it with the same instant changes nothing, and any other instant for that cycle is refused.
\<close>

theorem freeze_is_final:
  assumes "freeze self s cid t = Inr s'" and "wf_state s" and "coherent s"
  shows "wf_state s' \<and> coherent s' \<and> freeze self s' cid t = Inr s' \<and>
    (\<forall>t'. t' \<noteq> t \<longrightarrow> (\<exists>e. freeze self s' cid t' = Inl e))"
proof -
  note run = assms(1) [unfolded freeze_def]
  from run have pos: "cid \<noteq> []" "0 < t" "\<not> (case fff_order_lifetime_bars self of None \<Rightarrow> False | Some n \<Rightarrow> n < 0)"
    by (auto simp: apply_first_fill_def split: if_splits option.splits)
  from run obtain c f where c: "sirs_current_trade_cycle s' = Some c" "ctc_trade_cycle_id c = cid"
      "ctc_frozen_entry_context c = Some f" "fec_first_fill_at_ms f = t"
    by (cases rule: apply_first_fill_cases) (auto simp: frozen_with_def)
  have "freeze self s' cid t = Inr s'" using c pos by (simp add: freeze_def apply_first_fill_def)
  moreover have "\<exists>e. freeze self s' cid t' = Inl e" if "t' \<noteq> t" for t'
    using c pos that by (simp add: freeze_def apply_first_fill_def)
  ultimately show ?thesis using apply_first_fill_wf [OF run assms(2)] apply_first_fill_coherent [OF run assms(3)] by blast
qed

theorem freeze_is_final_witness: "\<exists>e. freeze \<lparr>fff_order_lifetime_bars = None\<rparr> ex_filled ''c'' 62000 = Inl e"
proof -
  have g: "wf_state ex_filled" "coherent ex_filled" using goodD [OF ex_good(5), of "''i''" ex_filled] by simp_all
  have "freeze \<lparr>fff_order_lifetime_bars = None\<rparr> ex_filled ''c'' 61000 = Inr ex_filled"
    by (simp add: freeze_def apply_first_fill_def ex_filled_def frozen_with_def ex_frozen_def fresh_cycle_def)
  from freeze_is_final [OF this g] show ?thesis by force
qed

section \<open>Open positions\<close>

text \<open>
  The management of an open position follows its recipe: an active close signal closes;
  otherwise the desired protection is applied exactly when it differs from the one in force. Without a
  frozen entry there is no decision.
\<close>

theorem management_follows_the_recipe:
  assumes "wf_cycle c"
  shows "decide_position_management recipe (Some c) =
    (case ctc_frozen_entry_context c of
       None \<Rightarrow> Inl (PositionManagementDecisionInvariantError ''position-management decision requires a frozen entry context'')
     | Some f \<Rightarrow>
         if cs_active (pmr_close_signal recipe) then Inr (ClosePosition (ctc_trade_cycle_id c) (pmr_close_signal recipe))
         else if pmr_desired_protection recipe = protection_in_force c f then Inr PMNoOp
         else Inr (ApplyProtection (ctc_trade_cycle_id c) (pmr_desired_protection recipe)))"
  using assms resolve_effective_acknowledged_protection_frozen
  by (auto simp: decide_position_management_def new_ClosePosition_def new_ApplyProtection_def
      require_non_empty_def wf_cycle_def split: option.split)

section \<open>The intake\<close>

text \<open>
  Property C19: under every interleaving of producers, consumer and stop, the queue holds at most its
  capacity, events are processed in the order they were accepted, each at most once; while the worker
  runs none is lost; and a stopped worker has no thread that still processes.
\<close>

theorem intake_is_fifo:
  assumes "intake_reachable capacity t"
  shows "int (length (bq_items (in_boundary t))) \<le> capacity \<and>
    (\<exists>rest. in_accepted t = in_processed t @ rest) \<and>
    (in_state t = RUNNING \<longrightarrow>
       in_accepted t = in_processed t @ (case in_consumer t of Taken event \<Rightarrow> [event] | _ \<Rightarrow> []) @ bq_items (in_boundary t)) \<and>
    (in_state t = STOPPED \<longrightarrow> in_consumer t \<in> {NoThread, Returned})"
  using intake_reachable_inv [OF assms] by (auto simp: intake_inv_def)

theorem intake_is_fifo_witness:
  "\<exists>t. intake_reachable 1 t \<and> in_accepted t = [ex_bar] \<and> (\<exists>rest. [ex_bar] = in_processed t @ rest)"
proof -
  obtain b where b: "new_boundary 1 = Inr b" "put_nowait ex_bar b = (Inr (), b\<lparr>bq_items := [ex_bar], bq_unfinished_tasks := 1\<rparr>)"
    by (simp add: new_boundary_def put_nowait_def)
  let ?t = "initial_intake b\<lparr>in_boundary := b\<lparr>bq_items := [ex_bar], bq_unfinished_tasks := 1\<rparr>, in_accepted := [ex_bar]\<rparr>"
  have "intake_step (initial_intake b) ?t"
    using intake_step.put [of ex_bar "initial_intake b"] b(2) by (simp add: initial_intake_def)
  then have r: "intake_reachable 1 ?t" by (rule intake_reachable.step [OF intake_reachable.init [OF b(1)]])
  from intake_is_fifo [OF r] r show ?thesis by (intro exI [of _ ?t]) simp
qed

section \<open>The keyed mutex\<close>

text \<open>
  Property C20: at most one thread is inside the section of a key, under every interleaving of requests,
  time-outs and releases; and a thread enters only a section that nobody occupies.
\<close>

theorem sections_exclude_each_other:
  assumes "hold_trace l m"
  shows "(\<forall>t u k. ms_pc m t = Inside k \<and> ms_pc m u = Inside k \<longrightarrow> t = u) \<and>
    (\<forall>t k m'. hold_step m (Entered t k) m' \<longrightarrow> occupant l k = None)"
proof -
  note inv = hold_trace_inv [OF assms]
  have "occupant l k = None" if "hold_step m (Entered t k) m'" for t k m'
  proof (rule ccontr)
    assume "occupant l k \<noteq> None"
    then obtain u where "ms_pc m u = Inside k" using inv by auto
    with inv have "ms_locks m k = Some (Some u)" using mutex_invD(1) by blast
    with that show False by (cases rule: hold_step.cases) (auto simp: lock_acquire_def)
  qed
  with inv mutex_invD(2) show ?thesis by blast
qed

theorem sections_exclude_each_other_witness:
  "\<exists>m. hold_trace [Silent, Entered 1 ''i''] m \<and> (\<forall>u. ms_pc m u = Inside ''i'' \<longrightarrow> u = 1)"
proof -
  let ?m0 = "\<lparr>ms_locks = (\<lambda>k. None), ms_pc = (\<lambda>t. Outside)\<rparr>"
  let ?m1 = "\<lparr>ms_locks = (\<lambda>k. None)(''i'' \<mapsto> None), ms_pc = (\<lambda>t. Outside)(1 := Waiting ''i'' False)\<rparr>"
  let ?m2 = "\<lparr>ms_locks = (\<lambda>k. None)(''i'' \<mapsto> Some 1), ms_pc = (\<lambda>t. Outside)(1 := Inside ''i'')\<rparr>"
  have 1: "hold_step ?m0 Silent ?m1"
    using hold_step.request [of ?m0 1 "''i''" False] by (simp add: require_strategy_instance_id_def setdefault_def)
  have 2: "hold_step ?m1 (Entered 1 ''i'') ?m2"
    using hold_step.acquire [of ?m1 1 "''i''" False] by (simp add: lock_acquire_def)
  have t: "hold_trace ([Silent] @ [Entered 1 ''i'']) ?m2"
    using hold_trace.step [OF hold_trace.step [OF hold_trace.init 1] 2] by simp
  have "ms_pc ?m2 1 = Inside ''i''" by simp
  with sections_exclude_each_other [OF t] have "\<forall>u. ms_pc ?m2 u = Inside ''i'' \<longrightarrow> u = 1" by blast
  with t show ?thesis unfolding append_Cons append_Nil by blast
qed

end
