(* ===== verification/Wire_Json.thy ===== *)
theory Wire_Json
  imports State_Codec Utf8
begin

text \<open>
  What the HTTP codecs of \<open>infrastructure/abi\<close>, \<open>infrastructure/strategy_engine\<close> and \<open>runtime/abi\<close>
  share: the strict reading of a response body, the check of its content type, the closed objects and
  typed fields, the translation of \<open>KeyError\<close>, \<open>TypeError\<close> and \<open>ValueError\<close> into the protocol error of
  the client, and the path segments of a request. Each codec module of the source has its own copy of
  these helpers; they differ in the error they raise, which is a parameter here.

  The HTTP library is a parameter: a transport answers a request with a response or fails, by timeout
  or otherwise. A request is a method, a path and a JSON body.

  Proved: what is read strictly has distinct keys; the written form of a value reads back; every
  helper raises only what the codecs translate (the collection \<open>caught_rules\<close>); and path segments
  determine the text they encode and never contain a slash.
\<close>

section \<open>Strict JSON\<close>

definition reject_duplicate_object_fields :: "(string \<times> json) list \<Rightarrow> json_object option" where
  "reject_duplicate_object_fields pairs = (if distinct (map fst pairs) then Some pairs else None)"

definition reject_non_json_constant :: "string \<Rightarrow> json option" where
  "reject_non_json_constant t = None"

definition strict :: "(string \<Rightarrow> string) \<Rightarrow> json_hooks" where
  "strict ft = \<lparr>jh_float = ft, jh_pairs = reject_duplicate_object_fields, jh_constant = reject_non_json_constant\<rparr>"

definition load_strict_json :: "(string \<Rightarrow> string) \<Rightarrow> exn \<Rightarrow> string \<Rightarrow> json res" where
  "load_strict_json ft err content =
     (case utf8_decode content of
        None \<Rightarrow> Inl err
      | Some t \<Rightarrow> (case json_loads (strict ft) t of None \<Rightarrow> Inl err | Some v \<Rightarrow> Inr v))"

interpretation strict: json_reader "strict ft" for ft
  by unfold_locales (simp add: strict_def reject_duplicate_object_fields_def)

section \<open>Content type\<close>

text \<open>\<open>str.lower\<close>.\<close>

definition py_lower :: "string \<Rightarrow> string" where
  "py_lower s = map (\<lambda>c. if CHR 0xC0 \<le> c \<and> c \<le> CHR 0xDE \<and> c \<noteq> CHR 0xD7 then char_of (of_char c + 32 :: nat)
                       else lower_char c) s"

definition unquoted :: "string \<Rightarrow> string" where
  "unquoted t = (if 2 \<le> length t \<and> hd t = dquote \<and> last t = dquote then butlast (tl t) else t)"

fun require_charset :: "exn \<Rightarrow> bool \<Rightarrow> string list \<Rightarrow> unit res" where
  "require_charset err seen_charset [] = Inr ()"
| "require_charset err seen_charset (raw_parameter # rest) =
     (let parameter = py_strip raw_parameter in
      if parameter = [] \<or> CHR ''='' \<notin> set parameter then Inl err
      else
        let name = takeWhile (\<lambda>c. c \<noteq> CHR ''='') parameter;
            raw_value = tl (dropWhile (\<lambda>c. c \<noteq> CHR ''='') parameter) in
        if py_lower (py_strip name) \<noteq> ''charset'' \<or> seen_charset then Inl err
        else if py_lower (unquoted (py_strip raw_value)) \<noteq> ''utf-8'' then Inl err
        else require_charset err True rest)"

definition require_json_content_type :: "exn \<Rightarrow> string option \<Rightarrow> unit res" where
  "require_json_content_type err value =
     (case value of
        None \<Rightarrow> Inl err
      | Some t \<Rightarrow>
          let parts = split_on (CHR '';'') t in
          if py_lower (py_strip (hd parts)) \<noteq> ''application/json'' then Inl err
          else require_charset err False (tl parts))"

section \<open>Objects and fields\<close>

definition require_exact_fields :: "json_object \<Rightarrow> string list \<Rightarrow> string \<Rightarrow> unit res" where
  "require_exact_fields d keys name =
     (if set (map fst d) = set keys then Inr () else Inl (ValueError (name @ '' fields differ'')))"

definition json_dict :: "json \<Rightarrow> string \<Rightarrow> json_object res" where
  "json_dict v name = (case v of JObj d \<Rightarrow> Inr d | _ \<Rightarrow> Inl (TypeError (name @ '' must be a JSON object'')))"

definition closed_object :: "json \<Rightarrow> string list \<Rightarrow> string \<Rightarrow> json_object res" where
  "closed_object v keys name =
     res_bind (json_dict v name) (\<lambda>d. res_bind (require_exact_fields d keys name) (\<lambda>_. Inr d))"

text \<open>\<open>dict.get\<close>.\<close>

definition get_field :: "json_object \<Rightarrow> string \<Rightarrow> json" where
  "get_field d k = (case map_of d k of None \<Rightarrow> JNull | Some v \<Rightarrow> v)"

definition wire_string :: "json \<Rightarrow> string \<Rightarrow> string res" where
  "wire_string v name = (case v of JStr s \<Rightarrow> Inr s | _ \<Rightarrow> Inl (TypeError (name @ '' must be a string'')))"

definition non_empty_string :: "json \<Rightarrow> string \<Rightarrow> string res" where
  "non_empty_string v name =
     res_bind (wire_string v name) (\<lambda>s. if s = [] then Inl (ValueError (name @ '' must be non-empty'')) else Inr s)"

definition wire_int :: "json \<Rightarrow> string \<Rightarrow> int res" where
  "wire_int v name = (case v of JInt n \<Rightarrow> Inr n | _ \<Rightarrow> Inl (TypeError (name @ '' must be a JSON integer'')))"

definition optional_string :: "json \<Rightarrow> string \<Rightarrow> string option res" where
  "optional_string v name = nullable (\<lambda>v. wire_string v name) v"

text \<open>\<open>except (KeyError, TypeError, ValueError) as exc: raise err from exc\<close>.\<close>

definition caught :: "exn \<Rightarrow> bool" where
  "caught e \<longleftrightarrow> (case e of KeyError m \<Rightarrow> True | TypeError m \<Rightarrow> True | ValueError m \<Rightarrow> True | _ \<Rightarrow> False)"

definition guarded :: "exn \<Rightarrow> 'a res \<Rightarrow> 'a res" where
  "guarded err r = (case r of Inl e \<Rightarrow> if caught e then Inl err else Inl e | Inr x \<Rightarrow> Inr x)"

section \<open>Requests and responses\<close>

record http_request =
  hq_method :: string
  hq_path :: string
  hq_body :: "json option"

record http_response =
  hr_status_code :: int
  hr_content_type :: "string option"
  hr_content :: string

datatype transport_failure = TimeoutException | TransportError

type_synonym 'e transport = "http_request \<Rightarrow> 'e \<Rightarrow> (transport_failure + http_response) \<times> 'e"

definition load_payload :: "(string \<Rightarrow> string) \<Rightarrow> exn \<Rightarrow> http_response \<Rightarrow> json res" where
  "load_payload ft err response =
     res_bind (require_json_content_type err (hr_content_type response)) (\<lambda>_.
     load_strict_json ft err (hr_content response))"

text \<open>One attempt: a transport failure becomes the error of its kind.\<close>

definition attempt_request :: "'e transport \<Rightarrow> http_request \<Rightarrow> exn \<Rightarrow> exn \<Rightarrow> ('e, http_response) prog" where
  "attempt_request transport request timed_out network_failed =
     (\<lambda>e. case transport request e of
        (Inl TimeoutException, e') \<Rightarrow> (Inl timed_out, e')
      | (Inl TransportError, e') \<Rightarrow> (Inl network_failed, e')
      | (Inr response, e') \<Rightarrow> (Inr response, e'))"

text \<open>\<open>urllib.parse.quote(value, safe="")\<close>.\<close>

definition unreserved :: "char \<Rightarrow> bool" where
  "unreserved c \<longleftrightarrow> is_digit c \<or> CHR ''A'' \<le> c \<and> c \<le> CHR ''Z'' \<or> CHR ''a'' \<le> c \<and> c \<le> CHR ''z'' \<or>
     c \<in> {CHR ''_'', CHR ''.'', CHR ''-'', CHR ''~''}"

definition upper_hex :: "nat \<Rightarrow> char" where
  "upper_hex n = ''0123456789ABCDEF'' ! (n mod 16)"

definition quote_byte :: "char \<Rightarrow> string" where
  "quote_byte b = (if unreserved b then [b] else [CHR ''%'', upper_hex (of_char b div 16), upper_hex (of_char b)])"

definition py_quote :: "string \<Rightarrow> string" where
  "py_quote s = concat (map quote_byte (utf8_encode s))"

definition encode_opaque_path_segment :: "string \<Rightarrow> string" where
  "encode_opaque_path_segment v =
     (let encoded = py_quote v in
      if v \<in> {''.'', ''..''} then concat (map (\<lambda>c. if c = CHR ''.'' then ''%2E'' else [c]) encoded) else encoded)"

definition trade_cycle_path :: "string \<Rightarrow> string \<Rightarrow> string \<Rightarrow> string" where
  "trade_cycle_path strategy_instance_id trade_cycle_id operation =
     ''/v1/strategy-instances/'' @ encode_opaque_path_segment strategy_instance_id @
     ''/trade-cycles/'' @ encode_opaque_path_segment trade_cycle_id @ operation"


section \<open>What is read\<close>

text \<open>A strict value has distinct keys at every level.\<close>

lemma strict_pairs: "jh_pairs (strict ft) kvs = Some d \<longleftrightarrow> d = kvs \<and> distinct (map fst kvs)"
  by (auto simp: strict_def reject_duplicate_object_fields_def)

lemma strict_literal_wf: "scan_literal (strict ft) s = Some (v, r) \<Longrightarrow> wf_json v"
  by (auto simp: scan_literal_def number_value_def constant_value_def strict_def reject_non_json_constant_def
      split: option.splits if_splits)

lemma load_strict_json_wf:
  assumes "load_strict_json ft err content = Inr v"
  shows "wf_json v"
proof -
  from assms obtain s where "json_loads (strict ft) s = Some v"
    by (auto simp: load_strict_json_def split: option.splits)
  then obtain n r where "parse_value (strict ft) n (skip_ws s) = Some (v, r)" by (auto simp: json_loads_iff)
  then show ?thesis
    by (rule parse_value_all [rotated 6]) (auto simp: strict_pairs dest: strict_literal_wf)
qed

lemma load_strict_json_dumped [simp]:
  "json_ok (strict ft) v \<Longrightarrow> load_strict_json ft err (utf8_encode (json_dumps v)) = Inr (json_norm v)"
  by (simp add: load_strict_json_def strict.json_loads_dumps)

text \<open>A response as the services write it.\<close>

definition json_response :: "int \<Rightarrow> json \<Rightarrow> http_response" where
  "json_response status body =
     \<lparr>hr_status_code = status, hr_content_type = Some ''application/json'', hr_content = utf8_encode (json_dumps body)\<rparr>"

lemma json_content_type [simp]: "require_json_content_type err (Some ''application/json'') = Inr ()"
  by (simp add: require_json_content_type_def py_lower_def lower_char_def py_strip_def py_lstrip_def py_rstrip_def
      py_isspace_def Let_def less_eq_char_def)

lemma load_payload_response [simp]:
  "json_ok (strict ft) body \<Longrightarrow> load_payload ft err (json_response status body) = Inr (json_norm body)"
  "hr_status_code (json_response status body) = status"
  by (simp_all add: load_payload_def json_response_def)

section \<open>Errors\<close>

lemma require_charset_error: "require_charset err seen ps = Inl e \<Longrightarrow> e = err"
  by (induction err seen ps rule: require_charset.induct) (auto simp: Let_def split: if_splits)

lemma load_payload_error: "load_payload ft err response = Inl e \<Longrightarrow> e = err"
  by (auto simp: load_payload_def require_json_content_type_def load_strict_json_def res_bind_eq_Inl Let_def
      split: option.splits if_splits dest: require_charset_error)

lemma guarded_Inr [simp]: "guarded err r = Inr x \<longleftrightarrow> r = Inr x"
  by (cases r) (simp_all add: guarded_def)

lemma guarded_return [simp]: "guarded err (Inr x) = Inr x"
  by (simp add: guarded_def)

text \<open>A computation that raises only what the codecs catch.\<close>

definition raises_caught :: "'a res \<Rightarrow> bool" where
  "raises_caught r \<longleftrightarrow> (\<forall>e. r = Inl e \<longrightarrow> caught e)"

named_theorems caught_rules "computations that raise only caught errors"

lemma guarded_error: "guarded err r = Inl e \<Longrightarrow> raises_caught r \<Longrightarrow> e = err"
  by (cases r) (auto simp: guarded_def raises_caught_def split: if_splits)

lemma raises_caught_Inr [simp, caught_rules]: "raises_caught (Inr x)"
  by (simp add: raises_caught_def)

lemma raises_caught_Inl [simp]: "raises_caught (Inl e) \<longleftrightarrow> caught e"
  by (simp add: raises_caught_def)

lemma caught_simps [simp]: "caught (KeyError m)" "caught (TypeError m)" "caught (ValueError m)"
  by (simp_all add: caught_def)

lemma raises_caught_bind [caught_rules]:
  "raises_caught r \<Longrightarrow> (\<And>x. r = Inr x \<Longrightarrow> raises_caught (f x)) \<Longrightarrow> raises_caught (res_bind r f)"
  by (cases r) auto

lemma raises_caught_if [caught_rules]:
  "(b \<Longrightarrow> raises_caught r) \<Longrightarrow> (\<not> b \<Longrightarrow> raises_caught r') \<Longrightarrow> raises_caught (if b then r else r')"
  by simp

lemma raises_caught_option [caught_rules]:
  "raises_caught r \<Longrightarrow> (\<And>x. raises_caught (f x)) \<Longrightarrow> raises_caught (case z of None \<Rightarrow> r | Some x \<Rightarrow> f x)"
  by (cases z) simp_all

lemma raises_caught_errors [caught_rules]:
  "raises_caught (Inl (KeyError m))" "raises_caught (Inl (TypeError m))" "raises_caught (Inl (ValueError m))"
  by simp_all

lemma raises_caught_nullable [caught_rules]: "(\<And>v. raises_caught (f v)) \<Longrightarrow> raises_caught (nullable f v)"
  unfolding nullable_def by (intro caught_rules) auto

lemma raises_caught_map [caught_rules]: "(\<And>v. raises_caught (f v)) \<Longrightarrow> raises_caught (res_map f vs)"
  by (induction vs) (auto intro!: raises_caught_bind)

lemma wire_raises_caught [caught_rules]:
  "raises_caught (field d k)" "raises_caught (json_dict v name)" "raises_caught (require_exact_fields d keys name)"
  "raises_caught (wire_string v name)" "raises_caught (wire_int v name)"
  by (simp_all add: field_def json_dict_def require_exact_fields_def wire_string_def wire_int_def
      split: option.split json.split)

lemma wire_raises_caught_more [caught_rules]:
  "raises_caught (closed_object v keys name)" "raises_caught (non_empty_string v name)"
  "raises_caught (optional_string v name)"
  unfolding closed_object_def non_empty_string_def optional_string_def by (intro caught_rules)+

lemma closed_object_Inr:
  "closed_object v keys name = Inr d \<longleftrightarrow> v = JObj d \<and> set (map fst d) = set keys"
  by (cases v) (auto simp: closed_object_def json_dict_def require_exact_fields_def)

lemma wire_Inr [simp]:
  "wire_string v name = Inr s \<longleftrightarrow> v = JStr s"
  "non_empty_string v name = Inr s \<longleftrightarrow> v = JStr s \<and> s \<noteq> []"
  "wire_int v name = Inr n \<longleftrightarrow> v = JInt n"
  "optional_string v name = Inr z \<longleftrightarrow> v = null_or_text z"
  by (cases v; auto simp: wire_string_def non_empty_string_def wire_int_def optional_string_def nullable_def
      res_bind_eq_Inr null_or_text_def split: option.splits if_splits)+

section \<open>Paths\<close>

fun percent_decode :: "string \<Rightarrow> string" where
  "percent_decode [] = []"
| "percent_decode (c # r) =
     (if c = CHR ''%''
      then (case r of
              a # b # r' \<Rightarrow> char_of (the (hex_digit a) * 16 + the (hex_digit b)) # percent_decode r'
            | _ \<Rightarrow> [])
      else c # percent_decode r)"

lemma hex_digit_upper [simp]: "hex_digit (upper_hex n) = Some (n mod 16)"
  using mod16_cases [of n] by (auto simp: hex_digit_def upper_hex_def is_digit_def)

lemma percent_decode_byte [simp]: "percent_decode (quote_byte b @ r) = b # percent_decode r"
proof -
  have "of_char b div 16 mod 16 = (of_char b div 16 :: nat)"
    using nat_of_char_less_256 [of b] by (simp add: less_mult_imp_div_less)
  then have "of_char b div 16 mod 16 * 16 + of_char b mod 16 = (of_char b :: nat)"
    using div_mult_mod_eq [of "of_char b :: nat" 16] by simp
  then show ?thesis by (auto simp: quote_byte_def unreserved_def is_digit_def)
qed

lemma percent_decode_quoted: "percent_decode (concat (map quote_byte bs)) = bs"
  by (induction bs) simp_all

lemma percent_decode_segment: "percent_decode (encode_opaque_path_segment v) = utf8_encode v"
proof (cases "v \<in> {''.'', ''..''}")
  case True
  have dot: "char_of (46 :: nat) = CHR ''.''" by (simp add: char_of_eq_iff)
  from True show ?thesis
    by (auto simp: encode_opaque_path_segment_def py_quote_def utf8_encode_def utf8_char_def quote_byte_def
        unreserved_def hex_digit_def is_digit_def dot)
next
  case False
  then show ?thesis by (simp add: encode_opaque_path_segment_def py_quote_def percent_decode_quoted)
qed

lemma segment_inject: "encode_opaque_path_segment v = encode_opaque_path_segment v' \<Longrightarrow> v = v'"
  by (metis percent_decode_segment utf8_decode_encode option.inject)

lemma quote_byte_slash: "CHR ''/'' \<notin> set (quote_byte b)"
proof -
  have "CHR ''/'' \<noteq> upper_hex n" for n using mod16_cases [of n] by (auto simp: upper_hex_def)
  then show ?thesis by (auto simp: quote_byte_def unreserved_def is_digit_def)
qed

lemma segment_slash: "CHR ''/'' \<notin> set (encode_opaque_path_segment v)"
  using quote_byte_slash by (auto simp: encode_opaque_path_segment_def py_quote_def Let_def split: if_splits)

lemma segment_split:
  assumes "CHR ''/'' \<notin> set a" and "CHR ''/'' \<notin> set b" and "a @ CHR ''/'' # x = b @ CHR ''/'' # y"
  shows "a = b \<and> x = y"
  using assms
proof (induction a arbitrary: b)
  case Nil
  then show ?case by (cases b) auto
next
  case (Cons c a)
  then show ?case by (cases b) auto
qed

text \<open>A path names one instance, one trade cycle and one operation.\<close>

lemma trade_cycle_path_inject:
  assumes "trade_cycle_path i cid (CHR ''/'' # op) = trade_cycle_path i' cid' (CHR ''/'' # op')"
  shows "i = i' \<and> cid = cid' \<and> op = op'"
proof -
  let ?s = encode_opaque_path_segment
  from assms have "?s i @ CHR ''/'' # ''trade-cycles/'' @ ?s cid @ CHR ''/'' # op =
      ?s i' @ CHR ''/'' # ''trade-cycles/'' @ ?s cid' @ CHR ''/'' # op'"
    by (simp add: trade_cycle_path_def)
  from segment_split [OF segment_slash segment_slash this]
  have i: "?s i = ?s i'" and c: "?s cid @ CHR ''/'' # op = ?s cid' @ CHR ''/'' # op'" by simp_all
  from segment_split [OF segment_slash segment_slash c] i segment_inject show ?thesis by blast
qed

end
