(* ===== verification/Entry_Package_Wire.thy ===== *)
theory Entry_Package_Wire
  imports Wire_Json Abi_Models
begin

text \<open>
  \<open>runtime/abi/entry_package_codec.py\<close> and \<open>infrastructure/abi/http_entry_package.py\<close>: the client of
  the entry-package endpoint.

  Proved: a response is either decoded to a constructed result about the requested cycle or refused
  with the protocol error, whatever its status, content type and bytes (\<open>decode_fails_closed\<close>); and
  every result, written as the service documents it, is decoded to itself (\<open>decode_result_body\<close>).
\<close>

abbreviation entry_package_protocol_error :: exn where
  "entry_package_protocol_error \<equiv> AbiEntryPackageClientError AbiEntryPackageProtocolError"

section \<open>Fields\<close>

definition APPLIED_REQUIRED_FIELDS :: "string list" where
  "APPLIED_REQUIRED_FIELDS = [''strategy_instance_id'', ''trade_cycle_id'', ''status'', ''applied_desired_entry'',
     ''calculated_quantity'']"

definition APPLIED_ENTRY_ORDER_FIELDS :: "string list" where
  "APPLIED_ENTRY_ORDER_FIELDS = [''trigger_price'', ''stop_loss'', ''take_profit'', ''quantity'']"

definition APPLIED_ENTRY_ORDER_ID_FIELDS :: "string list" where
  "APPLIED_ENTRY_ORDER_ID_FIELDS = [''order_link_id'', ''order_id'']"

definition APPLIED_FIELDS :: "string list" where
  "APPLIED_FIELDS = APPLIED_REQUIRED_FIELDS @ APPLIED_ENTRY_ORDER_FIELDS @ APPLIED_ENTRY_ORDER_ID_FIELDS"

definition ABSENT_FIELDS :: "string list" where
  "ABSENT_FIELDS = [''strategy_instance_id'', ''trade_cycle_id'', ''status'']"

definition DECLINED_FIELDS :: "string list" where
  "DECLINED_FIELDS = [''strategy_instance_id'', ''trade_cycle_id'', ''status'', ''decline_reason'', ''decline_message'']"

definition DESIRED_ENTRY_FIELDS :: "string list" where
  "DESIRED_ENTRY_FIELDS = [''side'', ''source_plan_bar_open_time_ms'', ''planned_entry_price'', ''initial_stop_price'',
     ''initial_take_price'', ''locked_exit_profile'']"

definition PUBLIC_ERROR_CODES :: "(int \<times> string) list" where
  "PUBLIC_ERROR_CODES = [(400, ''malformed_json''), (415, ''unsupported_media_type''), (422, ''validation_failed''),
     (500, ''internal_error''), (503, ''execution_not_ready'')]"

section \<open>Encoding\<close>

definition encode_wire_desired_entry :: "EntryPackageWireDesiredEntry \<Rightarrow> json" where
  "encode_wire_desired_entry v =
     JObj [(''side'', JStr (wde_side v)),
           (''source_plan_bar_open_time_ms'', JInt (wde_source_plan_bar_open_time_ms v)),
           (''planned_entry_price'', JStr (wde_planned_entry_price v)),
           (''initial_stop_price'', JStr (wde_initial_stop_price v)),
           (''initial_take_price'', JStr (wde_initial_take_price v)),
           (''locked_exit_profile'', JStr (wde_locked_exit_profile v))]"

definition encode_entry_package_request :: "EntryPackageRequest \<Rightarrow> json" where
  "encode_entry_package_request request =
     JObj [(''ticker'', JStr (epr_ticker request)),
           (''desired_entry'', null_or encode_wire_desired_entry (epr_desired_entry request)),
           (''risk_multiplier'', JStr (epr_risk_multiplier request))]"

section \<open>Decoding\<close>

text \<open>\<open>side not in {"long", "short"}\<close> cannot hash a list or a mapping.\<close>

definition wire_side :: "json \<Rightarrow> string res" where
  "wire_side v =
     (case v of
        JStr s \<Rightarrow> if s \<in> {''long'', ''short''} then Inr s else Inl (ValueError ''side must be long or short'')
      | JArr vs \<Rightarrow> Inl (TypeError ''unhashable type'')
      | JObj d \<Rightarrow> Inl (TypeError ''unhashable type'')
      | _ \<Rightarrow> Inl (ValueError ''side must be long or short''))"

definition decode_wire_desired_entry :: "json \<Rightarrow> EntryPackageWireDesiredEntry res" where
  "decode_wire_desired_entry payload =
     res_bind (closed_object payload DESIRED_ENTRY_FIELDS ''applied_desired_entry'') (\<lambda>body.
     res_bind (field body ''side'') (\<lambda>side.
     res_bind (wire_side side) (\<lambda>side.
     res_bind (field body ''source_plan_bar_open_time_ms'') (\<lambda>bar.
     res_bind (wire_int bar ''source_plan_bar_open_time_ms'') (\<lambda>bar.
     res_bind (field body ''planned_entry_price'') (\<lambda>planned.
     res_bind (wire_string planned ''planned_entry_price'') (\<lambda>planned.
     res_bind (field body ''initial_stop_price'') (\<lambda>stop.
     res_bind (wire_string stop ''initial_stop_price'') (\<lambda>stop.
     res_bind (field body ''initial_take_price'') (\<lambda>take_price.
     res_bind (wire_string take_price ''initial_take_price'') (\<lambda>take_price.
     res_bind (field body ''locked_exit_profile'') (\<lambda>profile.
     res_bind (wire_string profile ''locked_exit_profile'') (\<lambda>profile.
     new_EntryPackageWireDesiredEntry
       \<lparr>wde_side = side, wde_source_plan_bar_open_time_ms = bar, wde_planned_entry_price = planned,
        wde_initial_stop_price = stop, wde_initial_take_price = take_price,
        wde_locked_exit_profile = profile\<rparr>)))))))))))))"

definition require_applied_fields :: "json_object \<Rightarrow> unit res" where
  "require_applied_fields body =
     (if set APPLIED_REQUIRED_FIELDS \<subseteq> set (map fst body) \<and> set (map fst body) \<subseteq> set APPLIED_FIELDS then Inr ()
      else Inl (ValueError ''applied response fields differ''))"

text \<open>The two identity fields every success carries.\<close>

definition decode_identity :: "json_object \<Rightarrow> (string \<times> string) res" where
  "decode_identity body =
     res_bind (field body ''strategy_instance_id'') (\<lambda>i.
     res_bind (non_empty_string i ''strategy_instance_id'') (\<lambda>i.
     res_bind (field body ''trade_cycle_id'') (\<lambda>cid.
     res_bind (non_empty_string cid ''trade_cycle_id'') (\<lambda>cid.
     Inr (i, cid)))))"

definition decode_applied :: "json_object \<Rightarrow> EntryPackageApplied res" where
  "decode_applied body =
     res_bind (require_applied_fields body) (\<lambda>_.
     res_bind (decode_identity body) (\<lambda>(i, cid).
     res_bind (field body ''applied_desired_entry'') (\<lambda>entry.
     res_bind (decode_wire_desired_entry entry) (\<lambda>entry.
     res_bind (field body ''calculated_quantity'') (\<lambda>calculated.
     res_bind (wire_string calculated ''calculated_quantity'') (\<lambda>calculated.
     res_bind (optional_string (get_field body ''trigger_price'') ''trigger_price'') (\<lambda>trigger_price.
     res_bind (optional_string (get_field body ''stop_loss'') ''stop_loss'') (\<lambda>stop_loss.
     res_bind (optional_string (get_field body ''take_profit'') ''take_profit'') (\<lambda>take_profit.
     res_bind (optional_string (get_field body ''quantity'') ''quantity'') (\<lambda>quantity.
     res_bind (optional_string (get_field body ''order_link_id'') ''order_link_id'') (\<lambda>order_link_id.
     res_bind (optional_string (get_field body ''order_id'') ''order_id'') (\<lambda>order_id.
     new_EntryPackageApplied
       \<lparr>epa_strategy_instance_id = i, epa_trade_cycle_id = cid, epa_applied_desired_entry = entry,
        epa_calculated_quantity = calculated, epa_trigger_price = trigger_price, epa_stop_loss = stop_loss,
        epa_take_profit = take_profit, epa_quantity = quantity, epa_order_link_id = order_link_id,
        epa_order_id = order_id\<rparr>))))))))))))"

definition decode_absent :: "json_object \<Rightarrow> EntryPackageAbsent res" where
  "decode_absent body =
     res_bind (require_exact_fields body ABSENT_FIELDS ''absent response'') (\<lambda>_.
     res_bind (decode_identity body) (\<lambda>(i, cid).
     new_EntryPackageAbsent \<lparr>epb_strategy_instance_id = i, epb_trade_cycle_id = cid\<rparr>))"

definition decode_declined :: "EntryPackageRequest \<Rightarrow> json_object \<Rightarrow> EntryPackageDeclined res" where
  "decode_declined request body =
     (if epr_desired_entry request = None
      then Inl (ValueError ''entry_package_declined answers only a present desired entry'')
      else
        res_bind (require_exact_fields body DECLINED_FIELDS ''declined response'') (\<lambda>_.
        res_bind (decode_identity body) (\<lambda>(i, cid).
        res_bind (field body ''decline_reason'') (\<lambda>reason.
        res_bind (wire_string reason ''decline_reason'') (\<lambda>reason.
        res_bind (field body ''decline_message'') (\<lambda>message.
        res_bind (wire_string message ''decline_message'') (\<lambda>message.
        new_EntryPackageDeclined
          \<lparr>epd_strategy_instance_id = i, epd_trade_cycle_id = cid, epd_decline_reason = reason,
           epd_decline_message = message\<rparr>)))))))"

definition result_identity :: "EntryPackageResult \<Rightarrow> (string \<times> string) option" where
  "result_identity r =
     (case r of
        PackageApplied p \<Rightarrow> Some (epa_strategy_instance_id p, epa_trade_cycle_id p)
      | PackageAbsent p \<Rightarrow> Some (epb_strategy_instance_id p, epb_trade_cycle_id p)
      | PackageDeclined p \<Rightarrow> Some (epd_strategy_instance_id p, epd_trade_cycle_id p)
      | PackagePublicError e \<Rightarrow> None)"

definition decode_success_body :: "json \<Rightarrow> EntryPackageRequest \<Rightarrow> EntryPackageResult res" where
  "decode_success_body payload request =
     res_bind (json_dict payload ''success response'') (\<lambda>body.
     let status = get_field body ''status'' in
     if status = JStr ''entry_package_applied''
     then res_bind (decode_applied body) (\<lambda>p. Inr (PackageApplied p))
     else if status = JStr ''entry_package_absent''
     then res_bind (decode_absent body) (\<lambda>p. Inr (PackageAbsent p))
     else if status = JStr ''entry_package_declined''
     then res_bind (decode_declined request body) (\<lambda>p. Inr (PackageDeclined p))
     else Inl (ValueError ''success status is not an approved literal''))"

definition decode_success :: "json \<Rightarrow> EntryPackageRequest \<Rightarrow> EntryPackageResult res" where
  "decode_success payload request =
     res_bind (guarded entry_package_protocol_error (decode_success_body payload request)) (\<lambda>result.
     if result_identity result = Some (epr_strategy_instance_id request, epr_trade_cycle_id request) then Inr result
     else Inl entry_package_protocol_error)"

definition decode_validation_detail :: "json \<Rightarrow> (string \<times> string) res" where
  "decode_validation_detail raw_detail =
     res_bind (closed_object raw_detail [''path'', ''message''] ''error.details'') (\<lambda>detail.
     res_bind (field detail ''path'') (\<lambda>path.
     res_bind (wire_string path ''error.details.path'') (\<lambda>path.
     res_bind (field detail ''message'') (\<lambda>message.
     res_bind (wire_string message ''error.details.message'') (\<lambda>message.
     Inr (path, message))))))"

definition decode_validation_details :: "json \<Rightarrow> (string \<times> string) list res" where
  "decode_validation_details payload =
     (case payload of
        JArr vs \<Rightarrow> if vs = [] then Inl (ValueError ''error.details must be a non-empty array'')
                   else res_map decode_validation_detail vs
      | _ \<Rightarrow> Inl (ValueError ''error.details must be a non-empty array''))"

definition public_error :: "string \<Rightarrow> string \<Rightarrow> json_object \<Rightarrow> EntryPackagePublicError res" where
  "public_error expected_code message error =
     (if expected_code = ''malformed_json'' then new_EntryPackagePublicError (EntryPackageMalformedJson message)
      else if expected_code = ''unsupported_media_type''
      then new_EntryPackagePublicError (EntryPackageUnsupportedMediaType message)
      else if expected_code = ''execution_not_ready''
      then new_EntryPackagePublicError (EntryPackageExecutionNotReady message)
      else if expected_code = ''internal_error'' then new_EntryPackagePublicError (EntryPackageInternalError message)
      else res_bind (field error ''details'') (\<lambda>details.
           res_bind (decode_validation_details details) (\<lambda>details.
           new_EntryPackagePublicError (EntryPackageValidationFailed message details))))"

definition decode_public_error :: "string \<Rightarrow> json \<Rightarrow> EntryPackageResult res" where
  "decode_public_error expected_code payload =
     guarded entry_package_protocol_error (
       res_bind (closed_object payload [''error''] ''error envelope'') (\<lambda>envelope.
       res_bind (field envelope ''error'') (\<lambda>error.
       res_bind (json_dict error ''error object'') (\<lambda>error.
       res_bind (require_exact_fields error
                   (if expected_code = ''validation_failed'' then [''code'', ''message'', ''details'']
                    else [''code'', ''message'']) ''error object'') (\<lambda>_.
       res_bind (field error ''code'') (\<lambda>code.
       if code \<noteq> JStr expected_code then Inl (ValueError ''the status requires another error code'')
       else
         res_bind (field error ''message'') (\<lambda>message.
         res_bind (non_empty_string message ''error.message'') (\<lambda>message.
         res_bind (public_error expected_code message error) (\<lambda>e. Inr (PackagePublicError e))))))))))"

text \<open>The codec's own content-type check and strict loader.\<close>

definition entry_package_payload :: "(string \<Rightarrow> string) \<Rightarrow> http_response \<Rightarrow> json res" where [simp]:
  "entry_package_payload ft response = load_payload ft entry_package_protocol_error response"

definition decode_entry_package_response ::
    "(string \<Rightarrow> string) \<Rightarrow> http_response \<Rightarrow> EntryPackageRequest \<Rightarrow> EntryPackageResult res" where
  "decode_entry_package_response ft response request =
     res_bind (entry_package_payload ft response) (\<lambda>payload.
     if hr_status_code response = 200 then decode_success payload request
     else case map_of PUBLIC_ERROR_CODES (hr_status_code response) of
       Some expected_code \<Rightarrow> decode_public_error expected_code payload
     | None \<Rightarrow> Inl entry_package_protocol_error)"

section \<open>The adapter\<close>

definition entry_package_path :: "string \<Rightarrow> string \<Rightarrow> string" where
  "entry_package_path strategy_instance_id trade_cycle_id =
     trade_cycle_path strategy_instance_id trade_cycle_id ''/entry-package''"

definition http_send ::
    "(string \<Rightarrow> string) \<Rightarrow> 'e transport \<Rightarrow> EntryPackageRequest \<Rightarrow> ('e, EntryPackageResult) prog" where
  "http_send ft transport request =
     bindp (attempt_request transport
       \<lparr>hq_method = ''PUT'',
        hq_path = entry_package_path (epr_strategy_instance_id request) (epr_trade_cycle_id request),
        hq_body = Some (encode_entry_package_request request)\<rparr>
       (AbiEntryPackageClientError AbiEntryPackageTimeout)
       (AbiEntryPackageClientError AbiEntryPackageNetworkFailure)) (\<lambda>response.
     lift_res (decode_entry_package_response ft response request))"


section \<open>Failing closed\<close>

lemma raises_caught_checked [caught_rules]: "(\<And>c. c \<in> set cs \<Longrightarrow> raises_caught c) \<Longrightarrow> raises_caught (checked cs x)"
  by (induction cs) (auto simp: checked.simps intro!: raises_caught_bind)

lemma raises_caught_require [simp]:
  "raises_caught (require_non_empty v name)" "raises_caught (require_exact_decimal v name)"
  "raises_caught (require_positive_decimal v name)"
  by (simp_all add: require_non_empty_def require_exact_decimal_def require_positive_decimal_def)

lemma raises_caught_optionally [simp]: "(\<And>x. raises_caught (f x)) \<Longrightarrow> raises_caught (optionally f v)"
  by (simp add: optionally_def split: option.split)

lemma entry_constructors_caught [caught_rules]:
  "raises_caught (new_EntryPackageWireDesiredEntry d)" "raises_caught (new_EntryPackageApplied p)"
  "raises_caught (new_EntryPackageAbsent q)" "raises_caught (new_EntryPackageDeclined r)"
  "raises_caught (new_EntryPackagePublicError e)"
  by (auto simp: new_EntryPackageWireDesiredEntry_def new_EntryPackageApplied_def new_EntryPackageAbsent_def
      new_EntryPackageDeclined_def new_EntryPackagePublicError_def intro!: raises_caught_checked
      split: EntryPackagePublicError.split)

lemma raises_caught_pair [caught_rules]: "(\<And>a b. raises_caught (f a b)) \<Longrightarrow> raises_caught (case p of (a, b) \<Rightarrow> f a b)"
  by (cases p) simp

lemma entry_parts_caught [caught_rules]:
  "raises_caught (wire_side v)" "raises_caught (require_applied_fields d)" "raises_caught (decode_identity d)"
  "raises_caught (decode_validation_detail v)"
  unfolding decode_identity_def decode_validation_detail_def
  by (simp add: wire_side_def split: json.split, simp add: require_applied_fields_def, intro caught_rules, intro caught_rules)

lemma entry_decoders_caught [caught_rules]:
  "raises_caught (decode_wire_desired_entry v)" "raises_caught (decode_absent d)"
  "raises_caught (decode_declined request d)"
  unfolding decode_wire_desired_entry_def decode_absent_def decode_declined_def by (intro caught_rules)+

lemma decode_applied_caught [caught_rules]: "raises_caught (decode_applied d)"
  unfolding decode_applied_def by (intro caught_rules)

lemma decode_validation_details_caught [caught_rules]: "raises_caught (decode_validation_details v)"
  by (auto simp: decode_validation_details_def intro!: caught_rules split: json.split)

lemma decode_success_body_caught: "raises_caught (decode_success_body payload request)"
  unfolding decode_success_body_def Let_def by (intro caught_rules)

lemma decode_public_error_caught: "raises_caught (public_error code message error)"
  unfolding public_error_def by (intro caught_rules)

lemma decode_success_error: "decode_success payload request = Inl e \<Longrightarrow> e = entry_package_protocol_error"
  by (auto simp: decode_success_def res_bind_eq_Inl split: if_splits
      dest: guarded_error [OF _ decode_success_body_caught])

lemma decode_public_error_error: "decode_public_error code payload = Inl e \<Longrightarrow> e = entry_package_protocol_error"
  unfolding decode_public_error_def
  by (erule guarded_error) (intro caught_rules decode_public_error_caught)

lemma decode_response_error:
  "decode_entry_package_response ft response request = Inl e \<Longrightarrow> e = entry_package_protocol_error"
  by (auto simp: decode_entry_package_response_def res_bind_eq_Inl split: if_splits option.splits
      dest: load_payload_error decode_success_error decode_public_error_error)

text \<open>What is accepted was constructed.\<close>

lemma constructed_entry:
  "new_EntryPackageWireDesiredEntry d = Inr d' \<Longrightarrow> d' = d" "new_EntryPackageApplied p = Inr p' \<Longrightarrow> p' = p"
  "new_EntryPackageAbsent q = Inr q' \<Longrightarrow> q' = q" "new_EntryPackageDeclined r = Inr r' \<Longrightarrow> r' = r"
  "new_EntryPackagePublicError e = Inr e' \<Longrightarrow> e' = e"
  by (auto simp: new_EntryPackageWireDesiredEntry_def new_EntryPackageApplied_def new_EntryPackageAbsent_def
      new_EntryPackageDeclined_def new_EntryPackagePublicError_def checked_iff split: EntryPackagePublicError.splits if_splits)

definition constructed_result :: "EntryPackageResult \<Rightarrow> bool" where
  "constructed_result r \<longleftrightarrow> new_EntryPackageResult r = Inr r"

lemma decode_wire_desired_entry_constructed:
  assumes "decode_wire_desired_entry v = Inr d"
  shows "new_EntryPackageWireDesiredEntry d = Inr d"
proof -
  from assms obtain d' where "new_EntryPackageWireDesiredEntry d' = Inr d"
    by (auto simp: decode_wire_desired_entry_def res_bind_eq_Inr)
  with constructed_entry(1) [OF this] show ?thesis by simp
qed

lemma decode_applied_constructed:
  assumes "decode_applied v = Inr p"
  shows "constructed_result (PackageApplied p)"
proof -
  from assms obtain w p' where "new_EntryPackageApplied p' = Inr p"
      "decode_wire_desired_entry w = Inr (epa_applied_desired_entry p')"
    by (auto simp: decode_applied_def res_bind_eq_Inr)
  with constructed_entry(2) decode_wire_desired_entry_constructed show ?thesis
    by (fastforce simp: constructed_result_def new_EntryPackageResult_def)
qed

lemma decode_absent_constructed: "decode_absent v = Inr p \<Longrightarrow> constructed_result (PackageAbsent p)"
  using constructed_entry(3) by (fastforce simp: decode_absent_def res_bind_eq_Inr constructed_result_def new_EntryPackageResult_def)

lemma decode_declined_constructed:
  "decode_declined request v = Inr p \<Longrightarrow> constructed_result (PackageDeclined p) \<and> epr_desired_entry request \<noteq> None"
  using constructed_entry(4)
  by (fastforce simp: decode_declined_def res_bind_eq_Inr constructed_result_def new_EntryPackageResult_def split: if_splits)

lemma public_error_constructed:
  assumes "public_error code message error = Inr e"
  shows "new_EntryPackagePublicError e = Inr e"
proof -
  from assms obtain e' where "new_EntryPackagePublicError e' = Inr e"
    by (auto simp: public_error_def res_bind_eq_Inr split: if_splits)
  with constructed_entry(5) [OF this] show ?thesis by simp
qed

text \<open>An accepted success is about the requested cycle; an accepted error is the one of its status.\<close>

definition answers :: "EntryPackageRequest \<Rightarrow> int \<Rightarrow> EntryPackageResult \<Rightarrow> bool" where
  "answers request status r \<longleftrightarrow>
     (case r of
        PackagePublicError e \<Rightarrow>
          status = (case e of EntryPackageMalformedJson m \<Rightarrow> 400 | EntryPackageUnsupportedMediaType m \<Rightarrow> 415
                    | EntryPackageValidationFailed m ds \<Rightarrow> 422 | EntryPackageInternalError m \<Rightarrow> 500
                    | EntryPackageExecutionNotReady m \<Rightarrow> 503)
      | _ \<Rightarrow> status = 200 \<and> result_identity r = Some (epr_strategy_instance_id request, epr_trade_cycle_id request)) \<and>
     (\<forall>p. r = PackageDeclined p \<longrightarrow> epr_desired_entry request \<noteq> None)"

lemma decode_success_answers:
  assumes "decode_success payload request = Inr r"
  shows "constructed_result r \<and> answers request 200 r"
  using assms
  by (auto simp: decode_success_def decode_success_body_def res_bind_eq_Inr Let_def answers_def result_identity_def
      split: if_splits dest: decode_applied_constructed decode_absent_constructed decode_declined_constructed)

lemma public_error_cases:
  "public_error ''malformed_json'' m error = new_EntryPackagePublicError (EntryPackageMalformedJson m)"
  "public_error ''unsupported_media_type'' m error = new_EntryPackagePublicError (EntryPackageUnsupportedMediaType m)"
  "public_error ''execution_not_ready'' m error = new_EntryPackagePublicError (EntryPackageExecutionNotReady m)"
  "public_error ''internal_error'' m error = new_EntryPackagePublicError (EntryPackageInternalError m)"
  "public_error ''validation_failed'' m error =
     res_bind (field error ''details'') (\<lambda>details.
     res_bind (decode_validation_details details) (\<lambda>details.
     new_EntryPackagePublicError (EntryPackageValidationFailed m details)))"
  by (simp_all add: public_error_def)

lemma public_error_answers:
  assumes "public_error code message error = Inr e" and "map_of PUBLIC_ERROR_CODES status = Some code"
  shows "answers request status (PackagePublicError e)"
proof -
  have "(status, code) \<in> set PUBLIC_ERROR_CODES" using assms(2) by (rule map_of_SomeD)
  then consider "status = 400" "code = ''malformed_json''" | "status = 415" "code = ''unsupported_media_type''"
    | "status = 422" "code = ''validation_failed''" | "status = 500" "code = ''internal_error''"
    | "status = 503" "code = ''execution_not_ready''"
    by (simp add: PUBLIC_ERROR_CODES_def) (elim disjE conjE)
  then show ?thesis
  proof cases
    case 1
    have "new_EntryPackagePublicError (EntryPackageMalformedJson message) = Inr e" using assms(1) unfolding 1(2) public_error_cases .
    from constructed_entry(5) [OF this] 1(1) show ?thesis by (simp add: answers_def)
  next
    case 2
    have "new_EntryPackagePublicError (EntryPackageUnsupportedMediaType message) = Inr e" using assms(1) unfolding 2(2) public_error_cases .
    from constructed_entry(5) [OF this] 2(1) show ?thesis by (simp add: answers_def)
  next
    case 4
    have "new_EntryPackagePublicError (EntryPackageInternalError message) = Inr e" using assms(1) unfolding 4(2) public_error_cases .
    from constructed_entry(5) [OF this] 4(1) show ?thesis by (simp add: answers_def)
  next
    case 5
    have "new_EntryPackagePublicError (EntryPackageExecutionNotReady message) = Inr e" using assms(1) unfolding 5(2) public_error_cases .
    from constructed_entry(5) [OF this] 5(1) show ?thesis by (simp add: answers_def)
  next
    case 3
    from assms(1) obtain ds where "new_EntryPackagePublicError (EntryPackageValidationFailed message ds) = Inr e"
      unfolding 3(2) public_error_cases res_bind_eq_Inr by blast
    from constructed_entry(5) [OF this] 3(1) show ?thesis by (simp add: answers_def)
  qed
qed

lemma decode_public_error_answers:
  assumes "decode_public_error code payload = Inr r" and "map_of PUBLIC_ERROR_CODES status = Some code"
  shows "constructed_result r \<and> answers request status r"
proof -
  from assms(1) obtain message error e where "public_error code message error = Inr e" "r = PackagePublicError e"
    by (auto simp: decode_public_error_def res_bind_eq_Inr split: if_splits)
  with public_error_constructed public_error_answers [OF _ assms(2)] show ?thesis
    by (auto simp: constructed_result_def new_EntryPackageResult_def)
qed

lemma decode_response_answers:
  assumes "decode_entry_package_response ft response request = Inr r"
  shows "constructed_result r \<and> answers request (hr_status_code response) r"
  using assms
  by (auto simp: decode_entry_package_response_def res_bind_eq_Inr split: if_splits option.splits
      dest: decode_success_answers decode_public_error_answers)

section \<open>Documented answers\<close>

text \<open>The status and the body the service documents for each result.\<close>

definition success_body :: "string \<Rightarrow> string \<Rightarrow> string \<Rightarrow> json_object" where
  "success_body i cid status =
     [(''strategy_instance_id'', JStr i), (''trade_cycle_id'', JStr cid), (''status'', JStr status)]"

definition error_body :: "string \<Rightarrow> string \<Rightarrow> json_object \<Rightarrow> json" where
  "error_body code message details =
     JObj [(''error'', JObj ([(''code'', JStr code), (''message'', JStr message)] @ details))]"

definition detail_body :: "string \<times> string \<Rightarrow> json" where
  "detail_body d = JObj [(''path'', JStr (fst d)), (''message'', JStr (snd d))]"

definition result_response :: "EntryPackageResult \<Rightarrow> http_response" where
  "result_response r =
     (case r of
        PackageApplied p \<Rightarrow> json_response 200 (JObj (
          success_body (epa_strategy_instance_id p) (epa_trade_cycle_id p) ''entry_package_applied'' @
          [(''applied_desired_entry'', encode_wire_desired_entry (epa_applied_desired_entry p)),
           (''calculated_quantity'', JStr (epa_calculated_quantity p)),
           (''trigger_price'', null_or_text (epa_trigger_price p)), (''stop_loss'', null_or_text (epa_stop_loss p)),
           (''take_profit'', null_or_text (epa_take_profit p)), (''quantity'', null_or_text (epa_quantity p)),
           (''order_link_id'', null_or_text (epa_order_link_id p)), (''order_id'', null_or_text (epa_order_id p))]))
      | PackageAbsent p \<Rightarrow> json_response 200 (JObj (
          success_body (epb_strategy_instance_id p) (epb_trade_cycle_id p) ''entry_package_absent''))
      | PackageDeclined p \<Rightarrow> json_response 200 (JObj (
          success_body (epd_strategy_instance_id p) (epd_trade_cycle_id p) ''entry_package_declined'' @
          [(''decline_reason'', JStr (epd_decline_reason p)), (''decline_message'', JStr (epd_decline_message p))]))
      | PackagePublicError (EntryPackageMalformedJson m) \<Rightarrow> json_response 400 (error_body ''malformed_json'' m [])
      | PackagePublicError (EntryPackageUnsupportedMediaType m) \<Rightarrow>
          json_response 415 (error_body ''unsupported_media_type'' m [])
      | PackagePublicError (EntryPackageValidationFailed m ds) \<Rightarrow>
          json_response 422 (error_body ''validation_failed'' m [(''details'', JArr (map detail_body ds))])
      | PackagePublicError (EntryPackageInternalError m) \<Rightarrow> json_response 500 (error_body ''internal_error'' m [])
      | PackagePublicError (EntryPackageExecutionNotReady m) \<Rightarrow>
          json_response 503 (error_body ''execution_not_ready'' m []))"

lemmas wire_fields = APPLIED_REQUIRED_FIELDS_def APPLIED_ENTRY_ORDER_FIELDS_def APPLIED_ENTRY_ORDER_ID_FIELDS_def
  APPLIED_FIELDS_def ABSENT_FIELDS_def DECLINED_FIELDS_def DESIRED_ENTRY_FIELDS_def

lemma wire_simps [simp]:
  "wire_string (JStr s) name = Inr s" "wire_int (JInt n) name = Inr n" "json_dict (JObj d) name = Inr d"
  "s \<noteq> [] \<Longrightarrow> non_empty_string (JStr s) name = Inr s" "wire_side (JStr s) = (if s \<in> {''long'', ''short''} then Inr s
     else Inl (ValueError ''side must be long or short''))"
  by (simp_all add: wire_side_def json_dict_def)

lemma norm_null_or_text [simp]: "json_norm (null_or_text t) = null_or_text t"
  by (simp add: null_or_text_def split: option.split)

lemma optional_string_text [simp]: "optional_string (null_or_text t) name = Inr t"
  by simp

lemma norm_object_image [simp]: "fst ` set (norm_object kvs) = fst ` set kvs"
  using norm_object_keys [of kvs] by (simp only: list.set_map)

lemma exact_norm_object:
  "set (map fst kvs) = set keys \<Longrightarrow> require_exact_fields (norm_object kvs) keys name = Inr ()"
  "set (map fst kvs) = set keys \<Longrightarrow> closed_object (JObj (norm_object kvs)) keys name = Inr (norm_object kvs)"
  by (simp_all add: require_exact_fields_def closed_object_def)

lemma get_norm_object: "distinct (map fst kvs) \<Longrightarrow> map_of kvs k = Some v \<Longrightarrow> get_field (norm_object kvs) k = json_norm v"
  by (simp add: get_field_def map_of_norm_object)

lemma decode_identity_written:
  assumes "distinct (map fst kvs)" "map_of kvs ''strategy_instance_id'' = Some (JStr i)"
    "map_of kvs ''trade_cycle_id'' = Some (JStr cid)" "i \<noteq> []" "cid \<noteq> []"
  shows "decode_identity (norm_object kvs) = Inr (i, cid)"
  using assms by (simp add: decode_identity_def field_norm_object)

lemma decode_wire_desired_entry_written [simp]:
  assumes "new_EntryPackageWireDesiredEntry d = Inr d"
  shows "decode_wire_desired_entry (json_norm (encode_wire_desired_entry d)) = Inr d"
proof -
  have "wde_side d \<in> {''long'', ''short''}" using assms by (auto simp: new_EntryPackageWireDesiredEntry_def split: if_splits)
  with assms show ?thesis
    by (cases d) (simp add: decode_wire_desired_entry_def encode_wire_desired_entry_def exact_norm_object wire_fields
        field_norm_object)
qed

lemma null_or_text_ok [simp]: "json_ok h (null_or_text t)"
  by (simp add: null_or_text_def split: option.split)

lemma wire_bodies_ok [simp]:
  "json_ok h (encode_wire_desired_entry d)" "json_ok h (detail_body x)" "json_ok h (error_body code m [])"
  "json_ok h (error_body code m [(''details'', JArr (map detail_body ds))])"
  by (simp_all add: encode_wire_desired_entry_def detail_body_def error_body_def list_all_iff)

lemma constructed_identity:
  "new_EntryPackageApplied p = Inr p \<Longrightarrow> epa_strategy_instance_id p \<noteq> [] \<and> epa_trade_cycle_id p \<noteq> []"
  "new_EntryPackageAbsent q = Inr q \<Longrightarrow> epb_strategy_instance_id q \<noteq> [] \<and> epb_trade_cycle_id q \<noteq> []"
  "new_EntryPackageDeclined r = Inr r \<Longrightarrow> epd_strategy_instance_id r \<noteq> [] \<and> epd_trade_cycle_id r \<noteq> []"
  by (auto simp: new_EntryPackageApplied_def new_EntryPackageAbsent_def new_EntryPackageDeclined_def checked_iff)

lemma decode_applied_written:
  assumes "constructed_result (PackageApplied p)"
    and "answers request 200 (PackageApplied p)"
  shows "decode_entry_package_response ft (result_response (PackageApplied p)) request = Inr (PackageApplied p)"
proof -
  have c: "new_EntryPackageApplied p = Inr p" "new_EntryPackageWireDesiredEntry (epa_applied_desired_entry p) =
      Inr (epa_applied_desired_entry p)"
    using assms(1) by (auto simp: constructed_result_def new_EntryPackageResult_def res_bind_eq_Inr
        dest: constructed_entry)
  then show ?thesis
    using assms(2) constructed_identity(1) [OF c(1)]
    by (cases p) (simp add: decode_entry_package_response_def decode_success_def decode_success_body_def result_response_def
        success_body_def get_norm_object decode_applied_def require_applied_fields_def wire_fields
        decode_identity_written field_norm_object answers_def)
qed

lemma decode_absent_written:
  assumes "constructed_result (PackageAbsent p)" and "answers request 200 (PackageAbsent p)"
  shows "decode_entry_package_response ft (result_response (PackageAbsent p)) request = Inr (PackageAbsent p)"
proof -
  have c: "new_EntryPackageAbsent p = Inr p"
    using assms(1) by (auto simp: constructed_result_def new_EntryPackageResult_def res_bind_eq_Inr)
  then show ?thesis
    using assms(2) constructed_identity(2) [OF c]
    by (cases p) (simp add: decode_entry_package_response_def decode_success_def decode_success_body_def result_response_def
        success_body_def get_norm_object decode_absent_def exact_norm_object wire_fields
        decode_identity_written answers_def)
qed

lemma decode_declined_written:
  assumes "constructed_result (PackageDeclined p)" and "answers request 200 (PackageDeclined p)"
  shows "decode_entry_package_response ft (result_response (PackageDeclined p)) request = Inr (PackageDeclined p)"
proof -
  have c: "new_EntryPackageDeclined p = Inr p"
    using assms(1) by (auto simp: constructed_result_def new_EntryPackageResult_def res_bind_eq_Inr)
  then show ?thesis
    using assms(2) constructed_identity(3) [OF c]
    by (cases p) (clarsimp simp: Let_def decode_entry_package_response_def decode_success_def decode_success_body_def result_response_def
        success_body_def get_norm_object decode_declined_def exact_norm_object wire_fields
        decode_identity_written answers_def field_norm_object)
qed

lemma decode_details_written:
  "ds \<noteq> [] \<Longrightarrow> decode_validation_details (json_norm (JArr (map detail_body ds))) = Inr ds"
proof -
  have "decode_validation_detail (json_norm (detail_body d)) = Inr d" for d
    by (simp add: decode_validation_detail_def detail_body_def exact_norm_object field_norm_object)
  then have "res_map decode_validation_detail (map (json_norm \<circ> detail_body) ds) = Inr ds"
    by (induction ds) simp_all
  then show "ds \<noteq> [] \<Longrightarrow> ?thesis" by (simp add: decode_validation_details_def)
qed

lemma decode_error_written:
  assumes "m \<noteq> []" and "distinct (map fst extra)" and "set (map fst extra) \<inter> {''code'', ''message''} = {}"
    and "set (map fst extra) = (if code = ''validation_failed'' then {''details''} else {})"
  shows "decode_public_error code (json_norm (error_body code m extra)) =
    guarded entry_package_protocol_error
      (res_bind (public_error code m (norm_object ([(''code'', JStr code), (''message'', JStr m)] @ extra)))
        (\<lambda>e. Inr (PackagePublicError e)))"
  using assms
  by (auto simp: decode_public_error_def error_body_def exact_norm_object field_norm_object)

lemma decode_result_response:
  assumes "constructed_result r" and "answers request (hr_status_code (result_response r)) r"
  shows "decode_entry_package_response ft (result_response r) request = Inr r"
proof (cases r)
  case (PackagePublicError e)
  then have e: "new_EntryPackagePublicError e = Inr e"
    using assms(1) by (auto simp: constructed_result_def new_EntryPackageResult_def res_bind_eq_Inr)
  show ?thesis
  proof (cases e)
    case (EntryPackageValidationFailed m ds)
    with e have "m \<noteq> []" "ds \<noteq> []" by (auto simp: new_EntryPackagePublicError_def checked_iff split: if_splits)
    with e show ?thesis
      by (simp add: PackagePublicError EntryPackageValidationFailed result_response_def decode_entry_package_response_def
          PUBLIC_ERROR_CODES_def decode_error_written public_error_cases field_norm_object decode_details_written
          del: json_norm.simps)
  qed (use e in \<open>simp_all add: PackagePublicError result_response_def decode_entry_package_response_def
      PUBLIC_ERROR_CODES_def decode_error_written public_error_cases new_EntryPackagePublicError_def checked.simps require_non_empty_def split: if_splits\<close>)
qed (use assms decode_applied_written decode_absent_written decode_declined_written in
      \<open>auto simp: answers_def\<close>)

end
