(* ===== verification/Abi_Wire.thy ===== *)
theory Abi_Wire
  imports Entry_Package_Wire
begin

text \<open>
  The other clients of the execution service: the recovery-state query
  (\<open>infrastructure/abi/entry_cycle_recovery_codec.py\<close>, \<open>http_entry_cycle_recovery.py\<close>), the open-position
  lookup (\<open>open_position_codec.py\<close>, \<open>http_open_position.py\<close>), position management
  (\<open>position_management_codec.py\<close>, \<open>http_position_management.py\<close>) and the closure object they share
  (\<open>trade_cycle_closure_codec.py\<close>). The message and the details of a public error are checked and then
  dropped: nothing downstream reads them.

  Proved for each client: every response is decoded to a constructed answer that matches its request
  or refused with one of the errors documented for its status (\<open>fails closed\<close>); and a documented
  answer is decoded to itself.
\<close>

section \<open>Recovery state\<close>

abbreviation recovery_protocol_error :: exn where
  "recovery_protocol_error \<equiv> AbiEntryCycleRecoveryClientError AbiEntryCycleRecoveryProtocolError"

definition RECOVERY_SUCCESS_FIELDS :: "string list" where
  "RECOVERY_SUCCESS_FIELDS = [''recovery_state'', ''applied_entry_package'', ''first_fill_at_ms'',
     ''average_entry_price'', ''entry_order_link_id'', ''entry_order_id'']"

definition RECOVERY_APPLIED_ENTRY_PACKAGE_FIELDS :: "string list" where
  "RECOVERY_APPLIED_ENTRY_PACKAGE_FIELDS = [''applied_desired_entry'', ''calculated_quantity'']"

definition ERROR_ENVELOPE_FIELDS :: "string list" where
  "ERROR_ENVELOPE_FIELDS = [''error'']"

definition ERROR_OBJECT_FIELDS :: "string list" where
  "ERROR_OBJECT_FIELDS = [''code'', ''message'']"

definition require_none :: "json \<Rightarrow> string \<Rightarrow> unit res" where
  "require_none v name =
     (if v = JNull then Inr () else Inl (ValueError (name @ '' must be null for this recovery_state'')))"

definition decode_recovered_package :: "json \<Rightarrow> RecoveryStateAppliedEntryPackage res" where
  "decode_recovered_package payload =
     res_bind (closed_object payload RECOVERY_APPLIED_ENTRY_PACKAGE_FIELDS ''applied_entry_package'') (\<lambda>body.
     res_bind (field body ''applied_desired_entry'') (\<lambda>entry.
     res_bind (decode_wire_desired_entry entry) (\<lambda>entry.
     res_bind (field body ''calculated_quantity'') (\<lambda>quantity.
     res_bind (wire_string quantity ''calculated_quantity'') (\<lambda>quantity.
     new_RecoveryStateAppliedEntryPackage
       \<lparr>rap_applied_desired_entry = entry, rap_calculated_quantity = quantity\<rparr>)))))"

text \<open>The six fields of a success body, and the branch on \<open>recovery_state\<close>.\<close>

definition recovery_state_of :: "json \<Rightarrow> json \<Rightarrow> json \<Rightarrow> json \<Rightarrow> json \<Rightarrow> json \<Rightarrow> RecoveryStateResponse res" where
  "recovery_state_of recovery_state applied_payload first_fill_payload average_price_payload link_id_payload
     order_id_payload =
     (if recovery_state = JStr ''entry_order_live''
      then res_bind (require_none first_fill_payload ''first_fill_at_ms'') (\<lambda>_.
           res_bind (require_none average_price_payload ''average_entry_price'') (\<lambda>_.
           res_bind (require_none link_id_payload ''entry_order_link_id'') (\<lambda>_.
           res_bind (require_none order_id_payload ''entry_order_id'') (\<lambda>_.
           res_bind (decode_recovered_package applied_payload) (\<lambda>p.
           Inr (EntryOrderLiveRecoveryState p))))))
      else if recovery_state = JStr ''entry_order_not_found''
      then res_bind (require_none applied_payload ''applied_entry_package'') (\<lambda>_.
           res_bind (require_none first_fill_payload ''first_fill_at_ms'') (\<lambda>_.
           res_bind (require_none average_price_payload ''average_entry_price'') (\<lambda>_.
           res_bind (require_none link_id_payload ''entry_order_link_id'') (\<lambda>_.
           res_bind (require_none order_id_payload ''entry_order_id'') (\<lambda>_.
           Inr EntryOrderNotFoundRecoveryState)))))
      else if recovery_state = JStr ''position_open''
      then res_bind (decode_recovered_package applied_payload) (\<lambda>p.
           res_bind (wire_int first_fill_payload ''first_fill_at_ms'') (\<lambda>fill.
           res_bind (wire_string average_price_payload ''average_entry_price'') (\<lambda>price.
           res_bind (wire_string link_id_payload ''entry_order_link_id'') (\<lambda>link.
           res_bind (optional_string order_id_payload ''entry_order_id'') (\<lambda>order_id.
           res_bind (new_PositionOpenRecoveryState
             \<lparr>por_applied_entry_package = p, por_first_fill_at_ms = fill, por_average_entry_price = price,
              por_entry_order_link_id = link, por_entry_order_id = order_id\<rparr>) (\<lambda>p.
           Inr (PositionOpenRecovery p)))))))
      else if recovery_state \<in> {JStr ''terminal_without_fill'', JStr ''terminal_after_fill''}
      then res_bind (require_none applied_payload ''applied_entry_package'') (\<lambda>_.
           res_bind (require_none first_fill_payload ''first_fill_at_ms'') (\<lambda>_.
           res_bind (require_none average_price_payload ''average_entry_price'') (\<lambda>_.
           res_bind (require_none link_id_payload ''entry_order_link_id'') (\<lambda>_.
           res_bind (require_none order_id_payload ''entry_order_id'') (\<lambda>_.
           Inr (if recovery_state = JStr ''terminal_without_fill'' then TerminalWithoutFillRecoveryState
                else TerminalAfterFillRecoveryState))))))
      else Inl (ValueError ''undocumented recovery_state''))"

definition decode_recovery_success :: "json \<Rightarrow> RecoveryStateResponse res" where
  "decode_recovery_success payload =
     guarded recovery_protocol_error (
       res_bind (closed_object payload RECOVERY_SUCCESS_FIELDS ''success response'') (\<lambda>body.
       res_bind (field body ''recovery_state'') (\<lambda>recovery_state.
       res_bind (field body ''applied_entry_package'') (\<lambda>applied_payload.
       res_bind (field body ''first_fill_at_ms'') (\<lambda>first_fill_payload.
       res_bind (field body ''average_entry_price'') (\<lambda>average_price_payload.
       res_bind (field body ''entry_order_link_id'') (\<lambda>link_id_payload.
       res_bind (field body ''entry_order_id'') (\<lambda>order_id_payload.
       recovery_state_of recovery_state applied_payload first_fill_payload average_price_payload link_id_payload
         order_id_payload))))))))"

text \<open>\<open>_decode_error_envelope\<close> and \<open>_decode_internal_error_envelope\<close>: exactly a code and a message.\<close>

definition error_envelope :: "exn \<Rightarrow> string \<Rightarrow> json \<Rightarrow> string res" where
  "error_envelope err expected_code payload =
     guarded err (
       res_bind (closed_object payload ERROR_ENVELOPE_FIELDS ''error envelope'') (\<lambda>envelope.
       res_bind (field envelope ''error'') (\<lambda>error.
       res_bind (closed_object error ERROR_OBJECT_FIELDS ''error object'') (\<lambda>error.
       res_bind (field error ''code'') (\<lambda>code.
       res_bind (non_empty_string code ''error.code'') (\<lambda>code.
       if code \<noteq> expected_code then Inl (ValueError ''unexpected error code'')
       else res_bind (field error ''message'') (\<lambda>message. non_empty_string message ''error.message'')))))))"

definition decode_recovery_error_envelope :: "string \<Rightarrow> json \<Rightarrow> string res" where
  "decode_recovery_error_envelope expected_code payload =
     error_envelope recovery_protocol_error expected_code payload"

text \<open>The codec's own content-type check and strict loader.\<close>

definition recovery_payload :: "(string \<Rightarrow> string) \<Rightarrow> http_response \<Rightarrow> json res" where [simp]:
  "recovery_payload ft response = load_payload ft recovery_protocol_error response"

definition decode_recovery_state_response :: "(string \<Rightarrow> string) \<Rightarrow> http_response \<Rightarrow> RecoveryStateResponse res" where
  "decode_recovery_state_response ft response =
     res_bind (recovery_payload ft response) (\<lambda>payload.
     if hr_status_code response = 200 then decode_recovery_success payload
     else if hr_status_code response = 422
     then res_bind (decode_recovery_error_envelope ''unknown_trade_cycle_binding'' payload) (\<lambda>_.
          Inl (AbiEntryCycleRecoveryClientError AbiEntryCycleRecoveryUnknownTradeCycleBinding))
     else if hr_status_code response = 503
     then res_bind (decode_recovery_error_envelope ''execution_not_ready'' payload) (\<lambda>_.
          Inl (AbiEntryCycleRecoveryClientError AbiEntryCycleRecoveryExecutionNotReady))
     else if hr_status_code response = 500
     then res_bind (decode_recovery_error_envelope ''internal_error'' payload) (\<lambda>_.
          Inl (AbiEntryCycleRecoveryClientError AbiEntryCycleRecoveryUnavailable))
     else Inl recovery_protocol_error)"

definition recovery_state_path :: "string \<Rightarrow> string \<Rightarrow> string" where
  "recovery_state_path strategy_instance_id trade_cycle_id =
     trade_cycle_path strategy_instance_id trade_cycle_id ''/recovery-state''"

definition http_query ::
    "(string \<Rightarrow> string) \<Rightarrow> 'e transport \<Rightarrow> string \<Rightarrow> string \<Rightarrow> ('e, RecoveryStateResponse) prog" where
  "http_query ft transport strategy_instance_id trade_cycle_id =
     bindp (attempt_request transport
       \<lparr>hq_method = ''GET'', hq_path = recovery_state_path strategy_instance_id trade_cycle_id, hq_body = None\<rparr>
       (AbiEntryCycleRecoveryClientError AbiEntryCycleRecoveryTimeout)
       (AbiEntryCycleRecoveryClientError AbiEntryCycleRecoveryNetworkFailure)) (\<lambda>response.
     lift_res (decode_recovery_state_response ft response))"

text \<open>The corrective cancel goes through the entry-package port.\<close>

definition recovery_cancel ::
    "(EntryPackageRequest \<Rightarrow> ('e, EntryPackageResult) prog) \<Rightarrow> string \<Rightarrow> string \<Rightarrow> string \<Rightarrow> string
       \<Rightarrow> ('e, EntryPackageResult) prog" where
  "recovery_cancel send strategy_instance_id trade_cycle_id ticker risk_multiplier =
     bindp (lift_res (new_EntryPackageRequest
       \<lparr>epr_strategy_instance_id = strategy_instance_id, epr_trade_cycle_id = trade_cycle_id, epr_ticker = ticker,
        epr_desired_entry = None, epr_risk_multiplier = risk_multiplier\<rparr>)) (\<lambda>request.
     send request)"

section \<open>Closures\<close>

definition CLOSURE_FIELDS :: "string list" where
  "CLOSURE_FIELDS = [''strategy_instance_id'', ''trade_cycle_id'', ''reason'', ''order_id'', ''order_link_id'',
     ''parent_order_link_id'']"

definition decode_closure :: "json_object \<Rightarrow> TradeCycleClosure res" where
  "decode_closure closure =
     res_bind (require_exact_fields closure CLOSURE_FIELDS ''closure'') (\<lambda>_.
     res_bind (field closure ''strategy_instance_id'') (\<lambda>i.
     res_bind (wire_string i ''closure.strategy_instance_id'') (\<lambda>i.
     res_bind (field closure ''trade_cycle_id'') (\<lambda>cid.
     res_bind (wire_string cid ''closure.trade_cycle_id'') (\<lambda>cid.
     res_bind (field closure ''reason'') (\<lambda>reason.
     res_bind (wire_string reason ''closure.reason'') (\<lambda>reason.
     res_bind (field closure ''order_id'') (\<lambda>order_id.
     res_bind (wire_string order_id ''closure.order_id'') (\<lambda>order_id.
     res_bind (field closure ''order_link_id'') (\<lambda>link.
     res_bind (optional_string link ''closure.order_link_id'') (\<lambda>link.
     res_bind (field closure ''parent_order_link_id'') (\<lambda>parent.
     res_bind (optional_string parent ''closure.parent_order_link_id'') (\<lambda>parent.
     new_TradeCycleClosure
       \<lparr>tcc_strategy_instance_id = i, tcc_trade_cycle_id = cid, tcc_reason = reason, tcc_order_id = order_id,
        tcc_order_link_id = link, tcc_parent_order_link_id = parent\<rparr>)))))))))))))"

definition decode_optional_closure :: "json_object \<Rightarrow> TradeCycleClosure option res" where
  "decode_optional_closure body =
     (case map_of body ''closure'' of
        None \<Rightarrow> Inr None
      | Some JNull \<Rightarrow> Inr None
      | Some (JObj closure) \<Rightarrow> res_bind (decode_closure closure) (\<lambda>c. Inr (Some c))
      | Some v \<Rightarrow> Inl (TypeError ''closure must be a JSON object or null''))"

section \<open>Open-position lookup\<close>

abbreviation lookup_protocol_error :: exn where
  "lookup_protocol_error \<equiv> OpenPositionResolutionError OpenPositionLookupProtocolError"

definition LOOKUP_SUCCESS_FIELDS :: "string list" where
  "LOOKUP_SUCCESS_FIELDS = [''position_open'', ''first_fill_at_ms'', ''average_entry_price'', ''closure'',
     ''entry_order_link_id'', ''entry_order_id'']"

definition optional_int :: "json \<Rightarrow> string \<Rightarrow> int option res" where
  "optional_int v name = nullable (\<lambda>v. wire_int v name) v"

definition wire_bool :: "json \<Rightarrow> string \<Rightarrow> bool res" where
  "wire_bool v name = (case v of JBool b \<Rightarrow> Inr b | _ \<Rightarrow> Inl (TypeError (name @ '' must be a boolean'')))"

definition decode_lookup_success :: "json \<Rightarrow> OpenPositionLookupResponse res" where
  "decode_lookup_success payload =
     guarded lookup_protocol_error (
       res_bind (closed_object payload LOOKUP_SUCCESS_FIELDS ''success response'') (\<lambda>body.
       res_bind (field body ''position_open'') (\<lambda>position_open.
       res_bind (wire_bool position_open ''position_open'') (\<lambda>position_open.
       res_bind (field body ''first_fill_at_ms'') (\<lambda>fill.
       res_bind (optional_int fill ''first_fill_at_ms'') (\<lambda>fill.
       res_bind (field body ''average_entry_price'') (\<lambda>price.
       res_bind (optional_string price ''average_entry_price'') (\<lambda>price.
       res_bind (decode_optional_closure body) (\<lambda>closure.
       res_bind (field body ''entry_order_link_id'') (\<lambda>link.
       res_bind (optional_string link ''entry_order_link_id'') (\<lambda>link.
       res_bind (field body ''entry_order_id'') (\<lambda>order_id.
       res_bind (optional_string order_id ''entry_order_id'') (\<lambda>order_id.
       new_OpenPositionLookupResponse
         \<lparr>opl_position_open = position_open, opl_first_fill_at_ms = fill, opl_average_entry_price = price,
          opl_closure = closure, opl_entry_order_link_id = link, opl_entry_order_id = order_id\<rparr>)))))))))))))"

text \<open>Validation details are checked; in this codec both texts must be non-empty.\<close>

definition check_details :: "(json \<Rightarrow> string \<Rightarrow> string res) \<Rightarrow> json \<Rightarrow> unit res" where
  "check_details check_text v =
     (case v of
        JArr items \<Rightarrow>
          if items = [] then Inl (ValueError ''error.details must be a non-empty array'')
          else res_bind (res_map (\<lambda>item.
                 res_bind (closed_object item [''path'', ''message''] ''error.details item'') (\<lambda>detail.
                 res_bind (field detail ''path'') (\<lambda>path.
                 res_bind (check_text path ''error.details[].path'') (\<lambda>_.
                 res_bind (field detail ''message'') (\<lambda>message.
                 check_text message ''error.details[].message''))))) items) (\<lambda>_. Inr ())
      | _ \<Rightarrow> Inl (ValueError ''error.details must be a non-empty array''))"

definition decode_lookup_details :: "json \<Rightarrow> unit res" where
  "decode_lookup_details v = check_details non_empty_string v"

definition decode_lookup_public_error :: "json \<Rightarrow> string res" where
  "decode_lookup_public_error payload =
     guarded lookup_protocol_error (
       res_bind (closed_object payload ERROR_ENVELOPE_FIELDS ''error envelope'') (\<lambda>envelope.
       res_bind (field envelope ''error'') (\<lambda>error.
       res_bind (json_dict error ''error'') (\<lambda>error.
       res_bind (non_empty_string (get_field error ''code'') ''error.code'') (\<lambda>code.
       if code = ''validation_failed''
       then res_bind (require_exact_fields error [''code'', ''message'', ''details''] ''error'') (\<lambda>_.
            res_bind (field error ''message'') (\<lambda>message.
            res_bind (non_empty_string message ''error.message'') (\<lambda>_.
            res_bind (field error ''details'') (\<lambda>details.
            res_bind (decode_lookup_details details) (\<lambda>_.
            Inr code)))))
       else if code \<in> {''unknown_trade_cycle_binding'', ''unsupported_exchange_scope''}
       then res_bind (require_exact_fields error ERROR_OBJECT_FIELDS ''error'') (\<lambda>_.
            res_bind (field error ''message'') (\<lambda>message.
            res_bind (non_empty_string message ''error.message'') (\<lambda>_.
            Inr code)))
       else Inl (ValueError ''undocumented open-position error code''))))))"

definition decode_lookup_internal_error :: "string \<Rightarrow> json \<Rightarrow> string res" where
  "decode_lookup_internal_error expected_code payload = error_envelope lookup_protocol_error expected_code payload"

text \<open>The codec's own content-type check and strict loader.\<close>

definition lookup_payload :: "(string \<Rightarrow> string) \<Rightarrow> http_response \<Rightarrow> json res" where [simp]:
  "lookup_payload ft response = load_payload ft lookup_protocol_error response"

definition decode_open_position_response :: "(string \<Rightarrow> string) \<Rightarrow> http_response \<Rightarrow> OpenPositionLookupResponse res" where
  "decode_open_position_response ft response =
     res_bind (lookup_payload ft response) (\<lambda>payload.
     if hr_status_code response = 200 then decode_lookup_success payload
     else if hr_status_code response = 422
     then res_bind (decode_lookup_public_error payload) (\<lambda>code.
          Inl (OpenPositionResolutionError (OpenPositionLookupPublicError (hr_status_code response) code)))
     else if hr_status_code response = 503
     then res_bind (decode_lookup_internal_error ''execution_not_ready'' payload) (\<lambda>_.
          Inl (OpenPositionResolutionError OpenPositionLookupExecutionNotReady))
     else if hr_status_code response = 500
     then res_bind (decode_lookup_internal_error ''internal_error'' payload) (\<lambda>_.
          Inl (OpenPositionResolutionError OpenPositionLookupUnavailable))
     else Inl lookup_protocol_error)"

definition open_position_path :: "string \<Rightarrow> string \<Rightarrow> string" where
  "open_position_path strategy_instance_id trade_cycle_id =
     trade_cycle_path strategy_instance_id trade_cycle_id ''/open-position''"

definition http_lookup ::
    "(string \<Rightarrow> string) \<Rightarrow> 'e transport \<Rightarrow> OpenPositionLookupRequest \<Rightarrow> ('e, OpenPositionLookupResponse) prog" where
  "http_lookup ft transport request =
     bindp (attempt_request transport
       \<lparr>hq_method = ''GET'',
        hq_path = open_position_path (oplr_strategy_instance_id request) (oplr_trade_cycle_id request), hq_body = None\<rparr>
       (OpenPositionResolutionError OpenPositionLookupTimeout)
       (OpenPositionResolutionError OpenPositionLookupNetworkFailure)) (\<lambda>response.
     lift_res (decode_open_position_response ft response))"

section \<open>Position management\<close>

abbreviation management_protocol_error :: exn where
  "management_protocol_error \<equiv> PositionManagementExecutionError PositionManagementExecutionProtocolError"

definition PROTECTION_SUCCESS_FIELDS :: "string list" where
  "PROTECTION_SUCCESS_FIELDS = [''strategy_instance_id'', ''trade_cycle_id'', ''status'', ''stop_price'',
     ''take_price'', ''protection_orders'']"

definition PROTECTION_ORDERS_FIELDS :: "string list" where
  "PROTECTION_ORDERS_FIELDS = [''quantity'', ''stop'', ''take'']"

definition PROTECTION_ORDER_FIELDS :: "string list" where
  "PROTECTION_ORDER_FIELDS = [''order_id'', ''trigger_price'']"

definition CLOSE_SUCCESS_FIELDS :: "string list" where
  "CLOSE_SUCCESS_FIELDS = [''strategy_instance_id'', ''trade_cycle_id'', ''status'']"

definition ENTRY_REMAINDER_SUCCESS_FIELDS :: "string list" where
  "ENTRY_REMAINDER_SUCCESS_FIELDS = [''strategy_instance_id'', ''trade_cycle_id'', ''status'', ''executed_quantity'']"

definition APPLY_PROTECTION_PUBLIC_CODES :: "(int \<times> string list) list" where
  "APPLY_PROTECTION_PUBLIC_CODES =
     [(400, [''malformed_json'']), (415, [''unsupported_media_type'']),
      (422, [''validation_failed'', ''unknown_trade_cycle_binding'', ''unsupported_exchange_scope'', ''position_not_open''])]"

definition CLOSE_POSITION_PUBLIC_CODES :: "(int \<times> string list) list" where
  "CLOSE_POSITION_PUBLIC_CODES =
     [(422, [''validation_failed'', ''unknown_trade_cycle_binding'', ''unsupported_exchange_scope'',
             ''close_execution_incomplete''])]"

definition ENTRY_REMAINDER_PUBLIC_CODES :: "(int \<times> string list) list" where
  "ENTRY_REMAINDER_PUBLIC_CODES =
     [(400, [''malformed_json'']), (415, [''unsupported_media_type'']),
      (422, [''validation_failed'', ''unknown_trade_cycle_binding'', ''entry_not_filled''])]"

definition positive_exact_decimal_string :: "json \<Rightarrow> string \<Rightarrow> string res" where
  "positive_exact_decimal_string v name =
     res_bind (wire_string v name) (\<lambda>t.
     if is_positive_exact_decimal_text t then Inr t
     else Inl (ValueError (name @ '' must be positive exact-decimal text'')))"

definition optional_positive_exact_decimal_string :: "json \<Rightarrow> string \<Rightarrow> string option res" where
  "optional_positive_exact_decimal_string v name = nullable (\<lambda>v. positive_exact_decimal_string v name) v"

definition decode_protection_order :: "string \<Rightarrow> json \<Rightarrow> ProtectionOrder res" where
  "decode_protection_order name v =
     res_bind (closed_object v PROTECTION_ORDER_FIELDS name) (\<lambda>body.
     res_bind (field body ''order_id'') (\<lambda>order_id.
     res_bind (non_empty_string order_id ''order_id'') (\<lambda>order_id.
     res_bind (field body ''trigger_price'') (\<lambda>price.
     res_bind (positive_exact_decimal_string price ''trigger_price'') (\<lambda>price.
     new_ProtectionOrder \<lparr>po_order_id = order_id, po_trigger_price = price\<rparr>)))))"

definition decode_protection_orders :: "json \<Rightarrow> ProtectionOrders res" where
  "decode_protection_orders v =
     res_bind (closed_object v PROTECTION_ORDERS_FIELDS ''protection_orders'') (\<lambda>body.
     res_bind (field body ''quantity'') (\<lambda>quantity.
     res_bind (positive_exact_decimal_string quantity ''protection_orders.quantity'') (\<lambda>quantity.
     res_bind (field body ''stop'') (\<lambda>stop.
     res_bind (decode_protection_order ''protection_orders.stop'' stop) (\<lambda>stop.
     res_bind (field body ''take'') (\<lambda>take_order.
     res_bind (decode_protection_order ''protection_orders.take'' take_order) (\<lambda>take_order.
     new_ProtectionOrders \<lparr>pos_quantity = quantity, pos_stop = stop, pos_take = take_order\<rparr>)))))))"

definition decode_protection_body :: "json \<Rightarrow> ((string \<times> string) \<times> (string \<times> string option) \<times> ProtectionOrders) res" where
  "decode_protection_body payload =
     res_bind (closed_object payload PROTECTION_SUCCESS_FIELDS ''success response'') (\<lambda>body.
     res_bind (field body ''status'') (\<lambda>status.
     if status \<noteq> JStr ''protection_applied'' then Inl (ValueError ''success status is not protection_applied'')
     else
       res_bind (decode_identity body) (\<lambda>ident.
       res_bind (field body ''stop_price'') (\<lambda>stop_price.
       res_bind (positive_exact_decimal_string stop_price ''stop_price'') (\<lambda>stop_price.
       res_bind (field body ''take_price'') (\<lambda>take_price.
       res_bind (optional_positive_exact_decimal_string take_price ''take_price'') (\<lambda>take_price.
       res_bind (field body ''protection_orders'') (\<lambda>orders.
       res_bind (decode_protection_orders orders) (\<lambda>orders.
       Inr (ident, (stop_price, take_price), orders))))))))))"

text \<open>The two constructors at the end are outside the \<open>try\<close>.\<close>

definition decode_protection_success :: "json \<Rightarrow> ApplyProtectionCommand \<Rightarrow> ProtectionAppliedConfirmation res" where
  "decode_protection_success payload command =
     res_bind (guarded management_protocol_error (decode_protection_body payload))
       (\<lambda>((i, cid), (stop_price, take_price), orders).
     if i \<noteq> apc_strategy_instance_id command \<or> cid \<noteq> apc_trade_cycle_id command \<or>
        stop_price \<noteq> dp_stop_price (apc_desired_protection command) \<or>
        take_price \<noteq> dp_take_price (apc_desired_protection command)
     then Inl management_protocol_error
     else
       res_bind (new_DesiredProtection \<lparr>dp_stop_price = stop_price, dp_take_price = take_price\<rparr>) (\<lambda>protection.
       new_ProtectionAppliedConfirmation
         \<lparr>pac_strategy_instance_id = i, pac_trade_cycle_id = cid, pac_confirmed_protection = protection,
          pac_protection_orders = orders\<rparr>))"

definition decode_close_success :: "json \<Rightarrow> ClosePositionCommand \<Rightarrow> PositionClosedConfirmation res" where
  "decode_close_success payload command =
     res_bind (guarded management_protocol_error (
       let keys = (case payload of
                     JObj d \<Rightarrow> if ''closure'' \<in> set (map fst d) then CLOSE_SUCCESS_FIELDS @ [''closure''] else CLOSE_SUCCESS_FIELDS
                   | _ \<Rightarrow> CLOSE_SUCCESS_FIELDS) in
       res_bind (closed_object payload keys ''success response'') (\<lambda>body.
       res_bind (field body ''status'') (\<lambda>status.
       if status \<noteq> JStr ''trade_cycle_closed'' then Inl (ValueError ''success status is not trade_cycle_closed'')
       else
         res_bind (decode_identity body) (\<lambda>(i, cid).
         res_bind (decode_optional_closure body) (\<lambda>closure.
         new_PositionClosedConfirmation
           \<lparr>pcc_strategy_instance_id = i, pcc_trade_cycle_id = cid, pcc_closure = closure\<rparr>)))))) (\<lambda>confirmation.
     if pcc_strategy_instance_id confirmation \<noteq> cpc_strategy_instance_id command \<or>
        pcc_trade_cycle_id confirmation \<noteq> cpc_trade_cycle_id command
     then Inl management_protocol_error
     else Inr confirmation)"

definition decode_remainder_success :: "json \<Rightarrow> string \<Rightarrow> string \<Rightarrow> EntryRemainderCancelConfirmation res" where
  "decode_remainder_success payload strategy_instance_id trade_cycle_id =
     res_bind (guarded management_protocol_error (
       res_bind (closed_object payload ENTRY_REMAINDER_SUCCESS_FIELDS ''success response'') (\<lambda>body.
       res_bind (decode_identity body) (\<lambda>(i, cid).
       res_bind (field body ''status'') (\<lambda>status.
       res_bind (wire_string status ''status'') (\<lambda>status.
       res_bind (field body ''executed_quantity'') (\<lambda>quantity.
       res_bind (optional_positive_exact_decimal_string quantity ''executed_quantity'') (\<lambda>quantity.
       new_EntryRemainderCancelConfirmation
         \<lparr>ercc_strategy_instance_id = i, ercc_trade_cycle_id = cid, ercc_status = status,
          ercc_executed_quantity = quantity\<rparr>)))))))) (\<lambda>confirmation.
     if ercc_strategy_instance_id confirmation \<noteq> strategy_instance_id \<or>
        ercc_trade_cycle_id confirmation \<noteq> trade_cycle_id
     then Inl management_protocol_error
     else Inr confirmation)"

definition decode_management_details :: "json \<Rightarrow> unit res" where
  "decode_management_details v = check_details wire_string v"

definition public_error_code :: "json \<Rightarrow> string list \<Rightarrow> string res" where
  "public_error_code payload allowed_codes =
     res_bind (closed_object payload ERROR_ENVELOPE_FIELDS ''error envelope'') (\<lambda>envelope.
     res_bind (field envelope ''error'') (\<lambda>error.
     res_bind (json_dict error ''error object'') (\<lambda>error.
     res_bind (non_empty_string (get_field error ''code'') ''error.code'') (\<lambda>code.
     if code \<notin> set allowed_codes then Inl (ValueError ''undocumented error code'')
     else if code = ''validation_failed''
     then res_bind (require_exact_fields error [''code'', ''message'', ''details''] ''error'') (\<lambda>_.
          res_bind (field error ''message'') (\<lambda>message.
          res_bind (non_empty_string message ''error.message'') (\<lambda>_.
          res_bind (field error ''details'') (\<lambda>details.
          res_bind (decode_management_details details) (\<lambda>_.
          Inr code)))))
     else res_bind (require_exact_fields error ERROR_OBJECT_FIELDS ''error'') (\<lambda>_.
          res_bind (field error ''message'') (\<lambda>message.
          res_bind (non_empty_string message ''error.message'') (\<lambda>_.
          Inr code)))))))"

definition raise_public_error :: "int \<Rightarrow> json \<Rightarrow> string list \<Rightarrow> 'a res" where
  "raise_public_error status_code payload allowed_codes =
     res_bind (guarded management_protocol_error (public_error_code payload allowed_codes)) (\<lambda>code.
     Inl (PositionManagementExecutionError (PositionManagementExecutionPublicError status_code code)))"

definition decode_management_internal_error :: "string \<Rightarrow> json \<Rightarrow> string res" where
  "decode_management_internal_error expected_code payload =
     error_envelope management_protocol_error expected_code payload"

text \<open>The codec's own content-type check and strict loader.\<close>

definition management_payload :: "(string \<Rightarrow> string) \<Rightarrow> http_response \<Rightarrow> json res" where [simp]:
  "management_payload ft response = load_payload ft management_protocol_error response"

text \<open>What the three response decoders share after a success.\<close>

definition management_response ::
    "(string \<Rightarrow> string) \<Rightarrow> http_response \<Rightarrow> (json \<Rightarrow> 'a res) \<Rightarrow> (int \<times> string list) list \<Rightarrow> 'a res" where
  "management_response ft response decode_body public_codes =
     res_bind (management_payload ft response) (\<lambda>payload.
     if hr_status_code response = 200 then decode_body payload
     else if hr_status_code response = 503
     then res_bind (decode_management_internal_error ''execution_not_ready'' payload) (\<lambda>_.
          Inl (PositionManagementExecutionError PositionManagementExecutionNotReady))
     else if hr_status_code response = 500
     then res_bind (decode_management_internal_error ''internal_error'' payload) (\<lambda>_.
          Inl (PositionManagementExecutionError PositionManagementExecutionUnavailable))
     else case map_of public_codes (hr_status_code response) of
       Some allowed_codes \<Rightarrow> raise_public_error (hr_status_code response) payload allowed_codes
     | None \<Rightarrow> Inl management_protocol_error)"

definition decode_apply_protection_response ::
    "(string \<Rightarrow> string) \<Rightarrow> http_response \<Rightarrow> ApplyProtectionCommand \<Rightarrow> ProtectionAppliedConfirmation res" where
  "decode_apply_protection_response ft response command =
     management_response ft response (\<lambda>payload. decode_protection_success payload command) APPLY_PROTECTION_PUBLIC_CODES"

definition decode_close_position_response ::
    "(string \<Rightarrow> string) \<Rightarrow> http_response \<Rightarrow> ClosePositionCommand \<Rightarrow> PositionClosedConfirmation res" where
  "decode_close_position_response ft response command =
     management_response ft response (\<lambda>payload. decode_close_success payload command) CLOSE_POSITION_PUBLIC_CODES"

definition decode_cancel_entry_remainder_response ::
    "(string \<Rightarrow> string) \<Rightarrow> http_response \<Rightarrow> string \<Rightarrow> string \<Rightarrow> EntryRemainderCancelConfirmation res" where
  "decode_cancel_entry_remainder_response ft response strategy_instance_id trade_cycle_id =
     management_response ft response (\<lambda>payload. decode_remainder_success payload strategy_instance_id trade_cycle_id)
       ENTRY_REMAINDER_PUBLIC_CODES"

definition protection_path :: "string \<Rightarrow> string \<Rightarrow> string" where
  "protection_path strategy_instance_id trade_cycle_id =
     trade_cycle_path strategy_instance_id trade_cycle_id ''/protection''"

definition close_path :: "string \<Rightarrow> string \<Rightarrow> string" where
  "close_path strategy_instance_id trade_cycle_id = trade_cycle_path strategy_instance_id trade_cycle_id ''/close''"

definition entry_remainder_cancel_path :: "string \<Rightarrow> string \<Rightarrow> string" where
  "entry_remainder_cancel_path strategy_instance_id trade_cycle_id =
     trade_cycle_path strategy_instance_id trade_cycle_id ''/entry-remainder/cancel''"

definition http_apply_protection ::
    "(string \<Rightarrow> string) \<Rightarrow> 'e transport \<Rightarrow> ApplyProtectionCommand \<Rightarrow> ('e, ProtectionAppliedConfirmation) prog" where
  "http_apply_protection ft transport command =
     bindp (attempt_request transport
       \<lparr>hq_method = ''PUT'', hq_path = protection_path (apc_strategy_instance_id command) (apc_trade_cycle_id command),
        hq_body = Some (JObj [(''stop_price'', JStr (dp_stop_price (apc_desired_protection command))),
                              (''take_price'', null_or_text (dp_take_price (apc_desired_protection command)))])\<rparr>
       (PositionManagementExecutionError PositionManagementExecutionTimeout)
       (PositionManagementExecutionError PositionManagementExecutionNetworkFailure)) (\<lambda>response.
     lift_res (decode_apply_protection_response ft response command))"

definition http_close_position ::
    "(string \<Rightarrow> string) \<Rightarrow> 'e transport \<Rightarrow> ClosePositionCommand \<Rightarrow> ('e, PositionClosedConfirmation) prog" where
  "http_close_position ft transport command =
     bindp (attempt_request transport
       \<lparr>hq_method = ''POST'', hq_path = close_path (cpc_strategy_instance_id command) (cpc_trade_cycle_id command),
        hq_body = Some (JObj [(''exposure_fraction'', JStr (cpc_exposure_fraction command))])\<rparr>
       (PositionManagementExecutionError PositionManagementExecutionTimeout)
       (PositionManagementExecutionError PositionManagementExecutionNetworkFailure)) (\<lambda>response.
     lift_res (decode_close_position_response ft response command))"

definition http_cancel_entry_remainder ::
    "(string \<Rightarrow> string) \<Rightarrow> 'e transport \<Rightarrow> string \<Rightarrow> string \<Rightarrow> ('e, EntryRemainderCancelConfirmation) prog" where
  "http_cancel_entry_remainder ft transport strategy_instance_id trade_cycle_id =
     bindp (attempt_request transport
       \<lparr>hq_method = ''POST'', hq_path = entry_remainder_cancel_path strategy_instance_id trade_cycle_id,
        hq_body = Some (JObj [])\<rparr>
       (PositionManagementExecutionError PositionManagementExecutionTimeout)
       (PositionManagementExecutionError PositionManagementExecutionNetworkFailure)) (\<lambda>response.
     lift_res (decode_cancel_entry_remainder_response ft response strategy_instance_id trade_cycle_id))"


section \<open>Failing closed\<close>

lemma abi_parts_caught [caught_rules]:
  "raises_caught (require_none v name)" "raises_caught (wire_bool v name)" "raises_caught (optional_int v name)"
  "raises_caught (positive_exact_decimal_string v name)"
  unfolding optional_int_def positive_exact_decimal_string_def
  by (simp add: require_none_def, simp add: wire_bool_def split: json.split, intro caught_rules, intro caught_rules)

lemma normalize_caught [caught_rules]: "raises_caught (normalize_decimal_text v)"
  by (auto simp: normalize_decimal_text_def split: option.splits decimal.splits)

lemma abi_constructors_caught [caught_rules]:
  "raises_caught (new_RecoveryStateAppliedEntryPackage p)" "raises_caught (new_PositionOpenRecoveryState q)"
  "raises_caught (new_TradeCycleClosure c)" "raises_caught (new_ProtectionOrder o1)"
  "raises_caught (new_ProtectionOrders o2)" "raises_caught (new_PositionClosedConfirmation k)"
  "raises_caught (new_EntryRemainderCancelConfirmation r)"
  by (auto simp: new_RecoveryStateAppliedEntryPackage_def new_PositionOpenRecoveryState_def new_TradeCycleClosure_def
      new_ProtectionOrder_def new_ProtectionOrders_def new_PositionClosedConfirmation_def
      new_EntryRemainderCancelConfirmation_def intro!: raises_caught_checked split: option.split)

lemma new_lookup_caught [caught_rules]: "raises_caught (new_OpenPositionLookupResponse r)"
  unfolding new_OpenPositionLookupResponse_def
  by (auto intro!: raises_caught_bind normalize_caught split: option.split)

lemma abi_decoders_caught [caught_rules]:
  "raises_caught (decode_recovered_package v)" "raises_caught (decode_closure d)"
  "raises_caught (optional_positive_exact_decimal_string v name)" "raises_caught (decode_protection_order name v)"
  unfolding decode_recovered_package_def decode_closure_def optional_positive_exact_decimal_string_def
    decode_protection_order_def
  by (intro caught_rules)+

lemma decode_optional_closure_caught [caught_rules]: "raises_caught (decode_optional_closure d)"
  by (auto simp: decode_optional_closure_def intro!: caught_rules split: option.split json.split)

lemma recovery_state_caught [caught_rules]: "raises_caught (recovery_state_of a b c d e f)"
  unfolding recovery_state_of_def by (intro caught_rules)

lemma decode_protection_orders_caught [caught_rules]: "raises_caught (decode_protection_orders v)"
  unfolding decode_protection_orders_def by (intro caught_rules)

lemma decode_protection_body_caught: "raises_caught (decode_protection_body v)"
  unfolding decode_protection_body_def by (intro caught_rules)

lemma check_details_caught [caught_rules]:
  "(\<And>v name. raises_caught (f v name)) \<Longrightarrow> raises_caught (check_details f v)"
  unfolding check_details_def by (cases v) (auto intro!: caught_rules)

lemma error_envelope_error: "error_envelope err code v = Inl e \<Longrightarrow> e = err"
  unfolding error_envelope_def by (erule guarded_error) (intro caught_rules)

lemma decode_recovery_success_error: "decode_recovery_success v = Inl e \<Longrightarrow> e = recovery_protocol_error"
  unfolding decode_recovery_success_def by (erule guarded_error) (intro caught_rules)

lemma decode_lookup_success_error: "decode_lookup_success v = Inl e \<Longrightarrow> e = lookup_protocol_error"
  unfolding decode_lookup_success_def by (erule guarded_error) (intro caught_rules)

lemma decode_lookup_public_error_error: "decode_lookup_public_error v = Inl e \<Longrightarrow> e = lookup_protocol_error"
  unfolding decode_lookup_public_error_def decode_lookup_details_def
  by (erule guarded_error) (intro caught_rules)

text \<open>The errors of a client, each with the status that documents it.\<close>

lemma recovery_response_error:
  assumes "decode_recovery_state_response ft response = Inl e"
  shows "e = recovery_protocol_error \<or>
    (\<exists>x. e = AbiEntryCycleRecoveryClientError x \<and>
      (hr_status_code response, x) \<in> {(422, AbiEntryCycleRecoveryUnknownTradeCycleBinding),
        (503, AbiEntryCycleRecoveryExecutionNotReady), (500, AbiEntryCycleRecoveryUnavailable)})"
  using assms
  by (auto simp: decode_recovery_state_response_def decode_recovery_error_envelope_def res_bind_eq_Inl split: if_splits
      dest: load_payload_error decode_recovery_success_error error_envelope_error)

lemma lookup_response_error:
  assumes "decode_open_position_response ft response = Inl e"
  shows "e = lookup_protocol_error \<or>
    (\<exists>x. e = OpenPositionResolutionError x \<and>
      ((hr_status_code response, x) \<in> {(503, OpenPositionLookupExecutionNotReady), (500, OpenPositionLookupUnavailable)} \<or>
       hr_status_code response = 422 \<and> (\<exists>code. x = OpenPositionLookupPublicError 422 code)))"
  using assms
  by (auto simp: decode_open_position_response_def decode_lookup_internal_error_def res_bind_eq_Inl split: if_splits
      dest: load_payload_error decode_lookup_success_error decode_lookup_public_error_error error_envelope_error)

lemma public_error_code_caught: "raises_caught (public_error_code payload codes)"
  unfolding public_error_code_def decode_management_details_def by (intro caught_rules)

lemma public_error_code_allowed: "public_error_code payload codes = Inr code \<Longrightarrow> code \<in> set codes"
  by (auto simp: public_error_code_def res_bind_eq_Inr split: if_splits)

lemma raise_public_error_error:
  assumes "raise_public_error status payload codes = Inl e"
  shows "e = management_protocol_error \<or>
    (\<exists>code \<in> set codes. e = PositionManagementExecutionError (PositionManagementExecutionPublicError status code))"
  using assms
  by (auto simp: raise_public_error_def res_bind_eq_Inl dest: guarded_error [OF _ public_error_code_caught]
      public_error_code_allowed)

lemma management_response_error:
  assumes "management_response ft response decode_body codes = Inl e"
    and "\<And>v e. decode_body v = Inl e \<Longrightarrow> e = management_protocol_error"
  shows "e = management_protocol_error \<or>
    (\<exists>x. e = PositionManagementExecutionError x \<and>
      ((hr_status_code response, x) \<in> {(503, PositionManagementExecutionNotReady), (500, PositionManagementExecutionUnavailable)} \<or>
       (\<exists>allowed code. map_of codes (hr_status_code response) = Some allowed \<and> code \<in> set allowed \<and>
          x = PositionManagementExecutionPublicError (hr_status_code response) code)))"
proof -
  from assms(1) consider "load_payload ft management_protocol_error response = Inl e"
    | v where "hr_status_code response = 200" "decode_body v = Inl e"
    | v code where "decode_management_internal_error code v = Inl e"
    | "hr_status_code response = 503" "e = PositionManagementExecutionError PositionManagementExecutionNotReady"
    | "hr_status_code response = 500" "e = PositionManagementExecutionError PositionManagementExecutionUnavailable"
    | v allowed where "map_of codes (hr_status_code response) = Some allowed"
        "raise_public_error (hr_status_code response) v allowed = (Inl e :: 'a res)"
    | "e = management_protocol_error"
    by (auto simp: management_response_def res_bind_eq_Inl split: if_splits option.splits)
  then show ?thesis
  proof cases
    case (6 v allowed)
    from raise_public_error_error [OF 6(2)] 6(1) show ?thesis by auto
  qed (auto simp: decode_management_internal_error_def dest: load_payload_error assms(2) error_envelope_error)
qed

lemma protection_success_error:
  assumes "decode_protection_success v command = Inl e" and "wf_protection (apc_desired_protection command)"
  shows "e = management_protocol_error"
proof -
  from assms(1) consider "guarded management_protocol_error (decode_protection_body v) = Inl e" | "e = management_protocol_error"
    | i cid p orders where "decode_protection_body v = Inr ((i, cid), (dp_stop_price p, dp_take_price p), orders)"
        "p = apc_desired_protection command"
        "res_bind (new_DesiredProtection \<lparr>dp_stop_price = dp_stop_price p, dp_take_price = dp_take_price p\<rparr>) (\<lambda>protection.
           new_ProtectionAppliedConfirmation
             \<lparr>pac_strategy_instance_id = i, pac_trade_cycle_id = cid, pac_confirmed_protection = protection,
              pac_protection_orders = orders\<rparr>) = Inl e"
    by (auto simp: decode_protection_success_def res_bind_eq_Inl split: if_splits)
  then show ?thesis
  proof cases
    case (3 i cid p orders)
    then have "new_DesiredProtection p = Inr p" using assms(2) by (simp add: new_DesiredProtection_id)
    moreover from 3(1) have "i \<noteq> []" "cid \<noteq> []"
      by (auto simp: decode_protection_body_def decode_identity_def res_bind_eq_Inr split: if_splits)
    ultimately show ?thesis
      using 3(3) by (cases p) (simp add: new_ProtectionAppliedConfirmation_def checked.simps require_non_empty_def)
  qed (use guarded_error [OF _ decode_protection_body_caught] in blast)+
qed

lemma close_success_error: "decode_close_success v command = Inl e \<Longrightarrow> e = management_protocol_error"
  unfolding decode_close_success_def Let_def
  by (erule res_bind_eq_Inl [THEN iffD1, THEN disjE], erule guarded_error, intro caught_rules) (auto split: if_splits)

lemma remainder_success_error: "decode_remainder_success v i cid = Inl e \<Longrightarrow> e = management_protocol_error"
  unfolding decode_remainder_success_def
  by (erule res_bind_eq_Inl [THEN iffD1, THEN disjE], erule guarded_error, intro caught_rules) (auto split: if_splits)

section \<open>Accepted answers\<close>

lemma new_abi_id:
  "new_RecoveryStateAppliedEntryPackage p = Inr p' \<Longrightarrow> p' = p" "new_PositionOpenRecoveryState q = Inr q' \<Longrightarrow> q' = q"
  "new_TradeCycleClosure c = Inr c' \<Longrightarrow> c' = c" "new_ProtectionOrder o1 = Inr o1' \<Longrightarrow> o1' = o1"
  "new_ProtectionOrders o2 = Inr o2' \<Longrightarrow> o2' = o2" "new_PositionClosedConfirmation k = Inr k' \<Longrightarrow> k' = k"
  "new_EntryRemainderCancelConfirmation r = Inr r' \<Longrightarrow> r' = r" "new_ProtectionAppliedConfirmation a = Inr a' \<Longrightarrow> a' = a"
  by (auto simp: new_RecoveryStateAppliedEntryPackage_def new_PositionOpenRecoveryState_def new_TradeCycleClosure_def
      new_ProtectionOrder_def new_ProtectionOrders_def new_PositionClosedConfirmation_def
      new_EntryRemainderCancelConfirmation_def new_ProtectionAppliedConfirmation_def checked_iff split: if_splits)

lemma decode_recovered_package_constructed:
  assumes "decode_recovered_package v = Inr p"
  shows "new_EntryPackageWireDesiredEntry (rap_applied_desired_entry p) = Inr (rap_applied_desired_entry p)"
    "new_RecoveryStateAppliedEntryPackage p = Inr p"
proof -
  from assms obtain w d q where "decode_wire_desired_entry w = Inr d"
      "new_RecoveryStateAppliedEntryPackage \<lparr>rap_applied_desired_entry = d, rap_calculated_quantity = q\<rparr> = Inr p"
    by (auto simp: decode_recovered_package_def res_bind_eq_Inr)
  with new_abi_id(1) [OF this(2)] decode_wire_desired_entry_constructed [OF this(1)]
  show "new_EntryPackageWireDesiredEntry (rap_applied_desired_entry p) = Inr (rap_applied_desired_entry p)"
    "new_RecoveryStateAppliedEntryPackage p = Inr p" by simp_all
qed

lemma recovery_state_constructed:
  assumes "recovery_state_of s a b c d f = Inr r"
  shows "new_RecoveryStateResponse r = Inr r"
proof (cases r)
  case (EntryOrderLiveRecoveryState p)
  with assms have "decode_recovered_package a = Inr p" by (auto simp: recovery_state_of_def res_bind_eq_Inr split: if_splits)
  with EntryOrderLiveRecoveryState decode_recovered_package_constructed show ?thesis by (simp add: new_RecoveryStateResponse_def)
next
  case (PositionOpenRecovery p)
  with assms obtain x i j k l where p': "decode_recovered_package a = Inr x"
      "new_PositionOpenRecoveryState \<lparr>por_applied_entry_package = x, por_first_fill_at_ms = i,
         por_average_entry_price = j, por_entry_order_link_id = k, por_entry_order_id = l\<rparr> = Inr p"
    by (auto simp: recovery_state_of_def res_bind_eq_Inr split: if_splits)
  with new_abi_id(2) [OF p'(2)] PositionOpenRecovery decode_recovered_package_constructed [OF p'(1)]
  show ?thesis by (simp add: new_RecoveryStateResponse_def)
qed (simp_all add: new_RecoveryStateResponse_def)

lemma recovery_response_accepted:
  assumes "decode_recovery_state_response ft response = Inr r"
  shows "hr_status_code response = 200 \<and> new_RecoveryStateResponse r = Inr r"
proof -
  from assms obtain v where "hr_status_code response = 200" "decode_recovery_success v = Inr r"
    by (auto simp: decode_recovery_state_response_def res_bind_eq_Inr split: if_splits)
  then show ?thesis by (auto simp: decode_recovery_success_def res_bind_eq_Inr dest: recovery_state_constructed)
qed

lemma new_lookup_stable:
  assumes "new_OpenPositionLookupResponse u = Inr r"
  shows "new_OpenPositionLookupResponse r = Inr r"
proof (cases "opl_position_open u")
  case False
  with assms have "r = u" by (auto simp: new_OpenPositionLookupResponse_def split: if_splits)
  with assms show ?thesis by simp
next
  case True
  with assms obtain fill price t where u: "opl_closure u = None" "opl_first_fill_at_ms u = Some fill" "0 < fill"
      "opl_average_entry_price u = Some price" "is_positive_exact_decimal_text price" "present (opl_entry_order_link_id u)"
      "opl_entry_order_id u \<noteq> Some []" "normalize_decimal_text price = Inr t" "r = u\<lparr>opl_average_entry_price := Some t\<rparr>"
    by (auto simp: new_OpenPositionLookupResponse_def res_bind_eq_Inr split: if_splits option.splits)
  with True normalize_positive [OF u(5,8)] show ?thesis by (simp add: new_OpenPositionLookupResponse_def)
qed

lemma decode_closure_constructed: "decode_optional_closure d = Inr (Some c) \<Longrightarrow> new_TradeCycleClosure c = Inr c"
  using new_abi_id(3)
  by (fastforce simp: decode_optional_closure_def decode_closure_def res_bind_eq_Inr split: option.splits json.split_asm)

lemma lookup_response_accepted:
  assumes "decode_open_position_response ft response = Inr r"
  shows "hr_status_code response = 200 \<and> new_OpenPositionLookupResponse r = Inr r"
proof -
  from assms obtain v where v: "hr_status_code response = 200" "decode_lookup_success v = Inr r"
    by (auto simp: decode_open_position_response_def res_bind_eq_Inr split: if_splits)
  from v(2) obtain u where "new_OpenPositionLookupResponse u = Inr r"
    by (auto simp: decode_lookup_success_def res_bind_eq_Inr)
  with new_lookup_stable v(1) show ?thesis by blast
qed

lemma management_response_accepted:
  assumes "management_response ft response decode_body codes = Inr k"
  obtains v where "hr_status_code response = 200" "decode_body v = Inr k"
proof -
  have "raise_public_error status payload allowed \<noteq> Inr k" for status payload allowed
    by (auto simp: raise_public_error_def res_bind_eq_Inr)
  with assms that show thesis
    by (auto simp: management_response_def res_bind_eq_Inr split: if_splits option.splits)
qed

lemma decode_orders_constructed:
  assumes "decode_protection_orders v = Inr x"
  shows "new_ProtectionOrder (pos_stop x) = Inr (pos_stop x)" "new_ProtectionOrder (pos_take x) = Inr (pos_take x)"
    "new_ProtectionOrders x = Inr x"
proof -
  have order: "new_ProtectionOrder y = Inr y" if "decode_protection_order name w = Inr y" for name w y
    using that new_abi_id(4) by (fastforce simp: decode_protection_order_def res_bind_eq_Inr)
  from assms obtain a b n m q y z where "decode_protection_order n a = Inr y" "decode_protection_order m b = Inr z"
      "new_ProtectionOrders \<lparr>pos_quantity = q, pos_stop = y, pos_take = z\<rparr> = Inr x"
    by (auto simp: decode_protection_orders_def res_bind_eq_Inr)
  with order new_abi_id(5) [OF this(3)] show "new_ProtectionOrder (pos_stop x) = Inr (pos_stop x)"
      "new_ProtectionOrder (pos_take x) = Inr (pos_take x)" "new_ProtectionOrders x = Inr x" by auto
qed

lemma protection_response_accepted:
  assumes "decode_apply_protection_response ft response command = Inr k"
    and "wf_protection (apc_desired_protection command)"
  shows "hr_status_code response = 200" "pac_strategy_instance_id k = apc_strategy_instance_id command"
    "pac_trade_cycle_id k = apc_trade_cycle_id command" "pac_confirmed_protection k = apc_desired_protection command"
    "new_ProtectionOrder (pos_stop (pac_protection_orders k)) = Inr (pos_stop (pac_protection_orders k))"
    "new_ProtectionOrder (pos_take (pac_protection_orders k)) = Inr (pos_take (pac_protection_orders k))"
    "new_ProtectionOrders (pac_protection_orders k) = Inr (pac_protection_orders k)"
    "new_ProtectionAppliedConfirmation k = Inr k"
proof -
  let ?p = "apc_desired_protection command"
  from assms(1) obtain v where v: "hr_status_code response = 200" "decode_protection_success v command = Inr k"
    unfolding decode_apply_protection_response_def by (rule management_response_accepted) blast
  have "new_DesiredProtection ?p = Inr ?p" by (rule new_DesiredProtection_id [OF assms(2)])
  with v(2) obtain orders where b: "decode_protection_body v = Inr ((apc_strategy_instance_id command, apc_trade_cycle_id command),
      (dp_stop_price ?p, dp_take_price ?p), orders)"
    and n: "new_ProtectionAppliedConfirmation
      \<lparr>pac_strategy_instance_id = apc_strategy_instance_id command, pac_trade_cycle_id = apc_trade_cycle_id command,
       pac_confirmed_protection = ?p, pac_protection_orders = orders\<rparr> = Inr k"
    by (cases ?p) (auto simp: decode_protection_success_def res_bind_eq_Inr split: if_splits)
  from b obtain w where w: "decode_protection_orders w = Inr orders"
    by (auto simp: decode_protection_body_def res_bind_eq_Inr split: if_splits)
  note k = new_abi_id(8) [OF n]
  show "hr_status_code response = 200" "pac_strategy_instance_id k = apc_strategy_instance_id command"
    "pac_trade_cycle_id k = apc_trade_cycle_id command" "pac_confirmed_protection k = apc_desired_protection command"
    "new_ProtectionOrder (pos_stop (pac_protection_orders k)) = Inr (pos_stop (pac_protection_orders k))"
    "new_ProtectionOrder (pos_take (pac_protection_orders k)) = Inr (pos_take (pac_protection_orders k))"
    "new_ProtectionOrders (pac_protection_orders k) = Inr (pac_protection_orders k)"
    using v(1) decode_orders_constructed [OF w] by (simp_all add: k)
  show "new_ProtectionAppliedConfirmation k = Inr k" using n k by simp
qed

lemma close_response_accepted:
  assumes "decode_close_position_response ft response command = Inr k"
  shows "hr_status_code response = 200" "pcc_strategy_instance_id k = cpc_strategy_instance_id command"
    "pcc_trade_cycle_id k = cpc_trade_cycle_id command" "new_PositionClosedConfirmation k = Inr k"
    "\<And>c. pcc_closure k = Some c \<Longrightarrow> new_TradeCycleClosure c = Inr c"
proof -
  from assms obtain v where v: "hr_status_code response = 200" "decode_close_success v command = Inr k"
    unfolding decode_close_position_response_def by (rule management_response_accepted) blast
  from v(2) obtain i cid closure d where c: "decode_optional_closure d = Inr closure"
      "new_PositionClosedConfirmation \<lparr>pcc_strategy_instance_id = i, pcc_trade_cycle_id = cid, pcc_closure = closure\<rparr> = Inr k"
    and ids: "pcc_strategy_instance_id k = cpc_strategy_instance_id command" "pcc_trade_cycle_id k = cpc_trade_cycle_id command"
    by (auto simp: decode_close_success_def res_bind_eq_Inr Let_def split: if_splits)
  note k = new_abi_id(6) [OF c(2)]
  show "hr_status_code response = 200" "pcc_strategy_instance_id k = cpc_strategy_instance_id command"
    "pcc_trade_cycle_id k = cpc_trade_cycle_id command" using v(1) ids by simp_all
  show "new_PositionClosedConfirmation k = Inr k" using c(2) k by simp
  show "new_TradeCycleClosure x = Inr x" if "pcc_closure k = Some x" for x
    using that c(1) k by (auto dest: decode_closure_constructed)
qed

lemma remainder_response_accepted:
  assumes "decode_cancel_entry_remainder_response ft response i cid = Inr k"
  shows "hr_status_code response = 200" "ercc_strategy_instance_id k = i" "ercc_trade_cycle_id k = cid"
    "new_EntryRemainderCancelConfirmation k = Inr k"
proof -
  from assms obtain v where v: "hr_status_code response = 200" "decode_remainder_success v i cid = Inr k"
    unfolding decode_cancel_entry_remainder_response_def by (rule management_response_accepted) blast
  from v(2) obtain k' where c: "new_EntryRemainderCancelConfirmation k' = Inr k"
    and ids: "ercc_strategy_instance_id k = i" "ercc_trade_cycle_id k = cid"
    by (auto simp: decode_remainder_success_def res_bind_eq_Inr split: if_splits)
  show "hr_status_code response = 200" "ercc_strategy_instance_id k = i" "ercc_trade_cycle_id k = cid"
    using v(1) ids by simp_all
  show "new_EntryRemainderCancelConfirmation k = Inr k" using c new_abi_id(7) [OF c] by simp
qed

section \<open>Documented answers\<close>

lemma norm_null_or_int [simp]: "json_norm (null_or_int t) = null_or_int t"
  by (simp add: null_or_int_def split: option.split)

lemma null_or_ok_wire [simp]: "json_ok h (null_or_int t)" "(\<And>x. json_ok h (f x)) \<Longrightarrow> json_ok h (null_or f z)"
  by (simp_all add: null_or_int_def null_or_def split: option.split)

lemma optional_int_null [simp]: "optional_int (null_or_int t) name = Inr t"
  by (simp add: optional_int_def null_or_int_def split: option.split)

lemma optional_positive_text [simp]:
  "(\<And>x. t = Some x \<Longrightarrow> is_positive_exact_decimal_text x) \<Longrightarrow>
     optional_positive_exact_decimal_string (null_or_text t) name = Inr t"
  by (cases t) (simp_all add: optional_positive_exact_decimal_string_def positive_exact_decimal_string_def null_or_text_def)

lemma norm_null_or [simp]: "json_norm (null_or f t) = null_or (\<lambda>x. json_norm (f x)) t"
  by (simp add: null_or_def split: option.split)

definition recovered_package_body :: "RecoveryStateAppliedEntryPackage \<Rightarrow> json" where
  "recovered_package_body p =
     JObj [(''applied_desired_entry'', encode_wire_desired_entry (rap_applied_desired_entry p)),
           (''calculated_quantity'', JStr (rap_calculated_quantity p))]"

definition recovery_body :: "RecoveryStateResponse \<Rightarrow> json" where
  "recovery_body r =
     (let body = (\<lambda>state package fill price link order_id.
        JObj [(''recovery_state'', JStr state), (''applied_entry_package'', package), (''first_fill_at_ms'', fill),
              (''average_entry_price'', price), (''entry_order_link_id'', link), (''entry_order_id'', order_id)]) in
      case r of
        EntryOrderLiveRecoveryState p \<Rightarrow> body ''entry_order_live'' (recovered_package_body p) JNull JNull JNull JNull
      | EntryOrderNotFoundRecoveryState \<Rightarrow> body ''entry_order_not_found'' JNull JNull JNull JNull JNull
      | PositionOpenRecovery p \<Rightarrow>
          body ''position_open'' (recovered_package_body (por_applied_entry_package p)) (JInt (por_first_fill_at_ms p))
            (JStr (por_average_entry_price p)) (JStr (por_entry_order_link_id p)) (null_or_text (por_entry_order_id p))
      | TerminalWithoutFillRecoveryState \<Rightarrow> body ''terminal_without_fill'' JNull JNull JNull JNull JNull
      | TerminalAfterFillRecoveryState \<Rightarrow> body ''terminal_after_fill'' JNull JNull JNull JNull JNull)"

lemma decode_recovered_package_written [simp]:
  assumes "new_EntryPackageWireDesiredEntry (rap_applied_desired_entry p) = Inr (rap_applied_desired_entry p)"
    and "new_RecoveryStateAppliedEntryPackage p = Inr p"
  shows "decode_recovered_package (json_norm (recovered_package_body p)) = Inr p"
  using assms
  by (cases p) (simp add: decode_recovered_package_def recovered_package_body_def exact_norm_object field_norm_object
      RECOVERY_APPLIED_ENTRY_PACKAGE_FIELDS_def)

lemma recovered_package_ok [simp]: "json_ok h (recovered_package_body p)"
  by (simp add: recovered_package_body_def)

lemma decode_recovery_written:
  assumes "new_RecoveryStateResponse r = Inr r"
  shows "decode_recovery_state_response ft (json_response 200 (recovery_body r)) = Inr r"
proof (cases r)
  case (EntryOrderLiveRecoveryState p)
  then have "new_EntryPackageWireDesiredEntry (rap_applied_desired_entry p) = Inr (rap_applied_desired_entry p)"
      "new_RecoveryStateAppliedEntryPackage p = Inr p"
    using assms by (auto simp: new_RecoveryStateResponse_def res_bind_eq_Inr dest: constructed_entry new_abi_id)
  then show ?thesis
    by (simp add: EntryOrderLiveRecoveryState recovery_body_def Let_def decode_recovery_state_response_def
        decode_recovery_success_def exact_norm_object field_norm_object RECOVERY_SUCCESS_FIELDS_def recovery_state_of_def
        require_none_def)
next
  case (PositionOpenRecovery p)
  then have "new_EntryPackageWireDesiredEntry (rap_applied_desired_entry (por_applied_entry_package p)) =
      Inr (rap_applied_desired_entry (por_applied_entry_package p))"
      "new_RecoveryStateAppliedEntryPackage (por_applied_entry_package p) = Inr (por_applied_entry_package p)"
      "new_PositionOpenRecoveryState p = Inr p"
    using assms by (auto simp: new_RecoveryStateResponse_def res_bind_eq_Inr dest: constructed_entry new_abi_id)
  then show ?thesis
    by (cases p) (simp add: PositionOpenRecovery recovery_body_def Let_def decode_recovery_state_response_def
        decode_recovery_success_def exact_norm_object field_norm_object RECOVERY_SUCCESS_FIELDS_def recovery_state_of_def)
qed (simp_all add: recovery_body_def Let_def decode_recovery_state_response_def decode_recovery_success_def
      exact_norm_object field_norm_object RECOVERY_SUCCESS_FIELDS_def recovery_state_of_def require_none_def)


definition closure_body :: "TradeCycleClosure \<Rightarrow> json" where
  "closure_body c =
     JObj [(''strategy_instance_id'', JStr (tcc_strategy_instance_id c)), (''trade_cycle_id'', JStr (tcc_trade_cycle_id c)),
           (''reason'', JStr (tcc_reason c)), (''order_id'', JStr (tcc_order_id c)),
           (''order_link_id'', null_or_text (tcc_order_link_id c)),
           (''parent_order_link_id'', null_or_text (tcc_parent_order_link_id c))]"

definition lookup_body :: "OpenPositionLookupResponse \<Rightarrow> json" where
  "lookup_body r =
     JObj [(''position_open'', JBool (opl_position_open r)), (''first_fill_at_ms'', null_or_int (opl_first_fill_at_ms r)),
           (''average_entry_price'', null_or_text (opl_average_entry_price r)),
           (''closure'', null_or closure_body (opl_closure r)),
           (''entry_order_link_id'', null_or_text (opl_entry_order_link_id r)),
           (''entry_order_id'', null_or_text (opl_entry_order_id r))]"

lemma closure_body_ok [simp]: "json_ok h (closure_body c)"
  by (simp add: closure_body_def)

lemma decode_closure_written:
  assumes "distinct (map fst kvs)" and "map_of kvs ''closure'' = Some (null_or closure_body z)"
    and "\<And>c. z = Some c \<Longrightarrow> new_TradeCycleClosure c = Inr c"
  shows "decode_optional_closure (norm_object kvs) = Inr z"
proof (cases z)
  case None
  with assms(1,2) show ?thesis by (simp add: decode_optional_closure_def map_of_norm_object null_or_def)
next
  case (Some c)
  with assms show ?thesis
    by (cases c) (simp add: decode_optional_closure_def map_of_norm_object null_or_def closure_body_def decode_closure_def
        exact_norm_object field_norm_object CLOSURE_FIELDS_def)
qed

lemma decode_lookup_written:
  assumes "new_OpenPositionLookupResponse r = Inr r"
    and "\<And>c. opl_closure r = Some c \<Longrightarrow> new_TradeCycleClosure c = Inr c"
  shows "decode_open_position_response ft (json_response 200 (lookup_body r)) = Inr r"
  using assms
  by (cases r) (simp add: lookup_body_def decode_open_position_response_def decode_lookup_success_def exact_norm_object
      field_norm_object LOOKUP_SUCCESS_FIELDS_def wire_bool_def decode_closure_written)

definition order_body :: "ProtectionOrder \<Rightarrow> json" where
  "order_body x = JObj [(''order_id'', JStr (po_order_id x)), (''trigger_price'', JStr (po_trigger_price x))]"

definition protection_body :: "ProtectionAppliedConfirmation \<Rightarrow> json" where
  "protection_body k =
     JObj (success_body (pac_strategy_instance_id k) (pac_trade_cycle_id k) ''protection_applied'' @
       [(''stop_price'', JStr (dp_stop_price (pac_confirmed_protection k))),
        (''take_price'', null_or_text (dp_take_price (pac_confirmed_protection k))),
        (''protection_orders'',
          JObj [(''quantity'', JStr (pos_quantity (pac_protection_orders k))),
                (''stop'', order_body (pos_stop (pac_protection_orders k))),
                (''take'', order_body (pos_take (pac_protection_orders k)))])])"

lemma decode_order_written:
  "new_ProtectionOrder x = Inr x \<Longrightarrow> decode_protection_order name (json_norm (order_body x)) = Inr x"
  by (cases x) (auto simp: decode_protection_order_def order_body_def exact_norm_object field_norm_object
      PROTECTION_ORDER_FIELDS_def positive_exact_decimal_string_def new_ProtectionOrder_def checked.simps
      res_bind_eq_Inr)

lemma order_body_ok [simp]: "json_ok h (order_body x)"
  by (simp add: order_body_def)

text \<open>A confirmation of a command: its own identity and protection, constructed orders.\<close>

definition confirms_protection :: "ApplyProtectionCommand \<Rightarrow> ProtectionAppliedConfirmation \<Rightarrow> bool" where
  "confirms_protection command k \<longleftrightarrow>
     pac_strategy_instance_id k = apc_strategy_instance_id command \<and> pac_trade_cycle_id k = apc_trade_cycle_id command \<and>
     pac_confirmed_protection k = apc_desired_protection command \<and> new_ProtectionAppliedConfirmation k = Inr k \<and>
     new_ProtectionOrders (pac_protection_orders k) = Inr (pac_protection_orders k) \<and>
     new_ProtectionOrder (pos_stop (pac_protection_orders k)) = Inr (pos_stop (pac_protection_orders k)) \<and>
     new_ProtectionOrder (pos_take (pac_protection_orders k)) = Inr (pos_take (pac_protection_orders k))"

lemma decode_protection_written:
  assumes "confirms_protection command k" and "wf_protection (apc_desired_protection command)"
    and "is_positive_exact_decimal_text (dp_stop_price (apc_desired_protection command))"
    and "\<And>t. dp_take_price (apc_desired_protection command) = Some t \<Longrightarrow> is_positive_exact_decimal_text t"
  shows "decode_apply_protection_response ft (json_response 200 (protection_body k)) command = Inr k"
proof -
  let ?o = "pac_protection_orders k" and ?p = "apc_desired_protection command"
  have ids: "pac_strategy_instance_id k \<noteq> []" "pac_trade_cycle_id k \<noteq> []"
    using assms(1) by (auto simp: confirms_protection_def new_ProtectionAppliedConfirmation_def checked_iff)
  have "is_positive_exact_decimal_text (pos_quantity ?o)"
    using assms(1) by (auto simp: confirms_protection_def new_ProtectionOrders_def checked_iff)
  then have orders: "decode_protection_orders (JObj (norm_object
      [(''quantity'', JStr (pos_quantity ?o)), (''stop'', order_body (pos_stop ?o)), (''take'', order_body (pos_take ?o))])) = Inr ?o"
    using assms(1)
    by (cases ?o) (simp add: decode_protection_orders_def exact_norm_object field_norm_object decode_order_written
        PROTECTION_ORDERS_FIELDS_def positive_exact_decimal_string_def confirms_protection_def)
  have body: "decode_protection_body (json_norm (protection_body k)) =
      Inr ((apc_strategy_instance_id command, apc_trade_cycle_id command), (dp_stop_price ?p, dp_take_price ?p), ?o)"
    using assms(1,3,4) ids orders
    by (simp add: protection_body_def success_body_def decode_protection_body_def exact_norm_object field_norm_object
        PROTECTION_SUCCESS_FIELDS_def decode_identity_written positive_exact_decimal_string_def confirms_protection_def)
  have "new_DesiredProtection \<lparr>dp_stop_price = dp_stop_price ?p, dp_take_price = dp_take_price ?p\<rparr> = Inr ?p"
    using new_DesiredProtection_id [OF assms(2)] by (cases ?p) simp
  moreover have "json_ok (strict ft) (protection_body k)" by (simp add: protection_body_def success_body_def)
  ultimately show ?thesis
    using assms(1) body
    by (cases k) (simp add: decode_apply_protection_response_def management_response_def decode_protection_success_def Let_def
        confirms_protection_def)
qed

definition closed_body :: "PositionClosedConfirmation \<Rightarrow> json" where
  "closed_body k =
     JObj (success_body (pcc_strategy_instance_id k) (pcc_trade_cycle_id k) ''trade_cycle_closed'' @
       [(''closure'', null_or closure_body (pcc_closure k))])"

lemma decode_closed_written:
  assumes "new_PositionClosedConfirmation k = Inr k"
    and "\<And>c. pcc_closure k = Some c \<Longrightarrow> new_TradeCycleClosure c = Inr c"
    and "pcc_strategy_instance_id k = cpc_strategy_instance_id command" "pcc_trade_cycle_id k = cpc_trade_cycle_id command"
  shows "decode_close_position_response ft (json_response 200 (closed_body k)) command = Inr k"
proof -
  have ids: "pcc_strategy_instance_id k \<noteq> []" "pcc_trade_cycle_id k \<noteq> []"
    using assms(1) by (auto simp: new_PositionClosedConfirmation_def checked_iff)
  with assms show ?thesis
    by (cases k) (simp add: closed_body_def success_body_def decode_close_position_response_def management_response_def
        decode_close_success_def exact_norm_object field_norm_object CLOSE_SUCCESS_FIELDS_def decode_identity_written
        decode_closure_written)
qed

definition remainder_body :: "EntryRemainderCancelConfirmation \<Rightarrow> json" where
  "remainder_body k =
     JObj (success_body (ercc_strategy_instance_id k) (ercc_trade_cycle_id k) (ercc_status k) @
       [(''executed_quantity'', null_or_text (ercc_executed_quantity k))])"

lemma decode_remainder_written:
  assumes "new_EntryRemainderCancelConfirmation k = Inr k"
  shows "decode_cancel_entry_remainder_response ft (json_response 200 (remainder_body k))
    (ercc_strategy_instance_id k) (ercc_trade_cycle_id k) = Inr k"
proof -
  have "ercc_strategy_instance_id k \<noteq> []" "ercc_trade_cycle_id k \<noteq> []"
      "\<And>t. ercc_executed_quantity k = Some t \<Longrightarrow> is_positive_exact_decimal_text t"
    using assms by (auto simp: new_EntryRemainderCancelConfirmation_def checked_iff optionally_def)
  with assms show ?thesis
    by (cases k) (simp add: remainder_body_def success_body_def decode_cancel_entry_remainder_response_def
        management_response_def decode_remainder_success_def exact_norm_object field_norm_object
        ENTRY_REMAINDER_SUCCESS_FIELDS_def decode_identity_written)
qed

end
