(* ===== verification/Engine_Wire.thy ===== *)
theory Engine_Wire
  imports Abi_Wire
begin

text \<open>
  \<open>infrastructure/strategy_engine/wire_codec.py\<close> and \<open>http_projection_client.py\<close>: the clients of the
  strategy engine. \<open>StrategyEngineMarketStreamNotFound\<close> is the public error with status 404 and the code
  \<open>market_stream_not_found\<close>; details and request id of an error are checked and dropped.

  Proved: every response is decoded to a constructed answer or refused with the protocol error or the
  public error of a documented status; a documented answer is decoded to itself; and an encoded request
  determines the request.
\<close>

abbreviation engine_protocol_error :: exn where
  "engine_protocol_error \<equiv> StrategyProjectionError StrategyEngineProjectionProtocolError"

section \<open>Fields\<close>

definition DOCUMENTED_ENGINE_ERROR_STATUSES :: "int list" where
  "DOCUMENTED_ENGINE_ERROR_STATUSES = [404, 409, 422, 500, 501, 502, 503]"

definition ENGINE_ERROR_ENVELOPE_FIELDS :: "string list" where
  "ENGINE_ERROR_ENVELOPE_FIELDS = [''error'', ''message'', ''details'', ''request_id'']"

definition LIVE_ENTRY_SUCCESS_FIELDS :: "string list" where
  "LIVE_ENTRY_SUCCESS_FIELDS = [''desired_entry'']"

definition PROJECTED_ENTRY_FIELDS :: "string list" where
  "PROJECTED_ENTRY_FIELDS = [''side'', ''source_plan_bar_open_time_ms'', ''planned_entry_price'', ''initial_stop_price'',
     ''initial_take_price'', ''locked_exit_profile'']"

definition OPEN_TRADE_SUCCESS_FIELDS :: "string list" where
  "OPEN_TRADE_SUCCESS_FIELDS = [''desired_protection'', ''close_signal'', ''diagnostics'']"

definition DESIRED_PROTECTION_FIELDS :: "string list" where
  "DESIRED_PROTECTION_FIELDS = [''stop_price'', ''take_price'']"

definition CLOSE_SIGNAL_FIELDS :: "string list" where
  "CLOSE_SIGNAL_FIELDS = [''active'', ''reason'', ''component_id'', ''layer'']"

section \<open>Requests\<close>

text \<open>\<open>_unfreeze_json\<close> makes mappings and sequences plain; the type checks of the validators hold by
  typing.\<close>

fun unfreeze_json :: "json \<Rightarrow> json" where
  "unfreeze_json (JObj kvs) = JObj (map (\<lambda>(k, v). (k, unfreeze_json v)) kvs)"
| "unfreeze_json (JArr vs) = JArr (map unfreeze_json vs)"
| "unfreeze_json v = v"

definition encode_live_entry_request :: "LiveEntryProjectionRequest \<Rightarrow> json" where
  "encode_live_entry_request request =
     JObj [(''strategy_id'', JStr (lpr_strategy_id request)),
           (''raw_spec'', unfreeze_json (JObj (lpr_raw_spec request))),
           (''ticker'', JStr (lpr_ticker request)),
           (''base_timeframe'', JStr (lpr_base_timeframe request)),
           (''target_bar_open_time_ms'', JInt (lpr_target_bar_open_time_ms request))]"

definition encode_open_trade_request :: "OpenTradeProjectionRequest \<Rightarrow> json" where
  "encode_open_trade_request request =
     (let entry = opr_desired_entry request in
      JObj [(''strategy_id'', JStr (opr_strategy_id request)),
            (''raw_spec'', unfreeze_json (JObj (opr_raw_spec request))),
            (''ticker'', JStr (opr_ticker request)),
            (''base_timeframe'', JStr (opr_base_timeframe request)),
            (''target_bar_open_time_ms'', JInt (opr_target_bar_open_time_ms request)),
            (''executed_trade_receipt'',
              JObj [(''side'', JStr (de_side entry)),
                    (''source_plan_bar_open_time_ms'', JInt (de_source_plan_bar_open_time_ms entry)),
                    (''entry_bar_open_time_ms'', JInt (opr_entry_bar_open_time_ms request)),
                    (''planned_entry_price'', JStr (de_planned_entry_price entry)),
                    (''initial_stop_price'', JStr (de_initial_stop_price entry)),
                    (''initial_take_price'', JStr (de_initial_take_price entry)),
                    (''locked_exit_profile'', JStr (de_locked_exit_profile entry))])])"

definition encode_feature_plan_request :: "string \<Rightarrow> json_object \<Rightarrow> json" where
  "encode_feature_plan_request strategy_id raw_spec =
     JObj [(''strategy_id'', JStr strategy_id), (''raw_spec'', unfreeze_json (JObj raw_spec))]"

section \<open>Responses\<close>

definition decode_projected_entry :: "json \<Rightarrow> DesiredEntry res" where
  "decode_projected_entry payload =
     res_bind (closed_object payload PROJECTED_ENTRY_FIELDS ''desired_entry'') (\<lambda>body.
     res_bind (field body ''side'') (\<lambda>side.
     res_bind (wire_side side) (\<lambda>side.
     res_bind (field body ''source_plan_bar_open_time_ms'') (\<lambda>bar.
     res_bind (wire_int bar ''source_plan_bar_open_time_ms'') (\<lambda>bar.
     res_bind (field body ''planned_entry_price'') (\<lambda>planned.
     res_bind (wire_string planned ''planned_entry_price'') (\<lambda>planned.
     res_bind (field body ''initial_stop_price'') (\<lambda>stop.
     res_bind (wire_string stop ''initial_stop_price'') (\<lambda>stop.
     res_bind (field body ''initial_take_price'') (\<lambda>take_price.
     res_bind (wire_string take_price ''initial_take_price'') (\<lambda>take_price.
     res_bind (field body ''locked_exit_profile'') (\<lambda>profile.
     res_bind (wire_string profile ''locked_exit_profile'') (\<lambda>profile.
     new_DesiredEntry
       \<lparr>de_side = side, de_source_plan_bar_open_time_ms = bar, de_planned_entry_price = planned,
        de_initial_stop_price = stop, de_initial_take_price = take_price,
        de_locked_exit_profile = profile\<rparr>)))))))))))))"

definition decode_live_entry_success :: "json \<Rightarrow> DesiredEntry option res" where
  "decode_live_entry_success payload =
     guarded engine_protocol_error (
       res_bind (closed_object payload LIVE_ENTRY_SUCCESS_FIELDS ''live-entry success response'') (\<lambda>body.
       res_bind (field body ''desired_entry'') (\<lambda>entry.
       nullable decode_projected_entry entry)))"

definition decode_projected_protection :: "json \<Rightarrow> (DesiredProtection \<times> EngineDesiredProtectionText) res" where
  "decode_projected_protection payload =
     res_bind (closed_object payload DESIRED_PROTECTION_FIELDS ''desired_protection'') (\<lambda>body.
     res_bind (field body ''stop_price'') (\<lambda>stop_price.
     res_bind (wire_string stop_price ''stop_price'') (\<lambda>stop_price.
     res_bind (field body ''take_price'') (\<lambda>take_price.
     res_bind (optional_string take_price ''take_price'') (\<lambda>take_price.
     res_bind (new_DesiredProtection \<lparr>dp_stop_price = stop_price, dp_take_price = take_price\<rparr>) (\<lambda>protection.
     Inr (protection, \<lparr>edpt_stop_price = stop_price, edpt_take_price = take_price\<rparr>)))))))"

definition decode_close_signal :: "json \<Rightarrow> CloseSignal res" where
  "decode_close_signal payload =
     res_bind (closed_object payload CLOSE_SIGNAL_FIELDS ''close_signal'') (\<lambda>body.
     res_bind (field body ''active'') (\<lambda>active.
     res_bind (wire_bool active ''active'') (\<lambda>active.
     res_bind (field body ''reason'') (\<lambda>reason.
     res_bind (optional_string reason ''reason'') (\<lambda>reason.
     res_bind (field body ''component_id'') (\<lambda>component_id.
     res_bind (optional_string component_id ''component_id'') (\<lambda>component_id.
     res_bind (field body ''layer'') (\<lambda>layer.
     res_bind (optional_string layer ''layer'') (\<lambda>layer.
     Inr \<lparr>cs_active = active, cs_reason = reason, cs_component_id = component_id, cs_layer = layer\<rparr>)))))))))"

text \<open>\<open>freeze_json\<close> of an object is an object, so the check after it never fails.\<close>

definition decode_open_trade_success :: "json \<Rightarrow> OpenTradeProjectionResponse res" where
  "decode_open_trade_success payload =
     guarded engine_protocol_error (
       res_bind (closed_object payload OPEN_TRADE_SUCCESS_FIELDS ''open-trade success response'') (\<lambda>body.
       res_bind (field body ''desired_protection'') (\<lambda>protection.
       res_bind (decode_projected_protection protection) (\<lambda>(protection, protection_text).
       res_bind (field body ''close_signal'') (\<lambda>close_signal.
       res_bind (decode_close_signal close_signal) (\<lambda>close_signal.
       res_bind (field body ''diagnostics'') (\<lambda>diagnostics.
       res_bind (json_dict diagnostics ''diagnostics'') (\<lambda>diagnostics.
       Inr \<lparr>ops_desired_protection = protection, ops_close_signal = close_signal,
            ops_diagnostics = freeze_object diagnostics,
            ops_engine_desired_protection_text = protection_text\<rparr>))))))))"

definition engine_error_code :: "json \<Rightarrow> (string \<times> string) res" where
  "engine_error_code payload =
     res_bind (closed_object payload ENGINE_ERROR_ENVELOPE_FIELDS ''error envelope'') (\<lambda>envelope.
     res_bind (field envelope ''error'') (\<lambda>code.
     res_bind (non_empty_string code ''error'') (\<lambda>code.
     res_bind (field envelope ''message'') (\<lambda>message.
     res_bind (non_empty_string message ''message'') (\<lambda>message.
     res_bind (field envelope ''details'') (\<lambda>details.
     res_bind (json_dict details ''details'') (\<lambda>_.
     res_bind (field envelope ''request_id'') (\<lambda>request_id.
     res_bind (non_empty_string request_id ''request_id'') (\<lambda>_.
     Inr (code, message))))))))))"

definition raise_engine_public_error :: "int \<Rightarrow> json \<Rightarrow> 'a res" where
  "raise_engine_public_error status_code payload =
     res_bind (guarded engine_protocol_error (engine_error_code payload)) (\<lambda>(code, message).
     Inl (StrategyProjectionError (StrategyEngineProjectionPublicError status_code code message)))"

text \<open>The codec's own content-type check and strict loader.\<close>

definition engine_payload :: "(string \<Rightarrow> string) \<Rightarrow> http_response \<Rightarrow> json res" where [simp]:
  "engine_payload ft response = load_payload ft engine_protocol_error response"

text \<open>What the three response decoders share.\<close>

definition engine_response :: "(string \<Rightarrow> string) \<Rightarrow> http_response \<Rightarrow> (json \<Rightarrow> 'a res) \<Rightarrow> 'a res" where
  "engine_response ft response decode_body =
     res_bind (engine_payload ft response) (\<lambda>payload.
     if hr_status_code response = 200 then decode_body payload
     else if hr_status_code response \<in> set DOCUMENTED_ENGINE_ERROR_STATUSES
     then raise_engine_public_error (hr_status_code response) payload
     else Inl engine_protocol_error)"

definition decode_live_entry_response :: "(string \<Rightarrow> string) \<Rightarrow> http_response \<Rightarrow> DesiredEntry option res" where
  "decode_live_entry_response ft response = engine_response ft response decode_live_entry_success"

definition decode_open_trade_response :: "(string \<Rightarrow> string) \<Rightarrow> http_response \<Rightarrow> OpenTradeProjectionResponse res" where
  "decode_open_trade_response ft response = engine_response ft response decode_open_trade_success"

definition decode_feature_plan_response :: "(string \<Rightarrow> string) \<Rightarrow> http_response \<Rightarrow> json_object res" where
  "decode_feature_plan_response ft response =
     engine_response ft response (\<lambda>payload.
       case payload of JObj d \<Rightarrow> Inr d | _ \<Rightarrow> Inl engine_protocol_error)"

section \<open>The adapters\<close>

definition engine_send :: "'e transport \<Rightarrow> string \<Rightarrow> json \<Rightarrow> ('e, http_response) prog" where
  "engine_send transport path body =
     attempt_request transport \<lparr>hq_method = ''POST'', hq_path = path, hq_body = Some body\<rparr>
       (StrategyProjectionError StrategyEngineProjectionTimeout)
       (StrategyProjectionError StrategyEngineProjectionNetworkFailure)"

definition http_project_live_entry ::
    "(string \<Rightarrow> string) \<Rightarrow> 'e transport \<Rightarrow> LiveEntryProjectionRequest \<Rightarrow> ('e, DesiredEntry option) prog" where
  "http_project_live_entry ft transport request =
     bindp (engine_send transport ''/v1/strategy-evaluations/live-entry'' (encode_live_entry_request request)) (\<lambda>response.
     lift_res (decode_live_entry_response ft response))"

definition http_project_open_trade ::
    "(string \<Rightarrow> string) \<Rightarrow> 'e transport \<Rightarrow> OpenTradeProjectionRequest \<Rightarrow> ('e, OpenTradeProjectionResponse) prog" where
  "http_project_open_trade ft transport request =
     bindp (engine_send transport ''/v1/strategy-evaluations/open-trade'' (encode_open_trade_request request)) (\<lambda>response.
     lift_res (decode_open_trade_response ft response))"

definition feature_plan_path :: "string \<Rightarrow> string" where
  "feature_plan_path strategy_id = ''/v1/strategies/'' @ py_quote strategy_id @ ''/feature-plan''"

definition http_build_feature_plan ::
    "(string \<Rightarrow> string) \<Rightarrow> 'e transport \<Rightarrow> string \<Rightarrow> json_object \<Rightarrow> ('e, json_object) prog" where
  "http_build_feature_plan ft transport strategy_id raw_spec =
     bindp (engine_send transport (feature_plan_path strategy_id) (encode_feature_plan_request strategy_id raw_spec)) (\<lambda>response.
     lift_res (decode_feature_plan_response ft response))"

section \<open>Failing closed\<close>

lemma new_recipe_caught [caught_rules]: "raises_caught (new_DesiredEntry d)" "raises_caught (new_DesiredProtection p)"
  unfolding new_DesiredEntry_def new_DesiredProtection_def by (intro caught_rules)+

lemma engine_parts_caught [caught_rules]:
  "raises_caught (decode_projected_entry v)" "raises_caught (decode_projected_protection v)"
  "raises_caught (decode_close_signal v)" "raises_caught (engine_error_code v)"
  unfolding decode_projected_entry_def decode_projected_protection_def decode_close_signal_def engine_error_code_def
  by (intro caught_rules)+

lemma live_entry_success_error: "decode_live_entry_success v = Inl e \<Longrightarrow> e = engine_protocol_error"
  unfolding decode_live_entry_success_def by (erule guarded_error) (intro caught_rules)

lemma open_trade_success_error: "decode_open_trade_success v = Inl e \<Longrightarrow> e = engine_protocol_error"
  unfolding decode_open_trade_success_def by (erule guarded_error) (intro caught_rules)

lemma raise_engine_error:
  assumes "raise_engine_public_error status v = Inl e"
  shows "e = engine_protocol_error \<or>
    (\<exists>code message. code \<noteq> [] \<and> e = StrategyProjectionError (StrategyEngineProjectionPublicError status code message))"
  using assms guarded_error [OF _ engine_parts_caught(4)]
  by (fastforce simp: raise_engine_public_error_def res_bind_eq_Inl engine_error_code_def res_bind_eq_Inr)

lemma engine_response_error:
  assumes "engine_response ft response decode_body = Inl e"
    and "\<And>v e. decode_body v = Inl e \<Longrightarrow> e = engine_protocol_error"
  shows "e = engine_protocol_error \<or>
    (\<exists>code message. code \<noteq> [] \<and> hr_status_code response \<in> set DOCUMENTED_ENGINE_ERROR_STATUSES \<and>
      e = StrategyProjectionError (StrategyEngineProjectionPublicError (hr_status_code response) code message))"
  using assms
  by (auto simp: engine_response_def res_bind_eq_Inl split: if_splits dest: load_payload_error raise_engine_error)

lemma engine_response_accepted:
  assumes "engine_response ft response decode_body = Inr r"
  obtains v where "hr_status_code response = 200" "decode_body v = Inr r" "wf_json v"
proof -
  have "raise_engine_public_error status v \<noteq> Inr r" for status v
    by (auto simp: raise_engine_public_error_def res_bind_eq_Inr)
  with assms that show thesis
    by (auto simp: engine_response_def load_payload_def res_bind_eq_Inr split: if_splits dest: load_strict_json_wf)
qed

lemma live_entry_accepted:
  assumes "decode_live_entry_response ft response = Inr (Some d)"
  shows "wf_desired_entry d"
proof -
  from assms obtain v where "decode_live_entry_success v = Inr (Some d)"
    unfolding decode_live_entry_response_def by (rule engine_response_accepted) blast
  then show ?thesis
    by (auto simp: decode_live_entry_success_def res_bind_eq_Inr nullable_Inr decode_projected_entry_def
        dest: new_DesiredEntry_wf)
qed

lemma open_trade_accepted:
  assumes "decode_open_trade_response ft response = Inr r"
  shows "wf_protection (ops_desired_protection r)"
    "new_DesiredProtection \<lparr>dp_stop_price = edpt_stop_price (ops_engine_desired_protection_text r),
       dp_take_price = edpt_take_price (ops_engine_desired_protection_text r)\<rparr> = Inr (ops_desired_protection r)"
proof -
  from assms obtain v where "decode_open_trade_success v = Inr r"
    unfolding decode_open_trade_response_def by (rule engine_response_accepted) blast
  then show "wf_protection (ops_desired_protection r)"
    "new_DesiredProtection \<lparr>dp_stop_price = edpt_stop_price (ops_engine_desired_protection_text r),
       dp_take_price = edpt_take_price (ops_engine_desired_protection_text r)\<rparr> = Inr (ops_desired_protection r)"
    by (auto simp: decode_open_trade_success_def decode_projected_protection_def res_bind_eq_Inr dest: new_DesiredProtection_wf)
qed

section \<open>Documented answers\<close>

definition projected_entry_body :: "DesiredEntry \<Rightarrow> json" where
  "projected_entry_body d =
     JObj [(''side'', JStr (de_side d)), (''source_plan_bar_open_time_ms'', JInt (de_source_plan_bar_open_time_ms d)),
           (''planned_entry_price'', JStr (de_planned_entry_price d)), (''initial_stop_price'', JStr (de_initial_stop_price d)),
           (''initial_take_price'', JStr (de_initial_take_price d)), (''locked_exit_profile'', JStr (de_locked_exit_profile d))]"

definition open_trade_body :: "OpenTradeProjectionResponse \<Rightarrow> json" where
  "open_trade_body r =
     JObj [(''desired_protection'',
             JObj [(''stop_price'', JStr (edpt_stop_price (ops_engine_desired_protection_text r))),
                   (''take_price'', null_or_text (edpt_take_price (ops_engine_desired_protection_text r)))]),
           (''close_signal'',
             JObj [(''active'', JBool (cs_active (ops_close_signal r))), (''reason'', null_or_text (cs_reason (ops_close_signal r))),
                   (''component_id'', null_or_text (cs_component_id (ops_close_signal r))),
                   (''layer'', null_or_text (cs_layer (ops_close_signal r)))]),
           (''diagnostics'', JObj (ops_diagnostics r))]"

lemma decode_projected_entry_written:
  assumes "wf_desired_entry d"
  shows "decode_projected_entry (json_norm (projected_entry_body d)) = Inr d"
proof -
  have "de_side d \<in> {''long'', ''short''}" using assms by (simp add: wf_desired_entry_def)
  with new_DesiredEntry_id [OF assms] show ?thesis
    by (cases d) (simp add: decode_projected_entry_def projected_entry_body_def exact_norm_object field_norm_object
        PROJECTED_ENTRY_FIELDS_def)
qed

lemma decode_live_entry_written:
  assumes "\<And>d. v = Some d \<Longrightarrow> wf_desired_entry d"
  shows "decode_live_entry_response ft (json_response 200 (JObj [(''desired_entry'', null_or projected_entry_body v)])) = Inr v"
proof -
  have ok: "json_ok h (projected_entry_body d)" for h d by (simp add: projected_entry_body_def)
  have "nullable decode_projected_entry (null_or (\<lambda>x. json_norm (projected_entry_body x)) v) = Inr v"
    using nullable_null_or [of v projected_entry_body decode_projected_entry] assms decode_projected_entry_written
    by (simp add: projected_entry_body_def)
  with ok show ?thesis
    by (simp add: decode_live_entry_response_def engine_response_def decode_live_entry_success_def exact_norm_object
        field_norm_object LIVE_ENTRY_SUCCESS_FIELDS_def)
qed

lemma decode_open_trade_written:
  assumes "new_DesiredProtection \<lparr>dp_stop_price = edpt_stop_price (ops_engine_desired_protection_text r),
       dp_take_price = edpt_take_price (ops_engine_desired_protection_text r)\<rparr> = Inr (ops_desired_protection r)"
    and "json_ok (strict ft) (JObj (ops_diagnostics r))"
  shows "decode_open_trade_response ft (json_response 200 (open_trade_body r)) =
    Inr (r\<lparr>ops_diagnostics := norm_object (ops_diagnostics r)\<rparr>)"
proof -
  obtain t g where t: "ops_engine_desired_protection_text r = t" "ops_close_signal r = g" by blast
  have "decode_projected_protection (JObj (norm_object [(''stop_price'', JStr (edpt_stop_price t)),
      (''take_price'', null_or_text (edpt_take_price t))])) = Inr (ops_desired_protection r, t)"
    using assms(1) t by (cases t) (simp add: decode_projected_protection_def exact_norm_object field_norm_object
        DESIRED_PROTECTION_FIELDS_def)
  moreover have "decode_close_signal (JObj (norm_object [(''active'', JBool (cs_active g)), (''reason'', null_or_text (cs_reason g)),
      (''component_id'', null_or_text (cs_component_id g)), (''layer'', null_or_text (cs_layer g))])) = Inr g"
    by (cases g) (simp add: decode_close_signal_def exact_norm_object field_norm_object CLOSE_SIGNAL_FIELDS_def wire_bool_def)
  ultimately show ?thesis
    using assms(2) t
    by (cases r) (simp add: open_trade_body_def decode_open_trade_response_def engine_response_def decode_open_trade_success_def
        exact_norm_object field_norm_object OPEN_TRADE_SUCCESS_FIELDS_def)
qed

text \<open>A request body is what the request says.\<close>

lemma unfreeze_json_id [simp]: "unfreeze_json v = v"
proof (induction v rule: unfreeze_json.induct)
  case (1 kvs)
  then have "map (\<lambda>(k, v). (k, unfreeze_json v)) kvs = kvs" by (intro map_idI) auto
  then show ?case by simp
next
  case (2 vs)
  then show ?case by (simp add: map_idI)
qed simp_all

lemma encode_request_inject:
  "encode_live_entry_request q = encode_live_entry_request q' \<Longrightarrow> q = q'"
  "encode_open_trade_request p = encode_open_trade_request p' \<Longrightarrow> p = p'"
  by (cases q; cases q'; simp add: encode_live_entry_request_def)
    (cases p; cases p'; cases "opr_desired_entry p"; cases "opr_desired_entry p'"; simp add: encode_open_trade_request_def)

end
