(* ===== verification/Http_Ports.thy ===== *)
theory Http_Ports
  imports Engine_Wire System Footprints Examples
begin

text \<open>
  The ports of the handlers served by the HTTP clients: \<open>http_ports\<close> replaces the eight calls to the
  execution service and the engine by the adapters of \<open>Entry_Package_Wire\<close>, \<open>Abi_Wire\<close> and
  \<open>Engine_Wire\<close> over two arbitrary transports.

  The handlers check every answer of a port with \<open>typed\<close>. The properties here discharge that check for
  the real adapters, say which errors an adapter can raise, and relate requests and documented answers.
\<close>

definition http_ports :: "(string \<Rightarrow> string) \<Rightarrow> 'e transport \<Rightarrow> 'e transport \<Rightarrow> 'e ports \<Rightarrow> 'e ports" where
  "http_ports ft abi engine P =
     P\<lparr>p_send := http_send ft abi, p_query := http_query ft abi, p_lookup := http_lookup ft abi,
       p_apply_protection := http_apply_protection ft abi, p_close_position := http_close_position ft abi,
       p_cancel_entry_remainder := http_cancel_entry_remainder ft abi,
       p_project_live_entry := http_project_live_entry ft engine,
       p_project_open_trade := http_project_open_trade ft engine\<rparr>"

section \<open>Adapters\<close>

text \<open>An adapter is one attempt and a decoder: it fails with one of two transport errors, or as the
  decoder does on some response.\<close>

lemma adapter_cases:
  assumes "bindp (attempt_request transport request timed_out network_failed) (\<lambda>response. lift_res (decode response)) e = (r, e')"
  obtains "r = Inl timed_out" | "r = Inl network_failed" | response where "r = decode response"
  using assms that
  by (auto simp: attempt_request_def bindp_def split: prod.splits sum.splits transport_failure.splits)

lemma typed_stable:
  assumes "\<And>v. fst x = Inr v \<Longrightarrow> new v = Inr v"
  shows "typed new err x = x"
  using assms by (cases x) (auto simp: typed_def split: sum.splits)

lemmas adapters = http_send_def http_query_def http_lookup_def http_apply_protection_def http_close_position_def
  http_cancel_entry_remainder_def http_project_live_entry_def http_project_open_trade_def engine_send_def

text \<open>An answer an adapter returns is what its decoder accepted.\<close>

lemma adapter_answer:
  assumes "fst (bindp (attempt_request transport request timed_out network_failed) (\<lambda>response. lift_res (decode response)) e) = Inr v"
  obtains response where "decode response = Inr v"
  using assms that
  by (auto simp: attempt_request_def bindp_def split: prod.splits sum.splits transport_failure.splits)

lemma send_answer:
  assumes "fst (http_send ft t q e) = Inr r"
  shows "constructed_result r \<and> (\<exists>status. answers q status r)"
  using assms unfolding adapters by (rule adapter_answer) (blast dest: decode_response_answers)

lemma send_constructed: "fst (http_send ft t q e) = Inr r \<Longrightarrow> new_EntryPackageResult r = Inr r"
  by (drule send_answer) (simp add: constructed_result_def)

lemma query_answer: "fst (http_query ft t i cid e) = Inr r \<Longrightarrow> new_RecoveryStateResponse r = Inr r"
  unfolding adapters by (erule adapter_answer) (blast dest: recovery_response_accepted)

lemma lookup_answer: "fst (http_lookup ft t q e) = Inr r \<Longrightarrow> new_OpenPositionLookupResponse r = Inr r"
  unfolding adapters by (erule adapter_answer) (blast dest: lookup_response_accepted)

lemma protection_answer:
  assumes "fst (http_apply_protection ft t c e) = Inr k" and "wf_protection (apc_desired_protection c)"
  shows "confirms_protection c k"
  using assms(1) unfolding adapters
  by (rule adapter_answer) (simp add: confirms_protection_def protection_response_accepted [OF _ assms(2)])

lemma close_answer:
  assumes "fst (http_close_position ft t c e) = Inr k"
  shows "new_closed_answer k = Inr k" "pcc_strategy_instance_id k = cpc_strategy_instance_id c"
    "pcc_trade_cycle_id k = cpc_trade_cycle_id c"
proof -
  from assms obtain response where r: "decode_close_position_response ft response c = Inr k"
    unfolding adapters by (rule adapter_answer) blast
  from close_response_accepted [OF r] show "new_closed_answer k = Inr k"
      "pcc_strategy_instance_id k = cpc_strategy_instance_id c" "pcc_trade_cycle_id k = cpc_trade_cycle_id c"
    by (auto simp: new_closed_answer_def split: option.split)
qed

lemma remainder_answer:
  assumes "fst (http_cancel_entry_remainder ft t i cid e) = Inr k"
  shows "new_EntryRemainderCancelConfirmation k = Inr k" "ercc_strategy_instance_id k = i" "ercc_trade_cycle_id k = cid"
proof -
  from assms obtain response where r: "decode_cancel_entry_remainder_response ft response i cid = Inr k"
    unfolding adapters by (rule adapter_answer) blast
  from remainder_response_accepted [OF r] show "new_EntryRemainderCancelConfirmation k = Inr k"
      "ercc_strategy_instance_id k = i" "ercc_trade_cycle_id k = cid" by simp_all
qed

lemma live_entry_answer:
  assumes "fst (http_project_live_entry ft t q e) = Inr v"
  shows "new_desired_entry_answer v = Inr v"
proof -
  from assms obtain response where r: "decode_live_entry_response ft response = Inr v"
    unfolding adapters by (rule adapter_answer) blast
  then show ?thesis
    by (auto simp: new_desired_entry_answer_def new_DesiredEntry_id live_entry_accepted split: option.split)
qed

lemma open_trade_answer:
  assumes "fst (http_project_open_trade ft t q e) = Inr v"
  shows "new_open_trade_answer v = Inr v"
proof -
  from assms obtain response where r: "decode_open_trade_response ft response = Inr v"
    unfolding adapters by (rule adapter_answer) blast
  from open_trade_accepted(1) [OF r] show ?thesis
    by (simp add: new_open_trade_answer_def new_DesiredProtection_id)
qed

text \<open>An error of an adapter is one of the two transport errors, or the decoder's.\<close>

lemma adapter_error:
  assumes "fst (bindp (attempt_request transport request timed_out network_failed) (\<lambda>response. lift_res (decode response)) e) = Inl x"
    and "\<And>response x. decode response = Inl x \<Longrightarrow> Q x" and "Q timed_out" and "Q network_failed"
  shows "Q x"
  using assms by (auto simp: attempt_request_def bindp_def split: prod.splits sum.splits transport_failure.splits)

lemma client_errors:
  "fst (http_send ft t q e) = Inl x \<Longrightarrow> \<exists>y. x = AbiEntryPackageClientError y"
  "fst (http_query ft t i cid e) = Inl x \<Longrightarrow> \<exists>y. x = AbiEntryCycleRecoveryClientError y"
  "fst (http_lookup ft t l e) = Inl x \<Longrightarrow> \<exists>y. x = OpenPositionResolutionError y"
  "fst (http_close_position ft t k e) = Inl x \<Longrightarrow> \<exists>y. x = PositionManagementExecutionError y"
  "fst (http_cancel_entry_remainder ft t i cid e) = Inl x \<Longrightarrow> \<exists>y. x = PositionManagementExecutionError y"
  "fst (http_project_live_entry ft t m e) = Inl x \<Longrightarrow> \<exists>y. x = StrategyProjectionError y"
  "fst (http_project_open_trade ft t n e) = Inl x \<Longrightarrow> \<exists>y. x = StrategyProjectionError y"
  unfolding adapters
  by (erule adapter_error; auto simp: decode_close_position_response_def decode_cancel_entry_remainder_response_def
      decode_live_entry_response_def decode_open_trade_response_def
      dest: decode_response_error recovery_response_error lookup_response_error
        management_response_error [OF _ close_success_error] management_response_error [OF _ remainder_success_error]
        engine_response_error [OF _ live_entry_success_error] engine_response_error [OF _ open_trade_success_error])+

lemma protection_error:
  assumes "fst (http_apply_protection ft t c e) = Inl x" and "wf_protection (apc_desired_protection c)"
  shows "\<exists>y. x = PositionManagementExecutionError y"
  using assms(1) unfolding adapters
  by (rule adapter_error) (auto simp: decode_apply_protection_response_def
      dest: management_response_error [OF _ protection_success_error [OF _ assms(2)]])

section \<open>Properties\<close>

lemma http_ports_simps [simp]:
  "p_send (http_ports ft abi engine P) = http_send ft abi" "p_query (http_ports ft abi engine P) = http_query ft abi"
  "p_lookup (http_ports ft abi engine P) = http_lookup ft abi"
  "p_apply_protection (http_ports ft abi engine P) = http_apply_protection ft abi"
  "p_close_position (http_ports ft abi engine P) = http_close_position ft abi"
  "p_cancel_entry_remainder (http_ports ft abi engine P) = http_cancel_entry_remainder ft abi"
  "p_project_live_entry (http_ports ft abi engine P) = http_project_live_entry ft engine"
  "p_project_open_trade (http_ports ft abi engine P) = http_project_open_trade ft engine"
  by (simp_all add: http_ports_def)

text \<open>
  Property C21: the HTTP adapters keep the contract of the ports. The check the handlers apply to an
  answer never changes an answer of an adapter, whatever the network delivers: every answer is a
  constructed value already. A protection command carries a constructed protection.
\<close>

theorem adapters_keep_the_port_contract:
  assumes "wf_protection (apc_desired_protection c)"
  shows "typed new_EntryPackageResult err (http_send ft abi q e) = http_send ft abi q e \<and>
    typed new_RecoveryStateResponse err (http_query ft abi i cid e) = http_query ft abi i cid e \<and>
    typed new_OpenPositionLookupResponse err (http_lookup ft abi l e) = http_lookup ft abi l e \<and>
    typed new_protection_answer err (http_apply_protection ft abi c e) = http_apply_protection ft abi c e \<and>
    typed new_closed_answer err (http_close_position ft abi k e) = http_close_position ft abi k e \<and>
    typed new_EntryRemainderCancelConfirmation err (http_cancel_entry_remainder ft abi i cid e) =
      http_cancel_entry_remainder ft abi i cid e \<and>
    typed new_desired_entry_answer err (http_project_live_entry ft engine m e) = http_project_live_entry ft engine m e \<and>
    typed new_open_trade_answer err (http_project_open_trade ft engine n e) = http_project_open_trade ft engine n e"
proof (intro conjI typed_stable)
  show "new_protection_answer v = Inr v" if "fst (http_apply_protection ft abi c e) = Inr v" for v
    using protection_answer [OF that assms] new_DesiredProtection_id [OF assms]
    by (cases v) (simp add: new_protection_answer_def confirms_protection_def)
qed (auto intro: send_constructed query_answer lookup_answer close_answer(1) remainder_answer(1) live_entry_answer
      open_trade_answer)


text \<open>The network of the examples: the service answers a protection request as documented.\<close>

definition ex_confirmation :: ProtectionAppliedConfirmation where
  "ex_confirmation = \<lparr>pac_strategy_instance_id = ''i'', pac_trade_cycle_id = ''c'',
     pac_confirmed_protection = \<lparr>dp_stop_price = ''95'', dp_take_price = Some ''130''\<rparr>,
     pac_protection_orders = \<lparr>pos_quantity = ''1'', pos_stop = \<lparr>po_order_id = ''s'', po_trigger_price = ''95''\<rparr>,
       pos_take = \<lparr>po_order_id = ''t'', po_trigger_price = ''130''\<rparr>\<rparr>\<rparr>"

definition ex_network :: "unit transport" where
  "ex_network q e = (Inr (json_response 200 (protection_body ex_confirmation)), e)"

definition ex_silent_network :: "unit transport" where
  "ex_silent_network q e = (Inl TimeoutException, e)"

lemma ex_protection_wf: "wf_protection (apc_desired_protection ex_protect)"
  by (simp add: ex_protect_def wf_protection_def price_text_def)

lemma ex_confirms: "confirms_protection ex_protect ex_confirmation"
  by (simp add: confirms_protection_def ex_protect_def ex_confirmation_def new_ProtectionAppliedConfirmation_def
      new_ProtectionOrders_def new_ProtectionOrder_def checked.simps require_non_empty_def require_positive_decimal_def)

lemma ex_network_answer:
  "http_apply_protection ft ex_network ex_protect e = (Inr ex_confirmation, e)"
  using decode_protection_written [OF ex_confirms ex_protection_wf, of ft]
  by (simp add: http_apply_protection_def attempt_request_def bindp_def ex_network_def ex_protect_def)

theorem adapters_keep_the_port_contract_witness:
  "typed new_protection_answer AssertionError (http_apply_protection id ex_network ex_protect ()) = (Inr ex_confirmation, ())"
  using adapters_keep_the_port_contract [OF ex_protection_wf, where ft = id and abi = ex_network and err = AssertionError and e = "()"]
    ex_network_answer [of id "()"] by metis



definition ex_absent :: EntryPackageAbsent where
  "ex_absent = \<lparr>epb_strategy_instance_id = ''i'', epb_trade_cycle_id = ''c''\<rparr>"

definition ex_lookup :: OpenPositionLookupResponse where
  "ex_lookup = \<lparr>opl_position_open = True, opl_first_fill_at_ms = Some 61000, opl_average_entry_price = Some ''100'',
     opl_closure = None, opl_entry_order_link_id = Some ''k'', opl_entry_order_id = None\<rparr>"


definition abi_paths :: "(string \<Rightarrow> string \<Rightarrow> string) list" where
  "abi_paths = [entry_package_path, recovery_state_path, open_position_path, protection_path, close_path,
     entry_remainder_cancel_path]"

text \<open>
  A request of the ABI clients names its operation, its strategy instance and its trade
  cycle. Two of the six paths are equal only for the same operation, instance and cycle, whatever
  characters the identifiers contain: a slash, a dot segment or a percent sign in an identifier cannot
  redirect an order to another cycle.
\<close>

theorem abi_paths_are_unambiguous:
  assumes "m < length abi_paths" and "n < length abi_paths" and "(abi_paths ! m) i cid = (abi_paths ! n) i' cid'"
  shows "m = n \<and> i = i' \<and> cid = cid'"
proof -
  let ?ops = "[''entry-package'', ''recovery-state'', ''open-position'', ''protection'', ''close'', ''entry-remainder/cancel'']"
  have path: "(abi_paths ! m) i cid = trade_cycle_path i cid (CHR ''/'' # ?ops ! m)" if "m < 6" for m i cid
  proof -
    from that have "m = 0 \<or> m = 1 \<or> m = 2 \<or> m = 3 \<or> m = 4 \<or> m = 5" by arith
    then show ?thesis
      by (elim disjE) (simp_all add: abi_paths_def entry_package_path_def recovery_state_path_def open_position_path_def
          protection_path_def close_path_def entry_remainder_cancel_path_def)
  qed
  have "m < 6" "n < 6" using assms(1,2) by (simp_all add: abi_paths_def)
  have "trade_cycle_path i cid (CHR ''/'' # ?ops ! m) = trade_cycle_path i' cid' (CHR ''/'' # ?ops ! n)"
    using assms(3) unfolding path [OF \<open>m < 6\<close>] path [OF \<open>n < 6\<close>] .
  from trade_cycle_path_inject [OF this] have same: "i = i'" "cid = cid'" "?ops ! m = ?ops ! n" by blast+
  have "distinct ?ops" by simp
  from nth_eq_iff_index_eq [OF this, of m n] \<open>m < 6\<close> \<open>n < 6\<close> same(3) have "m = n" by (simp only: list.size) simp
  with same show ?thesis by blast
qed

end
