(* ===== verification/Catalog_Disk.thy ===== *)
theory Catalog_Disk
  imports Prelude "HOL-Library.AList"
begin

text \<open>
  The catalog directory as the file operations of \<open>utility/deployment_catalog\<close> see it: names that
  refer to nodes, so that two names can share one file (\<open>os.link\<close>) and a replaced name can leave its
  old file behind, and the system calls the code makes.

  Before each call anything may happen to the directory (another process edits, replaces or removes
  files) and the call itself may fail, with an \<open>OSError\<close> or with another exception: the coming
  events are part of the machine. When the list of events is used up, the remaining calls are
  undisturbed. There are no symbolic links, and the only directory with entries of its own is the
  trash.
\<close>

section \<open>Files\<close>

datatype path = Top string | InTrash string

datatype node = Regular (node_bytes: string) (node_mode: nat) | Directory

record files =
  fs_entries :: "(path \<times> nat) list"
  fs_nodes :: "nat \<Rightarrow> node"

definition trash_directory_name :: string where
  "trash_directory_name = ''.deleted''"

definition node_of :: "files \<Rightarrow> path \<Rightarrow> nat option" where
  "node_of fs p = map_of (fs_entries fs) p"

text \<open>What a name shows: nothing, or the node it refers to.\<close>

definition look :: "files \<Rightarrow> path \<Rightarrow> node option" where
  "look fs p = map_option (fs_nodes fs) (node_of fs p)"

text \<open>A name in the trash can be made when the trash is a directory.\<close>

definition parent_ok :: "files \<Rightarrow> path \<Rightarrow> bool" where
  "parent_ok fs p = (case p of Top _ \<Rightarrow> True | InTrash _ \<Rightarrow> look fs (Top trash_directory_name) = Some Directory)"

definition fresh_node :: "files \<Rightarrow> nat" where
  "fresh_node fs = Suc (fold max (map snd (fs_entries fs)) 0)"

section \<open>Machine\<close>

text \<open>A call fails with an error of the system, or the program is interrupted there by an exception that is
  not an \<open>OSError\<close>.\<close>

datatype call_failure = Errno string | Interrupted string

definition failure_exn :: "call_failure \<Rightarrow> exn" where
  "failure_exn f = (case f of Errno s \<Rightarrow> OSError s | Interrupted s \<Rightarrow> RuntimeError s)"

text \<open>An event: what others do to the files before a call, how the call fails (it then has no effect) and, for a write, how many bytes it takes.\<close>

record event =
  ev_other :: "files \<Rightarrow> files"
  ev_raises :: "call_failure option"
  ev_count :: nat

record machine =
  mc_files :: files
  mc_events :: "event list"

definition next_event :: "machine \<Rightarrow> event option \<times> machine" where
  "next_event m =
     (case mc_events m of
        [] \<Rightarrow> (None, m)
      | ev # evs \<Rightarrow> (Some ev, m\<lparr>mc_files := ev_other ev (mc_files m), mc_events := evs\<rparr>))"

definition syscall :: "(files \<Rightarrow> 'a res \<times> files) \<Rightarrow> (machine, 'a) prog" where
  "syscall op m =
     (case next_event m of (ev, m') \<Rightarrow>
      case Option.bind ev ev_raises of
        Some f \<Rightarrow> (Inl (failure_exn f), m')
      | None \<Rightarrow> (case op (mc_files m') of (r, fs) \<Rightarrow> (r, m'\<lparr>mc_files := fs\<rparr>)))"

section \<open>System calls\<close>

abbreviation not_found :: exn where "not_found \<equiv> OSError ''No such file or directory''"
abbreviation file_exists :: exn where "file_exists \<equiv> OSError ''File exists''"
abbreviation is_a_directory :: exn where "is_a_directory \<equiv> OSError ''Is a directory''"

text \<open>\<open>Path.iterdir\<close> with \<open>Path.is_file\<close>: the names of the regular files, in the order of the directory.\<close>

definition top_name :: "path \<Rightarrow> string option" where
  "top_name p = (case p of Top name \<Rightarrow> Some name | InTrash _ \<Rightarrow> None)"

definition sys_list_files :: "files \<Rightarrow> string list res \<times> files" where
  "sys_list_files fs =
     (Inr (List.map_filter top_name
        (filter (\<lambda>p. case look fs p of Some (Regular _ _) \<Rightarrow> True | _ \<Rightarrow> False) (remdups (map fst (fs_entries fs))))), fs)"

definition with_regular :: "files \<Rightarrow> path \<Rightarrow> (nat \<Rightarrow> string \<Rightarrow> nat \<Rightarrow> 'a res \<times> files) \<Rightarrow> 'a res \<times> files" where
  "with_regular fs p f =
     (case node_of fs p of
        None \<Rightarrow> (Inl not_found, fs)
      | Some n \<Rightarrow> (case fs_nodes fs n of Regular bytes mode \<Rightarrow> f n bytes mode | Directory \<Rightarrow> (Inl is_a_directory, fs)))"

definition sys_read_bytes :: "path \<Rightarrow> files \<Rightarrow> string res \<times> files" where
  "sys_read_bytes p fs = with_regular fs p (\<lambda>n bytes mode. (Inr bytes, fs))"

definition sys_stat_mode :: "path \<Rightarrow> files \<Rightarrow> nat res \<times> files" where
  "sys_stat_mode p fs = with_regular fs p (\<lambda>n bytes mode. (Inr mode, fs))"

text \<open>\<open>os.open\<close> with \<open>O_CREAT | O_EXCL\<close> returns a descriptor, here the number of the node.\<close>

definition sys_create :: "path \<Rightarrow> nat \<Rightarrow> files \<Rightarrow> nat res \<times> files" where
  "sys_create p mode fs =
     (if \<not> parent_ok fs p then (Inl not_found, fs)
      else if node_of fs p \<noteq> None then (Inl file_exists, fs)
      else (let n = fresh_node fs in
        (Inr n, fs\<lparr>fs_entries := AList.update p n (fs_entries fs), fs_nodes := (fs_nodes fs)(n := Regular [] mode)\<rparr>)))"

definition sys_fchmod :: "nat \<Rightarrow> nat \<Rightarrow> files \<Rightarrow> unit res \<times> files" where
  "sys_fchmod n mode fs =
     (Inr (), fs\<lparr>fs_nodes := (fs_nodes fs)(n := (case fs_nodes fs n of Regular bytes _ \<Rightarrow> Regular bytes mode | Directory \<Rightarrow> Directory))\<rparr>)"

definition sys_append :: "nat \<Rightarrow> string \<Rightarrow> files \<Rightarrow> unit res \<times> files" where
  "sys_append n data fs =
     (Inr (), fs\<lparr>fs_nodes := (fs_nodes fs)(n := (case fs_nodes fs n of Regular bytes mode \<Rightarrow> Regular (bytes @ data) mode | Directory \<Rightarrow> Directory))\<rparr>)"

text \<open>\<open>os.write\<close> takes any number of the bytes it is given and returns it.\<close>

definition sys_write :: "nat \<Rightarrow> string \<Rightarrow> (machine, nat) prog" where
  "sys_write n view m =
     (let count = (case mc_events m of [] \<Rightarrow> length view | ev # _ \<Rightarrow> min (ev_count ev) (length view)) in
      bindp (syscall (sys_append n (take count view))) (\<lambda>_. ret count) m)"

text \<open>\<open>os.fsync\<close>, \<open>os.close\<close> and opening a directory change no file.\<close>

definition sys_nothing :: "files \<Rightarrow> unit res \<times> files" where
  "sys_nothing fs = (Inr (), fs)"

definition sys_unlink :: "path \<Rightarrow> files \<Rightarrow> unit res \<times> files" where
  "sys_unlink p fs =
     with_regular fs p (\<lambda>n bytes mode. (Inr (), fs\<lparr>fs_entries := AList.delete p (fs_entries fs)\<rparr>))"

text \<open>\<open>os.replace\<close> moves a name over another; it does nothing when both are links to one file.\<close>

definition sys_replace :: "path \<Rightarrow> path \<Rightarrow> files \<Rightarrow> unit res \<times> files" where
  "sys_replace p q fs =
     with_regular fs p (\<lambda>n bytes mode.
       if \<not> parent_ok fs q then (Inl not_found, fs)
       else if look fs q = Some Directory then (Inl is_a_directory, fs)
       else if node_of fs q = Some n then (Inr (), fs)
       else (Inr (), fs\<lparr>fs_entries := AList.update q n (AList.delete p (fs_entries fs))\<rparr>))"

definition sys_link :: "path \<Rightarrow> path \<Rightarrow> files \<Rightarrow> unit res \<times> files" where
  "sys_link p q fs =
     with_regular fs p (\<lambda>n bytes mode.
       if \<not> parent_ok fs q then (Inl not_found, fs)
       else if node_of fs q \<noteq> None then (Inl file_exists, fs)
       else (Inr (), fs\<lparr>fs_entries := AList.update q n (fs_entries fs)\<rparr>))"

text \<open>\<open>Path.mkdir(exist_ok=True)\<close> of the trash.\<close>

definition sys_mkdir_trash :: "files \<Rightarrow> unit res \<times> files" where
  "sys_mkdir_trash fs =
     (case look fs (Top trash_directory_name) of
        Some Directory \<Rightarrow> (Inr (), fs)
      | Some (Regular _ _) \<Rightarrow> (Inl file_exists, fs)
      | None \<Rightarrow> (let n = fresh_node fs in
          (Inr (), fs\<lparr>fs_entries := AList.update (Top trash_directory_name) n (fs_entries fs),
                      fs_nodes := (fs_nodes fs)(n := Directory)\<rparr>)))"

section \<open>Exceptions\<close>

text \<open>\<open>try: m except OSError: raise e\<close> and
  \<open>with contextlib.suppress(OSError): m\<close>.\<close>

definition is_os_error :: "exn \<Rightarrow> bool" where
  "is_os_error e = (case e of OSError _ \<Rightarrow> True | _ \<Rightarrow> False)"

definition os_error_as :: "exn \<Rightarrow> ('w, 'a) prog \<Rightarrow> ('w, 'a) prog" where
  "os_error_as err m = catchp m (\<lambda>e. if is_os_error e then raise err else raise e)"

definition suppress_os_error :: "('w, unit) prog \<Rightarrow> ('w, unit) prog" where
  "suppress_os_error m = catchp m (\<lambda>e. if is_os_error e then ret () else raise e)"

end
