(* ===== verification/Json_Pretty.thy ===== *)
theory Json_Pretty
  imports Json_Text
begin

text \<open>
  \<open>json.dumps(value, indent=indent, ensure_ascii=False)\<close> without \<open>sort_keys\<close>, as the writer of deployment
  files uses it: keys in their order, one item per line under an indentation, or \<open>", "\<close> and \<open>": "\<close> as
  separators without one.

  Proved: what is written under any indentation reads back as the same value with its keys in the same
  order (\<open>json_loads_pretty\<close>), also with white space after it.
\<close>

section \<open>Writing\<close>

definition newline_indent :: "nat option \<Rightarrow> nat \<Rightarrow> string" where
  "newline_indent indent level = (case indent of None \<Rightarrow> [] | Some k \<Rightarrow> CHR 0x0A # replicate (k * level) (CHR '' ''))"

definition item_separator :: "nat option \<Rightarrow> nat \<Rightarrow> string" where
  "item_separator indent level = (case indent of None \<Rightarrow> '', '' | Some k \<Rightarrow> CHR '','' # newline_indent indent level)"

fun joined :: "string \<Rightarrow> string list \<Rightarrow> string" where
  "joined sep [] = []"
| "joined sep [x] = x"
| "joined sep (x # y # ys) = x @ sep @ joined sep (y # ys)"

fun json_pretty :: "nat option \<Rightarrow> nat \<Rightarrow> json \<Rightarrow> string" where
  "json_pretty indent level (JArr vs) =
     (if vs = [] then ''[]''
      else CHR ''['' # newline_indent indent (level + 1)
        @ joined (item_separator indent (level + 1)) (map (json_pretty indent (level + 1)) vs)
        @ newline_indent indent level @ '']'')"
| "json_pretty indent level (JObj kvs) =
     (if kvs = [] then ''{}''
      else CHR ''{'' # newline_indent indent (level + 1)
        @ joined (item_separator indent (level + 1))
            (map (\<lambda>(k, v). json_string k @ '': '' @ json_pretty indent (level + 1) v) kvs)
        @ newline_indent indent level @ ''}'')"
| "json_pretty indent level v = json_text v"

section \<open>What is written reads back\<close>

text \<open>The separators are a comma and white space.\<close>

definition blanks :: "string \<Rightarrow> bool" where
  "blanks s \<longleftrightarrow> list_all json_space s"

lemma blanks_newline [simp]: "blanks (newline_indent indent level)"
  by (auto simp: blanks_def newline_indent_def json_space_def list_all_iff split: option.splits)

lemma item_separator_blanks: "\<exists>w. item_separator indent level = CHR '','' # w \<and> blanks w"
  by (auto simp: item_separator_def blanks_def json_space_def newline_indent_def list_all_iff split: option.splits)

lemma skip_ws_blanks [simp]: "blanks w \<Longrightarrow> skip_ws (w @ s) = skip_ws s"
  by (simp add: blanks_def skip_ws_def list_all_iff dropWhile_append2)

lemma skip_ws_blanks_all [simp]: "blanks w \<Longrightarrow> skip_ws w = []"
  by (simp add: blanks_def skip_ws_def list_all_iff)

text \<open>What may follow a value so that it is read whole.\<close>

definition ends :: "string \<Rightarrow> bool" where
  "ends r \<longleftrightarrow> r = [] \<or> ends_value (hd r)"

lemma ends_simps [simp]:
  "ends []" "ends (c # s) \<longleftrightarrow> ends_value c"
  "ends_value (CHR '','')" "ends_value (CHR '']'')" "ends_value (CHR ''}'')" "json_space c \<Longrightarrow> ends_value c"
  by (simp_all add: ends_def ends_value_def)

lemma ends_blanks [simp]: "blanks w \<Longrightarrow> ends s \<Longrightarrow> ends (w @ s)"
  by (cases w) (simp_all add: blanks_def)

lemma stops_ends: "ends r \<Longrightarrow> stops r \<and> (r = [] \<or> hd r \<notin> {CHR ''+'', CHR ''-''})"
  using ends_valueD [of "hd r"] by (auto simp: ends_def stops_def)

lemma parse_number_ends:
  assumes "scan_number t = Some (t, b, [])" and "ends r"
  shows "parse_value h (Suc n) (t @ r) = Some (number_value h t b, r)"
  using scan_number_app [OF assms(1)] stops_ends [OF assms(2)] by (intro parse_literal) simp

lemma parse_float_ends:
  assumes "float_ok h t" and "ends r"
  shows "parse_value h (Suc n) (t @ r) = Some (JFloat t, r)"
  using assms parse_number_ends [OF _ assms(2), of t True h n]
  by (auto simp: float_ok_def number_value_def scan_literal_def constant_value_def no_number)

lemma json_pretty_head: "json_ok h v \<Longrightarrow> \<exists>c t. json_pretty indent level v = c # t \<and> \<not> json_space c \<and> c \<notin> {CHR '']'', CHR ''}''}"
  using json_text_head [of h v] by (cases v) simp_all

lemma joined_Cons: "xs \<noteq> [] \<Longrightarrow> joined sep (x # xs) = x @ sep @ joined sep xs"
  by (cases xs) simp_all

abbreviation pretty_member :: "nat option \<Rightarrow> nat \<Rightarrow> string \<times> json \<Rightarrow> string" where
  "pretty_member indent level p \<equiv> (case p of (k, v) \<Rightarrow> json_string k @ '': '' @ json_pretty indent level v)"

lemma parse_pretty_members:
  assumes "\<And>k v n r. (k, v) \<in> set kvs \<Longrightarrow> 2 * length (json_pretty i l v) < n \<Longrightarrow> ends r \<Longrightarrow>
        parse_value h n (json_pretty i l v @ r) = Some (v, r)"
    and "\<And>k v. (k, v) \<in> set kvs \<Longrightarrow> json_ok h v" and "blanks w"
    and "kvs \<noteq> []" and "2 * length (joined (item_separator i l) (map (pretty_member i l) kvs)) < n"
  shows "parse_members h n (tl (joined (item_separator i l) (map (pretty_member i l) kvs)) @ w @ CHR ''}'' # r) = Some (kvs, r)"
  using assms
proof (induction kvs arbitrary: n)
  case (Cons p kvs)
  obtain k v where p: "p = (k, v)" by (cases p)
  let ?sep = "item_separator i l" and ?rest = "joined (item_separator i l) (map (pretty_member i l) kvs)"
  obtain b where b: "?sep = CHR '','' # b" "blanks b" using item_separator_blanks by blast
  from Cons.prems(5) obtain m where n: "n = Suc m" by (cases n) auto
  from Cons.prems(2) p have ok: "json_ok h v" by auto
  from json_pretty_head [OF ok] obtain c t where head: "json_pretty i l v = c # t" "\<not> json_space c" by blast
  have colon: "skip_ws (CHR '' '' # json_pretty i l v @ q) = json_pretty i l v @ q" for q
    using head by (simp add: skip_ws_def json_space_def)
  show ?case
  proof (cases "kvs = []")
    case True
    have "parse_value h m (json_pretty i l v @ w @ CHR ''}'' # r) = Some (v, w @ CHR ''}'' # r)"
      by (rule Cons.prems(1)) (use Cons.prems p True n in \<open>auto simp: json_string_def\<close>)
    then show ?thesis using True p n Cons.prems(3) by (simp add: json_string_def colon)
  next
    case False
    then obtain k' v' kvs' where kvs: "kvs = (k', v') # kvs'" by (cases kvs) auto
    then obtain s where s: "?rest = dquote # s"
      by (cases kvs') (auto simp: json_string_def)
    let ?q = "?sep @ ?rest @ w @ CHR ''}'' # r"
    have join: "joined ?sep (map (pretty_member i l) (p # kvs)) = json_string k @ '': '' @ json_pretty i l v @ ?sep @ ?rest"
      using False p by (simp add: joined_Cons)
    have 1: "parse_value h m (json_pretty i l v @ ?q) = Some (v, ?q)"
      by (rule Cons.prems(1)) (use Cons.prems(5) p n join b in \<open>auto simp: json_string_def\<close>)
    have "2 * length ?rest < m" using Cons.prems(5) n join by simp
    from Cons.IH [OF _ _ Cons.prems(3) False this] Cons.prems(1,2)
    have 2: "parse_members h m (tl ?rest @ w @ CHR ''}'' # r) = Some (kvs, r)"
      by (metis list.set_intros(2))
    from 1 2 s b show ?thesis unfolding n join by (simp add: p json_string_def colon)
  qed
qed simp

lemma parse_pretty_elements:
  assumes "\<And>v n r. v \<in> set vs \<Longrightarrow> 2 * length (json_pretty i l v) < n \<Longrightarrow> ends r \<Longrightarrow>
        parse_value h n (json_pretty i l v @ r) = Some (v, r)"
    and "\<And>v. v \<in> set vs \<Longrightarrow> json_ok h v" and "blanks w"
    and "vs \<noteq> []" and "2 * length (joined (item_separator i l) (map (json_pretty i l) vs)) + 1 < n"
  shows "parse_elements h n (joined (item_separator i l) (map (json_pretty i l) vs) @ w @ CHR '']'' # r) = Some (vs, r)"
  using assms
proof (induction vs arbitrary: n)
  case (Cons v vs)
  let ?sep = "item_separator i l" and ?rest = "joined (item_separator i l) (map (json_pretty i l) vs)"
  obtain b where b: "?sep = CHR '','' # b" "blanks b" using item_separator_blanks by blast
  from Cons.prems(5) obtain m where n: "n = Suc m" by (cases n) auto
  show ?case
  proof (cases "vs = []")
    case True
    have "parse_value h m (json_pretty i l v @ w @ CHR '']'' # r) = Some (v, w @ CHR '']'' # r)"
      by (rule Cons.prems(1)) (use Cons.prems True n in auto)
    then show ?thesis using True n Cons.prems(3) by simp
  next
    case False
    let ?q = "?sep @ ?rest @ w @ CHR '']'' # r"
    have join: "joined ?sep (map (json_pretty i l) (v # vs)) = json_pretty i l v @ ?sep @ ?rest"
      using False by (simp add: joined_Cons)
    obtain c t where rest: "?rest = c # t" "\<not> json_space c"
      using False json_pretty_head [of h "hd vs" i l] Cons.prems(2) by (cases vs; cases "tl vs") auto
    have 1: "parse_value h m (json_pretty i l v @ ?q) = Some (v, ?q)"
      by (rule Cons.prems(1)) (use Cons.prems(5) n join b in auto)
    have 2: "parse_elements h m (?rest @ w @ CHR '']'' # r) = Some (vs, r)"
      by (rule Cons.IH) (use Cons.prems False n join b in auto)
    from 1 2 rest b show ?thesis unfolding n join by simp
  qed
qed simp

context json_reader
begin

theorem parse_json_pretty:
  "json_ok h v \<Longrightarrow> 2 * length (json_pretty i l v) < n \<Longrightarrow> ends r \<Longrightarrow> parse_value h n (json_pretty i l v @ r) = Some (v, r)"
proof (induction v arbitrary: n r l)
  case (JInt k)
  then obtain n' where "n = Suc n'" by (cases n) auto
  with JInt parse_number_ends [OF scan_number_int_text, of r h n' k] show ?case
    by (simp add: number_value_def int_of_text_int_text del: parse_value.simps)
next
  case (JFloat t)
  then obtain n' where "n = Suc n'" by (cases n) auto
  with JFloat parse_float_ends [of h t r n'] show ?case by (simp del: parse_value.simps)
next
  case (JArr vs)
  then obtain n' where n': "n = Suc n'" by (cases n) auto
  show ?case
  proof (cases "vs = []")
    case False
    let ?items = "joined (item_separator i (l + 1)) (map (json_pretty i (l + 1)) vs)"
    obtain c t where m: "?items = c # t" "\<not> json_space c" "c \<noteq> CHR '']''"
      using False JArr.prems json_pretty_head [of h "hd vs" i "l + 1"] by (cases vs; cases "tl vs") auto
    have "parse_elements h n' (?items @ newline_indent i l @ CHR '']'' # r) = Some (vs, r)"
      by (rule parse_pretty_elements [OF JArr.IH]) (use JArr.prems False n' in \<open>auto simp: list_all_iff\<close>)
    with m n' False show ?thesis by simp
  qed (simp add: n')
next
  case (JObj kvs)
  then obtain n' where n': "n = Suc n'" by (cases n) auto
  show ?case
  proof (cases "kvs = []")
    case False
    let ?items = "joined (item_separator i (l + 1)) (map (pretty_member i (l + 1)) kvs)"
    obtain t where m: "?items = dquote # t"
      using False by (cases kvs; cases "tl kvs") (auto simp: json_string_def split: prod.splits)
    have "parse_members h n' (tl ?items @ newline_indent i l @ CHR ''}'' # r) = Some (kvs, r)"
      by (rule parse_pretty_members [OF JObj.IH]) (use JObj.prems False n' in \<open>auto simp: list_all_iff\<close>)
    with m n' False JObj.prems show ?thesis by (simp add: pairs_kept)
  qed (simp add: n')
next
  case JNull
  then obtain n' where "n = Suc n'" by (cases n) auto
  then show ?case by (simp add: scan_literal_def)
next
  case (JBool b)
  then obtain n' where "n = Suc n'" by (cases n) auto
  then show ?case by (simp add: scan_literal_def)
next
  case (JStr s)
  then obtain n' where "n = Suc n'" by (cases n) auto
  then show ?case by (simp add: json_string_def)
qed

theorem json_loads_pretty:
  assumes "json_ok h v" and "blanks w"
  shows "json_loads h (json_pretty i l v @ w) = Some v"
proof -
  let ?t = "json_pretty i l v"
  from json_pretty_head [OF assms(1)] obtain c t where head: "?t = c # t" "\<not> json_space c" by blast
  have "ends w" using ends_blanks [OF assms(2), of "[]"] by simp
  from parse_json_pretty [OF assms(1) _ this, of i l "Suc (2 * length ?t)"]
  have "parse_value h (Suc (2 * length ?t)) (skip_ws (?t @ w)) = Some (v, w)"
    using head by (simp del: parse_value.simps)
  with assms(2) show ?thesis unfolding json_loads_iff by (metis skip_ws_blanks_all)
qed

end

end
