(* ===== verification/Catalog_Files.thy ===== *)
theory Catalog_Files
  imports Catalog_Disk Deployments Json_Pretty Utf8
begin

text \<open>
  The deployment catalog on disk (\<open>utility/deployment_catalog/filesystem_adapter.py\<close>, \<open>identity.py\<close>):
  the identity of a deployment, the parser of one file and the scan of the directory.

  The parameters are the digest \<open>sha256(...).hexdigest()\<close>, the interpreter's conversion of floats
  (\<open>ft\<close>) and its rendering of exceptions (\<open>error_text\<close>). A non-finite float is written \<open>NaN\<close>,
  \<open>Infinity\<close> or \<open>-Infinity\<close>; a numeral such as \<open>1e999\<close> is read as the second.
\<close>

section \<open>Identity\<close>

fun finite_json :: "json \<Rightarrow> bool" where
  "finite_json (JFloat t) = (t \<notin> {''NaN'', ''Infinity'', ''-Infinity''})"
| "finite_json (JArr vs) = list_all finite_json vs"
| "finite_json (JObj kvs) = list_all (\<lambda>(k, v). finite_json v) kvs"
| "finite_json v = True"

text \<open>\<open>str\<close> and \<open>repr\<close> of a JSON value, for the text in front of the digest.\<close>

definition repr_char :: "char \<Rightarrow> char \<Rightarrow> string" where
  "repr_char q c =
     (let n = (of_char c :: nat) in
      if c = q \<or> c = bslash then [bslash, c]
      else if c = CHR 0x09 then [bslash, CHR ''t'']
      else if c = CHR 0x0A then [bslash, CHR ''n'']
      else if c = CHR 0x0D then [bslash, CHR ''r'']
      else if n < 32 \<or> 127 \<le> n \<and> n \<le> 160 \<or> n = 173
      then [bslash, CHR ''x'', hex_char (n div 16), hex_char n]
      else [c])"

definition repr_string :: "string \<Rightarrow> string" where
  "repr_string s =
     (let q = (if CHR 0x27 \<in> set s \<and> dquote \<notin> set s then dquote else CHR 0x27) in
      q # concat (map (repr_char q) s) @ [q])"

fun py_repr :: "json \<Rightarrow> string" where
  "py_repr JNull = ''None''"
| "py_repr (JBool b) = (if b then ''True'' else ''False'')"
| "py_repr (JInt n) = int_text n"
| "py_repr (JFloat t) =
     (if t = ''NaN'' then ''nan'' else if t = ''Infinity'' then ''inf'' else if t = ''-Infinity'' then ''-inf'' else t)"
| "py_repr (JStr s) = repr_string s"
| "py_repr (JArr vs) = CHR ''['' # joined '', '' (map py_repr vs) @ '']''"
| "py_repr (JObj kvs) = CHR ''{'' # joined '', '' (map (\<lambda>(k, v). repr_string k @ '': '' @ py_repr v) kvs) @ ''}''"

definition py_str :: "json \<Rightarrow> string" where
  "py_str v = (case v of JStr s \<Rightarrow> s | _ \<Rightarrow> py_repr v)"

definition identity_payload :: "json \<Rightarrow> json \<Rightarrow> json \<Rightarrow> json \<Rightarrow> json" where
  "identity_payload strategy_id ticker base_timeframe raw_spec =
     JObj [(''strategy_id'', strategy_id), (''ticker'', ticker), (''base_timeframe'', base_timeframe),
           (''raw_spec'', raw_spec)]"

definition canonical_payload :: "json \<Rightarrow> string" where
  "canonical_payload payload = utf8_encode (json_dumps payload)"

definition derive_strategy_instance_id ::
    "(string \<Rightarrow> string) \<Rightarrow> json \<Rightarrow> json \<Rightarrow> json \<Rightarrow> json \<Rightarrow> string res" where
  "derive_strategy_instance_id hexdigest strategy_id ticker base_timeframe raw_spec =
     (let payload = identity_payload strategy_id ticker base_timeframe raw_spec in
      if \<not> finite_json payload then Inl (ValueError ''Out of range float values are not JSON compliant'')
      else Inr (py_str strategy_id @ '':'' @ take 24 (hexdigest (canonical_payload payload))))"

section \<open>Candidates\<close>

text \<open>\<open>Path.suffix\<close> and \<open>Path.stem\<close>.\<close>

definition split_name :: "string \<Rightarrow> string \<times> string" where
  "split_name name =
     (let ext = takeWhile (\<lambda>c. c \<noteq> CHR ''.'') (rev name); rest = dropWhile (\<lambda>c. c \<noteq> CHR ''.'') (rev name) in
      if ext = [] \<or> tl rest = [] then (name, []) else (rev (tl rest), CHR ''.'' # rev ext))"

definition is_candidate :: "string \<Rightarrow> bool" where
  "is_candidate name \<longleftrightarrow> \<not> (name \<noteq> [] \<and> hd name = CHR ''.'') \<and> snd (split_name name) = ''.json''"

definition enumerate_candidates :: "(machine, string list) prog" where
  "enumerate_candidates =
     bindp (os_error_as DeploymentCatalogUnavailableError (syscall sys_list_files)) (\<lambda>names.
     ret (sort (filter is_candidate names)))"

section \<open>One file\<close>

text \<open>\<open>_InvalidDeployment\<close>: a code and a message.\<close>

type_synonym invalid_deployment = "string \<times> string option"

text \<open>\<open>Path.read_text\<close> reads line ends as line feeds.\<close>

fun universal_newlines :: "string \<Rightarrow> string" where
  "universal_newlines [] = []"
| "universal_newlines [c] = [if c = CHR 0x0D then CHR 0x0A else c]"
| "universal_newlines (c # d # s) =
     (if c = CHR 0x0D then CHR 0x0A # universal_newlines (if d = CHR 0x0A then s else d # s)
      else c # universal_newlines (d # s))"

definition reject_non_finite_number :: "string \<Rightarrow> json option" where
  "reject_non_finite_number t = None"

definition document_hooks :: "(string \<Rightarrow> string) \<Rightarrow> json_hooks" where
  "document_hooks ft =
     \<lparr>jh_float = ft, jh_pairs = (\<lambda>kvs. Some (dict_of_pairs kvs)), jh_constant = reject_non_finite_number\<rparr>"

interpretation document: json_reader "document_hooks ft" for ft
  by unfold_locales (simp add: document_hooks_def dict_of_pairs_distinct)

definition read_document ::
    "(string \<Rightarrow> string) \<Rightarrow> (exn \<Rightarrow> string) \<Rightarrow> string \<Rightarrow> (machine, invalid_deployment + json) prog" where
  "read_document ft error_text name =
     tryp (syscall (sys_read_bytes (Top name)))
       (\<lambda>e. if is_os_error e then ret (Inl (''file_read_failed'', Some (error_text e))) else raise e)
       (\<lambda>bytes. case utf8_decode bytes of
           None \<Rightarrow> raise UnicodeDecodeError
         | Some t \<Rightarrow>
             (case json_loads (document_hooks ft) (universal_newlines t) of
                None \<Rightarrow> ret (Inl (''invalid_json'', Some (error_text JSONDecodeError)))
              | Some v \<Rightarrow> ret (Inr v)))"

definition sum_bind :: "'a + 'b \<Rightarrow> ('b \<Rightarrow> 'a + 'c) \<Rightarrow> 'a + 'c" where
  "sum_bind x f = (case x of Inl a \<Rightarrow> Inl a | Inr b \<Rightarrow> f b)"

fun reject_obsolete_fields :: "json_object \<Rightarrow> string list \<Rightarrow> invalid_deployment + unit" where
  "reject_obsolete_fields document [] = Inr ()"
| "reject_obsolete_fields document (field_name # rest) =
     (if field_name \<in> fst ` set document then Inl (''forbidden_obsolete_field'', Some field_name)
      else reject_obsolete_fields document rest)"

definition require_enabled :: "json_object \<Rightarrow> invalid_deployment + bool" where
  "require_enabled document =
     (case map_of document ''enabled'' of
        None \<Rightarrow> Inl (''missing_required_field'', Some ''enabled'')
      | Some (JBool b) \<Rightarrow> Inr b
      | Some _ \<Rightarrow> Inl (''invalid_field_type'', Some ''enabled''))"

definition require_string :: "json_object \<Rightarrow> string \<Rightarrow> invalid_deployment + string" where
  "require_string document field_name =
     (case map_of document field_name of
        None \<Rightarrow> Inl (''missing_required_field'', Some field_name)
      | Some (JStr s) \<Rightarrow> (if nonblank s then Inr s else Inl (''empty_required_field'', Some field_name))
      | Some _ \<Rightarrow> Inl (''invalid_field_type'', Some field_name))"

definition require_raw_spec :: "json_object \<Rightarrow> invalid_deployment + json_object" where
  "require_raw_spec document =
     (case map_of document ''raw_spec'' of
        None \<Rightarrow> Inl (''missing_required_field'', Some ''raw_spec'')
      | Some (JObj raw_spec) \<Rightarrow> Inr raw_spec
      | Some _ \<Rightarrow> Inl (''invalid_raw_spec'', None))"

text \<open>The checks of \<open>_parse_deployment\<close>: \<open>enabled\<close>, ticker, timeframe, strategy and specification.\<close>

definition checked_fields :: "json \<Rightarrow> invalid_deployment + bool \<times> string \<times> string \<times> string \<times> json_object" where
  "checked_fields document =
     (case document of
        JObj d \<Rightarrow>
          sum_bind (reject_obsolete_fields d [''strategy_instance_id'', ''strategy_version'', ''compatibility_profile'']) (\<lambda>_.
          sum_bind (require_enabled d) (\<lambda>enabled.
          sum_bind (require_string d ''ticker'') (\<lambda>ticker.
          sum_bind (require_string d ''base_timeframe'') (\<lambda>base_timeframe.
          sum_bind (require_string d ''strategy_id'') (\<lambda>strategy_id.
          sum_bind (require_raw_spec d) (\<lambda>raw_spec.
          Inr (enabled, ticker, base_timeframe, strategy_id, raw_spec)))))))
      | _ \<Rightarrow> Inl (''invalid_root'', None))"

definition parse_deployment ::
    "(string \<Rightarrow> string) \<Rightarrow> string \<Rightarrow> json \<Rightarrow> (invalid_deployment + DeploymentSpecification) res" where
  "parse_deployment hexdigest filename document =
     (case checked_fields document of
        Inl x \<Rightarrow> Inr (Inl x)
      | Inr (enabled, ticker, base_timeframe, strategy_id, raw_spec) \<Rightarrow>
          res_bind (derive_strategy_instance_id hexdigest (JStr strategy_id) (JStr ticker) (JStr base_timeframe) (JObj raw_spec))
            (\<lambda>strategy_instance_id.
          res_bind (new_DeploymentSpecification
            \<lparr>ds_strategy_instance_id = strategy_instance_id, ds_enabled = enabled, ds_instrument = ticker,
             ds_base_timeframe = base_timeframe, ds_strategy_id = strategy_id, ds_raw_spec = raw_spec,
             ds_source_path = filename\<rparr>) (\<lambda>d. Inr (Inr d))))"

section \<open>The scan\<close>

record catalog_config =
  cc_hexdigest :: "string \<Rightarrow> string"
  cc_float_text :: "string \<Rightarrow> string"
  cc_error_text :: "exn \<Rightarrow> string"

definition read_deployment ::
    "catalog_config \<Rightarrow> string \<Rightarrow> (machine, invalid_deployment + DeploymentSpecification) prog" where
  "read_deployment C name =
     bindp (read_document (cc_float_text C) (cc_error_text C) name) (\<lambda>x. case x of
         Inl bad \<Rightarrow> ret (Inl bad)
       | Inr document \<Rightarrow> lift_res (parse_deployment (cc_hexdigest C) name document))"

fun read_candidates ::
    "catalog_config \<Rightarrow> string list \<Rightarrow> (machine, DeploymentSpecification list \<times> InvalidDeploymentFile list) prog" where
  "read_candidates C [] = ret ([], [])"
| "read_candidates C (name # names) =
     bindp (read_deployment C name) (\<lambda>x.
     bindp (read_candidates C names) (\<lambda>(accepted, invalid).
     ret (case x of
            Inl (code, message) \<Rightarrow>
              (accepted, \<lparr>idf_source_path = name, idf_error_code = code, idf_error_message = message\<rparr> # invalid)
          | Inr d \<Rightarrow> (d # accepted, invalid))))"

text \<open>The groups in the order of their identities, those with more than one file.\<close>

definition group_of :: "DeploymentSpecification list \<Rightarrow> string \<Rightarrow> DeploymentSpecification list" where
  "group_of accepted i = filter (\<lambda>d. ds_strategy_instance_id d = i) accepted"

definition duplicate_identities :: "DeploymentSpecification list \<Rightarrow> DuplicateDeploymentIdentity list" where
  "duplicate_identities accepted =
     map (\<lambda>i. \<lparr>ddi_strategy_instance_id = i, ddi_source_paths = sort (map ds_source_path (group_of accepted i))\<rparr>)
       (filter (\<lambda>i. length (group_of accepted i) > 1) (sort (remdups (map ds_strategy_instance_id accepted))))"

definition build_snapshot ::
    "nat \<Rightarrow> DeploymentSpecification list \<Rightarrow> InvalidDeploymentFile list \<Rightarrow> DeploymentCatalogSnapshot res" where
  "build_snapshot scanned accepted invalid =
     (let duplicates = duplicate_identities accepted in
      new_DeploymentCatalogSnapshot
        \<lparr>dcs_scanned_file_count = int scanned,
         dcs_accepted_deployments =
           filter (\<lambda>d. ds_strategy_instance_id d \<notin> ddi_strategy_instance_id ` set duplicates) accepted,
         dcs_invalid_files = invalid,
         dcs_duplicate_identities = duplicates\<rparr>)"

definition catalog_load_snapshot :: "catalog_config \<Rightarrow> (machine, DeploymentCatalogSnapshot) prog" where
  "catalog_load_snapshot C =
     bindp enumerate_candidates (\<lambda>candidates.
     bindp (read_candidates C candidates) (\<lambda>(accepted, invalid).
     lift_res (build_snapshot (length candidates) accepted invalid)))"

end
