(* ===== verification/Catalog_Changes.thy ===== *)
theory Catalog_Changes
  imports Catalog_Files
begin

text \<open>
  The two changes of the catalog directory: \<open>utility/deployment_catalog/enabled_writer.py\<close> rewrites the
  \<open>enabled\<close> field of a deployment file, \<open>trash_mover.py\<close> moves a file into the hidden trash. Both find
  the file by a scan of the catalog; every read, write and rename is a system call of \<open>Catalog_Disk\<close>,
  before which others may change the directory and which may fail.

  Parameters: \<open>suffix\<close> is the process id and the random token in the name of the temporary file,
  \<open>stamp\<close> the clock rendered for the name in the trash.
\<close>

section \<open>Documents\<close>

definition document_of :: "(string \<Rightarrow> string) \<Rightarrow> string \<Rightarrow> json_object option" where
  "document_of ft content =
     (case Option.bind (utf8_decode content) (json_loads (document_hooks ft)) of
        Some (JObj d) \<Rightarrow> (case map_of d ''enabled'' of Some (JBool _) \<Rightarrow> Some d | _ \<Rightarrow> None)
      | _ \<Rightarrow> None)"

definition identity_of :: "(string \<Rightarrow> string) \<Rightarrow> json_object \<Rightarrow> string option" where
  "identity_of hexdigest d =
     (case (map_of d ''strategy_id'', map_of d ''ticker'', map_of d ''base_timeframe'', map_of d ''raw_spec'') of
        (Some strategy_id, Some ticker, Some base_timeframe, Some raw_spec) \<Rightarrow>
          (case derive_strategy_instance_id hexdigest strategy_id ticker base_timeframe raw_spec of
             Inl _ \<Rightarrow> None | Inr i \<Rightarrow> Some i)
      | _ \<Rightarrow> None)"

fun indent_of_lines :: "string list \<Rightarrow> nat option" where
  "indent_of_lines [] = None"
| "indent_of_lines (line # rest) =
     (let stripped = dropWhile (\<lambda>c. c = CHR '' '') line in
      if stripped \<noteq> [] \<and> length stripped \<noteq> length line then Some (length line - length stripped)
      else if stripped \<noteq> [] then None
      else indent_of_lines rest)"

definition detect_indent :: "string \<Rightarrow> nat option" where
  "detect_indent t =
     (let lines = split_on (CHR 0x0A) t in if length lines < 2 then None else indent_of_lines (tl lines))"

definition serialize :: "json_object \<Rightarrow> string \<Rightarrow> string res" where
  "serialize d original =
     (case utf8_decode original of
        None \<Rightarrow> Inl UnicodeDecodeError
      | Some t \<Rightarrow>
          if \<not> finite_json (JObj d) then Inl (ValueError ''Out of range float values are not JSON compliant'')
          else Inr (utf8_encode (json_pretty (detect_indent t) 0 (JObj d)
            @ (if t \<noteq> [] \<and> last t = CHR 0x0A then [CHR 0x0A] else []))))"

section \<open>The enabled writer\<close>

text \<open>\<open>while view: view = view[os.write(descriptor, view):]\<close>.\<close>

lemma sys_write_events: "sys_write n view m = (r, m') \<Longrightarrow> mc_events m' = tl (mc_events m)"
  by (auto simp: sys_write_def syscall_def next_event_def bindp_apply Let_def
      split: list.splits option.splits prod.splits sum.splits)

lemma sys_write_whole: "sys_write n view m = (Inr k, m') \<Longrightarrow> mc_events m = [] \<Longrightarrow> k = length view"
  by (auto simp: sys_write_def bindp_apply split: prod.splits sum.splits)

lemma sys_write_progress:
  assumes "sys_write n view m = (Inr k, m')" and "view \<noteq> []"
  shows "length view - k + length (mc_events m') < length view + length (mc_events m)"
  using assms sys_write_events [OF assms(1)] sys_write_whole [OF assms(1)] by (cases "mc_events m") simp_all

function write_all :: "nat \<Rightarrow> string \<Rightarrow> machine \<Rightarrow> unit res \<times> machine" where
  "write_all descriptor view m =
     (if view = [] then (Inr (), m)
      else case sys_write descriptor view m of
        (Inl e, m') \<Rightarrow> (Inl e, m')
      | (Inr written, m') \<Rightarrow> write_all descriptor (drop written view) m')"
  by pat_completeness auto
termination
  by (relation "measure (\<lambda>(descriptor, view, m). length view + length (mc_events m))")
    (auto dest!: sym [of "(_, _)"] sys_write_progress)

declare write_all.simps [simp del]

definition write_temporary :: "path \<Rightarrow> string \<Rightarrow> nat \<Rightarrow> (machine, unit) prog" where
  "write_temporary temporary payload mode =
     os_error_as (EnabledFileChangeError DeploymentFileWriteFailed)
       (bindp (syscall (sys_create temporary 384)) (\<lambda>descriptor.
        finallyp
          (bindp (syscall (sys_fchmod descriptor mode)) (\<lambda>_.
           bindp (write_all descriptor payload) (\<lambda>_.
           syscall sys_nothing)))
          (syscall sys_nothing)))"

text \<open>Open, \<open>fsync\<close> and close of a directory; a failure is logged.\<close>

definition sync_directory :: "(machine, unit) prog" where
  "sync_directory =
     suppress_os_error
       (bindp (syscall sys_nothing) (\<lambda>_. finallyp (syscall sys_nothing) (syscall sys_nothing)))"

definition catalog_deployment ::
    "catalog_config \<Rightarrow> exn \<Rightarrow> string \<Rightarrow> (machine, DeploymentSpecification) prog" where
  "catalog_deployment C unavailable strategy_instance_id =
     bindp (catchp (catalog_load_snapshot C)
       (\<lambda>e. if e = DeploymentCatalogUnavailableError then raise unavailable else raise e)) (\<lambda>snapshot.
     case get_by_strategy_instance_id snapshot strategy_instance_id of
       None \<Rightarrow> raise (EnabledFileChangeError DeploymentNotInCatalog)
     | Some deployment \<Rightarrow> ret deployment)"

definition temporary_path :: "string \<Rightarrow> string \<Rightarrow> path" where
  "temporary_path name suffix = Top (CHR ''.'' # name @ ''.tmp-'' @ suffix)"

text \<open>What is written, computed from what was read: \<open>None\<close> when the file already has the value.\<close>

definition enabled_payload :: "catalog_config \<Rightarrow> string \<Rightarrow> bool \<Rightarrow> string \<Rightarrow> string option res" where
  "enabled_payload C strategy_instance_id enabled original =
     (case document_of (cc_float_text C) original of
        None \<Rightarrow> Inl (EnabledFileChangeError DeploymentFileChanged)
      | Some document \<Rightarrow>
          if identity_of (cc_hexdigest C) document \<noteq> Some strategy_instance_id
          then Inl (EnabledFileChangeError DeploymentFileChanged)
          else if map_of document ''enabled'' = Some (JBool enabled) then Inr None
          else
            (let updated = AList.update ''enabled'' (JBool enabled) document in
             if identity_of (cc_hexdigest C) updated \<noteq> Some strategy_instance_id
             then Inl (EnabledFileChangeError DeploymentIdentityWouldChange)
             else res_bind (serialize updated original) (\<lambda>payload.
               case document_of (cc_float_text C) payload of
                 None \<Rightarrow> Inl (EnabledFileChangeError DeploymentIdentityWouldChange)
               | Some reparsed \<Rightarrow>
                   if \<not> json_eq (JObj reparsed) (JObj updated)
                      \<or> identity_of (cc_hexdigest C) reparsed \<noteq> Some strategy_instance_id
                   then Inl (EnabledFileChangeError DeploymentIdentityWouldChange)
                   else Inr (Some payload))))"

text \<open>The temporary file is written, the original read again, and the one moved over the other; on any
  exception the temporary file is removed.\<close>

definition replace_file :: "path \<Rightarrow> path \<Rightarrow> string \<Rightarrow> string \<Rightarrow> nat \<Rightarrow> (machine, unit) prog" where
  "replace_file path temporary original payload mode =
     catchp
       (bindp (write_temporary temporary payload mode) (\<lambda>_.
        bindp (os_error_as (EnabledFileChangeError DeploymentFileWriteFailed) (syscall (sys_read_bytes path))) (\<lambda>current.
        if current \<noteq> original then raise (EnabledFileChangeError DeploymentFileChanged)
        else os_error_as (EnabledFileChangeError DeploymentFileWriteFailed) (syscall (sys_replace temporary path)))))
       (\<lambda>e. bindp (suppress_os_error (syscall (sys_unlink temporary))) (\<lambda>_. raise e))"

definition rewrite_enabled ::
    "catalog_config \<Rightarrow> string \<Rightarrow> string \<Rightarrow> bool \<Rightarrow> DeploymentSpecification \<Rightarrow> (machine, bool) prog" where
  "rewrite_enabled C suffix strategy_instance_id enabled deployment =
     (let path = Top (ds_source_path deployment) in
     bindp (os_error_as (EnabledFileChangeError DeploymentFileWriteFailed)
       (bindp (syscall (sys_read_bytes path)) (\<lambda>original.
        bindp (syscall (sys_stat_mode path)) (\<lambda>mode. ret (original, mode mod 512))))) (\<lambda>(original, mode).
     bindp (lift_res (enabled_payload C strategy_instance_id enabled original)) (\<lambda>payload.
     case payload of
       None \<Rightarrow> ret False
     | Some bytes \<Rightarrow>
         bindp (replace_file path (temporary_path (ds_source_path deployment) suffix) original bytes mode) (\<lambda>_.
         bindp sync_directory (\<lambda>_. ret True)))))"

definition file_set_enabled :: "catalog_config \<Rightarrow> string \<Rightarrow> string \<Rightarrow> bool \<Rightarrow> (machine, bool) prog" where
  "file_set_enabled C suffix strategy_instance_id enabled =
     bindp (catalog_deployment C (EnabledFileChangeError DeploymentFileWriteFailed) strategy_instance_id)
       (rewrite_enabled C suffix strategy_instance_id enabled)"

section \<open>The trash mover\<close>

abbreviation move_failed :: exn where "move_failed \<equiv> EnabledFileChangeError DeploymentTrashMoveFailed"

definition file_read_original :: "catalog_config \<Rightarrow> string \<Rightarrow> (machine, string) prog" where
  "file_read_original C strategy_instance_id =
     bindp (catalog_deployment C move_failed strategy_instance_id) (\<lambda>deployment.
     os_error_as move_failed (syscall (sys_read_bytes (Top (ds_source_path deployment)))))"

definition trash_name :: "string \<Rightarrow> string \<Rightarrow> string" where
  "trash_name name stamp = fst (split_name name) @ CHR ''.'' # stamp @ ''.json''"

text \<open>The second half of the move: the link in the trash is compared with what was read, then the
  original name is removed. \<open>DeploymentFileChanged\<close> is not an \<open>OSError\<close>.\<close>

definition unlink_moved :: "path \<Rightarrow> path \<Rightarrow> string \<Rightarrow> (machine, unit) prog" where
  "unlink_moved path target original =
     catchp
       (bindp (syscall (sys_read_bytes target)) (\<lambda>moved.
        if moved \<noteq> original
        then bindp (syscall (sys_unlink target)) (\<lambda>_. raise (EnabledFileChangeError DeploymentFileChanged))
        else syscall (sys_unlink path)))
       (\<lambda>e. if is_os_error e
            then bindp (suppress_os_error (syscall (sys_unlink target))) (\<lambda>_. raise move_failed)
            else raise e)"

definition link_into_trash :: "path \<Rightarrow> path \<Rightarrow> (machine, unit) prog" where
  "link_into_trash path target =
     catchp (syscall (sys_link path target))
       (\<lambda>e. if e = file_exists then raise (EnabledFileChangeError DeploymentTrashNameTaken)
            else if is_os_error e then raise move_failed else raise e)"

definition trash_deployment :: "string \<Rightarrow> string \<Rightarrow> DeploymentSpecification \<Rightarrow> (machine, string) prog" where
  "trash_deployment stamp original deployment =
     (let path = Top (ds_source_path deployment);
          target = trash_name (ds_source_path deployment) stamp in
     bindp (os_error_as move_failed (syscall (sys_read_bytes path))) (\<lambda>current.
     if current \<noteq> original then raise (EnabledFileChangeError DeploymentFileChanged)
     else
       bindp (os_error_as move_failed (syscall sys_mkdir_trash)) (\<lambda>_.
       bindp (link_into_trash path (InTrash target)) (\<lambda>_.
       bindp (unlink_moved path (InTrash target) original) (\<lambda>_.
       bindp sync_directory (\<lambda>_.
       bindp sync_directory (\<lambda>_.
       ret (trash_directory_name @ ''/'' @ target))))))))"

definition file_move_to_trash :: "catalog_config \<Rightarrow> string \<Rightarrow> string \<Rightarrow> string \<Rightarrow> (machine, string) prog" where
  "file_move_to_trash C stamp strategy_instance_id original =
     bindp (catalog_deployment C move_failed strategy_instance_id) (trash_deployment stamp original)"

end
