(* ===== verification/Catalog_Lemmas.thy ===== *)
theory Catalog_Lemmas
  imports Catalog_Files
begin

text \<open>
  The pure facts about deployment files: what is read from a file is well formed, the identity determines
  the meaning of a document, a scan accounts for every file, and what a scan of an undisturbed directory
  returns.
\<close>

section \<open>What is read from a file\<close>

text \<open>The law of the interpreter's floats: a numeral denotes an infinity, or the text written for it is
  a numeral with a fraction or an exponent that denotes the same float (\<open>float(repr(x)) == x\<close>).\<close>

definition float_texts :: "(string \<Rightarrow> string) \<Rightarrow> bool" where
  "float_texts ft \<longleftrightarrow>
     (\<forall>t. ft t \<in> {''Infinity'', ''-Infinity''} \<or> scan_number (ft t) = Some (ft t, True, []) \<and> ft (ft t) = ft t)"

lemma update_set: "set (AList.update k v d) \<subseteq> insert (k, v) (set d)"
  by (induction d) auto

lemma dict_of_pairs_props: "distinct (map fst (dict_of_pairs kvs)) \<and> set (dict_of_pairs kvs) \<subseteq> set kvs"
proof (induction kvs rule: rev_induct)
  case (snoc p kvs)
  then show ?case
    using update_set [of "fst p" "snd p" "dict_of_pairs kvs"]
    by (auto simp: dict_of_pairs_def case_prod_unfold distinct_update)
qed (simp add: dict_of_pairs_def)

lemma constants_are_no_numerals:
  "t \<in> {''NaN'', ''Infinity'', ''-Infinity''} \<Longrightarrow> scan_number t = None"
  by (auto simp: no_number)

lemma document_float_ok: "float_ok (document_hooks ft) t \<longleftrightarrow> scan_number t = Some (t, True, []) \<and> ft t = t"
  by (auto simp: float_ok_def document_hooks_def reject_non_finite_number_def)

lemma json_ok_finite: "json_ok (document_hooks ft) v \<Longrightarrow> finite_json v"
proof (induction v)
  case (JFloat t)
  then have n: "scan_number t = Some (t, True, [])" by (simp add: document_float_ok)
  have "t \<noteq> u" if "u \<in> {''NaN'', ''Infinity'', ''-Infinity''}" for u
    using constants_are_no_numerals [OF that] n by auto
  then show ?case by simp
next
  case (JArr vs)
  then show ?case by (simp add: list_all_iff)
next
  case (JObj kvs)
  then show ?case by (fastforce simp: list_all_iff)
qed simp_all

lemma document_literal_ok:
  assumes "float_texts ft" and "scan_literal (document_hooks ft) s = Some (v, r)" and "finite_json v"
  shows "json_ok (document_hooks ft) v"
proof -
  from assms(2) have "(\<nexists>t. v = JFloat t) \<and> (\<nexists>vs. v = JArr vs) \<and> (\<nexists>kvs. v = JObj kvs) \<or> (\<exists>t. v = JFloat (ft t))"
    by (auto simp: scan_literal_def number_value_def constant_value_def document_hooks_def
        reject_non_finite_number_def split: option.splits if_splits)
  then show ?thesis
  proof (elim disjE exE)
    fix t assume "v = JFloat (ft t)"
    with assms(1,3) show ?thesis by (auto simp: float_texts_def document_float_ok)
  qed (cases v, auto)
qed

lemma document_read_ok:
  assumes "float_texts ft" and "json_loads (document_hooks ft) s = Some v" and "finite_json v"
  shows "json_ok (document_hooks ft) v"
proof -
  from assms(2) obtain n r where "parse_value (document_hooks ft) n (skip_ws s) = Some (v, r)"
    by (auto simp: json_loads_iff)
  then have "finite_json v \<longrightarrow> json_ok (document_hooks ft) v"
  proof (rule parse_value_all [rotated 6])
    fix kvs d assume kvs: "\<forall>p \<in> set kvs. finite_json (snd p) \<longrightarrow> json_ok (document_hooks ft) (snd p)"
      and "jh_pairs (document_hooks ft) kvs = Some d"
    then have "d = dict_of_pairs kvs" by (simp add: document_hooks_def)
    with kvs dict_of_pairs_props [of kvs]
    show "finite_json (JObj d) \<longrightarrow> json_ok (document_hooks ft) (JObj d)" by (fastforce simp: list_all_iff)
  qed (use document_literal_ok [OF assms(1)] in \<open>auto simp: list_all_iff\<close>)
  with assms(3) show ?thesis by simp
qed

section \<open>Identity\<close>

lemma finite_norm: "finite_json (json_norm v) = finite_json v"
proof (induction v)
  case (JObj kvs)
  then show ?case by (fastforce simp: list_all_iff)
qed (auto simp: list_all_iff)

lemma payload_norm:
  "json_norm (identity_payload s t b r) =
     JObj [(''base_timeframe'', json_norm b), (''raw_spec'', json_norm r), (''strategy_id'', json_norm s), (''ticker'', json_norm t)]"
  by (simp add: identity_payload_def)


lemma payload_norm_eq:
  "json_norm (identity_payload (JStr s) (JStr t) (JStr b) r) = json_norm (identity_payload (JStr s') (JStr t') (JStr b') r')
     \<longleftrightarrow> s = s' \<and> t = t' \<and> b = b' \<and> json_eq r r'"
  by (auto simp: payload_norm json_eq_def)

lemma finite_payload: "finite_json (identity_payload (JStr s) (JStr t) (JStr b) r) = finite_json r"
  by (simp add: identity_payload_def)

lemma payload_ok: "json_ok h r \<Longrightarrow> json_ok h (identity_payload (JStr s) (JStr t) (JStr b) r)"
  by (simp add: identity_payload_def)

lemma canonical_payload_inject:
  assumes "json_ok (document_hooks ft) v" and "json_ok (document_hooks ft) v'"
  shows "canonical_payload v = canonical_payload v' \<longleftrightarrow> json_norm v = json_norm v'"
proof
  assume "canonical_payload v = canonical_payload v'"
  then have "utf8_decode (utf8_encode (json_dumps v)) = utf8_decode (utf8_encode (json_dumps v'))"
    by (simp add: canonical_payload_def)
  then have "json_loads (document_hooks ft) (json_dumps v) = json_loads (document_hooks ft) (json_dumps v')" by simp
  then show "json_norm v = json_norm v'" using assms by (simp add: document.json_loads_dumps)
qed (simp add: canonical_payload_def json_dumps_def)

lemma same_identity_iff:
  assumes long: "\<And>x. 24 \<le> length (hexdigest x)"
    and collision_free: "take 24 (hexdigest (canonical_payload (identity_payload (JStr s) (JStr t) (JStr b) r))) =
            take 24 (hexdigest (canonical_payload (identity_payload (JStr s') (JStr t') (JStr b') r'))) \<Longrightarrow>
          canonical_payload (identity_payload (JStr s) (JStr t) (JStr b) r) =
            canonical_payload (identity_payload (JStr s') (JStr t') (JStr b') r')"
    and ok: "json_ok (document_hooks ft) r" "json_ok (document_hooks ft) r'"
  shows "derive_strategy_instance_id hexdigest (JStr s) (JStr t) (JStr b) r =
           derive_strategy_instance_id hexdigest (JStr s') (JStr t') (JStr b') r'
     \<longleftrightarrow> s = s' \<and> t = t' \<and> b = b' \<and> json_eq r r'"
proof -
  let ?p = "identity_payload (JStr s) (JStr t) (JStr b) r" and ?p' = "identity_payload (JStr s') (JStr t') (JStr b') r'"
  let ?d = "\<lambda>v. take 24 (hexdigest (canonical_payload v))"
  have same: "canonical_payload ?p = canonical_payload ?p' \<longleftrightarrow> s = s' \<and> t = t' \<and> b = b' \<and> json_eq r r'"
    unfolding canonical_payload_inject [OF payload_ok [OF ok(1)] payload_ok [OF ok(2)]] by (rule payload_norm_eq)
  have length: "length (?d v) = 24" for v using long [of "canonical_payload v"] by simp
  have "derive_strategy_instance_id hexdigest (JStr s) (JStr t) (JStr b) r =
           derive_strategy_instance_id hexdigest (JStr s') (JStr t') (JStr b') r'
     \<longleftrightarrow> s @ '':'' @ ?d ?p = s' @ '':'' @ ?d ?p'"
    using ok [THEN json_ok_finite] by (simp add: derive_strategy_instance_id_def Let_def finite_payload py_str_def)
  also have "\<dots> \<longleftrightarrow> s = s' \<and> ?d ?p = ?d ?p'"
    using append_eq_append_conv [of "?d ?p" "?d ?p'" "s @ '':''" "s' @ '':''"] length by simp
  also have "\<dots> \<longleftrightarrow> s = s' \<and> canonical_payload ?p = canonical_payload ?p'"
    using collision_free by auto
  finally show ?thesis using same by auto
qed

section \<open>One file\<close>

lemma parse_deployment_accepted:
  assumes "parse_deployment hexdigest filename document = Inr (Inr d)"
  shows "wf_deployment d \<and> ds_source_path d = filename"
  using assms
  by (auto simp: parse_deployment_def res_bind_eq_Inr new_DeploymentSpecification_iff split: sum.splits)

lemma read_deployment_accepted:
  assumes "read_deployment C name m = (Inr (Inr d), m')"
  shows "wf_deployment d \<and> ds_source_path d = name"
  using assms parse_deployment_accepted
  by (auto simp: read_deployment_def bindp_apply split: prod.splits sum.splits)

section \<open>The scan\<close>

lemma read_candidates_accounts:
  assumes "read_candidates C names m = (Inr (accepted, invalid), m')"
  shows "mset names = mset (map ds_source_path accepted) + mset (map idf_source_path invalid) \<and>
    (\<forall>d \<in> set accepted. wf_deployment d)"
  using assms
proof (induction names arbitrary: m accepted invalid)
  case (Cons name names)
  from Cons.prems obtain x m1 acc inv where x: "read_deployment C name m = (Inr x, m1)"
    and r: "read_candidates C names m1 = (Inr (acc, inv), m')"
    and out: "(accepted, invalid) = (case x of
            Inl (code, message) \<Rightarrow> (acc, \<lparr>idf_source_path = name, idf_error_code = code, idf_error_message = message\<rparr> # inv)
          | Inr d \<Rightarrow> (d # acc, inv))"
    by (auto simp: bindp_apply split: prod.splits sum.splits)
  from out Cons.IH [OF r] x show ?case
    by (cases x) (auto dest: read_deployment_accepted)
qed simp

lemma grouped_paths:
  "distinct ids \<Longrightarrow>
     mset (concat (map (\<lambda>i. map f (filter (\<lambda>d. g d = i) ds)) ids)) = mset (map f (filter (\<lambda>d. g d \<in> set ids) ds))"
proof (induction ids)
  case (Cons i ids)
  have "mset (map f (filter (\<lambda>d. g d \<in> set (i # ids)) ds)) =
      mset (map f (filter (\<lambda>d. g d = i) ds)) + mset (map f (filter (\<lambda>d. g d \<in> set ids) ds))"
    using Cons.prems by (induction ds) auto
  with Cons.prems Cons.IH show ?case by (simp del: mset_map mset_filter list.set)
qed simp

lemma group_count: "length (group_of ds i) = count (mset (map ds_strategy_instance_id ds)) i"
  by (induction ds) (auto simp: group_of_def)

lemma duplicate_ids: "ddi_strategy_instance_id ` set (duplicate_identities ds) = {i. 1 < length (group_of ds i)}"
proof -
  have "i \<in> ds_strategy_instance_id ` set ds" if "1 < length (group_of ds i)" for i
    using that by (cases "group_of ds i") (auto simp: group_of_def filter_eq_Cons_iff)
  then show ?thesis by (auto simp: duplicate_identities_def image_image)
qed

lemma kept_distinct:
  "distinct (map ds_strategy_instance_id (filter (\<lambda>d. ds_strategy_instance_id d \<notin> {i. 1 < length (group_of ds i)}) ds))"
  (is "distinct (map ?id (filter ?P ds))")
proof -
  have "count (mset (map ?id (filter ?P ds))) i \<le> 1" for i
  proof (cases "1 < length (group_of ds i)")
    case True
    then have "i \<notin> set (map ?id (filter ?P ds))" by auto
    then show ?thesis by (metis count_mset_0_iff zero_le)
  next
    case False
    have "count (mset (map ?id (filter ?P ds))) i \<le> count (mset (map ?id ds)) i"
      by (intro mset_subset_eq_count) (simp add: image_mset_subseteq_mono)
    with False show ?thesis by (simp add: group_count)
  qed
  then have "count (mset (map ?id (filter ?P ds))) i = (if i \<in> set (map ?id (filter ?P ds)) then 1 else 0)" for i
    by (metis One_nat_def count_greater_zero_iff count_mset_0_iff le_antisym less_one not_less set_mset_mset)
  then show ?thesis unfolding distinct_count_atmost_1 by blast
qed

definition snapshot_of :: "nat \<Rightarrow> DeploymentSpecification list \<Rightarrow> InvalidDeploymentFile list \<Rightarrow> DeploymentCatalogSnapshot" where
  "snapshot_of scanned ds invalid =
     \<lparr>dcs_scanned_file_count = int scanned,
      dcs_accepted_deployments = filter (\<lambda>d. ds_strategy_instance_id d \<notin> {i. 1 < length (group_of ds i)}) ds,
      dcs_invalid_files = invalid, dcs_duplicate_identities = duplicate_identities ds\<rparr>"

lemma build_snapshot_returns: "build_snapshot scanned ds invalid = Inr (snapshot_of scanned ds invalid)"
  using kept_distinct [of ds]
  by (simp add: build_snapshot_def Let_def duplicate_ids new_DeploymentCatalogSnapshot_def snapshot_of_def)

lemma duplicate_paths:
  "mset (concat (map ddi_source_paths (duplicate_identities ds))) =
     mset (map ds_source_path (filter (\<lambda>d. ds_strategy_instance_id d \<in> {i. 1 < length (group_of ds i)}) ds))"
proof -
  let ?ids = "filter (\<lambda>i. 1 < length (group_of ds i)) (sort (remdups (map ds_strategy_instance_id ds)))"
  have "mset (concat (map ddi_source_paths (duplicate_identities ds))) =
      mset (concat (map (\<lambda>i. map ds_source_path (filter (\<lambda>d. ds_strategy_instance_id d = i) ds)) ?ids))"
    by (simp add: duplicate_identities_def mset_concat comp_def group_of_def)
  also have "\<dots> = mset (map ds_source_path (filter (\<lambda>d. ds_strategy_instance_id d \<in> set ?ids) ds))"
    by (rule grouped_paths) simp
  also have "filter (\<lambda>d. ds_strategy_instance_id d \<in> set ?ids) ds =
      filter (\<lambda>d. ds_strategy_instance_id d \<in> {i. 1 < length (group_of ds i)}) ds"
    by (intro filter_cong) auto
  finally show ?thesis .
qed

lemma snapshot_accounts:
  "mset (map ds_source_path ds) =
     mset (map ds_source_path (dcs_accepted_deployments (snapshot_of n ds invalid))) +
     mset (concat (map ddi_source_paths (dcs_duplicate_identities (snapshot_of n ds invalid))))"
proof -
  let ?P = "\<lambda>d. ds_strategy_instance_id d \<in> {i. 1 < length (group_of ds i)}"
  have "mset (map f ds) = mset (map f (filter (\<lambda>d. \<not> P d) ds)) + mset (map f (filter P ds))" for P and f :: "_ \<Rightarrow> string"
    by (induction ds) auto
  from this [of _ ?P] show ?thesis unfolding snapshot_of_def by (simp only: duplicate_paths DeploymentCatalogSnapshot.select_convs)
qed

lemma snapshot_duplicates:
  assumes "x \<in> set (dcs_duplicate_identities (snapshot_of n ds invalid))"
  shows "2 \<le> length (ddi_source_paths x)"
    and "ddi_strategy_instance_id x \<notin> ds_strategy_instance_id ` set (dcs_accepted_deployments (snapshot_of n ds invalid))"
  using assms by (auto simp: snapshot_of_def duplicate_identities_def)


section \<open>A quiet directory\<close>

text \<open>What one file of an undisturbed directory is read as.\<close>

definition file_document :: "catalog_config \<Rightarrow> files \<Rightarrow> string \<Rightarrow> (invalid_deployment + json) res" where
  "file_document C fs name =
     (case look fs (Top name) of
        Some (Regular bytes mode) \<Rightarrow>
          (case utf8_decode bytes of
             None \<Rightarrow> Inl UnicodeDecodeError
           | Some t \<Rightarrow>
               (case json_loads (document_hooks (cc_float_text C)) (universal_newlines t) of
                  None \<Rightarrow> Inr (Inl (''invalid_json'', Some (cc_error_text C JSONDecodeError)))
                | Some v \<Rightarrow> Inr (Inr v)))
      | Some Directory \<Rightarrow> Inr (Inl (''file_read_failed'', Some (cc_error_text C is_a_directory)))
      | None \<Rightarrow> Inr (Inl (''file_read_failed'', Some (cc_error_text C not_found))))"

definition file_deployment :: "catalog_config \<Rightarrow> files \<Rightarrow> string \<Rightarrow> (invalid_deployment + DeploymentSpecification) res" where
  "file_deployment C fs name =
     res_bind (file_document C fs name) (\<lambda>x. case x of
         Inl bad \<Rightarrow> Inr (Inl bad)
       | Inr document \<Rightarrow> parse_deployment (cc_hexdigest C) name document)"

definition candidates_of :: "files \<Rightarrow> string list" where
  "candidates_of fs =
     sort (filter is_candidate (List.map_filter top_name
       (filter (\<lambda>p. case look fs p of Some (Regular _ _) \<Rightarrow> True | _ \<Rightarrow> False) (remdups (map fst (fs_entries fs))))))"

lemma syscall_quiet: "mc_events m = [] \<Longrightarrow> syscall op m = (case op (mc_files m) of (r, fs) \<Rightarrow> (r, m\<lparr>mc_files := fs\<rparr>))"
  by (simp add: syscall_def next_event_def)

lemma read_deployment_quiet:
  assumes "mc_events m = []"
  shows "read_deployment C name m = (file_deployment C (mc_files m) name, m)"
  using assms
  by (auto simp: read_deployment_def read_document_def file_deployment_def file_document_def syscall_quiet prog_simps
      sys_read_bytes_def with_regular_def look_def is_os_error_def
      split: option.splits node.splits sum.splits)

lemma top_names: "name \<in> set (List.map_filter top_name ps) \<longleftrightarrow> Top name \<in> set ps"
  by (induction ps) (auto simp: List.map_filter_simps top_name_def split: path.splits)

lemma look_entry: "look fs p = Some x \<Longrightarrow> p \<in> fst ` set (fs_entries fs)"
  by (auto simp: look_def node_of_def dest!: map_of_SomeD intro: rev_image_eqI)

lemma candidates_set: "name \<in> set (candidates_of fs) \<longleftrightarrow> is_candidate name \<and> (\<exists>b k. look fs (Top name) = Some (Regular b k))"
  using look_entry [of fs "Top name"]
  by (auto simp: candidates_of_def top_names split: option.splits node.splits)

lemma candidates_distinct: "distinct (candidates_of fs)"
proof -
  have "distinct ps \<Longrightarrow> distinct (List.map_filter top_name ps)" for ps
    using top_names by (induction ps) (auto simp: List.map_filter_simps top_name_def split: path.splits)
  then show ?thesis by (simp add: candidates_of_def)
qed

lemma enumerate_quiet: "mc_events m = [] \<Longrightarrow> enumerate_candidates m = (Inr (candidates_of (mc_files m)), m)"
  by (simp add: enumerate_candidates_def os_error_as_def prog_simps syscall_quiet sys_list_files_def candidates_of_def)


text \<open>An undisturbed scan reads the candidates one by one and stops at the first exception.\<close>

definition note_invalid :: "string \<Rightarrow> invalid_deployment + DeploymentSpecification \<Rightarrow> InvalidDeploymentFile list" where
  "note_invalid name x =
     (case x of Inl (code, message) \<Rightarrow> [\<lparr>idf_source_path = name, idf_error_code = code, idf_error_message = message\<rparr>]
      | Inr _ \<Rightarrow> [])"

definition note_accepted :: "invalid_deployment + DeploymentSpecification \<Rightarrow> DeploymentSpecification list" where
  "note_accepted x = (case x of Inl _ \<Rightarrow> [] | Inr d \<Rightarrow> [d])"

lemma read_candidates_quiet:
  assumes "mc_events m = []"
  shows "read_candidates C names m =
    (res_bind (res_map (file_deployment C (mc_files m)) names) (\<lambda>xs.
       Inr (concat (map note_accepted xs), concat (map (\<lambda>(n, x). note_invalid n x) (zip names xs)))), m)"
proof (induction names)
  case (Cons name names)
  then show ?case
    by (cases "file_deployment C (mc_files m) name"; cases "res_map (file_deployment C (mc_files m)) names")
      (auto simp: prog_simps read_deployment_quiet [OF assms] note_accepted_def note_invalid_def split: sum.splits)
qed simp

lemma catalog_load_quiet:
  assumes "mc_events m = []"
  shows "catalog_load_snapshot C m =
    (res_bind (res_map (file_deployment C (mc_files m)) (candidates_of (mc_files m))) (\<lambda>xs.
       Inr (snapshot_of (length (candidates_of (mc_files m))) (concat (map note_accepted xs))
          (concat (map (\<lambda>(n, x). note_invalid n x) (zip (candidates_of (mc_files m)) xs))))), m)"
  by (cases "res_map (file_deployment C (mc_files m)) (candidates_of (mc_files m))")
    (simp_all add: catalog_load_snapshot_def prog_simps enumerate_quiet [OF assms] read_candidates_quiet [OF assms]
      build_snapshot_returns)

end
