(* ===== verification/Catalog_Rules.thy ===== *)
theory Catalog_Rules
  imports Catalog_Changes Catalog_Lemmas
begin

text \<open>
  Frame rules of the system calls and of the two changes of the catalog: which files a call can touch,
  provided the other processes leave the file in question alone. Each rule is a triple over
  \<open>kept p x\<close>: the name \<open>p\<close> refers to the file \<open>x\<close>, its number and its contents.
\<close>

section \<open>The file behind a name\<close>

definition holds :: "files \<Rightarrow> path \<Rightarrow> (nat \<times> node) option" where
  "holds fs p = map_option (\<lambda>n. (n, fs_nodes fs n)) (node_of fs p)"

lemma look_holds: "look fs p = map_option snd (holds fs p)"
  by (simp add: look_def holds_def option.map_comp comp_def)

lemma holds_None: "holds fs p = None \<longleftrightarrow> node_of fs p = None"
  by (simp add: holds_def)

definition undisturbed :: "path \<Rightarrow> machine \<Rightarrow> bool" where
  "undisturbed p m \<longleftrightarrow> (\<forall>ev \<in> set (mc_events m). \<forall>fs. holds (ev_other ev fs) p = holds fs p)"

definition kept :: "path \<Rightarrow> (nat \<times> node) option \<Rightarrow> machine \<Rightarrow> bool" where
  "kept p x m \<longleftrightarrow> undisturbed p m \<and> holds (mc_files m) p = x"

lemma kept_start: "undisturbed p m \<Longrightarrow> kept p (holds (mc_files m) p) m"
  by (simp add: kept_def)

lemma next_event_kept: "next_event m = (ev, m') \<Longrightarrow> kept p x m \<Longrightarrow> kept p x m'"
  by (auto simp: next_event_def kept_def undisturbed_def split: list.splits)

lemma kept_files: "kept p x m \<Longrightarrow> holds fs p = y \<Longrightarrow> kept p y (m\<lparr>mc_files := fs\<rparr>)"
  by (simp add: kept_def undisturbed_def)

text \<open>A call changes what a name refers to as its operation does. \<open>P\<close> is a condition on several names.\<close>

definition kept_all :: "(path \<times> (nat \<times> node) option) list \<Rightarrow> machine \<Rightarrow> bool" where
  "kept_all H m \<longleftrightarrow> (\<forall>(p, x) \<in> set H. kept p x m)"

definition holds_all :: "(path \<times> (nat \<times> node) option) list \<Rightarrow> files \<Rightarrow> bool" where
  "holds_all H fs \<longleftrightarrow> (\<forall>(p, x) \<in> set H. holds fs p = x)"

lemma kept_all_simps [simp]:
  "kept_all [] m" "kept_all ((p, x) # H) m \<longleftrightarrow> kept p x m \<and> kept_all H m"
  by (simp_all add: kept_all_def)

lemma holds_all_simps [simp]:
  "holds_all [] fs" "holds_all ((p, x) # H) fs \<longleftrightarrow> holds fs p = x \<and> holds_all H fs"
  by (simp_all add: holds_all_def)

lemma kept_all_next: "kept_all H m \<Longrightarrow> kept_all H (snd (next_event m))"
  unfolding kept_all_def using next_event_kept [OF prod.collapse [symmetric]] by blast

lemma kept_all_files:
  assumes "kept_all H m" and "holds_all H' fs" and "fst ` set H' \<subseteq> fst ` set H"
  shows "kept_all H' (m\<lparr>mc_files := fs\<rparr>)"
  unfolding kept_all_def
proof (clarify)
  fix p x assume p: "(p, x) \<in> set H'"
  with assms(3) obtain y where "(p, y) \<in> set H" by force
  with assms(1) have "kept p y m" by (auto simp: kept_all_def)
  with assms(2) p show "kept p x (m\<lparr>mc_files := fs\<rparr>)" by (auto simp: holds_all_def kept_files)
qed

lemma kept_holds_all: "kept_all H m \<Longrightarrow> holds_all H (mc_files m)"
  by (auto simp: kept_all_def holds_all_def kept_def)

lemma syscall_cases:
  assumes "syscall op m = (r, m')"
  obtains f where "r = Inl (failure_exn f)" "m' = snd (next_event m)"
  | fs' where "op (mc_files (snd (next_event m))) = (r, fs')" "m' = (snd (next_event m))\<lparr>mc_files := fs'\<rparr>"
proof -
  obtain ev m1 where n: "next_event m = (ev, m1)" by (cases "next_event m")
  obtain r' fs' where op: "op (mc_files m1) = (r', fs')" by (cases "op (mc_files m1)")
  show ?thesis
  proof (cases "Option.bind ev ev_raises")
    case None
    with assms n op have "r = r'" "m' = m1\<lparr>mc_files := fs'\<rparr>" by (simp_all add: syscall_def)
    with n op show ?thesis by (intro that(2)) simp_all
  next
    case (Some f)
    with assms n have "r = Inl (failure_exn f)" "m' = m1" by (simp_all add: syscall_def)
    with n show ?thesis by (intro that(1)) simp_all
  qed
qed

lemma triple_syscall_all:
  assumes "\<And>fs r fs'. holds_all H fs \<Longrightarrow> op fs = (Inr r, fs') \<Longrightarrow> Q r \<and> holds_all (H' r) fs'"
    and "\<And>fs e fs'. holds_all H fs \<Longrightarrow> op fs = (Inl e, fs') \<Longrightarrow> holds_all H fs'"
    and "\<And>r. fst ` set (H' r) \<subseteq> fst ` set H"
  shows "triple (kept_all H) (syscall op) (\<lambda>r m. Q r \<and> kept_all (H' r) m) (\<lambda>e. kept_all H)"
proof (rule tripleI)
  fix m r m' assume m: "kept_all H m" and run: "syscall op m = (Inr r, m')"
  from run show "Q r \<and> kept_all (H' r) m'"
  proof (cases rule: syscall_cases)
    case (2 fs')
    from assms(1) [OF kept_holds_all [OF kept_all_next [OF m]] 2(1)] 2(2) show ?thesis
      by (simp add: kept_all_files [OF kept_all_next [OF m] _ assms(3)])
  qed simp
next
  fix m e m' assume m: "kept_all H m" and run: "syscall op m = (Inl e, m')"
  from run show "kept_all H m'"
  proof (cases rule: syscall_cases)
    case (2 fs')
    from assms(2) [OF kept_holds_all [OF kept_all_next [OF m]] 2(1)] 2(2) show ?thesis
      by (simp add: kept_all_files [OF kept_all_next [OF m]])
  qed (use kept_all_next [OF m] in simp)
qed

text \<open>The usual case: the call leaves the names of \<open>H\<close> alone.\<close>

lemma triple_syscall_frame:
  assumes "\<And>fs r fs'. holds_all H fs \<Longrightarrow> op fs = (r, fs') \<Longrightarrow> holds_all H fs'"
  shows "triple (kept_all H) (syscall op) (\<lambda>r. kept_all H) (\<lambda>e. kept_all H)"
  using triple_syscall_all [of H op "\<lambda>r. True" "\<lambda>r. H", OF _ assms] assms by simp

section \<open>What a system call leaves alone\<close>

lemma holds_entry_update: "holds (fs\<lparr>fs_entries := AList.update q n es\<rparr>) p = (if p = q then Some (n, fs_nodes fs n) else holds (fs\<lparr>fs_entries := es\<rparr>) p)"
  by (simp add: holds_def node_of_def update_conv')

lemma holds_entry_delete: "holds (fs\<lparr>fs_entries := AList.delete q es\<rparr>) p = (if p = q then None else holds (fs\<lparr>fs_entries := es\<rparr>) p)"
  by (simp add: holds_def node_of_def delete_conv')

lemma holds_same_entries [simp]: "holds (fs\<lparr>fs_entries := fs_entries fs\<rparr>) p = holds fs p"
  by simp

lemma holds_node_update:
  "(\<And>x. holds fs p \<noteq> Some (n, x)) \<Longrightarrow> holds (fs\<lparr>fs_nodes := (fs_nodes fs)(n := nd)\<rparr>) p = holds fs p"
  by (cases "map_of (fs_entries fs) p") (auto simp: holds_def node_of_def)

lemma fresh_not_held: "holds fs p \<noteq> Some (fresh_node fs, x)"
proof
  have "k \<le> fold max ns k \<and> (\<forall>n \<in> set ns. n \<le> fold max ns k)" for k :: nat and ns
  proof (induction ns arbitrary: k)
    case (Cons a ns)
    from this [of "max a k"] show ?case by auto
  qed simp
  then have bound: "n \<le> fold max ns k" if "n \<in> set ns" for n k :: nat and ns using that by blast
  assume "holds fs p = Some (fresh_node fs, x)"
  then have "map_of (fs_entries fs) p = Some (fresh_node fs)" by (auto simp: holds_def node_of_def)
  then have "fresh_node fs \<in> set (map snd (fs_entries fs))" by (force dest: map_of_SomeD)
  with bound [of "fresh_node fs" "map snd (fs_entries fs)" 0] show False by (simp add: fresh_node_def)
qed


lemma with_regular_cases:
  assumes "with_regular fs p f = (r, fs')"
  obtains e where "r = Inl e" "fs' = fs"
  | n bytes mode where "holds fs p = Some (n, Regular bytes mode)" "f n bytes mode = (r, fs')"
  using assms that by (auto simp: with_regular_def holds_def split: option.splits node.splits)

lemma read_only [simp]:
  "sys_read_bytes p fs = (r, fs') \<Longrightarrow> fs' = fs" "sys_stat_mode p fs = (k, fs') \<Longrightarrow> fs' = fs"
  "sys_nothing fs = (u, fs') \<Longrightarrow> fs' = fs" "sys_list_files fs = (ns, fs') \<Longrightarrow> fs' = fs"
  by (auto simp: sys_read_bytes_def sys_stat_mode_def sys_nothing_def sys_list_files_def elim: with_regular_cases)

lemma unlink_holds:
  assumes "sys_unlink q fs = (r, fs')"
  shows "(case r of Inl e \<Rightarrow> fs' = fs | Inr _ \<Rightarrow> holds fs' = (holds fs)(q := None) \<and> holds fs q \<noteq> None)"
  using assms unfolding sys_unlink_def
  by (cases rule: with_regular_cases) (auto simp: holds_entry_delete fun_eq_iff split: sum.splits)

lemma link_holds:
  assumes "sys_link q q' fs = (r, fs')"
  shows "(case r of Inl e \<Rightarrow> fs' = fs
    | Inr _ \<Rightarrow> holds fs q \<noteq> None \<and> holds fs q' = None \<and> holds fs' = (holds fs)(q' := holds fs q))"
  using assms unfolding sys_link_def
  by (cases rule: with_regular_cases)
    (auto simp: fun_eq_iff holds_def node_of_def update_conv' split: sum.splits if_splits)

lemma replace_holds:
  assumes "sys_replace q q' fs = (r, fs')" and "q \<noteq> q'" and "map_option fst (holds fs q) \<noteq> map_option fst (holds fs q')"
  shows "(case r of Inl e \<Rightarrow> fs' = fs | Inr _ \<Rightarrow> holds fs q \<noteq> None \<and> holds fs' = (holds fs)(q := None, q' := holds fs q))"
  using assms unfolding sys_replace_def
  by (cases rule: with_regular_cases)
    (auto simp: holds_entry_update holds_entry_delete fun_eq_iff holds_def node_of_def update_conv' delete_conv'
      split: sum.splits if_splits)

lemma create_holds:
  assumes "sys_create q mode fs = (r, fs')"
  shows "(case r of Inl e \<Rightarrow> fs' = fs
    | Inr n \<Rightarrow> holds fs q = None \<and> holds fs' = (holds fs)(q := Some (n, Regular [] mode)) \<and> (\<forall>p x. holds fs p \<noteq> Some (n, x)))"
proof (cases r)
  case (Inr n)
  with assms have n: "n = fresh_node fs" "node_of fs q = None"
    and fs': "fs' = fs\<lparr>fs_entries := AList.update q n (fs_entries fs), fs_nodes := (fs_nodes fs)(n := Regular [] mode)\<rparr>"
    by (auto simp: sys_create_def Let_def split: if_splits)
  have "holds fs' p = ((holds fs)(q := Some (n, Regular [] mode))) p" for p
    using fresh_not_held [of fs p] unfolding fs' n(1)
    by (cases "map_of (fs_entries fs) p") (auto simp: holds_def node_of_def update_conv')
  with Inr n fresh_not_held [of fs] show ?thesis by (auto simp: holds_None)
qed (use assms in \<open>auto simp: sys_create_def Let_def split: if_splits\<close>)


text \<open>Calls on a descriptor change the names of its file and no others.\<close>

definition apart :: "nat \<Rightarrow> (path \<times> (nat \<times> node) option) list \<Rightarrow> bool" where
  "apart n H \<longleftrightarrow> (\<forall>(p, x) \<in> set H. \<forall>nd. x \<noteq> Some (n, nd))"

lemma holds_all_node_update:
  "apart n H \<Longrightarrow> holds_all H fs \<Longrightarrow> holds_all H (fs\<lparr>fs_nodes := (fs_nodes fs)(n := nd)\<rparr>)"
  by (fastforce simp: apart_def holds_all_def holds_node_update)

lemma descriptor_frame:
  "apart n H \<Longrightarrow> holds_all H fs \<Longrightarrow> sys_fchmod n k fs = (r, fs') \<Longrightarrow> holds_all H fs'"
  "apart n H \<Longrightarrow> holds_all H fs \<Longrightarrow> sys_append n d fs = (r, fs') \<Longrightarrow> holds_all H fs'"
  by (auto simp: sys_fchmod_def sys_append_def intro: holds_all_node_update)

lemma fchmod_holds:
  "holds fs q = Some (n, Regular b k) \<Longrightarrow> sys_fchmod n k' fs = (r, fs') \<Longrightarrow> holds fs' q = Some (n, Regular b k')"
  by (auto simp: sys_fchmod_def holds_def node_of_def)

lemma append_holds:
  "holds fs q = Some (n, Regular b k) \<Longrightarrow> sys_append n d fs = (r, fs') \<Longrightarrow> holds fs' q = Some (n, Regular (b @ d) k)"
  by (auto simp: sys_append_def holds_def node_of_def)

section \<open>Rules for control structures\<close>

lemma triple_finally:
  assumes "triple P m R F" and "\<And>x. triple (R x) c (\<lambda>_. Q x) E" and "\<And>e. triple (F e) c (\<lambda>_. E e) E"
  shows "triple P (finallyp m c) Q E"
proof (rule tripleI)
  fix w x w' assume "P w" and run: "finallyp m c w = (Inr x, w')"
  then obtain w1 u where "m w = (Inr x, w1)" "c w1 = (Inr u, w')"
    by (auto simp: finallyp_def split: prod.splits sum.splits)
  with \<open>P w\<close> assms(1,2) show "Q x w'" by (blast dest: tripleD_Inr)
next
  fix w e w' assume "P w" and run: "finallyp m c w = (Inl e, w')"
  obtain r w1 u w2 where m: "m w = (r, w1)" and c: "c w1 = (u, w2)" by (cases "m w"; cases "c (snd (m w))") auto
  from run m c show "E e w'"
    using tripleD_Inr [OF assms(1) \<open>P w\<close>] tripleD_Inl [OF assms(1) \<open>P w\<close>] assms(2,3)
    by (cases r; cases u) (auto simp: finallyp_def dest: tripleD_Inr tripleD_Inl)
qed

lemma triple_os_error_as:
  assumes "triple P m Q E" and "\<And>e w. E e w \<Longrightarrow> is_os_error e \<Longrightarrow> E err w"
  shows "triple P (os_error_as err m) Q E"
  unfolding os_error_as_def by (rule triple_catch [OF assms(1)], rule triple_if; rule triple_raise) (use assms(2) in auto)

lemma triple_suppress:
  assumes "triple P m Q E" and "\<And>e w. E e w \<Longrightarrow> Q () w"
  shows "triple P (suppress_os_error m) Q E"
  unfolding suppress_os_error_def
  by (rule triple_catch [OF assms(1)], rule triple_if; (rule triple_ret | rule triple_raise)) (use assms(2) in auto)


section \<open>Frames of the operations\<close>

abbreviation frame :: "(path \<times> (nat \<times> node) option) list \<Rightarrow> (machine, 'a) prog \<Rightarrow> bool" where
  "frame H prog \<equiv> triple (kept_all H) prog (\<lambda>_. kept_all H) (\<lambda>_. kept_all H)"

lemma frame_bind: "frame H m \<Longrightarrow> (\<And>x. frame H (f x)) \<Longrightarrow> frame H (bindp m f)"
  by (rule triple_bind)

lemma frame_read:
  "frame H (syscall (sys_read_bytes p))" "frame H (syscall (sys_stat_mode p))" "frame H (syscall sys_nothing)"
  "frame H (syscall sys_list_files)"
  by (rule triple_syscall_frame; auto dest: read_only)+

lemma holds_all_frame:
  assumes "holds_all H fs" and "p \<notin> fst ` set H" and "\<And>q. q \<noteq> p \<Longrightarrow> holds fs' q = holds fs q"
  shows "holds_all H fs'"
  unfolding holds_all_def
proof (clarify)
  fix q x assume "(q, x) \<in> set H"
  with assms(1,2) have "q \<noteq> p" "holds fs q = x" by (force simp: holds_all_def)+
  with assms(3) show "holds fs' q = x" by simp
qed

lemma frame_syscall_at:
  assumes "p \<notin> fst ` set H" and "\<And>fs r fs' q. op fs = (r, fs') \<Longrightarrow> q \<noteq> p \<Longrightarrow> holds fs' q = holds fs q"
  shows "frame H (syscall op)"
  by (rule triple_syscall_frame) (erule holds_all_frame [OF _ assms(1)], erule assms(2))

lemma frame_unlink: "p \<notin> fst ` set H \<Longrightarrow> frame H (syscall (sys_unlink p))"
  by (erule frame_syscall_at) (auto dest!: unlink_holds split: sum.splits)

lemma frame_pure:
  "frame H (ret x)" "frame H (raise e)" "frame H (lift_res r)"
  by (simp_all add: triple_def split: sum.splits)

lemma frame_control:
  "frame H m \<Longrightarrow> (\<And>e. frame H (h e)) \<Longrightarrow> frame H (catchp m h)"
  "frame H m \<Longrightarrow> frame H c \<Longrightarrow> frame H (finallyp m c)"
  "frame H m \<Longrightarrow> frame H (os_error_as err m)"
  "frame H u \<Longrightarrow> frame H (suppress_os_error u)"
  by (rule triple_catch triple_finally triple_os_error_as triple_suppress; assumption)+

lemma frame_try: "frame H m \<Longrightarrow> (\<And>e. frame H (h e)) \<Longrightarrow> (\<And>x. frame H (k x)) \<Longrightarrow> frame H (tryp m h k)"
  by (rule triple_try)

lemmas frame_rules = frame_bind frame_try frame_read frame_pure frame_control triple_if

lemma frame_option: "(\<And>y. x = Some y \<Longrightarrow> frame H (f y)) \<Longrightarrow> (x = None \<Longrightarrow> frame H g) \<Longrightarrow> frame H (case x of None \<Rightarrow> g | Some y \<Rightarrow> f y)"
  by (cases x) auto

lemma frame_sum: "(\<And>a. frame H (f a)) \<Longrightarrow> (\<And>b. frame H (g b)) \<Longrightarrow> frame H (case x of Inl a \<Rightarrow> f a | Inr b \<Rightarrow> g b)"
  by (cases x) auto

lemma frame_scan: "frame H (catalog_load_snapshot C)"
proof -
  have "frame H (read_deployment C name)" for name
    unfolding read_deployment_def read_document_def by (intro frame_rules frame_option frame_sum)
  then have "frame H (read_candidates C names)" for names
    by (induction names) (auto intro!: frame_rules split: prod.splits)
  then show ?thesis
    unfolding catalog_load_snapshot_def enumerate_candidates_def by (auto intro!: frame_rules split: prod.splits)
qed

lemma frame_catalog_deployment: "frame H (catalog_deployment C err i)"
  unfolding catalog_deployment_def by (intro frame_rules frame_option frame_scan)

lemma frame_sync: "frame H sync_directory"
  unfolding sync_directory_def by (intro frame_rules)


section \<open>Writing the temporary file\<close>

lemma triple_sys_write:
  assumes "apart n H"
  shows "frame H (sys_write n view)"
    and "triple (kept_all ((q, Some (n, Regular b k)) # H)) (sys_write n view)
      (\<lambda>w. kept_all ((q, Some (n, Regular (b @ take w view) k)) # H)) (\<lambda>e m. True)"
proof -
  let ?op = "\<lambda>w. bindp (syscall (sys_append n (take w view))) (\<lambda>_. ret w)"
  have at: "\<exists>w. sys_write n view m = ?op w m" for m by (auto simp: sys_write_def Let_def)
  have "frame H (syscall (sys_append n d))" for d
    by (rule triple_syscall_frame) (rule descriptor_frame(2) [OF assms])
  then have op: "frame H (?op w)" for w by (intro frame_rules)
  show "frame H (sys_write n view)"
  proof (rule tripleI)
    fix m w m' assume m: "kept_all H m" and run: "sys_write n view m = (Inr w, m')"
    from at [of m] obtain w0 where "sys_write n view m = ?op w0 m" by blast
    with run have "?op w0 m = (Inr w, m')" by simp
    from tripleD_Inr [OF op m this] show "kept_all H m'" .
  next
    fix m e m' assume m: "kept_all H m" and run: "sys_write n view m = (Inl e, m')"
    from at [of m] obtain w0 where "sys_write n view m = ?op w0 m" by blast
    with run have "?op w0 m = (Inl e, m')" by simp
    from tripleD_Inl [OF op m this] show "kept_all H m'" .
  qed
  have "triple (kept_all ((q, Some (n, Regular b k)) # H)) (syscall (sys_append n d))
      (\<lambda>_ m. True \<and> kept_all ((q, Some (n, Regular (b @ d) k)) # H) m) (\<lambda>_. kept_all ((q, Some (n, Regular b k)) # H))" for d
    by (rule triple_syscall_all) (auto simp: sys_append_def intro: descriptor_frame(2) [OF assms] append_holds)
  then have op: "triple (kept_all ((q, Some (n, Regular b k)) # H)) (?op w)
      (\<lambda>w'. \<lambda>m. w' = w \<and> kept_all ((q, Some (n, Regular (b @ take w view) k)) # H) m) (\<lambda>_ m. True)" for w
    by (rule triple_bind [OF triple_consequence [where Q = "\<lambda>_. kept_all ((q, Some (n, Regular (b @ take w view) k)) # H)" and E = "\<lambda>_ m. True"]])
      (auto intro: triple_ret)
  show "triple (kept_all ((q, Some (n, Regular b k)) # H)) (sys_write n view)
      (\<lambda>w. kept_all ((q, Some (n, Regular (b @ take w view) k)) # H)) (\<lambda>e m. True)"
  proof (rule tripleI)
    fix m w m' assume m: "kept_all ((q, Some (n, Regular b k)) # H) m" and "sys_write n view m = (Inr w, m')"
    with at obtain w0 where run: "?op w0 m = (Inr w, m')" by metis
    from tripleD_Inr [OF op m run] show "kept_all ((q, Some (n, Regular (b @ take w view) k)) # H) m'" by simp
  qed simp
qed

lemma write_all_frame: "apart n H \<Longrightarrow> write_all n view m = (r, m') \<Longrightarrow> kept_all H m \<Longrightarrow> kept_all H m'"
proof (induction n view m rule: write_all.induct)
  case (1 n view m)
  obtain x m1 where w: "sys_write n view m = (x, m1)" by (cases "sys_write n view m")
  have m1: "kept_all H m1"
    using w triple_sys_write(1) [OF "1.prems"(1), of view] "1.prems"(3)
    by (cases x) (auto dest: tripleD_Inr tripleD_Inl)
  show ?case
  proof (cases "view = []")
    case True
    with "1.prems" show ?thesis by (simp add: write_all.simps)
  next
    case False
    show ?thesis
    proof (cases x)
      case (Inl e)
      with False w "1.prems"(2) m1 show ?thesis by (simp add: write_all.simps [of n view m])
    next
      case (Inr k)
      with False w "1.prems"(2) have "write_all n (drop k view) m1 = (r, m')" by (simp add: write_all.simps [of n view m])
      with 1 False w Inr m1 show ?thesis by metis
    qed
  qed
qed

lemma frame_write_all: "apart n H \<Longrightarrow> frame H (write_all n view)"
  by (rule tripleI) (auto intro: write_all_frame)

lemma write_all_content:
  "apart n H \<Longrightarrow> write_all n view m = (Inr u, m') \<Longrightarrow> kept_all ((q, Some (n, Regular b k)) # H) m \<Longrightarrow>
      kept_all ((q, Some (n, Regular (b @ view) k)) # H) m'"
proof (induction n view m arbitrary: b rule: write_all.induct)
  case (1 n view m)
  show ?case
  proof (cases "view = []")
    case True
    with "1.prems" show ?thesis by (simp add: write_all.simps)
  next
    case False
    with "1.prems"(2) obtain w m1 where w: "sys_write n view m = (Inr w, m1)" and rest: "write_all n (drop w view) m1 = (Inr u, m')"
      by (auto simp: write_all.simps [of n view m] split: prod.splits sum.splits)
    from tripleD_Inr [OF triple_sys_write(2) [OF "1.prems"(1)] "1.prems"(3) w]
    have "kept_all ((q, Some (n, Regular (b @ take w view) k)) # H) m1" .
    from "1.IH" [OF False w [symmetric] refl "1.prems"(1) rest this] show ?thesis by simp
  qed
qed

lemma apart_created: "holds_all H fs \<Longrightarrow> \<forall>p x. holds fs p \<noteq> Some (n, x) \<Longrightarrow> apart n H"
  by (auto simp: apart_def holds_all_def)

lemma triple_create:
  assumes "p \<notin> fst ` set H"
  shows "triple (kept_all H) (syscall (sys_create p k)) (\<lambda>n m. apart n H \<and> kept_all H m) (\<lambda>e. kept_all H)"
proof (rule triple_syscall_all)
  fix fs n fs' assume H: "holds_all H fs" and "sys_create p k fs = (Inr n, fs')"
  from create_holds [OF this(2)] have c: "\<forall>p x. holds fs p \<noteq> Some (n, x)" "holds fs' = (holds fs)(p := Some (n, Regular [] k))" by simp_all
  show "apart n H \<and> holds_all H fs'"
    using apart_created [OF H c(1)] holds_all_frame [OF H assms] c(2) by simp
next
  fix fs e fs' assume "holds_all H fs" and "sys_create p k fs = (Inl e, fs')"
  then show "holds_all H fs'" using create_holds [of p k fs "Inl e" fs'] by simp
qed simp

lemma frame_write_temporary:
  assumes "p \<notin> fst ` set H"
  shows "frame H (write_temporary p payload k)"
proof -
  have "frame H (syscall (sys_fchmod n k))" if "apart n H" for n
    by (rule triple_syscall_frame) (rule descriptor_frame(1) [OF that])
  then have body: "frame H (bindp (syscall (sys_fchmod n k)) (\<lambda>_. bindp (write_all n payload) (\<lambda>_. syscall sys_nothing)))" if "apart n H" for n
    using that by (intro frame_rules frame_write_all)
  show ?thesis
    unfolding write_temporary_def
    by (rule triple_os_error_as, rule triple_seq [OF triple_create [OF assms]], rule frame_control)
      (erule body, rule frame_rules)
qed


lemma triple_trivial: "triple P m (\<lambda>_ _. True) (\<lambda>_ _. True)"
  by (simp add: triple_def split: prod.splits sum.splits)

lemma triple_weaken: "triple P m Q E \<Longrightarrow> triple P m Q (\<lambda>_ _. True)"
  by (erule triple_post) simp_all

lemma write_temporary_content:
  assumes "p \<notin> fst ` set H"
  shows "triple (kept_all ((p, t) # H)) (write_temporary p payload k)
    (\<lambda>_ m. \<exists>n. (t = None \<and> apart n H) \<and> kept_all ((p, Some (n, Regular payload k)) # H) m) (\<lambda>_ _. True)"
proof -
  let ?S = "\<lambda>n b k. kept_all ((p, Some (n, Regular b k)) # H)"
  have create: "triple (kept_all ((p, t) # H)) (syscall (sys_create p 384)) (\<lambda>n m. (t = None \<and> apart n H) \<and> ?S n [] 384 m) (\<lambda>_ _. True)"
  proof (rule triple_weaken, rule triple_syscall_all)
    fix fs n fs' assume H: "holds_all ((p, t) # H) fs" and "sys_create p 384 fs = (Inr n, fs')"
    from create_holds [OF this(2)] have c: "\<forall>p x. holds fs p \<noteq> Some (n, x)" "holds fs' = (holds fs)(p := Some (n, Regular [] 384))"
      "holds fs p = None" by simp_all
    from H have "holds_all H fs" "holds fs p = t" by simp_all
    with c show "(t = None \<and> apart n H) \<and> holds_all ((p, Some (n, Regular [] 384)) # H) fs'"
      by (simp add: apart_created holds_all_frame [OF _ assms])
  next
    fix fs e fs' assume "holds_all ((p, t) # H) fs" and "sys_create p 384 fs = (Inl e, fs')"
    then show "holds_all ((p, t) # H) fs'" using create_holds [of p 384 fs "Inl e" fs'] by simp
  qed auto
  have chmod: "triple (?S n [] 384) (syscall (sys_fchmod n k)) (\<lambda>_. ?S n [] k) (\<lambda>_ _. True)" if "apart n H" for n
  proof -
    have "triple (?S n [] 384) (syscall (sys_fchmod n k)) (\<lambda>_ m. True \<and> ?S n [] k m) (\<lambda>_. ?S n [] 384)"
      by (rule triple_syscall_all) (auto simp: sys_fchmod_def intro: descriptor_frame(1) [OF that] fchmod_holds)
    then show ?thesis by (rule triple_post) simp_all
  qed
  have append: "triple (?S n [] k) (write_all n payload) (\<lambda>_. ?S n payload k) (\<lambda>_ _. True)" if "apart n H" for n
    by (rule tripleI) (simp_all only: append_Nil write_all_content [OF that, where b = "[]", simplified append_Nil])
  have fsync: "triple (?S n payload k) (syscall sys_nothing) (\<lambda>_. ?S n payload k) (\<lambda>_ _. True)" for n
    by (rule triple_weaken [OF frame_read(3)])
  have body: "triple (?S n [] 384) (finallyp (bindp (syscall (sys_fchmod n k)) (\<lambda>_. bindp (write_all n payload) (\<lambda>_. syscall sys_nothing)))
      (syscall sys_nothing)) (\<lambda>_ m. \<exists>n. (t = None \<and> apart n H) \<and> ?S n payload k m) (\<lambda>_ _. True)" if "t = None \<and> apart n H" for n
  proof (rule triple_finally [OF triple_bind [OF chmod [OF conjunct2 [OF that]] triple_bind [OF append [OF conjunct2 [OF that]] fsync]]])
    show "triple (?S n payload k) (syscall sys_nothing) (\<lambda>_ m. \<exists>n. (t = None \<and> apart n H) \<and> ?S n payload k m) (\<lambda>_ _. True)"
      by (rule triple_post [OF fsync]) (use that in blast)+
  qed (rule triple_trivial)
  show ?thesis
    unfolding write_temporary_def by (rule triple_os_error_as, rule triple_seq [OF create], erule body) simp
qed


section \<open>Replacing the file\<close>

lemma frame_replace: "p \<notin> fst ` set H \<Longrightarrow> q \<notin> fst ` set H \<Longrightarrow> frame H (syscall (sys_replace p q))"
proof (rule triple_syscall_frame)
  fix fs r fs' assume H: "holds_all H fs" "p \<notin> fst ` set H" "q \<notin> fst ` set H" and "sys_replace p q fs = (r, fs')"
  from this(4) have "holds fs' x = holds fs x" if "x \<noteq> p" "x \<noteq> q" for x
    unfolding sys_replace_def
    by (cases rule: with_regular_cases) (use that in \<open>auto simp: holds_entry_update holds_entry_delete split: if_splits\<close>)
  with H show "holds_all H fs'" by (force simp: holds_all_def)
qed

lemma replace_fails: "sys_replace p q fs = (Inl e, fs') \<Longrightarrow> fs' = fs"
  unfolding sys_replace_def by (erule with_regular_cases) (auto split: if_splits)

lemma triple_replace_refused: "triple (kept_all H) (syscall (sys_replace p q)) (\<lambda>_ _. True) (\<lambda>_. kept_all H)"
proof -
  have "triple (kept_all H) (syscall (sys_replace p q)) (\<lambda>_ m. True \<and> kept_all [] m) (\<lambda>_. kept_all H)"
    by (rule triple_syscall_all) (auto dest: replace_fails)
  then show ?thesis by simp
qed

lemma triple_replaced:
  assumes "p \<noteq> q" and "n \<noteq> n0"
  shows "triple (kept_all [(p, Some (n, x)), (q, Some (n0, y))]) (syscall (sys_replace p q))
    (\<lambda>_. kept_all [(p, None), (q, Some (n, x))]) (\<lambda>_ _. True)"
proof -
  have "triple (kept_all [(p, Some (n, x)), (q, Some (n0, y))]) (syscall (sys_replace p q))
    (\<lambda>_ m. True \<and> kept_all [(p, None), (q, Some (n, x))] m) (\<lambda>_. kept_all [(p, Some (n, x)), (q, Some (n0, y))])"
  proof (rule triple_syscall_all)
    fix fs r fs' assume h: "holds_all [(p, Some (n, x)), (q, Some (n0, y))] fs" and run: "sys_replace p q fs = (Inr r, fs')"
    from h have "holds fs p = Some (n, x)" "holds fs q = Some (n0, y)" by simp_all
    with replace_holds [OF run assms(1)] assms show "True \<and> holds_all [(p, None), (q, Some (n, x))] fs'" by simp
  qed (auto dest: replace_fails)
  then show ?thesis by (rule triple_post) simp_all
qed

abbreviation cleaned_up :: "path \<Rightarrow> exn \<Rightarrow> (machine, 'a) prog" where
  "cleaned_up p e \<equiv> bindp (suppress_os_error (syscall (sys_unlink p))) (\<lambda>_. raise e)"

lemma frame_replace_file:
  assumes "temporary \<notin> fst ` set H" and "p \<notin> fst ` set H"
  shows "frame H (replace_file p temporary original payload k)"
  unfolding replace_file_def
  by (intro frame_rules frame_write_temporary frame_replace frame_unlink assms)

lemma replace_file_refused:
  assumes "temporary \<notin> fst ` set H"
  shows "triple (kept_all H) (replace_file p temporary original payload k) (\<lambda>_ _. True) (\<lambda>_. kept_all H)"
  unfolding replace_file_def
proof (rule triple_catch)
  show "triple (kept_all H)
     (bindp (write_temporary temporary payload k) (\<lambda>_.
      bindp (os_error_as (EnabledFileChangeError DeploymentFileWriteFailed) (syscall (sys_read_bytes p))) (\<lambda>current.
      if current \<noteq> original then raise (EnabledFileChangeError DeploymentFileChanged)
      else os_error_as (EnabledFileChangeError DeploymentFileWriteFailed) (syscall (sys_replace temporary p)))))
     (\<lambda>_ _. True) (\<lambda>_. kept_all H)"
    by (rule triple_bind [OF frame_write_temporary [OF assms]], rule triple_bind [OF frame_control(3) [OF frame_read(1)]],
        rule triple_if, rule triple_raise, assumption, rule triple_os_error_as [OF triple_replace_refused])
  show "triple (kept_all H) (cleaned_up temporary e) (\<lambda>_ _. True) (\<lambda>_. kept_all H)" for e
    by (rule triple_bind [OF frame_control(4) [OF frame_unlink [OF assms]]]) (rule triple_raise)
qed

lemma triple_replaced_ex:
  assumes "p \<noteq> q" and "apart n [(q, Some (n0, y))]"
  shows "triple (kept_all [(p, Some (n, x)), (q, Some (n0, y))]) (syscall (sys_replace p q))
    (\<lambda>_ m. \<exists>n. kept_all [(p, None), (q, Some (n, x))] m) (\<lambda>_ _. True)"
proof -
  from assms(2) have "n \<noteq> n0" by (simp add: apart_def)
  then show ?thesis by (rule triple_post [OF triple_replaced [OF assms(1)]]) (rule exI, assumption, rule TrueI)
qed

lemma triple_cleaned_up: "triple P (cleaned_up p e) Q (\<lambda>_ _. True)"
  by (rule triple_bind [OF triple_trivial]) (rule triple_raise, rule TrueI)

lemma replace_file_content:
  assumes "temporary \<noteq> p"
  shows "triple (kept_all [(temporary, t), (p, Some (n0, y))]) (replace_file p temporary original payload k)
    (\<lambda>_ m. \<exists>n. t = None \<and> kept_all [(temporary, None), (p, Some (n, Regular payload k))] m) (\<lambda>_ _. True)"
  unfolding replace_file_def
proof (rule triple_catch [OF triple_bind [OF write_temporary_content]])
  show "temporary \<notin> fst ` set [(p, Some (n0, y))]" using assms by simp
  have replaced: "triple (kept_all [(temporary, Some (n, Regular payload k)), (p, Some (n0, y))]) (syscall (sys_replace temporary p))
      (\<lambda>_ m. \<exists>n. t = None \<and> kept_all [(temporary, None), (p, Some (n, Regular payload k))] m) (\<lambda>_ _. True)"
    if "t = None \<and> apart n [(p, Some (n0, y))]" for n
    by (rule triple_post [OF triple_replaced_ex [OF assms conjunct2 [OF that]]]) (use that in auto)
  show "triple (\<lambda>m. \<exists>n. (t = None \<and> apart n [(p, Some (n0, y))]) \<and> kept_all [(temporary, Some (n, Regular payload k)), (p, Some (n0, y))] m)
     (bindp (os_error_as (EnabledFileChangeError DeploymentFileWriteFailed) (syscall (sys_read_bytes p))) (\<lambda>current.
      if current \<noteq> original then raise (EnabledFileChangeError DeploymentFileChanged)
      else os_error_as (EnabledFileChangeError DeploymentFileWriteFailed) (syscall (sys_replace temporary p))))
     (\<lambda>_ m. \<exists>n. t = None \<and> kept_all [(temporary, None), (p, Some (n, Regular payload k))] m) (\<lambda>_ _. True)"
    by (rule triple_ex_pure, rule triple_bind [OF triple_weaken [OF frame_control(3) [OF frame_read(1)]]], rule triple_if,
        rule triple_raise, rule TrueI, rule triple_os_error_as, erule replaced, rule TrueI)
qed (rule triple_cleaned_up)

section \<open>The enabled writer\<close>

lemma triple_read:
  assumes "(p, x) \<in> set H"
  shows "triple (kept_all H) (syscall (sys_read_bytes p)) (\<lambda>b m. (\<exists>n k. x = Some (n, Regular b k)) \<and> kept_all H m) (\<lambda>_. kept_all H)"
    and "triple (kept_all H) (syscall (sys_stat_mode p)) (\<lambda>k m. (\<exists>n b. x = Some (n, Regular b k)) \<and> kept_all H m) (\<lambda>_. kept_all H)"
proof -
  have held: "holds fs p = x" if "holds_all H fs" for fs using assms that by (auto simp: holds_all_def)
  show "triple (kept_all H) (syscall (sys_read_bytes p)) (\<lambda>b m. (\<exists>n k. x = Some (n, Regular b k)) \<and> kept_all H m) (\<lambda>_. kept_all H)"
    by (rule triple_syscall_all) (auto simp: sys_read_bytes_def dest: held elim!: with_regular_cases)
  show "triple (kept_all H) (syscall (sys_stat_mode p)) (\<lambda>k m. (\<exists>n b. x = Some (n, Regular b k)) \<and> kept_all H m) (\<lambda>_. kept_all H)"
    by (rule triple_syscall_all) (auto simp: sys_stat_mode_def dest: held elim!: with_regular_cases)
qed

lemma triple_interrupted: "triple P (syscall sys_nothing) (\<lambda>_ _. True) (\<lambda>e _. is_os_error e \<or> (\<exists>s. e = RuntimeError s))"
  by (rule tripleI, rule TrueI, erule syscall_cases)
    (auto simp: failure_exn_def is_os_error_def sys_nothing_def split: call_failure.splits)

lemma triple_fact: "(F \<Longrightarrow> triple (\<lambda>_. True) m Q E) \<Longrightarrow> triple (\<lambda>_. F) m Q E"
  by (auto simp: triple_def)

lemma sync_interrupted: "triple P sync_directory (\<lambda>_ _. True) (\<lambda>e _. \<exists>s. e = RuntimeError s)"
proof -
  let ?E = "\<lambda>e (_ :: machine). is_os_error e \<or> (\<exists>s. e = RuntimeError s)"
  have "triple (\<lambda>_. True) (finallyp (syscall sys_nothing) (syscall sys_nothing)) (\<lambda>_ _. True) ?E"
    by (rule triple_finally [OF triple_interrupted triple_interrupted], rule triple_fact, rule triple_post [OF triple_interrupted])
      simp_all
  from triple_bind [OF triple_interrupted this]
  have "triple P (bindp (syscall sys_nothing) (\<lambda>_. finallyp (syscall sys_nothing) (syscall sys_nothing))) (\<lambda>_ _. True) ?E" .
  then show ?thesis
    unfolding sync_directory_def suppress_os_error_def by (rule triple_catch) (simp add: triple_def)
qed

lemma unless_interrupted:
  "triple P prog Q (\<lambda>_. R) \<Longrightarrow> triple P prog Q (\<lambda>e m. (\<forall>s. e \<noteq> RuntimeError s) \<longrightarrow> R m)"
  by (erule triple_post) simp_all

lemma rewrite_enabled_refused:
  assumes "\<And>name. temporary_path name suffix \<notin> fst ` set H"
  shows "triple (kept_all H) (rewrite_enabled C suffix i b d) (\<lambda>r m. \<not> r \<longrightarrow> kept_all H m)
    (\<lambda>e m. (\<forall>s. e \<noteq> RuntimeError s) \<longrightarrow> kept_all H m)"
proof -
  let ?E = "\<lambda>e m. (\<forall>s. e \<noteq> RuntimeError s) \<longrightarrow> kept_all H m" and ?Q = "\<lambda>r m. \<not> r \<longrightarrow> kept_all H m"
  have sync: "triple (\<lambda>_. True) (bindp sync_directory (\<lambda>_. ret True)) ?Q ?E"
    by (rule triple_bind [OF triple_post [OF sync_interrupted]]) (auto intro: triple_ret)
  let ?tail = "\<lambda>original k payload. case payload of None \<Rightarrow> ret False
      | Some bytes \<Rightarrow> bindp (replace_file (Top (ds_source_path d)) (temporary_path (ds_source_path d) suffix) original bytes k)
           (\<lambda>_. bindp sync_directory (\<lambda>_. ret True))"
  have tail: "triple (kept_all H) (?tail original k payload) ?Q ?E" for original k payload
    by (cases payload)
      (simp_all add: triple_ret triple_bind [OF unless_interrupted [OF replace_file_refused [OF assms]] sync])
  have reads: "frame H (os_error_as (EnabledFileChangeError DeploymentFileWriteFailed)
       (bindp (syscall (sys_read_bytes p)) (\<lambda>original. bindp (syscall (sys_stat_mode p)) (\<lambda>k. ret (original, k mod 512)))))" for p
    by (intro frame_rules)
  show ?thesis
    unfolding rewrite_enabled_def Let_def
    by (rule triple_bind [OF unless_interrupted [OF reads]], unfold split_beta,
        rule triple_bind [OF unless_interrupted [OF frame_pure(3)]], rule tail)
qed


text \<open>A change that went through: what was read, what was written and where it is.\<close>

lemma rewrite_enabled_content:
  fixes name suffix t x
  defines "H \<equiv> [(temporary_path name suffix, t), (Top name, x)]"
  assumes "ds_source_path d = name"
  shows "triple (kept_all H) (rewrite_enabled C suffix i b d)
    (\<lambda>r m. r \<longrightarrow> (\<exists>n0 original k payload n. x = Some (n0, Regular original k) \<and> t = None \<and>
        enabled_payload C i b original = Inr (Some payload) \<and>
        kept_all [(temporary_path name suffix, None), (Top name, Some (n, Regular payload (k mod 512)))] m))
    (\<lambda>_ _. True)"
proof -
  let ?p = "Top name" and ?temp = "temporary_path name suffix"
  let ?Q = "\<lambda>r m. r \<longrightarrow> (\<exists>n0 original k payload n. x = Some (n0, Regular original k) \<and> t = None \<and>
        enabled_payload C i b original = Inr (Some payload) \<and>
        kept_all [(?temp, None), (?p, Some (n, Regular payload (k mod 512)))] m)"
  have p: "(?p, x) \<in> set H" by (simp add: H_def)
  have read: "triple (kept_all H) (os_error_as err
       (bindp (syscall (sys_read_bytes ?p)) (\<lambda>original. bindp (syscall (sys_stat_mode ?p)) (\<lambda>k. ret (original, k mod 512)))))
      (\<lambda>y m. (\<exists>n k. x = Some (n, Regular (fst y) k) \<and> snd y = k mod 512) \<and> kept_all H m) (\<lambda>_ _. True)" for err
    by (rule triple_os_error_as, rule triple_seq [OF triple_weaken [OF triple_read(1) [OF p]]],
        rule triple_seq [OF triple_weaken [OF triple_read(2) [OF p]]], rule triple_ret) auto
  have tail: "triple (kept_all H) (case payload of None \<Rightarrow> ret False
      | Some bytes \<Rightarrow> bindp (replace_file ?p ?temp original bytes (k mod 512)) (\<lambda>_. bindp sync_directory (\<lambda>_. ret True)))
      ?Q (\<lambda>_ _. True)"
    if x: "x = Some (n0, Regular original k)" and e: "enabled_payload C i b original = Inr payload" for n0 original k payload
  proof (cases payload)
    case (Some bytes)
    have "triple (kept_all [(?temp, t), (?p, Some (n0, Regular original k))]) (replace_file ?p ?temp original bytes (k mod 512))
      (\<lambda>_ m. \<exists>n. t = None \<and> kept_all [(?temp, None), (?p, Some (n, Regular bytes (k mod 512)))] m) (\<lambda>_ _. True)"
      by (rule replace_file_content) (simp add: temporary_path_def)
    then have "triple (kept_all H) (replace_file ?p ?temp original bytes (k mod 512))
      (\<lambda>_ m. \<exists>n. t = None \<and> kept_all [(?temp, None), (?p, Some (n, Regular bytes (k mod 512)))] m) (\<lambda>_ _. True)"
      by (simp add: H_def x)
    moreover have "triple (\<lambda>m. \<exists>n. t = None \<and> kept_all [(?temp, None), (?p, Some (n, Regular bytes (k mod 512)))] m)
        (bindp sync_directory (\<lambda>_. ret True)) ?Q (\<lambda>_ _. True)"
      by (rule triple_ex_pure, rule triple_bind [OF triple_weaken [OF frame_sync]], rule triple_ret)
        (use x e Some in auto)
    ultimately show ?thesis using Some by (simp add: triple_bind)
  qed (simp add: triple_ret)
  show ?thesis
    unfolding rewrite_enabled_def Let_def assms(2)
  proof (rule triple_seq [OF read])
    fix y assume "\<exists>n k. x = Some (n, Regular (fst y) k) \<and> snd y = k mod 512"
    then obtain n0 original k where y: "y = (original, k mod 512)" and x: "x = Some (n0, Regular original k)" by (cases y) auto
    show "triple (kept_all H) (case y of (original, k) \<Rightarrow> bindp (lift_res (enabled_payload C i b original)) (\<lambda>payload.
        case payload of None \<Rightarrow> ret False
      | Some bytes \<Rightarrow> bindp (replace_file ?p ?temp original bytes k) (\<lambda>_. bindp sync_directory (\<lambda>_. ret True)))) ?Q (\<lambda>_ _. True)"
      unfolding y split by (rule triple_bind_lift) (erule tail [OF x], rule TrueI)
  qed
qed

section \<open>The trash mover\<close>

lemma mkdir_holds:
  assumes "sys_mkdir_trash fs = (r, fs')" and "p \<noteq> Top trash_directory_name"
  shows "holds fs' p = holds fs p"
proof (cases "look fs (Top trash_directory_name)")
  case None
  with assms fresh_not_held [of fs p "fs_nodes fs (fresh_node fs)"] show ?thesis
    by (cases "map_of (fs_entries fs) p") (auto simp: sys_mkdir_trash_def Let_def holds_def node_of_def update_conv')
qed (use assms in \<open>auto simp: sys_mkdir_trash_def split: node.splits\<close>)

lemma frame_mkdir: "Top trash_directory_name \<notin> fst ` set H \<Longrightarrow> frame H (syscall sys_mkdir_trash)"
  by (erule frame_syscall_at) (rule mkdir_holds)

lemma frame_link: "q \<notin> fst ` set H \<Longrightarrow> frame H (syscall (sys_link p q))"
  by (erule frame_syscall_at) (auto dest!: link_holds split: sum.splits)

lemma triple_link:
  assumes "p \<noteq> q"
  shows "triple (kept_all [(p, x), (q, y)]) (syscall (sys_link p q)) (\<lambda>_ m. x \<noteq> None \<and> kept_all [(p, x), (q, x)] m)
    (\<lambda>_. kept_all [(p, x), (q, y)])"
  by (rule triple_syscall_all) (use assms in \<open>auto dest!: link_holds\<close>)

lemma triple_unlink:
  assumes "p \<noteq> q"
  shows "triple (kept_all [(p, x), (q, y)]) (syscall (sys_unlink p)) (\<lambda>_ m. True \<and> kept_all [(p, None), (q, y)] m)
    (\<lambda>_. kept_all [(p, x), (q, y)])"
  by (rule triple_syscall_all) (use assms in \<open>auto dest!: unlink_holds\<close>)

lemma frame_unlink_moved:
  assumes "p \<notin> fst ` set H" and "q \<notin> fst ` set H"
  shows "frame H (unlink_moved p q original)"
  unfolding unlink_moved_def by (intro frame_rules frame_unlink assms)

lemma frame_link_into_trash: "q \<notin> fst ` set H \<Longrightarrow> frame H (link_into_trash p q)"
  unfolding link_into_trash_def by (intro frame_rules frame_link)

lemma frame_trash_other:
  assumes "Top trash_directory_name \<notin> fst ` set H" and "Top (ds_source_path d) \<notin> fst ` set H"
    and "InTrash (trash_name (ds_source_path d) stamp) \<notin> fst ` set H"
  shows "frame H (trash_deployment stamp original d)"
  unfolding trash_deployment_def Let_def
  by (intro frame_rules frame_sync frame_unlink_moved frame_link_into_trash frame_mkdir assms)


lemma unlink_moved_keeps:
  assumes "p \<noteq> q" and "x \<noteq> None"
  shows "triple (kept_all [(p, x), (q, x)]) (unlink_moved p q original)
    (\<lambda>_ m. (\<exists>n k. x = Some (n, Regular original k)) \<and> kept_all [(p, None), (q, x)] m) (\<lambda>_. kept_all [(p, x)])"
  unfolding unlink_moved_def
proof (rule triple_catch)
  let ?S = "kept_all [(p, x), (q, x)]"
  have q: "q \<notin> fst ` set [(p, x)]" using assms(1) by auto
  have changed: "triple ?S (bindp (syscall (sys_unlink q)) (\<lambda>_. raise e)) Q (\<lambda>_. kept_all [(p, x)])"
    for e and Q :: "unit \<Rightarrow> machine \<Rightarrow> bool"
    by (rule triple_bind [OF triple_pre [OF frame_unlink [OF q]]], simp, rule triple_raise)
  show "triple ?S (bindp (syscall (sys_read_bytes q)) (\<lambda>moved.
        if moved \<noteq> original
        then bindp (syscall (sys_unlink q)) (\<lambda>_. raise (EnabledFileChangeError DeploymentFileChanged))
        else syscall (sys_unlink p)))
      (\<lambda>_ m. (\<exists>n k. x = Some (n, Regular original k)) \<and> kept_all [(p, None), (q, x)] m) (\<lambda>_. kept_all [(p, x)])"
  proof (rule triple_seq)
    show "triple ?S (syscall (sys_read_bytes q)) (\<lambda>moved m. (\<exists>n k. x = Some (n, Regular moved k)) \<and> ?S m) (\<lambda>_. kept_all [(p, x)])"
      by (rule triple_post [OF triple_read(1) [of q x]]) simp_all
    fix moved assume x: "\<exists>n k. x = Some (n, Regular moved k)"
    have unlinked: "triple ?S (syscall (sys_unlink p))
        (\<lambda>_ m. (\<exists>n k. x = Some (n, Regular moved k)) \<and> kept_all [(p, None), (q, x)] m) (\<lambda>_. kept_all [(p, x)])"
      by (rule triple_post [OF triple_unlink [OF assms(1)]]) (use x in simp_all)
    show "triple ?S (if moved \<noteq> original
        then bindp (syscall (sys_unlink q)) (\<lambda>_. raise (EnabledFileChangeError DeploymentFileChanged))
        else syscall (sys_unlink p))
      (\<lambda>_ m. (\<exists>n k. x = Some (n, Regular original k)) \<and> kept_all [(p, None), (q, x)] m) (\<lambda>_. kept_all [(p, x)])"
      by (rule triple_if, rule changed) (use unlinked in simp)
  qed
  show "triple (kept_all [(p, x)]) (if is_os_error e
            then bindp (suppress_os_error (syscall (sys_unlink q))) (\<lambda>_. raise move_failed)
            else raise e) Q (\<lambda>_. kept_all [(p, x)])" for e and Q :: "unit \<Rightarrow> machine \<Rightarrow> bool"
    by (rule triple_if, rule triple_bind [OF frame_control(4) [OF frame_unlink [OF q]]]; rule triple_raise)
qed

text \<open>The move of one file: it stays where it is or, unless the program was interrupted after the move,
  the caller learns its place in the trash.\<close>

lemma trash_deployment_keeps:
  fixes d stamp
  defines "p \<equiv> Top (ds_source_path d)" and "q \<equiv> InTrash (trash_name (ds_source_path d) stamp)"
  assumes "ds_source_path d \<noteq> trash_directory_name"
  shows "triple (kept_all [(p, x), (q, y)]) (trash_deployment stamp original d)
    (\<lambda>r m. r = trash_directory_name @ ''/'' @ trash_name (ds_source_path d) stamp \<and>
        (\<exists>n k. x = Some (n, Regular original k)) \<and> kept_all [(p, None), (q, x)] m)
    (\<lambda>e m. kept_all [(p, x)] m \<or> (\<exists>s. e = RuntimeError s) \<and> x \<noteq> None \<and> kept_all [(q, x)] m)"
proof -
  let ?E = "\<lambda>e m. kept_all [(p, x)] m \<or> (\<exists>s. e = RuntimeError s) \<and> x \<noteq> None \<and> kept_all [(q, x)] m"
  let ?r = "trash_directory_name @ ''/'' @ trash_name (ds_source_path d) stamp" and ?X = "\<exists>n k. x = Some (n, Regular original k)"
  have pq: "p \<noteq> q" by (simp add: p_def q_def)
  have dir: "Top trash_directory_name \<notin> fst ` set [(p, x), (q, y)]" using assms(3) by (simp add: p_def q_def)
  have sync: "triple (\<lambda>m. ?X \<and> kept_all [(p, None), (q, x)] m) sync_directory
      (\<lambda>_ m. ?X \<and> kept_all [(p, None), (q, x)] m) ?E"
  proof (rule triple_pure)
    assume X: ?X
    show "triple (kept_all [(p, None), (q, x)]) sync_directory (\<lambda>_ m. ?X \<and> kept_all [(p, None), (q, x)] m) ?E"
    proof (rule tripleI)
      fix m u m' assume m: "kept_all [(p, None), (q, x)] m" and run: "sync_directory m = (Inr u, m')"
      from X tripleD_Inr [OF frame_sync m run] show "?X \<and> kept_all [(p, None), (q, x)] m'" by blast
    next
      fix m e m' assume m: "kept_all [(p, None), (q, x)] m" and run: "sync_directory m = (Inl e, m')"
      from X tripleD_Inl [OF frame_sync m run] tripleD_Inl [OF sync_interrupted TrueI run] show "?E e m'" by auto
    qed
  qed
  have tail: "triple (kept_all [(p, x), (q, x)])
      (bindp (unlink_moved p q original) (\<lambda>_. bindp sync_directory (\<lambda>_. bindp sync_directory (\<lambda>_. ret ?r))))
      (\<lambda>r m. r = ?r \<and> ?X \<and> kept_all [(p, None), (q, x)] m) ?E" if "x \<noteq> None"
    by (rule triple_bind [OF triple_post [OF unlink_moved_keeps [OF pq that]]], assumption, rule disjI1, assumption,
        rule triple_bind [OF sync], rule triple_bind [OF sync], rule triple_ret) simp
  have link: "triple (kept_all [(p, x), (q, y)]) (link_into_trash p q) (\<lambda>_ m. x \<noteq> None \<and> kept_all [(p, x), (q, x)] m) ?E"
    unfolding link_into_trash_def
    by (rule triple_catch [OF triple_link [OF pq]], intro triple_if triple_raise) simp_all
  have start: "frame [(p, x), (q, y)] prog \<Longrightarrow>
      triple (kept_all [(p, x), (q, y)]) prog (\<lambda>_. kept_all [(p, x), (q, y)]) ?E" for prog :: "(machine, unit) prog"
    by (erule triple_post) simp_all
  show ?thesis
    unfolding trash_deployment_def Let_def p_def [symmetric] q_def [symmetric]
    by (rule triple_bind [OF triple_post [OF frame_control(3) [OF frame_read(1)]]], assumption, rule disjI1, simp,
        rule triple_if, rule triple_raise, simp,
        rule triple_bind [OF start [OF frame_control(3) [OF frame_mkdir [OF dir]]]], rule triple_seq [OF link], erule tail)
qed

end
