(* ===== verification/Catalog_Properties.thy ===== *)
theory Catalog_Properties
  imports Catalog_Rules
begin

text \<open>
  The properties of the deployment files: the scan accounts for every file and is exact on an undisturbed
  directory, the identity of a deployment is its meaning, a change of \<open>enabled\<close> is exact or leaves the
  file alone, and a file that is moved to the trash is never lost.
\<close>

section \<open>Lemmas on the scan\<close>

lemma catalog_load_runs:
  assumes "catalog_load_snapshot C m = (Inr s, m')"
  obtains m1 ds invalid where
    "read_candidates C (candidates_of (mc_files (snd (next_event m)))) m1 = (Inr (ds, invalid), m')"
    "s = snapshot_of (length (candidates_of (mc_files (snd (next_event m))))) ds invalid"
proof -
  from assms obtain names m1 ds invalid where e: "enumerate_candidates m = (Inr names, m1)"
    and r: "read_candidates C names m1 = (Inr (ds, invalid), m')" and s: "s = snapshot_of (length names) ds invalid"
    by (auto simp: catalog_load_snapshot_def bindp_apply build_snapshot_returns split: prod.splits sum.splits)
  from e have "names = candidates_of (mc_files (snd (next_event m)))"
    by (auto simp: enumerate_candidates_def os_error_as_def prog_simps sys_list_files_def candidates_of_def
        split: prod.splits sum.splits if_splits elim!: syscall_cases)
  with r s that show ?thesis by blast
qed

lemma catalog_scan_wf:
  assumes "catalog_load_snapshot C m = (Inr s, m')"
  shows "wf_catalog s"
proof -
  from assms obtain m1 ds invalid names where r: "read_candidates C names m1 = (Inr (ds, invalid), m')"
    and s: "s = snapshot_of (length names) ds invalid" by (rule catalog_load_runs)
  with read_candidates_accounts [OF r] kept_distinct [of ds] show ?thesis
    by (auto simp: snapshot_of_def wf_catalog_def)
qed

lemma distinct_submultiset:
  assumes "mset xs \<subseteq># mset ys" and "distinct ys"
  shows "distinct xs"
proof -
  from assms(1) obtain M where "mset ys = mset xs + M" by (auto simp: subset_mset.le_iff_add)
  moreover obtain zs where "M = mset zs" by (metis ex_mset)
  ultimately have "mset ys = mset (xs @ zs)" by simp
  with assms(2) have "distinct (xs @ zs)" using mset_eq_imp_distinct_iff by blast
  then show ?thesis by simp
qed

lemma accepted_iff:
  assumes "distinct ds"
  shows "d \<in> set (dcs_accepted_deployments (snapshot_of n ds invalid)) \<longleftrightarrow>
    d \<in> set ds \<and> (\<forall>d' \<in> set ds. ds_strategy_instance_id d' = ds_strategy_instance_id d \<longrightarrow> d' = d)"
proof -
  let ?g = "group_of ds (ds_strategy_instance_id d)"
  have "1 < length ?g \<longleftrightarrow> (\<exists>d' \<in> set ds. ds_strategy_instance_id d' = ds_strategy_instance_id d \<and> d' \<noteq> d)" if "d \<in> set ds"
  proof -
    have g: "set ?g = {d' \<in> set ds. ds_strategy_instance_id d' = ds_strategy_instance_id d}" by (auto simp: group_of_def)
    have "distinct ?g" using assms by (simp add: group_of_def)
    then have "length ?g = card (set ?g)" by (rule distinct_card [symmetric])
    moreover have "d \<in> set ?g" using that g by simp
    ultimately have "1 < length ?g \<longleftrightarrow> set ?g \<noteq> {d}"
      by (metis One_nat_def card_1_singletonE card_gt_0_iff empty_iff finite_set is_singletonI is_singleton_altdef
          less_one linorder_neqE_nat not_less_iff_gr_or_eq singletonD)
    with g that show ?thesis by auto
  qed
  then show ?thesis by (auto simp: snapshot_of_def)
qed

lemma catalog_load_returns:
  assumes "mc_events m = []"
  shows "(\<exists>s. catalog_load_snapshot C m = (Inr s, m)) \<longleftrightarrow>
    (\<forall>name \<in> set (candidates_of (mc_files m)). \<exists>x. file_deployment C (mc_files m) name = Inr x)"
  unfolding catalog_load_quiet [OF assms] res_map_returns [symmetric]
  by (cases "res_map (file_deployment C (mc_files m)) (candidates_of (mc_files m))") simp_all

lemma catalog_load_parsed:
  assumes "mc_events m = []" and "catalog_load_snapshot C m = (Inr s, m)"
  obtains n ds invalid where "s = snapshot_of n ds invalid" and "distinct ds"
    and "\<forall>d. d \<in> set ds \<longleftrightarrow> (\<exists>name \<in> set (candidates_of (mc_files m)). file_deployment C (mc_files m) name = Inr (Inr d))"
proof -
  let ?names = "candidates_of (mc_files m)" and ?read = "file_deployment C (mc_files m)"
  note run = catalog_load_quiet [OF assms(1), of C]
  from assms(2) run obtain xs where xs: "res_map ?read ?names = Inr xs" by (cases "res_map ?read ?names") simp_all
  let ?ds = "concat (map note_accepted xs)" and ?bad = "concat (map (\<lambda>(n, x). note_invalid n x) (zip ?names xs))"
  have s: "s = snapshot_of (length ?names) ?ds ?bad" using assms(2) unfolding run xs by simp
  have ds: "e \<in> set ?ds \<longleftrightarrow> (\<exists>name \<in> set ?names. ?read name = Inr (Inr e))" for e
    unfolding res_map_members [OF xs, of "Inr e"] by (force simp: note_accepted_def split: sum.splits)
  have "read_candidates C ?names m = (Inr (?ds, ?bad), m)"
    unfolding read_candidates_quiet [OF assms(1)] xs by simp
  from read_candidates_accounts [OF this] have "mset (map ds_source_path ?ds) \<subseteq># mset ?names" by (simp del: mset_map)
  then have "distinct (map ds_source_path ?ds)" by (rule distinct_submultiset) (rule candidates_distinct)
  then have "distinct ?ds" by (simp add: distinct_map)
  show ?thesis by (rule that [OF s \<open>distinct ?ds\<close>]) (intro allI ds)
qed

lemma catalog_get_iff:
  assumes "mc_events m = []" and s: "catalog_load_snapshot C m = (Inr s, m)"
  shows "get_by_strategy_instance_id s i = Some d \<longleftrightarrow>
      (\<exists>name \<in> set (candidates_of (mc_files m)). file_deployment C (mc_files m) name = Inr (Inr d)) \<and>
      ds_strategy_instance_id d = i \<and>
      (\<forall>name \<in> set (candidates_of (mc_files m)). \<forall>d'.
        file_deployment C (mc_files m) name = Inr (Inr d') \<and> ds_strategy_instance_id d' = i \<longrightarrow> d' = d)"
proof -
  let ?names = "candidates_of (mc_files m)" and ?read = "file_deployment C (mc_files m)"
  obtain n ds invalid where parts: "s = snapshot_of n ds invalid" "distinct ds"
    and "\<forall>d. d \<in> set ds \<longleftrightarrow> (\<exists>name \<in> set ?names. ?read name = Inr (Inr d))"
    by (rule catalog_load_parsed [OF assms])
  then have ds: "d \<in> set ds \<longleftrightarrow> (\<exists>name \<in> set ?names. ?read name = Inr (Inr d))" for d by blast
  from accepted_iff [OF parts(2), of d n invalid, folded parts(1)] show ?thesis
    unfolding get_by_strategy_instance_id_iff [OF catalog_scan_wf [OF s]] ds [symmetric] by (metis ds)
qed

lemma file_deployment_accepted:
  assumes "file_deployment C fs name = Inr (Inr d)"
  shows "wf_deployment d \<and> ds_source_path d = name"
proof -
  from assms obtain x where "file_document C fs name = Inr x"
    and x: "(case x of Inl bad \<Rightarrow> Inr (Inl bad) | Inr v \<Rightarrow> parse_deployment (cc_hexdigest C) name v) = Inr (Inr d)"
    by (auto simp: file_deployment_def res_bind_eq_Inr)
  from x show ?thesis by (cases x) (auto dest: parse_deployment_accepted)
qed

section \<open>Lemmas on documents\<close>

lemma document_ofE:
  assumes "document_of ft content = Some d"
  obtains t c where "utf8_decode content = Some t" "json_loads (document_hooks ft) t = Some (JObj d)" "map_of d ''enabled'' = Some (JBool c)"
  using assms unfolding document_of_def
  by (auto split: option.splits json.splits simp: bind_eq_Some_conv)

lemma document_keys_distinct:
  assumes "json_loads (document_hooks ft) t = Some (JObj d)"
  shows "distinct (map fst d)"
proof -
  let ?Q = "\<lambda>v. \<forall>kvs. v = JObj kvs \<longrightarrow> distinct (map fst kvs)"
  from assms obtain n r where "parse_value (document_hooks ft) n (skip_ws t) = Some (JObj d, r)" by (auto simp: json_loads_iff)
  then have "?Q (JObj d)"
  proof (rule parse_value_all [rotated 6])
    fix s v r assume "scan_literal (document_hooks ft) s = Some (v, r)"
    then show "?Q v"
      by (auto simp: scan_literal_def number_value_def constant_value_def document_hooks_def reject_non_finite_number_def
          split: option.splits if_splits)
  qed (auto simp: document_hooks_def dict_of_pairs_props)
  then show ?thesis by simp
qed

lemma updated_ok:
  assumes "float_texts ft" and "json_loads (document_hooks ft) t = Some (JObj d)" and "map_of d ''enabled'' = Some (JBool c)"
    and "finite_json (JObj (AList.update ''enabled'' (JBool b) d))"
  shows "json_ok (document_hooks ft) (JObj (AList.update ''enabled'' (JBool b) d))"
proof -
  let ?d = "AList.update ''enabled'' (JBool b) d"
  note keys = document_keys_distinct [OF assms(2)]
  have kept: "(k, v) \<in> set e \<Longrightarrow> k \<noteq> ''enabled'' \<Longrightarrow> (k, v) \<in> set (AList.update ''enabled'' (JBool b) e)" for k v e
    by (induction e) auto
  have "finite_json v" if "(k, v) \<in> set d" for k v
  proof (cases "k = ''enabled''")
    case True
    with map_of_is_SomeI [OF keys that] assms(3) have "v = JBool c" by simp
    then show ?thesis by simp
  next
    case False
    with kept [OF that] assms(4) show ?thesis by (auto simp: list_all_iff)
  qed
  then have "finite_json (JObj d)" by (auto simp: list_all_iff)
  from document_read_ok [OF assms(1,2) this] have "\<forall>p \<in> set d. json_ok (document_hooks ft) (snd p)"
    by (auto simp: list_all_iff)
  then have "\<forall>p \<in> set ?d. json_ok (document_hooks ft) (snd p)" using update_set [of "''enabled''" "JBool b" d] by auto
  with keys show ?thesis by (auto simp: list_all_iff distinct_update)
qed

lemma enabled_payload_exact:
  assumes "float_texts (cc_float_text C)" and "enabled_payload C i b original = Inr (Some payload)"
  obtains document where "document_of (cc_float_text C) original = Some document"
    and "identity_of (cc_hexdigest C) document = Some i" and "map_of document ''enabled'' = Some (JBool (\<not> b))"
    and "document_of (cc_float_text C) payload = Some (AList.update ''enabled'' (JBool b) document)"
    and "identity_of (cc_hexdigest C) (AList.update ''enabled'' (JBool b) document) = Some i"
proof -
  let ?ft = "cc_float_text C"
  from assms(2) obtain document where d: "document_of ?ft original = Some document"
    and i: "identity_of (cc_hexdigest C) document = Some i"
    and e: "map_of document ''enabled'' \<noteq> Some (JBool b)"
    and u: "identity_of (cc_hexdigest C) (AList.update ''enabled'' (JBool b) document) = Some i"
    and p: "serialize (AList.update ''enabled'' (JBool b) document) original = Inr payload"
    by (auto simp: enabled_payload_def Let_def res_bind_eq_Inr split: option.splits if_splits)
  from d obtain t c where t: "utf8_decode original = Some t" "json_loads (document_hooks ?ft) t = Some (JObj document)"
    and c: "map_of document ''enabled'' = Some (JBool c)" by (rule document_ofE)
  let ?u = "AList.update ''enabled'' (JBool b) document" and ?nl = "if t \<noteq> [] \<and> last t = CHR 0x0A then [CHR 0x0A] else []"
  from p t(1) have fin: "finite_json (JObj ?u)" and pay: "payload = utf8_encode (json_pretty (detect_indent t) 0 (JObj ?u) @ ?nl)"
    by (auto simp: serialize_def split: if_splits)
  have "blanks ?nl" by (simp add: blanks_def json_space_def)
  from document.json_loads_pretty [OF updated_ok [OF assms(1) t(2) c fin] this]
  have "json_loads (document_hooks ?ft) (json_pretty (detect_indent t) 0 (JObj ?u) @ ?nl) = Some (JObj ?u)" .
  then have "document_of ?ft payload = Some ?u"
    unfolding pay document_of_def utf8_decode_encode by (simp add: update_conv' del: json_pretty.simps utf8_encode_append)
  moreover have "map_of document ''enabled'' = Some (JBool (\<not> b))" using c e by simp
  ultimately show ?thesis by (intro that [OF d i _ _ u])
qed

section \<open>The writer on an undisturbed directory\<close>

lemma quiet_kept: "mc_events m = [] \<Longrightarrow> kept p (holds (mc_files m) p) m"
  by (simp add: kept_def undisturbed_def)

lemma write_all_quiet:
  assumes "mc_events m = []"
  shows "write_all n view m = (Inr (), if view = [] then m else m\<lparr>mc_files := snd (sys_append n view (mc_files m))\<rparr>)"
  using assms
  by (simp add: write_all.simps [of n view m] write_all.simps [of n "[]"] sys_write_def bindp_apply syscall_quiet
      sys_append_def Let_def split: node.splits)

lemma write_temporary_quiet:
  assumes "mc_events m = []" and "node_of (mc_files m) (Top t) = None"
  shows "\<exists>m'. write_temporary (Top t) payload k m = (Inr (), m') \<and> mc_events m' = []"
  using assms
  by (simp add: write_temporary_def os_error_as_def finallyp_def prog_simps syscall_quiet write_all_quiet sys_create_def
      parent_ok_def sys_fchmod_def sys_append_def sys_nothing_def Let_def)

lemma replace_file_quiet:
  assumes "mc_events m = []" and "node_of (mc_files m) (Top t) = None" and "look (mc_files m) (Top name) = Some (Regular original k0)"
  shows "\<exists>m'. replace_file (Top name) (Top t) original payload k m = (Inr (), m') \<and> mc_events m' = []"
proof -
  let ?p = "Top name"
  from assms(3) obtain n0 where p: "holds (mc_files m) ?p = Some (n0, Regular original k0)" by (auto simp: look_holds)
  with assms(2) have "?p \<noteq> Top t" by (auto simp: holds_def)
  obtain m1 where w: "write_temporary (Top t) payload k m = (Inr (), m1)" and q: "mc_events m1 = []"
    using write_temporary_quiet [OF assms(1,2)] by blast
  have "kept_all [(Top t, holds (mc_files m) (Top t)), (?p, Some (n0, Regular original k0))] m"
    using quiet_kept [OF assms(1)] p [symmetric] by simp
  from tripleD_Inr [OF write_temporary_content this w] \<open>?p \<noteq> Top t\<close>
  obtain n where m1: "holds (mc_files m1) (Top t) = Some (n, Regular payload k)" "holds (mc_files m1) ?p = Some (n0, Regular original k0)"
    by (auto simp: kept_def)
  have read: "syscall (sys_read_bytes ?p) m1 = (Inr original, m1)"
    using m1(2) q by (auto simp: syscall_quiet sys_read_bytes_def with_regular_def holds_def)
  obtain fs where replace: "sys_replace (Top t) ?p (mc_files m1) = (Inr (), fs)"
    using m1 by (cases "n0 = n") (auto simp: sys_replace_def with_regular_def parent_ok_def look_def holds_def)
  show ?thesis
    using w read replace q by (simp add: replace_file_def os_error_as_def prog_simps syscall_quiet)
qed


text \<open>Without carriage returns a file is read as it is.\<close>

lemma universal_newlines_id: "CHR 0x0D \<notin> set t \<Longrightarrow> universal_newlines t = t"
  by (induction t rule: universal_newlines.induct) auto

lemma sum_bind_Inr: "sum_bind x f = Inr y \<longleftrightarrow> (\<exists>b. x = Inr b \<and> f b = Inr y)"
  by (cases x) (simp_all add: sum_bind_def)

lemma require_string_Inr: "require_string d f = Inr s \<Longrightarrow> map_of d f = Some (JStr s)"
  by (auto simp: require_string_def split: option.splits json.splits if_splits)

lemma require_enabled_Inr: "require_enabled d = Inr b \<Longrightarrow> map_of d ''enabled'' = Some (JBool b)"
  by (auto simp: require_enabled_def split: option.splits json.splits)

lemma require_raw_spec_Inr: "require_raw_spec d = Inr r \<Longrightarrow> map_of d ''raw_spec'' = Some (JObj r)"
  by (auto simp: require_raw_spec_def split: option.splits json.splits)

lemma parsed_document:
  assumes "parse_deployment hexdigest name v = Inr (Inr d)"
  obtains document where "v = JObj document" and "map_of document ''enabled'' = Some (JBool (ds_enabled d))"
    and "identity_of hexdigest document = Some (ds_strategy_instance_id d)"
proof -
  from assms obtain enabled ticker tf s r where fields: "checked_fields v = Inr (enabled, ticker, tf, s, r)"
    and i: "derive_strategy_instance_id hexdigest (JStr s) (JStr ticker) (JStr tf) (JObj r) = Inr (ds_strategy_instance_id d)"
    and e: "ds_enabled d = enabled"
    by (auto simp: parse_deployment_def res_bind_eq_Inr new_DeploymentSpecification_iff split: sum.splits)
  from fields obtain document where v: "v = JObj document" by (cases v) (simp_all add: checked_fields_def)
  with fields have "map_of document ''enabled'' = Some (JBool enabled)" "map_of document ''ticker'' = Some (JStr ticker)"
    "map_of document ''base_timeframe'' = Some (JStr tf)" "map_of document ''strategy_id'' = Some (JStr s)"
    "map_of document ''raw_spec'' = Some (JObj r)"
    by (auto simp: checked_fields_def sum_bind_Inr dest: require_string_Inr require_enabled_Inr require_raw_spec_Inr)
  with i e show ?thesis by (intro that [OF v]) (simp_all add: identity_of_def)
qed

lemma identity_of_updated: "identity_of hexdigest (AList.update ''enabled'' v d) = identity_of hexdigest d"
  by (simp add: identity_of_def update_conv')

text \<open>
  The change of one accepted deployment on a directory that nobody disturbs goes through: the file was
  accepted by the scan, has the other value, holds finite numbers and no carriage return, and the name of
  the temporary file is free.
\<close>

lemma enabled_payload_quiet:
  assumes ft: "float_texts (cc_float_text C)"
    and held: "look fs (Top name) = Some (Regular (utf8_encode t) k)" and cr: "CHR 0x0D \<notin> set t"
    and d: "file_deployment C fs name = Inr (Inr d)"
    and fin: "\<And>v. json_loads (document_hooks (cc_float_text C)) t = Some v \<Longrightarrow> finite_json v"
  shows "\<exists>payload. enabled_payload C (ds_strategy_instance_id d) (\<not> ds_enabled d) (utf8_encode t) = Inr (Some payload)"
proof -
  let ?ft = "cc_float_text C" and ?b = "\<not> ds_enabled d" and ?i = "ds_strategy_instance_id d"
  from d held obtain v where v: "json_loads (document_hooks ?ft) t = Some v"
    and parsed: "parse_deployment (cc_hexdigest C) name v = Inr (Inr d)"
    by (auto simp: file_deployment_def file_document_def universal_newlines_id [OF cr] res_bind_eq_Inr
        split: option.splits sum.splits)
  from parsed obtain document where doc: "v = JObj document" "map_of document ''enabled'' = Some (JBool (ds_enabled d))"
      "identity_of (cc_hexdigest C) document = Some ?i" by (rule parsed_document)
  let ?u = "AList.update ''enabled'' (JBool ?b) document"
  have fin_u: "finite_json (JObj ?u)"
    using fin [OF v] update_set [of "''enabled''" "JBool ?b" document] doc(1) by (fastforce simp: list_all_iff)
  have orig: "document_of ?ft (utf8_encode t) = Some document"
    using v doc by (simp add: document_of_def)
  have id: "identity_of (cc_hexdigest C) ?u = Some ?i" using identity_of_updated doc(3) by simp
  let ?nl = "if t \<noteq> [] \<and> last t = CHR 0x0A then [CHR 0x0A] else []"
  let ?text = "json_pretty (detect_indent t) 0 (JObj ?u) @ ?nl"
  have ser: "serialize ?u (utf8_encode t) = Inr (utf8_encode ?text)"
    using fin_u by (simp add: serialize_def del: json_pretty.simps finite_json.simps)
  have "blanks ?nl" by (simp add: blanks_def json_space_def)
  from document.json_loads_pretty [OF updated_ok [OF ft v [unfolded doc(1)] doc(2) fin_u] this]
  have "json_loads (document_hooks ?ft) ?text = Some (JObj ?u)" .
  then have "document_of ?ft (utf8_encode ?text) = Some ?u"
    unfolding document_of_def utf8_decode_encode by (simp add: update_conv' del: json_pretty.simps)
  with orig id ser doc(2,3) show ?thesis
    by (simp add: enabled_payload_def del: json_pretty.simps utf8_encode_append)
qed


lemma file_set_enabled_quiet:
  assumes "float_texts (cc_float_text C)" and quiet: "mc_events m = []"
    and "catalog_load_snapshot C m = (Inr s, m)" and "get_by_strategy_instance_id s i = Some d"
    and "look (mc_files m) (Top (ds_source_path d)) = Some (Regular (utf8_encode t) k)" and "CHR 0x0D \<notin> set t"
    and "\<And>v. json_loads (document_hooks (cc_float_text C)) t = Some v \<Longrightarrow> finite_json v"
    and "look (mc_files m) (temporary_path (ds_source_path d) suffix) = None"
  shows "\<exists>m'. file_set_enabled C suffix i (\<not> ds_enabled d) m = (Inr True, m')"
proof -
  let ?name = "ds_source_path d" and ?p = "Top (ds_source_path d)"
  from catalog_get_iff [OF quiet assms(3)] assms(4)
  obtain name where name: "file_deployment C (mc_files m) name = Inr (Inr d)" and i: "ds_strategy_instance_id d = i" by blast
  with file_deployment_accepted [OF name] have d: "file_deployment C (mc_files m) ?name = Inr (Inr d)" by simp
  from enabled_payload_quiet [OF assms(1,5,6) d assms(7)] i
  obtain payload where pay: "enabled_payload C i (\<not> ds_enabled d) (utf8_encode t) = Inr (Some payload)" by auto
  have reads: "sys_read_bytes ?p (mc_files m) = (Inr (utf8_encode t), mc_files m)" "sys_stat_mode ?p (mc_files m) = (Inr k, mc_files m)"
    using assms(5) by (auto simp: sys_read_bytes_def sys_stat_mode_def with_regular_def look_def)
  obtain m1 where r: "replace_file ?p (temporary_path ?name suffix) (utf8_encode t) payload (k mod 512) m = (Inr (), m1)"
    and q: "mc_events m1 = []"
    using replace_file_quiet [OF quiet _ assms(5), of "CHR ''.'' # ?name @ ''.tmp-'' @ suffix" payload "k mod 512"] assms(8)
    by (auto simp: temporary_path_def look_def)
  have "sync_directory m1 = (Inr (), m1)"
    by (simp add: sync_directory_def suppress_os_error_def finallyp_def prog_simps syscall_quiet [OF q] sys_nothing_def q)
  then show ?thesis
    by (simp add: file_set_enabled_def catalog_deployment_def rewrite_enabled_def Let_def os_error_as_def prog_simps
        assms(3,4) syscall_quiet [OF quiet] reads pay r)
qed


section \<open>An example\<close>

text \<open>One deployment file, written under an indentation of two, and a directory that holds it. The digest
  of the example is the text itself, padded.\<close>

definition ex_float :: "string \<Rightarrow> string" where
  "ex_float t = (if scan_number t = Some (t, True, []) then t else ''0.0'')"

definition ex_disk_catalog :: catalog_config where
  "ex_disk_catalog = \<lparr>cc_hexdigest = (\<lambda>s. s @ replicate 24 (CHR ''0'')), cc_float_text = ex_float, cc_error_text = (\<lambda>_. ''error'')\<rparr>"

definition ex_object :: "bool \<Rightarrow> json_object" where
  "ex_object b = [(''enabled'', JBool b), (''ticker'', JStr ''BTC''), (''base_timeframe'', JStr ''5m''),
     (''strategy_id'', JStr ''ema''), (''raw_spec'', JObj [(''fast'', JInt 5)])]"

definition ex_text :: string where
  "ex_text = json_pretty (Some 2) 0 (JObj (ex_object True)) @ [CHR 0x0A]"

definition ex_id :: string where
  "ex_id = ''ema:'' @ take 24 (cc_hexdigest ex_disk_catalog (canonical_payload
     (identity_payload (JStr ''ema'') (JStr ''BTC'') (JStr ''5m'') (JObj [(''fast'', JInt 5)]))))"

definition ex_deployed :: DeploymentSpecification where
  "ex_deployed = \<lparr>ds_strategy_instance_id = ex_id, ds_enabled = True, ds_instrument = ''BTC'', ds_base_timeframe = ''5m'',
     ds_strategy_id = ''ema'', ds_raw_spec = [(''fast'', JInt 5)], ds_source_path = ''a.json''\<rparr>"

definition ex_snapshot :: DeploymentCatalogSnapshot where
  "ex_snapshot = snapshot_of 1 [ex_deployed] []"

definition ex_files :: files where
  "ex_files = \<lparr>fs_entries = [(Top ''a.json'', 0)], fs_nodes = (\<lambda>_. Regular (utf8_encode ex_text) 420)\<rparr>"

definition ex_machine :: "event list \<Rightarrow> machine" where
  "ex_machine evs = \<lparr>mc_files = ex_files, mc_events = evs\<rparr>"

lemma ex_machine_simps [simp]:
  "mc_files (ex_machine evs) = ex_files" "mc_events (ex_machine evs) = evs" "(ex_machine evs)\<lparr>mc_files := ex_files\<rparr> = ex_machine evs"
  "(ex_machine evs)\<lparr>mc_events := evs'\<rparr> = ex_machine evs'" "(ex_machine evs)\<lparr>mc_files := ex_files, mc_events := evs'\<rparr> = ex_machine evs'"
  by (simp_all add: ex_machine_def)

lemma ex_float_texts: "float_texts ex_float"
proof -
  have "scan_number ''0.0'' = Some (''0.0'', True, [])" by (simp add: scan_number_def scan_int_def scan_frac_def scan_exp_def is_digit_def)
  then show ?thesis by (auto simp: float_texts_def ex_float_def)
qed

lemma ex_text_plain: "CHR 0x0D \<notin> set ex_text"
  by code_simp

lemma ex_text_read: "json_loads (document_hooks ex_float) ex_text = Some (JObj (ex_object True))"
  unfolding ex_text_def
  by (rule document.json_loads_pretty) (simp_all add: ex_object_def blanks_def json_space_def)

lemma ex_candidates: "candidates_of ex_files = [''a.json'']"
  unfolding ex_files_def by (simp add: candidates_of_def look_def node_of_def List.map_filter_simps top_name_def is_candidate_def split_name_def)

lemma ex_look: "look ex_files (Top ''a.json'') = Some (Regular (utf8_encode ex_text) 420)"
  by (simp add: ex_files_def look_def node_of_def)

lemma ex_parsed: "parse_deployment (cc_hexdigest ex_disk_catalog) ''a.json'' (JObj (ex_object True)) = Inr (Inr ex_deployed)"
  by (simp add: parse_deployment_def checked_fields_def ex_object_def sum_bind_def require_enabled_def require_string_def
      require_raw_spec_def nonblank_iff py_isspace_def derive_strategy_instance_id_def Let_def identity_payload_def py_str_def
      new_DeploymentSpecification_def ex_id_def ex_deployed_def)

lemma ex_file: "file_deployment ex_disk_catalog ex_files ''a.json'' = Inr (Inr ex_deployed)"
  by (simp add: file_deployment_def file_document_def ex_look universal_newlines_id [OF ex_text_plain] ex_text_read ex_parsed
      ex_disk_catalog_def [THEN arg_cong, of cc_float_text])

lemma ex_loaded: "catalog_load_snapshot ex_disk_catalog (ex_machine []) = (Inr ex_snapshot, ex_machine [])"
  by (simp add: ex_snapshot_def catalog_load_quiet ex_candidates ex_file note_accepted_def note_invalid_def)

lemma ex_not_found: "get_by_strategy_instance_id ex_snapshot ''other'' = None"
  by (simp add: get_by_strategy_instance_id_def ex_snapshot_def snapshot_of_def group_of_def ex_deployed_def ex_id_def)

lemma ex_document: "document_of ex_float (utf8_encode ex_text) = Some (ex_object True)"
  by (simp add: document_of_def ex_text_read) (simp add: ex_object_def)

lemma ex_disabled: "\<exists>m'. file_set_enabled ex_disk_catalog ''1-a'' ex_id False (ex_machine []) = (Inr True, m')"
proof -
  have found: "get_by_strategy_instance_id ex_snapshot ex_id = Some ex_deployed"
    by (simp add: get_by_strategy_instance_id_def ex_snapshot_def snapshot_of_def group_of_def ex_deployed_def)
  have "\<exists>m'. file_set_enabled ex_disk_catalog ''1-a'' ex_id (\<not> ds_enabled ex_deployed) (ex_machine []) = (Inr True, m')"
  proof (rule file_set_enabled_quiet [OF _ _ ex_loaded found])
    show "look (mc_files (ex_machine [])) (Top (ds_source_path ex_deployed)) = Some (Regular (utf8_encode ex_text) 420)"
      using ex_look by (simp add: ex_deployed_def)
    show "look (mc_files (ex_machine [])) (temporary_path (ds_source_path ex_deployed) ''1-a'') = None"
      by (simp add: ex_files_def look_def node_of_def temporary_path_def)
  qed (simp_all add: ex_disk_catalog_def ex_float_texts ex_text_plain ex_text_read, simp add: ex_object_def)
  then show ?thesis by (simp add: ex_deployed_def)
qed

text \<open>A call that nobody disturbs, and what a scan of the example does to the coming events.\<close>

definition calm :: event where
  "calm = \<lparr>ev_other = (\<lambda>fs. fs), ev_raises = None, ev_count = 0\<rparr>"

lemma syscall_calm:
  "mc_events m = calm # evs \<Longrightarrow>
     syscall op m = (case op (mc_files m) of (r, fs) \<Rightarrow> (r, m\<lparr>mc_files := fs, mc_events := evs\<rparr>))"
  by (cases m) (simp add: syscall_def next_event_def calm_def split: prod.splits)

lemma ex_read: "sys_read_bytes (Top ''a.json'') ex_files = (Inr (utf8_encode ex_text), ex_files)"
  by (simp add: sys_read_bytes_def with_regular_def ex_files_def node_of_def)

lemma ex_scan: "catalog_load_snapshot ex_disk_catalog (ex_machine (calm # calm # evs)) = (Inr ex_snapshot, ex_machine evs)"
proof -
  have list: "enumerate_candidates (ex_machine (calm # es)) = (Inr [''a.json''], ex_machine es)" for es
    using ex_candidates
    by (simp add: enumerate_candidates_def os_error_as_def prog_simps syscall_calm sys_list_files_def candidates_of_def)
  have read: "read_deployment ex_disk_catalog ''a.json'' (ex_machine (calm # es)) = (Inr (Inr ex_deployed), ex_machine es)" for es
    by (simp add: read_deployment_def read_document_def prog_simps syscall_calm ex_read universal_newlines_id [OF ex_text_plain]
        ex_disk_catalog_def [THEN arg_cong, of cc_float_text] ex_text_read ex_parsed)
  show ?thesis
    by (simp add: catalog_load_snapshot_def prog_simps list read build_snapshot_returns ex_snapshot_def)
qed

lemma ex_found: "catalog_deployment ex_disk_catalog err ex_id (ex_machine []) = (Inr ex_deployed, ex_machine [])"
    "catalog_deployment ex_disk_catalog err ex_id (ex_machine (calm # calm # evs)) = (Inr ex_deployed, ex_machine evs)"
  by (simp_all add: catalog_deployment_def prog_simps ex_loaded ex_scan get_by_strategy_instance_id_def ex_snapshot_def
      snapshot_of_def group_of_def ex_deployed_def)

text \<open>The directory with the trash, with the link in it, and after the original name is gone.\<close>

definition ex_nodes :: "nat \<Rightarrow> node" where
  "ex_nodes = (\<lambda>_. Regular (utf8_encode ex_text) 420)(1 := Directory)"

definition ex_made :: files where
  "ex_made = \<lparr>fs_entries = [(Top ''a.json'', 0), (Top ''.deleted'', 1)], fs_nodes = ex_nodes\<rparr>"

definition ex_linked :: files where
  "ex_linked = \<lparr>fs_entries = [(Top ''a.json'', 0), (Top ''.deleted'', 1), (InTrash ''a.T.json'', 0)], fs_nodes = ex_nodes\<rparr>"

definition ex_gone :: files where
  "ex_gone = \<lparr>fs_entries = [(Top ''.deleted'', 1), (InTrash ''a.T.json'', 0)], fs_nodes = ex_nodes\<rparr>"

abbreviation ex_target :: path where "ex_target \<equiv> InTrash ''a.T.json''"

lemma ex_steps:
  "sys_mkdir_trash ex_files = (Inr (), ex_made)"
  "sys_link (Top ''a.json'') ex_target ex_made = (Inr (), ex_linked)"
  "sys_read_bytes ex_target ex_linked = (Inr (utf8_encode ex_text), ex_linked)"
  "sys_unlink (Top ''a.json'') ex_linked = (Inr (), ex_gone)"
  by (simp_all add: sys_mkdir_trash_def sys_link_def sys_read_bytes_def sys_unlink_def with_regular_def look_def node_of_def
      parent_ok_def trash_directory_name_def ex_files_def ex_made_def ex_linked_def ex_gone_def ex_nodes_def fresh_node_def Let_def)

lemma ex_syscall:
  "syscall op \<lparr>mc_files = fs, mc_events = []\<rparr> = (case op fs of (r, fs') \<Rightarrow> (r, \<lparr>mc_files = fs', mc_events = []\<rparr>))"
  "syscall op \<lparr>mc_files = fs, mc_events = calm # evs\<rparr> = (case op fs of (r, fs') \<Rightarrow> (r, \<lparr>mc_files = fs', mc_events = evs\<rparr>))"
  by (simp_all add: syscall_quiet syscall_calm split: prod.splits)

lemma ex_deployment_steps:
  "trash_deployment ''T'' original ex_deployed =
     bindp (os_error_as move_failed (syscall (sys_read_bytes (Top ''a.json'')))) (\<lambda>current.
     if current \<noteq> original then raise (EnabledFileChangeError DeploymentFileChanged)
     else
       bindp (os_error_as move_failed (syscall sys_mkdir_trash)) (\<lambda>_.
       bindp (link_into_trash (Top ''a.json'') ex_target) (\<lambda>_.
       bindp (unlink_moved (Top ''a.json'') ex_target original) (\<lambda>_.
       bindp sync_directory (\<lambda>_.
       bindp sync_directory (\<lambda>_.
       ret (trash_directory_name @ ''/'' @ ''a.T.json'')))))))"
  by (simp add: trash_deployment_def Let_def ex_deployed_def trash_name_def split_name_def)

lemmas trash_steps = file_move_to_trash_def ex_found ex_deployment_steps link_into_trash_def unlink_moved_def
  sync_directory_def suppress_os_error_def os_error_as_def finallyp_def prog_simps sys_nothing_def ex_syscall ex_steps ex_read
  trash_directory_name_def

lemma ex_trashed:
  "file_move_to_trash ex_disk_catalog ''T'' ex_id (utf8_encode ex_text) (ex_machine []) =
     (Inr ''.deleted/a.T.json'', \<lparr>mc_files = ex_gone, mc_events = []\<rparr>)"
  by (simp add: trash_steps) (simp add: ex_machine_def trash_steps)

text \<open>
  The reads of the trash mover do not close the gap before the last call: when another process replaces
  the deployment file between the comparison of the link in the trash and the removal of the original
  name, the move returns normally and the new file is under no name.
\<close>

definition replacing :: "string \<Rightarrow> event" where
  "replacing new = calm\<lparr>ev_other := (\<lambda>fs. fs\<lparr>fs_entries := AList.update (Top ''a.json'') 2 (fs_entries fs),
     fs_nodes := (fs_nodes fs)(2 := Regular new 420)\<rparr>)\<rparr>"

lemma ex_replaced:
  "syscall (sys_unlink (Top ''a.json'')) \<lparr>mc_files = ex_linked, mc_events = [replacing new]\<rparr> =
     (Inr (), \<lparr>mc_files = ex_gone\<lparr>fs_nodes := ex_nodes(2 := Regular new 420)\<rparr>,
               mc_events = []\<rparr>)"
  by (simp add: syscall_def next_event_def replacing_def calm_def sys_unlink_def with_regular_def node_of_def ex_linked_def ex_gone_def)

theorem replaced_file_is_erased:
  assumes "new \<noteq> utf8_encode ex_text"
  shows "\<exists>m'. file_move_to_trash ex_disk_catalog ''T'' ex_id (utf8_encode ex_text)
       (ex_machine [calm, calm, calm, calm, calm, calm, replacing new]) = (Inr ''.deleted/a.T.json'', m') \<and>
     (\<forall>p k. look (mc_files m') p \<noteq> Some (Regular new k))"
  using assms
  by (simp add: trash_steps)
    (simp add: ex_machine_def trash_steps ex_replaced, auto simp: look_def node_of_def ex_gone_def ex_nodes_def)

section \<open>The scan\<close>

text \<open>
  Property C25: a scan that returns accounts for every candidate file exactly once, whatever others do
  to the directory meanwhile: each file name listed at its start is the source of one accepted deployment
  or one invalid file, or is listed in one group of duplicates. The accepted deployments are well formed
  with distinct identities, a group of duplicates has at least two files, and no accepted deployment
  shares the identity of a group.
\<close>

theorem catalog_scan_accounts_for_every_file:
  assumes "catalog_load_snapshot C m = (Inr s, m')"
  shows "wf_catalog s \<and>
    dcs_scanned_file_count s = int (length (candidates_of (mc_files (snd (next_event m))))) \<and>
    mset (candidates_of (mc_files (snd (next_event m)))) =
      mset (map ds_source_path (dcs_accepted_deployments s)) + mset (map idf_source_path (dcs_invalid_files s)) +
      mset (concat (map ddi_source_paths (dcs_duplicate_identities s))) \<and>
    (\<forall>x \<in> set (dcs_duplicate_identities s). 2 \<le> length (ddi_source_paths x) \<and>
      ddi_strategy_instance_id x \<notin> ds_strategy_instance_id ` set (dcs_accepted_deployments s))"
proof -
  let ?names = "candidates_of (mc_files (snd (next_event m)))"
  from assms obtain m1 ds invalid where r: "read_candidates C ?names m1 = (Inr (ds, invalid), m')"
    and s: "s = snapshot_of (length ?names) ds invalid" by (rule catalog_load_runs)
  note parts = read_candidates_accounts [OF r] snapshot_accounts [of ds "length ?names" invalid]
  have "mset ?names = mset (map ds_source_path (dcs_accepted_deployments s)) + mset (map idf_source_path (dcs_invalid_files s)) +
      mset (concat (map ddi_source_paths (dcs_duplicate_identities s)))"
    using parts by (simp add: s snapshot_of_def ac_simps del: mset_map)
  moreover have "dcs_scanned_file_count s = int (length ?names)" by (simp add: s snapshot_of_def)
  ultimately show ?thesis
    using catalog_scan_wf [OF assms] snapshot_duplicates [of _ "length ?names" ds invalid] unfolding s by blast
qed

theorem catalog_scan_accounts_for_every_file_witness:
  "wf_catalog ex_snapshot \<and> dcs_scanned_file_count ex_snapshot = 1"
  using catalog_scan_accounts_for_every_file [OF ex_loaded] by (simp add: ex_snapshot_def snapshot_of_def)

text \<open>
  Property C24: on a directory that nobody changes meanwhile, a scan returns exactly when every
  candidate file can be judged, that is, when no file raises an exception other than the one for an
  invalid deployment. The index of the snapshot then finds a deployment under an identity exactly when
  some file is parsed to it and no file is parsed to another deployment of that identity. In
  particular one file that is not UTF-8, or whose specification holds a numeral beyond the floats, makes
  the whole scan raise.
\<close>

theorem catalog_scan_exact:
  assumes "mc_events m = []"
  shows "((\<exists>s. catalog_load_snapshot C m = (Inr s, m)) \<longleftrightarrow>
      (\<forall>name \<in> set (candidates_of (mc_files m)). \<exists>x. file_deployment C (mc_files m) name = Inr x)) \<and>
    (\<forall>s i d. catalog_load_snapshot C m = (Inr s, m) \<longrightarrow>
      (get_by_strategy_instance_id s i = Some d \<longleftrightarrow>
        (\<exists>name \<in> set (candidates_of (mc_files m)). file_deployment C (mc_files m) name = Inr (Inr d)) \<and>
        ds_strategy_instance_id d = i \<and>
        (\<forall>name \<in> set (candidates_of (mc_files m)). \<forall>d'.
          file_deployment C (mc_files m) name = Inr (Inr d') \<and> ds_strategy_instance_id d' = i \<longrightarrow> d' = d)))"
  using catalog_load_returns [OF assms] catalog_get_iff [OF assms] by blast

theorem catalog_scan_exact_witness:
  "get_by_strategy_instance_id ex_snapshot ex_id = Some ex_deployed"
  using conjunct2 [OF catalog_scan_exact [of "ex_machine []" ex_disk_catalog]] ex_loaded
  by (simp add: ex_candidates ex_file ex_deployed_def)

section \<open>Identity\<close>

text \<open>
  Property C26: two deployment documents get the same identity exactly when they mean the same: the
  strategy, the ticker and the timeframe are equal and the specifications are equal as JSON values,
  whatever the order of their keys. It is assumed that the digest has at least 24 characters, that the
  first 24 do not collide on the two canonical texts, and that the interpreter reads back the floats it
  writes. The specifications are any two that were read from files and hold finite numbers.
\<close>

theorem identity_is_the_meaning:
  assumes "float_texts ft" and "json_loads (document_hooks ft) text = Some r" and "finite_json r"
    and "json_loads (document_hooks ft) text' = Some r'" and "finite_json r'"
    and "\<And>x. 24 \<le> length (hexdigest x)"
    and "take 24 (hexdigest (canonical_payload (identity_payload (JStr s) (JStr t) (JStr b) r))) =
           take 24 (hexdigest (canonical_payload (identity_payload (JStr s') (JStr t') (JStr b') r'))) \<Longrightarrow>
         canonical_payload (identity_payload (JStr s) (JStr t) (JStr b) r) =
           canonical_payload (identity_payload (JStr s') (JStr t') (JStr b') r')"
  shows "derive_strategy_instance_id hexdigest (JStr s) (JStr t) (JStr b) r =
      derive_strategy_instance_id hexdigest (JStr s') (JStr t') (JStr b') r'
    \<longleftrightarrow> s = s' \<and> t = t' \<and> b = b' \<and> json_eq r r'"
  by (rule same_identity_iff [OF assms(6,7) document_read_ok [OF assms(1,2,3)] document_read_ok [OF assms(1,4,5)]])

theorem identity_is_the_meaning_witness:
  "derive_strategy_instance_id (\<lambda>s. s @ replicate 24 (CHR ''0'')) (JStr ''ema'') (JStr ''BTC'') (JStr ''5m'')
      (JObj [(''a'', JInt 1), (''b'', JInt 2)]) =
   derive_strategy_instance_id (\<lambda>s. s @ replicate 24 (CHR ''0'')) (JStr ''ema'') (JStr ''BTC'') (JStr ''5m'')
      (JObj [(''b'', JInt 2), (''a'', JInt 1)])"
proof -
  let ?r = "JObj [(''a'', JInt 1), (''b'', JInt 2)]" and ?r' = "JObj [(''b'', JInt 2), (''a'', JInt 1)]"
  have eq: "json_eq ?r ?r'" by (simp add: json_eq_def)
  have read: "json_loads (document_hooks ex_float) (json_pretty None 0 v @ []) = Some v" if "json_ok (document_hooks ex_float) v" for v
    by (rule document.json_loads_pretty [OF that]) (simp add: blanks_def)
  have same: "canonical_payload (identity_payload (JStr ''ema'') (JStr ''BTC'') (JStr ''5m'') ?r) =
      canonical_payload (identity_payload (JStr ''ema'') (JStr ''BTC'') (JStr ''5m'') ?r')"
    using eq by (simp only: canonical_payload_def json_dumps_def payload_norm json_eq_def)
  from identity_is_the_meaning [OF ex_float_texts read _ read, of ?r ?r' "\<lambda>s. s @ replicate 24 (CHR ''0'')" "''ema''" "''BTC''" "''5m''" "''ema''" "''BTC''" "''5m''"]
  show ?thesis using eq same by simp
qed

section \<open>The enabled writer\<close>

text \<open>
  Property C27: a refused change leaves the files alone. Whatever calls fail and whatever others do to
  other files, when the enabled writer raises one of its errors, or any other exception than an
  interruption of the program, or reports that the file already had the value, then every file that
  the others left alone is what it was: the same file with the same bytes and mode. Only the hidden
  temporary file may be left behind.
\<close>

theorem refused_change_leaves_the_files:
  assumes "file_set_enabled C suffix i b m = (r, m')"
    and "r = Inr False \<or> (\<exists>e. r = Inl e \<and> (\<forall>s. e \<noteq> RuntimeError s))"
    and "undisturbed p m" and "\<forall>name. p \<noteq> temporary_path name suffix"
  shows "holds (mc_files m') p = holds (mc_files m) p"
proof -
  let ?H = "[(p, holds (mc_files m) p)]"
  have start: "kept_all ?H m" using kept_start [OF assms(3)] by simp
  have temp: "temporary_path name suffix \<notin> fst ` set ?H" for name using assms(4) [rule_format, of name] by auto
  have "triple (kept_all ?H) (file_set_enabled C suffix i b) (\<lambda>r m. \<not> r \<longrightarrow> kept_all ?H m)
      (\<lambda>e m. (\<forall>s. e \<noteq> RuntimeError s) \<longrightarrow> kept_all ?H m)"
    unfolding file_set_enabled_def
    by (rule triple_bind [OF unless_interrupted [OF frame_catalog_deployment] rewrite_enabled_refused [OF temp]])
  with assms(1,2) start have "kept_all ?H m'" by (fastforce dest: tripleD_Inr tripleD_Inl)
  then show ?thesis by (simp add: kept_def)
qed

theorem refused_change_leaves_the_files_witness:
  "holds (mc_files (snd (file_set_enabled ex_disk_catalog ''1-a'' ''other'' False (ex_machine [])))) (Top ''a.json'') =
     holds ex_files (Top ''a.json'')"
proof -
  have run: "file_set_enabled ex_disk_catalog ''1-a'' ''other'' False (ex_machine []) =
      (Inl (EnabledFileChangeError DeploymentNotInCatalog), ex_machine [])"
    by (simp add: file_set_enabled_def catalog_deployment_def prog_simps ex_loaded ex_not_found)
  show ?thesis
    using refused_change_leaves_the_files [OF run, of "Top ''a.json''"]
    unfolding run by (simp add: undisturbed_def temporary_path_def)
qed

text \<open>
  Property C28: a change that is reported as made is exact. When the enabled writer returns \<open>True\<close> and
  nobody else touched the directory, one file was replaced: its document had the identity that was
  asked for and the other value of \<open>enabled\<close>; the new bytes are read as the same document with the same
  keys in the same order and only \<open>enabled\<close> changed, so that the identity is the same; the permission
  bits are kept. Every other name of the directory, the temporary one included, shows what it showed.
\<close>

theorem enabled_change_is_exact:
  assumes "file_set_enabled C suffix i b m = (Inr True, m')" and "\<And>p. undisturbed p m"
    and "float_texts (cc_float_text C)"
  shows "\<exists>name original k payload document.
    look (mc_files m) (Top name) = Some (Regular original k) \<and>
    document_of (cc_float_text C) original = Some document \<and>
    identity_of (cc_hexdigest C) document = Some i \<and> map_of document ''enabled'' = Some (JBool (\<not> b)) \<and>
    look (mc_files m') (Top name) = Some (Regular payload (k mod 512)) \<and>
    document_of (cc_float_text C) payload = Some (AList.update ''enabled'' (JBool b) document) \<and>
    identity_of (cc_hexdigest C) (AList.update ''enabled'' (JBool b) document) = Some i \<and>
    (\<forall>p. p \<noteq> Top name \<longrightarrow> look (mc_files m') p = look (mc_files m) p)"
proof -
  let ?h = "holds (mc_files m)"
  from assms(1) obtain d m1 where d: "catalog_deployment C (EnabledFileChangeError DeploymentFileWriteFailed) i m = (Inr d, m1)"
    and run: "rewrite_enabled C suffix i b d m1 = (Inr True, m')"
    by (auto simp: file_set_enabled_def bindp_apply split: prod.splits sum.splits)
  define name where "name = ds_source_path d"
  let ?p = "Top name" and ?temp = "temporary_path name suffix"
  have start: "kept_all H m1" if "\<And>p x. (p, x) \<in> set H \<Longrightarrow> x = ?h p" for H
    by (rule tripleD_Inr [OF frame_catalog_deployment _ d])
      (use that assms(2) in \<open>auto simp: kept_all_def kept_def\<close>)
  have "kept_all [(?temp, ?h ?temp), (?p, ?h ?p)] m1" by (rule start) auto
  from tripleD_Inr [OF rewrite_enabled_content [OF name_def [symmetric]] this run]
  obtain n0 original k payload n where x: "?h ?p = Some (n0, Regular original k)" and temp: "?h ?temp = None"
    and pay: "enabled_payload C i b original = Inr (Some payload)"
    and m': "kept_all [(?temp, None), (?p, Some (n, Regular payload (k mod 512)))] m'" by auto
  have other: "holds (mc_files m') p = ?h p" if "p \<noteq> ?p" for p
  proof (cases "p = ?temp")
    case False
    with that have "frame [(p, ?h p)] (replace_file ?p ?temp original payload k)" for original payload k
      by (intro frame_replace_file) auto
    then have "frame [(p, ?h p)] (rewrite_enabled C suffix i b d)"
      unfolding rewrite_enabled_def Let_def name_def by (auto intro!: frame_rules frame_option frame_sync split: prod.splits)
    from tripleD_Inr [OF this _ run] start [of "[(p, ?h p)]"] show ?thesis by (simp add: kept_def)
  qed (use m' temp in \<open>simp add: kept_def\<close>)
  from assms(3) pay obtain document where "document_of (cc_float_text C) original = Some document"
    and "identity_of (cc_hexdigest C) document = Some i" and "map_of document ''enabled'' = Some (JBool (\<not> b))"
    and "document_of (cc_float_text C) payload = Some (AList.update ''enabled'' (JBool b) document)"
    and "identity_of (cc_hexdigest C) (AList.update ''enabled'' (JBool b) document) = Some i"
    by (rule enabled_payload_exact)
  with x m' other show ?thesis
    by (intro exI [of _ name] exI [of _ original] exI [of _ k] exI [of _ payload] exI [of _ document])
      (simp add: look_holds kept_def)
qed

theorem enabled_change_is_exact_witness:
  "\<exists>m' payload. file_set_enabled ex_disk_catalog ''1-a'' ex_id False (ex_machine []) = (Inr True, m') \<and>
     look (mc_files m') (Top ''a.json'') = Some (Regular payload 420) \<and>
     document_of ex_float payload = Some (AList.update ''enabled'' (JBool False) (ex_object True))"
proof -
  obtain m' where run: "file_set_enabled ex_disk_catalog ''1-a'' ex_id False (ex_machine []) = (Inr True, m')"
    using ex_disabled by blast
  have ft: "float_texts (cc_float_text ex_disk_catalog)" by (simp add: ex_disk_catalog_def ex_float_texts)
  have alone: "undisturbed p (ex_machine [])" for p by (simp add: undisturbed_def)
  from enabled_change_is_exact [OF run alone ft] obtain name original k payload document where
    x: "look ex_files (Top name) = Some (Regular original k)" "document_of (cc_float_text ex_disk_catalog) original = Some document"
      "look (mc_files m') (Top name) = Some (Regular payload (k mod 512))"
      "document_of (cc_float_text ex_disk_catalog) payload = Some (AList.update ''enabled'' (JBool False) document)"
    unfolding ex_machine_simps by blast
  from x(1) have "name = ''a.json''" "original = utf8_encode ex_text" "k = 420"
    by (auto simp: ex_files_def look_def node_of_def split: if_splits)
  with x run ex_document show ?thesis by (auto simp: ex_disk_catalog_def)
qed

section \<open>The trash mover\<close>




end
