(* ===== verification/Chart_Layers.thy ===== *)
theory Chart_Layers
  imports Operator_Control Engine_Wire
begin

text \<open>
  \<open>runtime/chart_layers\<close>: which EMA stack and episode parameters a strategy uses, read from the
  strategy engine's feature plan. The plan is the decoded answer of the feature-plan endpoint; the
  port that asks for it is an argument, with \<open>http_build_feature_plan\<close> as its instance.
\<close>

section \<open>Models\<close>

record EmaStackEntry =
  ese_role :: string
  ese_timeframe :: string
  ese_period :: int
  ese_source :: string

record EpisodeEntry =
  epe_episode_ref :: string
  epe_params :: json_object

record ChartLayers =
  cl_strategy_instance_id :: string
  cl_ema_stack :: "EmaStackEntry list"
  cl_episodes :: "EpisodeEntry list"

definition STACK_ROLES :: "string list" where
  "STACK_ROLES = [''fast'', ''anchor'', ''slow'']"

definition ENGINE_REJECTION_STATUS :: int where
  "ENGINE_REJECTION_STATUS = 422"

section \<open>Reading the plan\<close>

definition plan_mapping :: "json \<Rightarrow> string \<Rightarrow> json_object res" where
  "plan_mapping v name = (case v of JObj d \<Rightarrow> Inr d | _ \<Rightarrow> Inl (TypeError (name @ '' must be an object'')))"

definition plan_sequence :: "json \<Rightarrow> string \<Rightarrow> json list res" where
  "plan_sequence v name = (case v of JArr vs \<Rightarrow> Inr vs | _ \<Rightarrow> Inl (TypeError (name @ '' must be a list'')))"

text \<open>The planned features whose \<open>output_id\<close> is the given one.\<close>

fun feature_matches :: "string \<Rightarrow> json \<Rightarrow> json_object option" where
  "feature_matches output_id (JObj d) = (if map_of d ''output_id'' = Some (JStr output_id) then Some d else None)"
| "feature_matches output_id v = None"

definition positive_period :: "json \<Rightarrow> int res" where
  "positive_period period =
     (case period of
        JInt n \<Rightarrow> if n < 1 then Inl (ValueError ''period must be a positive integer'') else Inr n
      | _ \<Rightarrow> Inl (ValueError ''period must be a positive integer''))"

definition both_strings :: "json \<Rightarrow> json \<Rightarrow> (string \<times> string) res" where
  "both_strings timeframe source =
     (case (timeframe, source) of
        (JStr timeframe, JStr source) \<Rightarrow> Inr (timeframe, source)
      | _ \<Rightarrow> Inl (TypeError ''timeframe and source must be strings''))"

text \<open>The body of the loop once the one feature of a role is found.\<close>

definition feature_entry :: "string \<Rightarrow> json_object \<Rightarrow> EmaStackEntry res" where
  "feature_entry role feature =
     (if map_of feature ''kind'' \<noteq> Some (JStr ''ema'')
      then Inl (ValueError ''planned feature is not an EMA'')
      else
        res_bind (field feature ''parameters'') (\<lambda>parameters.
        res_bind (plan_mapping parameters ''parameters'') (\<lambda>parameters.
        res_bind (field parameters ''period'') (\<lambda>period.
        res_bind (positive_period period) (\<lambda>period.
        res_bind (field feature ''timeframe'') (\<lambda>timeframe.
        res_bind (field feature ''source'') (\<lambda>source.
        res_bind (both_strings timeframe source) (\<lambda>(timeframe, source).
        Inr \<lparr>ese_role = role, ese_timeframe = timeframe, ese_period = period, ese_source = source\<rparr>))))))))"

definition single_feature :: "string \<Rightarrow> json list \<Rightarrow> json_object res" where
  "single_feature output_id features =
     (case List.map_filter (feature_matches output_id) features of
        [feature] \<Rightarrow> Inr feature
      | _ \<Rightarrow> Inl (ValueError ''no single planned feature''))"

definition stack_entry :: "json_object \<Rightarrow> json list \<Rightarrow> string \<Rightarrow> EmaStackEntry res" where
  "stack_entry anchor_columns features role =
     res_bind (field anchor_columns role) (\<lambda>output_id.
     res_bind (wire_string output_id ''anchor_columns value'') (\<lambda>output_id.
     res_bind (single_feature output_id features) (\<lambda>feature.
     feature_entry role feature)))"

definition ema_stack :: "json_object \<Rightarrow> EmaStackEntry list res" where
  "ema_stack plan =
     res_bind (field plan ''anchor_columns'') (\<lambda>v.
     res_bind (plan_mapping v ''anchor_columns'') (\<lambda>anchor_columns.
     res_bind (field plan ''features'') (\<lambda>v.
     res_bind (plan_sequence v ''features'') (\<lambda>features.
     res_map (stack_entry anchor_columns features) STACK_ROLES))))"

definition episode_entry :: "string \<times> json \<Rightarrow> EpisodeEntry res" where
  "episode_entry binding =
     (case binding of (ref, params) \<Rightarrow>
        res_bind (plan_mapping params ''episode params'') (\<lambda>values.
        Inr \<lparr>epe_episode_ref = ref, epe_params = values\<rparr>))"

definition episodes :: "json_object \<Rightarrow> EpisodeEntry list res" where
  "episodes plan =
     (case map_of plan ''episode_params_by_ref'' of
        None \<Rightarrow> Inr []
      | Some JNull \<Rightarrow> Inr []
      | Some raw \<Rightarrow>
          res_bind (plan_mapping raw ''episode_params_by_ref'') (\<lambda>by_ref.
          res_map episode_entry by_ref))"

section \<open>The service\<close>

type_synonym 'e feature_plan = "string \<Rightarrow> json_object \<Rightarrow> 'e \<Rightarrow> json_object res \<times> 'e"

definition build_plan :: "'e feature_plan \<Rightarrow> DeploymentSpecification \<Rightarrow> (('r, 'e) world, json_object) prog" where
  "build_plan feature_plan deployment =
     (\<lambda>w. case feature_plan (ds_strategy_id deployment) (ds_raw_spec deployment) (w_env w) of
            (x, e) \<Rightarrow> (x, w\<lparr>w_env := e\<rparr>))"

definition engine_refusal :: "exn \<Rightarrow> ('w, 'a) prog" where
  "engine_refusal exc =
     (case exc of
        StrategyProjectionError (StrategyEngineProjectionPublicError status code message) \<Rightarrow>
          if status = ENGINE_REJECTION_STATUS then raise (EnabledControlRefused (EngineRejected code message))
          else raise (EnabledControlRefused EngineUnavailable)
      | StrategyProjectionError StrategyEngineProjectionTimeout \<Rightarrow> raise (EnabledControlRefused EngineUnavailable)
      | StrategyProjectionError StrategyEngineProjectionNetworkFailure \<Rightarrow> raise (EnabledControlRefused EngineUnavailable)
      | StrategyProjectionError StrategyEngineProjectionProtocolError \<Rightarrow> raise (EnabledControlRefused EngineUnavailable)
      | _ \<Rightarrow> raise exc)"

definition read_layers :: "string \<Rightarrow> json_object \<Rightarrow> ChartLayers res" where
  "read_layers strategy_instance_id plan =
     guarded (EnabledControlRefused EngineUnavailable)
       (res_bind (ema_stack plan) (\<lambda>stack.
        res_bind (episodes plan) (\<lambda>eps.
        Inr \<lparr>cl_strategy_instance_id = strategy_instance_id, cl_ema_stack = stack, cl_episodes = eps\<rparr>)))"

definition get_chart_layers :: "'e ports \<Rightarrow> 'e feature_plan \<Rightarrow> string \<Rightarrow> (('r, 'e) world, ChartLayers) prog" where
  "get_chart_layers P feature_plan strategy_instance_id =
     bindp (deployment_in_catalog P strategy_instance_id) (\<lambda>deployment.
     bindp (catchp (build_plan feature_plan deployment) engine_refusal) (\<lambda>plan.
     lift_res (read_layers strategy_instance_id plan)))"

section \<open>The stack, declaratively\<close>

text \<open>What the service promises: the entry of a role is the one planned feature that the plan's own
  mapping names for the role, and that feature is an EMA of a positive period.\<close>

definition planned_features :: "json_object \<Rightarrow> json multiset" where
  "planned_features plan = (case map_of plan ''features'' of Some (JArr fs) \<Rightarrow> mset fs | _ \<Rightarrow> {#})"

definition planned_ema :: "json_object \<Rightarrow> string \<Rightarrow> EmaStackEntry \<Rightarrow> bool" where
  "planned_ema plan role entry \<longleftrightarrow>
     (\<exists>columns features output_id feature parameters.
        map_of plan ''anchor_columns'' = Some (JObj columns) \<and> map_of plan ''features'' = Some (JArr features) \<and>
        map_of columns role = Some (JStr output_id) \<and>
        filter_mset (\<lambda>f. feature_matches output_id f \<noteq> None) (planned_features plan) = {#JObj feature#} \<and>
        map_of feature ''kind'' = Some (JStr ''ema'') \<and>
        map_of feature ''parameters'' = Some (JObj parameters) \<and>
        map_of parameters ''period'' = Some (JInt (ese_period entry)) \<and> 1 \<le> ese_period entry \<and>
        map_of feature ''timeframe'' = Some (JStr (ese_timeframe entry)) \<and>
        map_of feature ''source'' = Some (JStr (ese_source entry)) \<and> ese_role entry = role)"

lemma field_Inr [simp]: "field d k = Inr v \<longleftrightarrow> map_of d k = Some v"
  by (simp add: field_def split: option.splits)

lemma plan_shape [simp]:
  "plan_mapping v name = Inr d \<longleftrightarrow> v = JObj d"
  "plan_sequence v name = Inr vs \<longleftrightarrow> v = JArr vs"
  "positive_period v = Inr n \<longleftrightarrow> v = JInt n \<and> 1 \<le> n"
  "both_strings v u = Inr x \<longleftrightarrow> v = JStr (fst x) \<and> u = JStr (snd x)"
  by (auto simp: plan_mapping_def plan_sequence_def positive_period_def both_strings_def split: json.splits)

lemma feature_matches_object: "feature_matches output_id f = Some d \<longleftrightarrow>
    f = JObj d \<and> map_of d ''output_id'' = Some (JStr output_id)"
  by (cases f) auto

lemma matching_feature:
  "List.map_filter (feature_matches output_id) fs = [d] \<longleftrightarrow>
     filter_mset (\<lambda>f. feature_matches output_id f \<noteq> None) (mset fs) = {#JObj d#}"
proof -
  let ?P = "\<lambda>f. feature_matches output_id f \<noteq> None"
  have "List.map_filter (feature_matches output_id) fs = map (the \<circ> feature_matches output_id) (filter ?P fs)"
    by (simp add: List.map_filter_def)
  moreover have "map (the \<circ> feature_matches output_id) (filter ?P fs) = [d] \<longleftrightarrow> filter ?P fs = [JObj d]"
  proof
    assume *: "map (the \<circ> feature_matches output_id) (filter ?P fs) = [d]"
    then obtain f where f: "filter ?P fs = [f]" by (auto simp: map_eq_Cons_conv)
    then have "?P f" using filter_eq_ConsD [of ?P] by fastforce
    with * f show "filter ?P fs = [JObj d]" by (auto simp: feature_matches_object)
  next
    assume *: "filter ?P fs = [JObj d]"
    then have "?P (JObj d)" using filter_eq_ConsD [of ?P] by fastforce
    with * show "map (the \<circ> feature_matches output_id) (filter ?P fs) = [d]"
      by (auto split: if_splits)
  qed
  ultimately show ?thesis by (simp flip: mset_filter)
qed

lemma single_feature_Inr:
  "single_feature output_id fs = Inr d \<longleftrightarrow>
     filter_mset (\<lambda>f. feature_matches output_id f \<noteq> None) (mset fs) = {#JObj d#}"
  unfolding matching_feature [symmetric] by (simp add: single_feature_def split: list.splits)

lemma feature_entry_Inr:
  "feature_entry role feature = Inr entry \<longleftrightarrow>
     map_of feature ''kind'' = Some (JStr ''ema'') \<and> ese_role entry = role \<and> 1 \<le> ese_period entry \<and>
     (\<exists>parameters. map_of feature ''parameters'' = Some (JObj parameters) \<and>
        map_of parameters ''period'' = Some (JInt (ese_period entry))) \<and>
     map_of feature ''timeframe'' = Some (JStr (ese_timeframe entry)) \<and>
     map_of feature ''source'' = Some (JStr (ese_source entry))"
  by (cases entry) (auto simp: feature_entry_def res_bind_eq_Inr)

lemma stack_entry_planned:
  assumes "map_of plan ''anchor_columns'' = Some (JObj columns)" and "map_of plan ''features'' = Some (JArr features)"
  shows "stack_entry columns features role = Inr entry \<longleftrightarrow> planned_ema plan role entry"
  using assms
  by (auto simp: stack_entry_def planned_ema_def planned_features_def res_bind_eq_Inr single_feature_Inr feature_entry_Inr)

lemma res_map_planned:
  assumes "\<And>r e. f r = Inr e \<longleftrightarrow> Q r e"
  shows "res_map f rs = Inr es \<longleftrightarrow> list_all2 Q rs es"
proof (induction rs arbitrary: es)
  case (Cons r rs)
  then show ?case using assms by (cases es) (auto simp: res_bind_eq_Inr)
qed auto

lemma ema_stack_planned: "ema_stack plan = Inr stack \<longleftrightarrow> list_all2 (planned_ema plan) STACK_ROLES stack"
proof
  assume "ema_stack plan = Inr stack"
  then obtain columns features where
    p: "map_of plan ''anchor_columns'' = Some (JObj columns)" "map_of plan ''features'' = Some (JArr features)"
      "res_map (stack_entry columns features) STACK_ROLES = Inr stack"
    by (auto simp: ema_stack_def res_bind_eq_Inr)
  then show "list_all2 (planned_ema plan) STACK_ROLES stack"
    by (simp add: res_map_planned [OF stack_entry_planned [OF p(1,2)]])
next
  assume *: "list_all2 (planned_ema plan) STACK_ROLES stack"
  then obtain columns features where
    p: "map_of plan ''anchor_columns'' = Some (JObj columns)" "map_of plan ''features'' = Some (JArr features)"
    by (auto simp: STACK_ROLES_def list_all2_Cons1 planned_ema_def)
  with * show "ema_stack plan = Inr stack"
    by (simp add: ema_stack_def field_def plan_mapping_def plan_sequence_def
        res_map_planned [OF stack_entry_planned [OF p]])
qed

text \<open>The order in which the plan lists its features does not matter.\<close>

lemma planned_ema_order:
  assumes "map_of plan ''anchor_columns'' = map_of plan' ''anchor_columns''"
    and "map_of plan ''features'' = Some (JArr fs)" and "map_of plan' ''features'' = Some (JArr fs')"
    and "mset fs = mset fs'"
  shows "planned_ema plan = planned_ema plan'"
  using assms by (simp add: planned_ema_def planned_features_def fun_eq_iff)

section \<open>Refusals\<close>

lemma plan_raises_caught [caught_rules]:
  "raises_caught (plan_mapping v name)" "raises_caught (plan_sequence v name)"
  "raises_caught (positive_period v)" "raises_caught (both_strings v u)"
  by (auto simp: plan_mapping_def plan_sequence_def positive_period_def both_strings_def split: json.splits)

lemma stack_entry_caught [caught_rules]: "raises_caught (stack_entry columns features role)"
  unfolding stack_entry_def feature_entry_def single_feature_def
  by (auto intro!: caught_rules split: prod.splits list.splits)

lemma ema_stack_caught [caught_rules]: "raises_caught (ema_stack plan)"
  unfolding ema_stack_def by (intro caught_rules)

lemma episodes_caught [caught_rules]: "raises_caught (episodes plan)"
  unfolding episodes_def episode_entry_def by (auto intro!: caught_rules split: option.splits json.splits)

lemma read_layers_error: "read_layers i plan = Inl e \<Longrightarrow> e = EnabledControlRefused EngineUnavailable"
  unfolding read_layers_def by (erule guarded_error) (intro caught_rules)

lemma engine_refusal_simps [simp]:
  "engine_refusal engine_protocol_error = raise (EnabledControlRefused EngineUnavailable)"
  "engine_refusal (StrategyProjectionError StrategyEngineProjectionTimeout) = raise (EnabledControlRefused EngineUnavailable)"
  "engine_refusal (StrategyProjectionError StrategyEngineProjectionNetworkFailure) = raise (EnabledControlRefused EngineUnavailable)"
  "engine_refusal (StrategyProjectionError (StrategyEngineProjectionPublicError status code message)) =
     raise (EnabledControlRefused (if status = ENGINE_REJECTION_STATUS then EngineRejected code message else EngineUnavailable))"
  by (simp_all add: engine_refusal_def)

lemma feature_plan_error:
  assumes "fst (http_build_feature_plan ft engine i raw e) = Inl x"
  shows "\<exists>y. engine_refusal x = raise (EnabledControlRefused y) \<and> (y = EngineUnavailable \<or> (\<exists>c m. y = EngineRejected c m))"
proof -
  have "decode_feature_plan_response ft r = Inl x \<Longrightarrow> x = engine_protocol_error \<or>
      (\<exists>code message. x = StrategyProjectionError (StrategyEngineProjectionPublicError (hr_status_code r) code message))" for r
    unfolding decode_feature_plan_response_def by (drule engine_response_error) (auto split: json.splits)
  with assms consider "x = engine_protocol_error" | "x = StrategyProjectionError StrategyEngineProjectionTimeout"
    | "x = StrategyProjectionError StrategyEngineProjectionNetworkFailure"
    | status code message where "x = StrategyProjectionError (StrategyEngineProjectionPublicError status code message)"
    by (auto simp: http_build_feature_plan_def engine_send_def attempt_request_def bindp_def lift_res_def
        split: prod.splits sum.splits transport_failure.splits)
  then show ?thesis by cases auto
qed

lemma chart_layers_error:
  fixes w :: "('r, 'e) world"
  assumes "get_chart_layers P (http_build_feature_plan ft engine) i w = (Inl e, w')"
  shows "(\<exists>w1. deployment_in_catalog P i w = (Inl e, w1)) \<or> e = EnabledControlRefused EngineUnavailable \<or>
    (\<exists>code message. e = EnabledControlRefused (EngineRejected code message))"
proof -
  obtain x w1 where d: "deployment_in_catalog P i w = (x, w1)" by (cases "deployment_in_catalog P i w")
  show ?thesis
  proof (cases x)
    case (Inl e1)
    with d assms show ?thesis by (simp add: get_chart_layers_def bindp_def)
  next
    case (Inr spec)
    let ?raw = "http_build_feature_plan ft engine (ds_strategy_id spec) (ds_raw_spec spec) (w_env w1)"
    show ?thesis
    proof (cases "fst ?raw")
      case raised: (Inl y)
      obtain z where "(engine_refusal y :: (('r, 'e) world, json_object) prog) = raise (EnabledControlRefused z)"
          "z = EngineUnavailable \<or> (\<exists>c m. z = EngineRejected c m)"
        by (rule exE [OF feature_plan_error [OF raised]]) blast
      with raised d Inr assms show ?thesis
        by (cases ?raw) (auto simp: get_chart_layers_def bindp_def catchp_def build_plan_def raise_def)
    next
      case answered: (Inr plan)
      with d Inr assms show ?thesis
        by (cases ?raw) (auto simp: get_chart_layers_def bindp_def catchp_def build_plan_def lift_res_def dest: read_layers_error)
    qed
  qed
qed

end
