(* ===== verification/Http_App.thy ===== *)
theory Http_App
  imports System Chart_Layers
begin

text \<open>
  \<open>adapters/http\<close>: the request and response models (\<open>models.py\<close>) and the handlers of the FastAPI
  application (\<open>app.py\<close>).

  The web framework finds the route and decodes the body; the validation library checks the fields of
  a request model. Both are outside the repository. A request is the route with its path parameters and
  the decoded body (\<open>None\<close> when the body is no JSON text), and the library's conversions of a JSON value
  to a field type are a record of functions, an argument of the definitions, whose documented behaviour
  is the predicate \<open>strict_mode\<close>. Log messages are not modelled.
\<close>

section \<open>Field types\<close>

text \<open>The validation of one value as \<open>str\<close>, \<open>int\<close> and \<open>bool\<close> in strict mode, and as \<open>int\<close> in the default
  mode, which the response models use.\<close>

record validation =
  vl_str :: "json \<Rightarrow> string option"
  vl_int :: "json \<Rightarrow> int option"
  vl_bool :: "json \<Rightarrow> bool option"
  vl_lax_int :: "json \<Rightarrow> int option"

fun json_str :: "json \<Rightarrow> string option" where
  "json_str (JStr s) = Some s"
| "json_str v = None"

fun json_int :: "json \<Rightarrow> int option" where
  "json_int (JInt n) = Some n"
| "json_int v = None"

fun json_bool :: "json \<Rightarrow> bool option" where
  "json_bool (JBool b) = Some b"
| "json_bool v = None"

text \<open>Strict mode converts nothing; the default mode keeps an integer and refuses \<open>null\<close>.\<close>

definition strict_mode :: "validation \<Rightarrow> bool" where
  "strict_mode V \<longleftrightarrow> vl_str V = json_str \<and> vl_int V = json_int \<and> vl_bool V = json_bool \<and>
     (\<forall>n. vl_lax_int V (JInt n) = Some n) \<and> vl_lax_int V JNull = None"

section \<open>Requests\<close>

record ClosedBarRequest =
  cbq_instrument :: string
  cbq_timeframe :: string
  cbq_open_time_ms :: int

record FirstFillRequest =
  ffq_first_fill_at_ms :: int

record EnabledRequest =
  enq_enabled :: bool

definition model_field :: "(json \<Rightarrow> 'a option) \<Rightarrow> json_object \<Rightarrow> string \<Rightarrow> 'a option" where
  "model_field conv d name = Option.bind (map_of d name) conv"

text \<open>\<open>extra="forbid"\<close>.\<close>

definition no_extra :: "json_object \<Rightarrow> string list \<Rightarrow> bool" where
  "no_extra d names \<longleftrightarrow> list_all (\<lambda>k. k \<in> set names) (map fst d)"

definition require_non_empty_string :: "string \<Rightarrow> string option" where
  "require_non_empty_string v = (if nonblank v then Some v else None)"

fun validate_ClosedBarRequest :: "validation \<Rightarrow> json \<Rightarrow> ClosedBarRequest option" where
  "validate_ClosedBarRequest V (JObj d) =
     Option.bind (Option.bind (model_field (vl_str V) d ''instrument'') require_non_empty_string) (\<lambda>instrument.
     Option.bind (Option.bind (model_field (vl_str V) d ''timeframe'') require_non_empty_string) (\<lambda>timeframe.
     Option.bind (model_field (vl_int V) d ''open_time_ms'') (\<lambda>open_time_ms.
     if open_time_ms < 0 then None
     else Some \<lparr>cbq_instrument = instrument, cbq_timeframe = timeframe, cbq_open_time_ms = open_time_ms\<rparr>)))"
| "validate_ClosedBarRequest V v = None"

fun validate_FirstFillRequest :: "validation \<Rightarrow> json \<Rightarrow> FirstFillRequest option" where
  "validate_FirstFillRequest V (JObj d) =
     (if \<not> no_extra d [''first_fill_at_ms''] then None
      else Option.bind (model_field (vl_int V) d ''first_fill_at_ms'') (\<lambda>n.
        if n \<le> 0 then None else Some \<lparr>ffq_first_fill_at_ms = n\<rparr>))"
| "validate_FirstFillRequest V v = None"

fun validate_EnabledRequest :: "validation \<Rightarrow> json \<Rightarrow> EnabledRequest option" where
  "validate_EnabledRequest V (JObj d) =
     (if \<not> no_extra d [''enabled''] then None
      else Option.bind (model_field (vl_bool V) d ''enabled'') (\<lambda>b. Some \<lparr>enq_enabled = b\<rparr>))"
| "validate_EnabledRequest V v = None"

section \<open>Responses\<close>

record http_answer =
  ans_status :: int
  ans_body :: json

definition status_body :: "string \<Rightarrow> json" where
  "status_body s = JObj [(''status'', JStr s)]"

definition AcceptedResponse :: json where "AcceptedResponse = status_body ''accepted''"

definition LiveResponse :: json where "LiveResponse = status_body ''live''"

definition ReadyResponse :: json where "ReadyResponse = status_body ''ready''"

definition NotReadyResponse :: json where "NotReadyResponse = status_body ''not_ready''"

definition RejectedResponse :: json where
  "RejectedResponse = JObj [(''status'', JStr ''rejected''), (''reason'', JStr ''invalid_webhook'')]"

definition FirstFillRecordedResponse :: json where
  "FirstFillRecordedResponse = status_body ''first_fill_recorded''"

definition StrategyInstanceStateNotFoundResponse :: json where
  "StrategyInstanceStateNotFoundResponse = status_body ''strategy_instance_state_not_found''"

definition FirstFillConflictResponse :: json where
  "FirstFillConflictResponse = status_body ''first_fill_conflict''"

definition InternalErrorResponse :: json where "InternalErrorResponse = status_body ''internal_error''"

definition CatalogUnavailableResponse :: json where
  "CatalogUnavailableResponse = status_body ''catalog_unavailable''"

definition StateUnavailableResponse :: json where "StateUnavailableResponse = status_body ''state_unavailable''"

definition json_opt :: "('a \<Rightarrow> json) \<Rightarrow> 'a option \<Rightarrow> json" where
  "json_opt f v = (case v of None \<Rightarrow> JNull | Some x \<Rightarrow> f x)"

definition StrategyInstanceItem :: "DeploymentSpecification \<Rightarrow> json" where
  "StrategyInstanceItem d =
     JObj [(''strategy_instance_id'', JStr (ds_strategy_instance_id d)), (''strategy_id'', JStr (ds_strategy_id d)),
           (''instrument'', JStr (ds_instrument d)), (''base_timeframe'', JStr (ds_base_timeframe d)),
           (''enabled'', JBool (ds_enabled d)), (''source_path'', JStr (ds_source_path d))]"

definition InvalidDeploymentFileItem :: "InvalidDeploymentFile \<Rightarrow> json" where
  "InvalidDeploymentFileItem f =
     JObj [(''source_path'', JStr (idf_source_path f)), (''error_code'', JStr (idf_error_code f)),
           (''error_message'', json_opt JStr (idf_error_message f))]"

definition DuplicateDeploymentIdentityItem :: "DuplicateDeploymentIdentity \<Rightarrow> json" where
  "DuplicateDeploymentIdentityItem d =
     JObj [(''strategy_instance_id'', JStr (ddi_strategy_instance_id d)),
           (''source_paths'', JArr (map JStr (ddi_source_paths d)))]"

definition StrategyInstanceListResponse :: "DeploymentCatalogSnapshot \<Rightarrow> json" where
  "StrategyInstanceListResponse s =
     JObj [(''scanned_file_count'', JInt (dcs_scanned_file_count s)),
           (''strategy_instances'', JArr (map StrategyInstanceItem (dcs_accepted_deployments s))),
           (''invalid_files'', JArr (map InvalidDeploymentFileItem (dcs_invalid_files s))),
           (''duplicate_identities'', JArr (map DuplicateDeploymentIdentityItem (dcs_duplicate_identities s)))]"

fun trade_state_text :: "TradeState \<Rightarrow> string" where
  "trade_state_text FLAT = ''flat''"
| "trade_state_text ENTRY_PENDING = ''entry_pending''"
| "trade_state_text IN_POSITION = ''in_position''"

fun recovery_pending_text :: "RecoveryPendingKind \<Rightarrow> string" where
  "recovery_pending_text EntryRecovery = ''entry''"
| "recovery_pending_text CloseRecovery = ''close''"

definition StrategyInstanceStateItem :: "StrategyInstanceTradingState \<Rightarrow> json" where
  "StrategyInstanceStateItem t =
     JObj [(''strategy_instance_id'', JStr (ts_strategy_instance_id t)),
           (''trade_state'', JStr (trade_state_text (ts_trade_state t))),
           (''trade_cycle_id'', json_opt JStr (ts_trade_cycle_id t)), (''side'', json_opt JStr (ts_side t)),
           (''first_fill_at_ms'', json_opt JInt (ts_first_fill_at_ms t)),
           (''recovery_pending'', json_opt (\<lambda>k. JStr (recovery_pending_text k)) (ts_recovery_pending t))]"

definition StrategyInstanceStateListResponse :: "StrategyInstanceTradingState list \<Rightarrow> json" where
  "StrategyInstanceStateListResponse ts = JObj [(''strategy_instances'', JArr (map StrategyInstanceStateItem ts))]"

definition EnabledChangedResponse :: "EnabledChangeResult \<Rightarrow> json" where
  "EnabledChangedResponse r =
     JObj [(''strategy_instance_id'', JStr (ecr_strategy_instance_id r)), (''enabled'', JBool (ecr_enabled r)),
           (''cancelled_entry_order'', JBool (ecr_cancelled_entry_order r))]"

definition EnabledChangeRefusedResponse :: "string \<Rightarrow> json" where
  "EnabledChangeRefusedResponse reason = JObj [(''status'', JStr ''enabled_change_refused''), (''reason'', JStr reason)]"

definition DeletedResponse :: "DeleteResult \<Rightarrow> json" where
  "DeletedResponse r =
     JObj [(''strategy_instance_id'', JStr (dr_strategy_instance_id r)), (''deleted'', JBool True),
           (''cancelled_entry_order'', JBool (dr_cancelled_entry_order r)), (''trash_file'', JStr (dr_trash_file r))]"

definition DeleteRefusedResponse :: "string \<Rightarrow> json" where
  "DeleteRefusedResponse reason = JObj [(''status'', JStr ''delete_refused''), (''reason'', JStr reason)]"

definition ClosePositionResponse :: "ClosePositionResult \<Rightarrow> json" where
  "ClosePositionResponse r =
     JObj [(''strategy_instance_id'', JStr (cpr_strategy_instance_id r)),
           (''trade_cycle_id'', JStr (cpr_trade_cycle_id r)), (''enabled'', JBool False),
           (''closure_reason'', json_opt JStr (cpr_closure_reason r))]"

definition CancelEntryOrdersResponse :: "CancelEntryOrdersResult \<Rightarrow> json" where
  "CancelEntryOrdersResponse r =
     JObj [(''strategy_instance_id'', JStr (ceo_strategy_instance_id r)), (''enabled'', JBool False),
           (''cancelled_entry_order'', JBool (ceo_cancelled_entry_order r))]"

definition EmaStackEntryItem :: "EmaStackEntry \<Rightarrow> json" where
  "EmaStackEntryItem e =
     JObj [(''role'', JStr (ese_role e)), (''timeframe'', JStr (ese_timeframe e)),
           (''period'', JInt (ese_period e)), (''source'', JStr (ese_source e))]"

text \<open>\<open>params: dict[str, int]\<close>: the constructor of the item validates every value, and raises the library's
  \<open>ValidationError\<close>, a \<open>ValueError\<close>, when one is no integer.\<close>

definition EpisodeEntryItem :: "validation \<Rightarrow> EpisodeEntry \<Rightarrow> json res" where
  "EpisodeEntryItem V e =
     res_bind (res_map (\<lambda>(k, v). case vl_lax_int V v of
                            None \<Rightarrow> Inl (ValueError ''params must hold integers'')
                          | Some n \<Rightarrow> Inr (k, JInt n)) (epe_params e)) (\<lambda>params.
     Inr (JObj [(''episode_ref'', JStr (epe_episode_ref e)), (''params'', JObj params)]))"

definition ChartLayersResponse :: "validation \<Rightarrow> ChartLayers \<Rightarrow> json res" where
  "ChartLayersResponse V layers =
     res_bind (res_map (EpisodeEntryItem V) (cl_episodes layers)) (\<lambda>eps.
     Inr (JObj [(''strategy_instance_id'', JStr (cl_strategy_instance_id layers)),
                (''ema_stack'', JArr (map EmaStackEntryItem (cl_ema_stack layers))),
                (''episodes'', JArr eps)]))"

text \<open>\<open>model_dump(exclude_none=True)\<close>.\<close>

definition ChartLayersRefusedResponse :: "string \<Rightarrow> (string \<times> string) option \<Rightarrow> json" where
  "ChartLayersRefusedResponse reason engine =
     JObj ([(''status'', JStr ''chart_layers_refused''), (''reason'', JStr reason)] @
       (case engine of None \<Rightarrow> []
        | Some (code, message) \<Rightarrow> [(''engine_code'', JStr code), (''engine_message'', JStr message)]))"

text \<open>\<open>status_code\<close> and \<open>reason\<close> of the refusals.\<close>

fun refusal_status_code :: "refusal \<Rightarrow> int" where
  "refusal_status_code StrategyInstanceNotFound = 404"
| "refusal_status_code InstanceBusy = 503"
| "refusal_status_code RecoveryPending = 409"
| "refusal_status_code PositionOpen = 409"
| "refusal_status_code CycleNotSettled = 409"
| "refusal_status_code CancelNotConfirmed = 409"
| "refusal_status_code AbiUnavailable = 502"
| "refusal_status_code FileChanged = 409"
| "refusal_status_code IdentityChanged = 500"
| "refusal_status_code WriteFailed = 500"
| "refusal_status_code CatalogUnavailable = 503"
| "refusal_status_code NoPosition = 409"
| "refusal_status_code StillEnabled = 409"
| "refusal_status_code TrashNameTaken = 409"
| "refusal_status_code MoveFailed = 500"
| "refusal_status_code EngineUnavailable = 502"
| "refusal_status_code (EngineRejected code message) = 422"

fun refusal_reason :: "refusal \<Rightarrow> string" where
  "refusal_reason StrategyInstanceNotFound = ''strategy_instance_not_found''"
| "refusal_reason InstanceBusy = ''instance_busy''"
| "refusal_reason RecoveryPending = ''recovery_pending''"
| "refusal_reason PositionOpen = ''position_open''"
| "refusal_reason CycleNotSettled = ''cycle_not_settled''"
| "refusal_reason CancelNotConfirmed = ''cancel_not_confirmed''"
| "refusal_reason AbiUnavailable = ''abi_unavailable''"
| "refusal_reason FileChanged = ''file_changed''"
| "refusal_reason IdentityChanged = ''identity_changed''"
| "refusal_reason WriteFailed = ''write_failed''"
| "refusal_reason CatalogUnavailable = ''catalog_unavailable''"
| "refusal_reason NoPosition = ''no_position''"
| "refusal_reason StillEnabled = ''still_enabled''"
| "refusal_reason TrashNameTaken = ''trash_name_taken''"
| "refusal_reason MoveFailed = ''move_failed''"
| "refusal_reason EngineUnavailable = ''engine_unavailable''"
| "refusal_reason (EngineRejected code message) = ''engine_rejected''"

fun rejected_engine :: "refusal \<Rightarrow> (string \<times> string) option" where
  "rejected_engine (EngineRejected code message) = Some (code, message)"
| "rejected_engine r = None"

section \<open>The application\<close>

text \<open>\<open>app.state\<close>: the use cases a handler calls, each possibly absent. The intake boundary is shared
  mutable state, so the record says whether it is there and the server's state holds it.\<close>

record ('r, 'e) http_app =
  app_ready :: bool
  app_committed_bar_intake :: bool
  app_process_first_fill :: "(AbiFirstFillExecutionEvent \<Rightarrow> (('r, 'e) world, state) prog) option"
  app_load_deployment_catalog :: "(('r, 'e) world, DeploymentCatalogSnapshot) prog option"
  app_set_strategy_enabled :: "(string \<Rightarrow> bool \<Rightarrow> (('r, 'e) world, EnabledChangeResult) prog) option"
  app_delete_strategy :: "(string \<Rightarrow> (('r, 'e) world, DeleteResult) prog) option"
  app_get_chart_layers :: "(string \<Rightarrow> (('r, 'e) world, ChartLayers) prog) option"
  app_list_trading_states :: "(('r, 'e) world, StrategyInstanceTradingState list) prog option"
  app_close_position :: "(string \<Rightarrow> (('r, 'e) world, ClosePositionResult) prog) option"
  app_cancel_entry_orders :: "(string \<Rightarrow> (('r, 'e) world, CancelEntryOrdersResult) prog) option"

record ('r, 'e) server =
  sv_world :: "('r, 'e) world"
  sv_intake :: boundary

type_synonym ('r, 'e) handler = "(('r, 'e) server, http_answer) prog"

definition on_world :: "(('r, 'e) world, 'a) prog \<Rightarrow> (('r, 'e) server, 'a) prog" where
  "on_world m = (\<lambda>s. case m (sv_world s) of (x, w) \<Rightarrow> (x, s\<lparr>sv_world := w\<rparr>))"

definition on_intake :: "(boundary \<Rightarrow> 'a res \<times> boundary) \<Rightarrow> (('r, 'e) server, 'a) prog" where
  "on_intake f = (\<lambda>s. case f (sv_intake s) of (x, b) \<Rightarrow> (x, s\<lparr>sv_intake := b\<rparr>))"

definition answer :: "int \<Rightarrow> json \<Rightarrow> ('r, 'e) handler" where
  "answer status body = ret \<lparr>ans_status = status, ans_body = body\<rparr>"

definition health_live :: "('r, 'e) handler" where
  "health_live = answer 200 LiveResponse"

definition health_ready :: "('r, 'e) http_app \<Rightarrow> ('r, 'e) handler" where
  "health_ready app = (if app_ready app then answer 200 ReadyResponse else answer 503 NotReadyResponse)"

definition closed_bar_webhook :: "('r, 'e) http_app \<Rightarrow> ClosedBarRequest \<Rightarrow> ('r, 'e) handler" where
  "closed_bar_webhook app request =
     (if \<not> app_ready app \<or> \<not> app_committed_bar_intake app then answer 503 NotReadyResponse
      else
        tryp (bindp (lift_res (new_CommittedBarEvent
                \<lparr>cbe_instrument = cbq_instrument request, cbe_timeframe = cbq_timeframe request,
                 cbe_open_time_ms = cbq_open_time_ms request\<rparr>)) (\<lambda>committed_bar.
              on_intake (put_nowait committed_bar)))
          (\<lambda>exc. case exc of
              IntakeNotAccepting \<Rightarrow> answer 503 NotReadyResponse
            | QueueFull \<Rightarrow> answer 503 NotReadyResponse
            | _ \<Rightarrow> answer 500 (status_body ''error''))
          (\<lambda>_. answer 200 AcceptedResponse))"

definition http_first_fill :: "('r, 'e) http_app \<Rightarrow> string \<Rightarrow> string \<Rightarrow> FirstFillRequest \<Rightarrow> ('r, 'e) handler" where
  "http_first_fill app strategy_instance_id trade_cycle_id request =
     (case app_process_first_fill app of
        None \<Rightarrow> answer 503 NotReadyResponse
      | Some use_case \<Rightarrow>
          if \<not> app_ready app then answer 503 NotReadyResponse
          else case new_AbiFirstFillExecutionEvent
                      \<lparr>ffe_strategy_instance_id = strategy_instance_id, ffe_trade_cycle_id = trade_cycle_id,
                       ffe_first_fill_at_ms = ffq_first_fill_at_ms request\<rparr> of
            Inl _ \<Rightarrow> answer 400 RejectedResponse
          | Inr event \<Rightarrow>
              tryp (on_world (use_case event))
                (\<lambda>exc. case exc of
                    StrategyInstanceStateError (StrategyInstanceStateNotFound _) \<Rightarrow>
                      answer 404 StrategyInstanceStateNotFoundResponse
                  | FirstFillInvariantError _ \<Rightarrow> answer 409 FirstFillConflictResponse
                  | _ \<Rightarrow> answer 500 InternalErrorResponse)
                (\<lambda>_. answer 200 FirstFillRecordedResponse))"

definition list_strategy_instances :: "('r, 'e) http_app \<Rightarrow> ('r, 'e) handler" where
  "list_strategy_instances app =
     (case app_load_deployment_catalog app of
        None \<Rightarrow> answer 503 NotReadyResponse
      | Some use_case \<Rightarrow>
          if \<not> app_ready app then answer 503 NotReadyResponse
          else tryp (on_world use_case)
            (\<lambda>exc. case exc of
                DeploymentCatalogUnavailableError \<Rightarrow> answer 503 CatalogUnavailableResponse
              | _ \<Rightarrow> answer 500 InternalErrorResponse)
            (\<lambda>snapshot. answer 200 (StrategyInstanceListResponse snapshot)))"

definition list_strategy_instance_states :: "('r, 'e) http_app \<Rightarrow> ('r, 'e) handler" where
  "list_strategy_instance_states app =
     (case app_list_trading_states app of
        None \<Rightarrow> answer 503 NotReadyResponse
      | Some use_case \<Rightarrow>
          if \<not> app_ready app then answer 503 NotReadyResponse
          else tryp (on_world use_case)
            (\<lambda>exc. case exc of
                TradingStateError TradingStateCatalogUnavailable \<Rightarrow> answer 503 CatalogUnavailableResponse
              | TradingStateError StateUnavailable \<Rightarrow> answer 503 StateUnavailableResponse
              | _ \<Rightarrow> answer 500 InternalErrorResponse)
            (\<lambda>states. answer 200 (StrategyInstanceStateListResponse states)))"

text \<open>What the operator routes share: a refusal is answered with its status and reason, anything else that
  is raised with 500.\<close>

definition operator_errors :: "(refusal \<Rightarrow> json) \<Rightarrow> exn \<Rightarrow> ('r, 'e) handler" where
  "operator_errors refused exc =
     (case exc of
        EnabledControlRefused r \<Rightarrow> answer (refusal_status_code r) (refused r)
      | _ \<Rightarrow> answer 500 InternalErrorResponse)"

definition set_strategy_instance_enabled :: "('r, 'e) http_app \<Rightarrow> string \<Rightarrow> EnabledRequest \<Rightarrow> ('r, 'e) handler" where
  "set_strategy_instance_enabled app strategy_instance_id request =
     (case app_set_strategy_enabled app of
        None \<Rightarrow> answer 503 NotReadyResponse
      | Some use_case \<Rightarrow>
          if \<not> app_ready app then answer 503 NotReadyResponse
          else tryp (on_world (use_case strategy_instance_id (enq_enabled request)))
            (operator_errors (\<lambda>r. EnabledChangeRefusedResponse (refusal_reason r)))
            (\<lambda>result. answer 200 (EnabledChangedResponse result)))"

definition close_strategy_position :: "('r, 'e) http_app \<Rightarrow> string \<Rightarrow> ('r, 'e) handler" where
  "close_strategy_position app strategy_instance_id =
     (case app_close_position app of
        None \<Rightarrow> answer 503 NotReadyResponse
      | Some use_case \<Rightarrow>
          if \<not> app_ready app then answer 503 NotReadyResponse
          else tryp (on_world (use_case strategy_instance_id))
            (operator_errors (\<lambda>r. EnabledChangeRefusedResponse (refusal_reason r)))
            (\<lambda>result. answer 200 (ClosePositionResponse result)))"

definition cancel_strategy_entry_orders :: "('r, 'e) http_app \<Rightarrow> string \<Rightarrow> ('r, 'e) handler" where
  "cancel_strategy_entry_orders app strategy_instance_id =
     (case app_cancel_entry_orders app of
        None \<Rightarrow> answer 503 NotReadyResponse
      | Some use_case \<Rightarrow>
          if \<not> app_ready app then answer 503 NotReadyResponse
          else tryp (on_world (use_case strategy_instance_id))
            (operator_errors (\<lambda>r. EnabledChangeRefusedResponse (refusal_reason r)))
            (\<lambda>result. answer 200 (CancelEntryOrdersResponse result)))"

definition delete_strategy_instance :: "('r, 'e) http_app \<Rightarrow> string \<Rightarrow> ('r, 'e) handler" where
  "delete_strategy_instance app strategy_instance_id =
     (case app_delete_strategy app of
        None \<Rightarrow> answer 503 NotReadyResponse
      | Some use_case \<Rightarrow>
          if \<not> app_ready app then answer 503 NotReadyResponse
          else tryp (on_world (use_case strategy_instance_id))
            (operator_errors (\<lambda>r. DeleteRefusedResponse (refusal_reason r)))
            (\<lambda>result. answer 200 (DeletedResponse result)))"

text \<open>The response is built after the \<open>try\<close> statement: what its constructor raises leaves the handler.\<close>

definition get_strategy_chart_layers :: "validation \<Rightarrow> ('r, 'e) http_app \<Rightarrow> string \<Rightarrow> ('r, 'e) handler" where
  "get_strategy_chart_layers V app strategy_instance_id =
     (case app_get_chart_layers app of
        None \<Rightarrow> answer 503 NotReadyResponse
      | Some use_case \<Rightarrow>
          if \<not> app_ready app then answer 503 NotReadyResponse
          else tryp (on_world (use_case strategy_instance_id))
            (operator_errors (\<lambda>r. ChartLayersRefusedResponse (refusal_reason r) (rejected_engine r)))
            (\<lambda>layers. bindp (lift_res (ChartLayersResponse V layers)) (answer 200)))"

section \<open>Routes\<close>

datatype http_call =
    HealthLive
  | HealthReady
  | ClosedBar "json option"
  | FirstFill string string "json option"
  | ListInstances
  | ListStates
  | SetEnabled string "json option"
  | ClosePosition string
  | CancelEntryOrders string
  | DeleteInstance string
  | ChartLayersOf string

text \<open>The statuses each route declares: 200, and the keys of \<open>responses\<close> in its decorator, with 500 and 503
  where the declaration has them.\<close>

fun documented_statuses :: "http_call \<Rightarrow> int set" where
  "documented_statuses HealthLive = {200}"
| "documented_statuses HealthReady = {200, 503}"
| "documented_statuses (ClosedBar body) = {200, 400, 503}"
| "documented_statuses (FirstFill i cid body) = {200, 400, 404, 409, 503, 500}"
| "documented_statuses ListInstances = {200, 503, 500}"
| "documented_statuses ListStates = {200, 503, 500}"
| "documented_statuses (SetEnabled i body) = {200, 400, 404, 409, 500, 502, 503}"
| "documented_statuses (ClosePosition i) = {200, 404, 409, 500, 502, 503}"
| "documented_statuses (CancelEntryOrders i) = {200, 404, 409, 500, 502, 503}"
| "documented_statuses (DeleteInstance i) = {200, 404, 409, 500, 502, 503}"
| "documented_statuses (ChartLayersOf i) = {200, 404, 422, 500, 502, 503}"

text \<open>A body that is absent, no JSON text or not accepted by the request model raises
  \<open>RequestValidationError\<close> before the handler runs, and the application's handler of it answers.\<close>

definition validation_error_handler :: "('r, 'e) handler" where
  "validation_error_handler = answer 400 RejectedResponse"

definition with_body :: "(json \<Rightarrow> 'q option) \<Rightarrow> json option \<Rightarrow> ('q \<Rightarrow> ('r, 'e) handler) \<Rightarrow> ('r, 'e) handler" where
  "with_body validate body h =
     (case Option.bind body validate of None \<Rightarrow> validation_error_handler | Some request \<Rightarrow> h request)"

fun serve :: "validation \<Rightarrow> ('r, 'e) http_app \<Rightarrow> http_call \<Rightarrow> ('r, 'e) handler" where
  "serve V app HealthLive = health_live"
| "serve V app HealthReady = health_ready app"
| "serve V app (ClosedBar body) = with_body (validate_ClosedBarRequest V) body (closed_bar_webhook app)"
| "serve V app (FirstFill i cid body) = with_body (validate_FirstFillRequest V) body (http_first_fill app i cid)"
| "serve V app ListInstances = list_strategy_instances app"
| "serve V app ListStates = list_strategy_instance_states app"
| "serve V app (SetEnabled i body) = with_body (validate_EnabledRequest V) body (set_strategy_instance_enabled app i)"
| "serve V app (ClosePosition i) = close_strategy_position app i"
| "serve V app (CancelEntryOrders i) = cancel_strategy_entry_orders app i"
| "serve V app (DeleteInstance i) = delete_strategy_instance app i"
| "serve V app (ChartLayersOf i) = get_strategy_chart_layers V app i"

end
