(* ===== verification/Server.thy ===== *)
theory Server
  imports Http_App Footprints
begin

text \<open>
  The served process: the application the composition root wires (\<open>bootstrap/application.py\<close>), and
  the steps of the process while it serves: requests, the intake's consumer, the resolver's tick and
  changes of the environment, in any order.

  Each handler is atomic with respect to one instance (\<open>Keyed_Mutex\<close>) and to the queue, so a run of
  the process is a sequence of whole steps. The lemmas show that a request is at most one event of
  \<open>System\<close>, so what holds of every run holds of the process behind its HTTP interface.
\<close>

section \<open>The wired applications\<close>

definition production_app ::
    "config \<Rightarrow> 'e ports \<Rightarrow> 'r repo_ops \<Rightarrow> 'e feature_plan \<Rightarrow> ('r, 'e) http_app" where
  "production_app cfg P ops feature_plan =
     \<lparr>app_ready = True, app_committed_bar_intake = True,
      app_process_first_fill = Some (process_first_fill cfg ops),
      app_load_deployment_catalog = Some (load_snapshot P),
      app_set_strategy_enabled = Some (set_enabled cfg P ops),
      app_delete_strategy = Some (delete (delete_config cfg) P ops),
      app_get_chart_layers = Some (get_chart_layers P feature_plan),
      app_list_trading_states = Some (list_trading_states P ops),
      app_close_position = Some (close_position cfg P ops),
      app_cancel_entry_orders = Some (cancel_entry_orders cfg P ops)\<rparr>"

definition not_ready_app :: "('r, 'e) http_app" where
  "not_ready_app =
     \<lparr>app_ready = False, app_committed_bar_intake = False, app_process_first_fill = None,
      app_load_deployment_catalog = None, app_set_strategy_enabled = None, app_delete_strategy = None,
      app_get_chart_layers = None, app_list_trading_states = None, app_close_position = None,
      app_cancel_entry_orders = None\<rparr>"

section \<open>Steps of the process\<close>

inductive process_runs ::
    "validation \<Rightarrow> (exn \<Rightarrow> string) \<Rightarrow> config \<Rightarrow> 'e ports \<Rightarrow> 'r repo_ops \<Rightarrow> 'e feature_plan
       \<Rightarrow> ('r, 'e) server \<Rightarrow> ('r, 'e) server \<Rightarrow> bool"
  for V :: validation and error_text :: "exn \<Rightarrow> string" and cfg :: config and P :: "'e ports" and ops :: "'r repo_ops"
    and fp :: "'e feature_plan" and s0 :: "('r, 'e) server" where
  start: "process_runs V error_text cfg P ops fp s0 s0"
| request: "process_runs V error_text cfg P ops fp s0 s \<Longrightarrow>
     serve V (production_app cfg P ops fp) rq s = (x, s') \<Longrightarrow>
     process_runs V error_text cfg P ops fp s0 s'"
| bar: "process_runs V error_text cfg P ops fp s0 s \<Longrightarrow> get_event (sv_intake s) = (Inr event, b) \<Longrightarrow>
     task_done b = (r, b') \<Longrightarrow>
     process_runs V error_text cfg P ops fp s0
       (s\<lparr>sv_world := handle error_text cfg P ops (BarCommitted event) (sv_world s), sv_intake := b'\<rparr>)"
| tick: "process_runs V error_text cfg P ops fp s0 s \<Longrightarrow>
     process_runs V error_text cfg P ops fp s0 (s\<lparr>sv_world := handle error_text cfg P ops ResolverTick (sv_world s)\<rparr>)"
| stopping: "process_runs V error_text cfg P ops fp s0 s \<Longrightarrow>
     process_runs V error_text cfg P ops fp s0 (s\<lparr>sv_intake := stop_accepting (sv_intake s)\<rparr>)"
| environment: "process_runs V error_text cfg P ops fp s0 s \<Longrightarrow>
     process_runs V error_text cfg P ops fp s0 (s\<lparr>sv_world := (sv_world s)\<lparr>w_env := e\<rparr>\<rparr>)"

section \<open>What a handler does to the state\<close>

text \<open>An answer changes nothing, so a handler changes what its use case changes.\<close>

definition keeps :: "('s, 'a) prog \<Rightarrow> bool" where
  "keeps m \<longleftrightarrow> (\<forall>s. snd (m s) = s)"

lemma keeps_answer [simp]: "keeps (answer status body)"
  by (simp add: keeps_def answer_def)

lemma keeps_operator_errors [simp]: "keeps (operator_errors refused exc)"
  by (cases exc) (simp_all add: operator_errors_def)

lemma keeps_layers [simp]: "keeps (bindp (lift_res r) (answer status))"
  by (cases r) (simp_all add: keeps_def bindp_def lift_res_def answer_def)

lemma tryp_state:
  assumes "\<And>e. keeps (h e)" and "\<And>x. keeps (k x)"
  shows "snd (tryp m h k s) = snd (m s)"
  using assms by (auto simp: tryp_def keeps_def split: prod.splits sum.splits)

lemma on_world_state [simp]: "snd (on_world m s) = s\<lparr>sv_world := snd (m (sv_world s))\<rparr>"
  by (simp add: on_world_def split: prod.splits)

lemma on_world_fst [simp]: "fst (on_world m s) = fst (m (sv_world s))"
  by (simp add: on_world_def split: prod.splits)

lemma answer_state [simp]: "snd (answer status body s) = s"
  by (simp add: answer_def)

lemma answer_apply: "answer status body s = (Inr \<lparr>ans_status = status, ans_body = body\<rparr>, s)"
  by (simp add: answer_def)

section \<open>A request is at most one event\<close>

definition request_event :: "validation \<Rightarrow> http_call \<Rightarrow> system_event option" where
  "request_event V rq =
     (case rq of
        FirstFill i cid body \<Rightarrow>
          (case Option.bind body (validate_FirstFillRequest V) of
             None \<Rightarrow> None
           | Some q \<Rightarrow>
               (case new_AbiFirstFillExecutionEvent \<lparr>ffe_strategy_instance_id = i, ffe_trade_cycle_id = cid,
                       ffe_first_fill_at_ms = ffq_first_fill_at_ms q\<rparr> of
                  Inl _ \<Rightarrow> None | Inr event \<Rightarrow> Some (FirstFillReported event)))
      | SetEnabled i body \<Rightarrow>
          map_option (\<lambda>q. EnableRequested i (enq_enabled q)) (Option.bind body (validate_EnabledRequest V))
      | ClosePosition i \<Rightarrow> Some (CloseRequested i)
      | CancelEntryOrders i \<Rightarrow> Some (CancelRequested i)
      | DeleteInstance i \<Rightarrow> Some (DeleteRequested i)
      | ListStates \<Rightarrow> Some StatesListed
      | _ \<Rightarrow> None)"

lemma catalog_reads:
  "\<exists>e. snd (load_snapshot P w) = w\<lparr>w_env := e\<rparr>"
  "\<exists>e. snd (deployment_in_catalog P i w) = w\<lparr>w_env := e\<rparr>"
proof -
  show *: "\<exists>e. snd (load_snapshot P w) = w\<lparr>w_env := e\<rparr>"
    by (auto simp: load_snapshot_def split: prod.splits)
  have "snd (deployment_in_catalog P i w) = snd (load_snapshot P w)"
    unfolding deployment_in_catalog_def
    by (auto simp: tryp_def raise_def ret_def split: prod.splits sum.splits exn.splits option.splits)
  with * show "\<exists>e. snd (deployment_in_catalog P i w) = w\<lparr>w_env := e\<rparr>" by simp
qed

lemma engine_refusal_state: "snd (engine_refusal y w) = w"
  by (auto simp: engine_refusal_def raise_def split: exn.splits projection_error.splits)

lemma chart_layers_reads: "\<exists>e. snd (get_chart_layers P fp i w) = w\<lparr>w_env := e\<rparr>"
proof -
  obtain x w1 where d: "deployment_in_catalog P i w = (x, w1)" by (cases "deployment_in_catalog P i w")
  with catalog_reads(2) [of P i w] obtain e where w1: "w1 = w\<lparr>w_env := e\<rparr>" by auto
  show ?thesis
  proof (cases x)
    case (Inl y)
    with d w1 show ?thesis by (auto simp: get_chart_layers_def bindp_def)
  next
    case (Inr spec)
    obtain y w2 where p: "build_plan fp spec w1 = (y, w2)" by (cases "build_plan fp spec w1")
    then have w2: "\<exists>e. w2 = w\<lparr>w_env := e\<rparr>" using w1 by (auto simp: build_plan_def split: prod.splits)
    have "snd (catchp (build_plan fp spec) engine_refusal w1) = w2"
      using p engine_refusal_state by (cases y) (simp_all add: catchp_def)
    with d Inr have "snd (get_chart_layers P fp i w) = w2"
      by (cases "catchp (build_plan fp spec) engine_refusal w1") (auto simp: get_chart_layers_def bindp_def lift_res_def split: sum.splits)
    with w2 show ?thesis by simp
  qed
qed

lemmas handlers = closed_bar_webhook_def http_first_fill_def list_strategy_instances_def list_strategy_instance_states_def
  set_strategy_instance_enabled_def close_strategy_position_def cancel_strategy_entry_orders_def
  delete_strategy_instance_def get_strategy_chart_layers_def health_live_def health_ready_def

lemma closed_bar_state:
  "snd (closed_bar_webhook app request s) = s \<or>
   (\<exists>bar b. new_CommittedBarEvent bar = Inr bar \<and> put_nowait bar (sv_intake s) = (Inr (), b) \<and>
      snd (closed_bar_webhook app request s) = s\<lparr>sv_intake := b\<rparr>)"
proof -
  let ?bar = "\<lparr>cbe_instrument = cbq_instrument request, cbe_timeframe = cbq_timeframe request,
      cbe_open_time_ms = cbq_open_time_ms request\<rparr>"
  let ?m = "bindp (lift_res (new_CommittedBarEvent ?bar)) (\<lambda>committed_bar. on_intake (put_nowait committed_bar))"
  have m: "snd (closed_bar_webhook app request s) = (if \<not> app_ready app \<or> \<not> app_committed_bar_intake app then s else snd (?m s))"
    by (auto simp: closed_bar_webhook_def intro!: tryp_state split: exn.splits)
  show ?thesis
  proof (cases "new_CommittedBarEvent ?bar")
    case (Inl e)
    with m show ?thesis by (simp add: bindp_def lift_res_def)
  next
    case (Inr bar)
    then have bar: "new_CommittedBarEvent bar = Inr bar" by (auto simp: new_CommittedBarEvent_def split: if_splits)
    obtain r b where p: "put_nowait bar (sv_intake s) = (r, b)" by (cases "put_nowait bar (sv_intake s)")
    then have "snd (?m s) = s\<lparr>sv_intake := b\<rparr>" by (simp add: Inr bindp_def lift_res_def on_intake_def)
    moreover have "r = Inr () \<or> b = sv_intake s" using p by (auto simp: put_nowait_def split: if_splits)
    ultimately show ?thesis using m p bar by (cases "b = sv_intake s") auto
  qed
qed

lemma production_app_simps [simp]:
  "app_ready (production_app cfg P ops fp)" "app_committed_bar_intake (production_app cfg P ops fp)"
  "app_process_first_fill (production_app cfg P ops fp) = Some (process_first_fill cfg ops)"
  "app_load_deployment_catalog (production_app cfg P ops fp) = Some (load_snapshot P)"
  "app_set_strategy_enabled (production_app cfg P ops fp) = Some (set_enabled cfg P ops)"
  "app_delete_strategy (production_app cfg P ops fp) = Some (delete (delete_config cfg) P ops)"
  "app_get_chart_layers (production_app cfg P ops fp) = Some (get_chart_layers P fp)"
  "app_list_trading_states (production_app cfg P ops fp) = Some (list_trading_states P ops)"
  "app_close_position (production_app cfg P ops fp) = Some (close_position cfg P ops)"
  "app_cancel_entry_orders (production_app cfg P ops fp) = Some (cancel_entry_orders cfg P ops)"
  by (simp_all add: production_app_def)

text \<open>The world after a request is the world after its event, or the world up to what a read did to the
  environment; only an accepted bar touches the queue.\<close>

lemma first_fill_state:
  "snd (http_first_fill (production_app cfg P ops fp) i cid q s) =
     (case new_AbiFirstFillExecutionEvent \<lparr>ffe_strategy_instance_id = i, ffe_trade_cycle_id = cid,
             ffe_first_fill_at_ms = ffq_first_fill_at_ms q\<rparr> of
        Inl _ \<Rightarrow> s
      | Inr event \<Rightarrow> s\<lparr>sv_world := handle error_text cfg P ops (FirstFillReported event) (sv_world s)\<rparr>)"
  by (simp add: http_first_fill_def tryp_state handle_def split: sum.splits exn.splits state_error.splits)

lemma operator_state:
  "snd (set_strategy_instance_enabled (production_app cfg P ops fp) i q s) =
     s\<lparr>sv_world := handle error_text cfg P ops (EnableRequested i (enq_enabled q)) (sv_world s)\<rparr>"
  "snd (close_strategy_position (production_app cfg P ops fp) i s) =
     s\<lparr>sv_world := handle error_text cfg P ops (CloseRequested i) (sv_world s)\<rparr>"
  "snd (cancel_strategy_entry_orders (production_app cfg P ops fp) i s) =
     s\<lparr>sv_world := handle error_text cfg P ops (CancelRequested i) (sv_world s)\<rparr>"
  "snd (delete_strategy_instance (production_app cfg P ops fp) i s) =
     s\<lparr>sv_world := handle error_text cfg P ops (DeleteRequested i) (sv_world s)\<rparr>"
  "snd (list_strategy_instance_states (production_app cfg P ops fp) s) =
     s\<lparr>sv_world := handle error_text cfg P ops StatesListed (sv_world s)\<rparr>"
  by (simp_all add: handlers tryp_state handle_def split: exn.splits trading_state_error.splits)

lemma read_state:
  "\<exists>e. snd (list_strategy_instances (production_app cfg P ops fp) s) = s\<lparr>sv_world := (sv_world s)\<lparr>w_env := e\<rparr>\<rparr>"
  "\<exists>e. snd (get_strategy_chart_layers V (production_app cfg P ops fp) i s) = s\<lparr>sv_world := (sv_world s)\<lparr>w_env := e\<rparr>\<rparr>"
  using catalog_reads(1) [of P "sv_world s"] chart_layers_reads [of P fp i "sv_world s"]
  by (auto simp: handlers tryp_state split: exn.splits)

lemma unchanged_world: "\<exists>e. w = w\<lparr>w_env := e\<rparr>"
  by (rule exI [of _ "w_env w"]) simp

lemma serve_world:
  "\<exists>e. sv_world (snd (serve V (production_app cfg P ops fp) rq s)) =
     (case request_event V rq of
        Some event \<Rightarrow> handle error_text cfg P ops event (sv_world s)
      | None \<Rightarrow> (sv_world s)\<lparr>w_env := e\<rparr>)"
proof (cases rq)
  case (ClosedBar body)
  have "sv_world (snd (with_body (validate_ClosedBarRequest V) body (closed_bar_webhook app) s)) = sv_world s" for app
    using closed_bar_state [of app _ s]
    by (auto simp: with_body_def validation_error_handler_def split: option.splits) (metis select_convs(1) surjective update_convs(2))
  with ClosedBar unchanged_world show ?thesis by (simp add: request_event_def)
next
  case (FirstFill i cid body)
  then show ?thesis
    by (auto simp: request_event_def with_body_def validation_error_handler_def unchanged_world
        first_fill_state [where error_text = error_text] split: option.splits sum.splits)
next
  case (SetEnabled i body)
  then show ?thesis
    by (auto simp: request_event_def with_body_def validation_error_handler_def unchanged_world
        operator_state [where error_text = error_text] split: option.splits)
next
  case ListInstances
  with read_state(1) [of cfg P ops fp s] show ?thesis by (auto simp: request_event_def)
next
  case (ChartLayersOf i)
  with read_state(2) [of V cfg P ops fp i s] show ?thesis by (auto simp: request_event_def)
qed (simp_all add: request_event_def operator_state [where error_text = error_text] health_live_def health_ready_def
      unchanged_world)

section \<open>A run of the process is a run of the handlers\<close>

lemma process_step_runs:
  assumes "runs error_text cfg P ops w0 (sv_world s)"
  shows "runs error_text cfg P ops w0 (sv_world (snd (serve V (production_app cfg P ops fp) rq s)))"
proof -
  from serve_world [of V cfg P ops fp rq s error_text]
  consider event where "sv_world (snd (serve V (production_app cfg P ops fp) rq s)) = handle error_text cfg P ops event (sv_world s)"
    | e where "sv_world (snd (serve V (production_app cfg P ops fp) rq s)) = (sv_world s)\<lparr>w_env := e\<rparr>"
    by (cases "request_event V rq") auto
  then show ?thesis using assms by cases (simp_all add: runs.intros)
qed

lemma process_runs_runs:
  "process_runs V error_text cfg P ops fp s0 s \<Longrightarrow> runs error_text cfg P ops (sv_world s0) (sv_world s)"
proof (induction rule: process_runs.induct)
  case (request s rq x s')
  then show ?case using process_step_runs [of error_text cfg P ops "sv_world s0" s V fp rq] by simp
qed (auto intro: runs.intros)

section \<open>The queue behind the interface\<close>

definition queue_ok :: "boundary \<Rightarrow> bool" where
  "queue_ok b \<longleftrightarrow> boundary_inv b \<and> (\<forall>bar \<in> set (bq_items b). new_CommittedBarEvent bar = Inr bar)"

lemma serve_intake:
  "sv_intake (snd (serve V (production_app cfg P ops fp) rq s)) = sv_intake s \<or>
   (\<exists>bar. new_CommittedBarEvent bar = Inr bar \<and>
      put_nowait bar (sv_intake s) = (Inr (), sv_intake (snd (serve V (production_app cfg P ops fp) rq s))))"
proof (cases rq)
  case (ClosedBar body)
  have "sv_intake (snd (with_body (validate_ClosedBarRequest V) body (closed_bar_webhook app) s)) = sv_intake s \<or>
     (\<exists>bar. new_CommittedBarEvent bar = Inr bar \<and> put_nowait bar (sv_intake s) =
        (Inr (), sv_intake (snd (with_body (validate_ClosedBarRequest V) body (closed_bar_webhook app) s))))" for app
  proof (cases "Option.bind body (validate_ClosedBarRequest V)")
    case (Some q)
    with closed_bar_state [of app q s] show ?thesis by (auto simp: with_body_def)
  qed (simp add: with_body_def validation_error_handler_def)
  with ClosedBar show ?thesis by simp
next
  case ListInstances
  with read_state(1) [of cfg P ops fp s] show ?thesis by auto
next
  case (ChartLayersOf i)
  with read_state(2) [of V cfg P ops fp i s] show ?thesis by auto
qed (auto simp: with_body_def validation_error_handler_def first_fill_state [where error_text = "\<lambda>e. []"]
      operator_state [where error_text = "\<lambda>e. []"] health_live_def health_ready_def split: option.splits sum.splits)

lemma queue_ok_put: "queue_ok b \<Longrightarrow> new_CommittedBarEvent bar = Inr bar \<Longrightarrow> put_nowait bar b = (Inr (), b') \<Longrightarrow> queue_ok b'"
  by (auto simp: queue_ok_def put_nowait_def boundary_inv_def split: if_splits)

lemma queue_ok_taken:
  assumes "queue_ok b" and "get_event b = (Inr bar, b1)" and "task_done b1 = (r, b2)"
  shows "queue_ok b2 \<and> new_CommittedBarEvent bar = Inr bar"
  using assms by (auto simp: queue_ok_def get_event_def task_done_def boundary_inv_def split: list.splits if_splits)

lemma process_runs_queue:
  "process_runs V error_text cfg P ops fp s0 s \<Longrightarrow> queue_ok (sv_intake s0) \<Longrightarrow> queue_ok (sv_intake s)"
proof (induction rule: process_runs.induct)
  case (request s rq x s')
  then show ?case using serve_intake [of V cfg P ops fp rq s] by (auto intro: queue_ok_put)
next
  case (bar s event b r b')
  then show ?case using queue_ok_taken [of "sv_intake s" event b r b'] by simp
qed (auto simp: queue_ok_def stop_accepting_def boundary_inv_def)

section \<open>The intake's answer\<close>

definition requested_bar :: "ClosedBarRequest \<Rightarrow> CommittedBarEvent" where
  "requested_bar q = \<lparr>cbe_instrument = cbq_instrument q, cbe_timeframe = cbq_timeframe q, cbe_open_time_ms = cbq_open_time_ms q\<rparr>"

lemma validated_bar: "validate_ClosedBarRequest V body = Some q \<Longrightarrow> new_CommittedBarEvent (requested_bar q) = Inr (requested_bar q)"
  by (cases body)
    (auto simp: requested_bar_def new_CommittedBarEvent_def require_non_empty_string_def bind_eq_Some_conv split: if_splits)

lemma closed_bar_run:
  assumes "app_ready app" and "app_committed_bar_intake app" and "new_CommittedBarEvent (requested_bar q) = Inr (requested_bar q)"
  shows "closed_bar_webhook app q s =
    (case put_nowait (requested_bar q) (sv_intake s) of
       (Inr _, b) \<Rightarrow> (Inr \<lparr>ans_status = 200, ans_body = AcceptedResponse\<rparr>, s\<lparr>sv_intake := b\<rparr>)
     | (Inl _, b) \<Rightarrow> (Inr \<lparr>ans_status = 503, ans_body = NotReadyResponse\<rparr>, s\<lparr>sv_intake := b\<rparr>))"
proof (cases "put_nowait (requested_bar q) (sv_intake s)")
  case (Pair r b)
  then have "r = Inl IntakeNotAccepting \<or> r = Inl QueueFull \<or> r = Inr ()"
    by (auto simp: put_nowait_def split: if_splits)
  with assms Pair show ?thesis
    by (auto simp: closed_bar_webhook_def tryp_def bindp_def lift_res_def on_intake_def answer_def simp flip: requested_bar_def)
qed

section \<open>Answers\<close>

definition answered :: "int set \<Rightarrow> ('r, 'e) handler \<Rightarrow> bool" where
  "answered S m \<longleftrightarrow> (\<forall>s. \<exists>a s'. m s = (Inr a, s') \<and> ans_status a \<in> S)"

lemma answered_answer [simp]: "answered S (answer status body) \<longleftrightarrow> status \<in> S"
  by (simp add: answered_def answer_def)

lemma answered_try:
  assumes "\<And>e. answered S (h e)" and "\<And>x. answered S (k x)"
  shows "answered S (tryp m h k)"
  unfolding answered_def
proof
  fix s
  show "\<exists>a s'. tryp m h k s = (Inr a, s') \<and> ans_status a \<in> S"
    using assms by (cases "m s"; cases "fst (m s)") (auto simp: tryp_def answered_def)
qed

text \<open>The statuses of the refusals; a refusal is answered on the routes of the operator and the chart.\<close>

definition refusal_statuses :: "int set" where
  "refusal_statuses = range refusal_status_code"

lemma refusal_statuses_eq: "refusal_statuses = {404, 409, 422, 500, 502, 503}"
proof
  have "refusal_status_code r \<in> {404, 409, 422, 500, 502, 503}" for r by (cases r) simp_all
  then show "refusal_statuses \<subseteq> {404, 409, 422, 500, 502, 503}" unfolding refusal_statuses_def by blast
  have "{404, 409, 422, 500, 502, 503} =
      refusal_status_code ` {StrategyInstanceNotFound, NoPosition, EngineRejected [] [], MoveFailed, AbiUnavailable, InstanceBusy}"
    by auto
  then show "{404, 409, 422, 500, 502, 503} \<subseteq> refusal_statuses" unfolding refusal_statuses_def by blast
qed

fun answers_refusals :: "http_call \<Rightarrow> bool" where
  "answers_refusals (SetEnabled i body) = True"
| "answers_refusals (ClosePosition i) = True"
| "answers_refusals (CancelEntryOrders i) = True"
| "answers_refusals (DeleteInstance i) = True"
| "answers_refusals (ChartLayersOf i) = True"
| "answers_refusals rq = False"

definition route_statuses :: "http_call \<Rightarrow> int set" where
  "route_statuses rq = documented_statuses rq \<union> (if answers_refusals rq then refusal_statuses else {})"

lemma operator_errors_answer:
  "\<exists>a. operator_errors refused x t = (Inr a, t) \<and> ans_status a \<in> refusal_statuses \<and> ans_status a \<noteq> 200"
proof -
  have *: "refusal_status_code r \<in> refusal_statuses" for r by (simp add: refusal_statuses_def)
  have "refusal_status_code r \<noteq> 200" for r by (cases r) simp_all
  with * show ?thesis by (cases x) (auto simp: operator_errors_def answer_def refusal_statuses_eq)
qed

lemma answered_operator_errors [simp]: "refusal_statuses \<subseteq> S \<Longrightarrow> answered S (operator_errors refused exc)"
  using operator_errors_answer unfolding answered_def by blast

lemma answered_operator:
  "refusal_statuses \<subseteq> S \<Longrightarrow> 200 \<in> S \<Longrightarrow> answered S (tryp m (operator_errors refused) (\<lambda>r. answer 200 (body r)))"
  by (intro answered_try) simp_all

lemma answered_body:
  "400 \<in> S \<Longrightarrow> (\<And>q. Option.bind body validate = Some q \<Longrightarrow> answered S (h q)) \<Longrightarrow> answered S (with_body validate body h)"
  by (auto simp: with_body_def validation_error_handler_def split: option.splits)

lemma answered_routes:
  assumes "\<And>i. rq \<noteq> ChartLayersOf i"
  shows "answered (route_statuses rq) (serve V app rq)"
proof (cases rq)
  case (ClosedBar body)
  have "answered (route_statuses rq) (closed_bar_webhook app q)" if "Option.bind body (validate_ClosedBarRequest V) = Some q" for q
  proof (cases "app_ready app \<and> app_committed_bar_intake app")
    case True
    have "new_CommittedBarEvent (requested_bar q) = Inr (requested_bar q)"
      using that by (auto simp: bind_eq_Some_conv intro: validated_bar)
    with True ClosedBar show ?thesis
      by (auto simp: answered_def closed_bar_run route_statuses_def split: prod.splits sum.splits)
  qed (auto simp: closed_bar_webhook_def ClosedBar route_statuses_def)
  with ClosedBar show ?thesis by (auto simp: route_statuses_def intro!: answered_body)
next
  case (ChartLayersOf i)
  with assms show ?thesis by blast
next
  case (SetEnabled i body)
  then show ?thesis
    by (auto simp: route_statuses_def handlers split: option.splits intro!: answered_body answered_operator)
next
  case (ClosePosition i)
  then show ?thesis by (auto simp: route_statuses_def handlers split: option.splits intro!: answered_operator)
next
  case (CancelEntryOrders i)
  then show ?thesis by (auto simp: route_statuses_def handlers split: option.splits intro!: answered_operator)
next
  case (DeleteInstance i)
  then show ?thesis by (auto simp: route_statuses_def handlers split: option.splits intro!: answered_operator)
qed (auto simp: route_statuses_def handlers split: option.splits sum.splits exn.splits state_error.splits trading_state_error.splits
      intro!: answered_body answered_try)

text \<open>When all failures of the elements are the same, so is the failure of the list.\<close>

lemma res_map_uniform:
  assumes "\<And>x e. f x = Inl e \<longleftrightarrow> e = E \<and> Q x"
  shows "res_map f xs = Inl e \<longleftrightarrow> e = E \<and> (\<exists>x \<in> set xs. Q x)"
proof (induction xs)
  case (Cons x xs)
  have "f x = Inl E \<longleftrightarrow> Q x" using assms by simp
  with Cons assms show ?case by (cases "f x") (auto simp: res_bind_eq_Inl)
qed simp

definition integer_params :: "validation \<Rightarrow> ChartLayers \<Rightarrow> bool" where
  "integer_params V layers \<longleftrightarrow>
     (\<forall>ep \<in> set (cl_episodes layers). \<forall>v \<in> snd ` set (epe_params ep). vl_lax_int V v \<noteq> None)"

lemma layers_refused:
  "ChartLayersResponse V layers = Inl e \<longleftrightarrow> e = ValueError ''params must hold integers'' \<and> \<not> integer_params V layers"
proof -
  let ?E = "ValueError ''params must hold integers''"
  have *: "EpisodeEntryItem V ep = Inl e \<longleftrightarrow> e = ?E \<and> (\<exists>(k, v) \<in> set (epe_params ep). vl_lax_int V v = None)" for ep e
    unfolding EpisodeEntryItem_def res_bind_eq_Inl
    by (subst res_map_uniform [where E = ?E and Q = "\<lambda>(k, v). vl_lax_int V v = None"]) (auto split: prod.splits option.splits)
  have "integer_params V layers \<longleftrightarrow>
      \<not> (\<exists>ep \<in> set (cl_episodes layers). \<exists>(k, v) \<in> set (epe_params ep). vl_lax_int V v = None)"
    by (auto simp: integer_params_def) force+
  with res_map_uniform [where f = "EpisodeEntryItem V", OF *] show ?thesis
    by (auto simp: ChartLayersResponse_def res_bind_eq_Inl)
qed

lemma chart_route_run:
  assumes "app_ready app" and "app_get_chart_layers app = Some use_case" and "use_case i (sv_world s) = (x, w)"
  shows "fst (serve V app (ChartLayersOf i) s) =
    (case x of
       Inl exc \<Rightarrow> fst (operator_errors (\<lambda>r. ChartLayersRefusedResponse (refusal_reason r) (rejected_engine r)) exc
                        (s\<lparr>sv_world := w\<rparr>))
     | Inr layers \<Rightarrow> map_sum id (\<lambda>body. \<lparr>ans_status = 200, ans_body = body\<rparr>) (ChartLayersResponse V layers))"
  using assms
  by (simp add: get_strategy_chart_layers_def tryp_def on_world_def bindp_def lift_res_def answer_def split: sum.splits)

lemma chart_route:
  "fst (serve V app (ChartLayersOf i) s) = Inl e \<longleftrightarrow>
     app_ready app \<and> (\<exists>use_case layers. app_get_chart_layers app = Some use_case \<and>
       fst (use_case i (sv_world s)) = Inr layers \<and> \<not> integer_params V layers \<and>
       e = ValueError ''params must hold integers'')" (is ?raises)
  "fst (serve V app (ChartLayersOf i) s) = Inr a \<Longrightarrow> ans_status a \<in> route_statuses (ChartLayersOf i)" (is "?returns \<Longrightarrow> _")
proof -
  have ok: "200 \<in> route_statuses (ChartLayersOf i)" "503 \<in> route_statuses (ChartLayersOf i)"
    "refusal_statuses \<subseteq> route_statuses (ChartLayersOf i)"
    by (auto simp: route_statuses_def)
  have "?raises \<and> (?returns \<longrightarrow> ans_status a \<in> route_statuses (ChartLayersOf i))"
  proof (cases "app_ready app \<and> app_get_chart_layers app \<noteq> None")
    case True
    then obtain u where u: "app_ready app" "app_get_chart_layers app = Some u" by auto
    obtain x w where x: "u i (sv_world s) = (x, w)" by (cases "u i (sv_world s)")
    note run = chart_route_run [OF u x, of V]
    show ?thesis
    proof (cases x)
      case (Inl exc)
      obtain b where "fst (serve V app (ChartLayersOf i) s) = Inr b" "ans_status b \<in> refusal_statuses"
        using operator_errors_answer [of _ exc "s\<lparr>sv_world := w\<rparr>"] unfolding run Inl sum.case by (metis fst_conv)
      with u x Inl ok(3) show ?thesis by (auto simp del: serve.simps)
    next
      case (Inr layers)
      show ?thesis
        using u x Inr ok(1) layers_refused [of V layers]
        by (cases "ChartLayersResponse V layers") (auto simp: run simp del: serve.simps)
    qed
  next
    case False
    then have "get_strategy_chart_layers V app i = answer 503 NotReadyResponse"
      by (auto simp: get_strategy_chart_layers_def split: option.splits)
    with False ok(2) show ?thesis by (auto simp: answer_def)
  qed
  then show ?raises "?returns \<Longrightarrow> ans_status a \<in> route_statuses (ChartLayersOf i)" by blast+
qed

section \<open>Success of an operator's request\<close>

text \<open>A 200 says that the use case returned.\<close>

lemma operator_success:
  assumes "tryp (on_world m) (operator_errors refused) (\<lambda>r. answer 200 (body r)) s = (Inr a, s')"
    and "ans_status a = 200"
  obtains r w where "m (sv_world s) = (Inr r, w)" "s' = s\<lparr>sv_world := w\<rparr>" "ans_body a = body r"
proof -
  obtain x w where x: "m (sv_world s) = (x, w)" by (cases "m (sv_world s)")
  show thesis
  proof (cases x)
    case (Inl e)
    with operator_errors_answer [of refused e "s\<lparr>sv_world := w\<rparr>"] assms x show thesis
      by (auto simp: tryp_def on_world_def)
  next
    case (Inr r)
    with assms x that show thesis by (auto simp: tryp_def on_world_def answer_def)
  qed
qed

lemma triple_returned:
  assumes "triple A m Q E" and "A w" and "m w = (Inr x, w')"
  shows "Q x w'"
  using assms by (auto simp: triple_def split: prod.splits sum.splits)

text \<open>The requests that end an instance's trading.\<close>

fun ends_trading :: "http_call \<Rightarrow> string option" where
  "ends_trading (ClosePosition i) = Some i"
| "ends_trading (CancelEntryOrders i) = Some i"
| "ends_trading (DeleteInstance i) = Some i"
| "ends_trading rq = None"

context state_repository
begin

lemma success_settles:
  assumes "consistent m0 (sv_world s)" and "ends_trading rq = Some i"
    and "serve V (production_app cfg P ops fp) rq s = (Inr a, s')" and "ans_status a = 200"
  shows "settled i (sv_world s') \<and> (\<forall>j. j \<noteq> i \<longrightarrow> states (w_repo (sv_world s')) j = states (w_repo (sv_world s)) j)"
proof -
  let ?rest = "states (w_repo (sv_world s))"
  have start: "elsewhere m0 i ?rest (sv_world s)" using assms(1) by (simp add: elsewhere_def)
  have "settles m0 i ?rest (sv_world s')"
  proof (cases rq)
    case (ClosePosition j)
    with assms obtain r w where "close_position cfg P ops i (sv_world s) = (Inr r, w)" "s' = s\<lparr>sv_world := w\<rparr>"
      by (auto simp: close_strategy_position_def elim: operator_success)
    with triple_returned [OF close_position_settles start] show ?thesis by simp
  next
    case (CancelEntryOrders j)
    with assms obtain r w where "cancel_entry_orders cfg P ops i (sv_world s) = (Inr r, w)" "s' = s\<lparr>sv_world := w\<rparr>"
      by (auto simp: cancel_strategy_entry_orders_def elim: operator_success)
    with triple_returned [OF cancel_entry_orders_settles start] show ?thesis by simp
  next
    case (DeleteInstance j)
    with assms obtain r w where "delete (delete_config cfg) P ops i (sv_world s) = (Inr r, w)" "s' = s\<lparr>sv_world := w\<rparr>"
      by (auto simp: delete_strategy_instance_def elim: operator_success)
    with triple_returned [OF delete_settles start] show ?thesis by simp
  qed (use assms(2) in simp_all)
  then show ?thesis by (simp add: elsewhere_def)
qed

end

end
