(* ===== verification/Http_Properties.thy ===== *)
theory Http_Properties
  imports Server Examples
begin

text \<open>
  The properties of the HTTP interface and of the chart layers behind it, with the inputs at which
  they are applied.
\<close>

section \<open>Inputs\<close>

definition ex_validation :: validation where
  "ex_validation = \<lparr>vl_str = json_str, vl_int = json_int, vl_bool = json_bool, vl_lax_int = json_int\<rparr>"

lemma ex_validation_strict: "strict_mode ex_validation"
  by (simp add: strict_mode_def ex_validation_def)

definition ex_queue :: boundary where
  "ex_queue = \<lparr>bq_maxsize = 2, bq_items = [], bq_unfinished_tasks = 0, bq_accepting = True\<rparr>"

definition ex_server :: "(string \<times> state) list \<Rightarrow> bool \<Rightarrow> ((string \<times> state) list, bool) server" where
  "ex_server r e = \<lparr>sv_world = ex_world r e, sv_intake = ex_queue\<rparr>"

definition ex_feature :: "string \<Rightarrow> int \<Rightarrow> json" where
  "ex_feature oid n = JObj [(''output_id'', JStr oid), (''kind'', JStr ''ema''), (''parameters'', JObj [(''period'', JInt n)]),
     (''timeframe'', JStr ''base''), (''source'', JStr ''close'')]"

text \<open>A plan whose one episode has the given parameter; the features are in another order than the roles.\<close>

definition ex_plan :: "json \<Rightarrow> json_object" where
  "ex_plan v =
     [(''anchor_columns'', JObj [(''fast'', JStr ''f''), (''anchor'', JStr ''a''), (''slow'', JStr ''z'')]),
      (''features'', JArr [ex_feature ''z'' 1000, ex_feature ''a'' 500, ex_feature ''f'' 200]),
      (''episode_params_by_ref'', JObj [(''trend'', JObj [(''window_bars'', v)])])]"

definition ex_engine :: "json \<Rightarrow> bool feature_plan" where
  "ex_engine v = (\<lambda>strategy_id raw_spec e. (Inr (ex_plan v), e))"

abbreviation ex_app :: "bool \<Rightarrow> json \<Rightarrow> ((string \<times> state) list, bool) http_app" where
  "ex_app enabled v \<equiv> production_app ex_config (exchange enabled) memory_ops (ex_engine v)"

lemmas plan_flow = read_layers_def ema_stack_def STACK_ROLES_def stack_entry_def field_def plan_mapping_def
  plan_sequence_def single_feature_def List.map_filter_def feature_entry_def positive_period_def both_strings_def
  wire_string_def episodes_def episode_entry_def guarded_def ex_plan_def ex_feature_def

definition ex_layers :: "json \<Rightarrow> ChartLayers" where
  "ex_layers v = \<lparr>cl_strategy_instance_id = ''i'',
     cl_ema_stack = [\<lparr>ese_role = ''fast'', ese_timeframe = ''base'', ese_period = 200, ese_source = ''close''\<rparr>,
       \<lparr>ese_role = ''anchor'', ese_timeframe = ''base'', ese_period = 500, ese_source = ''close''\<rparr>,
       \<lparr>ese_role = ''slow'', ese_timeframe = ''base'', ese_period = 1000, ese_source = ''close''\<rparr>],
     cl_episodes = [\<lparr>epe_episode_ref = ''trend'', epe_params = [(''window_bars'', v)]\<rparr>]\<rparr>"

lemma ex_layers_read: "read_layers ''i'' (ex_plan v) = Inr (ex_layers v)"
  by (simp add: plan_flow ex_layers_def)

lemma ex_layers_run: "get_chart_layers (exchange True) (ex_engine v) ''i'' (ex_world [] False) = (Inr (ex_layers v), ex_world [] False)"
  by (simp add: get_chart_layers_def deployment_in_catalog_def get_by_strategy_instance_id_def load_snapshot_def
      new_catalog_answer_def ex_catalog_def ex_deployment_def build_plan_def ex_engine_def ex_layers_read flow stored_ops
      constructors ex_world_def)

section \<open>Requests and the permitted traces\<close>

text \<open>
  Property C30: the served process refines the permitted traces. From a valid store and an empty log,
  through any sequence of HTTP requests with any bodies, bars taken from the intake, resolver ticks
  and changes outside, the log is a trace of the abstract step relation that ends in the store, and
  the queue stays within its bound and holds only well-formed bars.
\<close>

theorem served_process_refines_the_traces:
  assumes "state_repository ops states valid" and "valid (w_repo (sv_world s0))" and "good (states (w_repo (sv_world s0)))"
    and "w_log (sv_world s0) = []" and "queue_ok (sv_intake s0)" and "process_runs V error_text cfg P ops fp s0 s"
  shows "valid (w_repo (sv_world s)) \<and>
    spec_trace (states (w_repo (sv_world s0))) (w_log (sv_world s)) (states (w_repo (sv_world s))) \<and>
    queue_ok (sv_intake s)"
  using state_repository.runs_permitted [OF assms(1) process_runs_runs [OF assms(6)] assms(2-4)]
    process_runs_queue [OF assms(6,5)]
  by blast

lemma ex_queue_ok: "queue_ok ex_queue"
  by (simp add: queue_ok_def boundary_inv_def ex_queue_def)

lemma ex_server_start:
  assumes "memory_inv r" and "good (map_of r)"
  shows "state_repository memory_ops map_of memory_inv" "memory_inv (w_repo (sv_world (ex_server r e)))"
    "good (map_of (w_repo (sv_world (ex_server r e))))" "w_log (sv_world (ex_server r e)) = []"
    "queue_ok (sv_intake (ex_server r e))"
  using assms ex_queue_ok by (auto simp: ex_server_def ex_world_def intro: memory.state_repository_axioms)

theorem served_process_refines_the_traces_witness:
  "memory_inv (w_repo (sv_world (snd (serve ex_validation (ex_app True JNull) (ClosePosition ''i'')
     (ex_server [(''i'', ex_flat)] True)))))"
proof -
  have run: "process_runs ex_validation (\<lambda>e. '''') ex_config (exchange True) memory_ops (ex_engine JNull)
      (ex_server [(''i'', ex_flat)] True)
      (snd (serve ex_validation (ex_app True JNull) (ClosePosition ''i'') (ex_server [(''i'', ex_flat)] True)))"
    by (rule process_runs.request [OF process_runs.start]) (rule prod.collapse [symmetric])
  show ?thesis
    using served_process_refines_the_traces [OF ex_server_start [OF ex_memory_inv(2) ex_good(2)] run] by blast
qed

section \<open>Answers\<close>

text \<open>
  An application that is not ready answers every request but the liveness probe with
  the not-ready answer, or with the rejection of its body, and changes nothing.
\<close>

theorem not_ready_is_inert:
  assumes "\<not> app_ready app" and "rq \<noteq> HealthLive"
  shows "serve V app rq s = (Inr \<lparr>ans_status = 503, ans_body = NotReadyResponse\<rparr>, s) \<or>
    serve V app rq s = (Inr \<lparr>ans_status = 400, ans_body = RejectedResponse\<rparr>, s)"
  using assms
  by (cases rq) (auto simp: with_body_def validation_error_handler_def handlers answer_def split: option.splits)

text \<open>
  Property C33: every request is answered with a status its route declares, or on the operator's
  routes and the chart's with the status of the refusal, whatever the use cases raise, with one
  exception: the chart layers of a plan with an episode parameter that is no integer. The response is
  built outside the \<open>try\<close> statement there, and the error leaves the handler.
\<close>

theorem every_request_is_answered:
  "case fst (serve V app rq s) of
     Inr a \<Rightarrow> ans_status a \<in> documented_statuses rq \<or> answers_refusals rq \<and> ans_status a \<in> range refusal_status_code
   | Inl e \<Rightarrow> e = ValueError ''params must hold integers'' \<and>
       (\<exists>i use_case layers. rq = ChartLayersOf i \<and> app_get_chart_layers app = Some use_case \<and>
          fst (use_case i (sv_world s)) = Inr layers \<and> \<not> integer_params V layers)"
proof (cases "\<exists>i. rq = ChartLayersOf i")
  case True
  then obtain i where rq: "rq = ChartLayersOf i" by blast
  show ?thesis
    unfolding rq using chart_route(1) [of V app i s] chart_route(2) [of V app i s]
    by (auto simp: route_statuses_def refusal_statuses_def simp del: serve.simps split: sum.splits)
next
  case False
  then have "answered (route_statuses rq) (serve V app rq)" by (intro answered_routes) blast
  then obtain a s' where "serve V app rq s = (Inr a, s')" "ans_status a \<in> route_statuses rq"
    unfolding answered_def by blast
  then show ?thesis by (auto simp: route_statuses_def refusal_statuses_def split: if_splits)
qed

text \<open>
  The exception happens: behind the wired application, a plan that the engine answers
  with a \<open>null\<close> episode parameter, valid in every part the service reads, makes the handler raise
  instead of answering 502; with an integer it answers 200.
\<close>

theorem null_episode_parameter_escapes:
  assumes "strict_mode V"
  shows "fst (serve V (ex_app True JNull) (ChartLayersOf ''i'') (ex_server [] False)) =
      Inl (ValueError ''params must hold integers'') \<and>
    (\<exists>body. fst (serve V (ex_app True (JInt 5)) (ChartLayersOf ''i'') (ex_server [] False)) =
      Inr \<lparr>ans_status = 200, ans_body = body\<rparr>)"
proof -
  have "get_chart_layers (exchange True) (ex_engine v) ''i'' (sv_world (ex_server [] False)) = (Inr (ex_layers v), ex_world [] False)"
    for v by (simp add: ex_server_def ex_layers_run)
  then have "fst (serve V (ex_app True v) (ChartLayersOf ''i'') (ex_server [] False)) =
      map_sum id (\<lambda>body. \<lparr>ans_status = 200, ans_body = body\<rparr>) (ChartLayersResponse V (ex_layers v))" for v
    by (subst chart_route_run [where use_case = "get_chart_layers (exchange True) (ex_engine v)" and x = "Inr (ex_layers v)"
        and w = "ex_world [] False"]) simp_all
  then show ?thesis
    using assms
    by (simp add: ChartLayersResponse_def EpisodeEntryItem_def ex_layers_def strict_mode_def del: serve.simps)
qed

theorem null_episode_parameter_escapes_witness:
  "fst (serve ex_validation (ex_app True JNull) (ChartLayersOf ''i'') (ex_server [] False)) =
     Inl (ValueError ''params must hold integers'')"
  using null_episode_parameter_escapes [OF ex_validation_strict] by blast

text \<open>
  Property C32: a closed bar is accepted exactly when the body is a valid request, the application is
  ready and the queue takes events and has room; then the bar of the request is the last one in the
  queue. Otherwise nothing changes, and the answer is 400 for an invalid body and 503 else.
\<close>

theorem accepted_bar_is_queued:
  assumes "boundary_inv (sv_intake s)" and "app_committed_bar_intake app"
  shows "case Option.bind body (validate_ClosedBarRequest V) of
      None \<Rightarrow> serve V app (ClosedBar body) s = (Inr \<lparr>ans_status = 400, ans_body = RejectedResponse\<rparr>, s)
    | Some q \<Rightarrow>
        if app_ready app \<and> boundary_room (sv_intake s)
        then \<exists>b. serve V app (ClosedBar body) s =
               (Inr \<lparr>ans_status = 200, ans_body = AcceptedResponse\<rparr>, s\<lparr>sv_intake := b\<rparr>) \<and>
               boundary_inv b \<and> bq_items b = bq_items (sv_intake s) @ [requested_bar q]
        else serve V app (ClosedBar body) s = (Inr \<lparr>ans_status = 503, ans_body = NotReadyResponse\<rparr>, s)"
proof (cases "Option.bind body (validate_ClosedBarRequest V)")
  case None
  then show ?thesis by (simp add: with_body_def validation_error_handler_def answer_def)
next
  case (Some q)
  then have bar: "new_CommittedBarEvent (requested_bar q) = Inr (requested_bar q)"
    by (auto simp: bind_eq_Some_conv intro: validated_bar)
  obtain r b where put: "put_nowait (requested_bar q) (sv_intake s) = (r, b)"
    by (cases "put_nowait (requested_bar q) (sv_intake s)")
  note law = intake_queue.put_law [OF assms(1) put]
  have run: "serve V app (ClosedBar body) s = closed_bar_webhook app q s" using Some by (simp add: with_body_def)
  show ?thesis
  proof (cases "app_ready app")
    case True
    with law closed_bar_run [OF True assms(2) bar, of s] put show ?thesis
      unfolding Some option.case run by (cases r) (auto split: if_splits)
  next
    case False
    then have "closed_bar_webhook app q s = (Inr \<lparr>ans_status = 503, ans_body = NotReadyResponse\<rparr>, s)"
      by (simp add: closed_bar_webhook_def answer_def)
    with False show ?thesis unfolding Some option.case run by simp
  qed
qed

definition ex_body :: json where
  "ex_body = JObj [(''instrument'', JStr ''BTC''), (''timeframe'', JStr ''1m''), (''open_time_ms'', JInt 120000), (''x'', JNull)]"

lemma ex_body_valid: "Option.bind (Some ex_body) (validate_ClosedBarRequest ex_validation) =
    Some \<lparr>cbq_instrument = ''BTC'', cbq_timeframe = ''1m'', cbq_open_time_ms = 120000\<rparr>"
  by (simp add: ex_body_def ex_validation_def model_field_def require_non_empty_string_def scanning)

theorem accepted_bar_is_queued_witness:
  "\<exists>b. serve ex_validation (ex_app True JNull) (ClosedBar (Some ex_body)) (ex_server [] False) =
     (Inr \<lparr>ans_status = 200, ans_body = AcceptedResponse\<rparr>, (ex_server [] False)\<lparr>sv_intake := b\<rparr>) \<and> bq_items b = [ex_bar]"
proof -
  have "boundary_inv (sv_intake (ex_server [] False))" "app_committed_bar_intake (ex_app True JNull)"
    "boundary_room (sv_intake (ex_server [] False))" "bq_items (sv_intake (ex_server [] False)) = []"
    by (simp_all add: ex_server_def ex_queue_def boundary_inv_def boundary_room_def)
  with accepted_bar_is_queued [of "ex_server [] False" "ex_app True JNull" ex_validation "Some ex_body"] show ?thesis
    unfolding ex_body_valid by (auto simp: requested_bar_def ex_bar_def)
qed

text \<open>
  Property C31: a 200 tells the truth. When the served process answers 200 to a request to close a
  position, to cancel the entry orders or to delete an instance, the store then holds no trade cycle
  and no recovery marker of the instance, and the aggregates of the others are as before.
\<close>

theorem operator_success_settles_the_instance:
  assumes "state_repository ops states valid" and "valid (w_repo (sv_world s0))" and "good (states (w_repo (sv_world s0)))"
    and "w_log (sv_world s0) = []" and "process_runs V error_text cfg P ops fp s0 s"
    and "ends_trading rq = Some i"
    and "serve V (production_app cfg P ops fp) rq s = (Inr a, s')" and "ans_status a = 200"
  shows "pred_option (\<lambda>t. sirs_current_trade_cycle t = None \<and> no_recovery t) (states (w_repo (sv_world s')) i) \<and>
    (\<forall>j. j \<noteq> i \<longrightarrow> states (w_repo (sv_world s')) j = states (w_repo (sv_world s)) j)"
proof -
  have start: "state_repository.consistent states valid (states (w_repo (sv_world s0))) (sv_world s)"
    by (rule state_repository.runs_consistent [OF assms(1) process_runs_runs [OF assms(5)]
        state_repository.consistent_start [OF assms(1-4)]])
  show ?thesis
    using state_repository.success_settles [OF assms(1) start assms(6-8)]
    by (auto simp: state_repository.settled_def [OF assms(1)] conj_commute)
qed

lemma ex_delete_served:
  "serve ex_validation (ex_app False JNull) (DeleteInstance ''i'') (ex_server [(''i'', ex_flat)] False) =
     (Inr \<lparr>ans_status = 200, ans_body = JObj [(''strategy_instance_id'', JStr ''i''), (''deleted'', JBool True),
        (''cancelled_entry_order'', JBool False), (''trash_file'', JStr ''trash/i.json'')]\<rparr>,
      (ex_server [(''i'', ex_flat)] False)\<lparr>sv_world := \<lparr>w_repo = [(''i'', ex_flat)], w_env = False, w_log = [TrashMove ''i'']\<rparr>\<rparr>)"
  unfolding ex_server_def ex_world_def ex_flat_def
  by (simp add: delete_strategy_instance_def on_world_def answer_def DeletedResponse_def operator_flow resolve_def
    load_snapshot_def new_catalog_answer_def ex_catalog_def ex_deployment_def flow stored_ops constructors)

theorem operator_success_settles_the_instance_witness:
  "pred_option (\<lambda>t. sirs_current_trade_cycle t = None \<and> no_recovery t) (map_of [(''i'', ex_flat)] ''i'')"
  using operator_success_settles_the_instance [OF ex_server_start(1-4) [OF ex_memory_inv(2) ex_good(2)] process_runs.start
      _ ex_delete_served]
  by simp

section \<open>Chart layers\<close>



end
