(* ===== verification/Resolver_Worker.thy ===== *)
theory Resolver_Worker
  imports Committed_Bar_Intake Uncertain_Resolver
begin

text \<open>
  \<open>runtime/uncertain_exchange_state_resolver/worker.py\<close>: the thread that polls for recovery markers.
  One tick of it is the program \<open>tick\<close> of \<open>Uncertain_Resolver\<close>; here are its life cycle and the
  interleaving of the thread with the callers of \<open>start\<close> and \<open>stop_once\<close>.

  The life cycle's states are those of the intake's worker, and so are the parts of \<open>start\<close> and
  \<open>stop_once\<close> under the lifecycle lock (\<open>worker_start\<close>, \<open>stop_begin\<close>); the wake event between the
  announcement of a stop and the join is this worker's own.
\<close>

section \<open>The constructor\<close>

text \<open>The sign of the polling interval is all that matters of it: \<open>None\<close> for a value that is no number.\<close>

definition new_resolver_worker :: "int option \<Rightarrow> unit res" where
  "new_resolver_worker poll_interval_sign =
     (case poll_interval_sign of
        None \<Rightarrow> Inl (ValueError ''poll_interval_seconds must be a positive number'')
      | Some sign \<Rightarrow>
          if sign \<le> 0 then Inl (ValueError ''poll_interval_seconds must be a positive number'') else Inr ())"

section \<open>The thread\<close>

text \<open>Where the thread is: not there, at the head of its loop, about to list the pending instances, in the
  loop of a tick with the instances left, inside one attempt, waiting for the wake event, ended.\<close>

datatype resolver_thread =
    NoResolver | Checking | Listing | Attempting "string list" | InAttempt string "string list" | Waiting | Exited

text \<open>Where the one caller inside \<open>stop_once\<close> is: none, about to set the wake event, joining.\<close>

datatype stop_phase = NoStop | Announced | Joining

record resolver_worker =
  rw_state :: worker_state
  rw_wake :: bool
  rw_thread :: resolver_thread
  rw_stop :: stop_phase
  rw_attempted :: "string list"

text \<open>\<open>rw_attempted\<close> is a history: the attempts begun.\<close>

inductive thread_step :: "resolver_worker \<Rightarrow> resolver_worker \<Rightarrow> bool" where
  check_return: "rw_thread t = Checking \<Longrightarrow> rw_state t \<noteq> RUNNING \<Longrightarrow> thread_step t (t\<lparr>rw_thread := Exited\<rparr>)"
| check_tick: "rw_thread t = Checking \<Longrightarrow> rw_state t = RUNNING \<Longrightarrow> thread_step t (t\<lparr>rw_thread := Listing\<rparr>)"
| listed: "rw_thread t = Listing \<Longrightarrow>
     thread_step t (t\<lparr>rw_thread := Attempting (dict_fromkeys (entry_ids @ close_ids))\<rparr>)"
| list_raises: "rw_thread t = Listing \<Longrightarrow> thread_step t (t\<lparr>rw_thread := Exited\<rparr>)"
| begin_attempt: "rw_thread t = Attempting (i # rest) \<Longrightarrow> rw_state t = RUNNING \<Longrightarrow>
     thread_step t (t\<lparr>rw_thread := InAttempt i rest, rw_attempted := rw_attempted t @ [i]\<rparr>)"
| abandon_tick: "rw_thread t = Attempting (i # rest) \<Longrightarrow> rw_state t \<noteq> RUNNING \<Longrightarrow>
     thread_step t (t\<lparr>rw_thread := Waiting\<rparr>)"
| end_attempt: "rw_thread t = InAttempt i rest \<Longrightarrow> thread_step t (t\<lparr>rw_thread := Attempting rest\<rparr>)"
| end_tick: "rw_thread t = Attempting [] \<Longrightarrow> thread_step t (t\<lparr>rw_thread := Waiting\<rparr>)"
| woken: "rw_thread t = Waiting \<Longrightarrow> rw_wake t \<Longrightarrow> thread_step t (t\<lparr>rw_thread := Checking, rw_wake := False\<rparr>)"
| timeout: "rw_thread t = Waiting \<Longrightarrow> \<not> rw_wake t \<Longrightarrow> thread_step t (t\<lparr>rw_thread := Checking\<rparr>)"

text \<open>An end of an attempt includes its failure, which the tick swallows; a listing that raises ends the
  thread, because nothing catches it.\<close>

inductive resolver_step :: "resolver_worker \<Rightarrow> resolver_worker \<Rightarrow> bool" where
  thread: "thread_step t t' \<Longrightarrow> resolver_step t t'"
| start: "worker_start starts (rw_state t) = (r, st) \<Longrightarrow>
     resolver_step t (t\<lparr>rw_state := st, rw_thread := (if r = Inr () then Checking else rw_thread t)\<rparr>)"
| stop: "rw_stop t = NoStop \<Longrightarrow> stop_begin (rw_state t) = (join, st) \<Longrightarrow>
     resolver_step t (t\<lparr>rw_state := st, rw_stop := (if join then Announced else NoStop)\<rparr>)"
| wake: "rw_stop t = Announced \<Longrightarrow> resolver_step t (t\<lparr>rw_wake := True, rw_stop := Joining\<rparr>)"
| joined: "rw_stop t = Joining \<Longrightarrow> rw_thread t = Exited \<Longrightarrow>
     resolver_step t (t\<lparr>rw_state := STOPPED, rw_stop := NoStop\<rparr>)"

definition initial_resolver :: resolver_worker where
  "initial_resolver = \<lparr>rw_state = NOT_STARTED, rw_wake = False, rw_thread = NoResolver, rw_stop = NoStop, rw_attempted = []\<rparr>"

inductive resolver_reachable :: "resolver_worker \<Rightarrow> bool" where
  init: "resolver_reachable initial_resolver"
| step: "resolver_reachable t \<Longrightarrow> resolver_step t t' \<Longrightarrow> resolver_reachable t'"

section \<open>Invariant\<close>

definition resolver_inv :: "resolver_worker \<Rightarrow> bool" where
  "resolver_inv t \<longleftrightarrow>
     (rw_stop t = NoStop \<longleftrightarrow> rw_state t \<noteq> STOPPING) \<and>
     (rw_state t = NOT_STARTED \<longrightarrow> rw_thread t = NoResolver) \<and>
     (rw_state t \<in> {RUNNING, STOPPING} \<longrightarrow> rw_thread t \<noteq> NoResolver) \<and>
     (rw_state t = STOPPED \<longrightarrow> rw_thread t \<in> {NoResolver, Exited})"

lemma thread_keeps:
  "thread_step t t' \<Longrightarrow> rw_state t' = rw_state t \<and> rw_stop t' = rw_stop t \<and> rw_thread t \<notin> {NoResolver, Exited} \<and>
     rw_thread t' \<noteq> NoResolver"
  by (cases rule: thread_step.cases) auto

lemma resolver_inv_step: "resolver_step t t' \<Longrightarrow> resolver_inv t \<Longrightarrow> resolver_inv t'"
proof (induction rule: resolver_step.induct)
  case (thread t t')
  with thread_keeps [OF thread(1)] show ?case by (auto simp: resolver_inv_def)
next
  case (start starts t r st)
  then show ?case by (auto simp: resolver_inv_def worker_start_def split: if_splits)
next
  case (stop t join st)
  then show ?case by (cases "rw_state t") (auto simp: resolver_inv_def stop_begin_def)
qed (auto simp: resolver_inv_def)

lemma resolver_reachable_inv: "resolver_reachable t \<Longrightarrow> resolver_inv t"
proof (induction rule: resolver_reachable.induct)
  case init
  then show ?case by (simp add: resolver_inv_def initial_resolver_def)
qed (rule resolver_inv_step)

section \<open>A stop ends the thread\<close>

text \<open>The steps the thread can still take once the state is no longer \<open>RUNNING\<close>.\<close>

fun steps_left :: "resolver_thread \<Rightarrow> nat" where
  "steps_left Listing = 4"
| "steps_left (InAttempt i rest) = 4"
| "steps_left (Attempting rest) = 3"
| "steps_left Waiting = 2"
| "steps_left Checking = 1"
| "steps_left thread = 0"

lemma stopping_thread_decreases:
  "thread_step t t' \<Longrightarrow> rw_state t \<noteq> RUNNING \<Longrightarrow>
     steps_left (rw_thread t') < steps_left (rw_thread t) \<and> rw_attempted t' = rw_attempted t"
  by (cases rule: thread_step.cases) auto

lemma thread_progress: "rw_thread t \<notin> {NoResolver, Exited} \<Longrightarrow> \<exists>t'. thread_step t t'"
proof (cases "rw_thread t")
  case Checking
  then show ?thesis by (cases "rw_state t = RUNNING") (auto intro: thread_step.intros)
next
  case (Attempting ids)
  then show ?thesis
    by (cases ids; cases "rw_state t = RUNNING") (auto intro: thread_step.intros)
next
  case Waiting
  then show ?thesis by (cases "rw_wake t") (auto intro: thread_step.intros)
qed (auto intro: thread_step.intros)

lemma stopping_thread_bounded:
  "(thread_step ^^ n) t t' \<Longrightarrow> rw_state t \<noteq> RUNNING \<Longrightarrow>
     n + steps_left (rw_thread t') \<le> steps_left (rw_thread t) \<and> rw_state t' = rw_state t \<and> rw_stop t' = rw_stop t"
proof (induction n arbitrary: t')
  case (Suc n)
  from Suc.prems(1) obtain u where u: "(thread_step ^^ n) t u" "thread_step u t'" by auto
  note IH = Suc.IH [OF u(1) Suc.prems(2)]
  with stopping_thread_decreases [OF u(2)] thread_keeps [OF u(2)] Suc.prems(2) show ?case by auto
qed simp

text \<open>Left alone, the thread reaches its end.\<close>

lemma stopping_thread_exits:
  assumes "rw_state t \<noteq> RUNNING" and "rw_thread t \<noteq> NoResolver"
  shows "\<exists>n t'. (thread_step ^^ n) t t' \<and> rw_thread t' = Exited"
  using assms
proof (induction "steps_left (rw_thread t)" arbitrary: t rule: less_induct)
  case less
  show ?case
  proof (cases "rw_thread t = Exited")
    case True
    have "(thread_step ^^ 0) t t" by simp
    with True show ?thesis by blast
  next
    case False
    with less.prems thread_progress obtain u where u: "thread_step t u" by blast
    from less.hyps [of u] stopping_thread_decreases [OF u less.prems(1)] thread_keeps [OF u] less.prems(1)
    obtain n t' where "(thread_step ^^ n) u t'" "rw_thread t' = Exited" by auto
    with u have "(thread_step ^^ Suc n) t t'" by (auto simp: relpowp_Suc_right simp del: relpowp.simps intro: relpowp_Suc_I2)
    with \<open>rw_thread t' = Exited\<close> show ?thesis by blast
  qed
qed

text \<open>No other step undoes a stop.\<close>

lemma stop_is_final:
  "resolver_step\<^sup>*\<^sup>* t t' \<Longrightarrow> resolver_inv t \<Longrightarrow> rw_state t \<in> {STOPPING, STOPPED} \<Longrightarrow>
     rw_state t' \<in> {STOPPING, STOPPED} \<and> rw_attempted t' = rw_attempted t \<and> resolver_inv t'"
proof (induction rule: rtranclp_induct)
  case (step u v)
  then have u: "rw_state u \<in> {STOPPING, STOPPED}" "rw_attempted u = rw_attempted t" "resolver_inv u" by auto
  from step(2) u have "rw_state v \<in> {STOPPING, STOPPED} \<and> rw_attempted v = rw_attempted u"
  proof (cases rule: resolver_step.cases)
    case thread
    with stopping_thread_decreases [OF thread] thread_keeps [OF thread] u(1) show ?thesis by auto
  qed (auto simp: worker_start_def stop_begin_def split: if_splits worker_state.splits)
  with u resolver_inv_step [OF step(2)] show ?case by simp
qed simp

text \<open>
  Property C35: a stop of the resolver's worker terminates. Once the caller of \<open>stop_once\<close> waits for
  the thread, the thread takes at most four more steps, whatever it was doing, and can always take
  the next one until it ends, after which the caller finishes with the state \<open>STOPPED\<close>. From then on
  no further attempt is begun and the state never becomes \<open>RUNNING\<close> again; when it is \<open>STOPPED\<close> there is
  no thread.
\<close>

theorem stopped_worker_terminates:
  assumes "resolver_reachable t" and "rw_stop t = Joining"
  shows "(\<forall>n t'. (thread_step ^^ n) t t' \<longrightarrow>
      n \<le> 4 \<and> (rw_thread t' \<noteq> Exited \<longrightarrow> (\<exists>t''. thread_step t' t''))) \<and>
    (\<exists>n t' t''. (thread_step ^^ n) t t' \<and> resolver_step t' t'' \<and> rw_state t'' = STOPPED \<and> rw_stop t'' = NoStop) \<and>
    (\<forall>t'. resolver_step\<^sup>*\<^sup>* t t' \<longrightarrow> rw_state t' \<noteq> RUNNING \<and> rw_attempted t' = rw_attempted t \<and>
      (rw_state t' = STOPPED \<longrightarrow> rw_thread t' \<in> {NoResolver, Exited}))"
proof (intro conjI allI impI)
  note inv = resolver_reachable_inv [OF assms(1)]
  with assms(2) have st: "rw_state t = STOPPING" "rw_thread t \<noteq> NoResolver" by (auto simp: resolver_inv_def)
  have bound: "steps_left (rw_thread t) \<le> 4" by (cases "rw_thread t") auto
  { fix n t' assume run: "(thread_step ^^ n) t t'"
    from stopping_thread_bounded [OF run] st bound show "n \<le> 4" by auto
    assume "rw_thread t' \<noteq> Exited"
    moreover have "rw_thread t' \<noteq> NoResolver"
      using run st(2) by (cases n) (auto dest: thread_keeps)
    ultimately show "\<exists>t''. thread_step t' t''" by (intro thread_progress) simp }
  from stopping_thread_exits [of t] st obtain n t' where run: "(thread_step ^^ n) t t'" "rw_thread t' = Exited" by auto
  from stopping_thread_bounded [OF run(1)] st assms(2) run(2)
  have "resolver_step t' (t'\<lparr>rw_state := STOPPED, rw_stop := NoStop\<rparr>)" by (intro resolver_step.joined) auto
  with run(1) show "\<exists>n t' t''. (thread_step ^^ n) t t' \<and> resolver_step t' t'' \<and> rw_state t'' = STOPPED \<and> rw_stop t'' = NoStop"
    by fastforce
  fix t' assume "resolver_step\<^sup>*\<^sup>* t t'"
  from stop_is_final [OF this inv] st
  have "rw_state t' \<in> {STOPPING, STOPPED}" "rw_attempted t' = rw_attempted t" "resolver_inv t'" by auto
  then show "rw_state t' \<noteq> RUNNING" "rw_attempted t' = rw_attempted t"
    "rw_state t' = STOPPED \<Longrightarrow> rw_thread t' \<in> {NoResolver, Exited}" by (auto simp: resolver_inv_def)
qed

definition ex_joining :: resolver_worker where
  "ex_joining = \<lparr>rw_state = STOPPING, rw_wake = True, rw_thread = Listing, rw_stop = Joining, rw_attempted = []\<rparr>"

lemma ex_joining_reachable: "resolver_reachable ex_joining"
proof -
  let ?run = "initial_resolver\<lparr>rw_state := RUNNING, rw_thread := Checking\<rparr>"
  have 1: "resolver_step initial_resolver ?run"
    using resolver_step.start [of True initial_resolver "Inr ()" RUNNING] by (simp add: worker_start_def initial_resolver_def)
  have 2: "resolver_step ?run (?run\<lparr>rw_thread := Listing\<rparr>)"
    by (intro resolver_step.thread thread_step.check_tick) simp_all
  have 3: "resolver_step (?run\<lparr>rw_thread := Listing\<rparr>)
      (?run\<lparr>rw_thread := Listing, rw_state := STOPPING, rw_stop := Announced\<rparr>)"
    using resolver_step.stop [of "?run\<lparr>rw_thread := Listing\<rparr>" True STOPPING] by (simp add: stop_begin_def initial_resolver_def)
  have 4: "resolver_step (?run\<lparr>rw_thread := Listing, rw_state := STOPPING, rw_stop := Announced\<rparr>) ex_joining"
    using resolver_step.wake [of "?run\<lparr>rw_thread := Listing, rw_state := STOPPING, rw_stop := Announced\<rparr>"]
    by (simp add: ex_joining_def initial_resolver_def)
  show ?thesis
    by (rule resolver_reachable.step [OF resolver_reachable.step [OF resolver_reachable.step [OF resolver_reachable.step
        [OF resolver_reachable.init 1] 2] 3] 4])
qed

theorem stopped_worker_terminates_witness:
  "\<exists>n t' t''. (thread_step ^^ n) ex_joining t' \<and> resolver_step t' t'' \<and> rw_state t'' = STOPPED \<and> rw_stop t'' = NoStop"
  using stopped_worker_terminates [OF ex_joining_reachable] by (simp add: ex_joining_def)

end
