(* ===== verification/Processing_Journal.thy ===== *)
theory Processing_Journal
  imports World Jsonl_Repository "HOL-Library.Sublist"
begin

text \<open>
  \<open>utility/processing_journal\<close>: the event model (\<open>models.py\<close>) and the best-effort JSONL adapter
  (\<open>jsonl_adapter.py\<close>). The records the orchestrators hand to the journal are values of the world's
  log (\<open>journal_record\<close>); here each becomes an event, a line of JSON and an append to a file whose
  writes may fail.

  The identifier and timestamp factories and the name and text of an exception are parameters:
  \<open>uuid4\<close>, the clock and \<open>str\<close> of an exception are not the program's own.
\<close>

section \<open>Events\<close>

datatype ProcessingJournalEventType =
    COMMITTED_BAR_ORCHESTRATION_STARTED | COMMITTED_BAR_ORCHESTRATION_FAILED
  | STRATEGY_CYCLE_DISPATCH_SUCCEEDED | STRATEGY_CYCLE_DISPATCH_FAILED
  | COMMITTED_BAR_ORCHESTRATION_COMPLETED | LIVE_ENTRY_EVALUATED | ENTRY_PACKAGE_APPLIED | ENTRY_PACKAGE_DECLINED
  | ENTRY_CYCLE_ENDED | TRADE_CYCLE_CLOSED | TRADE_CYCLE_OPENED | OPEN_TRADE_EVALUATED | PROTECTION_APPLIED
  | ENTRY_REMAINDER_CANCELLED | ENTRY_REMAINDER_CANCEL_FAILED

fun event_type_value :: "ProcessingJournalEventType \<Rightarrow> string" where
  "event_type_value COMMITTED_BAR_ORCHESTRATION_STARTED = ''committed_bar_orchestration_started''"
| "event_type_value COMMITTED_BAR_ORCHESTRATION_FAILED = ''committed_bar_orchestration_failed''"
| "event_type_value STRATEGY_CYCLE_DISPATCH_SUCCEEDED = ''strategy_cycle_dispatch_succeeded''"
| "event_type_value STRATEGY_CYCLE_DISPATCH_FAILED = ''strategy_cycle_dispatch_failed''"
| "event_type_value COMMITTED_BAR_ORCHESTRATION_COMPLETED = ''committed_bar_orchestration_completed''"
| "event_type_value LIVE_ENTRY_EVALUATED = ''live_entry_evaluated''"
| "event_type_value ENTRY_PACKAGE_APPLIED = ''entry_package_applied''"
| "event_type_value ENTRY_PACKAGE_DECLINED = ''entry_package_declined''"
| "event_type_value ENTRY_CYCLE_ENDED = ''entry_cycle_ended''"
| "event_type_value TRADE_CYCLE_CLOSED = ''trade_cycle_closed''"
| "event_type_value TRADE_CYCLE_OPENED = ''trade_cycle_opened''"
| "event_type_value OPEN_TRADE_EVALUATED = ''open_trade_evaluated''"
| "event_type_value PROTECTION_APPLIED = ''protection_applied''"
| "event_type_value ENTRY_REMAINDER_CANCELLED = ''entry_remainder_cancelled''"
| "event_type_value ENTRY_REMAINDER_CANCEL_FAILED = ''entry_remainder_cancel_failed''"

record ProcessingJournalEvent =
  pje_schema_version :: int
  pje_event_id :: string
  pje_event_type :: ProcessingJournalEventType
  pje_occurred_at :: string
  pje_source :: string
  pje_severity :: string
  pje_payload :: json_object
  pje_diagnostics :: json_object
  pje_strategy_instance_id :: "string option"

definition require_text :: "string \<Rightarrow> string \<Rightarrow> unit res" where
  "require_text name v = (if nonblank v then Inr () else Inl (ValueError (name @ '' must be a non-empty string'')))"

text \<open>The payloads are JSON values already, so freezing them never fails.\<close>

definition new_ProcessingJournalEvent :: "ProcessingJournalEvent \<Rightarrow> ProcessingJournalEvent res" where
  "new_ProcessingJournalEvent e =
     checked [(if pje_schema_version e < 1 then Inl (ValueError ''schema_version must be positive'') else Inr ()),
              require_text ''event_id'' (pje_event_id e),
              require_text ''occurred_at'' (pje_occurred_at e),
              require_text ''source'' (pje_source e),
              require_text ''severity'' (pje_severity e),
              (case pje_strategy_instance_id e of
                 None \<Rightarrow> Inr ()
               | Some i \<Rightarrow> if nonblank i then Inr ()
                          else Inl (ValueError ''strategy_instance_id must be non-empty when supplied''))]
       (e\<lparr>pje_payload := freeze_object (pje_payload e), pje_diagnostics := freeze_object (pje_diagnostics e)\<rparr>)"

definition to_dict :: "ProcessingJournalEvent \<Rightarrow> json" where
  "to_dict e =
     JObj ([(''schema_version'', JInt (pje_schema_version e)), (''event_id'', JStr (pje_event_id e)),
            (''event_type'', JStr (event_type_value (pje_event_type e))), (''occurred_at'', JStr (pje_occurred_at e)),
            (''source'', JStr (pje_source e)), (''severity'', JStr (pje_severity e)),
            (''payload'', JObj (pje_payload e)), (''diagnostics'', JObj (pje_diagnostics e))] @
           (case pje_strategy_instance_id e of None \<Rightarrow> [] | Some i \<Rightarrow> [(''strategy_instance_id'', JStr i)]))"

section \<open>The methods of the journal\<close>

text \<open>What a method hands to \<open>_record\<close>.\<close>

record journal_entry =
  je_event_type :: ProcessingJournalEventType
  je_severity :: string
  je_payload :: json_object
  je_diagnostics :: json_object
  je_strategy_instance_id :: "string option"

definition opt_str :: "string option \<Rightarrow> json" where
  "opt_str v = (case v of None \<Rightarrow> JNull | Some s \<Rightarrow> JStr s)"

definition opt_int :: "int option \<Rightarrow> json" where
  "opt_int v = (case v of None \<Rightarrow> JNull | Some n \<Rightarrow> JInt n)"

definition about_instance :: "ProcessingJournalEventType \<Rightarrow> string \<Rightarrow> string \<Rightarrow> json_object \<Rightarrow> journal_entry" where
  "about_instance event_type severity strategy_instance_id payload =
     \<lparr>je_event_type = event_type, je_severity = severity, je_payload = payload, je_diagnostics = [],
      je_strategy_instance_id = Some strategy_instance_id\<rparr>"

definition bar_payload :: "CommittedBarEvent \<Rightarrow> json_object" where
  "bar_payload event =
     [(''instrument'', JStr (cbe_instrument event)), (''timeframe'', JStr (cbe_timeframe event)),
      (''open_time_ms'', JInt (cbe_open_time_ms event))]"

definition orchestration_started :: "CommittedBarEvent \<Rightarrow> journal_entry" where
  "orchestration_started event =
     \<lparr>je_event_type = COMMITTED_BAR_ORCHESTRATION_STARTED, je_severity = ''info'', je_payload = bar_payload event,
      je_diagnostics = [], je_strategy_instance_id = None\<rparr>"

definition orchestration_failed :: "CommittedBarEvent \<Rightarrow> string \<Rightarrow> string \<Rightarrow> string \<Rightarrow> journal_entry" where
  "orchestration_failed event stage error_type error_message =
     \<lparr>je_event_type = COMMITTED_BAR_ORCHESTRATION_FAILED, je_severity = ''error'',
      je_payload = bar_payload event @ [(''stage'', JStr stage)],
      je_diagnostics = [(''error_type'', JStr error_type), (''error_message'', JStr error_message)],
      je_strategy_instance_id = None\<rparr>"

fun dispatch_status_value :: "StrategyCycleDispatchStatus \<Rightarrow> string" where
  "dispatch_status_value SUCCEEDED = ''succeeded''"
| "dispatch_status_value FAILED = ''failed''"

definition strategy_cycle_outcome :: "CommittedBarEvent \<Rightarrow> StrategyCycleDispatchOutcome \<Rightarrow> journal_entry" where
  "strategy_cycle_outcome event outcome =
     (let succeeded = (out_status outcome = SUCCEEDED) in
      \<lparr>je_event_type = (if succeeded then STRATEGY_CYCLE_DISPATCH_SUCCEEDED else STRATEGY_CYCLE_DISPATCH_FAILED),
       je_severity = (if succeeded then ''info'' else ''error''),
       je_payload = bar_payload event @ [(''status'', JStr (dispatch_status_value (out_status outcome)))],
       je_diagnostics = (if succeeded then []
          else [(''error_code'', opt_str (out_error_code outcome)), (''error_message'', opt_str (out_error_message outcome))]),
       je_strategy_instance_id = Some (out_strategy_instance_id outcome)\<rparr>)"

definition orchestration_completed :: "CommittedBarEvent \<Rightarrow> CommittedBarOrchestrationResult \<Rightarrow> journal_entry" where
  "orchestration_completed event result =
     \<lparr>je_event_type = COMMITTED_BAR_ORCHESTRATION_COMPLETED,
      je_severity = (if cbr_failed_count result = 0 then ''info'' else ''warning''),
      je_payload = bar_payload event @
        [(''selected_count'', JInt (cbr_selected_count result)), (''attempted_count'', JInt (cbr_attempted_count result)),
         (''succeeded_count'', JInt (cbr_succeeded_count result)), (''failed_count'', JInt (cbr_failed_count result))],
      je_diagnostics = [], je_strategy_instance_id = None\<rparr>"

definition live_entry_evaluated :: "string \<Rightarrow> string \<Rightarrow> string \<Rightarrow> int \<Rightarrow> json \<Rightarrow> journal_entry" where
  "live_entry_evaluated strategy_instance_id instrument timeframe bar_open_time_ms desired_entry =
     about_instance LIVE_ENTRY_EVALUATED ''info'' strategy_instance_id
       [(''instrument'', JStr instrument), (''timeframe'', JStr timeframe),
        (''bar_open_time_ms'', JInt bar_open_time_ms), (''desired_entry'', desired_entry)]"

definition entry_package_applied ::
    "string \<Rightarrow> string \<Rightarrow> int \<Rightarrow> string option \<Rightarrow> string option \<Rightarrow> string option \<Rightarrow> string option \<Rightarrow> string option \<Rightarrow> string option
       \<Rightarrow> journal_entry" where
  "entry_package_applied strategy_instance_id trade_cycle_id bar_open_time_ms trigger_price stop_loss take_profit quantity
     order_link_id order_id =
     about_instance ENTRY_PACKAGE_APPLIED ''info'' strategy_instance_id
       [(''trade_cycle_id'', JStr trade_cycle_id), (''bar_open_time_ms'', JInt bar_open_time_ms),
        (''trigger_price'', opt_str trigger_price), (''stop_loss'', opt_str stop_loss),
        (''take_profit'', opt_str take_profit), (''quantity'', opt_str quantity),
        (''order_link_id'', opt_str order_link_id), (''order_id'', opt_str order_id)]"

definition entry_package_declined :: "string \<Rightarrow> string \<Rightarrow> int \<Rightarrow> string \<Rightarrow> string \<Rightarrow> string \<Rightarrow> journal_entry" where
  "entry_package_declined strategy_instance_id trade_cycle_id bar_open_time_ms risk_multiplier decline_reason
     decline_message =
     about_instance ENTRY_PACKAGE_DECLINED ''warning'' strategy_instance_id
       [(''trade_cycle_id'', JStr trade_cycle_id), (''bar_open_time_ms'', JInt bar_open_time_ms),
        (''risk_multiplier'', JStr risk_multiplier), (''decline_reason'', JStr decline_reason),
        (''decline_message'', JStr decline_message)]"

definition entry_cycle_ended :: "string \<Rightarrow> string \<Rightarrow> int option \<Rightarrow> string \<Rightarrow> journal_entry" where
  "entry_cycle_ended strategy_instance_id trade_cycle_id bar_open_time_ms reason =
     about_instance ENTRY_CYCLE_ENDED ''info'' strategy_instance_id
       [(''trade_cycle_id'', JStr trade_cycle_id), (''bar_open_time_ms'', opt_int bar_open_time_ms),
        (''reason'', JStr reason)]"

definition trade_cycle_closed ::
    "string \<Rightarrow> string \<Rightarrow> int option \<Rightarrow> string \<Rightarrow> string \<Rightarrow> string option \<Rightarrow> string option \<Rightarrow> journal_entry" where
  "trade_cycle_closed strategy_instance_id trade_cycle_id bar_open_time_ms reason order_id order_link_id
     parent_order_link_id =
     about_instance TRADE_CYCLE_CLOSED ''info'' strategy_instance_id
       [(''trade_cycle_id'', JStr trade_cycle_id), (''bar_open_time_ms'', opt_int bar_open_time_ms),
        (''reason'', JStr reason), (''order_id'', JStr order_id), (''order_link_id'', opt_str order_link_id),
        (''parent_order_link_id'', opt_str parent_order_link_id)]"

definition entry_remainder_cancelled :: "string \<Rightarrow> string \<Rightarrow> int \<Rightarrow> string \<Rightarrow> string option \<Rightarrow> journal_entry" where
  "entry_remainder_cancelled strategy_instance_id trade_cycle_id bar_open_time_ms status executed_quantity =
     about_instance ENTRY_REMAINDER_CANCELLED ''info'' strategy_instance_id
       [(''trade_cycle_id'', JStr trade_cycle_id), (''bar_open_time_ms'', JInt bar_open_time_ms),
        (''status'', JStr status), (''executed_quantity'', opt_str executed_quantity)]"

definition entry_remainder_cancel_failed :: "string \<Rightarrow> string \<Rightarrow> int \<Rightarrow> string \<Rightarrow> journal_entry" where
  "entry_remainder_cancel_failed strategy_instance_id trade_cycle_id bar_open_time_ms error =
     about_instance ENTRY_REMAINDER_CANCEL_FAILED ''warning'' strategy_instance_id
       [(''trade_cycle_id'', JStr trade_cycle_id), (''bar_open_time_ms'', JInt bar_open_time_ms), (''error'', JStr error)]"

definition trade_cycle_opened ::
    "string \<Rightarrow> string \<Rightarrow> int option \<Rightarrow> int \<Rightarrow> string \<Rightarrow> string \<Rightarrow> string option \<Rightarrow> journal_entry" where
  "trade_cycle_opened strategy_instance_id trade_cycle_id bar_open_time_ms first_fill_at_ms average_entry_price
     entry_order_link_id entry_order_id =
     about_instance TRADE_CYCLE_OPENED ''info'' strategy_instance_id
       [(''trade_cycle_id'', JStr trade_cycle_id), (''bar_open_time_ms'', opt_int bar_open_time_ms),
        (''first_fill_at_ms'', JInt first_fill_at_ms), (''average_entry_price'', JStr average_entry_price),
        (''entry_order_link_id'', JStr entry_order_link_id), (''entry_order_id'', opt_str entry_order_id)]"

definition open_trade_evaluated ::
    "string \<Rightarrow> string \<Rightarrow> string \<Rightarrow> int \<Rightarrow> string \<Rightarrow> string \<Rightarrow> json \<Rightarrow> json \<Rightarrow> journal_entry" where
  "open_trade_evaluated strategy_instance_id instrument timeframe bar_open_time_ms trade_cycle_id side desired_protection
     close_signal =
     about_instance OPEN_TRADE_EVALUATED ''info'' strategy_instance_id
       [(''instrument'', JStr instrument), (''timeframe'', JStr timeframe), (''bar_open_time_ms'', JInt bar_open_time_ms),
        (''trade_cycle_id'', JStr trade_cycle_id), (''side'', JStr side), (''desired_protection'', desired_protection),
        (''close_signal'', close_signal)]"

definition protection_applied :: "string \<Rightarrow> string \<Rightarrow> int \<Rightarrow> json \<Rightarrow> json \<Rightarrow> string \<Rightarrow> json \<Rightarrow> json \<Rightarrow> journal_entry" where
  "protection_applied strategy_instance_id trade_cycle_id bar_open_time_ms requested_protection confirmed_protection
     position_quantity stop_order take_order =
     about_instance PROTECTION_APPLIED ''info'' strategy_instance_id
       [(''trade_cycle_id'', JStr trade_cycle_id), (''bar_open_time_ms'', JInt bar_open_time_ms),
        (''requested_protection'', requested_protection), (''confirmed_protection'', confirmed_protection),
        (''position_quantity'', JStr position_quantity), (''stop_order'', stop_order), (''take_order'', take_order)]"

section \<open>What the orchestrators hand over\<close>

text \<open>\<open>dataclasses.asdict\<close> of the records the orchestrators pass on.\<close>

definition asdict_desired_entry :: "DesiredEntry \<Rightarrow> json" where
  "asdict_desired_entry d =
     JObj [(''side'', JStr (de_side d)), (''source_plan_bar_open_time_ms'', JInt (de_source_plan_bar_open_time_ms d)),
           (''planned_entry_price'', JStr (de_planned_entry_price d)),
           (''initial_stop_price'', JStr (de_initial_stop_price d)), (''initial_take_price'', JStr (de_initial_take_price d)),
           (''locked_exit_profile'', JStr (de_locked_exit_profile d))]"

definition asdict_protection :: "string \<Rightarrow> string option \<Rightarrow> json" where
  "asdict_protection stop_price take_price = JObj [(''stop_price'', JStr stop_price), (''take_price'', opt_str take_price)]"

definition asdict_close_signal :: "CloseSignal \<Rightarrow> json" where
  "asdict_close_signal s =
     JObj [(''active'', JBool (cs_active s)), (''reason'', opt_str (cs_reason s)),
           (''component_id'', opt_str (cs_component_id s)), (''layer'', opt_str (cs_layer s))]"

definition asdict_order :: "ProtectionOrder \<Rightarrow> json" where
  "asdict_order r = JObj [(''order_id'', JStr (po_order_id r)), (''trigger_price'', JStr (po_trigger_price r))]"

fun stage_value :: "upstream_stage \<Rightarrow> string" where
  "stage_value DEPLOYMENT_CATALOG = ''deployment_catalog''"
| "stage_value DEPLOYMENT_SELECTION = ''deployment_selection''"

text \<open>The call each record of the world's log stands for.\<close>

fun journal_call :: "(exn \<Rightarrow> string) \<Rightarrow> (exn \<Rightarrow> string) \<Rightarrow> journal_record \<Rightarrow> journal_entry" where
  "journal_call exn_name exn_text (JTradeCycleOpened i cid bar t price link order) = trade_cycle_opened i cid bar t price link order"
| "journal_call exn_name exn_text (JTradeCycleClosed c bar) =
     trade_cycle_closed (tcc_strategy_instance_id c) (tcc_trade_cycle_id c) bar (tcc_reason c) (tcc_order_id c)
       (tcc_order_link_id c) (tcc_parent_order_link_id c)"
| "journal_call exn_name exn_text (JEntryCycleEnded i cid bar reason) = entry_cycle_ended i cid bar reason"
| "journal_call exn_name exn_text (JEntryPackageApplied c bar) =
     entry_package_applied (eac_strategy_instance_id c) (eac_trade_cycle_id c) bar (eac_trigger_price c) (eac_stop_loss c)
       (eac_take_profit c) (eac_quantity c) (eac_order_link_id c) (eac_order_id c)"
| "journal_call exn_name exn_text (JEntryPackageDeclined d bar risk) =
     entry_package_declined (edo_strategy_instance_id d) (edo_trade_cycle_id d) bar risk (edo_decline_reason d)
       (edo_decline_message d)"
| "journal_call exn_name exn_text (JProtectionApplied command c bar) =
     protection_applied (pac_strategy_instance_id c) (pac_trade_cycle_id c) bar
       (asdict_protection (dp_stop_price (apc_desired_protection command)) (dp_take_price (apc_desired_protection command)))
       (asdict_protection (dp_stop_price (pac_confirmed_protection c)) (dp_take_price (pac_confirmed_protection c)))
       (pos_quantity (pac_protection_orders c)) (asdict_order (pos_stop (pac_protection_orders c)))
       (asdict_order (pos_take (pac_protection_orders c)))"
| "journal_call exn_name exn_text (JLiveEntryEvaluated i instrument timeframe bar desired) =
     live_entry_evaluated i instrument timeframe bar
       (case desired of None \<Rightarrow> JNull | Some d \<Rightarrow> asdict_desired_entry d)"
| "journal_call exn_name exn_text (JOpenTradeEvaluated i instrument timeframe bar cid side protection signal) =
     open_trade_evaluated i instrument timeframe bar cid side
       (asdict_protection (edpt_stop_price protection) (edpt_take_price protection)) (asdict_close_signal signal)"
| "journal_call exn_name exn_text (JEntryRemainderCancelled i cid bar status quantity) =
     entry_remainder_cancelled i cid bar status quantity"
| "journal_call exn_name exn_text (JEntryRemainderCancelFailed i cid bar exc) =
     entry_remainder_cancel_failed i cid bar (exn_name exc)"
| "journal_call exn_name exn_text (JOrchestrationStarted event) = orchestration_started event"
| "journal_call exn_name exn_text (JStrategyCycleOutcome event outcome) = strategy_cycle_outcome event outcome"
| "journal_call exn_name exn_text (JOrchestrationCompleted event result) = orchestration_completed event result"
| "journal_call exn_name exn_text (JOrchestrationFailed event stage exc) =
     orchestration_failed event (stage_value stage) (exn_name exc) (exn_text exc)"

section \<open>Writing\<close>

definition JOURNAL_SCHEMA_VERSION :: int where "JOURNAL_SCHEMA_VERSION = 2"

definition JOURNAL_SOURCE :: string where "JOURNAL_SOURCE = ''strategy_runtime.committed_bar_orchestrator''"

record journal_file =
  jf_bytes :: string
  jf_failure_count :: nat

text \<open>One call of \<open>_record\<close> finds the answers of the two factories and the fate of its physical write.\<close>

record journal_luck =
  jl_event_id :: "string res"
  jl_occurred_at :: "string res"
  jl_append :: append_outcome

definition journal_event :: "journal_luck \<Rightarrow> journal_entry \<Rightarrow> ProcessingJournalEvent res" where
  "journal_event luck entry =
     res_bind (jl_event_id luck) (\<lambda>event_id.
     res_bind (jl_occurred_at luck) (\<lambda>occurred_at.
     new_ProcessingJournalEvent
       \<lparr>pje_schema_version = JOURNAL_SCHEMA_VERSION, pje_event_id = event_id, pje_event_type = je_event_type entry,
        pje_occurred_at = occurred_at, pje_source = JOURNAL_SOURCE, pje_severity = je_severity entry,
        pje_payload = je_payload entry, pje_diagnostics = je_diagnostics entry,
        pje_strategy_instance_id = je_strategy_instance_id entry\<rparr>))"

definition journal_line :: "ProcessingJournalEvent \<Rightarrow> string" where
  "journal_line event = json_dumps (to_dict event)"

text \<open>The append under the lock: make the directory, open, write the record and a line feed, flush, sync.\<close>

definition append_line :: "append_outcome \<Rightarrow> string \<Rightarrow> string \<Rightarrow> unit res \<times> string" where
  "append_line outcome line bytes =
     (let data = utf8_encode (line @ [CHR 10]) in
      case outcome of
        Appended \<Rightarrow> (Inr (), bytes @ data)
      | MkdirFailed \<Rightarrow> (Inl (OSError ''mkdir''), bytes)
      | WriteFailedAfter n \<Rightarrow> (Inl (OSError ''write''), bytes @ take n data))"

definition record_attempt :: "journal_luck \<Rightarrow> journal_entry \<Rightarrow> string \<Rightarrow> unit res \<times> string" where
  "record_attempt luck entry bytes =
     (case journal_event luck entry of
        Inl e \<Rightarrow> (Inl e, bytes)
      | Inr event \<Rightarrow> append_line (jl_append luck) (journal_line event) bytes)"

definition journal_write :: "journal_luck \<Rightarrow> journal_entry \<Rightarrow> journal_file \<Rightarrow> journal_file" where
  "journal_write luck entry f =
     (case record_attempt luck entry (jf_bytes f) of
        (Inr _, bytes) \<Rightarrow> f\<lparr>jf_bytes := bytes\<rparr>
      | (Inl _, bytes) \<Rightarrow> f\<lparr>jf_bytes := bytes, jf_failure_count := jf_failure_count f + 1\<rparr>)"

section \<open>Every record can be written as one line\<close>

lemma opt_ok [simp]: "json_ok h (opt_str v)" "json_ok h (opt_int n)"
  by (simp_all add: opt_str_def opt_int_def split: option.splits)

lemmas journal_methods = about_instance_def bar_payload_def orchestration_started_def orchestration_failed_def
  strategy_cycle_outcome_def orchestration_completed_def live_entry_evaluated_def entry_package_applied_def
  entry_package_declined_def entry_cycle_ended_def trade_cycle_closed_def entry_remainder_cancelled_def
  entry_remainder_cancel_failed_def trade_cycle_opened_def open_trade_evaluated_def protection_applied_def
  asdict_desired_entry_def asdict_protection_def asdict_close_signal_def asdict_order_def

lemma journal_call_ok:
  "json_ok h (JObj (je_payload (journal_call exn_name exn_text r)))"
  "json_ok h (JObj (je_diagnostics (journal_call exn_name exn_text r)))"
  by (cases r; simp add: journal_methods Let_def split: option.splits)+

lemma new_event_Inr: "new_ProcessingJournalEvent e = Inr e' \<Longrightarrow> e' = e"
  by (auto simp: new_ProcessingJournalEvent_def checked_iff)

lemma journal_event_ok:
  assumes "journal_event luck (journal_call exn_name exn_text r) = Inr e"
  shows "json_ok h (to_dict e)"
proof -
  from assms have "pje_payload e = je_payload (journal_call exn_name exn_text r)"
    "pje_diagnostics e = je_diagnostics (journal_call exn_name exn_text r)"
    by (auto simp: journal_event_def res_bind_eq_Inr dest!: new_event_Inr)
  with journal_call_ok [of h exn_name exn_text r] show ?thesis
    by (simp add: to_dict_def split: option.splits)
qed

lemma journal_line_graphic:
  assumes "journal_event luck (journal_call exn_name exn_text r) = Inr e"
  shows "CHR 10 \<notin> set (journal_line e)"
proof -
  have "graphic (journal_line e)"
    unfolding journal_line_def json_dumps_def
    by (rule json_text_graphic [of "\<lambda>t. t"]) (rule json_ok_norm [OF journal_event_ok [OF assms]])
  then show ?thesis by (auto simp: graphic_def)
qed

lemma journal_line_read:
  assumes "journal_event luck (journal_call exn_name exn_text r) = Inr e"
  shows "json_loads (plain ft) (journal_line e) = Some (json_norm (to_dict e))"
  unfolding journal_line_def by (rule plain.json_loads_dumps) (rule journal_event_ok [OF assms])

section \<open>Reading the journal\<close>

text \<open>A reader of the file: text, lines, JSON.\<close>

definition journal_read :: "(string \<Rightarrow> string) \<Rightarrow> string \<Rightarrow> json list option" where
  "journal_read ft bytes =
     Option.bind (utf8_decode bytes) (\<lambda>t. those (map (json_loads (plain ft)) (butlast (split_on (CHR 10) t))))"

text \<open>A journal whose last line is complete.\<close>

definition whole_lines :: "string \<Rightarrow> bool" where
  "whole_lines bytes \<longleftrightarrow> (\<exists>t. bytes = utf8_encode t \<and> (t = [] \<or> (\<exists>s. t = s @ [CHR 10])))"

lemma split_on_nonempty [simp]: "split_on c s \<noteq> []"
  by (cases s) (auto split: list.splits)

lemma split_on_append: "split_on c (s @ c # r) = split_on c s @ split_on c r"
proof (induction s)
  case (Cons d s)
  then show ?case by (cases "split_on c s") auto
qed simp

lemma split_on_single: "c \<notin> set s \<Longrightarrow> split_on c s = [s]"
  by (induction s) auto

lemma split_on_last: "butlast (split_on c (s @ [c])) = split_on c s"
  by (simp add: split_on_append)

lemma those_append: "those (xs @ ys) = Option.bind (those xs) (\<lambda>as. map_option ((@) as) (those ys))"
  by (induction xs) (auto simp: bind_eq_None_conv map_option_case split: option.splits)

lemma journal_read_append:
  assumes "whole_lines bytes" and "CHR 10 \<notin> set line" and "json_loads (plain ft) line = Some v"
  shows "whole_lines (bytes @ utf8_encode (line @ [CHR 10]))"
    and "journal_read ft (bytes @ utf8_encode (line @ [CHR 10])) = map_option (\<lambda>vs. vs @ [v]) (journal_read ft bytes)"
proof -
  from assms(1) obtain t where t: "bytes = utf8_encode t" "t = [] \<or> (\<exists>s. t = s @ [CHR 10])" by (auto simp: whole_lines_def)
  have joint: "bytes @ utf8_encode (line @ [CHR 10]) = utf8_encode ((t @ line) @ [CHR 10])" by (simp add: t(1))
  then show "whole_lines (bytes @ utf8_encode (line @ [CHR 10]))" unfolding whole_lines_def by blast
  have "split_on (CHR 10) (t @ line) = butlast (split_on (CHR 10) t) @ [line]"
    using t(2) assms(2) by (auto simp: split_on_append split_on_single)
  with assms(3) show "journal_read ft (bytes @ utf8_encode (line @ [CHR 10])) = map_option (\<lambda>vs. vs @ [v]) (journal_read ft bytes)"
    unfolding journal_read_def joint unfolding t(1) utf8_decode_encode bind.bind_lunit split_on_last
    by (cases "those (map (json_loads (plain ft)) (butlast (split_on (CHR 10) t)))")
      (simp_all add: those_append)
qed

section \<open>A sequence of calls\<close>

fun journal_all :: "(exn \<Rightarrow> string) \<Rightarrow> (exn \<Rightarrow> string) \<Rightarrow> (journal_luck \<times> journal_record) list \<Rightarrow> journal_file \<Rightarrow> journal_file" where
  "journal_all exn_name exn_text [] f = f"
| "journal_all exn_name exn_text ((luck, r) # calls) f =
     journal_all exn_name exn_text calls (journal_write luck (journal_call exn_name exn_text r) f)"

text \<open>The events a sequence of calls persists.\<close>

fun persisted :: "(exn \<Rightarrow> string) \<Rightarrow> (exn \<Rightarrow> string) \<Rightarrow> journal_luck \<times> journal_record \<Rightarrow> ProcessingJournalEvent option" where
  "persisted exn_name exn_text (luck, r) =
     (case journal_event luck (journal_call exn_name exn_text r) of
        Inl _ \<Rightarrow> None
      | Inr e \<Rightarrow> if jl_append luck = Appended then Some e else None)"

lemma journal_write_persisted:
  assumes "persisted exn_name exn_text (luck, r) = Some e"
  shows "journal_write luck (journal_call exn_name exn_text r) f =
    f\<lparr>jf_bytes := jf_bytes f @ utf8_encode (journal_line e @ [CHR 10])\<rparr>"
  using assms by (auto simp: journal_write_def record_attempt_def append_line_def Let_def split: sum.splits if_splits)

lemma journal_write_lost:
  assumes "persisted exn_name exn_text (luck, r) = None"
  shows "jf_failure_count (journal_write luck (journal_call exn_name exn_text r) f) = jf_failure_count f + 1"
    and "prefix (jf_bytes f) (jf_bytes (journal_write luck (journal_call exn_name exn_text r) f))"
    and "jl_append luck = Appended \<Longrightarrow>
      jf_bytes (journal_write luck (journal_call exn_name exn_text r) f) = jf_bytes f"
  using assms
  by (auto simp: journal_write_def record_attempt_def append_line_def Let_def split: sum.splits if_splits append_outcome.splits)

lemma journal_all_grows:
  "prefix (jf_bytes f) (jf_bytes (journal_all exn_name exn_text calls f)) \<and>
   jf_failure_count (journal_all exn_name exn_text calls f) =
     jf_failure_count f + length (filter (\<lambda>c. persisted exn_name exn_text c = None) calls)"
proof (induction calls arbitrary: f)
  case (Cons c calls)
  obtain luck r where c: "c = (luck, r)" by (cases c)
  define g where "g = journal_write luck (journal_call exn_name exn_text r) f"
  have "prefix (jf_bytes f) (jf_bytes g)"
    "jf_failure_count g = jf_failure_count f + (if persisted exn_name exn_text c = None then 1 else 0)"
    using journal_write_lost [of exn_name exn_text luck r f] journal_write_persisted [of exn_name exn_text luck r _ f]
    by (cases "persisted exn_name exn_text (luck, r)"; simp add: g_def c del: persisted.simps)+
  with Cons.IH [of g] show ?case
    by (auto simp: c g_def [symmetric] intro: prefix_order.trans simp del: persisted.simps)
qed simp

lemma journal_all_reads:
  assumes "whole_lines (jf_bytes f)" and "\<forall>c\<in>set calls. jl_append (fst c) = Appended"
  shows "whole_lines (jf_bytes (journal_all exn_name exn_text calls f)) \<and>
    journal_read ft (jf_bytes (journal_all exn_name exn_text calls f)) =
      map_option (\<lambda>vs. vs @ map (\<lambda>e. json_norm (to_dict e)) (List.map_filter (persisted exn_name exn_text) calls))
        (journal_read ft (jf_bytes f))"
  using assms
proof (induction calls arbitrary: f)
  case Nil
  then show ?case by (simp add: map_filter_simps map_option.id [unfolded id_def])
next
  case (Cons c calls)
  obtain luck r where c: "c = (luck, r)" by (cases c)
  show ?case
  proof (cases "persisted exn_name exn_text c")
    case None
    with Cons.prems journal_write_lost(3) [of exn_name exn_text luck r f]
    have "jf_bytes (journal_write luck (journal_call exn_name exn_text r) f) = jf_bytes f" by (simp add: c)
    with Cons.IH [of "journal_write luck (journal_call exn_name exn_text r) f"] Cons.prems None show ?thesis
      by (simp add: c map_filter_simps del: persisted.simps)
  next
    case (Some e)
    then have e: "journal_event luck (journal_call exn_name exn_text r) = Inr e"
      by (auto simp: c split: sum.splits if_splits)
    note step = journal_read_append [OF Cons.prems(1) journal_line_graphic [OF e] journal_line_read [OF e]]
    have "jf_bytes (journal_write luck (journal_call exn_name exn_text r) f) =
        jf_bytes f @ utf8_encode (journal_line e @ [CHR 10])"
      using journal_write_persisted [OF Some [unfolded c]] by simp
    with Cons.IH [of "journal_write luck (journal_call exn_name exn_text r) f"] Cons.prems Some step show ?thesis
      by (simp add: c map_filter_simps option.map_comp o_def del: persisted.simps utf8_encode_append)
  qed
qed

text \<open>Property C36: the journal is append-only and best effort. Whatever fails (an identifier, the clock, an
  event's check, the directory, a write torn at any byte), a sequence of calls only extends the file, and
  the failure counter grows by exactly the number of events that were not persisted. As long as no physical
  write fails, a reader of the file finds, after what was there before, exactly the persisted events, in
  call order, one per line.\<close>

theorem journal_reads_back:
  assumes "whole_lines (jf_bytes f)" and "journal_read ft (jf_bytes f) = Some earlier"
  shows "prefix (jf_bytes f) (jf_bytes (journal_all exn_name exn_text calls f)) \<and>
    jf_failure_count (journal_all exn_name exn_text calls f) =
      jf_failure_count f + length (filter (\<lambda>c. persisted exn_name exn_text c = None) calls) \<and>
    ((\<forall>c\<in>set calls. jl_append (fst c) = Appended) \<longrightarrow>
      journal_read ft (jf_bytes (journal_all exn_name exn_text calls f)) =
        Some (earlier @ map (\<lambda>e. json_norm (to_dict e)) (List.map_filter (persisted exn_name exn_text) calls)))"
  using journal_all_grows [of f exn_name exn_text calls] journal_all_reads [OF assms(1), of calls exn_name exn_text ft] assms(2)
  by simp

definition ex_luck :: "string \<Rightarrow> append_outcome \<Rightarrow> journal_luck" where
  "ex_luck event_id outcome = \<lparr>jl_event_id = Inr event_id, jl_occurred_at = Inr ''2024-01-01T00:00:00Z'', jl_append = outcome\<rparr>"

definition ex_event :: "string \<Rightarrow> ProcessingJournalEvent" where
  "ex_event event_id =
     \<lparr>pje_schema_version = 2, pje_event_id = event_id, pje_event_type = ENTRY_CYCLE_ENDED,
      pje_occurred_at = ''2024-01-01T00:00:00Z'', pje_source = ''strategy_runtime.committed_bar_orchestrator'',
      pje_severity = ''info'',
      pje_payload = [(''trade_cycle_id'', JStr ''c1''), (''bar_open_time_ms'', JNull), (''reason'', JStr ''cancelled'')],
      pje_diagnostics = [], pje_strategy_instance_id = Some ''i1''\<rparr>"

lemma persisted_example:
  "persisted exn_name exn_text (ex_luck x Appended, JEntryCycleEnded ''i1'' ''c1'' None ''cancelled'') =
     (if nonblank x then Some (ex_event x) else None)"
proof -
  have "nonblank ''i1''" "nonblank ''info''" "nonblank ''2024-01-01T00:00:00Z''"
    "nonblank ''strategy_runtime.committed_bar_orchestrator''" by code_simp+
  then show ?thesis
    by (simp add: checked.simps ex_luck_def ex_event_def journal_event_def new_ProcessingJournalEvent_def require_text_def
      entry_cycle_ended_def about_instance_def opt_int_def JOURNAL_SCHEMA_VERSION_def JOURNAL_SOURCE_def freeze_object_def)
qed

theorem journal_reads_back_witness:
  "let calls = map (\<lambda>x. (ex_luck x Appended, JEntryCycleEnded ''i1'' ''c1'' None ''cancelled'')) [''e1'', '' '', ''e2''];
       f = \<lparr>jf_bytes = [], jf_failure_count = 0\<rparr>;
       g = journal_all (\<lambda>_. ''ValueError'') (\<lambda>_. ''reason'') calls f in
   jf_failure_count g = 1 \<and>
   journal_read (\<lambda>t. t) (jf_bytes g) = Some (map (\<lambda>x. json_norm (to_dict (ex_event x))) [''e1'', ''e2''])"
proof -
  have "whole_lines (jf_bytes \<lparr>jf_bytes = [], jf_failure_count = 0\<rparr>)"
    unfolding whole_lines_def by (rule exI [of _ "[]"]) (simp add: utf8_encode_def)
  moreover have "journal_read (\<lambda>t. t) (jf_bytes \<lparr>jf_bytes = [], jf_failure_count = 0\<rparr>) = Some []"
    by (simp add: journal_read_def)
  moreover have "nonblank ''e1''" "nonblank ''e2''" "\<not> nonblank '' ''" by code_simp+
  moreover have "jl_append (ex_luck x Appended) = Appended" for x by (simp add: ex_luck_def)
  ultimately show ?thesis
    using journal_reads_back [of "\<lparr>jf_bytes = [], jf_failure_count = 0\<rparr>" "\<lambda>t. t" "[]" "\<lambda>_. ''ValueError''" "\<lambda>_. ''reason''"
        "map (\<lambda>x. (ex_luck x Appended, JEntryCycleEnded ''i1'' ''c1'' None ''cancelled'')) [''e1'', '' '', ''e2'']"]
    by (simp add: persisted_example map_filter_simps Let_def del: persisted.simps journal_all.simps)
qed

end
