(* ===== verification/Configuration.thy ===== *)
theory Configuration
  imports First_Fill Committed_Bar_Intake
begin

text \<open>
  \<open>config/model.py\<close>, \<open>config/loader.py\<close> and \<open>config/startup.py\<close>: the configuration of the process, read
  from its environment and an optional TOML file, and the preparation of its paths.

  The conversion of a text to a float and the TOML parser are parameters, as are the answers of the
  file system. The conversion of a text to an integer and the text of a \<open>pathlib\<close> path are written
  out, because the checks of the loader depend on them.
\<close>

section \<open>Texts\<close>

text \<open>Python's \<open>int(text)\<close>: white space around it, one sign, digits with single underscores between
  them, and no more digits than the interpreter's limit. \<open>None\<close> is its \<open>ValueError\<close>.\<close>

definition MAX_STR_DIGITS :: nat where "MAX_STR_DIGITS = 4300"

definition py_int :: "string \<Rightarrow> int option" where
  "py_int t =
     (let s = py_strip t;
          neg = (s \<noteq> [] \<and> hd s = CHR ''-'');
          body = (if s \<noteq> [] \<and> hd s \<in> {CHR ''-'', CHR ''+''} then tl s else s);
          parts = split_on (CHR ''_'') body;
          ds = concat parts in
      if list_all (\<lambda>p. p \<noteq> [] \<and> list_all is_digit p) parts \<and> length ds \<le> MAX_STR_DIGITS
      then Some (if neg then - int (digits_val ds) else int (digits_val ds)) else None)"

text \<open>\<open>str(Path(text))\<close> on a POSIX system: the root, then the parts that are neither empty nor \<open>.\<close>.\<close>

fun path_join :: "string list \<Rightarrow> string" where
  "path_join [] = []"
| "path_join [p] = p"
| "path_join (p # ps) = p @ CHR ''/'' # path_join ps"

definition path_root :: "string \<Rightarrow> string" where
  "path_root t =
     (if take 2 t = ''//'' \<and> take 3 t \<noteq> ''///'' then ''//'' else if take 1 t = ''/'' then ''/'' else [])"

definition path_text :: "string \<Rightarrow> string" where
  "path_text t =
     (let s = path_root t @ path_join (filter (\<lambda>p. p \<noteq> [] \<and> p \<noteq> ''.'') (split_on (CHR ''/'') t)) in
      if s = [] then ''.'' else s)"

section \<open>The configuration\<close>

record 'f RuntimeConfig =
  rtc_host :: string
  rtc_port :: int
  rtc_journal_path :: string
  rtc_specs_path :: string
  rtc_state_path :: string
  rtc_strategy_engine_base_url :: string
  rtc_strategy_engine_timeout_seconds :: 'f
  rtc_abi_base_url :: string
  rtc_abi_open_position_timeout_seconds :: 'f
  rtc_abi_entry_package_timeout_seconds :: 'f
  rtc_abi_position_management_timeout_seconds :: 'f
  rtc_committed_bar_queue_capacity :: int
  rtc_live_entry_mode :: live_entry_mode
  rtc_order_lifetime_bars :: "int option"

text \<open>The paths are held as their texts. The mode is one of the two by its type.\<close>

definition new_RuntimeConfig :: "'f RuntimeConfig \<Rightarrow> 'f RuntimeConfig res" where
  "new_RuntimeConfig c =
     (if \<not> nonblank (rtc_host c) then Inl (ValueError ''RUNTIME_HOST must not be empty'')
      else if \<not> (1 \<le> rtc_port c \<and> rtc_port c \<le> 65535) then Inl (ValueError ''RUNTIME_PORT must be between 1 and 65535'')
      else if \<not> nonblank (rtc_journal_path c) then Inl (ValueError ''RUNTIME_JOURNAL_PATH must not be empty'')
      else if \<not> nonblank (rtc_specs_path c) then Inl (ValueError ''RUNTIME_SPECS_PATH must not be empty'')
      else if \<not> nonblank (rtc_state_path c) then Inl (ValueError ''RUNTIME_STATE_PATH must not be empty'')
      else if rtc_committed_bar_queue_capacity c \<le> 0
      then Inl (ValueError ''RUNTIME_COMMITTED_BAR_QUEUE_CAPACITY must be a positive integer'')
      else (case rtc_order_lifetime_bars c of
              None \<Rightarrow> if rtc_live_entry_mode c = touch_trigger
                      then Inl (ValueError ''order_lifetime_bars is required when live_entry_mode is touch_trigger'')
                      else Inr c
            | Some lifetime \<Rightarrow> if lifetime < 0 then Inl (ValueError ''order_lifetime_bars must be an integer >= 0'')
                              else Inr c))"

section \<open>The loader\<close>

datatype toml_value = TomlString string | TomlInteger int | TomlBoolean bool | TomlOther

type_synonym toml_table = "(string \<times> toml_value) list"

text \<open>What is found under the path of the configuration file: no regular file, a file that cannot be read
  or decoded, one that is no TOML, a table.\<close>

datatype config_file = NoFile | Unreadable exn | NotToml | Table toml_table

record 'f config_sources =
  cs_environ :: "string \<Rightarrow> string option"
  cs_file :: "string \<Rightarrow> config_file"
  cs_float :: "string \<Rightarrow> 'f option"

definition CONFIG_FILE_KEYS :: "string list" where
  "CONFIG_FILE_KEYS = [''live_entry_mode'', ''order_lifetime_bars'']"

definition read_config_file :: "'f config_sources \<Rightarrow> string \<Rightarrow> toml_table res" where
  "read_config_file src config_path =
     (if \<not> nonblank config_path then Inr []
      else case cs_file src config_path of
        NoFile \<Rightarrow> Inr []
      | Unreadable e \<Rightarrow> Inl e
      | NotToml \<Rightarrow> Inl (ValueError ''RUNTIME_CONFIG_PATH file is not valid TOML'')
      | Table data \<Rightarrow>
          if list_all (\<lambda>(k, _). k \<in> set CONFIG_FILE_KEYS) data then Inr data
          else Inl (ValueError ''RUNTIME_CONFIG_PATH file has unknown keys''))"

definition live_entry_mode_of :: "toml_table \<Rightarrow> live_entry_mode res" where
  "live_entry_mode_of config =
     (case map_of config ''live_entry_mode'' of
        None \<Rightarrow> Inr ema_anchor
      | Some (TomlString v) \<Rightarrow>
          if v = ''ema_anchor'' then Inr ema_anchor else if v = ''touch_trigger'' then Inr touch_trigger
          else Inl (ValueError ''live_entry_mode must be one of ema_anchor, touch_trigger'')
      | Some _ \<Rightarrow> Inl (ValueError ''live_entry_mode must be one of ema_anchor, touch_trigger''))"

definition order_lifetime_bars_of :: "toml_table \<Rightarrow> int option res" where
  "order_lifetime_bars_of config =
     (case map_of config ''order_lifetime_bars'' of
        None \<Rightarrow> Inr None
      | Some (TomlInteger n) \<Rightarrow>
          if n < 0 then Inl (ValueError ''order_lifetime_bars must be an integer >= 0'') else Inr (Some n)
      | Some _ \<Rightarrow> Inl (ValueError ''order_lifetime_bars must be an integer >= 0''))"

definition env_text :: "'f config_sources \<Rightarrow> string \<Rightarrow> string res" where
  "env_text src name =
     (case cs_environ src name of
        None \<Rightarrow> Inl (ValueError (name @ '' must be set''))
      | Some v \<Rightarrow> if nonblank v then Inr v else Inl (ValueError (name @ '' must be set'')))"

definition env_float :: "'f config_sources \<Rightarrow> string \<Rightarrow> 'f res" where
  "env_float src name =
     res_bind (env_text src name) (\<lambda>v.
       case cs_float src v of None \<Rightarrow> Inl (ValueError (name @ '' must be a number'')) | Some x \<Rightarrow> Inr x)"

definition env_int :: "'f config_sources \<Rightarrow> string \<Rightarrow> int res" where
  "env_int src name =
     res_bind (env_text src name) (\<lambda>v.
       case py_int v of None \<Rightarrow> Inl (ValueError (name @ '' must be an integer'')) | Some n \<Rightarrow> Inr n)"

definition env_get :: "'f config_sources \<Rightarrow> string \<Rightarrow> string \<Rightarrow> string" where
  "env_get src name fallback = (case cs_environ src name of None \<Rightarrow> fallback | Some v \<Rightarrow> v)"

definition load_runtime_config :: "'f config_sources \<Rightarrow> 'f RuntimeConfig res" where
  "load_runtime_config src =
     (let port_text = env_get src ''RUNTIME_PORT'' ''8093'';
          journal_text = env_get src ''RUNTIME_JOURNAL_PATH'' ''var/journal/runtime.jsonl'';
          specs_text = env_get src ''RUNTIME_SPECS_PATH'' ''var/specs'';
          state_text = env_get src ''RUNTIME_STATE_PATH'' ''var/state/runtime_state.jsonl'' in
      if \<not> nonblank journal_text then Inl (ValueError ''RUNTIME_JOURNAL_PATH must not be empty'')
      else if \<not> nonblank specs_text then Inl (ValueError ''RUNTIME_SPECS_PATH must not be empty'')
      else if \<not> nonblank state_text then Inl (ValueError ''RUNTIME_STATE_PATH must not be empty'')
      else case py_int port_text of
        None \<Rightarrow> Inl (ValueError ''RUNTIME_PORT must be an integer'')
      | Some port \<Rightarrow>
          res_bind (env_text src ''RUNTIME_STRATEGY_ENGINE_BASE_URL'') (\<lambda>strategy_engine_base_url.
          res_bind (env_float src ''RUNTIME_STRATEGY_ENGINE_TIMEOUT_SECONDS'') (\<lambda>strategy_engine_timeout_seconds.
          res_bind (env_text src ''RUNTIME_ABI_BASE_URL'') (\<lambda>abi_base_url.
          res_bind (env_float src ''RUNTIME_ABI_OPEN_POSITION_TIMEOUT_SECONDS'') (\<lambda>abi_open_position_timeout_seconds.
          res_bind (env_float src ''RUNTIME_ABI_ENTRY_PACKAGE_TIMEOUT_SECONDS'') (\<lambda>abi_entry_package_timeout_seconds.
          res_bind (env_float src ''RUNTIME_ABI_POSITION_MANAGEMENT_TIMEOUT_SECONDS'') (\<lambda>abi_position_management_timeout_seconds.
          res_bind (env_int src ''RUNTIME_COMMITTED_BAR_QUEUE_CAPACITY'') (\<lambda>committed_bar_queue_capacity.
          res_bind (read_config_file src (env_get src ''RUNTIME_CONFIG_PATH'' [])) (\<lambda>config_file.
          res_bind (live_entry_mode_of config_file) (\<lambda>live_entry_mode.
          res_bind (order_lifetime_bars_of config_file) (\<lambda>order_lifetime_bars.
          new_RuntimeConfig
            \<lparr>rtc_host = env_get src ''RUNTIME_HOST'' ''127.0.0.1'', rtc_port = port,
             rtc_journal_path = path_text journal_text, rtc_specs_path = path_text specs_text,
             rtc_state_path = path_text state_text,
             rtc_strategy_engine_base_url = strategy_engine_base_url,
             rtc_strategy_engine_timeout_seconds = strategy_engine_timeout_seconds,
             rtc_abi_base_url = abi_base_url,
             rtc_abi_open_position_timeout_seconds = abi_open_position_timeout_seconds,
             rtc_abi_entry_package_timeout_seconds = abi_entry_package_timeout_seconds,
             rtc_abi_position_management_timeout_seconds = abi_position_management_timeout_seconds,
             rtc_committed_bar_queue_capacity = committed_bar_queue_capacity,
             rtc_live_entry_mode = live_entry_mode, rtc_order_lifetime_bars = order_lifetime_bars\<rparr>)))))))))))"

section \<open>Preparation of the paths\<close>

text \<open>What the file system answers for one path: the creation of the directory, whether the path exists,
  is a file, is a directory, opening it for append, listing it.\<close>

record path_status =
  pst_mkdir :: "unit res"
  pst_exists :: "bool res"
  pst_is_file :: "bool res"
  pst_open :: "unit res"
  pst_is_dir :: "bool res"
  pst_iterdir :: "unit res"

definition prepare_file :: "string \<Rightarrow> path_status \<Rightarrow> unit res" where
  "prepare_file message st =
     res_bind (pst_mkdir st) (\<lambda>_.
     res_bind (pst_exists st) (\<lambda>exists.
     res_bind (if exists then pst_is_file st else Inr True) (\<lambda>is_file.
     if \<not> is_file then Inl (ValueError message) else pst_open st)))"

definition prepare_journal_path :: "path_status \<Rightarrow> unit res" where
  "prepare_journal_path = prepare_file ''RUNTIME_JOURNAL_PATH must identify a file''"

definition prepare_state_path :: "path_status \<Rightarrow> unit res" where
  "prepare_state_path = prepare_file ''RUNTIME_STATE_PATH must identify a file''"

definition prepare_specs_path :: "path_status \<Rightarrow> unit res" where
  "prepare_specs_path st =
     res_bind (pst_mkdir st) (\<lambda>_.
     res_bind (pst_is_dir st) (\<lambda>is_dir.
     if \<not> is_dir then Inl (ValueError ''RUNTIME_SPECS_PATH must identify a directory'')
     else case pst_iterdir st of
       Inl (OSError e) \<Rightarrow> Inl (ValueError ''RUNTIME_SPECS_PATH must be readable'')
     | r \<Rightarrow> r))"

section \<open>What a loaded configuration guarantees\<close>

definition config_ok :: "'f RuntimeConfig \<Rightarrow> bool" where
  "config_ok c \<longleftrightarrow>
     nonblank (rtc_host c) \<and> 1 \<le> rtc_port c \<and> rtc_port c \<le> 65535 \<and> nonblank (rtc_journal_path c) \<and>
     nonblank (rtc_specs_path c) \<and> nonblank (rtc_state_path c) \<and> 0 < rtc_committed_bar_queue_capacity c \<and>
     (case rtc_order_lifetime_bars c of None \<Rightarrow> rtc_live_entry_mode c = ema_anchor | Some n \<Rightarrow> 0 \<le> n)"

lemma live_entry_mode_cases: "mode \<noteq> touch_trigger \<longleftrightarrow> mode = ema_anchor"
  by (cases mode) auto

lemma new_RuntimeConfig_Inr: "new_RuntimeConfig c = Inr c' \<longleftrightarrow> c' = c \<and> config_ok c"
  by (auto simp: new_RuntimeConfig_def config_ok_def live_entry_mode_cases not_le not_less split: option.splits if_splits)

lemma new_RuntimeConfig_Inl: "new_RuntimeConfig c = Inl e \<Longrightarrow> \<exists>message. e = ValueError message"
  by (auto simp: new_RuntimeConfig_def split: option.splits if_splits)

lemma env_text_Inr: "env_text src name = Inr v \<longleftrightarrow> cs_environ src name = Some v \<and> nonblank v"
  by (auto simp: env_text_def split: option.splits if_splits)

lemma loader_errors:
  "env_text src name = Inl e \<Longrightarrow> \<exists>m. e = ValueError m"
  "env_float src name = Inl e \<Longrightarrow> \<exists>m. e = ValueError m"
  "env_int src name = Inl e \<Longrightarrow> \<exists>m. e = ValueError m"
  "live_entry_mode_of config = Inl e \<Longrightarrow> \<exists>m. e = ValueError m"
  "order_lifetime_bars_of config = Inl e \<Longrightarrow> \<exists>m. e = ValueError m"
  by (auto simp: env_text_def env_float_def env_int_def live_entry_mode_of_def order_lifetime_bars_of_def res_bind_eq_Inl
      split: option.splits if_splits toml_value.splits)

text \<open>The constructors that check the configuration again accept every checked configuration.\<close>

lemma config_ok_constructs:
  assumes "config_ok c"
  shows "\<exists>f. new_FirstFillFreezer (rtc_live_entry_mode c) (rtc_order_lifetime_bars c) = Inr f"
    and "\<exists>b. new_boundary (rtc_committed_bar_queue_capacity c) = Inr b"
  using assms by (auto simp: config_ok_def new_FirstFillFreezer_def new_boundary_def split: option.splits)

text \<open>What the environment and the file say of a configuration: the required variables are set, the
  others have their default, and the file's table is known key by key.\<close>

definition path_named :: "'f config_sources \<Rightarrow> string \<Rightarrow> string \<Rightarrow> string \<Rightarrow> bool" where
  "path_named src name fallback path \<longleftrightarrow> nonblank (env_get src name fallback) \<and> path = path_text (env_get src name fallback)"

definition float_named :: "'f config_sources \<Rightarrow> string \<Rightarrow> 'f \<Rightarrow> bool" where
  "float_named src name x \<longleftrightarrow> (\<exists>v. env_text src name = Inr v \<and> cs_float src v = Some x)"

definition describes :: "'f config_sources \<Rightarrow> 'f RuntimeConfig \<Rightarrow> bool" where
  "describes src c \<longleftrightarrow>
     rtc_host c = env_get src ''RUNTIME_HOST'' ''127.0.0.1'' \<and>
     py_int (env_get src ''RUNTIME_PORT'' ''8093'') = Some (rtc_port c) \<and>
     path_named src ''RUNTIME_JOURNAL_PATH'' ''var/journal/runtime.jsonl'' (rtc_journal_path c) \<and>
     path_named src ''RUNTIME_SPECS_PATH'' ''var/specs'' (rtc_specs_path c) \<and>
     path_named src ''RUNTIME_STATE_PATH'' ''var/state/runtime_state.jsonl'' (rtc_state_path c) \<and>
     env_text src ''RUNTIME_STRATEGY_ENGINE_BASE_URL'' = Inr (rtc_strategy_engine_base_url c) \<and>
     float_named src ''RUNTIME_STRATEGY_ENGINE_TIMEOUT_SECONDS'' (rtc_strategy_engine_timeout_seconds c) \<and>
     env_text src ''RUNTIME_ABI_BASE_URL'' = Inr (rtc_abi_base_url c) \<and>
     float_named src ''RUNTIME_ABI_OPEN_POSITION_TIMEOUT_SECONDS'' (rtc_abi_open_position_timeout_seconds c) \<and>
     float_named src ''RUNTIME_ABI_ENTRY_PACKAGE_TIMEOUT_SECONDS'' (rtc_abi_entry_package_timeout_seconds c) \<and>
     float_named src ''RUNTIME_ABI_POSITION_MANAGEMENT_TIMEOUT_SECONDS'' (rtc_abi_position_management_timeout_seconds c) \<and>
     env_int src ''RUNTIME_COMMITTED_BAR_QUEUE_CAPACITY'' = Inr (rtc_committed_bar_queue_capacity c) \<and>
     (\<exists>table. read_config_file src (env_get src ''RUNTIME_CONFIG_PATH'' []) = Inr table \<and>
        live_entry_mode_of table = Inr (rtc_live_entry_mode c) \<and>
        order_lifetime_bars_of table = Inr (rtc_order_lifetime_bars c))"

lemma env_float_Inr: "env_float src name = Inr x \<longleftrightarrow> float_named src name x"
  by (auto simp: env_float_def float_named_def res_bind_eq_Inr split: option.splits)

lemma load_runtime_config_Inr: "load_runtime_config src = Inr c \<longleftrightarrow> describes src c \<and> config_ok c"
proof
  assume "load_runtime_config src = Inr c"
  then show "describes src c \<and> config_ok c"
    by (auto simp: load_runtime_config_def Let_def res_bind_eq_Inr new_RuntimeConfig_Inr env_float_Inr describes_def
        path_named_def split: if_splits option.splits)
next
  assume "describes src c \<and> config_ok c"
  then show "load_runtime_config src = Inr c"
    by (cases c) (auto simp: load_runtime_config_def Let_def res_bind_eq_Inr new_RuntimeConfig_Inr env_float_Inr
        describes_def path_named_def)
qed

lemma load_runtime_config_Inl:
  assumes "load_runtime_config src = Inl e"
  shows "(\<exists>message. e = ValueError message) \<or> cs_file src (env_get src ''RUNTIME_CONFIG_PATH'' []) = Unreadable e"
proof -
  have unread: "(\<exists>m. e = ValueError m) \<or> cs_file src path = Unreadable e"
    if "read_config_file src path = Inl e" for path
    using that by (auto simp: read_config_file_def split: if_splits config_file.splits)
  from assms show ?thesis
    unfolding load_runtime_config_def Let_def
    by (auto simp: res_bind_eq_Inl split: if_splits option.splits
        dest: loader_errors new_RuntimeConfig_Inl unread)
qed


definition ex_environ :: "(string \<times> string) list" where
  "ex_environ =
     [(''RUNTIME_PORT'', '' 80_93 ''), (''RUNTIME_SPECS_PATH'', ''specs/./live//''),
      (''RUNTIME_STRATEGY_ENGINE_BASE_URL'', ''http://engine''), (''RUNTIME_STRATEGY_ENGINE_TIMEOUT_SECONDS'', ''5''),
      (''RUNTIME_ABI_BASE_URL'', ''http://abi''), (''RUNTIME_ABI_OPEN_POSITION_TIMEOUT_SECONDS'', ''6''),
      (''RUNTIME_ABI_ENTRY_PACKAGE_TIMEOUT_SECONDS'', ''7''), (''RUNTIME_ABI_POSITION_MANAGEMENT_TIMEOUT_SECONDS'', ''8''),
      (''RUNTIME_COMMITTED_BAR_QUEUE_CAPACITY'', ''100''), (''RUNTIME_CONFIG_PATH'', ''runtime.toml'')]"

definition ex_sources :: "int config_sources" where
  "ex_sources =
     \<lparr>cs_environ = map_of ex_environ,
      cs_file = (\<lambda>_. Table [(''live_entry_mode'', TomlString ''touch_trigger''), (''order_lifetime_bars'', TomlInteger 3)]),
      cs_float = py_int\<rparr>"

definition ex_runtime_config :: "int RuntimeConfig" where
  "ex_runtime_config =
     \<lparr>rtc_host = ''127.0.0.1'', rtc_port = 8093, rtc_journal_path = ''var/journal/runtime.jsonl'',
      rtc_specs_path = ''specs/live'', rtc_state_path = ''var/state/runtime_state.jsonl'',
      rtc_strategy_engine_base_url = ''http://engine'', rtc_strategy_engine_timeout_seconds = 5,
      rtc_abi_base_url = ''http://abi'', rtc_abi_open_position_timeout_seconds = 6,
      rtc_abi_entry_package_timeout_seconds = 7, rtc_abi_position_management_timeout_seconds = 8,
      rtc_committed_bar_queue_capacity = 100, rtc_live_entry_mode = touch_trigger, rtc_order_lifetime_bars = Some 3\<rparr>"

lemma ex_config_loads: "load_runtime_config ex_sources = Inr ex_runtime_config"
  by code_simp


end
