(* ===== verification/Bootstrap.thy ===== *)
theory Bootstrap
  imports Configuration Server Jsonl_Repository Resolver_Worker Store_Properties
begin

text \<open>
  \<open>bootstrap/application.py\<close> and \<open>bootstrap/main.py\<close>: the construction of the application, its rollback,
  its life span and the process around them.

  The constructors that only keep their arguments are left out of the sequence; those that can
  raise are there in the order of the source. The HTTP library (\<open>httpx\<close>), the web framework and the
  file system are parameters: any of their calls may fail.
\<close>

section \<open>The outbound clients\<close>

datatype outbound =
    LiveEntryClient | OpenTradeClient | OpenPositionClient | EntryPackageClient | EntryCycleRecoveryClient
  | PositionManagementClient | FeaturePlanClient

text \<open>What the start of the process finds outside: the sources of the configuration, the file system under
  a path, the content of the state file, the finite and positive floats, the scheme and host of a URL,
  the construction and the closing of a client, the construction of the web application.\<close>

record 'f platform =
  pl_sources :: "'f config_sources"
  pl_path :: "string \<Rightarrow> path_status"
  pl_state_file :: "string \<Rightarrow> string option"
  pl_disk :: "append_outcome list"
  pl_float_text :: "string \<Rightarrow> string"
  pl_finite :: "'f \<Rightarrow> bool"
  pl_positive :: "'f \<Rightarrow> bool"
  pl_url :: "string \<Rightarrow> (string \<times> string) res"
  pl_open :: "outbound \<Rightarrow> unit res"
  pl_close :: "outbound \<Rightarrow> unit res"
  pl_create_app :: "bool \<Rightarrow> unit res"

definition build_httpx_client :: "'f platform \<Rightarrow> outbound \<Rightarrow> string \<Rightarrow> 'f \<Rightarrow> unit res" where
  "build_httpx_client pl client base_url timeout_seconds =
     (if \<not> pl_finite pl timeout_seconds \<or> \<not> pl_positive pl timeout_seconds
      then Inl (ValueError ''timeout_seconds must be finite and positive'')
      else res_bind (pl_url pl base_url) (\<lambda>(scheme, host).
        if scheme \<notin> {''http'', ''https''} \<or> host = [] then Inl (ValueError ''base_url must be an absolute HTTP(S) URL'')
        else pl_open pl client))"

text \<open>The engine's module has its own copy.\<close>

definition build_client :: "'f platform \<Rightarrow> outbound \<Rightarrow> string \<Rightarrow> 'f \<Rightarrow> unit res" where
  "build_client pl client base_url timeout_seconds =
     (if \<not> pl_finite pl timeout_seconds \<or> \<not> pl_positive pl timeout_seconds
      then Inl (ValueError ''timeout_seconds must be finite and positive'')
      else res_bind (pl_url pl base_url) (\<lambda>(scheme, host).
        if scheme \<notin> {''http'', ''https''} \<or> host = [] then Inl (ValueError ''base_url must be an absolute HTTP(S) URL'')
        else pl_open pl client))"

section \<open>The state of the construction\<close>

text \<open>The lifecycle object, the workers, the intake, and a history of what was opened, started, stopped and
  closed.\<close>

datatype boot_event =
    Opened outbound | IntakeStarted | ResolverStarted | IntakeClosed | IntakeStopped | ResolverStopped | Closed outbound

record boot =
  bt_clients :: "outbound list"
  bt_closed :: bool
  bt_intake :: "boundary option"
  bt_intake_worker :: "worker_state option"
  bt_resolver_worker :: "worker_state option"
  bt_events :: "boot_event list"

definition new_boot :: boot where
  "new_boot = \<lparr>bt_clients = [], bt_closed = False, bt_intake = None, bt_intake_worker = None, bt_resolver_worker = None,
     bt_events = []\<rparr>"

definition noted :: "boot_event \<Rightarrow> boot \<Rightarrow> boot" where
  "noted x b = b\<lparr>bt_events := bt_events b @ [x]\<rparr>"

definition modify :: "('w \<Rightarrow> 'w) \<Rightarrow> ('w, unit) prog" where
  "modify f = (\<lambda>w. (Inr (), f w))"

text \<open>\<open>lifecycle.add(Adapter(...))\<close>: a client whose constructor raises is not added.\<close>

definition add_client :: "outbound \<Rightarrow> unit res \<Rightarrow> (boot, unit) prog" where
  "add_client client made =
     bindp (lift_res made) (\<lambda>_.
     modify (\<lambda>b. noted (Opened client) (b\<lparr>bt_clients := bt_clients b @ [client]\<rparr>)))"

fun close_each :: "'f platform \<Rightarrow> outbound list \<Rightarrow> (boot, unit) prog" where
  "close_each pl [] = ret ()"
| "close_each pl (client # rest) =
     bindp (catchp (bindp (modify (noted (Closed client))) (\<lambda>_. lift_res (pl_close pl client))) (\<lambda>_. ret ())) (\<lambda>_.
     close_each pl rest)"

definition close_all_once :: "'f platform \<Rightarrow> (boot, unit) prog" where
  "close_all_once pl =
     (\<lambda>b. if bt_closed b then (Inr (), b) else close_each pl (bt_clients b) (b\<lparr>bt_closed := True\<rparr>))"

text \<open>\<open>stop_once\<close> as a whole: after the join the state is \<open>STOPPED\<close>.\<close>

definition worker_stop :: "worker_state \<Rightarrow> worker_state" where
  "worker_stop st = (case stop_begin st of (join, st') \<Rightarrow> if join then STOPPED else st')"

definition stop_intake_worker :: "(boot, unit) prog" where
  "stop_intake_worker =
     modify (\<lambda>b. case bt_intake_worker b of
        None \<Rightarrow> b | Some st \<Rightarrow> noted IntakeStopped (b\<lparr>bt_intake_worker := Some (worker_stop st)\<rparr>))"

definition stop_resolver_worker :: "(boot, unit) prog" where
  "stop_resolver_worker =
     modify (\<lambda>b. case bt_resolver_worker b of
        None \<Rightarrow> b | Some st \<Rightarrow> noted ResolverStopped (b\<lparr>bt_resolver_worker := Some (worker_stop st)\<rparr>))"

section \<open>Construction\<close>

text \<open>The check of the entry orchestrator's constructor.\<close>

definition new_entry_orchestrator :: "live_entry_mode \<Rightarrow> int option \<Rightarrow> unit res" where
  "new_entry_orchestrator mode order_lifetime_bars =
     (if mode = touch_trigger \<and> (case order_lifetime_bars of None \<Rightarrow> True | Some n \<Rightarrow> n < 0)
      then Inl (ValueError ''touch_trigger requires order_lifetime_bars as an integer >= 0'') else Inr ())"

record 'f graph =
  gr_config :: "'f RuntimeConfig"
  gr_freezer :: FirstFillFreezer
  gr_repository :: jsonl_repo
  gr_intake :: boundary

definition construct_clients :: "'f platform \<Rightarrow> 'f RuntimeConfig \<Rightarrow> (boot, unit) prog" where
  "construct_clients pl c =
     bindp (add_client LiveEntryClient
       (build_client pl LiveEntryClient (rtc_strategy_engine_base_url c) (rtc_strategy_engine_timeout_seconds c))) (\<lambda>_.
     bindp (add_client OpenTradeClient
       (build_client pl OpenTradeClient (rtc_strategy_engine_base_url c) (rtc_strategy_engine_timeout_seconds c))) (\<lambda>_.
     bindp (add_client OpenPositionClient
       (build_httpx_client pl OpenPositionClient (rtc_abi_base_url c) (rtc_abi_open_position_timeout_seconds c))) (\<lambda>_.
     bindp (add_client EntryPackageClient
       (build_httpx_client pl EntryPackageClient (rtc_abi_base_url c) (rtc_abi_entry_package_timeout_seconds c))) (\<lambda>_.
     bindp (add_client EntryCycleRecoveryClient
       (build_httpx_client pl EntryCycleRecoveryClient (rtc_abi_base_url c) (rtc_abi_open_position_timeout_seconds c))) (\<lambda>_.
     bindp (add_client PositionManagementClient
       (build_httpx_client pl PositionManagementClient (rtc_abi_base_url c) (rtc_abi_position_management_timeout_seconds c))) (\<lambda>_.
     add_client FeaturePlanClient
       (build_client pl FeaturePlanClient (rtc_strategy_engine_base_url c) (rtc_strategy_engine_timeout_seconds c))))))))"

definition construct_graph :: "'f platform \<Rightarrow> 'f RuntimeConfig \<Rightarrow> (boot, 'f graph) prog" where
  "construct_graph pl c =
     bindp (lift_res (new_FirstFillFreezer (rtc_live_entry_mode c) (rtc_order_lifetime_bars c))) (\<lambda>freezer.
     bindp (lift_res (jsonl_init (pl_float_text pl) (pl_state_file pl (rtc_state_path c)) (pl_disk pl))) (\<lambda>repository.
     bindp (lift_res (new_entry_orchestrator (rtc_live_entry_mode c) (rtc_order_lifetime_bars c))) (\<lambda>_.
     bindp (lift_res (new_boundary (rtc_committed_bar_queue_capacity c))) (\<lambda>intake.
     bindp (modify (\<lambda>b. b\<lparr>bt_intake := Some intake\<rparr>)) (\<lambda>_.
     bindp (modify (\<lambda>b. b\<lparr>bt_intake_worker := Some NOT_STARTED\<rparr>)) (\<lambda>_.
     bindp (lift_res (new_resolver_worker (Some 1))) (\<lambda>_.
     bindp (modify (\<lambda>b. b\<lparr>bt_resolver_worker := Some NOT_STARTED\<rparr>)) (\<lambda>_.
     bindp (lift_res (pl_create_app pl True)) (\<lambda>_.
     ret \<lparr>gr_config = c, gr_freezer = freezer, gr_repository = repository, gr_intake = intake\<rparr>)))))))))"

definition construct :: "'f platform \<Rightarrow> (boot, 'f graph) prog" where
  "construct pl =
     bindp (lift_res (load_runtime_config (pl_sources pl))) (\<lambda>c.
     bindp (lift_res (prepare_journal_path (pl_path pl (rtc_journal_path c)))) (\<lambda>_.
     bindp (lift_res (prepare_specs_path (pl_path pl (rtc_specs_path c)))) (\<lambda>_.
     bindp (lift_res (prepare_state_path (pl_path pl (rtc_state_path c)))) (\<lambda>_.
     bindp (construct_clients pl c) (\<lambda>_.
     construct_graph pl c)))))"

text \<open>\<open>None\<close> is the application that is not ready.\<close>

definition build_application :: "'f platform \<Rightarrow> (boot, 'f graph option) prog" where
  "build_application pl =
     tryp (construct pl)
       (\<lambda>_. bindp stop_intake_worker (\<lambda>_.
            bindp stop_resolver_worker (\<lambda>_.
            bindp (close_all_once pl) (\<lambda>_.
            bindp (lift_res (pl_create_app pl False)) (\<lambda>_.
            ret None)))))
       (\<lambda>graph. ret (Some graph))"

text \<open>The configuration of the handlers: every journal is the one processing journal.\<close>

definition handler_config :: "'f graph \<Rightarrow> config" where
  "handler_config graph =
     \<lparr>cfg_journal = (\<lambda>_. True), cfg_live_entry_mode = rtc_live_entry_mode (gr_config graph),
      cfg_order_lifetime_bars = rtc_order_lifetime_bars (gr_config graph),
      cfg_first_fill_freezer = gr_freezer graph, cfg_entry_remainder_cancel_port = True\<rparr>"

definition application :: "'e ports \<Rightarrow> 'e feature_plan \<Rightarrow> 'f graph option \<Rightarrow> (jsonl_repo, 'e) http_app" where
  "application P feature_plan built =
     (case built of
        None \<Rightarrow> not_ready_app
      | Some graph \<Rightarrow> production_app (handler_config graph) P jsonl_ops feature_plan)"

section \<open>The life span\<close>

text \<open>What the life span meets: whether the two threads start, how serving ends and the queue it leaves.\<close>

record serving =
  srv_intake_starts :: bool
  srv_resolver_starts :: bool
  srv_outcome :: "unit res"
  srv_intake :: boundary

definition start_worker ::
    "boot_event \<Rightarrow> bool \<Rightarrow> (boot \<Rightarrow> worker_state option) \<Rightarrow> (worker_state \<Rightarrow> boot \<Rightarrow> boot) \<Rightarrow> (boot, unit) prog" where
  "start_worker event starts get_state set_state =
     (\<lambda>b. case get_state b of
        None \<Rightarrow> (Inl AssertionError, b)
      | Some st \<Rightarrow>
          (case worker_start starts st of
             (Inl e, st') \<Rightarrow> (Inl e, set_state st' b)
           | (Inr _, st') \<Rightarrow> (Inr (), noted event (set_state st' b))))"

definition start_intake_worker :: "bool \<Rightarrow> (boot, unit) prog" where
  "start_intake_worker starts = start_worker IntakeStarted starts bt_intake_worker (\<lambda>st b. b\<lparr>bt_intake_worker := Some st\<rparr>)"

definition start_resolver_worker :: "bool \<Rightarrow> (boot, unit) prog" where
  "start_resolver_worker starts =
     start_worker ResolverStarted starts bt_resolver_worker (\<lambda>st b. b\<lparr>bt_resolver_worker := Some st\<rparr>)"

definition lifespan_body :: "serving \<Rightarrow> (boot, unit) prog" where
  "lifespan_body srv =
     bindp (start_intake_worker (srv_intake_starts srv)) (\<lambda>_.
     bindp (start_resolver_worker (srv_resolver_starts srv)) (\<lambda>_.
     bindp (modify (\<lambda>b. b\<lparr>bt_intake := Some (srv_intake srv)\<rparr>)) (\<lambda>_.
     lift_res (srv_outcome srv))))"

definition lifespan_cleanup :: "'f platform \<Rightarrow> (boot, unit) prog" where
  "lifespan_cleanup pl =
     bindp (modify (\<lambda>b. noted IntakeClosed (b\<lparr>bt_intake := map_option stop_accepting (bt_intake b)\<rparr>))) (\<lambda>_.
     bindp stop_intake_worker (\<lambda>_.
     bindp stop_resolver_worker (\<lambda>_.
     close_all_once pl)))"

definition lifespan :: "'f platform \<Rightarrow> serving \<Rightarrow> (boot, unit) prog" where
  "lifespan pl srv = finallyp (lifespan_body srv) (lifespan_cleanup pl)"

text \<open>The entry point. It reads the configuration on its own before the application does, so the two
  readings may differ. A \<open>UnicodeDecodeError\<close> is a \<open>ValueError\<close> too. The outcomes: exit with status 1, an exception that escapes, a served
  application with the host and port of the first reading.\<close>

datatype main_outcome = SystemExit int | Escapes exn | Served string int "unit res"

definition main :: "'f config_sources \<Rightarrow> 'f platform \<Rightarrow> serving \<Rightarrow> boot \<Rightarrow> main_outcome \<times> boot" where
  "main src pl srv b =
     (case load_runtime_config src of
        Inl (ValueError message) \<Rightarrow> (SystemExit 1, b)
      | Inl UnicodeDecodeError \<Rightarrow> (SystemExit 1, b)
      | Inl e \<Rightarrow> (Escapes e, b)
      | Inr c \<Rightarrow>
          (case build_application pl b of
             (Inl e, b') \<Rightarrow> (Escapes e, b')
           | (Inr None, b') \<Rightarrow> (SystemExit 1, b')
           | (Inr (Some graph), b') \<Rightarrow>
               (case lifespan pl srv b' of (r, b'') \<Rightarrow> (Served (rtc_host c) (rtc_port c) r, b''))))"

section \<open>Closing\<close>

lemma modify_apply [simp]: "modify f w = (Inr (), f w)"
  by (simp add: modify_def)

lemma close_each_apply: "close_each pl cs b = (Inr (), b\<lparr>bt_events := bt_events b @ map Closed cs\<rparr>)"
proof (induction cs arbitrary: b)
  case (Cons c cs)
  then show ?case
    by (cases "pl_close pl c") (simp_all add: bindp_def catchp_def lift_res_def noted_def)
qed (simp add: noted_def)

lemma close_all_once_apply:
  "close_all_once pl b =
     (Inr (), if bt_closed b then b else b\<lparr>bt_closed := True, bt_events := bt_events b @ map Closed (bt_clients b)\<rparr>)"
  by (simp add: close_all_once_def close_each_apply)

text \<open>The docstring's promise: a second call does nothing.\<close>

lemma close_all_once_idempotent: "bindp (close_all_once pl) (\<lambda>_. close_all_once pl') b = close_all_once pl b"
  by (simp add: bindp_def close_all_once_apply)

lemma worker_stop_stopped [simp]: "worker_stop st = STOPPED"
  by (cases st) (simp_all add: worker_stop_def stop_begin_def)

section \<open>What the construction reaches\<close>

definition CLIENTS :: "outbound list" where
  "CLIENTS = [LiveEntryClient, OpenTradeClient, OpenPositionClient, EntryPackageClient, EntryCycleRecoveryClient,
     PositionManagementClient, FeaturePlanClient]"

definition opened :: "nat \<Rightarrow> boot" where
  "opened n = new_boot\<lparr>bt_clients := take n CLIENTS, bt_events := map Opened (take n CLIENTS)\<rparr>"

lemma opened_0: "opened 0 = new_boot"
  by (simp add: opened_def new_boot_def)

text \<open>After a step of the construction either the first \<open>n\<close> clients are open or it has raised earlier.\<close>

definition opens :: "nat \<Rightarrow> (boot, 'a) prog \<Rightarrow> nat \<Rightarrow> bool" where
  "opens m p n \<longleftrightarrow>
     (case p (opened m) of (Inl e, b) \<Rightarrow> \<exists>k. m \<le> k \<and> k \<le> n \<and> b = opened k | (Inr x, b) \<Rightarrow> b = opened n)"

lemma opens_add:
  assumes "m < length CLIENTS" and "CLIENTS ! m = client" and "n = Suc m"
  shows "opens m (add_client client made) n"
  using assms
  by (cases made) (auto simp: opens_def add_client_def bindp_def lift_res_def opened_def noted_def take_Suc_conv_app_nth)

lemma opens_bind:
  assumes "opens k p m" and "\<And>x. opens m (f x) n" and "k \<le> m" and "m \<le> n"
  shows "opens k (bindp p f) n"
proof -
  obtain r b where p: "p (opened k) = (r, b)" by fastforce
  show ?thesis
  proof (cases r)
    case (Inl e)
    with assms(1,4) p show ?thesis by (auto simp: opens_def bindp_def dest: le_trans)
  next
    case (Inr x)
    with assms(1) p have "b = opened m" by (simp add: opens_def)
    with assms(2) [of x] assms(3) p Inr show ?thesis
      by (auto simp: opens_def bindp_def split: prod.splits sum.splits intro: le_trans)
  qed
qed

lemma opens_lift: "opens n (lift_res r) n"
  by (auto simp: opens_def lift_res_def split: sum.splits)

lemma construct_clients_opens: "opens 0 (construct_clients pl c) 7"
  unfolding construct_clients_def
  by (rule opens_bind [of _ _ 1], rule opens_add, simp_all add: CLIENTS_def,
      rule opens_bind [of _ _ 2], rule opens_add, simp_all add: CLIENTS_def,
      rule opens_bind [of _ _ 3], rule opens_add, simp_all add: CLIENTS_def,
      rule opens_bind [of _ _ 4], rule opens_add, simp_all add: CLIENTS_def,
      rule opens_bind [of _ _ 5], rule opens_add, simp_all add: CLIENTS_def,
      rule opens_bind [of _ _ 6], rule opens_add, simp_all add: CLIENTS_def,
      rule opens_add, simp_all add: CLIENTS_def)

definition ready_boot :: "boundary \<Rightarrow> boot" where
  "ready_boot intake =
     (opened 7)\<lparr>bt_intake := Some intake, bt_intake_worker := Some NOT_STARTED, bt_resolver_worker := Some NOT_STARTED\<rparr>"

text \<open>What a graph that was built holds.\<close>

definition built_from :: "'f platform \<Rightarrow> 'f graph \<Rightarrow> bool" where
  "built_from pl g \<longleftrightarrow>
     load_runtime_config (pl_sources pl) = Inr (gr_config g) \<and>
     new_FirstFillFreezer (rtc_live_entry_mode (gr_config g)) (rtc_order_lifetime_bars (gr_config g)) = Inr (gr_freezer g) \<and>
     jsonl_init (pl_float_text pl) (pl_state_file pl (rtc_state_path (gr_config g))) (pl_disk pl) = Inr (gr_repository g) \<and>
     new_boundary (rtc_committed_bar_queue_capacity (gr_config g)) = Inr (gr_intake g)"

lemma new_resolver_worker_default [simp]: "new_resolver_worker (Some 1) = Inr ()"
  by (simp add: new_resolver_worker_def)

lemma bindp_lift: "bindp (lift_res r) f w = (case r of Inl e \<Rightarrow> (Inl e, w) | Inr x \<Rightarrow> f x w)"
  by (simp add: bindp_def lift_res_def split: sum.splits)

lemma construct_graph_apply:
  "construct_graph pl c (opened 7) = (r, b) \<Longrightarrow>
     (case r of Inl _ \<Rightarrow> b = opened 7 \<or> (\<exists>i. b = ready_boot i)
      | Inr g \<Rightarrow> b = ready_boot (gr_intake g) \<and> gr_config g = c \<and>
          (load_runtime_config (pl_sources pl) = Inr c \<longrightarrow> built_from pl g))"
  unfolding construct_graph_def
  by (auto simp: bindp_def lift_res_def ready_boot_def built_from_def split: sum.splits)

lemma construct_apply:
  assumes "construct pl new_boot = (r, b)"
  shows "case r of Inl _ \<Rightarrow> (\<exists>k\<le>7. b = opened k) \<or> (\<exists>i. b = ready_boot i) | Inr g \<Rightarrow> b = ready_boot (gr_intake g) \<and> built_from pl g"
proof -
  have start: "new_boot = opened 0" by (simp add: opened_0)
  consider e where "r = Inl e" "b = opened 0"
    | c where "load_runtime_config (pl_sources pl) = Inr c"
      "bindp (construct_clients pl c) (\<lambda>_. construct_graph pl c) (opened 0) = (r, b)"
    using assms unfolding construct_def start
    by (auto simp: bindp_lift split: sum.splits)
  then show ?thesis
  proof cases
    case 1
    then show ?thesis by auto
  next
    case (2 c)
    from construct_clients_opens [of pl c]
    show ?thesis
      using 2 construct_graph_apply [of pl c]
      by (auto simp: bindp_def opens_def split: sum.splits prod.splits)
  qed
qed

section \<open>Rollback\<close>

text \<open>Everything that was opened has been closed, once each, in the order of opening and after the
  workers were stopped; \<open>middle\<close> is what happened in between.\<close>

definition released :: "boot_event list \<Rightarrow> boot \<Rightarrow> bool" where
  "released middle b \<longleftrightarrow>
     (\<exists>k. bt_clients b = take k CLIENTS \<and> bt_events b = map Opened (take k CLIENTS) @ middle @ map Closed (take k CLIENTS)) \<and>
     bt_closed b \<and> bt_intake_worker b \<in> {None, Some STOPPED} \<and> bt_resolver_worker b \<in> {None, Some STOPPED}"

definition rolled_back :: "boot \<Rightarrow> bool" where
  "rolled_back b \<longleftrightarrow> released [] b \<or> released [IntakeStopped, ResolverStopped] b"

definition rollback :: "'f platform \<Rightarrow> (boot, unit) prog" where
  "rollback pl = bindp stop_intake_worker (\<lambda>_. bindp stop_resolver_worker (\<lambda>_. close_all_once pl))"

lemma rollback_opened: "\<exists>b'. rollback pl (opened k) = (Inr (), b') \<and> rolled_back b'"
  by (auto simp: rollback_def bindp_def stop_intake_worker_def stop_resolver_worker_def close_all_once_apply opened_def
      new_boot_def rolled_back_def released_def)

lemma rollback_ready: "\<exists>b'. rollback pl (ready_boot i) = (Inr (), b') \<and> rolled_back b'"
  by (auto simp: rollback_def bindp_def stop_intake_worker_def stop_resolver_worker_def close_all_once_apply opened_def
      new_boot_def rolled_back_def released_def ready_boot_def noted_def intro!: exI [of _ 7])

lemma build_application_alt:
  "build_application pl =
     tryp (construct pl) (\<lambda>_. bindp (rollback pl) (\<lambda>_. bindp (lift_res (pl_create_app pl False)) (\<lambda>_. ret None)))
       (\<lambda>graph. ret (Some graph))"
  by (auto simp: build_application_def rollback_def bindp_def tryp_def fun_eq_iff split: prod.splits sum.splits)

lemma startup_all_or_nothing:
  "case build_application pl new_boot of
     (Inr (Some g), b) \<Rightarrow> built_from pl g \<and> b = ready_boot (gr_intake g) \<and> bt_events b = map Opened CLIENTS
   | (_, b) \<Rightarrow> rolled_back b"
proof -
  obtain r b where c: "construct pl new_boot = (r, b)" by fastforce
  show ?thesis
  proof (cases r)
    case (Inr g)
    with construct_apply [OF c] c show ?thesis
      by (simp add: build_application_def tryp_def ready_boot_def opened_def CLIENTS_def)
  next
    case (Inl e)
    with construct_apply [OF c] have "(\<exists>k. b = opened k) \<or> (\<exists>i. b = ready_boot i)" by auto
    with rollback_opened [of pl] rollback_ready [of pl] obtain b' where b': "rollback pl b = (Inr (), b')" "rolled_back b'"
      by blast
    from c Inl b' show ?thesis
      by (auto simp: build_application_alt tryp_def bindp_def lift_res_def split: sum.splits)
  qed
qed

lemma build_application_raises: "build_application pl new_boot = (Inl e, b) \<Longrightarrow> pl_create_app pl False = Inl e"
proof -
  assume raised: "build_application pl new_boot = (Inl e, b)"
  obtain r b1 where c: "construct pl new_boot = (r, b1)" by fastforce
  with raised obtain x where "r = Inl x" by (cases r) (auto simp: build_application_def tryp_def)
  with construct_apply [OF c] have "(\<exists>k. b1 = opened k) \<or> (\<exists>i. b1 = ready_boot i)" by auto
  with rollback_opened [of pl] rollback_ready [of pl] obtain b' where "rollback pl b1 = (Inr (), b')" by blast
  with raised c \<open>r = Inl x\<close> show ?thesis
    by (auto simp: build_application_alt tryp_def bindp_def lift_res_def split: sum.splits)
qed

text \<open>
  Property C39: the construction is all or nothing. A ready application has the graph that the
  configuration and the state file describe, all seven clients open in order, no worker started and
  nothing closed. In every other case, whatever call failed, every client that had been opened has been
  closed exactly once, in order, no worker is left that could run, and the lifecycle object is spent.
\<close>

theorem startup_is_all_or_nothing:
  "case build_application pl new_boot of
     (Inr (Some g), b) \<Rightarrow> built_from pl g \<and> b = ready_boot (gr_intake g) \<and> bt_events b = map Opened CLIENTS
   | (_, b) \<Rightarrow> rolled_back b"
  by (rule startup_all_or_nothing)

section \<open>The process\<close>

text \<open>Which workers were started: the second only after the first.\<close>

definition started_workers :: "serving \<Rightarrow> boot_event list" where
  "started_workers srv =
     (if \<not> srv_intake_starts srv then [] else if \<not> srv_resolver_starts srv then [IntakeStarted]
      else [IntakeStarted, ResolverStarted])"

definition running_boot :: "boot_event list \<Rightarrow> boundary \<Rightarrow> worker_state \<Rightarrow> worker_state \<Rightarrow> boot" where
  "running_boot started intake st st' =
     \<lparr>bt_clients = CLIENTS, bt_closed = False, bt_intake = Some intake, bt_intake_worker = Some st,
      bt_resolver_worker = Some st', bt_events = map Opened CLIENTS @ started\<rparr>"

lemma ready_boot_running: "ready_boot i = running_boot [] i NOT_STARTED NOT_STARTED"
  by (simp add: ready_boot_def running_boot_def opened_def new_boot_def CLIENTS_def)

lemma start_workers_apply:
  "start_intake_worker starts (running_boot ev i NOT_STARTED st') =
     (if starts then (Inr (), running_boot (ev @ [IntakeStarted]) i RUNNING st')
      else (Inl (RuntimeError ''can't start new thread''), running_boot ev i STOPPED st'))"
  "start_resolver_worker starts (running_boot ev i st NOT_STARTED) =
     (if starts then (Inr (), running_boot (ev @ [ResolverStarted]) i st RUNNING)
      else (Inl (RuntimeError ''can't start new thread''), running_boot ev i st STOPPED))"
  by (simp_all add: start_intake_worker_def start_resolver_worker_def start_worker_def worker_start_def running_boot_def
      noted_def)

lemma lifespan_body_apply:
  "\<exists>r q st st'. lifespan_body srv (ready_boot i) = (r, running_boot (started_workers srv) q st st') \<and>
     (r = Inr () \<longleftrightarrow> srv_intake_starts srv \<and> srv_resolver_starts srv \<and> srv_outcome srv = Inr ())"
proof -
  have set_intake: "(running_boot ev i st st')\<lparr>bt_intake := Some q\<rparr> = running_boot ev q st st'" for ev st st' q
    by (simp add: running_boot_def)
  show ?thesis
    by (auto simp: lifespan_body_def bindp_def lift_res_def ready_boot_running start_workers_apply started_workers_def
        set_intake split: sum.splits)
qed

lemma lifespan_cleanup_apply:
  "\<exists>b. lifespan_cleanup pl (running_boot ev q st st') = (Inr (), b) \<and> bt_clients b = CLIENTS \<and>
     bt_intake b = Some (stop_accepting q) \<and> released (ev @ [IntakeClosed, IntakeStopped, ResolverStopped]) b"
proof -
  have "take 7 CLIENTS = CLIENTS" by (simp add: CLIENTS_def)
  then have "\<exists>k. CLIENTS = take k CLIENTS \<and> map Closed CLIENTS = map Closed (take k CLIENTS) \<and>
      map Opened CLIENTS = map Opened (take k CLIENTS)" by metis
  then show ?thesis
    by (auto simp: lifespan_cleanup_def bindp_def stop_intake_worker_def stop_resolver_worker_def close_all_once_apply
        noted_def running_boot_def released_def)
qed

lemma lifespan_ready:
  "\<exists>r b. lifespan pl srv (ready_boot i) = (r, b) \<and>
     released (started_workers srv @ [IntakeClosed, IntakeStopped, ResolverStopped]) b \<and>
     bt_clients b = CLIENTS \<and> (\<exists>q. bt_intake b = Some q \<and> \<not> bq_accepting q) \<and>
     (r = Inr () \<longleftrightarrow> srv_intake_starts srv \<and> srv_resolver_starts srv \<and> srv_outcome srv = Inr ())"
proof -
  obtain r q st st' where body: "lifespan_body srv (ready_boot i) = (r, running_boot (started_workers srv) q st st')"
    and r: "r = Inr () \<longleftrightarrow> srv_intake_starts srv \<and> srv_resolver_starts srv \<and> srv_outcome srv = Inr ()"
    using lifespan_body_apply [of srv i] by blast
  obtain b where clean: "lifespan_cleanup pl (running_boot (started_workers srv) q st st') = (Inr (), b)"
    and b: "bt_clients b = CLIENTS" "bt_intake b = Some (stop_accepting q)"
      "released (started_workers srv @ [IntakeClosed, IntakeStopped, ResolverStopped]) b"
    using lifespan_cleanup_apply [of pl "started_workers srv" q st st'] by blast
  from body clean have "lifespan pl srv (ready_boot i) = (r, b)" by (simp add: lifespan_def finallyp_def)
  moreover have "\<not> bq_accepting (stop_accepting q)" by (simp add: stop_accepting_def)
  ultimately show ?thesis using b r by blast
qed

text \<open>
  Property C38: the process closes what it opened, whatever fails. When it served, every client is
  closed once, in order, after the intake was closed and both workers were stopped, and it served
  under the host and the port of a valid configuration with a complete graph. When it refused to start,
  or an exception escaped (from reading the configuration file or from making the application that is
  not ready), whatever had been opened was rolled back.
\<close>

theorem process_closes_what_it_opened:
  "case main src pl srv new_boot of
     (Served host port r, b) \<Rightarrow>
       (\<exists>c g. load_runtime_config src = Inr c \<and> host = rtc_host c \<and> port = rtc_port c \<and> 1 \<le> port \<and> port \<le> 65535 \<and>
          built_from pl g) \<and>
       released (started_workers srv @ [IntakeClosed, IntakeStopped, ResolverStopped]) b \<and> bt_clients b = CLIENTS \<and>
       (\<exists>q. bt_intake b = Some q \<and> \<not> bq_accepting q) \<and>
       (r = Inr () \<longleftrightarrow> srv_intake_starts srv \<and> srv_resolver_starts srv \<and> srv_outcome srv = Inr ())
   | (SystemExit code, b) \<Rightarrow> code = 1 \<and> (b = new_boot \<or> rolled_back b)
   | (Escapes e, b) \<Rightarrow>
       (cs_file src (env_get src ''RUNTIME_CONFIG_PATH'' []) = Unreadable e \<and> b = new_boot) \<or>
       (pl_create_app pl False = Inl e \<and> rolled_back b)"
proof (cases "load_runtime_config src")
  case (Inl e)
  with load_runtime_config_Inl [OF Inl] show ?thesis by (cases e) (auto simp: main_def)
next
  case (Inr c)
  then have c: "1 \<le> rtc_port c" "rtc_port c \<le> 65535" by (auto simp: load_runtime_config_Inr config_ok_def)
  obtain x b where b: "build_application pl new_boot = (x, b)" by fastforce
  note built = startup_all_or_nothing [of pl, unfolded b]
  consider e where "x = Inl e" | "x = Inr None" | g where "x = Inr (Some g)" by (cases x) (auto split: option.splits)
  then show ?thesis
  proof cases
    case 1
    have "pl_create_app pl False = Inl e" by (rule build_application_raises [OF b [unfolded 1]])
    with 1 Inr b built show ?thesis by (simp add: main_def)
  next
    case 2
    with Inr b built show ?thesis by (simp add: main_def)
  next
    case 3
    with built have g: "built_from pl g" "b = ready_boot (gr_intake g)" by auto
    obtain r b' where l: "lifespan pl srv b = (r, b')"
      "released (started_workers srv @ [IntakeClosed, IntakeStopped, ResolverStopped]) b'" "bt_clients b' = CLIENTS"
      "\<exists>q. bt_intake b' = Some q \<and> \<not> bq_accepting q"
      "r = Inr () \<longleftrightarrow> srv_intake_starts srv \<and> srv_resolver_starts srv \<and> srv_outcome srv = Inr ()"
      using lifespan_ready [of pl srv "gr_intake g"] unfolding g(2) by blast
    have "main src pl srv new_boot = (Served (rtc_host c) (rtc_port c) r, b')"
      using Inr b 3 l(1) by (simp add: main_def)
    with Inr c g(1) l(2-5) show ?thesis by auto
  qed
qed

section \<open>The application that was started\<close>

lemma replay_lines_inv:
  "replay_lines ft i states ls = Inr states' \<Longrightarrow> memory_inv states \<and> (\<forall>j s. map_of states j = Some s \<longrightarrow> wf_state s) \<Longrightarrow>
     memory_inv states' \<and> (\<forall>j s. map_of states' j = Some s \<longrightarrow> wf_state s)"
proof (induction ls arbitrary: i states)
  case (Cons l ls)
  show ?case
  proof (cases "decode_state_line ft l")
    case (Inl e)
    with Cons.prems show ?thesis by (cases e) (auto split: if_splits)
  next
    case (Inr s)
    then have "wf_state s" using decode_envelope_wf unfolding decode_state_line_Inr by blast
    with Cons.prems(2) have "memory_inv (AList.update (sirs_strategy_instance_id s) s states) \<and>
        (\<forall>j t. map_of (AList.update (sirs_strategy_instance_id s) s states) j = Some t \<longrightarrow> wf_state t)"
      by (auto simp: update_conv' intro: memory_inv_update)
    from Cons.IH [OF _ this, of "i + 1"] Cons.prems(1) Inr show ?thesis by simp
  qed
qed simp

lemma jsonl_init_replay: "jsonl_init ft content disk = Inr r \<Longrightarrow> replay_file ft content = Inr (jr_states r)"
  by (auto simp: jsonl_init_def res_bind_eq_Inr)

lemma jsonl_init_inv:
  assumes "jsonl_init ft content disk = Inr r"
  shows "jsonl_inv r" and "jsonl_states r i = Some s \<Longrightarrow> sirs_strategy_instance_id s = i \<and> wf_state s"
proof -
  from jsonl_init_replay [OF assms] have inv: "memory_inv (jr_states r)" "\<forall>j s. map_of (jr_states r) j = Some s \<longrightarrow> wf_state s"
    using replay_lines_inv [of ft 0 "[]" _ "jr_states r"]
    by (auto simp: replay_file_def memory_inv_def split: option.splits)
  then show "jsonl_inv r" by (simp add: jsonl_inv_def)
  assume "jsonl_states r i = Some s"
  with inv show "sirs_strategy_instance_id s = i \<and> wf_state s"
    by (auto simp: memory_inv_def jsonl_states_def dest: map_of_SomeD)
qed

lemma put_nowait_maxsize: "put_nowait bar b = (r, b') \<Longrightarrow> bq_maxsize b' = bq_maxsize b"
  by (auto simp: put_nowait_def split: if_splits)

lemma new_boundary_queue: "new_boundary n = Inr b \<Longrightarrow> queue_ok b \<and> bq_maxsize b = n"
  by (auto simp: new_boundary_def queue_ok_def boundary_inv_def split: if_splits)

lemma process_runs_maxsize:
  "process_runs V error_text cfg P ops fp s0 s \<Longrightarrow> bq_maxsize (sv_intake s) = bq_maxsize (sv_intake s0)"
proof (induction rule: process_runs.induct)
  case (request s rq x s')
  then show ?case
    using serve_intake [of V cfg P ops fp rq s] by (auto dest: put_nowait_maxsize)
qed (auto simp: get_event_def task_done_def stop_accepting_def split: if_splits list.splits)

definition started_server :: "'f graph \<Rightarrow> 'e \<Rightarrow> (jsonl_repo, 'e) server" where
  "started_server g env = \<lparr>sv_world = \<lparr>w_repo = gr_repository g, w_env = env, w_log = []\<rparr>, sv_intake = gr_intake g\<rparr>"

text \<open>
  Property C37: from the environment and the files to the traces. Whatever configuration, state file and
  failures the start finds, if it yields a ready application and the replayed aggregates are coherent,
  then through any requests, bars, ticks and failing writes the log of the served process is a trace
  of the abstract step relation from the replayed store, and the queue never exceeds the configured capacity.
\<close>

theorem started_process_refines_the_traces:
  assumes "fst (build_application pl new_boot) = Inr (Some g)"
    and "\<forall>s\<in>ran (map_of (jr_states (gr_repository g))). coherent s"
    and "process_runs V error_text (handler_config g) P jsonl_ops fp (started_server g env) s"
  shows "(\<exists>states. replay_file (pl_float_text pl) (pl_state_file pl (rtc_state_path (gr_config g))) = Inr states \<and>
      spec_trace (map_of states) (w_log (sv_world s)) (jsonl_states (w_repo (sv_world s)))) \<and>
    int (length (bq_items (sv_intake s))) \<le> rtc_committed_bar_queue_capacity (gr_config g)"
proof -
  obtain b where "build_application pl new_boot = (Inr (Some g), b)" using assms(1) by (cases "build_application pl new_boot") simp
  with startup_all_or_nothing [of pl] have built: "built_from pl g" by simp
  then have init: "jsonl_init (pl_float_text pl) (pl_state_file pl (rtc_state_path (gr_config g))) (pl_disk pl) = Inr (gr_repository g)"
    and intake: "new_boundary (rtc_committed_bar_queue_capacity (gr_config g)) = Inr (gr_intake g)"
    by (auto simp: built_from_def)
  have inv: "jsonl_inv (gr_repository g)" by (rule jsonl_init_inv [OF init])
  have good: "good (jsonl_states (gr_repository g))"
    using jsonl_init_inv(2) [OF init] assms(2) by (auto simp: good_def jsonl_states_def ran_def)
  from new_boundary_queue [OF intake]
  have queue: "queue_ok (gr_intake g)" "bq_maxsize (gr_intake g) = rtc_committed_bar_queue_capacity (gr_config g)" by auto
  have "spec_trace (jsonl_states (gr_repository g)) (w_log (sv_world s)) (jsonl_states (w_repo (sv_world s)))"
    using state_repository.runs_permitted [OF jsonl.state_repository_axioms process_runs_runs [OF assms(3)]] inv good
    by (simp add: started_server_def)
  moreover have "replay_file (pl_float_text pl) (pl_state_file pl (rtc_state_path (gr_config g))) = Inr (jr_states (gr_repository g))"
    by (rule jsonl_init_replay [OF init])
  moreover have "queue_ok (sv_intake s)" using process_runs_queue [OF assms(3)] queue(1) by (simp add: started_server_def)
  moreover have "bq_maxsize (sv_intake s) = rtc_committed_bar_queue_capacity (gr_config g)"
    using process_runs_maxsize [OF assms(3)] queue(2) by (simp add: started_server_def)
  ultimately show ?thesis by (auto simp: jsonl_states_def queue_ok_def boundary_inv_def)
qed

definition ex_path_status :: path_status where
  "ex_path_status =
     \<lparr>pst_mkdir = Inr (), pst_exists = Inr False, pst_is_file = Inr True, pst_open = Inr (), pst_is_dir = Inr True,
      pst_iterdir = Inr ()\<rparr>"

definition ex_platform :: "int platform" where
  "ex_platform =
     \<lparr>pl_sources = ex_sources, pl_path = (\<lambda>_. ex_path_status), pl_state_file = (\<lambda>_. Some (file_of [ex_flat])), pl_disk = [],
      pl_float_text = (\<lambda>t. t), pl_finite = (\<lambda>_. True), pl_positive = (\<lambda>x. 0 < x), pl_url = (\<lambda>_. Inr (''http'', ''host'')),
      pl_open = (\<lambda>_. Inr ()), pl_close = (\<lambda>_. Inr ()), pl_create_app = (\<lambda>_. Inr ())\<rparr>"

definition ex_graph :: "int graph" where
  "ex_graph =
     \<lparr>gr_config = ex_runtime_config, gr_freezer = \<lparr>fff_order_lifetime_bars = Some 3\<rparr>,
      gr_repository = \<lparr>jr_states = [(''i'', canonical_spec ex_flat)], jr_poison = False, jr_file = Some (file_of [ex_flat]), jr_disk = []\<rparr>,
      gr_intake = \<lparr>bq_maxsize = 100, bq_items = [], bq_unfinished_tasks = 0, bq_accepting = True\<rparr>\<rparr>"

lemma ex_replayed: "replay_file (\<lambda>t. t) (Some (file_of [ex_flat])) = Inr [(''i'', canonical_spec ex_flat)]"
  using replay_file_stored [of "\<lambda>t. t" "[ex_flat]" "[]"] ex_storable(1)
  by (simp add: store_all_def ex_flat_id utf8_encode_def)

lemma ex_platform_builds: "fst (build_application ex_platform new_boot) = Inr (Some ex_graph)"
proof -
  have "jsonl_init (\<lambda>t. t) (Some (file_of [ex_flat])) [] = Inr (gr_repository ex_graph)"
    by (simp add: jsonl_init_def ex_replayed ex_graph_def)
  then show ?thesis
    by (simp add: build_application_def construct_def construct_clients_def construct_graph_def tryp_def bindp_def
        lift_res_def add_client_def ex_platform_def ex_config_loads prepare_journal_path_def prepare_state_path_def
        prepare_file_def prepare_specs_path_def ex_path_status_def build_client_def build_httpx_client_def
        ex_runtime_config_def new_FirstFillFreezer_def new_entry_orchestrator_def new_boundary_def)
      (simp add: ex_graph_def ex_runtime_config_def)
qed

lemma ex_graph_coherent: "\<forall>s\<in>ran (map_of (jr_states (gr_repository ex_graph))). coherent s"
  by (simp add: ex_graph_def coherent_def ex_flat_def)

theorem started_process_refines_the_traces_witness:
  "let w = handle (\<lambda>_. []) (handler_config ex_graph) (exchange True) jsonl_ops (CloseRequested ''i'')
             (sv_world (started_server ex_graph True)) in
   spec_trace (map_of [(''i'', canonical_spec ex_flat)]) (w_log w) (jsonl_states (w_repo w))"
proof -
  let ?V = "\<lparr>vl_str = \<lambda>_. None, vl_int = \<lambda>_. None, vl_bool = \<lambda>_. None, vl_lax_int = \<lambda>_. None\<rparr>"
  let ?fp = "\<lambda>strategy_id raw_spec e. (Inl AssertionError, e)"
  obtain x s where served: "serve ?V (production_app (handler_config ex_graph) (exchange True) jsonl_ops ?fp)
      (ClosePosition ''i'') (started_server ex_graph True) = (x, s)" by fastforce
  from started_process_refines_the_traces [OF ex_platform_builds ex_graph_coherent process_runs.request [OF process_runs.start served]]
  have "spec_trace (map_of [(''i'', canonical_spec ex_flat)]) (w_log (sv_world s)) (jsonl_states (w_repo (sv_world s)))"
    by (simp add: ex_platform_def ex_replayed)
  moreover have "sv_world s = handle (\<lambda>_. []) (handler_config ex_graph) (exchange True) jsonl_ops (CloseRequested ''i'')
      (sv_world (started_server ex_graph True))"
    using served operator_state(2) [where error_text = "\<lambda>_. []" and cfg = "handler_config ex_graph" and P = "exchange True"
        and ops = jsonl_ops and fp = ?fp and i = "''i''" and s = "started_server ex_graph True"]
    by simp
  ultimately show ?thesis by simp
qed

end
