(* ===== verification/Spec2Isabelle.thy ===== *)
theory Spec2Isabelle
  imports Footprints Store_Properties Component_Properties Http_Ports Catalog_Properties Http_Properties
    Resolver_Worker Processing_Journal Bootstrap
begin

text \<open>
  A verification development of \<open>strategy_runtime\<close>, the service that runs trading strategies: for every
  closed price bar it decides, per deployed strategy instance, what its entry order or its open
  position should look like, asks the execution service (ABI) to make it so, and keeps a durable record
  of what it asked for and what was confirmed. The sources are under \<open>src/src/strategy_runtime\<close>; the
  paths below are relative to it.

  \<^bold>\<open>The program and its model.\<close>

  Pure code is translated to functions over records and datatypes with the source's names. A class
  with a \<open>__post_init__\<close> is a record with a function \<open>new_X\<close> that makes the same checks;
  \<open>dataclasses.replace\<close> is a record update followed by \<open>new_X\<close>. Raised exceptions are values of
  \<open>exn\<close>. Code with effects is a function on a world of three parts (\<open>World\<close>): the repository, the
  environment that answers every port, and the log of effects. The environment is arbitrary: any answer
  and any failure of the exchange, the engine, the files and the disk is covered.

  \<^item> \<open>Prelude\<close>, \<open>Decimal_Text\<close> (\<open>shared/decimal_text.py\<close>), \<open>Timeframe\<close> (\<open>runtime/timeframe.py\<close>,
    \<open>entry_order_lifetime.py\<close>, \<open>first_fill/alignment.py\<close>), \<open>Json_Values\<close>: shared vocabulary, exact decimals,
    bar arithmetic.
  \<^item> \<open>State_Models\<close> (\<open>runtime/state/models.py\<close>, \<open>runtime/recipes\<close>), \<open>State_Repository\<close>
    (\<open>runtime/state/repository.py\<close>): the aggregate of one instance and the contract of its repository as
    the locale \<open>state_repository\<close>, interpreted by the in-memory repository here and by the durable one in
    \<open>Jsonl_Repository\<close>.
  \<^item> \<open>First_Fill\<close>, \<open>Entry_Reconciliation\<close>, \<open>Position_Management\<close>, \<open>Abi_Models\<close>, \<open>Deployments\<close>: decisions,
    commands, confirmations and the values at the ports.
  \<^item> \<open>Lifecycle\<close>: the abstract life cycle of an aggregate. \<open>World\<close>: effects, ports, and the abstract step
    relation \<open>spec_step\<close> on stores that says which effect may happen when. \<open>World_Rules\<close>: its Hoare rules.
  \<^item> \<open>Entry_Orchestrator\<close>, \<open>Runtime_Orchestrator\<close>, \<open>Uncertain_Resolver\<close>, \<open>Operator_Control\<close>,
    \<open>Committed_Bar\<close>, \<open>Trading_State\<close>: the handlers (\<open>runtime/orchestrator\<close>, \<open>runtime/entry_*\<close>,
    \<open>runtime/uncertain_exchange_state_resolver\<close>, \<open>runtime/operator_commands\<close>, \<open>runtime/enabled_control\<close>,
    \<open>runtime/strategy_delete\<close>, \<open>utility/committed_bar\<close>, \<open>runtime/trading_state\<close>), every branch of them.
  \<^item> \<open>Committed_Bar_Intake\<close>, \<open>Keyed_Mutex\<close>: the bounded intake queue with its worker, and the mutex per
    instance, as step relations over interleaved threads.
  \<^item> \<open>System\<close>: all entry points in one relation \<open>runs\<close>. \<open>Footprints\<close>: which effects an entry point can have.
    \<open>Examples\<close>: concrete runs used by the witnesses.
  \<^item> \<open>Utf8\<close>, \<open>Json_Text\<close>, \<open>State_Codec\<close>, \<open>Jsonl_Repository\<close>: the bytes of the state file
    (\<open>infrastructure/runtime_state\<close>), its codec, replay and failing writes.
  \<^item> \<open>Wire_Json\<close>, \<open>Entry_Package_Wire\<close>, \<open>Abi_Wire\<close>, \<open>Engine_Wire\<close> (\<open>runtime/abi\<close>, \<open>infrastructure/abi\<close>,
    \<open>infrastructure/strategy_engine\<close>): strict JSON, closed objects, the request and response codecs of the
    execution service and of the engine, and the clients over an arbitrary transport. \<open>Http_Ports\<close> puts them
    behind the ports of the handlers.
  \<^item> \<open>Json_Pretty\<close>, \<open>Catalog_Disk\<close>, \<open>Catalog_Files\<close>, \<open>Catalog_Changes\<close> (\<open>utility/deployment_catalog\<close>): the
    catalog directory with its system calls, their failures and the interference of other processes, the
    scan, the identity of a deployment, the enabled writer and the trash mover. \<open>Catalog_Lemmas\<close> and
    \<open>Catalog_Rules\<close> hold the facts about what is read and the frame rules of the calls.
  \<^item> \<open>Chart_Layers\<close> (\<open>runtime/chart_layers\<close>), \<open>Http_App\<close> (\<open>adapters/http\<close>), \<open>Server\<close>: the chart layers of a
    strategy, the request and response models with every handler and status of the HTTP interface, and
    the served process as a relation over requests, bars, ticks and outside changes.
  \<^item> \<open>Resolver_Worker\<close> (\<open>runtime/uncertain_exchange_state_resolver/worker.py\<close>): the polling thread and its
    stop as a step relation. \<open>Processing_Journal\<close> (\<open>utility/processing_journal\<close>): the events, the adapter's
    methods and its append-only file.
  \<^item> \<open>Configuration\<close> (\<open>config\<close>), \<open>Bootstrap\<close> (\<open>bootstrap\<close>): the loader, the construction of the application with
    its rollback, the life span and the entry point.

  \<^bold>\<open>What is proved.\<close>

  The main theorem is a refinement: every run of the handlers is a trace of \<open>spec_step\<close>
  (\<open>runs_refine_permitted_traces\<close>), for any repository that keeps the contract. The safety properties of
  this theory are read off that trace: orders leave only under a saved recovery marker, management calls
  concern settled cycles, saves follow the life cycle, journals and deletions follow the store.
  \<open>Store_Properties\<close> shows that the durable repository keeps the contract and what a torn write does to it;
  \<open>Component_Properties\<close> holds the decisions, bounds and concurrency of single components.
  \<open>Http_Ports\<close> shows that the clients keep the contract the handlers rely on, fail closed, decode every
  documented answer and never confuse two cycles in a path. \<open>Catalog_Properties\<close> shows that a scan accounts
  for every file, that the identity is the meaning of a deployment, and that changes of files are exact
  or leave them alone. \<open>Http_Properties\<close> shows that the process behind its HTTP interface refines the same
  traces, what a success tells the operator, and that every request is answered. \<open>Resolver_Worker\<close> shows
  that a stop ends the thread, \<open>Processing_Journal\<close> that the journal reads back what was persisted, and
  \<open>Configuration\<close> and \<open>Bootstrap\<close> that a start yields a complete application over a valid configuration or
  releases what it opened, and that the started process refines the traces from the replayed file.

  \<^bold>\<open>Bounds and parameters.\<close>

  A Python \<open>str\<close> is a list of the code points below 256. The JSON parser takes fuel twice the length of
  its input plus one, and \<open>json_loads_iff\<close> shows that any fuel that succeeds gives the same value; the
  interpreter's limits on recursion depth and on the digits of an integer are not modelled. The
  parameter \<open>ft\<close> is the interpreter's conversion of floats, \<open>error_text\<close> its rendering of exceptions. A
  handler that holds the mutex of its instance is one uninterrupted program; \<open>Keyed_Mutex\<close> shows that
  the sections of one instance exclude each other. Texts interpolated into messages are dropped.

  \<^bold>\<open>Not modelled.\<close>

  The web framework's routing and body decoding, \<open>httpx\<close>, the TOML parser, random identifiers, the clock,
  the digest and the file system's own code are parameters. Log messages are left out, and so are
  constructors that only keep their arguments, checks of types that hold by typing here, and the
  cancellation of asynchronous tasks.
\<close>

section \<open>Definitions used in the statements\<close>

text \<open>The instance and the trade cycle a management call is about.\<close>

fun managed :: "effect \<Rightarrow> (string \<times> string) option" where
  "managed (PositionLookup q) = Some (oplr_strategy_instance_id q, oplr_trade_cycle_id q)"
| "managed (ProtectionPut c) = Some (apc_strategy_instance_id c, apc_trade_cycle_id c)"
| "managed (RemainderCancelPut i cid) = Some (i, cid)"
| "managed x = None"

section \<open>Runs of the whole program\<close>

lemma ex_world_fields: "w_repo (ex_world r b) = r" "w_env (ex_world r b) = b" "w_log (ex_world r b) = []"
  by (simp_all add: ex_world_def)

lemma ex_request_fields:
  "epr_strategy_instance_id ex_request = ''i''" "epr_trade_cycle_id ex_request = ''c''"
  "epr_desired_entry ex_request \<noteq> None"
  by (simp_all add: ex_request_def)

lemma ex_started:
  assumes "memory_inv r" and "good (map_of r)"
  shows "state_repository memory_ops map_of memory_inv" "memory_inv (w_repo (ex_world r b))"
    "good (map_of (w_repo (ex_world r b)))" "w_log (ex_world r b) = []"
    "runs error_text ex_config P memory_ops (ex_world r b) (handle error_text ex_config P memory_ops event (ex_world r b))"
  using assms by (auto simp: ex_world_def intro: memory.state_repository_axioms runs.start runs.event)

text \<open>
  Property C1: the program refines its permitted traces. From any valid store, through any sequence
  of bars, fills, resolver ticks and operator commands, with any answers and failures of the
  exchange, the engine, the files and the disk, the log is a trace of the abstract step relation
  from the initial store to the present one, and every stored aggregate is valid.
\<close>

theorem runs_refine_permitted_traces:
  assumes "state_repository ops states valid" and "valid (w_repo w0)" and "good (states (w_repo w0))"
    and "w_log w0 = []" and "runs error_text cfg P ops w0 w"
  shows "spec_trace (states (w_repo w0)) (w_log w) (states (w_repo w)) \<and> good (states (w_repo w)) \<and>
    states (w_repo w) = replay (states (w_repo w0)) (w_log w)"
  using state_repository.runs_permitted [OF assms(1,5,2-4)] spec_trace_replay by metis

theorem runs_refine_permitted_traces_witness:
  "good (map_of (w_repo (handle (\<lambda>e. '''') ex_config (exchange True) memory_ops (BarCommitted ex_bar) (ex_world [] False))))"
  using runs_refine_permitted_traces [OF ex_started [OF ex_memory_inv(1) ex_good(1)]] by blast

text \<open>
  Property C2: an entry package with a desired entry goes to the exchange only while the store holds
  the recovery marker of exactly that trade cycle and no cycle; a removal only under that marker or
  for the current cycle of an instance without a marker. The ticker and the risk multiplier are the
  registered ones.
\<close>

theorem entry_package_sent_only_under_marker:
  assumes "state_repository ops states valid" and "valid (w_repo w0)" and "good (states (w_repo w0))"
    and "w_log w0 = []" and "runs error_text cfg P ops w0 w"
    and "w_log w = l @ EntryPackagePut r # l'"
  shows "\<exists>s. replay (states (w_repo w0)) l (epr_strategy_instance_id r) = Some s \<and>
    epr_ticker r = rss_instrument (sirs_registered_spec_snapshot s) \<and>
    epr_risk_multiplier r = sirs_risk_multiplier s \<and>
    (if epr_desired_entry r \<noteq> None
     then entry_marked s (epr_trade_cycle_id r) \<and> sirs_current_trade_cycle s = None
     else entry_marked s (epr_trade_cycle_id r) \<or> (no_recovery s \<and> has_cycle s (epr_trade_cycle_id r)))"
  using state_repository.runs_effect_about [OF assms(1,5,2-4,6) about.simps(1)] by (metis allowed.simps(1))

theorem entry_package_sent_only_under_marker_witness:
  "\<exists>s. replay (map_of []) [Journal (JOrchestrationStarted ex_bar), Saved ex_flat,
        LiveEntryProjected \<lparr>lpr_strategy_id = ''s'', lpr_raw_spec = [], lpr_ticker = ''BTC'',
          lpr_base_timeframe = ''1m'', lpr_target_bar_open_time_ms = 120000\<rparr>,
        Journal (JLiveEntryEvaluated ''i'' ''BTC'' ''1m'' 120000 (Some ex_entry)), Saved ex_marked] ''i'' = Some s \<and>
     entry_marked s ''c'' \<and> sirs_current_trade_cycle s = None"
proof -
  note start = ex_started [OF ex_memory_inv(1) ex_good(1)]
  have log: "w_log (handle (\<lambda>e. '''') ex_config (exchange True) memory_ops (BarCommitted ex_bar) (ex_world [] False)) =
      [Journal (JOrchestrationStarted ex_bar), Saved ex_flat,
        LiveEntryProjected \<lparr>lpr_strategy_id = ''s'', lpr_raw_spec = [], lpr_ticker = ''BTC'',
          lpr_base_timeframe = ''1m'', lpr_target_bar_open_time_ms = 120000\<rparr>,
        Journal (JLiveEntryEvaluated ''i'' ''BTC'' ''1m'' 120000 (Some ex_entry)), Saved ex_marked] @
      EntryPackagePut ex_request # drop 6 (w_log (handle (\<lambda>e. '''') ex_config (exchange True) memory_ops
        (BarCommitted ex_bar) (ex_world [] False)))"
    by (simp add: ex_bar_run)
  show ?thesis
    using entry_package_sent_only_under_marker [OF start log] ex_request_fields(3)
    unfolding ex_world_fields ex_request_fields(1,2) by (metis (full_types))
qed

text \<open>
  Property C3: a close order goes to the exchange only while the store holds the close marker of that
  trade cycle, and that cycle is the current one and has a frozen entry.
\<close>

theorem close_sent_only_under_marker:
  assumes "state_repository ops states valid" and "valid (w_repo w0)" and "good (states (w_repo w0))"
    and "w_log w0 = []" and "runs error_text cfg P ops w0 w"
    and "w_log w = l @ ClosePut k # l'"
  shows "\<exists>s. replay (states (w_repo w0)) l (cpc_strategy_instance_id k) = Some s \<and>
    close_marked s (cpc_trade_cycle_id k) \<and> frozen_cycle s (cpc_trade_cycle_id k)"
  using state_repository.runs_effect_about [OF assms(1,5,2-4,6) about.simps(5)] by auto

theorem close_sent_only_under_marker_witness:
  "\<exists>s. replay (map_of [(''i'', ex_filled)])
         [PositionLookup \<lparr>oplr_strategy_instance_id = ''i'', oplr_trade_cycle_id = ''c''\<rparr>,
          EnabledWrite ''i'' False, Saved ex_closing] ''i'' = Some s \<and> close_marked s ''c'' \<and> frozen_cycle s ''c''"
proof -
  note start = ex_started [OF ex_memory_inv(5) ex_good(5)]
  have log: "w_log (handle (\<lambda>e. '''') ex_config (exchange True) memory_ops (CloseRequested ''i'')
      (ex_world [(''i'', ex_filled)] True)) =
    [PositionLookup \<lparr>oplr_strategy_instance_id = ''i'', oplr_trade_cycle_id = ''c''\<rparr>,
     EnabledWrite ''i'' False, Saved ex_closing] @
    ClosePut \<lparr>cpc_strategy_instance_id = ''i'', cpc_trade_cycle_id = ''c'', cpc_exposure_fraction = ''1''\<rparr> # [Saved ex_flat]"
    by (simp add: ex_close_run)
  show ?thesis
    using close_sent_only_under_marker [OF start log] unfolding ex_world_fields ClosePositionCommand.simps .
qed

text \<open>
  Property C4: position lookups, protection orders and remainder cancels are sent only for the
  current trade cycle of an instance whose store has no recovery marker, and the last two only once
  its entry is frozen.
\<close>

theorem management_calls_only_when_settled:
  assumes "state_repository ops states valid" and "valid (w_repo w0)" and "good (states (w_repo w0))"
    and "w_log w0 = []" and "runs error_text cfg P ops w0 w"
    and "w_log w = l @ x # l'" and "managed x = Some (i, cid)"
  shows "\<exists>s. replay (states (w_repo w0)) l i = Some s \<and> no_recovery s \<and> has_cycle s cid \<and>
    ((\<forall>q. x \<noteq> PositionLookup q) \<longrightarrow> frozen_cycle s cid)"
proof -
  have "about x = Some i" using assms(7) by (cases x) auto
  from state_repository.runs_effect_about [OF assms(1,5,2-4,6) this] obtain s where
    s: "replay (states (w_repo w0)) l i = Some s" "allowed s x" by blast
  have "frozen_cycle s cid \<Longrightarrow> has_cycle s cid"
    by (auto simp: frozen_cycle_def has_cycle_def split: option.splits)
  with s assms(7) show ?thesis by (cases x) auto
qed

theorem management_calls_only_when_settled_witness:
  "\<exists>s. replay (map_of [(''i'', ex_filled)]) [] ''i'' = Some s \<and> no_recovery s \<and> has_cycle s ''c''"
proof -
  note start = ex_started [OF ex_memory_inv(5) ex_good(5)]
  have log: "w_log (handle (\<lambda>e. '''') ex_config (exchange True) memory_ops (CloseRequested ''i'')
      (ex_world [(''i'', ex_filled)] True)) =
    [] @ PositionLookup \<lparr>oplr_strategy_instance_id = ''i'', oplr_trade_cycle_id = ''c''\<rparr> #
     tl (w_log (handle (\<lambda>e. '''') ex_config (exchange True) memory_ops (CloseRequested ''i'')
      (ex_world [(''i'', ex_filled)] True)))"
    by (simp add: ex_close_run)
  show ?thesis
    using management_calls_only_when_settled [OF start log, of "''i''" "''c''"] unfolding ex_world_fields
    by (metis managed.simps(1) OpenPositionLookupRequest.select_convs)
qed

text \<open>
  Property C5: a save is one step of the life of the aggregate it replaces. It keeps the identity,
  the registered specification and the risk multiplier; while a cycle with a frozen entry stays, its
  applied package and its frozen context stay; and a cycle under a new identity appears only where
  none was, under the entry marker of that identity.
\<close>

theorem saves_follow_the_life_cycle:
  assumes "state_repository ops states valid" and "valid (w_repo w0)" and "good (states (w_repo w0))"
    and "w_log w0 = []" and "runs error_text cfg P ops w0 w"
    and "w_log w = l @ Saved s' # l'" and "replay (states (w_repo w0)) l (sirs_strategy_instance_id s') = Some s"
  shows "sirs_strategy_id s' = sirs_strategy_id s \<and>
    sirs_registered_spec_snapshot s' = sirs_registered_spec_snapshot s \<and>
    sirs_risk_multiplier s' = sirs_risk_multiplier s \<and>
    (\<forall>c c'. sirs_current_trade_cycle s = Some c \<and> sirs_current_trade_cycle s' = Some c' \<and>
        ctc_frozen_entry_context c \<noteq> None \<longrightarrow>
        ctc_frozen_entry_context c' = ctc_frozen_entry_context c \<and>
        ctc_trade_cycle_id c' = ctc_trade_cycle_id c \<and>
        ctc_applied_entry_package c' = ctc_applied_entry_package c) \<and>
    (\<forall>c'. sirs_current_trade_cycle s' = Some c' \<and> \<not> has_cycle s (ctc_trade_cycle_id c') \<longrightarrow>
        sirs_current_trade_cycle s = None \<and> entry_marked s (ctc_trade_cycle_id c'))"
proof -
  from state_repository.runs_effect(2) [OF assms(1,5,2-4,6)] assms(7) have step: "lifecycle_step s s'"
    by (cases rule: spec_step.cases) (auto simp: permitted_def)
  note kept = lifecycle_step_identity(2-4) [OF step]
  have "ctc_frozen_entry_context c' = ctc_frozen_entry_context c \<and> ctc_trade_cycle_id c' = ctc_trade_cycle_id c \<and>
      ctc_applied_entry_package c' = ctc_applied_entry_package c"
    if "sirs_current_trade_cycle s = Some c" "sirs_current_trade_cycle s' = Some c'" "ctc_frozen_entry_context c \<noteq> None"
    for c c'
    using lifecycle_step_frozen_once [OF step that(1) _ that(2)] that(3) by auto
  moreover have "sirs_current_trade_cycle s = None \<and> entry_marked s (ctc_trade_cycle_id c')"
    if "sirs_current_trade_cycle s' = Some c'" "\<not> has_cycle s (ctc_trade_cycle_id c')" for c'
    using lifecycle_step_new_cycle [OF step that(1)] that(2)
    by (cases "sirs_current_trade_cycle s") (auto simp: has_cycle_def entry_marked_def)
  ultimately show ?thesis using kept by blast
qed

theorem saves_follow_the_life_cycle_witness:
  "sirs_registered_spec_snapshot ex_filled = sirs_registered_spec_snapshot ex_pending \<and>
   sirs_risk_multiplier ex_filled = sirs_risk_multiplier ex_pending"
proof -
  note start = ex_started [OF ex_memory_inv(4) ex_good(4)]
  have log: "w_log (handle (\<lambda>e. '''') ex_config (exchange True) memory_ops
      (FirstFillReported \<lparr>ffe_strategy_instance_id = ''i'', ffe_trade_cycle_id = ''c'', ffe_first_fill_at_ms = 61000\<rparr>)
      (ex_world [(''i'', ex_pending)] True)) = [] @ Saved ex_filled # []"
    by (simp add: ex_fill_run)
  have id: "sirs_strategy_instance_id ex_filled = ''i''"
    by (simp add: ex_filled_def frozen_with_def ex_pending_def ex_flat_def)
  have old: "replay (map_of (w_repo (ex_world [(''i'', ex_pending)] True))) [] (sirs_strategy_instance_id ex_filled)
      = Some ex_pending"
    by (simp add: ex_world_def id)
  show ?thesis using saves_follow_the_life_cycle [OF start log old] by blast
qed

text \<open>
  Property C6: the trading journal follows the store. An opened trade is recorded only when the store
  holds that first fill; a closed trade and an ended entry cycle only when the store no longer has
  that cycle.
\<close>

theorem journal_follows_the_store:
  assumes "state_repository ops states valid" and "valid (w_repo w0)" and "good (states (w_repo w0))"
    and "w_log w0 = []" and "runs error_text cfg P ops w0 w"
    and "w_log w = l @ Journal rec # l'"
  shows "(\<forall>i cid bar t price link oid. rec = JTradeCycleOpened i cid bar t price link oid \<longrightarrow>
        (\<exists>s. replay (states (w_repo w0)) l i = Some s \<and> filled_at s cid t)) \<and>
    (\<forall>closure bar. rec = JTradeCycleClosed closure bar \<longrightarrow>
        (\<exists>s. replay (states (w_repo w0)) l (tcc_strategy_instance_id closure) = Some s \<and>
             \<not> has_cycle s (tcc_trade_cycle_id closure))) \<and>
    (\<forall>i cid bar reason. rec = JEntryCycleEnded i cid bar reason \<longrightarrow>
        reason \<in> ENTRY_CYCLE_END_REASONS \<and>
        (\<exists>s. replay (states (w_repo w0)) l i = Some s \<and> \<not> has_cycle s cid))"
  using state_repository.runs_effect_about [OF assms(1,5,2-4,6)] by (cases rec) auto

theorem journal_follows_the_store_witness:
  "\<exists>s. replay (map_of [(''i'', ex_marked)])
         [RecoveryQuery ''i'' ''c'', EntryPackagePut ex_cancel, Saved ex_flat] ''i'' = Some s \<and> \<not> has_cycle s ''c''"
proof -
  note start = ex_started [OF ex_memory_inv(3) ex_good(3)]
  have log: "w_log (handle (\<lambda>e. '''') ex_config (exchange True) memory_ops ResolverTick
      (ex_world [(''i'', ex_marked)] False)) =
    [RecoveryQuery ''i'' ''c'', EntryPackagePut ex_cancel, Saved ex_flat] @
    Journal (JEntryCycleEnded ''i'' ''c'' None ''exact_absent'') # []"
    by (simp add: ex_tick_run)
  show ?thesis
    using journal_follows_the_store [OF start log] unfolding ex_world_fields by blast
qed

text \<open>
  Property C7: the file of an instance is moved to the trash only when the store has no aggregate for
  it, or one without a trade cycle and without a recovery marker.
\<close>

theorem trashed_only_when_settled:
  assumes "state_repository ops states valid" and "valid (w_repo w0)" and "good (states (w_repo w0))"
    and "w_log w0 = []" and "runs error_text cfg P ops w0 w"
    and "w_log w = l @ TrashMove i # l'" and "replay (states (w_repo w0)) l i = Some s"
  shows "sirs_current_trade_cycle s = None \<and> no_recovery s"
  using spec_step_permitted [OF state_repository.runs_effect(2) [OF assms(1,5,2-4,6)]] assms(7)
  by (auto simp: permitted_def)

theorem trashed_only_when_settled_witness: "sirs_current_trade_cycle ex_flat = None \<and> no_recovery ex_flat"
proof -
  note start = ex_started [OF ex_memory_inv(2) ex_good(2)]
  have log: "w_log (handle (\<lambda>e. '''') ex_config (exchange False) memory_ops (DeleteRequested ''i'')
      (ex_world [(''i'', ex_flat)] False)) = [] @ TrashMove ''i'' # []"
    by (simp add: ex_delete_run)
  have old: "replay (map_of (w_repo (ex_world [(''i'', ex_flat)] False))) [] ''i'' = Some ex_flat"
    by (simp add: ex_world_def)
  show ?thesis using trashed_only_when_settled [OF start log old] .
qed

text \<open>
  Property C8: every entry point has a fixed footprint. Only a bar can send a desired entry or a
  protection order; a fill event only saves; the resolver and the operator can send removals but never
  a new entry; only the operator's commands write the enabled flag, and only of their own instance;
  listing has no effect at all.
\<close>

theorem events_keep_their_footprint:
  "\<exists>l. w_log (handle error_text cfg P ops event w) = w_log w @ l \<and> (\<forall>x \<in> set l. footprint event x)"
  by (rule handle_footprint)

theorem events_keep_their_footprint_witness:
  "\<exists>l. w_log (handle (\<lambda>e. '''') ex_config (exchange True) memory_ops ResolverTick
       (ex_world [(''i'', ex_marked)] False)) = l \<and> list_all (footprint ResolverTick) l"
  using events_keep_their_footprint [of "\<lambda>e. ''''" ex_config "exchange True" memory_ops ResolverTick
      "ex_world [(''i'', ex_marked)] False"]
  by (simp add: list_all_iff ex_world_def)


text \<open>
  Property C10: instances are isolated. A fill event or an operator command about one instance, and
  the strategy cycle of one instance on a bar, leave the stored aggregates of all others unchanged.
\<close>

theorem instances_are_isolated:
  assumes "state_repository ops states valid" and "valid (w_repo w0)" and "good (states (w_repo w0))"
    and "w_log w0 = []" and "runs error_text cfg P ops w0 w" and "j \<noteq> i"
  shows "(addressee event = Some i \<longrightarrow>
      states (w_repo (handle error_text cfg P ops event w)) j = states (w_repo w) j) \<and>
    (unit_strategy_instance_id unit = i \<longrightarrow>
      states (w_repo (snd (process cfg P ops unit w))) j = states (w_repo w) j)"
proof -
  note c = state_repository.runs_consistent [OF assms(1,5) state_repository.consistent_start [OF assms(1-4)]]
  show ?thesis
    using state_repository.handle_isolated [OF assms(1) c _ assms(6)]
      state_repository.dispatch_isolated [OF assms(1) c, of j unit] assms(6) by blast
qed

theorem instances_are_isolated_witness:
  "map_of (w_repo (handle (\<lambda>e. '''') ex_config (exchange True) memory_ops (CloseRequested ''other'')
     (ex_world [(''i'', ex_filled)] True))) ''i'' = Some ex_filled"
  using instances_are_isolated [OF ex_started(1-4) [OF ex_memory_inv(5) ex_good(5)] runs.start, of "''i''" "''other''"
      "CloseRequested ''other''" "\<lambda>e. ''''" ex_config "exchange True" True]
  by (simp add: ex_world_fields)

text \<open>
  A recovery marker blocks the bar. While the stored aggregate has one, the strategy
  cycle makes no call, writes no record and changes no aggregate; it returns the aggregate as it is, or
  raises the repository's refusal.
\<close>

theorem pending_recovery_blocks_the_bar:
  assumes "state_repository ops states valid" and "valid (w_repo w)"
    and "states (w_repo w) (unit_strategy_instance_id unit) = Some s" and "\<not> no_recovery s"
  shows "w_log (snd (process cfg P ops unit w)) = w_log w \<and> w_env (snd (process cfg P ops unit w)) = w_env w \<and>
    states (w_repo (snd (process cfg P ops unit w))) = states (w_repo w) \<and>
    (\<forall>y. fst (process cfg P ops unit w) = Inr y \<longrightarrow> y = s)"
  using state_repository.process_recovering [OF assms, of cfg P]
  by (cases "process cfg P ops unit w") (auto simp: state_repository.process_recovering [OF assms])

text \<open>
  Property C11: once the catalog is read, a committed bar always returns a result. It has exactly one
  outcome for every selected deployment, in the order of the identities, whatever the strategy cycles
  raise; the counts agree with the outcomes.
\<close>

theorem committed_bar_outcomes:
  assumes "load_snapshot P (w\<lparr>w_log := w_log w @ [Journal (JOrchestrationStarted bar)]\<rparr>) = (Inr snapshot, w1)"
  shows "\<exists>result w'. process_bar error_text P disp bar w = (Inr result, w') \<and>
     map out_strategy_instance_id (cbr_outcomes result) =
       sort (map ds_strategy_instance_id (filter (bar_matches bar) (dcs_accepted_deployments snapshot))) \<and>
     cbr_selected_count result = int (length (cbr_outcomes result)) \<and>
     cbr_attempted_count result = int (length (cbr_outcomes result)) \<and>
     cbr_succeeded_count result = int (length (filter (\<lambda>x. out_status x = SUCCEEDED) (cbr_outcomes result))) \<and>
     cbr_failed_count result = int (length (filter (\<lambda>x. out_status x = FAILED) (cbr_outcomes result)))"
  by (rule process_bar_loaded [OF assms])

theorem committed_bar_outcomes_witness:
  "\<exists>result w'. process_bar (\<lambda>e. '''') (exchange True) (\<lambda>unit. raise AssertionError) ex_bar (ex_world [] True) = (Inr result, w') \<and>
     map out_strategy_instance_id (cbr_outcomes result) = [''i'']"
proof -
  have loaded: "load_snapshot (exchange True)
      (ex_world [] True\<lparr>w_log := w_log (ex_world [] True) @ [Journal (JOrchestrationStarted ex_bar)]\<rparr>) =
      (Inr (ex_catalog True), ex_world [] True\<lparr>w_log := [Journal (JOrchestrationStarted ex_bar)]\<rparr>)"
    by (simp add: load_snapshot_def new_catalog_answer_def ex_catalog_def ex_world_def ex_deployment_def constructors flow)
  show ?thesis
    using committed_bar_outcomes [OF loaded, of "\<lambda>e. ''''" "\<lambda>unit. raise AssertionError"]
    by (auto simp: ex_catalog_def bar_matches_def ex_deployment_def ex_bar_def)
qed

text \<open>
  Over a repository that answers its reads, the resolver's tick always returns, whatever
  the exchange answers or fails to answer and whatever single attempts raise.
\<close>

theorem resolver_tick_returns:
  assumes "available_repository ops states valid" and "valid (w_repo w)"
  shows "\<exists>w'. tick cfg P ops w = (Inr (), w')"
  by (rule available_repository.tick_returns [OF assms])

text \<open>
  The trading-state view only reads. It changes neither the store nor the log, and what
  it returns is, for every accepted deployment in catalog order, the description of the stored
  aggregate.
\<close>

theorem trading_state_view_reads:
  assumes "state_repository ops states valid" and "valid (w_repo w)" and "list_trading_states P ops w = (x, w')"
  shows "w_repo w' = w_repo w \<and> w_log w' = w_log w \<and>
    (\<forall>items. x = Inr items \<longrightarrow> (\<exists>snapshot w1. load_snapshot P w = (Inr snapshot, w1) \<and>
       items = map (\<lambda>d. describe (ds_strategy_instance_id d) (states (w_repo w) (ds_strategy_instance_id d)))
                 (dcs_accepted_deployments snapshot)))"
  by (rule state_repository.list_trading_states_reads [OF assms])

end
